(* ===== verification/Prelude.thy ===== *)
theory Prelude
  imports Main "HOL-Library.AList" "HOL-Library.Char_ord" "HOL-Library.List_Lexorder"
begin

text \<open>
  What the component theories share: the types that stand for Go's built-in ones, the part of the
  Go standard library the sources call (strings, strconv), Go maps as association lists, SQL tables
  as lists of rows with a key, the interface \<open>table\<close> that every persistent table of the
  program implements, and the interface \<open>invariant_system\<close> through which a step invariant is
  lifted to the reachable states of a component.
\<close>

section \<open>Types and automation\<close>

text \<open>
  A Go \<^verbatim>\<open>time.Time\<close> or \<^verbatim>\<open>time.Duration\<close> is a number of nanoseconds (for a time: since
  the Unix epoch). A Go \<^verbatim>\<open>map[string]string\<close> is an association list whose keys are kept
  distinct by \<open>AList.update\<close>; the nil map and the empty map are the same list, which no
  reader of these maps distinguishes. Strings are lists of bytes.
\<close>

type_synonym gotime = int
type_synonym gomap = "(string \<times> string) list"

named_theorems go_simps \<open>equations of the Go standard library's functions\<close>
named_theorems tbl_simps \<open>lookup equations of tables\<close>
named_theorems frame_simps \<open>what an operation leaves unchanged\<close>

abbreviation second :: gotime where "second \<equiv> 1000000000"
abbreviation minute :: gotime where "minute \<equiv> 60 * second"
abbreviation hour :: gotime where "hour \<equiv> 60 * minute"

section \<open>Go strings\<close>

definition hasPrefix :: "string \<Rightarrow> string \<Rightarrow> bool" where
  "hasPrefix s p \<longleftrightarrow> take (length p) s = p"

definition hasSuffix :: "string \<Rightarrow> string \<Rightarrow> bool" where
  "hasSuffix s p \<longleftrightarrow> length p \<le> length s \<and> drop (length s - length p) s = p"

definition trimPrefix :: "string \<Rightarrow> string \<Rightarrow> string" where
  "trimPrefix s p = (if hasPrefix s p then drop (length p) s else s)"

fun containsStr :: "string \<Rightarrow> string \<Rightarrow> bool" where
  "containsStr [] p = (p = [])"
| "containsStr (c # cs) p = (hasPrefix (c # cs) p \<or> containsStr cs p)"

text \<open>\<^verbatim>\<open>strings.Split\<close> on a one-byte separator: never empty.\<close>

fun splitOn :: "char \<Rightarrow> string \<Rightarrow> string list" where
  "splitOn c [] = [[]]"
| "splitOn c (x # xs) =
     (if x = c then [] # splitOn c xs
      else (case splitOn c xs of [] \<Rightarrow> [[x]] | w # ws \<Rightarrow> (x # w) # ws))"

definition isSpace :: "char \<Rightarrow> bool" where
  "isSpace c \<longleftrightarrow> of_char c \<in> {9, 10, 11, 12, 13, 32 :: nat}"

definition trimLeftP :: "(char \<Rightarrow> bool) \<Rightarrow> string \<Rightarrow> string" where
  "trimLeftP p s = dropWhile p s"

definition trimRightP :: "(char \<Rightarrow> bool) \<Rightarrow> string \<Rightarrow> string" where
  "trimRightP p s = rev (dropWhile p (rev s))"

definition trimSpace :: "string \<Rightarrow> string" where
  "trimSpace s = trimRightP isSpace (trimLeftP isSpace s)"

definition toLowerChar :: "char \<Rightarrow> char" where
  "toLowerChar c =
     (let n = (of_char c :: nat) in if 65 \<le> n \<and> n \<le> 90 then char_of (n + 32) else c)"

definition toLower :: "string \<Rightarrow> string" where
  "toLower s = map toLowerChar s"

text \<open>Decimal and hexadecimal printing of a natural number (\<^verbatim>\<open>%d\<close>, \<^verbatim>\<open>%x\<close>).\<close>

definition digitChar :: "nat \<Rightarrow> char" where
  "digitChar n = (if n < 10 then char_of (48 + n) else char_of (87 + n))"

fun baseDigits :: "nat \<Rightarrow> nat \<Rightarrow> string" where
  "baseDigits b n = (if b < 2 \<or> n < b then [digitChar n] else baseDigits b (n div b) @ [digitChar (n mod b)])"

declare baseDigits.simps [simp del]

definition itoa :: "int \<Rightarrow> string" where
  "itoa i = (if i < 0 then ''-'' @ baseDigits 10 (nat (- i)) else baseDigits 10 (nat i))"

definition hexOf :: "nat \<Rightarrow> string" where
  "hexOf n = baseDigits 16 n"

lemma hasPrefix_append [simp]: "hasPrefix (p @ s) p"
  by (simp add: hasPrefix_def)

lemma trimPrefix_append [simp]: "trimPrefix (p @ s) p = s"
  by (simp add: trimPrefix_def)

lemma find_only:
  assumes "x \<in> set xs" "P x" "\<And>y. y \<in> set xs \<Longrightarrow> P y \<Longrightarrow> y = x"
  shows "find P xs = Some x"
proof (cases "find P xs")
  case None
  then show ?thesis
    using assms(1,2) by (simp add: find_None_iff)
next
  case (Some y)
  then have "y \<in> set xs" "P y"
    by (auto simp: find_Some_iff)
  then show ?thesis
    using Some assms(3) by simp
qed

lemma splitOn_not_Nil [simp]: "splitOn c s \<noteq> []"
  by (induction s) (auto split: list.splits)

lemma splitOn_no_sep: "c \<notin> set s \<Longrightarrow> splitOn c s = [s]"
  by (induction s) auto

lemma splitOn_append_sep: "c \<notin> set s \<Longrightarrow> splitOn c (s @ c # t) = s # splitOn c t"
  by (induction s) auto

lemma baseDigits_not_Nil [simp]: "baseDigits b n \<noteq> []"
  by (subst baseDigits.simps) simp

section \<open>Go maps\<close>

text \<open>Reading a missing key of a Go map gives the zero value, here the empty string.\<close>

definition mget :: "gomap \<Rightarrow> string \<Rightarrow> string" where
  "mget m k = (case map_of m k of None \<Rightarrow> [] | Some v \<Rightarrow> v)"

lemma mget_update [simp]: "mget (AList.update k v m) k' = (if k' = k then v else mget m k')"
  by (simp add: mget_def update_conv')

lemma mget_Nil [simp]: "mget [] k = []"
  by (simp add: mget_def)

lemma mget_Cons [simp]: "mget ((k, v) # m) k' = (if k' = k then v else mget m k')"
  by (simp add: mget_def)

lemma map_of_mget: "mget m k \<noteq> [] \<Longrightarrow> map_of m k = Some (mget m k)"
  by (auto simp: mget_def split: option.splits)

section \<open>Tables\<close>

text \<open>
  A SQL table with a primary key or a UNIQUE constraint is a list of rows, in insertion order,
  whose keys are distinct. The four statements the program uses on such a table are a lookup by
  key, an INSERT, an UPDATE of the row with a key and a DELETE by key.
\<close>

definition tbl_get :: "('r \<Rightarrow> 'k) \<Rightarrow> 'r list \<Rightarrow> 'k \<Rightarrow> 'r option" where
  "tbl_get key rows k = find (\<lambda>r. key r = k) rows"

definition tbl_ins :: "'r \<Rightarrow> 'r list \<Rightarrow> 'r list" where
  "tbl_ins r rows = rows @ [r]"

definition tbl_upd :: "('r \<Rightarrow> 'k) \<Rightarrow> 'k \<Rightarrow> ('r \<Rightarrow> 'r) \<Rightarrow> 'r list \<Rightarrow> 'r list" where
  "tbl_upd key k f rows = map (\<lambda>r. if key r = k then f r else r) rows"

definition tbl_del :: "('r \<Rightarrow> 'k) \<Rightarrow> 'k \<Rightarrow> 'r list \<Rightarrow> 'r list" where
  "tbl_del key k rows = filter (\<lambda>r. key r \<noteq> k) rows"

definition tbl_wf :: "('r \<Rightarrow> 'k) \<Rightarrow> 'r list \<Rightarrow> bool" where
  "tbl_wf key rows \<longleftrightarrow> distinct (map key rows)"

text \<open>The interface: what a client of a table may rely on.\<close>

locale table =
  fixes get :: "'t \<Rightarrow> 'k \<Rightarrow> 'r option"
    and ins :: "'r \<Rightarrow> 't \<Rightarrow> 't"
    and upd :: "'k \<Rightarrow> ('r \<Rightarrow> 'r) \<Rightarrow> 't \<Rightarrow> 't"
    and del :: "'k \<Rightarrow> 't \<Rightarrow> 't"
    and key :: "'r \<Rightarrow> 'k"
    and wf :: "'t \<Rightarrow> bool"
  assumes get_ins: "get t (key r) = None \<Longrightarrow>
      get (ins r t) k = (if k = key r then Some r else get t k)"
    and get_upd: "(\<And>r. key (f r) = key r) \<Longrightarrow>
      get (upd k f t) k' = (if k' = k then map_option f (get t k) else get t k')"
    and get_del: "get (del k t) k' = (if k' = k then None else get t k')"
    and key_get: "get t k = Some r \<Longrightarrow> key r = k"
    and wf_ins: "wf t \<Longrightarrow> get t (key r) = None \<Longrightarrow> wf (ins r t)"
    and wf_upd: "wf t \<Longrightarrow> (\<And>r. key (f r) = key r) \<Longrightarrow> wf (upd k f t)"
    and wf_del: "wf t \<Longrightarrow> wf (del k t)"
begin

lemma get_ins_same: "get t (key r) = None \<Longrightarrow> get (ins r t) (key r) = Some r"
  by (simp add: get_ins)

lemma get_upd_same: "(\<And>r. key (f r) = key r) \<Longrightarrow> get t k = Some r \<Longrightarrow> get (upd k f t) k = Some (f r)"
  by (simp add: get_upd)

lemma del_ins_get: "get t (key r) = None \<Longrightarrow> get (del (key r) (ins r t)) k = get t k"
  by (auto simp: get_del get_ins)

lemma upsert_get:
  "(\<And>x. key (f x) = key x) \<Longrightarrow> key r = k \<Longrightarrow>
   get (case get t k of None \<Rightarrow> ins r t | Some _ \<Rightarrow> upd k f t) k' =
     (if k' = k then Some (case get t k of None \<Rightarrow> r | Some x \<Rightarrow> f x) else get t k')"
  by (auto simp: get_ins get_upd split: option.splits)

lemma upsert_wf:
  "wf t \<Longrightarrow> (\<And>x. key (f x) = key x) \<Longrightarrow> key r = k \<Longrightarrow>
   wf (case get t k of None \<Rightarrow> ins r t | Some _ \<Rightarrow> upd k f t)"
  by (auto simp: wf_ins wf_upd split: option.splits)

end

lemma find_append: "find P (xs @ ys) = (case find P xs of None \<Rightarrow> find P ys | Some x \<Rightarrow> Some x)"
  by (induction xs) auto

lemma tbl_get_code [simp]:
  "tbl_get key [] k = None"
  "tbl_get key (r # rows) k = (if key r = k then Some r else tbl_get key rows k)"
  by (simp_all add: tbl_get_def)

lemma tbl_get_key: "tbl_get key rows k = Some r \<Longrightarrow> key r = k"
  by (auto simp: tbl_get_def find_Some_iff)

lemma tbl_get_mem: "tbl_get key rows k = Some r \<Longrightarrow> r \<in> set rows"
  by (auto simp: tbl_get_def find_Some_iff)

lemma tbl_get_None: "tbl_get key rows k = None \<longleftrightarrow> (\<forall>r\<in>set rows. key r \<noteq> k)"
  by (auto simp: tbl_get_def find_None_iff)

lemma tbl_get_Some: "tbl_wf key rows \<Longrightarrow> tbl_get key rows k = Some r \<longleftrightarrow> r \<in> set rows \<and> key r = k"
proof (induction rows)
  case Nil
  then show ?case by (simp add: tbl_get_def)
next
  case (Cons a rows)
  then show ?case by (force simp: tbl_get_def tbl_wf_def)
qed

lemma tbl_get_ins [tbl_simps]:
  "tbl_get key rows (key r) = None \<Longrightarrow>
   tbl_get key (tbl_ins r rows) k = (if k = key r then Some r else tbl_get key rows k)"
  by (auto simp: tbl_get_def tbl_ins_def find_append split: option.splits)

lemma tbl_get_upd [tbl_simps]:
  assumes "\<And>r. key (f r) = key r"
  shows "tbl_get key (tbl_upd key k f rows) k' =
    (if k' = k then map_option f (tbl_get key rows k) else tbl_get key rows k')"
  using assms by (induction rows) (auto simp: tbl_get_def tbl_upd_def)

lemma tbl_get_del [tbl_simps]:
  "tbl_get key (tbl_del key k rows) k' = (if k' = k then None else tbl_get key rows k')"
  by (induction rows) (auto simp: tbl_get_def tbl_del_def)

lemma tbl_wf_Nil [simp]: "tbl_wf key []"
  by (simp add: tbl_wf_def)

lemma tbl_wf_ins: "tbl_wf key rows \<Longrightarrow> tbl_get key rows (key r) = None \<Longrightarrow> tbl_wf key (tbl_ins r rows)"
  by (auto simp: tbl_wf_def tbl_ins_def tbl_get_None)

lemma tbl_upd_keys: "(\<And>r. key (f r) = key r) \<Longrightarrow> map key (tbl_upd key k f rows) = map key rows"
  by (simp add: tbl_upd_def)

lemma tbl_wf_upd: "tbl_wf key rows \<Longrightarrow> (\<And>r. key (f r) = key r) \<Longrightarrow> tbl_wf key (tbl_upd key k f rows)"
  by (simp add: tbl_wf_def tbl_upd_keys)

lemma tbl_wf_filter: "tbl_wf key rows \<Longrightarrow> tbl_wf key (filter P rows)"
  by (simp add: tbl_wf_def distinct_map_filter)

lemma tbl_wf_del: "tbl_wf key rows \<Longrightarrow> tbl_wf key (tbl_del key k rows)"
  by (simp add: tbl_del_def tbl_wf_filter)

lemma tbl_upd_mem:
  "r \<in> set (tbl_upd key k f rows) \<Longrightarrow> r \<in> set rows \<or> (\<exists>r0\<in>set rows. key r0 = k \<and> r = f r0)"
  by (auto simp: tbl_upd_def split: if_splits)

lemma tbl_get_filter:
  "tbl_wf key rows \<Longrightarrow> tbl_get key (filter P rows) k =
     (case tbl_get key rows k of None \<Rightarrow> None | Some r \<Rightarrow> if P r then Some r else None)"
proof (induction rows)
  case (Cons a rows)
  then have "tbl_wf key rows" and "tbl_get key rows (key a) = None"
    by (auto simp: tbl_wf_def tbl_get_None image_iff)
  then show ?case
    using Cons.IH by (auto split: option.splits)
qed simp

lemmas tbl_table = tbl_get_ins tbl_get_upd tbl_get_del tbl_get_key tbl_wf_ins tbl_wf_upd tbl_wf_del

section \<open>Step systems and their invariants\<close>

inductive reach :: "('s \<Rightarrow> bool) \<Rightarrow> ('s \<Rightarrow> 's \<Rightarrow> bool) \<Rightarrow> 's \<Rightarrow> bool" for init step where
  reach_init: "init s \<Longrightarrow> reach init step s"
| reach_step: "reach init step s \<Longrightarrow> step s t \<Longrightarrow> reach init step t"

locale invariant_system =
  fixes init :: "'s \<Rightarrow> bool"
    and step :: "'s \<Rightarrow> 's \<Rightarrow> bool"
    and inv :: "'s \<Rightarrow> bool"
  assumes init_inv: "init s \<Longrightarrow> inv s"
    and step_inv: "inv s \<Longrightarrow> step s t \<Longrightarrow> inv t"
begin

lemma reach_inv: "reach init step s \<Longrightarrow> inv s"
  by (induction rule: reach.induct) (auto intro: init_inv step_inv)

lemma steps_inv: "step\<^sup>*\<^sup>* s t \<Longrightarrow> inv s \<Longrightarrow> inv t"
  by (induction rule: rtranclp_induct) (auto intro: step_inv)

end

text \<open>
  Refinement: every step of the detailed system is matched by steps of the abstract one, so every run
  is, and what the abstract steps preserve holds along the detailed runs.
\<close>

locale simulation =
  fixes step :: "'s \<Rightarrow> 's \<Rightarrow> bool"
    and astep :: "'a \<Rightarrow> 'a \<Rightarrow> bool"
    and abs :: "'s \<Rightarrow> 'a"
  assumes sim: "step s t \<Longrightarrow> astep\<^sup>*\<^sup>* (abs s) (abs t)"
begin

lemma runs: "step\<^sup>*\<^sup>* s t \<Longrightarrow> astep\<^sup>*\<^sup>* (abs s) (abs t)"
  by (induction rule: rtranclp_induct) (auto dest: sim intro: rtranclp_trans)

lemma transfer:
  assumes "step\<^sup>*\<^sup>* s t" "P (abs s)" "\<And>a b. P a \<Longrightarrow> astep a b \<Longrightarrow> P b"
  shows "P (abs t)"
  using runs [OF assms(1)] assms(2) by (induction rule: rtranclp_induct) (auto intro: assms(3))

end

end
