(* ===== verification/Json.thy ===== *)
theory Json
  imports Prelude
begin

text \<open>
  JSON values and the part of \<^verbatim>\<open>encoding/json\<close> the program relies on. A struct is encoded field by
  field; \<open>jobj\<close> drops the fields an \<^verbatim>\<open>omitempty\<close> tag omits. Decoding into a zero struct
  reads each field by its key and leaves the zero value when the key is missing, null or of another
  JSON type, as \<^verbatim>\<open>json.Unmarshal\<close> does. A time is a value of its own (its RFC 3339 text is not
  modelled), and a number is an integer: no struct of the store has another kind of number.
\<close>

datatype json =
    JNull
  | JBool bool
  | JNum int
  | JStr string
  | JTime gotime
  | JArr "json list"
  | JObj "(string \<times> json) list"

named_theorems json_simps \<open>decoding equations\<close>

section \<open>Encoding\<close>

fun jfields :: "(string \<times> json option) list \<Rightarrow> (string \<times> json) list" where
  "jfields [] = []"
| "jfields ((k, None) # fs) = jfields fs"
| "jfields ((k, Some v) # fs) = (k, v) # jfields fs"

definition jobj :: "(string \<times> json option) list \<Rightarrow> json" where
  "jobj fs = JObj (jfields fs)"

text \<open>The encoders of a field: without and with \<^verbatim>\<open>omitempty\<close>.\<close>

definition eStr :: "string \<Rightarrow> json option" where "eStr s = Some (JStr s)"
definition oStr :: "string \<Rightarrow> json option" where "oStr s = (if s = [] then None else Some (JStr s))"
definition eInt :: "int \<Rightarrow> json option" where "eInt i = Some (JNum i)"
definition oInt :: "int \<Rightarrow> json option" where "oInt i = (if i = 0 then None else Some (JNum i))"
definition eBool :: "bool \<Rightarrow> json option" where "eBool b = Some (JBool b)"
definition eTime :: "gotime \<Rightarrow> json option" where "eTime t = Some (JTime t)"
definition oTime :: "gotime option \<Rightarrow> json option" where "oTime t = map_option JTime t"
definition oList :: "('a \<Rightarrow> json) \<Rightarrow> 'a list \<Rightarrow> json option" where
  "oList f xs = (if xs = [] then None else Some (JArr (map f xs)))"
definition eObj :: "json \<Rightarrow> json option" where "eObj j = Some j"
definition oPtr :: "('a \<Rightarrow> json) \<Rightarrow> 'a option \<Rightarrow> json option" where "oPtr f p = map_option f p"
definition oMap :: "gomap \<Rightarrow> json option" where
  "oMap m = (if m = [] then None else Some (JObj (map (\<lambda>(k, v). (k, JStr v)) m)))"

section \<open>Decoding\<close>

fun jget :: "string \<Rightarrow> json \<Rightarrow> json option" where
  "jget k (JObj fs) = map_of fs k"
| "jget k _ = None"

fun vStr :: "json \<Rightarrow> string" where
  "vStr (JStr s) = s"
| "vStr _ = []"

fun vList :: "(json \<Rightarrow> 'a) \<Rightarrow> json \<Rightarrow> 'a list" where
  "vList f (JArr xs) = map f xs"
| "vList f _ = []"

fun vMap :: "json \<Rightarrow> gomap" where
  "vMap (JObj fs) = map (\<lambda>(k, v). (k, vStr v)) fs"
| "vMap _ = []"

text \<open>The zero \<^verbatim>\<open>time.Time\<close> is January 1 of year 1.\<close>

definition zeroTime :: gotime where
  "zeroTime = - 62135596800 * second"

text \<open>The decoder of a field, given what the object has under its key.\<close>

fun rStr :: "json option \<Rightarrow> string" where
  "rStr (Some v) = vStr v"
| "rStr None = []"

fun rInt :: "json option \<Rightarrow> int" where
  "rInt (Some (JNum i)) = i"
| "rInt _ = 0"

fun rBool :: "json option \<Rightarrow> bool" where
  "rBool (Some (JBool b)) = b"
| "rBool _ = False"

fun rTime :: "json option \<Rightarrow> gotime" where
  "rTime (Some (JTime t)) = t"
| "rTime _ = zeroTime"

fun rTimePtr :: "json option \<Rightarrow> gotime option" where
  "rTimePtr (Some (JTime t)) = Some t"
| "rTimePtr _ = None"

fun rList :: "(json \<Rightarrow> 'a) \<Rightarrow> json option \<Rightarrow> 'a list" where
  "rList f (Some v) = vList f v"
| "rList f None = []"

fun rMap :: "json option \<Rightarrow> gomap" where
  "rMap (Some v) = vMap v"
| "rMap None = []"

fun rObj :: "(json \<Rightarrow> 'a) \<Rightarrow> json option \<Rightarrow> 'a" where
  "rObj f (Some v) = f v"
| "rObj f None = f JNull"

definition rPtr :: "(json \<Rightarrow> 'a) \<Rightarrow> json option \<Rightarrow> 'a option" where
  "rPtr f v = (case v of Some x \<Rightarrow> if x = JNull then None else Some (f x) | None \<Rightarrow> None)"

definition "dStr k j = rStr (jget k j)"
definition "dInt k j = rInt (jget k j)"
definition "dBool k j = rBool (jget k j)"
definition "dTime k j = rTime (jget k j)"
definition "dTimePtr k j = rTimePtr (jget k j)"
definition "dList f k j = rList f (jget k j)"
definition "dMap k j = rMap (jget k j)"
definition "dObj f k j = rObj f (jget k j)"
definition "dPtr f k j = rPtr f (jget k j)"

declare dStr_def [json_simps] dInt_def [json_simps] dBool_def [json_simps] dTime_def [json_simps]
  dTimePtr_def [json_simps] dList_def [json_simps] dMap_def [json_simps] dObj_def [json_simps]
  dPtr_def [json_simps]

text \<open>The type checks \<^verbatim>\<open>json.Unmarshal\<close> makes on a field: a missing key and null are accepted everywhere.\<close>

fun isStr :: "json \<Rightarrow> bool" where "isStr (JStr _) = True" | "isStr _ = False"
fun isNum :: "json \<Rightarrow> bool" where "isNum (JNum _) = True" | "isNum _ = False"
fun isBool :: "json \<Rightarrow> bool" where "isBool (JBool _) = True" | "isBool _ = False"
fun isTime :: "json \<Rightarrow> bool" where "isTime (JTime _) = True" | "isTime _ = False"
fun isObj :: "json \<Rightarrow> bool" where "isObj (JObj _) = True" | "isObj _ = False"
fun isArr :: "(json \<Rightarrow> bool) \<Rightarrow> json \<Rightarrow> bool" where "isArr p (JArr xs) = list_all p xs" | "isArr p _ = False"

definition orNull :: "(json \<Rightarrow> bool) \<Rightarrow> json \<Rightarrow> bool" where
  "orNull p j \<longleftrightarrow> j = JNull \<or> p j"

definition fieldOk :: "(json \<Rightarrow> bool) \<Rightarrow> string \<Rightarrow> json \<Rightarrow> bool" where
  "fieldOk p k j = (case jget k j of None \<Rightarrow> True | Some v \<Rightarrow> orNull p v)"

section \<open>Decoding what was encoded\<close>

lemma jget_jobj_Nil [json_simps]: "jget k (jobj []) = None"
  by (simp add: jobj_def)

definition orElse :: "'a option \<Rightarrow> 'a option \<Rightarrow> 'a option" where
  "orElse v w = (case v of Some x \<Rightarrow> Some x | None \<Rightarrow> w)"

lemma orElse_None [json_simps]: "orElse v None = v"
  by (simp add: orElse_def split: option.splits)

lemma jget_jobj_Cons [json_simps]:
  "jget k (jobj ((n, v) # fs)) = (if k = n then orElse v (jget k (jobj fs)) else jget k (jobj fs))"
  by (cases v) (auto simp: jobj_def orElse_def)

lemma jobj_not_Null [simp]: "jobj fs \<noteq> JNull"
  by (simp add: jobj_def)

text \<open>Each decoder reads back what the matching encoder wrote.\<close>

lemma rStr_enc [json_simps]: "rStr (eStr s) = s" "rStr (oStr s) = s"
  by (simp_all add: eStr_def oStr_def)

lemma rInt_enc [json_simps]: "rInt (eInt i) = i" "rInt (oInt i) = i"
  by (simp_all add: eInt_def oInt_def)

lemma rBool_enc [json_simps]: "rBool (eBool b) = b"
  by (simp add: eBool_def)

lemma rTime_enc [json_simps]: "rTime (eTime t) = t" "rTimePtr (oTime p) = p"
  by (cases p; simp add: eTime_def oTime_def)+

lemma rList_enc [json_simps]:
  "(\<And>x. x \<in> set xs \<Longrightarrow> g (f x) = x) \<Longrightarrow> rList g (oList f xs) = xs"
  by (auto simp: oList_def map_idI)

lemma vMap_enc: "vMap (JObj (map (\<lambda>(k, v). (k, JStr v)) m)) = m"
  by (induction m) auto

lemma rMap_enc [json_simps]: "rMap (oMap m) = m"
  by (auto simp: oMap_def vMap_enc simp del: vMap.simps(1))

lemma rObj_enc [json_simps]: "g (f x) = x \<Longrightarrow> rObj g (eObj (f x)) = x"
  by (simp add: eObj_def)

lemma rPtr_enc [json_simps]:
  "(\<And>x. f x \<noteq> JNull) \<Longrightarrow> (\<And>x. g (f x) = x) \<Longrightarrow> rPtr g (oPtr f p) = p"
  by (cases p) (auto simp: rPtr_def oPtr_def)

end
