(* ===== verification/Store_Types.thy ===== *)
theory Store_Types
  imports Json
begin

text \<open>
  The resource types of \<^verbatim>\<open>internal/state/store.go\<close>: one record per struct, with the struct's fields in
  the source's order under a short prefix, its JSON encoding (the field tags) and decoding, and the
  round trip of the two. A Go slice, nil or empty, is a list, a pointer an option, and a string enum
  a string with its constants as abbreviations. Go's \<^verbatim>\<open>int\<close> and \<^verbatim>\<open>int64\<close> are \<open>int\<close>: none of these
  fields is computed with near the 64-bit bound.
\<close>

section \<open>Metadata\<close>

text \<open>\<^verbatim>\<open>Metadata\<close>: identity and bookkeeping of every resource.\<close>

record metadata =
  md_name :: string
  md_uid :: string
  md_resourceVersion :: int
  md_createdAt :: gotime
  md_updatedAt :: gotime
  md_deletionTimestamp :: "gotime option"
  md_finalizers :: "string list"
  md_labels :: gomap
  md_annotations :: gomap

section \<open>Enumerations\<close>

abbreviation "TenantForming \<equiv> ''forming''"
abbreviation "TenantShrinking \<equiv> ''shrinking''"
abbreviation "TenantActive \<equiv> ''active''"
abbreviation "TenantRemoving \<equiv> ''removing''"

abbreviation "StageInitializing \<equiv> ''initializing''"
abbreviation "StageInstalling \<equiv> ''installing''"
abbreviation "StageConfiguring \<equiv> ''configuring''"
abbreviation "StageReady \<equiv> ''ready''"
abbreviation "StageRestarting \<equiv> ''restarting''"
abbreviation "StageStopping \<equiv> ''stopping''"
abbreviation "StageOff \<equiv> ''off''"
abbreviation "StageUpdating \<equiv> ''updating''"
abbreviation "StageRemoving \<equiv> ''removing''"

abbreviation "MutationCreate \<equiv> ''create''"
abbreviation "MutationSpec \<equiv> ''spec''"
abbreviation "MutationStatus \<equiv> ''status''"
abbreviation "MutationDelete \<equiv> ''delete''"

abbreviation "tenantLabel \<equiv> ''rezuscloud.io/tenant''"
abbreviation "roleLabel \<equiv> ''rezuscloud.io/role''"

section \<open>Specs and statuses\<close>

text \<open>\<^verbatim>\<open>PluginSpec\<close>\<close>

record plugin_spec =
  pl_type :: string
  pl_version :: string
  pl_values :: string

definition enc_plugin_spec :: "plugin_spec \<Rightarrow> json" where
  "enc_plugin_spec x = jobj [
    (''type'', eStr (pl_type x)),
    (''version'', oStr (pl_version x)),
    (''values'', oStr (pl_values x))]"

definition dec_plugin_spec :: "json \<Rightarrow> plugin_spec" where
  "dec_plugin_spec j = \<lparr>
    pl_type = dStr ''type'' j,
    pl_version = dStr ''version'' j,
    pl_values = dStr ''values'' j\<rparr>"

lemma dec_enc_plugin_spec [json_simps]:
  "enc_plugin_spec x \<noteq> JNull \<and> dec_plugin_spec (enc_plugin_spec x) = x"
  by (cases x) (simp add: enc_plugin_spec_def dec_plugin_spec_def json_simps)

text \<open>\<^verbatim>\<open>TenantPlugins\<close>\<close>

record tenant_plugins =
  tp_cni :: "plugin_spec option"
  tp_csi :: "plugin_spec option"

definition enc_tenant_plugins :: "tenant_plugins \<Rightarrow> json" where
  "enc_tenant_plugins x = jobj [
    (''cni'', oPtr enc_plugin_spec (tp_cni x)),
    (''csi'', oPtr enc_plugin_spec (tp_csi x))]"

definition dec_tenant_plugins :: "json \<Rightarrow> tenant_plugins" where
  "dec_tenant_plugins j = \<lparr>
    tp_cni = dPtr dec_plugin_spec ''cni'' j,
    tp_csi = dPtr dec_plugin_spec ''csi'' j\<rparr>"

lemma dec_enc_tenant_plugins [json_simps]:
  "enc_tenant_plugins x \<noteq> JNull \<and> dec_tenant_plugins (enc_tenant_plugins x) = x"
  by (cases x) (simp add: enc_tenant_plugins_def dec_tenant_plugins_def json_simps)

text \<open>\<^verbatim>\<open>ConfigPatchRef\<close>\<close>

record config_patch_ref =
  cpr_name :: string

definition enc_config_patch_ref :: "config_patch_ref \<Rightarrow> json" where
  "enc_config_patch_ref x = jobj [
    (''name'', eStr (cpr_name x))]"

definition dec_config_patch_ref :: "json \<Rightarrow> config_patch_ref" where
  "dec_config_patch_ref j = \<lparr>
    cpr_name = dStr ''name'' j\<rparr>"

lemma dec_enc_config_patch_ref [json_simps]:
  "enc_config_patch_ref x \<noteq> JNull \<and> dec_config_patch_ref (enc_config_patch_ref x) = x"
  by (cases x) (simp add: enc_config_patch_ref_def dec_config_patch_ref_def json_simps)

text \<open>\<^verbatim>\<open>NodeGroupSpec\<close>\<close>

record node_group_spec =
  ng_name :: string
  ng_role :: string
  ng_count :: int
  ng_providerClass :: string
  ng_providerConfig :: "json option"
  ng_talosVersion :: string
  ng_configPatches :: "config_patch_ref list"

definition enc_node_group_spec :: "node_group_spec \<Rightarrow> json" where
  "enc_node_group_spec x = jobj [
    (''name'', eStr (ng_name x)),
    (''role'', eStr (ng_role x)),
    (''count'', eInt (ng_count x)),
    (''providerClass'', oStr (ng_providerClass x)),
    (''providerConfig'', ng_providerConfig x),
    (''talosVersion'', oStr (ng_talosVersion x)),
    (''configPatches'', oList enc_config_patch_ref (ng_configPatches x))]"

definition dec_node_group_spec :: "json \<Rightarrow> node_group_spec" where
  "dec_node_group_spec j = \<lparr>
    ng_name = dStr ''name'' j,
    ng_role = dStr ''role'' j,
    ng_count = dInt ''count'' j,
    ng_providerClass = dStr ''providerClass'' j,
    ng_providerConfig = jget ''providerConfig'' j,
    ng_talosVersion = dStr ''talosVersion'' j,
    ng_configPatches = dList dec_config_patch_ref ''configPatches'' j\<rparr>"

lemma dec_enc_node_group_spec [json_simps]:
  "enc_node_group_spec x \<noteq> JNull \<and> dec_node_group_spec (enc_node_group_spec x) = x"
  by (cases x) (simp add: enc_node_group_spec_def dec_node_group_spec_def json_simps)

text \<open>\<^verbatim>\<open>TenantSpec\<close>\<close>

record tenant_spec =
  ts_kubernetesVersion :: string
  ts_talosVersion :: string
  ts_controlPlaneEndpoint :: string
  ts_podNetwork :: "string list"
  ts_serviceNetwork :: "string list"
  ts_plugins :: "tenant_plugins option"
  ts_nodeGroups :: "node_group_spec list"
  ts_configPatches :: "config_patch_ref list"

definition enc_tenant_spec :: "tenant_spec \<Rightarrow> json" where
  "enc_tenant_spec x = jobj [
    (''kubernetesVersion'', eStr (ts_kubernetesVersion x)),
    (''talosVersion'', oStr (ts_talosVersion x)),
    (''controlPlaneEndpoint'', oStr (ts_controlPlaneEndpoint x)),
    (''podNetwork'', oList JStr (ts_podNetwork x)),
    (''serviceNetwork'', oList JStr (ts_serviceNetwork x)),
    (''plugins'', oPtr enc_tenant_plugins (ts_plugins x)),
    (''nodeGroups'', oList enc_node_group_spec (ts_nodeGroups x)),
    (''configPatches'', oList enc_config_patch_ref (ts_configPatches x))]"

definition dec_tenant_spec :: "json \<Rightarrow> tenant_spec" where
  "dec_tenant_spec j = \<lparr>
    ts_kubernetesVersion = dStr ''kubernetesVersion'' j,
    ts_talosVersion = dStr ''talosVersion'' j,
    ts_controlPlaneEndpoint = dStr ''controlPlaneEndpoint'' j,
    ts_podNetwork = dList vStr ''podNetwork'' j,
    ts_serviceNetwork = dList vStr ''serviceNetwork'' j,
    ts_plugins = dPtr dec_tenant_plugins ''plugins'' j,
    ts_nodeGroups = dList dec_node_group_spec ''nodeGroups'' j,
    ts_configPatches = dList dec_config_patch_ref ''configPatches'' j\<rparr>"

lemma dec_enc_tenant_spec [json_simps]:
  "enc_tenant_spec x \<noteq> JNull \<and> dec_tenant_spec (enc_tenant_spec x) = x"
  by (cases x) (simp add: enc_tenant_spec_def dec_tenant_spec_def json_simps)

text \<open>\<^verbatim>\<open>ReconciliationStatus\<close>\<close>

record reconciliation_status =
  rs_phase :: string
  rs_lastError :: string
  rs_updatedAt :: "gotime option"

definition enc_reconciliation_status :: "reconciliation_status \<Rightarrow> json" where
  "enc_reconciliation_status x = jobj [
    (''phase'', oStr (rs_phase x)),
    (''lastError'', oStr (rs_lastError x)),
    (''updatedAt'', oTime (rs_updatedAt x))]"

definition dec_reconciliation_status :: "json \<Rightarrow> reconciliation_status" where
  "dec_reconciliation_status j = \<lparr>
    rs_phase = dStr ''phase'' j,
    rs_lastError = dStr ''lastError'' j,
    rs_updatedAt = dTimePtr ''updatedAt'' j\<rparr>"

lemma dec_enc_reconciliation_status [json_simps]:
  "enc_reconciliation_status x \<noteq> JNull \<and> dec_reconciliation_status (enc_reconciliation_status x) = x"
  by (cases x) (simp add: enc_reconciliation_status_def dec_reconciliation_status_def json_simps)

text \<open>\<^verbatim>\<open>MachineCounts\<close>\<close>

record machine_counts =
  mc_total :: int
  mc_healthy :: int
  mc_connected :: int

definition enc_machine_counts :: "machine_counts \<Rightarrow> json" where
  "enc_machine_counts x = jobj [
    (''total'', eInt (mc_total x)),
    (''healthy'', eInt (mc_healthy x)),
    (''connected'', eInt (mc_connected x))]"

definition dec_machine_counts :: "json \<Rightarrow> machine_counts" where
  "dec_machine_counts j = \<lparr>
    mc_total = dInt ''total'' j,
    mc_healthy = dInt ''healthy'' j,
    mc_connected = dInt ''connected'' j\<rparr>"

lemma dec_enc_machine_counts [json_simps]:
  "enc_machine_counts x \<noteq> JNull \<and> dec_machine_counts (enc_machine_counts x) = x"
  by (cases x) (simp add: enc_machine_counts_def dec_machine_counts_def json_simps)

text \<open>\<^verbatim>\<open>TenantStatus\<close>\<close>

record tenant_status =
  tst_phase :: string
  tst_available :: bool
  tst_ready :: bool
  tst_apiReady :: bool
  tst_controlPlaneReady :: bool
  tst_machines :: machine_counts
  tst_kubernetesVersion :: string
  tst_talosVersion :: string
  tst_reconciliation :: "reconciliation_status option"

definition enc_tenant_status :: "tenant_status \<Rightarrow> json" where
  "enc_tenant_status x = jobj [
    (''phase'', eStr (tst_phase x)),
    (''available'', eBool (tst_available x)),
    (''ready'', eBool (tst_ready x)),
    (''apiReady'', eBool (tst_apiReady x)),
    (''controlPlaneReady'', eBool (tst_controlPlaneReady x)),
    (''machines'', eObj (enc_machine_counts (tst_machines x))),
    (''kubernetesVersion'', oStr (tst_kubernetesVersion x)),
    (''talosVersion'', oStr (tst_talosVersion x)),
    (''reconciliation'', oPtr enc_reconciliation_status (tst_reconciliation x))]"

definition dec_tenant_status :: "json \<Rightarrow> tenant_status" where
  "dec_tenant_status j = \<lparr>
    tst_phase = dStr ''phase'' j,
    tst_available = dBool ''available'' j,
    tst_ready = dBool ''ready'' j,
    tst_apiReady = dBool ''apiReady'' j,
    tst_controlPlaneReady = dBool ''controlPlaneReady'' j,
    tst_machines = dObj dec_machine_counts ''machines'' j,
    tst_kubernetesVersion = dStr ''kubernetesVersion'' j,
    tst_talosVersion = dStr ''talosVersion'' j,
    tst_reconciliation = dPtr dec_reconciliation_status ''reconciliation'' j\<rparr>"

lemma dec_enc_tenant_status [json_simps]:
  "enc_tenant_status x \<noteq> JNull \<and> dec_tenant_status (enc_tenant_status x) = x"
  by (cases x) (simp add: enc_tenant_status_def dec_tenant_status_def json_simps)

text \<open>\<^verbatim>\<open>MachineSpec\<close>\<close>

record machine_spec =
  ms_managementAddress :: string
  ms_connected :: bool
  ms_bindingToken :: string

definition enc_machine_spec :: "machine_spec \<Rightarrow> json" where
  "enc_machine_spec x = jobj [
    (''managementAddress'', oStr (ms_managementAddress x)),
    (''connected'', eBool (ms_connected x)),
    (''bindingToken'', oStr (ms_bindingToken x))]"

definition dec_machine_spec :: "json \<Rightarrow> machine_spec" where
  "dec_machine_spec j = \<lparr>
    ms_managementAddress = dStr ''managementAddress'' j,
    ms_connected = dBool ''connected'' j,
    ms_bindingToken = dStr ''bindingToken'' j\<rparr>"

lemma dec_enc_machine_spec [json_simps]:
  "enc_machine_spec x \<noteq> JNull \<and> dec_machine_spec (enc_machine_spec x) = x"
  by (cases x) (simp add: enc_machine_spec_def dec_machine_spec_def json_simps)

text \<open>\<^verbatim>\<open>ProcessorInfo\<close>\<close>

record processor_info =
  pi_coreCount :: int
  pi_threadCount :: int
  pi_frequency :: int
  pi_description :: string

definition enc_processor_info :: "processor_info \<Rightarrow> json" where
  "enc_processor_info x = jobj [
    (''coreCount'', eInt (pi_coreCount x)),
    (''threadCount'', eInt (pi_threadCount x)),
    (''frequency'', oInt (pi_frequency x)),
    (''description'', oStr (pi_description x))]"

definition dec_processor_info :: "json \<Rightarrow> processor_info" where
  "dec_processor_info j = \<lparr>
    pi_coreCount = dInt ''coreCount'' j,
    pi_threadCount = dInt ''threadCount'' j,
    pi_frequency = dInt ''frequency'' j,
    pi_description = dStr ''description'' j\<rparr>"

lemma dec_enc_processor_info [json_simps]:
  "enc_processor_info x \<noteq> JNull \<and> dec_processor_info (enc_processor_info x) = x"
  by (cases x) (simp add: enc_processor_info_def dec_processor_info_def json_simps)

text \<open>\<^verbatim>\<open>MemoryInfo\<close>\<close>

record memory_info =
  mi_sizeMB :: int
  mi_description :: string

definition enc_memory_info :: "memory_info \<Rightarrow> json" where
  "enc_memory_info x = jobj [
    (''sizeMb'', eInt (mi_sizeMB x)),
    (''description'', oStr (mi_description x))]"

definition dec_memory_info :: "json \<Rightarrow> memory_info" where
  "dec_memory_info j = \<lparr>
    mi_sizeMB = dInt ''sizeMb'' j,
    mi_description = dStr ''description'' j\<rparr>"

lemma dec_enc_memory_info [json_simps]:
  "enc_memory_info x \<noteq> JNull \<and> dec_memory_info (enc_memory_info x) = x"
  by (cases x) (simp add: enc_memory_info_def dec_memory_info_def json_simps)

text \<open>\<^verbatim>\<open>BlockDeviceInfo\<close>\<close>

record block_device_info =
  bd_size :: int
  bd_type :: string
  bd_systemDisk :: bool
  bd_model :: string

definition enc_block_device_info :: "block_device_info \<Rightarrow> json" where
  "enc_block_device_info x = jobj [
    (''size'', eInt (bd_size x)),
    (''type'', oStr (bd_type x)),
    (''systemDisk'', eBool (bd_systemDisk x)),
    (''model'', oStr (bd_model x))]"

definition dec_block_device_info :: "json \<Rightarrow> block_device_info" where
  "dec_block_device_info j = \<lparr>
    bd_size = dInt ''size'' j,
    bd_type = dStr ''type'' j,
    bd_systemDisk = dBool ''systemDisk'' j,
    bd_model = dStr ''model'' j\<rparr>"

lemma dec_enc_block_device_info [json_simps]:
  "enc_block_device_info x \<noteq> JNull \<and> dec_block_device_info (enc_block_device_info x) = x"
  by (cases x) (simp add: enc_block_device_info_def dec_block_device_info_def json_simps)

text \<open>\<^verbatim>\<open>HardwareInfo\<close>\<close>

record hardware_info =
  hw_processors :: "processor_info list"
  hw_memoryModules :: "memory_info list"
  hw_blockDevices :: "block_device_info list"
  hw_arch :: string

definition enc_hardware_info :: "hardware_info \<Rightarrow> json" where
  "enc_hardware_info x = jobj [
    (''processors'', oList enc_processor_info (hw_processors x)),
    (''memoryModules'', oList enc_memory_info (hw_memoryModules x)),
    (''blockDevices'', oList enc_block_device_info (hw_blockDevices x)),
    (''arch'', oStr (hw_arch x))]"

definition dec_hardware_info :: "json \<Rightarrow> hardware_info" where
  "dec_hardware_info j = \<lparr>
    hw_processors = dList dec_processor_info ''processors'' j,
    hw_memoryModules = dList dec_memory_info ''memoryModules'' j,
    hw_blockDevices = dList dec_block_device_info ''blockDevices'' j,
    hw_arch = dStr ''arch'' j\<rparr>"

lemma dec_enc_hardware_info [json_simps]:
  "enc_hardware_info x \<noteq> JNull \<and> dec_hardware_info (enc_hardware_info x) = x"
  by (cases x) (simp add: enc_hardware_info_def dec_hardware_info_def json_simps)

text \<open>\<^verbatim>\<open>NetworkInfo\<close>\<close>

record network_info =
  ni_hostname :: string
  ni_addresses :: "string list"
  ni_defaultGateways :: "string list"

definition enc_network_info :: "network_info \<Rightarrow> json" where
  "enc_network_info x = jobj [
    (''hostname'', oStr (ni_hostname x)),
    (''addresses'', oList JStr (ni_addresses x)),
    (''defaultGateways'', oList JStr (ni_defaultGateways x))]"

definition dec_network_info :: "json \<Rightarrow> network_info" where
  "dec_network_info j = \<lparr>
    ni_hostname = dStr ''hostname'' j,
    ni_addresses = dList vStr ''addresses'' j,
    ni_defaultGateways = dList vStr ''defaultGateways'' j\<rparr>"

lemma dec_enc_network_info [json_simps]:
  "enc_network_info x \<noteq> JNull \<and> dec_network_info (enc_network_info x) = x"
  by (cases x) (simp add: enc_network_info_def dec_network_info_def json_simps)

text \<open>\<^verbatim>\<open>SchematicInfo\<close>\<close>

record schematic_info =
  sch_id :: string
  sch_extensions :: "string list"

definition enc_schematic_info :: "schematic_info \<Rightarrow> json" where
  "enc_schematic_info x = jobj [
    (''id'', oStr (sch_id x)),
    (''extensions'', oList JStr (sch_extensions x))]"

definition dec_schematic_info :: "json \<Rightarrow> schematic_info" where
  "dec_schematic_info j = \<lparr>
    sch_id = dStr ''id'' j,
    sch_extensions = dList vStr ''extensions'' j\<rparr>"

lemma dec_enc_schematic_info [json_simps]:
  "enc_schematic_info x \<noteq> JNull \<and> dec_schematic_info (enc_schematic_info x) = x"
  by (cases x) (simp add: enc_schematic_info_def dec_schematic_info_def json_simps)

text \<open>\<^verbatim>\<open>MachineStatus\<close>\<close>

record machine_status =
  mst_stage :: string
  mst_ready :: bool
  mst_role :: string
  mst_talosVersion :: string
  mst_k8sVersion :: string
  mst_configCurrent :: bool
  mst_maintenance :: bool
  mst_hardware :: "hardware_info option"
  mst_network :: "network_info option"
  mst_schematic :: "schematic_info option"
  mst_lastError :: string

definition enc_machine_status :: "machine_status \<Rightarrow> json" where
  "enc_machine_status x = jobj [
    (''stage'', eStr (mst_stage x)),
    (''ready'', eBool (mst_ready x)),
    (''role'', oStr (mst_role x)),
    (''talosVersion'', oStr (mst_talosVersion x)),
    (''kubernetesVersion'', oStr (mst_k8sVersion x)),
    (''configUpToDate'', eBool (mst_configCurrent x)),
    (''maintenance'', eBool (mst_maintenance x)),
    (''hardware'', oPtr enc_hardware_info (mst_hardware x)),
    (''network'', oPtr enc_network_info (mst_network x)),
    (''schematic'', oPtr enc_schematic_info (mst_schematic x)),
    (''lastError'', oStr (mst_lastError x))]"

definition dec_machine_status :: "json \<Rightarrow> machine_status" where
  "dec_machine_status j = \<lparr>
    mst_stage = dStr ''stage'' j,
    mst_ready = dBool ''ready'' j,
    mst_role = dStr ''role'' j,
    mst_talosVersion = dStr ''talosVersion'' j,
    mst_k8sVersion = dStr ''kubernetesVersion'' j,
    mst_configCurrent = dBool ''configUpToDate'' j,
    mst_maintenance = dBool ''maintenance'' j,
    mst_hardware = dPtr dec_hardware_info ''hardware'' j,
    mst_network = dPtr dec_network_info ''network'' j,
    mst_schematic = dPtr dec_schematic_info ''schematic'' j,
    mst_lastError = dStr ''lastError'' j\<rparr>"

lemma dec_enc_machine_status [json_simps]:
  "enc_machine_status x \<noteq> JNull \<and> dec_machine_status (enc_machine_status x) = x"
  by (cases x) (simp add: enc_machine_status_def dec_machine_status_def json_simps)

text \<open>\<^verbatim>\<open>ProviderSpec\<close>\<close>

record provider_spec =
  ps_endpoint :: string

definition enc_provider_spec :: "provider_spec \<Rightarrow> json" where
  "enc_provider_spec x = jobj [
    (''endpoint'', oStr (ps_endpoint x))]"

definition dec_provider_spec :: "json \<Rightarrow> provider_spec" where
  "dec_provider_spec j = \<lparr>
    ps_endpoint = dStr ''endpoint'' j\<rparr>"

lemma dec_enc_provider_spec [json_simps]:
  "enc_provider_spec x \<noteq> JNull \<and> dec_provider_spec (enc_provider_spec x) = x"
  by (cases x) (simp add: enc_provider_spec_def dec_provider_spec_def json_simps)

text \<open>\<^verbatim>\<open>ProviderSchema\<close>\<close>

record provider_schema =
  psc_machineTypes :: "string list"
  psc_regions :: "string list"

definition enc_provider_schema :: "provider_schema \<Rightarrow> json" where
  "enc_provider_schema x = jobj [
    (''machineTypes'', oList JStr (psc_machineTypes x)),
    (''regions'', oList JStr (psc_regions x))]"

definition dec_provider_schema :: "json \<Rightarrow> provider_schema" where
  "dec_provider_schema j = \<lparr>
    psc_machineTypes = dList vStr ''machineTypes'' j,
    psc_regions = dList vStr ''regions'' j\<rparr>"

lemma dec_enc_provider_schema [json_simps]:
  "enc_provider_schema x \<noteq> JNull \<and> dec_provider_schema (enc_provider_schema x) = x"
  by (cases x) (simp add: enc_provider_schema_def dec_provider_schema_def json_simps)

text \<open>\<^verbatim>\<open>ProviderStatus\<close>\<close>

record provider_status =
  pst_connected :: bool
  pst_lastHeartbeat :: gotime
  pst_schema :: "provider_schema option"
  pst_error :: string

definition enc_provider_status :: "provider_status \<Rightarrow> json" where
  "enc_provider_status x = jobj [
    (''connected'', eBool (pst_connected x)),
    (''lastHeartbeat'', eTime (pst_lastHeartbeat x)),
    (''schema'', oPtr enc_provider_schema (pst_schema x)),
    (''error'', oStr (pst_error x))]"

definition dec_provider_status :: "json \<Rightarrow> provider_status" where
  "dec_provider_status j = \<lparr>
    pst_connected = dBool ''connected'' j,
    pst_lastHeartbeat = dTime ''lastHeartbeat'' j,
    pst_schema = dPtr dec_provider_schema ''schema'' j,
    pst_error = dStr ''error'' j\<rparr>"

lemma dec_enc_provider_status [json_simps]:
  "enc_provider_status x \<noteq> JNull \<and> dec_provider_status (enc_provider_status x) = x"
  by (cases x) (simp add: enc_provider_status_def dec_provider_status_def json_simps)

text \<open>\<^verbatim>\<open>UserSpec\<close>\<close>

record user_spec =
  us_role :: string
  us_passwordHash :: string

definition enc_user_spec :: "user_spec \<Rightarrow> json" where
  "enc_user_spec x = jobj [
    (''role'', eStr (us_role x)),
    (''passwordHash'', eStr (us_passwordHash x))]"

definition dec_user_spec :: "json \<Rightarrow> user_spec" where
  "dec_user_spec j = \<lparr>
    us_role = dStr ''role'' j,
    us_passwordHash = dStr ''passwordHash'' j\<rparr>"

lemma dec_enc_user_spec [json_simps]:
  "enc_user_spec x \<noteq> JNull \<and> dec_user_spec (enc_user_spec x) = x"
  by (cases x) (simp add: enc_user_spec_def dec_user_spec_def json_simps)

text \<open>\<^verbatim>\<open>UserStatus\<close>\<close>

record user_status =
  ust_lastLogin :: "gotime option"
  ust_activeTokens :: int

definition enc_user_status :: "user_status \<Rightarrow> json" where
  "enc_user_status x = jobj [
    (''lastLogin'', oTime (ust_lastLogin x)),
    (''activeTokens'', eInt (ust_activeTokens x))]"

definition dec_user_status :: "json \<Rightarrow> user_status" where
  "dec_user_status j = \<lparr>
    ust_lastLogin = dTimePtr ''lastLogin'' j,
    ust_activeTokens = dInt ''activeTokens'' j\<rparr>"

lemma dec_enc_user_status [json_simps]:
  "enc_user_status x \<noteq> JNull \<and> dec_user_status (enc_user_status x) = x"
  by (cases x) (simp add: enc_user_status_def dec_user_status_def json_simps)

section \<open>Resources and events\<close>

record tenant =
  t_metadata :: metadata
  t_spec :: tenant_spec
  t_status :: tenant_status

record machine =
  m_metadata :: metadata
  m_spec :: machine_spec
  m_status :: machine_status

record provider =
  p_metadata :: metadata
  p_spec :: provider_spec
  p_status :: provider_status

record user =
  u_metadata :: metadata
  u_spec :: user_spec
  u_status :: user_status

text \<open>\<^verbatim>\<open>APIToken\<close>: a row of the \<^verbatim>\<open>api_tokens\<close> table; its role is resolved by the reader.\<close>

record api_token =
  at_id :: string
  at_userName :: string
  at_tokenHash :: string
  at_expiresAt :: "gotime option"
  at_createdAt :: gotime
  at_lastUsed :: "gotime option"

text \<open>\<^verbatim>\<open>ResourceEvent\<close>: a nil \<^verbatim>\<open>json.RawMessage\<close> is \<open>None\<close>.\<close>

record resource_event =
  ev_type :: string
  ev_mutation :: string
  ev_resourceType :: string
  ev_metadata :: metadata
  ev_spec :: "json option"
  ev_status :: "json option"


end
