(* ===== verification/Store.thy ===== *)
theory Store
  imports Store_Types
begin

text \<open>
  The state store, \<^verbatim>\<open>internal/state/store.go\<close>: its three tables, the events it has published, and
  every operation of \<^verbatim>\<open>StoreAPI\<close>. An operation takes the store and returns its result, or the error
  it reports, with the new store. Each SQL statement first consults \<open>faults\<close>: a \<open>True\<close> at its head
  makes the statement fail without effect, so the partial effects of an operation whose second or
  third statement fails are part of the model. Statements of one operation run without another
  operation between them; \<open>clock\<close> is the time all of them read.
\<close>

section \<open>State\<close>

text \<open>A row of \<^verbatim>\<open>resources\<close>: the JSON columns hold the values their text encodes.\<close>

record row =
  r_type :: string
  r_name :: string
  r_uid :: string
  r_version :: int
  r_spec :: json
  r_status :: json
  r_finalizers :: "string list"
  r_labels :: gomap
  r_annotations :: gomap
  r_created :: gotime
  r_updated :: gotime
  r_deleted :: "gotime option"

record secret_row =
  sec_tenant :: string
  sec_bundle :: string
  sec_created :: gotime

text \<open>The functions of SQLite's JSON extension the statements call, on the values of a column.\<close>

record sqlite =
  json_extract :: "gomap \<Rightarrow> string \<Rightarrow> string option"
  json_set :: "json \<Rightarrow> string \<Rightarrow> json \<Rightarrow> json"

record store =
  resources :: "row list"
  tenant_secrets :: "secret_row list"
  api_tokens :: "api_token list"
  bus :: bool
  events :: "resource_event list"
  clock :: gotime
  faults :: "bool list"
  engine :: sqlite

datatype store_err = ErrNotFound | ErrConflict | ErrSQL string

type_synonym 'a res = "(store_err + 'a) \<times> store"

abbreviation row_key :: "row \<Rightarrow> string \<times> string" where
  "row_key r \<equiv> (r_type r, r_name r)"

abbreviation find_row :: "store \<Rightarrow> string \<Rightarrow> string \<Rightarrow> row option" where
  "find_row s rt name \<equiv> tbl_get row_key (resources s) (rt, name)"

abbreviation upd_row :: "string \<Rightarrow> string \<Rightarrow> (row \<Rightarrow> row) \<Rightarrow> store \<Rightarrow> store" where
  "upd_row rt name f s \<equiv> s\<lparr>resources := tbl_upd row_key (rt, name) f (resources s)\<rparr>"

text \<open>One SQL statement: whether it succeeds, and the store with its fault consumed.\<close>

definition sql_ok :: "store \<Rightarrow> bool" where
  "sql_ok s = (case faults s of [] \<Rightarrow> True | b # _ \<Rightarrow> \<not> b)"

definition sql_next :: "store \<Rightarrow> store" where
  "sql_next s = s\<lparr>faults := tl (faults s)\<rparr>"

definition sql :: "store \<Rightarrow> bool \<times> store" where
  "sql s = (sql_ok s, sql_next s)"

definition meta_of :: "row \<Rightarrow> metadata" where
  "meta_of r = \<lparr>md_name = r_name r, md_uid = r_uid r, md_resourceVersion = r_version r,
     md_createdAt = r_created r, md_updatedAt = r_updated r, md_deletionTimestamp = r_deleted r,
     md_finalizers = r_finalizers r, md_labels = r_labels r, md_annotations = r_annotations r\<rparr>"

definition zero_metadata :: metadata where
  "zero_metadata = \<lparr>md_name = [], md_uid = [], md_resourceVersion = 0, md_createdAt = zeroTime,
     md_updatedAt = zeroTime, md_deletionTimestamp = None, md_finalizers = [], md_labels = [],
     md_annotations = []\<rparr>"

section \<open>Helpers\<close>

definition SetBus :: "bool \<Rightarrow> store \<Rightarrow> store" where
  "SetBus b s = s\<lparr>bus := b\<rparr>"

definition publish :: "string \<Rightarrow> string \<Rightarrow> string \<Rightarrow> metadata \<Rightarrow> json option \<Rightarrow> json option \<Rightarrow> store \<Rightarrow> store" where
  "publish et mutation rt md spec status s =
     (if \<not> bus s then s
      else s\<lparr>events := events s @ [\<lparr>ev_type = et, ev_mutation = mutation, ev_resourceType = rt,
        ev_metadata = md, ev_spec = spec, ev_status = status\<rparr>]\<rparr>)"

definition newUID :: "store \<Rightarrow> string" where
  "newUID s = hexOf (nat (clock s))"

fun byteIndex :: "string \<Rightarrow> char \<Rightarrow> int" where
  "byteIndex [] b = -1"
| "byteIndex (c # cs) b =
     (if c = b then 0 else (let i = byteIndex cs b in if i < 0 then -1 else i + 1))"

definition jsonPathKey :: "string \<Rightarrow> string" where
  "jsonPathKey key = (if byteIndex key (CHR ''.'') \<ge> 0 then [CHR 0x22] @ key @ [CHR 0x22] else key)"

section \<open>List options\<close>

record list_options =
  lo_offset :: int
  lo_limit :: int
  lo_labelSelector :: string

type_synonym list_option = "list_options \<Rightarrow> list_options"

definition newListOptions :: "list_option list \<Rightarrow> list_options" where
  "newListOptions opts = fold (\<lambda>f o'. f o') opts \<lparr>lo_offset = 0, lo_limit = 50, lo_labelSelector = []\<rparr>"

definition WithOffset :: "int \<Rightarrow> list_option" where
  "WithOffset n o' = o'\<lparr>lo_offset := n\<rparr>"

definition WithLimit :: "int \<Rightarrow> list_option" where
  "WithLimit n o' = o'\<lparr>lo_limit := n\<rparr>"

definition WithLabelSelector :: "string \<Rightarrow> list_option" where
  "WithLabelSelector sel o' = o'\<lparr>lo_labelSelector := sel\<rparr>"

abbreviation noOptions :: list_options where
  "noOptions \<equiv> \<lparr>lo_offset = 0, lo_limit = 0, lo_labelSelector = []\<rparr>"

abbreviation tenantSelector :: "string \<Rightarrow> string" where
  "tenantSelector tn \<equiv> tenantLabel @ ''='' @ tn"

section \<open>Generic resource operations\<close>

definition updateResourceMetadataAndPublish ::
  "string \<Rightarrow> string \<Rightarrow> string \<Rightarrow> string \<Rightarrow> store \<Rightarrow> metadata res" where
  "updateResourceMetadataAndPublish et mutation rt name s0 =
     (case sql s0 of (ok, s) \<Rightarrow>
        if \<not> ok then (Inl (ErrSQL ''reload resource''), s)
        else (case find_row s rt name of
                None \<Rightarrow> (Inl (ErrSQL ''reload resource''), s)
              | Some r \<Rightarrow>
                  (Inr (meta_of r),
                   publish et mutation rt (meta_of r) (Some (r_spec r)) (Some (r_status r)) s)))"

definition CreateResource ::
  "string \<Rightarrow> string \<Rightarrow> json \<Rightarrow> json \<Rightarrow> gomap \<Rightarrow> gomap \<Rightarrow> store \<Rightarrow> metadata res" where
  "CreateResource rt name spec status labels annotations s0 =
     (case sql s0 of (ok, s) \<Rightarrow>
        if \<not> ok \<or> find_row s rt name \<noteq> None then (Inl (ErrSQL ''insert resource''), s)
        else updateResourceMetadataAndPublish ''ADDED'' MutationCreate rt name
          (s\<lparr>resources := tbl_ins
             \<lparr>r_type = rt, r_name = name, r_uid = newUID s, r_version = 1, r_spec = spec,
              r_status = status, r_finalizers = [], r_labels = labels, r_annotations = annotations,
              r_created = clock s, r_updated = clock s, r_deleted = None\<rparr> (resources s)\<rparr>))"

text \<open>\<^verbatim>\<open>GetResource\<close>, with the spec and status columns beside the metadata for the callers that decode them.\<close>

definition GetResource :: "string \<Rightarrow> string \<Rightarrow> store \<Rightarrow> (metadata \<times> json \<times> json) res" where
  "GetResource rt name s0 =
     (case sql s0 of (ok, s) \<Rightarrow>
        if \<not> ok then (Inl (ErrSQL ''scan resource''), s)
        else (case find_row s rt name of
                None \<Rightarrow> (Inl ErrNotFound, s)
              | Some r \<Rightarrow> (Inr (meta_of r, r_spec r, r_status r), s)))"

text \<open>The WHERE clause \<^verbatim>\<open>ListResources\<close> builds from the label selector.\<close>

definition selects :: "sqlite \<Rightarrow> string \<Rightarrow> gomap \<Rightarrow> bool" where
  "selects db sel labels =
     (if sel = [] then True
      else let idx = byteIndex sel (CHR ''='') in
        if idx \<ge> 0
        then json_extract db labels (''$.'' @ jsonPathKey (take (nat idx) sel)) = Some (drop (nat idx + 1) sel)
        else json_extract db labels (''$.'' @ jsonPathKey sel) \<noteq> None)"

definition listed :: "string \<Rightarrow> string \<Rightarrow> store \<Rightarrow> row list" where
  "listed rt sel s =
     filter (\<lambda>r. r_type r = rt \<and> r_deleted r = None \<and> selects (engine s) sel (r_labels r)) (resources s)"

definition page :: "int \<Rightarrow> int \<Rightarrow> 'a list \<Rightarrow> 'a list" where
  "page offset limit xs =
     (let ys = (if offset > 0 then drop (nat offset) xs else xs)
      in if limit > 0 then take (nat limit) ys else ys)"

text \<open>A statement with an OFFSET clause and no LIMIT clause is a syntax error in SQLite.\<close>

definition ListResources ::
  "string \<Rightarrow> list_options \<Rightarrow> store \<Rightarrow> ((metadata \<times> json \<times> json) list \<times> int) res" where
  "ListResources rt opts s0 =
     (case sql s0 of (ok, s) \<Rightarrow>
        if \<not> ok then (Inl (ErrSQL ''count resources''), s)
        else let total = int (length (listed rt (lo_labelSelector opts) s)) in
          (case sql s of (ok, s) \<Rightarrow>
             if \<not> ok \<or> (lo_offset opts > 0 \<and> lo_limit opts \<le> 0)
             then (Inl (ErrSQL ''query resources''), s)
             else
               (Inr (map (\<lambda>r. (meta_of r, r_spec r, r_status r))
                      (page (lo_offset opts) (lo_limit opts)
                        (sort_key r_name (listed rt (lo_labelSelector opts) s))), total), s)))"

definition UpdateResource ::
  "string \<Rightarrow> string \<Rightarrow> int \<Rightarrow> json \<Rightarrow> gomap \<Rightarrow> gomap \<Rightarrow> store \<Rightarrow> metadata res" where
  "UpdateResource rt name currentVersion spec labels annotations s0 =
     (case sql s0 of (ok, s) \<Rightarrow>
        if \<not> ok then (Inl (ErrSQL ''update resource''), s)
        else (case find_row s rt name of
                None \<Rightarrow> (Inl ErrConflict, s)
              | Some r \<Rightarrow>
                  if r_version r \<noteq> currentVersion then (Inl ErrConflict, s)
                  else updateResourceMetadataAndPublish ''MODIFIED'' MutationSpec rt name
                    (upd_row rt name
                       (\<lambda>r. r\<lparr>r_spec := spec, r_labels := labels, r_annotations := annotations,
                              r_updated := clock s, r_version := r_version r + 1\<rparr>) s)))"

definition UpdateStatus :: "string \<Rightarrow> string \<Rightarrow> json \<Rightarrow> store \<Rightarrow> metadata res" where
  "UpdateStatus rt name status s0 =
     (case sql s0 of (ok, s) \<Rightarrow>
        if \<not> ok then (Inl (ErrSQL ''update status''), s)
        else if find_row s rt name = None then (Inl ErrNotFound, s)
        else updateResourceMetadataAndPublish ''MODIFIED'' MutationStatus rt name
          (upd_row rt name (\<lambda>r. r\<lparr>r_status := status, r_updated := clock s\<rparr>) s))"

definition DeleteResource :: "string \<Rightarrow> string \<Rightarrow> store \<Rightarrow> metadata res" where
  "DeleteResource rt name s0 =
     (case sql s0 of (ok, s) \<Rightarrow>
        if \<not> ok then (Inl (ErrSQL ''delete resource''), s)
        else (case find_row s rt name of
                None \<Rightarrow> (Inl ErrNotFound, s)
              | Some r \<Rightarrow>
                  if r_deleted r \<noteq> None then (Inl ErrNotFound, s)
                  else updateResourceMetadataAndPublish ''DELETED'' MutationDelete rt name
                    (upd_row rt name (\<lambda>r. r\<lparr>r_deleted := Some (clock s), r_updated := clock s\<rparr>) s)))"

definition RemoveResource :: "string \<Rightarrow> string \<Rightarrow> store \<Rightarrow> unit res" where
  "RemoveResource rt name s0 =
     (case GetResource rt name s0 of (got, s1) \<Rightarrow>
        let md = (case got of Inl _ \<Rightarrow> zero_metadata | Inr (md, _, _) \<Rightarrow> md) in
          (case sql s1 of (ok, s) \<Rightarrow>
             if \<not> ok then (Inl (ErrSQL ''remove resource''), s)
             else let s = s\<lparr>resources := tbl_del row_key (rt, name) (resources s)\<rparr> in
               (Inr (), if md_name md \<noteq> [] then publish ''DELETED'' MutationDelete rt md None None s
                        else s)))"

text \<open>The rows of a tenant, and the loop that deletes them one statement at a time.\<close>

definition tenantRows :: "string \<Rightarrow> store \<Rightarrow> row list" where
  "tenantRows tn s =
     filter (\<lambda>r. json_extract (engine s) (r_labels r) (''$.'' @ [CHR 0x22] @ tenantLabel @ [CHR 0x22]) = Some tn
               \<and> r_type r \<noteq> ''tenant'') (resources s)"

fun removePending :: "row list \<Rightarrow> store \<Rightarrow> unit res" where
  "removePending [] s = (Inr (), s)"
| "removePending (p # ps) s0 =
     (case sql s0 of (ok, s) \<Rightarrow>
        if \<not> ok then (Inl (ErrSQL ''delete tenant resource''), s)
        else removePending ps
          (publish ''DELETED'' MutationDelete (r_type p) (meta_of p) None None
             (s\<lparr>resources := tbl_del row_key (row_key p) (resources s)\<rparr>)))"

definition RemoveResourcesByTenant :: "string \<Rightarrow> store \<Rightarrow> int res" where
  "RemoveResourcesByTenant tn s0 =
     (case sql s0 of (ok, s) \<Rightarrow>
        if \<not> ok then (Inl (ErrSQL ''list tenant resources''), s)
        else let pending = tenantRows tn s in
          (case removePending pending s of
             (Inl e, s) \<Rightarrow> (Inl e, s)
           | (Inr _, s) \<Rightarrow> (Inr (int (length pending)), s)))"

section \<open>Finalizers\<close>

abbreviation setFinalizers :: "string \<Rightarrow> string \<Rightarrow> string list \<Rightarrow> store \<Rightarrow> store" where
  "setFinalizers rt name fs s \<equiv>
     upd_row rt name (\<lambda>r. r\<lparr>r_finalizers := fs, r_updated := clock s\<rparr>) s"

definition AddFinalizer :: "string \<Rightarrow> string \<Rightarrow> string \<Rightarrow> store \<Rightarrow> unit res" where
  "AddFinalizer rt name finalizer s0 =
     (case GetResource rt name s0 of
        (Inl e, s) \<Rightarrow> (Inl e, s)
      | (Inr (md, _, _), s) \<Rightarrow>
          if finalizer \<in> set (md_finalizers md) then (Inr (), s)
          else (case sql s of (ok, s) \<Rightarrow>
                  if \<not> ok then (Inl (ErrSQL []), s)
                  else (Inr (), setFinalizers rt name (md_finalizers md @ [finalizer]) s)))"

text \<open>The Boolean is the source's \<^verbatim>\<open>removed\<close>, returned beside the error.\<close>

definition RemoveFinalizer :: "string \<Rightarrow> string \<Rightarrow> string \<Rightarrow> store \<Rightarrow> bool \<times> unit res" where
  "RemoveFinalizer rt name finalizer s0 =
     (case GetResource rt name s0 of
        (Inl e, s) \<Rightarrow> (False, Inl e, s)
      | (Inr (md, _, _), s) \<Rightarrow>
          let newFinalizers = filter (\<lambda>f. f \<noteq> finalizer) (md_finalizers md) in
          if length newFinalizers = length (md_finalizers md) then (False, Inr (), s)
          else if newFinalizers = [] \<and> md_deletionTimestamp md \<noteq> None
          then (True, Inr (), snd (RemoveResource rt name s))
          else (case sql s of (ok, s) \<Rightarrow>
                  if \<not> ok then (True, Inl (ErrSQL []), s)
                  else (True, Inr (), setFinalizers rt name newFinalizers s)))"

section \<open>Tenant operations\<close>

text \<open>The zero value of a status or spec struct is the decoding of the JSON null.\<close>

definition mk_tenant :: "metadata \<times> json \<times> json \<Rightarrow> tenant" where
  "mk_tenant = (\<lambda>(md, spec, status).
     \<lparr>t_metadata = md, t_spec = dec_tenant_spec spec, t_status = dec_tenant_status status\<rparr>)"

definition CreateTenant :: "string \<Rightarrow> tenant_spec \<Rightarrow> gomap \<Rightarrow> gomap \<Rightarrow> store \<Rightarrow> tenant res" where
  "CreateTenant name spec labels annotations s =
     (let status = (dec_tenant_status JNull)\<lparr>tst_phase := TenantForming\<rparr> in
      (case CreateResource ''tenant'' name (enc_tenant_spec spec) (enc_tenant_status status) labels annotations s of
         (Inl e, s) \<Rightarrow> (Inl e, s)
       | (Inr md, s) \<Rightarrow> (Inr \<lparr>t_metadata = md, t_spec = spec, t_status = status\<rparr>, s)))"

definition GetTenant :: "string \<Rightarrow> store \<Rightarrow> tenant option res" where
  "GetTenant name s =
     (case GetResource ''tenant'' name s of
        (Inl e, s) \<Rightarrow> (if e = ErrNotFound then Inr None else Inl e, s)
      | (Inr x, s) \<Rightarrow> (Inr (Some (mk_tenant x)), s))"

definition ListTenants :: "list_option list \<Rightarrow> store \<Rightarrow> (tenant list \<times> int) res" where
  "ListTenants opts s =
     (case ListResources ''tenant'' (newListOptions opts) s of
        (Inl e, s) \<Rightarrow> (Inl e, s)
      | (Inr (items, n), s) \<Rightarrow> (Inr (map mk_tenant items, n), s))"

definition UpdateTenantSpec :: "string \<Rightarrow> int \<Rightarrow> tenant_spec \<Rightarrow> gomap \<Rightarrow> gomap \<Rightarrow> store \<Rightarrow> tenant res" where
  "UpdateTenantSpec name currentVersion spec labels annotations s =
     (case UpdateResource ''tenant'' name currentVersion (enc_tenant_spec spec) labels annotations s of
        (Inl e, s) \<Rightarrow> (Inl e, s)
      | (Inr md, s) \<Rightarrow>
          (case GetResource ''tenant'' name s of (got, s) \<Rightarrow>
             (Inr \<lparr>t_metadata = md, t_spec = spec,
                t_status = (case got of Inl _ \<Rightarrow> dec_tenant_status JNull
                                      | Inr (_, _, status) \<Rightarrow> dec_tenant_status status)\<rparr>, s)))"

definition UpdateTenantStatus :: "string \<Rightarrow> tenant_status \<Rightarrow> store \<Rightarrow> tenant res" where
  "UpdateTenantStatus name status s =
     (case UpdateStatus ''tenant'' name (enc_tenant_status status) s of
        (Inl e, s) \<Rightarrow> (Inl e, s)
      | (Inr md, s) \<Rightarrow>
          (case GetResource ''tenant'' name s of (got, s) \<Rightarrow>
             (Inr \<lparr>t_metadata = md,
                t_spec = (case got of Inl _ \<Rightarrow> dec_tenant_spec JNull
                                    | Inr (_, spec, _) \<Rightarrow> dec_tenant_spec spec),
                t_status = status\<rparr>, s)))"

abbreviation "machinesFinalizer \<equiv> ''rezuscloud.io/machines''"
abbreviation "secretsFinalizer \<equiv> ''rezuscloud.io/secrets''"
abbreviation "configFinalizer \<equiv> ''rezuscloud.io/config''"
abbreviation "linkFinalizer \<equiv> ''rezuscloud.io/link''"

text \<open>The errors of the two finalizer writes are discarded, as in the source.\<close>

definition DeleteTenant :: "string \<Rightarrow> store \<Rightarrow> unit res" where
  "DeleteTenant name s =
     (case DeleteResource ''tenant'' name s of
        (Inl e, s) \<Rightarrow> (Inl e, s)
      | (Inr _, s) \<Rightarrow>
          (Inr (), snd (AddFinalizer ''tenant'' name secretsFinalizer
                     (snd (AddFinalizer ''tenant'' name machinesFinalizer s)))))"

definition SaveTenantSecrets :: "string \<Rightarrow> string \<Rightarrow> store \<Rightarrow> unit res" where
  "SaveTenantSecrets name bundle s0 =
     (case sql s0 of (ok, s) \<Rightarrow>
        if \<not> ok then (Inl (ErrSQL ''save tenant secrets''), s)
        else (Inr (), s\<lparr>tenant_secrets :=
          (case tbl_get sec_tenant (tenant_secrets s) name of
             None \<Rightarrow> tbl_ins \<lparr>sec_tenant = name, sec_bundle = bundle, sec_created = clock s\<rparr> (tenant_secrets s)
           | Some _ \<Rightarrow> tbl_upd sec_tenant name (\<lambda>r. r\<lparr>sec_bundle := bundle, sec_created := clock s\<rparr>)
                         (tenant_secrets s))\<rparr>))"

definition LoadTenantSecrets :: "string \<Rightarrow> store \<Rightarrow> string option res" where
  "LoadTenantSecrets name s0 =
     (case sql s0 of (ok, s) \<Rightarrow>
        if \<not> ok then (Inl (ErrSQL ''load tenant secrets''), s)
        else (Inr (map_option sec_bundle (tbl_get sec_tenant (tenant_secrets s) name)), s))"

definition RemoveTenantSecrets :: "string \<Rightarrow> store \<Rightarrow> unit res" where
  "RemoveTenantSecrets name s0 =
     (case sql s0 of (ok, s) \<Rightarrow>
        if \<not> ok then (Inl (ErrSQL ''remove tenant secrets''), s)
        else (Inr (), s\<lparr>tenant_secrets := tbl_del sec_tenant name (tenant_secrets s)\<rparr>))"

section \<open>Machine operations\<close>

definition CreateMachine :: "string \<Rightarrow> machine_spec \<Rightarrow> gomap \<Rightarrow> gomap \<Rightarrow> store \<Rightarrow> machine res" where
  "CreateMachine ident spec labels annotations s =
     (let status = (dec_machine_status JNull)\<lparr>mst_stage := StageInitializing\<rparr> in
      (case CreateResource ''machine'' ident (enc_machine_spec spec) (enc_machine_status status) labels annotations s of
         (Inl e, s) \<Rightarrow> (Inl e, s)
       | (Inr md, s) \<Rightarrow> (Inr \<lparr>m_metadata = md, m_spec = spec, m_status = status\<rparr>, s)))"

definition mk_machine :: "metadata \<times> json \<times> json \<Rightarrow> machine" where
  "mk_machine = (\<lambda>(md, spec, status).
     \<lparr>m_metadata = md, m_spec = dec_machine_spec spec, m_status = dec_machine_status status\<rparr>)"

definition GetMachine :: "string \<Rightarrow> store \<Rightarrow> machine option res" where
  "GetMachine ident s =
     (case GetResource ''machine'' ident s of
        (Inl e, s) \<Rightarrow> (if e = ErrNotFound then Inr None else Inl e, s)
      | (Inr x, s) \<Rightarrow> (Inr (Some (mk_machine x)), s))"

definition ListMachines :: "list_option list \<Rightarrow> store \<Rightarrow> (machine list \<times> int) res" where
  "ListMachines opts s =
     (case ListResources ''machine'' (newListOptions opts) s of
        (Inl e, s) \<Rightarrow> (Inl e, s)
      | (Inr (items, n), s) \<Rightarrow> (Inr (map mk_machine items, n), s))"

definition FindMachineByBindingToken :: "string \<Rightarrow> store \<Rightarrow> machine option res" where
  "FindMachineByBindingToken token s =
     (if token = [] then (Inr None, s)
      else (case ListMachines [] s of
              (Inl e, s) \<Rightarrow> (Inl e, s)
            | (Inr (machines, _), s) \<Rightarrow> (Inr (find (\<lambda>m. ms_bindingToken (m_spec m) = token) machines), s)))"

definition ListMachinesByTenant :: "string \<Rightarrow> list_option list \<Rightarrow> store \<Rightarrow> (machine list \<times> int) res" where
  "ListMachinesByTenant tn opts s = ListMachines (opts @ [WithLabelSelector (tenantSelector tn)]) s"

definition UpdateMachineSpec :: "string \<Rightarrow> int \<Rightarrow> machine_spec \<Rightarrow> gomap \<Rightarrow> gomap \<Rightarrow> store \<Rightarrow> machine res" where
  "UpdateMachineSpec ident currentVersion spec labels annotations s =
     (case UpdateResource ''machine'' ident currentVersion (enc_machine_spec spec) labels annotations s of
        (Inl e, s) \<Rightarrow> (Inl e, s)
      | (Inr md, s) \<Rightarrow>
          (case GetResource ''machine'' ident s of (got, s) \<Rightarrow>
             (Inr \<lparr>m_metadata = md, m_spec = spec,
                m_status = (case got of Inl _ \<Rightarrow> dec_machine_status JNull
                                      | Inr (_, _, status) \<Rightarrow> dec_machine_status status)\<rparr>, s)))"

definition UpdateMachineStatus :: "string \<Rightarrow> machine_status \<Rightarrow> store \<Rightarrow> machine res" where
  "UpdateMachineStatus ident status s =
     (case UpdateStatus ''machine'' ident (enc_machine_status status) s of
        (Inl e, s) \<Rightarrow> (Inl e, s)
      | (Inr md, s) \<Rightarrow>
          (case GetResource ''machine'' ident s of (got, s) \<Rightarrow>
             (Inr \<lparr>m_metadata = md,
                m_spec = (case got of Inl _ \<Rightarrow> dec_machine_spec JNull
                                    | Inr (_, spec, _) \<Rightarrow> dec_machine_spec spec),
                m_status = status\<rparr>, s)))"

definition DeleteMachine :: "string \<Rightarrow> store \<Rightarrow> unit res" where
  "DeleteMachine ident s =
     (case DeleteResource ''machine'' ident s of
        (Inl e, s) \<Rightarrow> (Inl e, s)
      | (Inr _, s) \<Rightarrow>
          (Inr (), snd (AddFinalizer ''machine'' ident linkFinalizer
                     (snd (AddFinalizer ''machine'' ident configFinalizer s)))))"

section \<open>Provider operations\<close>

definition mk_provider :: "metadata \<times> json \<times> json \<Rightarrow> provider" where
  "mk_provider = (\<lambda>(md, spec, status).
     \<lparr>p_metadata = md, p_spec = dec_provider_spec spec, p_status = dec_provider_status status\<rparr>)"

definition GetProvider :: "string \<Rightarrow> store \<Rightarrow> provider option res" where
  "GetProvider pt s =
     (case GetResource ''provider'' pt s of
        (Inl e, s) \<Rightarrow> (if e = ErrNotFound then Inr None else Inl e, s)
      | (Inr x, s) \<Rightarrow> (Inr (Some (mk_provider x)), s))"

text \<open>An error of the lookup is discarded and leads to the creation branch, as in the source.\<close>

definition UpsertProvider :: "string \<Rightarrow> provider_spec \<Rightarrow> provider_status \<Rightarrow> gomap \<Rightarrow> store \<Rightarrow> provider res" where
  "UpsertProvider pt spec status labels s0 =
     (case GetProvider pt s0 of (got, s) \<Rightarrow>
        (case (case got of Inl _ \<Rightarrow> None | Inr existing \<Rightarrow> existing) of
           Some existing \<Rightarrow>
             (case UpdateStatus ''provider'' pt (enc_provider_status status) s of
                (Inl e, s) \<Rightarrow> (Inl e, s)
              | (Inr _, s) \<Rightarrow> (Inr (existing\<lparr>p_status := status\<rparr>), s))
         | None \<Rightarrow>
             (case CreateResource ''provider'' pt (enc_provider_spec spec) (enc_provider_status status) labels [] s of
                (Inl e, s) \<Rightarrow> (Inl e, s)
              | (Inr md, s) \<Rightarrow> (Inr \<lparr>p_metadata = md, p_spec = spec, p_status = status\<rparr>, s))))"

definition ListProviders :: "store \<Rightarrow> provider list res" where
  "ListProviders s =
     (case ListResources ''provider'' noOptions s of
        (Inl e, s) \<Rightarrow> (Inl e, s)
      | (Inr (items, _), s) \<Rightarrow> (Inr (map mk_provider items), s))"

section \<open>User operations\<close>

definition mk_user :: "metadata \<times> json \<times> json \<Rightarrow> user" where
  "mk_user = (\<lambda>(md, spec, status).
     \<lparr>u_metadata = md, u_spec = dec_user_spec spec, u_status = dec_user_status status\<rparr>)"

definition CreateUser :: "string \<Rightarrow> user_spec \<Rightarrow> store \<Rightarrow> user res" where
  "CreateUser name spec s =
     (let status = dec_user_status JNull in
      (case CreateResource ''user'' name (enc_user_spec spec) (enc_user_status status) [] [] s of
         (Inl e, s) \<Rightarrow> (Inl e, s)
       | (Inr md, s) \<Rightarrow> (Inr \<lparr>u_metadata = md, u_spec = spec, u_status = status\<rparr>, s)))"

definition GetUser :: "string \<Rightarrow> store \<Rightarrow> user option res" where
  "GetUser name s =
     (case GetResource ''user'' name s of
        (Inl e, s) \<Rightarrow> (if e = ErrNotFound then Inr None else Inl e, s)
      | (Inr x, s) \<Rightarrow> (Inr (Some (mk_user x)), s))"

definition ListUsers :: "store \<Rightarrow> user list res" where
  "ListUsers s =
     (case ListResources ''user'' noOptions s of
        (Inl e, s) \<Rightarrow> (Inl e, s)
      | (Inr (items, _), s) \<Rightarrow> (Inr (map mk_user items), s))"

definition UpdateUser :: "string \<Rightarrow> int \<Rightarrow> user_spec \<Rightarrow> store \<Rightarrow> user res" where
  "UpdateUser name currentVersion spec s =
     (case UpdateResource ''user'' name currentVersion (enc_user_spec spec) [] [] s of
        (Inl e, s) \<Rightarrow> (Inl e, s)
      | (Inr md, s) \<Rightarrow>
          (case GetResource ''user'' name s of (got, s) \<Rightarrow>
             (Inr \<lparr>u_metadata = md, u_spec = spec,
                u_status = (case got of Inl _ \<Rightarrow> dec_user_status JNull
                                      | Inr (_, _, status) \<Rightarrow> dec_user_status status)\<rparr>, s)))"

definition DeleteUser :: "string \<Rightarrow> store \<Rightarrow> unit res" where
  "DeleteUser name s = RemoveResource ''user'' name s"

text \<open>The timestamp is written in RFC 3339 form, which has whole seconds, and \<^verbatim>\<open>updated_at\<close> stays.\<close>

definition UpdateUserLastLogin :: "string \<Rightarrow> store \<Rightarrow> unit res" where
  "UpdateUserLastLogin name s0 =
     (case sql s0 of (ok, s) \<Rightarrow>
        if \<not> ok then (Inl (ErrSQL []), s)
        else (Inr (), upd_row ''user'' name
          (\<lambda>r. r\<lparr>r_status := json_set (engine s) (r_status r) ''$.lastLogin''
                   (JTime (clock s - clock s mod second))\<rparr>) s))"

section \<open>API tokens\<close>

definition GetAPIToken :: "string \<Rightarrow> store \<Rightarrow> api_token option res" where
  "GetAPIToken ident s0 =
     (case sql s0 of (ok, s) \<Rightarrow>
        if \<not> ok then (Inl (ErrSQL ''get api token''), s)
        else (Inr (tbl_get at_id (api_tokens s) ident), s))"

definition CreateAPIToken :: "string \<Rightarrow> string \<Rightarrow> string \<Rightarrow> gotime option \<Rightarrow> store \<Rightarrow> api_token option res" where
  "CreateAPIToken ident userName tokenHash expiresAt s0 =
     (case sql s0 of (ok, s) \<Rightarrow>
        if \<not> ok \<or> tbl_get at_id (api_tokens s) ident \<noteq> None then (Inl (ErrSQL ''insert api token''), s)
        else GetAPIToken ident
          (s\<lparr>api_tokens := tbl_ins \<lparr>at_id = ident, at_userName = userName, at_tokenHash = tokenHash,
               at_expiresAt = expiresAt, at_createdAt = clock s, at_lastUsed = None\<rparr> (api_tokens s)\<rparr>))"

definition ListAPITokens :: "string \<Rightarrow> store \<Rightarrow> api_token list res" where
  "ListAPITokens userName s0 =
     (case sql s0 of (ok, s) \<Rightarrow>
        if \<not> ok then (Inl (ErrSQL ''list api tokens''), s)
        else (Inr (sort_key (\<lambda>t. - at_createdAt t)
               (filter (\<lambda>t. userName = [] \<or> at_userName t = userName) (api_tokens s))), s))"

definition LookupAPITokenByHash :: "string \<Rightarrow> store \<Rightarrow> api_token option res" where
  "LookupAPITokenByHash tokenHash s0 =
     (case sql s0 of (ok, s) \<Rightarrow>
        if \<not> ok then (Inl (ErrSQL ''lookup api token''), s)
        else (Inr (find (\<lambda>t. at_tokenHash t = tokenHash) (api_tokens s)), s))"

definition TouchAPIToken :: "string \<Rightarrow> store \<Rightarrow> unit res" where
  "TouchAPIToken ident s0 =
     (case sql s0 of (ok, s) \<Rightarrow>
        if \<not> ok then (Inl (ErrSQL []), s)
        else (Inr (), s\<lparr>api_tokens := tbl_upd at_id ident (\<lambda>t. t\<lparr>at_lastUsed := Some (clock s)\<rparr>) (api_tokens s)\<rparr>))"

definition DeleteAPIToken :: "string \<Rightarrow> store \<Rightarrow> unit res" where
  "DeleteAPIToken ident s0 =
     (case sql s0 of (ok, s) \<Rightarrow>
        if \<not> ok then (Inl (ErrSQL ''delete api token''), s)
        else if tbl_get at_id (api_tokens s) ident = None then (Inl ErrNotFound, s)
        else (Inr (), s\<lparr>api_tokens := tbl_del at_id ident (api_tokens s)\<rparr>))"

section \<open>Typed lists\<close>

text \<open>\<^verbatim>\<open>ListTyped\<close>: a row whose \<open>build\<close> fails is skipped, and still counted in the total.\<close>

definition ListTyped ::
  "string \<Rightarrow> list_options \<Rightarrow> (metadata \<Rightarrow> json \<Rightarrow> json \<Rightarrow> 'a option) \<Rightarrow> store \<Rightarrow> ('a list \<times> int) res" where
  "ListTyped rt opts build s =
     (case ListResources rt opts s of
        (Inl e, s) \<Rightarrow> (Inl e, s)
      | (Inr (items, n), s) \<Rightarrow>
          (Inr (List.map_filter (\<lambda>(md, spec, status). build md spec status) items, n), s))"

definition ListTypedByTenant ::
  "string \<Rightarrow> string \<Rightarrow> (metadata \<Rightarrow> json \<Rightarrow> json \<Rightarrow> 'a option) \<Rightarrow> store \<Rightarrow> ('a list \<times> int) res" where
  "ListTypedByTenant rt tn build s =
     ListTyped rt (noOptions\<lparr>lo_labelSelector := tenantSelector tn\<rparr>) build s"

end
