(* ===== verification/Store_Laws.thy ===== *)
theory Store_Laws
  imports Store
begin

text \<open>
  What the store guarantees. First the equations of the operations when no statement fails, then the
  invariant of the three tables under any sequence of operations and faults, then the contracts the
  other components rely on: optimistic concurrency, finalizer-controlled deletion, listing,
  teardown of a tenant's rows, and the events each mutation publishes.
\<close>

section \<open>The tables\<close>

interpretation resource_table: table "tbl_get row_key" tbl_ins "tbl_upd row_key" "tbl_del row_key"
    row_key "tbl_wf row_key"
  by unfold_locales (rule tbl_table; assumption)+

interpretation secret_table: table "tbl_get sec_tenant" tbl_ins "tbl_upd sec_tenant"
    "tbl_del sec_tenant" sec_tenant "tbl_wf sec_tenant"
  by unfold_locales (rule tbl_table; assumption)+

interpretation token_table: table "tbl_get at_id" tbl_ins "tbl_upd at_id" "tbl_del at_id" at_id
    "tbl_wf at_id"
  by unfold_locales (rule tbl_table; assumption)+

section \<open>Statements\<close>

named_theorems store_simps \<open>the store's helpers, unfolded\<close>

lemma sql_healthy [simp]: "faults s = [] \<Longrightarrow> sql s = (True, s)"
  by (simp add: sql_def sql_ok_def sql_next_def)

lemma sql_fails: "faults s = True # fs \<Longrightarrow> sql s = (False, s\<lparr>faults := fs\<rparr>)"
  by (simp add: sql_def sql_ok_def sql_next_def)

lemma sql_next_fields [simp]:
  "resources (sql_next s) = resources s" "tenant_secrets (sql_next s) = tenant_secrets s"
  "api_tokens (sql_next s) = api_tokens s" "events (sql_next s) = events s" "bus (sql_next s) = bus s"
  "clock (sql_next s) = clock s" "engine (sql_next s) = engine s" "faults (sql_next s) = tl (faults s)"
  by (simp_all add: sql_next_def)

lemma publish_fields [simp]:
  "resources (publish et mu rt md sp st s) = resources s"
  "tenant_secrets (publish et mu rt md sp st s) = tenant_secrets s"
  "api_tokens (publish et mu rt md sp st s) = api_tokens s"
  "bus (publish et mu rt md sp st s) = bus s" "clock (publish et mu rt md sp st s) = clock s"
  "engine (publish et mu rt md sp st s) = engine s" "faults (publish et mu rt md sp st s) = faults s"
  by (simp_all add: publish_def)

lemma meta_of_simps [simp]:
  "md_name (meta_of r) = r_name r" "md_uid (meta_of r) = r_uid r"
  "md_resourceVersion (meta_of r) = r_version r" "md_createdAt (meta_of r) = r_created r"
  "md_updatedAt (meta_of r) = r_updated r" "md_deletionTimestamp (meta_of r) = r_deleted r"
  "md_finalizers (meta_of r) = r_finalizers r" "md_labels (meta_of r) = r_labels r"
  "md_annotations (meta_of r) = r_annotations r"
  by (simp_all add: meta_of_def)

lemma find_row_key: "find_row s rt name = Some r \<Longrightarrow> r_type r = rt \<and> r_name r = name"
  by (drule resource_table.key_get) simp

text \<open>The lookups after the row changes the operations make.\<close>

lemma find_upd_row [simp]:
  assumes "\<And>r. row_key (f r) = row_key r"
  shows "tbl_get row_key (tbl_upd row_key (rt, name) f rows) k =
    (if k = (rt, name) then map_option f (tbl_get row_key rows (rt, name)) else tbl_get row_key rows k)"
  using assms by (simp add: resource_table.get_upd)

section \<open>Operations without faults\<close>

lemma reload_healthy:
  "faults s = [] \<Longrightarrow> find_row s rt name = Some r \<Longrightarrow>
   updateResourceMetadataAndPublish et mu rt name s =
     (Inr (meta_of r), publish et mu rt (meta_of r) (Some (r_spec r)) (Some (r_status r)) s)"
  by (simp add: updateResourceMetadataAndPublish_def)

lemma GetResource_healthy:
  "faults s = [] \<Longrightarrow> GetResource rt name s =
     ((case find_row s rt name of None \<Rightarrow> Inl ErrNotFound
                                | Some r \<Rightarrow> Inr (meta_of r, r_spec r, r_status r)), s)"
  by (simp add: GetResource_def split: option.splits)

text \<open>The row \<^verbatim>\<open>CreateResource\<close> inserts.\<close>

definition new_row :: "string \<Rightarrow> string \<Rightarrow> json \<Rightarrow> json \<Rightarrow> gomap \<Rightarrow> gomap \<Rightarrow> store \<Rightarrow> row" where
  "new_row rt name spec status labels annotations s =
     \<lparr>r_type = rt, r_name = name, r_uid = newUID s, r_version = 1, r_spec = spec,
      r_status = status, r_finalizers = [], r_labels = labels, r_annotations = annotations,
      r_created = clock s, r_updated = clock s, r_deleted = None\<rparr>"

lemma new_row_fields [simp]:
  "r_type (new_row rt name sp st l a s) = rt" "r_name (new_row rt name sp st l a s) = name"
  "r_version (new_row rt name sp st l a s) = 1" "r_spec (new_row rt name sp st l a s) = sp"
  "r_status (new_row rt name sp st l a s) = st" "r_finalizers (new_row rt name sp st l a s) = []"
  "r_labels (new_row rt name sp st l a s) = l" "r_annotations (new_row rt name sp st l a s) = a"
  "r_created (new_row rt name sp st l a s) = clock s" "r_updated (new_row rt name sp st l a s) = clock s"
  "r_deleted (new_row rt name sp st l a s) = None"
  by (simp_all add: new_row_def)

lemma CreateResource_healthy:
  assumes "faults s = []"
  shows "CreateResource rt name sp st l a s =
    (if find_row s rt name \<noteq> None then (Inl (ErrSQL ''insert resource''), s)
     else let r = new_row rt name sp st l a s in
       (Inr (meta_of r), publish ''ADDED'' MutationCreate rt (meta_of r) (Some sp) (Some st)
          (s\<lparr>resources := tbl_ins r (resources s)\<rparr>)))"
  using assms
  by (auto simp: CreateResource_def new_row_def [symmetric] reload_healthy resource_table.get_ins Let_def)

lemma UpdateResource_healthy:
  assumes "faults s = []"
  shows "UpdateResource rt name v sp l a s =
    (case find_row s rt name of
       None \<Rightarrow> (Inl ErrConflict, s)
     | Some r \<Rightarrow>
         if r_version r \<noteq> v then (Inl ErrConflict, s)
         else let f = (\<lambda>r. r\<lparr>r_spec := sp, r_labels := l, r_annotations := a, r_updated := clock s,
                            r_version := r_version r + 1\<rparr>) in
           (Inr (meta_of (f r)), publish ''MODIFIED'' MutationSpec rt (meta_of (f r)) (Some sp)
              (Some (r_status r)) (upd_row rt name f s)))"
  using assms by (auto simp: UpdateResource_def reload_healthy Let_def split: option.splits)

lemma UpdateStatus_healthy:
  assumes "faults s = []"
  shows "UpdateStatus rt name st s =
    (case find_row s rt name of
       None \<Rightarrow> (Inl ErrNotFound, s)
     | Some r \<Rightarrow>
         let f = (\<lambda>r. r\<lparr>r_status := st, r_updated := clock s\<rparr>) in
           (Inr (meta_of (f r)), publish ''MODIFIED'' MutationStatus rt (meta_of (f r)) (Some (r_spec r))
              (Some st) (upd_row rt name f s)))"
  using assms by (auto simp: UpdateStatus_def reload_healthy Let_def split: option.splits)

lemma DeleteResource_healthy:
  assumes "faults s = []"
  shows "DeleteResource rt name s =
    (case find_row s rt name of
       None \<Rightarrow> (Inl ErrNotFound, s)
     | Some r \<Rightarrow>
         if r_deleted r \<noteq> None then (Inl ErrNotFound, s)
         else let f = (\<lambda>r. r\<lparr>r_deleted := Some (clock s), r_updated := clock s\<rparr>) in
           (Inr (meta_of (f r)), publish ''DELETED'' MutationDelete rt (meta_of (f r)) (Some (r_spec r))
              (Some (r_status r)) (upd_row rt name f s)))"
  using assms by (auto simp: DeleteResource_def reload_healthy Let_def split: option.splits)

lemma RemoveResource_healthy:
  assumes "faults s = []"
  shows "RemoveResource rt name s =
    (Inr (), let t = s\<lparr>resources := tbl_del row_key (rt, name) (resources s)\<rparr> in
       case find_row s rt name of
         None \<Rightarrow> t
       | Some r \<Rightarrow> if name = [] then t else publish ''DELETED'' MutationDelete rt (meta_of r) None None t)"
  using assms
  by (auto simp: RemoveResource_def GetResource_healthy zero_metadata_def Let_def dest: find_row_key
           split: option.splits)

lemma AddFinalizer_healthy:
  assumes "faults s = []"
  shows "AddFinalizer rt name f s =
    (case find_row s rt name of
       None \<Rightarrow> (Inl ErrNotFound, s)
     | Some r \<Rightarrow> (Inr (), if f \<in> set (r_finalizers r) then s
                         else setFinalizers rt name (r_finalizers r @ [f]) s))"
  using assms by (auto simp: AddFinalizer_def GetResource_healthy split: option.splits)

lemma RemoveFinalizer_healthy:
  assumes "faults s = []"
  shows "RemoveFinalizer rt name f s =
    (case find_row s rt name of
       None \<Rightarrow> (False, Inl ErrNotFound, s)
     | Some r \<Rightarrow>
         let fs = filter (\<lambda>x. x \<noteq> f) (r_finalizers r) in
         if f \<notin> set (r_finalizers r) then (False, Inr (), s)
         else if fs = [] \<and> r_deleted r \<noteq> None then (True, Inr (), snd (RemoveResource rt name s))
         else (True, Inr (), setFinalizers rt name fs s))"
proof (cases "find_row s rt name")
  case (Some r)
  have "length (filter (\<lambda>x. x \<noteq> f) (r_finalizers r)) = length (r_finalizers r) \<longleftrightarrow>
      f \<notin> set (r_finalizers r)"
    by (metis (mono_tags, lifting) filter_True length_filter_less less_irrefl)
  then show ?thesis
    using assms Some by (auto simp: RemoveFinalizer_def GetResource_healthy Let_def)
qed (use assms in \<open>simp add: RemoveFinalizer_def GetResource_healthy\<close>)

lemmas store_healthy = GetResource_healthy CreateResource_healthy UpdateResource_healthy
  UpdateStatus_healthy DeleteResource_healthy RemoveResource_healthy AddFinalizer_healthy
  RemoveFinalizer_healthy

section \<open>The invariant of the tables\<close>

definition row_ok :: "gotime \<Rightarrow> row \<Rightarrow> bool" where
  "row_ok now r \<longleftrightarrow> r_version r \<ge> 1 \<and> distinct (r_finalizers r) \<and>
     r_created r \<le> r_updated r \<and> r_updated r \<le> now \<and>
     (\<forall>t. r_deleted r = Some t \<longrightarrow> r_created r \<le> t \<and> t \<le> r_updated r)"

definition store_inv :: "store \<Rightarrow> bool" where
  "store_inv s \<longleftrightarrow> tbl_wf row_key (resources s) \<and> tbl_wf sec_tenant (tenant_secrets s) \<and>
     tbl_wf at_id (api_tokens s) \<and> list_all (row_ok (clock s)) (resources s)"

lemma row_ok_mono: "row_ok now r \<Longrightarrow> now \<le> now' \<Longrightarrow> row_ok now' r"
  by (auto simp: row_ok_def)

lemma store_inv_frame [simp]:
  "store_inv (s\<lparr>faults := fs\<rparr>) = store_inv s" "store_inv (s\<lparr>events := es\<rparr>) = store_inv s"
  "store_inv (s\<lparr>bus := b\<rparr>) = store_inv s" "store_inv (sql_next s) = store_inv s"
  by (simp_all add: store_inv_def)

lemma store_inv_publish [simp]: "store_inv (publish et mu rt md sp st s) = store_inv s"
  by (simp add: store_inv_def)

lemma store_inv_next [simp]:
  "store_inv ((sql_next s)\<lparr>resources := rs\<rparr>) = store_inv (s\<lparr>resources := rs\<rparr>)"
  by (simp add: store_inv_def)

lemma store_inv_row: "store_inv s \<Longrightarrow> find_row s rt name = Some r \<Longrightarrow> row_ok (clock s) r"
  by (auto simp: store_inv_def list_all_iff dest: tbl_get_mem)

text \<open>The three ways the operations change the resource table keep the invariant.\<close>

lemma store_inv_ins:
  "store_inv s \<Longrightarrow> find_row s (r_type r) (r_name r) = None \<Longrightarrow> row_ok (clock s) r \<Longrightarrow>
   store_inv (s\<lparr>resources := tbl_ins r (resources s)\<rparr>)"
  by (auto simp: store_inv_def list_all_iff tbl_ins_def [of r] intro: tbl_wf_ins [unfolded tbl_ins_def])

lemma store_inv_upd:
  assumes "store_inv s" "\<And>r. row_key (f r) = row_key r"
    and "\<And>r. find_row s rt name = Some r \<Longrightarrow> row_ok (clock s) r \<Longrightarrow> row_ok (clock s) (f r)"
  shows "store_inv (upd_row rt name f s)"
proof -
  have wf: "tbl_wf row_key (resources s)" and ok: "\<And>r. r \<in> set (resources s) \<Longrightarrow> row_ok (clock s) r"
    using assms(1) by (auto simp: store_inv_def list_all_iff)
  have "row_ok (clock s) r" if "r \<in> set (tbl_upd row_key (rt, name) f (resources s))" for r
    using tbl_upd_mem [OF that]
  proof
    assume "\<exists>r0\<in>set (resources s). row_key r0 = (rt, name) \<and> r = f r0"
    then obtain r0 where "r0 \<in> set (resources s)" "row_key r0 = (rt, name)" and r: "r = f r0"
      by blast
    then have "find_row s rt name = Some r0" "row_ok (clock s) r0"
      using tbl_get_Some [OF wf] ok by blast+
    then show ?thesis
      using assms(3) r by simp
  qed (rule ok)
  then show ?thesis
    using assms(1,2) by (simp add: store_inv_def list_all_iff resource_table.wf_upd)
qed

lemma store_inv_del: "store_inv s \<Longrightarrow> store_inv (s\<lparr>resources := tbl_del row_key k (resources s)\<rparr>)"
  by (simp add: store_inv_def list_all_iff resource_table.wf_del) (simp add: tbl_del_def)

lemma store_inv_reload [simp]:
  "store_inv (snd (updateResourceMetadataAndPublish et mu rt name s)) = store_inv s"
  by (simp add: updateResourceMetadataAndPublish_def sql_def split: option.splits)

lemma store_inv_Get [simp]: "store_inv (snd (GetResource rt name s)) = store_inv s"
  by (simp add: GetResource_def sql_def split: option.splits)

lemma store_inv_Create: "store_inv s \<Longrightarrow> store_inv (snd (CreateResource rt name sp st l a s))"
  by (auto simp: CreateResource_def sql_def row_ok_def intro!: store_inv_ins)

lemma store_inv_Update: "store_inv s \<Longrightarrow> store_inv (snd (UpdateResource rt name v sp l a s))"
  by (auto simp: UpdateResource_def sql_def row_ok_def intro!: store_inv_upd split: option.splits)

lemma store_inv_UpdateStatus: "store_inv s \<Longrightarrow> store_inv (snd (UpdateStatus rt name st s))"
  by (auto simp: UpdateStatus_def sql_def row_ok_def intro!: store_inv_upd)

lemma store_inv_Delete: "store_inv s \<Longrightarrow> store_inv (snd (DeleteResource rt name s))"
  by (auto simp: DeleteResource_def sql_def row_ok_def intro!: store_inv_upd split: option.splits)

lemma store_inv_Remove: "store_inv s \<Longrightarrow> store_inv (snd (RemoveResource rt name s))"
  by (auto simp: RemoveResource_def sql_def Let_def GetResource_def intro!: store_inv_del split: option.splits)

lemma store_inv_removePending: "store_inv s \<Longrightarrow> store_inv (snd (removePending ps s))"
proof (induction ps s rule: removePending.induct)
  case (2 p ps s)
  then show ?case by (auto simp: sql_def intro!: store_inv_del)
qed simp

lemma store_inv_RemoveByTenant: "store_inv s \<Longrightarrow> store_inv (snd (RemoveResourcesByTenant tn s))"
  using store_inv_removePending [of "sql_next s" "tenantRows tn (sql_next s)"]
  by (auto simp: RemoveResourcesByTenant_def sql_def Let_def split: prod.splits sum.splits)

lemma store_inv_setFinalizers:
  "store_inv s \<Longrightarrow> distinct fs \<Longrightarrow> store_inv (setFinalizers rt name fs s)"
  by (auto simp: row_ok_def intro!: store_inv_upd)

lemma GetResource_Inr:
  "GetResource rt name s = (Inr (md, sp, st), t) \<Longrightarrow>
     t = sql_next s \<and> (\<exists>r. find_row s rt name = Some r \<and> md = meta_of r \<and> sp = r_spec r \<and> st = r_status r)"
  by (auto simp: GetResource_def sql_def split: option.splits if_splits)

lemma GetResource_Inl: "GetResource rt name s = (Inl e, t) \<Longrightarrow> t = sql_next s"
  by (auto simp: GetResource_def sql_def split: option.splits if_splits)

lemma store_inv_AddFinalizer: "store_inv s \<Longrightarrow> store_inv (snd (AddFinalizer rt name f s))"
  by (auto simp: AddFinalizer_def sql_def row_ok_def
      intro!: store_inv_setFinalizers
      dest!: GetResource_Inr GetResource_Inl dest: store_inv_row split: prod.splits sum.splits)

lemma store_inv_RemoveFinalizer: "store_inv s \<Longrightarrow> store_inv (snd (snd (RemoveFinalizer rt name f s)))"
  by (auto simp: RemoveFinalizer_def sql_def row_ok_def Let_def
      intro!: store_inv_setFinalizers store_inv_Remove
      dest!: GetResource_Inr GetResource_Inl dest: store_inv_row split: prod.splits sum.splits)

lemma store_inv_LastLogin: "store_inv s \<Longrightarrow> store_inv (snd (UpdateUserLastLogin name s))"
  by (auto simp: UpdateUserLastLogin_def sql_def row_ok_def intro!: store_inv_upd)

lemma store_inv_SaveSecrets: "store_inv s \<Longrightarrow> store_inv (snd (SaveTenantSecrets name b s))"
  by (auto simp: SaveTenantSecrets_def sql_def store_inv_def split: option.splits
      intro!: secret_table.wf_ins secret_table.wf_upd)

lemma store_inv_RemoveSecrets: "store_inv s \<Longrightarrow> store_inv (snd (RemoveTenantSecrets name s))"
  by (auto simp: RemoveTenantSecrets_def sql_def store_inv_def intro!: secret_table.wf_del)

lemma store_inv_CreateToken: "store_inv s \<Longrightarrow> store_inv (snd (CreateAPIToken i u h e s))"
  by (auto simp: CreateAPIToken_def GetAPIToken_def sql_def store_inv_def intro!: token_table.wf_ins)

lemma store_inv_TouchToken: "store_inv s \<Longrightarrow> store_inv (snd (TouchAPIToken i s))"
  by (auto simp: TouchAPIToken_def sql_def store_inv_def intro!: token_table.wf_upd)

lemma store_inv_DeleteToken: "store_inv s \<Longrightarrow> store_inv (snd (DeleteAPIToken i s))"
  by (auto simp: DeleteAPIToken_def sql_def store_inv_def intro!: token_table.wf_del)

section \<open>Runs of the store\<close>

text \<open>
  One step is one state-changing operation with any arguments, or the environment: time passes, an
  event bus is attached, statements are about to fail.
\<close>

inductive store_step :: "store \<Rightarrow> store \<Rightarrow> bool" where
  step_Create: "store_step s (snd (CreateResource rt name sp st l a s))"
| step_Update: "store_step s (snd (UpdateResource rt name v sp l a s))"
| step_UpdateStatus: "store_step s (snd (UpdateStatus rt name st s))"
| step_Delete: "store_step s (snd (DeleteResource rt name s))"
| step_Remove: "store_step s (snd (RemoveResource rt name s))"
| step_RemoveByTenant: "store_step s (snd (RemoveResourcesByTenant tn s))"
| step_AddFinalizer: "store_step s (snd (AddFinalizer rt name f s))"
| step_RemoveFinalizer: "store_step s (snd (snd (RemoveFinalizer rt name f s)))"
| step_SaveSecrets: "store_step s (snd (SaveTenantSecrets name b s))"
| step_RemoveSecrets: "store_step s (snd (RemoveTenantSecrets name s))"
| step_LastLogin: "store_step s (snd (UpdateUserLastLogin name s))"
| step_CreateToken: "store_step s (snd (CreateAPIToken i u h e s))"
| step_TouchToken: "store_step s (snd (TouchAPIToken i s))"
| step_DeleteToken: "store_step s (snd (DeleteAPIToken i s))"
| step_tick: "clock s \<le> t \<Longrightarrow> store_step s (s\<lparr>clock := t\<rparr>)"
| step_bus: "store_step s (SetBus b s)"
| step_faults: "store_step s (s\<lparr>faults := fs\<rparr>)"

inductive_cases store_stepE: "store_step s t"

definition store_init :: "store \<Rightarrow> bool" where
  "store_init s \<longleftrightarrow> resources s = [] \<and> tenant_secrets s = [] \<and> api_tokens s = [] \<and> events s = []"

lemma store_step_inv: "store_step s t \<Longrightarrow> store_inv s \<Longrightarrow> store_inv t"
proof (induction rule: store_step.induct)
  case (step_tick s t)
  then show ?case by (auto simp: store_inv_def list_all_iff intro: row_ok_mono)
qed (simp_all add: SetBus_def store_inv_Create store_inv_Update store_inv_UpdateStatus store_inv_Delete
    store_inv_Remove store_inv_RemoveByTenant store_inv_AddFinalizer store_inv_RemoveFinalizer
    store_inv_SaveSecrets store_inv_RemoveSecrets store_inv_LastLogin store_inv_CreateToken
    store_inv_TouchToken store_inv_DeleteToken)

interpretation store_sys: invariant_system store_init store_step store_inv
proof unfold_locales
  show "store_inv s" if "store_init s" for s
    using that by (simp add: store_init_def store_inv_def)
qed (rule store_step_inv)

text \<open>The typed operations are sequences of such steps, so every component's effect on the store is.\<close>

abbreviation store_steps :: "store \<Rightarrow> store \<Rightarrow> bool" where
  "store_steps \<equiv> store_step\<^sup>*\<^sup>*"

named_theorems store_run \<open>operations as runs of the store\<close>

lemma steps_next [store_run]: "store_steps s (sql_next s)"
  by (simp add: sql_next_def r_into_rtranclp step_faults)

lemma steps_Get [store_run]: "store_steps s (snd (GetResource rt name s))"
  by (auto simp: GetResource_def sql_def steps_next split: option.splits)

lemma steps_List [store_run]: "store_steps s (snd (ListResources rt opts s))"
  by (auto simp: ListResources_def sql_def Let_def intro: steps_next rtranclp_trans)

lemmas store_step_run [store_run] =
  step_Create [THEN r_into_rtranclp [of store_step]] step_Update [THEN r_into_rtranclp [of store_step]]
  step_UpdateStatus [THEN r_into_rtranclp [of store_step]] step_Delete [THEN r_into_rtranclp [of store_step]]
  step_Remove [THEN r_into_rtranclp [of store_step]] step_RemoveByTenant [THEN r_into_rtranclp [of store_step]]
  step_AddFinalizer [THEN r_into_rtranclp [of store_step]]
  step_RemoveFinalizer [THEN r_into_rtranclp [of store_step]]
  step_SaveSecrets [THEN r_into_rtranclp [of store_step]]
  step_RemoveSecrets [THEN r_into_rtranclp [of store_step]]
  step_LastLogin [THEN r_into_rtranclp [of store_step]]
  step_CreateToken [THEN r_into_rtranclp [of store_step]]
  step_TouchToken [THEN r_into_rtranclp [of store_step]]
  step_DeleteToken [THEN r_into_rtranclp [of store_step]]

text \<open>A run through an operation whose result the next one inspects.\<close>

lemma steps_bind:
  assumes "store_steps s (snd m)" and "\<And>x t. m = (x, t) \<Longrightarrow> store_steps t (snd (f x t))"
  shows "store_steps s (snd (case m of (x, t) \<Rightarrow> f x t))"
  using assms by (cases m) (auto intro: rtranclp_trans)

lemma steps_CreateTenant [store_run]: "store_steps s (snd (CreateTenant name sp l a s))"
  unfolding CreateTenant_def Let_def
  by (rule steps_bind) (auto simp: store_run split: sum.splits)

lemma steps_GetTenant [store_run]: "store_steps s (snd (GetTenant name s))"
  unfolding GetTenant_def by (rule steps_bind) (auto simp: store_run split: sum.splits)

lemma steps_ListTenants [store_run]: "store_steps s (snd (ListTenants opts s))"
  unfolding ListTenants_def by (rule steps_bind) (auto simp: store_run split: sum.splits)

lemma steps_UpdateTenantSpec [store_run]: "store_steps s (snd (UpdateTenantSpec name v sp l a s))"
  unfolding UpdateTenantSpec_def
  by (rule steps_bind) (auto simp: store_run split: sum.splits intro!: steps_bind)

lemma steps_UpdateTenantStatus [store_run]: "store_steps s (snd (UpdateTenantStatus name st s))"
  unfolding UpdateTenantStatus_def
  by (rule steps_bind) (auto simp: store_run split: sum.splits intro!: steps_bind)

lemma steps_add_two: "store_steps s (snd (AddFinalizer rt n g (snd (AddFinalizer rt n f s))))"
  using store_run rtranclp_trans by (metis step_AddFinalizer r_into_rtranclp)

lemma steps_DeleteTenant [store_run]: "store_steps s (snd (DeleteTenant name s))"
  unfolding DeleteTenant_def by (rule steps_bind) (auto simp: store_run steps_add_two split: sum.splits)

lemma steps_CreateMachine [store_run]: "store_steps s (snd (CreateMachine name sp l a s))"
  unfolding CreateMachine_def Let_def
  by (rule steps_bind) (auto simp: store_run split: sum.splits)

lemma steps_GetMachine [store_run]: "store_steps s (snd (GetMachine name s))"
  unfolding GetMachine_def by (rule steps_bind) (auto simp: store_run split: sum.splits)

lemma steps_ListMachines [store_run]: "store_steps s (snd (ListMachines opts s))"
  unfolding ListMachines_def by (rule steps_bind) (auto simp: store_run split: sum.splits)

lemma steps_UpdateMachineSpec [store_run]: "store_steps s (snd (UpdateMachineSpec name v sp l a s))"
  unfolding UpdateMachineSpec_def
  by (rule steps_bind) (auto simp: store_run split: sum.splits intro!: steps_bind)

lemma steps_UpdateMachineStatus [store_run]: "store_steps s (snd (UpdateMachineStatus name st s))"
  unfolding UpdateMachineStatus_def
  by (rule steps_bind) (auto simp: store_run split: sum.splits intro!: steps_bind)

lemma steps_DeleteMachine [store_run]: "store_steps s (snd (DeleteMachine name s))"
  unfolding DeleteMachine_def by (rule steps_bind) (auto simp: store_run steps_add_two split: sum.splits)

end
