(* ===== verification/Store_Props.thy ===== *)
theory Store_Props
  imports Store_Laws
begin

text \<open>
  The contracts of the store: versions along a run and optimistic concurrency, finalizer-controlled
  deletion, listing, the teardown of a tenant's rows and the round trips of the typed operations.
\<close>

section \<open>Versions\<close>

definition keeps :: "store \<Rightarrow> store \<Rightarrow> string \<Rightarrow> string \<Rightarrow> bool" where
  "keeps s t rt name \<longleftrightarrow> find_row t rt name = None \<or> find_row t rt name = find_row s rt name"

lemma keeps_refl [simp]: "resources t = resources s \<Longrightarrow> keeps s t rt name"
  by (simp add: keeps_def)

lemma keeps_del: "resources t = tbl_del row_key k (resources s) \<Longrightarrow> keeps s t rt name"
  by (simp add: keeps_def resource_table.get_del)

lemma keeps_trans: "keeps s t rt name \<Longrightarrow> keeps t u rt name \<Longrightarrow> keeps s u rt name"
  by (auto simp: keeps_def)

lemma keeps_removePending: "keeps s (snd (removePending ps s)) rt name"
proof (induction ps arbitrary: s)
  case (Cons p ps)
  let ?t = "publish ''DELETED'' MutationDelete (r_type p) (meta_of p) None None
    ((sql_next s)\<lparr>resources := tbl_del row_key (row_key p) (resources s)\<rparr>)"
  have "keeps s ?t rt name"
    by (rule keeps_del [of _ "row_key p"]) simp
  then show ?case
    using Cons [of ?t] by (auto simp: sql_def intro: keeps_trans)
qed simp

lemma reload_resources [simp]:
  "resources (snd (updateResourceMetadataAndPublish et mu rt name s)) = resources s"
  by (simp add: updateResourceMetadataAndPublish_def sql_def split: option.splits)

lemma Get_resources [simp]: "resources (snd (GetResource rt name s)) = resources s"
  by (simp add: GetResource_def sql_def split: option.splits)

lemma keeps_RemoveByTenant: "keeps s (snd (RemoveResourcesByTenant tn s)) rt name"
  using keeps_removePending [of "sql_next s" "tenantRows tn (sql_next s)" rt name]
  by (auto simp: RemoveResourcesByTenant_def sql_def Let_def keeps_def split: prod.splits sum.splits)

lemma keeps_Remove: "keeps s (snd (RemoveResource rt' name' s)) rt name"
  by (auto simp: RemoveResource_def GetResource_def sql_def Let_def split: option.splits
      intro: keeps_del [of _ "(rt', name')"])

text \<open>No operation lowers the version of a row it leaves in place.\<close>

definition versions_le :: "store \<Rightarrow> store \<Rightarrow> string \<Rightarrow> string \<Rightarrow> bool" where
  "versions_le s t rt name \<longleftrightarrow> (case (find_row s rt name, find_row t rt name) of
     (Some r, Some r') \<Rightarrow> r_version r \<le> r_version r' | _ \<Rightarrow> True)"

lemma versions_le_same [simp]: "resources t = resources s \<Longrightarrow> versions_le s t rt name"
  by (simp add: versions_le_def split: option.splits)

lemma versions_le_keeps: "keeps s t rt name \<Longrightarrow> versions_le s t rt name"
  by (auto simp: versions_le_def keeps_def split: option.splits)

lemma versions_le_upd:
  "resources t = tbl_upd row_key (rt', name') f (resources s) \<Longrightarrow>
   (\<And>r. row_key (f r) = row_key r) \<Longrightarrow> (\<And>r. r_version r \<le> r_version (f r)) \<Longrightarrow> versions_le s t rt name"
  by (auto simp: versions_le_def split: option.splits)

lemma versions_le_ins:
  "resources t = tbl_ins r (resources s) \<Longrightarrow> find_row s (r_type r) (r_name r) = None \<Longrightarrow> versions_le s t rt name"
  by (auto simp: versions_le_def resource_table.get_ins split: option.splits)

lemma versions_le_AddFinalizer: "versions_le s (snd (AddFinalizer rt' name' f s)) rt name"
  by (auto simp: AddFinalizer_def sql_def versions_le_upd dest!: GetResource_Inr GetResource_Inl
      split: prod.splits sum.splits)

lemma versions_le_RemoveFinalizer: "versions_le s (snd (snd (RemoveFinalizer rt' name' f s))) rt name"
proof (cases "GetResource rt' name' s")
  case (Pair got t)
  have "versions_le s (snd (RemoveResource rt' name' (sql_next s))) rt name"
    using keeps_Remove [of "sql_next s" rt' name' rt name]
    by (intro versions_le_keeps) (simp add: keeps_def)
  then show ?thesis
    using Pair
    by (cases got) (auto simp: RemoveFinalizer_def sql_def Let_def versions_le_upd
      dest!: GetResource_Inr GetResource_Inl)
qed

lemma store_step_version: "store_step s t \<Longrightarrow> versions_le s t rt name"
proof (induction rule: store_step.induct)
  case (step_Create s rt' name' sp st l a)
  then show ?case by (auto simp: CreateResource_def sql_def intro: versions_le_ins)
next
  case (step_Update s rt' name' v sp l a)
  then show ?case
    by (auto simp: UpdateResource_def sql_def intro: versions_le_upd split: option.splits)
next
  case (step_UpdateStatus s rt' name' st)
  then show ?case by (auto simp: UpdateStatus_def sql_def intro: versions_le_upd)
next
  case (step_Delete s rt' name')
  then show ?case
    by (auto simp: DeleteResource_def sql_def intro: versions_le_upd split: option.splits)
next
  case (step_LastLogin s name')
  then show ?case by (auto simp: UpdateUserLastLogin_def sql_def intro: versions_le_upd)
qed (auto simp: versions_le_AddFinalizer versions_le_RemoveFinalizer SetBus_def SaveTenantSecrets_def
    RemoveTenantSecrets_def CreateAPIToken_def GetAPIToken_def TouchAPIToken_def DeleteAPIToken_def sql_def
    intro: versions_le_keeps [OF keeps_Remove] versions_le_keeps [OF keeps_RemoveByTenant])

text \<open>A run during which the resource is never removed.\<close>

definition alive_step :: "string \<Rightarrow> string \<Rightarrow> store \<Rightarrow> store \<Rightarrow> bool" where
  "alive_step rt name s t \<longleftrightarrow> store_step s t \<and> find_row t rt name \<noteq> None"

lemma alive_run_version:
  "(alive_step rt name)\<^sup>*\<^sup>* s t \<Longrightarrow> find_row s rt name = Some r \<Longrightarrow>
   \<exists>r'. find_row t rt name = Some r' \<and> r_version r \<le> r_version r'"
proof (induction rule: rtranclp_induct)
  case (step t u)
  then obtain r' where r': "find_row t rt name = Some r'" "r_version r \<le> r_version r'" by blast
  from step(2) have "store_step t u" and u: "find_row u rt name \<noteq> None" by (auto simp: alive_step_def)
  with store_step_version [of t u rt name] r' show ?case
    by (auto simp: versions_le_def)
qed simp

text \<open>
  C1: an update is accepted exactly when the caller's version is the stored one; it then raises the
  version by one, replaces spec, labels and annotations, keeps status, finalizers and deletion
  timestamp, changes no other row, and publishes one event. Otherwise it reports a conflict and the
  store is unchanged.
\<close>

theorem UpdateResource_optimistic:
  assumes "faults s = []"
  shows "case find_row s rt name of
      Some r \<Rightarrow>
        if r_version r = v then
          let t = snd (UpdateResource rt name v sp l a s);
              r' = r\<lparr>r_spec := sp, r_labels := l, r_annotations := a, r_updated := clock s,
                     r_version := v + 1\<rparr>
          in fst (UpdateResource rt name v sp l a s) = Inr (meta_of r') \<and>
             find_row t rt name = Some r' \<and>
             (\<forall>k. k \<noteq> (rt, name) \<longrightarrow> tbl_get row_key (resources t) k = tbl_get row_key (resources s) k) \<and>
             events t = events s @
               (if bus s then [\<lparr>ev_type = ''MODIFIED'', ev_mutation = MutationSpec, ev_resourceType = rt,
                  ev_metadata = meta_of r', ev_spec = Some sp, ev_status = Some (r_status r)\<rparr>] else [])
        else UpdateResource rt name v sp l a s = (Inl ErrConflict, s)
    | None \<Rightarrow> UpdateResource rt name v sp l a s = (Inl ErrConflict, s)"
proof (cases "find_row s rt name")
  case (Some r)
  then show ?thesis
    using assms by (auto simp: UpdateResource_healthy Let_def publish_def)
qed (use assms in \<open>simp add: UpdateResource_healthy\<close>)

text \<open>
  C2: no lost update. Once an update at version v has succeeded, every later update at the same
  version is refused for as long as the resource exists, whatever other operations, faults or
  clock changes come in between.
\<close>

theorem stale_update_refused:
  assumes "UpdateResource rt name v sp l a s = (Inr md, s1)"
    and "(alive_step rt name)\<^sup>*\<^sup>* s1 t"
    and "faults t = []"
  shows "UpdateResource rt name v sp' l' a' t = (Inl ErrConflict, t)"
proof -
  obtain r where r: "find_row s1 rt name = Some r" "r_version r = v + 1"
    using assms(1)
    by (auto simp: UpdateResource_def updateResourceMetadataAndPublish_def sql_def
        split: option.splits if_splits)
  from alive_run_version [OF assms(2) r(1)] r(2)
  obtain r' where "find_row t rt name = Some r'" "v + 1 \<le> r_version r'"
    by auto
  then show ?thesis
    using assms(3) by (simp add: store_healthy)
qed

section \<open>Deletion\<close>

text \<open>
  C3: removing a finalizer deletes the row exactly when the resource is marked for deletion and the
  finalizer is the only one left. Otherwise the row stays, with exactly that finalizer taken away.
\<close>

theorem RemoveFinalizer_deletes_iff:
  assumes "faults s = []" and "find_row s rt name = Some r"
  shows "let t = snd (snd (RemoveFinalizer rt name f s)) in
    (find_row t rt name = None \<longleftrightarrow> r_deleted r \<noteq> None \<and> set (r_finalizers r) = {f}) \<and>
    (\<forall>r'. find_row t rt name = Some r' \<longrightarrow>
       r_finalizers r' = filter (\<lambda>x. x \<noteq> f) (r_finalizers r) \<and> r_deleted r' = r_deleted r \<and>
       r_spec r' = r_spec r \<and> r_status r' = r_status r \<and> r_version r' = r_version r) \<and>
    (\<forall>k. k \<noteq> (rt, name) \<longrightarrow> tbl_get row_key (resources t) k = tbl_get row_key (resources s) k)"
proof -
  have *: "f \<in> set (r_finalizers r) \<and> filter (\<lambda>x. x \<noteq> f) (r_finalizers r) = [] \<longleftrightarrow>
      set (r_finalizers r) = {f}"
    by (auto simp: filter_empty_conv)
  have "f \<notin> set (r_finalizers r) \<Longrightarrow> filter (\<lambda>x. x \<noteq> f) (r_finalizers r) = r_finalizers r"
    by (auto simp: filter_id_conv)
  with * show ?thesis
    using assms
    by (auto simp: RemoveFinalizer_healthy RemoveResource_healthy Let_def resource_table.get_del)
qed

lemma listed_iff:
  "r \<in> set (listed rt sel s) \<longleftrightarrow>
     r \<in> set (resources s) \<and> r_type r = rt \<and> r_deleted r = None \<and> selects (engine s) sel (r_labels r)"
  by (auto simp: listed_def)

lemma set_page: "set (page off lim xs) \<subseteq> set xs"
  by (auto simp: page_def Let_def dest: in_set_takeD in_set_dropD)

text \<open>The row after \<^verbatim>\<open>DeleteTenant\<close>.\<close>

definition deleting_row :: "gotime \<Rightarrow> row \<Rightarrow> row" where
  "deleting_row now r = r\<lparr>r_deleted := Some now, r_updated := now,
     r_finalizers := r_finalizers r @
       filter (\<lambda>f. f \<notin> set (r_finalizers r)) [machinesFinalizer, secretsFinalizer]\<rparr>"

lemma DeleteTenant_row:
  assumes "faults s = []" and "find_row s ''tenant'' name = Some r" and "r_deleted r = None"
  shows "fst (DeleteTenant name s) = Inr ()"
    and "find_row (snd (DeleteTenant name s)) ''tenant'' name = Some (deleting_row (clock s) r)"
    and "faults (snd (DeleteTenant name s)) = []"
  using assms
  by (simp_all add: DeleteTenant_def DeleteResource_healthy AddFinalizer_healthy Let_def deleting_row_def)

lemma deleting_row_simps [simp]:
  "r_deleted (deleting_row now r) = Some now" "r_type (deleting_row now r) = r_type r"
  "r_name (deleting_row now r) = r_name r" "r_spec (deleting_row now r) = r_spec r"
  "r_status (deleting_row now r) = r_status r"
  by (simp_all add: deleting_row_def)

lemma listed_name:
  assumes "store_inv s" and "(md, sp, st) \<in> (\<lambda>r. (meta_of r, r_spec r, r_status r)) ` set (listed rt sel s)"
  shows "\<exists>r. find_row s rt (md_name md) = Some r \<and> r_deleted r = None \<and> md = meta_of r"
proof -
  from assms(2) obtain r where "r \<in> set (listed rt sel s)" "md = meta_of r" by auto
  moreover have "tbl_wf row_key (resources s)" using assms(1) by (simp add: store_inv_def)
  ultimately show ?thesis by (auto simp: listed_iff tbl_get_Some)
qed

lemma ListResources_healthy:
  "faults s = [] \<Longrightarrow> lo_limit opts > 0 \<or> lo_offset opts \<le> 0 \<Longrightarrow>
   ListResources rt opts s =
     (Inr (map (\<lambda>r. (meta_of r, r_spec r, r_status r))
        (page (lo_offset opts) (lo_limit opts) (sort_key r_name (listed rt (lo_labelSelector opts) s))),
       int (length (listed rt (lo_labelSelector opts) s))), s)"
  by (auto simp: ListResources_def Let_def)

lemma listed_next [simp]: "listed rt sel (sql_next s) = listed rt sel s"
  by (simp add: listed_def)

lemma ListResources_Inr:
  assumes "ListResources rt opts s = (Inr (items, n), t)"
  shows "items = map (\<lambda>r. (meta_of r, r_spec r, r_status r))
      (page (lo_offset opts) (lo_limit opts) (sort_key r_name (listed rt (lo_labelSelector opts) s)))"
    and "n = int (length (listed rt (lo_labelSelector opts) s))"
  using assms by (auto simp: ListResources_def sql_def Let_def split: if_splits)

lemma ListResources_mem:
  assumes "ListResources rt opts s = (Inr (items, n), t)" and "x \<in> set items"
  shows "x \<in> (\<lambda>r. (meta_of r, r_spec r, r_status r)) ` set (listed rt (lo_labelSelector opts) s)"
  using assms(2) set_page [of _ _ "sort_key r_name (listed rt (lo_labelSelector opts) s)"]
  unfolding ListResources_Inr(1) [OF assms(1)] by auto

lemma ListTenants_Inr:
  "ListTenants opts s = (Inr (ts, n), t) \<Longrightarrow>
   \<exists>items. ListResources ''tenant'' (newListOptions opts) s = (Inr (items, n), t) \<and> ts = map mk_tenant items"
  by (auto simp: ListTenants_def split: prod.splits sum.splits)

text \<open>
  C4: deleting a live tenant marks it with the current time and puts both teardown finalizers on it.
  It can still be read, no list shows it any more, and the row goes away only when both finalizers
  have been removed, in either order.
\<close>

theorem DeleteTenant_lifecycle:
  assumes "faults s = []" and "store_inv s" and "find_row s ''tenant'' name = Some r"
    and "r_deleted r = None" and "set (r_finalizers r) \<subseteq> {machinesFinalizer, secretsFinalizer}"
    and "f \<noteq> g" and "{f, g} = {machinesFinalizer, secretsFinalizer}"
  shows "let t = snd (DeleteTenant name s);
             t1 = snd (snd (RemoveFinalizer ''tenant'' name f t));
             t2 = snd (snd (RemoveFinalizer ''tenant'' name g t1))
    in fst (DeleteTenant name s) = Inr () \<and>
       find_row t ''tenant'' name = Some (deleting_row (clock s) r) \<and>
       fst (GetTenant name t) = Inr (Some (mk_tenant (meta_of (deleting_row (clock s) r), r_spec r, r_status r))) \<and>
       (\<forall>opts ts n u. ListTenants opts t = (Inr (ts, n), u) \<longrightarrow> name \<notin> (md_name \<circ> t_metadata) ` set ts) \<and>
       find_row t1 ''tenant'' name \<noteq> None \<and> find_row t2 ''tenant'' name = None"
proof -
  let ?t = "snd (DeleteTenant name s)"
  let ?t1 = "snd (snd (RemoveFinalizer ''tenant'' name f ?t))"
  note row = DeleteTenant_row [OF assms(1,3,4)]
  have inv: "store_inv ?t"
    using store_sys.steps_inv [OF steps_DeleteTenant] assms(2) by blast
  have fin: "set (r_finalizers (deleting_row (clock s) r)) = {f, g}"
    using assms(5,7) by (auto simp: deleting_row_def)
  have f1: "faults ?t1 = []"
    using row(2,3) fin assms(6)
    by (auto simp: RemoveFinalizer_healthy RemoveResource_healthy Let_def split: option.splits)
  note del1 = RemoveFinalizer_deletes_iff [OF row(3,2), of f, unfolded Let_def]
  have "find_row ?t1 ''tenant'' name \<noteq> None"
    using del1 fin assms(6) by auto
  then obtain r1 where r1: "find_row ?t1 ''tenant'' name = Some r1" by blast
  have "set (r_finalizers r1) = {g}" "r_deleted r1 \<noteq> None"
    using del1 r1 fin assms(6) by auto
  then have "find_row (snd (snd (RemoveFinalizer ''tenant'' name g ?t1))) ''tenant'' name = None"
    using RemoveFinalizer_deletes_iff [OF f1 r1, of g] by (simp add: Let_def)
  moreover have "name \<notin> (md_name \<circ> t_metadata) ` set ts"
    if lst: "ListTenants opts ?t = (Inr (ts, n), u)" for opts ts n u
  proof
    assume "name \<in> (md_name \<circ> t_metadata) ` set ts"
    moreover obtain items where "ListResources ''tenant'' (newListOptions opts) ?t = (Inr (items, n), u)"
      and "ts = map mk_tenant items"
      using ListTenants_Inr [OF lst] by blast
    ultimately obtain md sp st where "md_name md = name"
      and "(md, sp, st) \<in> (\<lambda>r. (meta_of r, r_spec r, r_status r)) `
             set (listed ''tenant'' (lo_labelSelector (newListOptions opts)) ?t)"
      by (fastforce simp: mk_tenant_def dest: ListResources_mem)
    from listed_name [OF inv this(2)] this(1) row(2) show False by simp
  qed
  ultimately show ?thesis
    using row r1 by (simp add: Let_def GetTenant_def GetResource_healthy) blast
qed

section \<open>Listing\<close>

lemma listed_names_distinct:
  "store_inv s \<Longrightarrow> distinct (map r_name (listed rt sel s))"
proof -
  assume "store_inv s"
  then have "distinct (map row_key (resources s))" by (simp add: store_inv_def tbl_wf_def)
  then have "inj_on row_key (set (resources s))" "distinct (resources s)"
    by (auto simp: distinct_map)
  then show ?thesis
    by (auto simp: listed_def distinct_map inj_on_def)
qed

lemma page_all [simp]: "page 0 0 xs = xs"
  by (simp add: page_def)

lemma page_map: "map f (page off lim xs) = page off lim (map f xs)"
  by (simp add: page_def take_map drop_map)

lemma pages_take:
  "0 < lim \<Longrightarrow> concat (map (\<lambda>i. page (int i * lim) lim xs) [0..<k]) = take (k * nat lim) xs"
proof (induction k)
  case (Suc k)
  have "page (int k * lim) lim xs = take (nat lim) (drop (k * nat lim) xs)"
    using Suc.prems by (cases "k = 0") (simp_all add: page_def Let_def nat_mult_distrib zero_less_mult_iff)
  then show ?case
    using Suc take_add [of "k * nat lim" "nat lim" xs] by (simp add: add.commute)
qed simp

text \<open>What a successful list returns, by the \<^verbatim>\<open>Items\<close> and \<^verbatim>\<open>Total\<close> of its result.\<close>

definition list_items :: "((metadata \<times> json \<times> json) list \<times> int) res \<Rightarrow> (metadata \<times> json \<times> json) list" where
  "list_items x = (case fst x of Inl _ \<Rightarrow> [] | Inr (items, _) \<Rightarrow> items)"

definition list_total :: "((metadata \<times> json \<times> json) list \<times> int) res \<Rightarrow> int" where
  "list_total x = (case fst x of Inl _ \<Rightarrow> 0 | Inr (_, n) \<Rightarrow> n)"

abbreviation lopts :: "int \<Rightarrow> int \<Rightarrow> string \<Rightarrow> list_options" where
  "lopts off lim sel \<equiv> \<lparr>lo_offset = off, lo_limit = lim, lo_labelSelector = sel\<rparr>"

text \<open>
  a list without limit shows each live resource of the type that the selector admits once, in
  strictly ascending order of name, and the total is their number; walking through pages of any size
  yields this same list, nothing twice and nothing left out.
\<close>

theorem ListResources_pages:
  assumes "faults s = []" and "store_inv s" and "0 < lim"
    and "list_total (ListResources rt (lopts 0 0 sel) s) \<le> int k * lim"
  shows "let every = list_items (ListResources rt (lopts 0 0 sel) s) in
    concat (map (\<lambda>i. list_items (ListResources rt (lopts (int i * lim) lim sel) s)) [0..<k]) = every \<and>
    list_total (ListResources rt (lopts 0 0 sel) s) = int (length every) \<and>
    sorted_wrt (<) (map (\<lambda>(md, _, _). md_name md) every) \<and>
    set every = {(meta_of r, r_spec r, r_status r) | r. find_row s rt (r_name r) = Some r \<and>
                   r_deleted r = None \<and> selects (engine s) sel (r_labels r)}"
proof -
  let ?xs = "map (\<lambda>r. (meta_of r, r_spec r, r_status r)) (sort_key r_name (listed rt sel s))"
  have wf: "tbl_wf row_key (resources s)" using assms(2) by (simp add: store_inv_def)
  have every: "list_items (ListResources rt (lopts 0 0 sel) s) = ?xs"
    and tot: "list_total (ListResources rt (lopts 0 0 sel) s) = int (length ?xs)"
    using assms(1) by (simp_all add: list_items_def list_total_def ListResources_healthy)
  have pg: "list_items (ListResources rt (lopts (int i * lim) lim sel) s) = page (int i * lim) lim ?xs" for i
    using assms(1,3) by (simp add: list_items_def ListResources_healthy page_map)
  have "length ?xs \<le> k * nat lim"
    using assms(3,4) tot by (simp add: nat_le_iff zle_int [symmetric])
  then have "concat (map (\<lambda>i. list_items (ListResources rt (lopts (int i * lim) lim sel) s)) [0..<k]) = ?xs"
    using assms(3) by (simp add: pg pages_take)
  moreover have "sorted_wrt (<) (map (\<lambda>(md, _, _). md_name md) ?xs)"
  proof -
    have "map (\<lambda>(md, _, _). md_name md) ?xs = map r_name (sort_key r_name (listed rt sel s))"
      by (simp add: comp_def)
    moreover have "distinct (map r_name (sort_key r_name (listed rt sel s)))"
      using listed_names_distinct [OF assms(2), of rt sel] by (simp add: distinct_map)
    ultimately show ?thesis
      by (simp only: strict_sorted_iff sorted_sort_key simp_thms)
  qed
  moreover have "set ?xs = {(meta_of r, r_spec r, r_status r) | r. find_row s rt (r_name r) = Some r \<and>
                   r_deleted r = None \<and> selects (engine s) sel (r_labels r)}"
    by (auto simp: listed_iff tbl_get_Some [OF wf])
  ultimately show ?thesis
    by (simp only: every tot Let_def simp_thms)
qed

section \<open>Labels and the teardown of a tenant's rows\<close>

text \<open>
  What SQLite documents of \<^verbatim>\<open>json_extract\<close> on an object with string values: the path of a key
  without quotes or brackets selects the value under that key, NULL when there is none.
\<close>

definition plain_key :: "string \<Rightarrow> bool" where
  "plain_key k \<longleftrightarrow> k \<noteq> [] \<and> list_all (\<lambda>c. c \<notin> set [CHR 0x22, CHR 0x27, CHR 0x5C, CHR ''['', CHR '']'']) k"

definition extract_ok :: "sqlite \<Rightarrow> bool" where
  "extract_ok db \<longleftrightarrow> (\<forall>ls k. plain_key k \<longrightarrow> json_extract db ls (''$.'' @ jsonPathKey k) = map_of ls k)"

definition has_tenant :: "string \<Rightarrow> gomap \<Rightarrow> bool" where
  "has_tenant tn ls \<longleftrightarrow> map_of ls tenantLabel = Some tn"

lemma tenantLabel_path: "jsonPathKey tenantLabel = [CHR 0x22] @ tenantLabel @ [CHR 0x22]"
  by (simp add: jsonPathKey_def Let_def)

lemma plain_tenantLabel: "plain_key tenantLabel"
  by (simp add: plain_key_def)

lemma extract_tenant:
  "extract_ok db \<Longrightarrow> json_extract db ls (''$.'' @ [CHR 0x22] @ tenantLabel @ [CHR 0x22]) = map_of ls tenantLabel"
  using plain_tenantLabel unfolding extract_ok_def tenantLabel_path [symmetric] by blast

lemma byteIndex_append: "b \<notin> set k \<Longrightarrow> byteIndex (k @ b # v) b = int (length k)"
  by (induction k) auto

lemma selects_key_value:
  assumes "extract_ok db" and "plain_key k" and "CHR ''='' \<notin> set k"
  shows "selects db (k @ ''='' @ v) ls \<longleftrightarrow> map_of ls k = Some v"
proof -
  have "byteIndex (k @ CHR ''='' # v) (CHR ''='') = int (length k)"
    using assms(3) by (rule byteIndex_append)
  moreover have "json_extract db ls (''$.'' @ jsonPathKey k) = map_of ls k"
    using assms(1,2) by (simp add: extract_ok_def)
  ultimately show ?thesis
    by (simp add: selects_def Let_def)
qed

lemma selects_tenant: "extract_ok db \<Longrightarrow> selects db (tenantSelector tn) ls \<longleftrightarrow> has_tenant tn ls"
  using selects_key_value [OF _ plain_tenantLabel] by (simp add: has_tenant_def)

lemma tenantRows_eq:
  "extract_ok (engine s) \<Longrightarrow>
   tenantRows tn s = filter (\<lambda>r. has_tenant tn (r_labels r) \<and> r_type r \<noteq> ''tenant'') (resources s)"
  unfolding tenantRows_def extract_tenant has_tenant_def by (rule refl)

definition removal_event :: "row \<Rightarrow> resource_event" where
  "removal_event r = \<lparr>ev_type = ''DELETED'', ev_mutation = MutationDelete, ev_resourceType = r_type r,
     ev_metadata = meta_of r, ev_spec = None, ev_status = None\<rparr>"

lemma removePending_healthy:
  "faults s = [] \<Longrightarrow> removePending ps s =
    (Inr (), s\<lparr>resources := filter (\<lambda>r. row_key r \<notin> row_key ` set ps) (resources s),
               events := events s @ (if bus s then map removal_event ps else [])\<rparr>)"
proof (induction ps arbitrary: s)
  case (Cons p ps)
  have *: "filter (\<lambda>r. row_key r \<notin> row_key ` set ps) (tbl_del row_key (row_key p) rs) =
      filter (\<lambda>r. row_key r \<notin> row_key ` set (p # ps)) rs" for rs
    by (induction rs) (auto simp: tbl_del_def)
  show ?case
    using Cons by (simp only: removePending.simps sql_healthy case_prod_conv)
      (simp add: * publish_def removal_event_def del: filter_filter)
qed simp

lemma pending_filter:
  assumes "distinct (map key rs)"
  shows "filter (\<lambda>r. key r \<notin> key ` {x \<in> set rs. P x}) rs = filter (\<lambda>r. \<not> P r) rs"
proof (rule filter_cong [OF refl])
  fix r assume "r \<in> set rs"
  then show "key r \<notin> key ` {x \<in> set rs. P x} \<longleftrightarrow> \<not> P r"
    using assms by (auto simp: distinct_map inj_on_def)
qed

text \<open>
  C6: removing a tenant's resources deletes every row that carries the tenant's label except tenant
  rows, leaves all the others in place and in order, returns their number and publishes one DELETED
  event for each, in order.
\<close>

theorem RemoveResourcesByTenant_exact:
  assumes "faults s = []" and "store_inv s" and "extract_ok (engine s)"
  shows "let gone = (\<lambda>r. has_tenant tn (r_labels r) \<and> r_type r \<noteq> ''tenant'');
             rows = filter gone (resources s)
    in RemoveResourcesByTenant tn s =
      (Inr (int (length rows)),
       s\<lparr>resources := filter (\<lambda>r. \<not> gone r) (resources s),
         events := events s @ (if bus s then map removal_event rows else [])\<rparr>)"
  using assms(1,2)
  by (simp add: RemoveResourcesByTenant_def removePending_healthy tenantRows_eq [OF assms(3)]
      pending_filter store_inv_def tbl_wf_def Let_def)

section \<open>Round trips of the typed operations\<close>

text \<open>
  what a create returns is what the next read returns, for tenants, machines and users, and a
  saved secrets bundle is loaded back until it is removed.
\<close>

theorem create_then_get:
  assumes "faults s = []"
  shows "(\<forall>t. fst (CreateTenant n tsp l a s) = Inr t \<longrightarrow>
            fst (GetTenant n (snd (CreateTenant n tsp l a s))) = Inr (Some t)) \<and>
    (\<forall>m. fst (CreateMachine n msp l a s) = Inr m \<longrightarrow>
            fst (GetMachine n (snd (CreateMachine n msp l a s))) = Inr (Some m)) \<and>
    (\<forall>u. fst (CreateUser n usp s) = Inr u \<longrightarrow>
            fst (GetUser n (snd (CreateUser n usp s))) = Inr (Some u)) \<and>
    fst (LoadTenantSecrets n (snd (SaveTenantSecrets n b s))) = Inr (Some b) \<and>
    fst (LoadTenantSecrets n (snd (RemoveTenantSecrets n (snd (SaveTenantSecrets n b s))))) = Inr None"
proof (intro conjI allI impI)
  fix t assume "fst (CreateTenant n tsp l a s) = Inr t"
  with assms show "fst (GetTenant n (snd (CreateTenant n tsp l a s))) = Inr (Some t)"
    by (auto simp: CreateTenant_def GetTenant_def CreateResource_healthy GetResource_healthy
        mk_tenant_def resource_table.get_ins Let_def json_simps split: if_splits)
next
  fix m assume "fst (CreateMachine n msp l a s) = Inr m"
  with assms show "fst (GetMachine n (snd (CreateMachine n msp l a s))) = Inr (Some m)"
    by (auto simp: CreateMachine_def GetMachine_def CreateResource_healthy GetResource_healthy
        mk_machine_def resource_table.get_ins Let_def json_simps split: if_splits)
next
  fix u assume "fst (CreateUser n usp s) = Inr u"
  with assms show "fst (GetUser n (snd (CreateUser n usp s))) = Inr (Some u)"
    by (auto simp: CreateUser_def GetUser_def CreateResource_healthy GetResource_healthy
        mk_user_def resource_table.get_ins Let_def json_simps split: if_splits)
next
  show "fst (LoadTenantSecrets n (snd (SaveTenantSecrets n b s))) = Inr (Some b)"
    using assms by (simp add: LoadTenantSecrets_def SaveTenantSecrets_def secret_table.upsert_get
        split: option.splits)
next
  show "fst (LoadTenantSecrets n (snd (RemoveTenantSecrets n (snd (SaveTenantSecrets n b s))))) = Inr None"
    using assms by (simp add: LoadTenantSecrets_def SaveTenantSecrets_def RemoveTenantSecrets_def
        secret_table.get_del)
qed

section \<open>Runs and faults\<close>

text \<open>
  C5: in every state the store can reach from an empty database, by any operations in any order and
  with any statements failing, no two rows of a table share a key, every version is at least 1, no
  finalizer is listed twice, and creation, deletion and update times are in order and not in the future.
\<close>

theorem store_reachable_inv: "reach store_init store_step s \<Longrightarrow> store_inv s"
  by (rule store_sys.reach_inv)

text \<open>
  a tenant deletion whose two finalizer writes fail still reports success, and leaves the tenant
  marked for deletion without any finalizer. From then on removing the teardown finalizers never
  deletes the row: it stays in the table.
\<close>

theorem DeleteTenant_lost_finalizers:
  assumes "faults s = [False, False, True, True]" and "find_row s ''tenant'' name = Some r"
    and "r_deleted r = None" and "r_finalizers r = []"
  shows "fst (DeleteTenant name s) = Inr () \<and>
    (\<exists>r'. find_row (snd (DeleteTenant name s)) ''tenant'' name = Some r' \<and>
       r_deleted r' = Some (clock s) \<and> r_finalizers r' = []) \<and>
    (\<forall>f. RemoveFinalizer ''tenant'' name f (snd (DeleteTenant name s)) =
       (False, Inr (), snd (DeleteTenant name s)))"
proof -
  let ?t = "snd (DeleteTenant name s)"
  have t: "fst (DeleteTenant name s) = Inr ()" "faults ?t = []"
    "find_row ?t ''tenant'' name = Some (r\<lparr>r_deleted := Some (clock s), r_updated := clock s\<rparr>)"
    using assms
    by (simp_all add: DeleteTenant_def DeleteResource_def updateResourceMetadataAndPublish_def
        AddFinalizer_def GetResource_def sql_def sql_ok_def sql_next_def publish_def)
  then show ?thesis
    using assms by (simp add: RemoveFinalizer_healthy)
qed

text \<open>
  a machine is found by its binding token exactly when one of the first fifty live machines in
  name order declares the token: the lookup goes through the default page of the list.
\<close>

theorem FindMachineByBindingToken_first_page:
  assumes "faults s = []" and "token \<noteq> []"
  shows "fst (FindMachineByBindingToken token s) =
    Inr (find (\<lambda>m. ms_bindingToken (m_spec m) = token)
      (take 50 (map (\<lambda>r. mk_machine (meta_of r, r_spec r, r_status r))
         (sort_key r_name (listed ''machine'' [] s)))))"
  using assms
  by (simp add: FindMachineByBindingToken_def ListMachines_def newListOptions_def ListResources_healthy
      page_def take_map comp_def)

section \<open>Witnesses\<close>

definition ex_engine :: sqlite where
  "ex_engine = \<lparr>
     json_extract = (\<lambda>ls p. let k = drop 2 p in
       map_of ls (if k \<noteq> [] \<and> hd k = CHR 0x22 then butlast (tl k) else k)),
     json_set = (\<lambda>j p v. case j of JObj fs \<Rightarrow> JObj (AList.update (drop 2 p) v fs) | _ \<Rightarrow> j)\<rparr>"

lemma ex_engine_ok: "extract_ok ex_engine"
  by (auto simp: extract_ok_def ex_engine_def plain_key_def jsonPathKey_def Let_def butlast_append neq_Nil_conv)

definition ex_row :: "string \<Rightarrow> string \<Rightarrow> gomap \<Rightarrow> row" where
  "ex_row rt name labels = \<lparr>r_type = rt, r_name = name, r_uid = ''a'', r_version = 1, r_spec = JObj [],
     r_status = JObj [], r_finalizers = [], r_labels = labels, r_annotations = [], r_created = 1,
     r_updated = 2, r_deleted = None\<rparr>"

definition ex_store :: store where
  "ex_store = \<lparr>resources = [ex_row ''tenant'' ''acme'' [],
       ex_row ''machine'' ''m1'' [(tenantLabel, ''acme'')], ex_row ''machine'' ''m2'' [(tenantLabel, ''b'')]],
     tenant_secrets = [], api_tokens = [], bus = True, events = [], clock = 5, faults = [], engine = ex_engine\<rparr>"

lemma ex_row_fields [simp]:
  "r_type (ex_row rt n l) = rt" "r_name (ex_row rt n l) = n" "r_version (ex_row rt n l) = 1"
  "r_finalizers (ex_row rt n l) = []" "r_labels (ex_row rt n l) = l" "r_deleted (ex_row rt n l) = None"
  "r_created (ex_row rt n l) = 1" "r_updated (ex_row rt n l) = 2" "r_spec (ex_row rt n l) = JObj []"
  "r_status (ex_row rt n l) = JObj []"
  by (simp_all add: ex_row_def)

lemma ex_store_fields [simp]:
  "faults ex_store = []" "bus ex_store" "clock ex_store = 5" "engine ex_store = ex_engine"
  "resources ex_store = [ex_row ''tenant'' ''acme'' [], ex_row ''machine'' ''m1'' [(tenantLabel, ''acme'')],
     ex_row ''machine'' ''m2'' [(tenantLabel, ''b'')]]"
  by (simp_all add: ex_store_def)

lemma ex_store_inv: "store_inv ex_store"
  by (simp add: store_inv_def tbl_wf_def row_ok_def) (simp add: ex_store_def)

lemma ex_find: "find_row ex_store ''tenant'' ''acme'' = Some (ex_row ''tenant'' ''acme'' [])"
  by simp

theorem UpdateResource_optimistic_witness:
  "faults ex_store = [] \<and>
   fst (UpdateResource ''tenant'' ''acme'' 1 JNull [] [] ex_store) =
     Inr (meta_of ((ex_row ''tenant'' ''acme'' [])\<lparr>r_spec := JNull, r_labels := [], r_annotations := [],
       r_updated := 5, r_version := 2\<rparr>)) \<and>
   UpdateResource ''tenant'' ''acme'' 7 JNull [] [] ex_store = (Inl ErrConflict, ex_store)"
  using UpdateResource_optimistic [of ex_store "''tenant''" "''acme''" 1 JNull "[]" "[]"]
    UpdateResource_optimistic [of ex_store "''tenant''" "''acme''" 7 JNull "[]" "[]"]
  by (simp add: Let_def)

theorem stale_update_refused_witness:
  "UpdateResource ''tenant'' ''acme'' 1 JNull [] [] (snd (UpdateResource ''tenant'' ''acme'' 1 JNull [] [] ex_store)) =
     (Inl ErrConflict, snd (UpdateResource ''tenant'' ''acme'' 1 JNull [] [] ex_store))"
proof (rule stale_update_refused)
  show "UpdateResource ''tenant'' ''acme'' 1 JNull [] [] ex_store =
    (Inr (meta_of ((ex_row ''tenant'' ''acme'' [])\<lparr>r_spec := JNull, r_labels := [], r_annotations := [],
       r_updated := 5, r_version := 2\<rparr>)), snd (UpdateResource ''tenant'' ''acme'' 1 JNull [] [] ex_store))"
    by (simp add: UpdateResource_healthy ex_find Let_def)
  show "faults (snd (UpdateResource ''tenant'' ''acme'' 1 JNull [] [] ex_store)) = []"
    by (simp add: UpdateResource_healthy ex_find Let_def)
qed simp

theorem RemoveFinalizer_deletes_iff_witness:
  "let s = snd (DeleteResource ''tenant'' ''acme'' (snd (AddFinalizer ''tenant'' ''acme'' ''f'' ex_store))) in
   find_row s ''tenant'' ''acme'' \<noteq> None \<and>
   find_row (snd (snd (RemoveFinalizer ''tenant'' ''acme'' ''f'' s))) ''tenant'' ''acme'' = None"
proof -
  let ?s = "snd (DeleteResource ''tenant'' ''acme'' (snd (AddFinalizer ''tenant'' ''acme'' ''f'' ex_store)))"
  have "faults ?s = []" and "find_row ?s ''tenant'' ''acme'' = Some ((ex_row ''tenant'' ''acme'' [])
      \<lparr>r_finalizers := [''f''], r_deleted := Some 5, r_updated := 5\<rparr>)"
    by (simp_all add: DeleteResource_healthy AddFinalizer_healthy Let_def)
  from RemoveFinalizer_deletes_iff [OF this, of "''f''"] this(2) show ?thesis
    by (simp add: Let_def)
qed

theorem DeleteTenant_lifecycle_witness:
  "find_row (snd (DeleteTenant ''acme'' ex_store)) ''tenant'' ''acme'' =
     Some (deleting_row 5 (ex_row ''tenant'' ''acme'' []))"
  using DeleteTenant_lifecycle [OF _ ex_store_inv ex_find, of machinesFinalizer secretsFinalizer]
  by (simp add: Let_def)

theorem ListResources_pages_witness:
  "concat (map (\<lambda>i. list_items (ListResources ''machine'' (lopts (int i * 1) 1 []) ex_store)) [0..<2]) =
   list_items (ListResources ''machine'' (lopts 0 0 []) ex_store)"
  using ListResources_pages [OF _ ex_store_inv, of 1 "''machine''" "[]" 2]
  by (simp add: Let_def list_total_def ListResources_healthy listed_def selects_def)

theorem RemoveResourcesByTenant_exact_witness:
  "fst (RemoveResourcesByTenant ''acme'' ex_store) = Inr 1 \<and>
   map r_name (resources (snd (RemoveResourcesByTenant ''acme'' ex_store))) = [''acme'', ''m2'']"
  using RemoveResourcesByTenant_exact [OF _ ex_store_inv, of "''acme''"] ex_engine_ok
  by (simp add: Let_def has_tenant_def)

theorem create_then_get_witness:
  "fst (LoadTenantSecrets ''acme'' (snd (SaveTenantSecrets ''acme'' ''bundle'' ex_store))) = Inr (Some ''bundle'')"
  using create_then_get [of ex_store] by simp

theorem store_reachable_inv_witness:
  "store_inv (snd (CreateResource ''tenant'' ''acme'' JNull JNull [] []
     (ex_store\<lparr>resources := [], clock := 9, faults := [False, True]\<rparr>)))"
proof (rule store_reachable_inv, rule reach_step, rule reach_init)
  show "store_init (ex_store\<lparr>resources := [], clock := 9, faults := [False, True]\<rparr>)"
    by (simp add: store_init_def ex_store_def)
qed (rule step_Create)

theorem DeleteTenant_lost_finalizers_witness:
  "fst (DeleteTenant ''acme'' (ex_store\<lparr>faults := [False, False, True, True]\<rparr>)) = Inr ()"
  using DeleteTenant_lost_finalizers [of "ex_store\<lparr>faults := [False, False, True, True]\<rparr>" "''acme''"] ex_find
  by simp

theorem FindMachineByBindingToken_first_page_witness:
  "fst (FindMachineByBindingToken ''t'' ex_store) = Inr None"
  using FindMachineByBindingToken_first_page [of ex_store "''t''"]
  by (simp add: listed_def selects_def mk_machine_def dec_machine_spec_def json_simps)

end
