(* ===== verification/ApplyQueue.thy ===== *)
theory ApplyQueue
  imports Prelude
begin

text \<open>
  The reconciliation scheduler, \<^verbatim>\<open>internal/applyqueue/queue.go\<close>: one debounced loop per tenant. The
  loops, the callers of \<^verbatim>\<open>Enqueue\<close> and the lifecycle context interleave freely, so the queue is a step
  relation: a step is a section the code runs under the queue mutex, a channel operation, or a call
  of the applier or of the listener. Timers are abstracted: the debounce timer of a waiting loop may
  fire at any moment.
\<close>

section \<open>Configuration\<close>

record queue_config =
  cfg_debounce :: gotime
  cfg_resync :: gotime

definition withDefaults :: "queue_config \<Rightarrow> queue_config" where
  "withDefaults c = \<lparr>cfg_debounce = (if cfg_debounce c \<le> 0 then 5 * second else cfg_debounce c),
                     cfg_resync = (if cfg_resync c < 0 then 0 else cfg_resync c)\<rparr>"

definition defaultResync :: gotime where
  "defaultResync = 5 * minute"

text \<open>The configuration of the queue \<^verbatim>\<open>New\<close> builds; the flag says whether a lister is given.\<close>

definition New_config :: "bool \<Rightarrow> queue_config \<Rightarrow> queue_config" where
  "New_config lister c =
     (let c = withDefaults c in if lister \<and> cfg_resync c = 0 then c\<lparr>cfg_resync := defaultResync\<rparr> else c)"

section \<open>State\<close>

datatype phase = PhaseQueued | PhaseApplying | PhaseApplied | PhaseFailed

text \<open>
  Where a loop is: its Enqueue has released the lock and not yet started the goroutine; waiting for
  the timer or a trigger; inside \<^verbatim>\<open>applier.Apply\<close>; between the apply's outcome and the exit decision;
  returned.
\<close>

datatype pc = Spawning | Debounce | Applying | Deciding | Returned

text \<open>\<^verbatim>\<open>tenantState\<close>: the one-slot trigger channel, with the loop that owns it. The two counters are ghosts:
  Enqueue calls that found or created this loop, and applies it has started.\<close>

record tenant_state =
  ts_tenant :: string
  ts_trigger :: bool
  ts_pc :: pc
  ts_enqueued :: nat
  ts_applies :: nat

text \<open>
  The queue: the \<^verbatim>\<open>active\<close> map (a tenant's loop by its number), the loops created so far, the Enqueue
  calls that have released the lock and still have to send their trigger, the listener's log, and
  whether the lifecycle context is cancelled.
\<close>

record queue =
  q_active :: "string \<Rightarrow> nat option"
  q_loops :: "nat \<Rightarrow> tenant_state"
  q_next :: nat
  q_sends :: "nat list"
  q_log :: "(string \<times> phase) list"
  q_cancelled :: bool

definition new_ts :: "string \<Rightarrow> tenant_state" where
  "new_ts tn = \<lparr>ts_tenant = tn, ts_trigger = False, ts_pc = Spawning, ts_enqueued = 1, ts_applies = 0\<rparr>"

definition upd_loop :: "nat \<Rightarrow> (tenant_state \<Rightarrow> tenant_state) \<Rightarrow> queue \<Rightarrow> queue" where
  "upd_loop n f q = q\<lparr>q_loops := (q_loops q)(n := f (q_loops q n))\<rparr>"

definition listener :: "string \<Rightarrow> phase \<Rightarrow> queue \<Rightarrow> queue" where
  "listener tn p q = q\<lparr>q_log := q_log q @ [(tn, p)]\<rparr>"

section \<open>Operations\<close>

text \<open>\<^verbatim>\<open>Enqueue\<close>, the section under the lock: a new loop, or the decision to send a trigger.\<close>

definition Enqueue :: "string \<Rightarrow> queue \<Rightarrow> queue" where
  "Enqueue tn q =
     (case q_active q tn of
        None \<Rightarrow> q\<lparr>q_active := (q_active q)(tn \<mapsto> q_next q),
                 q_loops := (q_loops q)(q_next q := new_ts tn), q_next := q_next q + 1\<rparr>
      | Some n \<Rightarrow> (upd_loop n (\<lambda>l. l\<lparr>ts_enqueued := ts_enqueued l + 1\<rparr>) q)\<lparr>q_sends := n # q_sends q\<rparr>)"

text \<open>The rest of an Enqueue that created a loop: the listener call and the start of the goroutine.\<close>

definition Enqueue_spawn :: "nat \<Rightarrow> queue \<Rightarrow> queue" where
  "Enqueue_spawn n q =
     upd_loop n (\<lambda>l. l\<lparr>ts_pc := Debounce\<rparr>) (listener (ts_tenant (q_loops q n)) PhaseQueued q)"

text \<open>The rest of an Enqueue that found a loop: the non-blocking send into the one-slot channel.\<close>

definition Enqueue_send :: "nat \<Rightarrow> queue \<Rightarrow> queue" where
  "Enqueue_send n q = (upd_loop n (\<lambda>l. l\<lparr>ts_trigger := True\<rparr>) q)\<lparr>q_sends := remove1 n (q_sends q)\<rparr>"

text \<open>\<^verbatim>\<open>run\<close>: a trigger resets the window.\<close>

definition run_reset :: "nat \<Rightarrow> queue \<Rightarrow> queue" where
  "run_reset n q = upd_loop n (\<lambda>l. l\<lparr>ts_trigger := False\<rparr>) q"

text \<open>\<^verbatim>\<open>run\<close>: the window elapses and the apply starts.\<close>

definition run_fire :: "nat \<Rightarrow> queue \<Rightarrow> queue" where
  "run_fire n q =
     upd_loop n (\<lambda>l. l\<lparr>ts_pc := Applying, ts_applies := ts_applies l + 1\<rparr>)
       (listener (ts_tenant (q_loops q n)) PhaseApplying q)"

text \<open>\<^verbatim>\<open>run\<close>: the apply returns; an error other than cancellation is a failure.\<close>

datatype apply_result = ApplyOk | ApplyCanceled | ApplyError

definition run_finish :: "nat \<Rightarrow> apply_result \<Rightarrow> queue \<Rightarrow> queue" where
  "run_finish n res q =
     upd_loop n (\<lambda>l. l\<lparr>ts_pc := Deciding\<rparr>)
       (listener (ts_tenant (q_loops q n)) (if res = ApplyError then PhaseFailed else PhaseApplied) q)"

text \<open>\<^verbatim>\<open>run\<close>: the exit decision, under the lock.\<close>

definition run_decide :: "nat \<Rightarrow> queue \<Rightarrow> queue" where
  "run_decide n q =
     (if ts_trigger (q_loops q n)
      then upd_loop n (\<lambda>l. l\<lparr>ts_trigger := False, ts_pc := Debounce\<rparr>) q
      else (upd_loop n (\<lambda>l. l\<lparr>ts_pc := Returned\<rparr>) q)
             \<lparr>q_active := (q_active q)(ts_tenant (q_loops q n) := None)\<rparr>)"

definition release :: "nat \<Rightarrow> queue \<Rightarrow> queue" where
  "release n q =
     (let tn = ts_tenant (q_loops q n) in
      (if q_active q tn = Some n then q\<lparr>q_active := (q_active q)(tn := None)\<rparr> else q))"

definition run_cancelled :: "nat \<Rightarrow> queue \<Rightarrow> queue" where
  "run_cancelled n q = upd_loop n (\<lambda>l. l\<lparr>ts_pc := Returned\<rparr>) (release n q)"

definition Stop_cancel :: "queue \<Rightarrow> queue" where
  "Stop_cancel q = q\<lparr>q_cancelled := True\<rparr>"

text \<open>One tick of \<^verbatim>\<open>resyncLoop\<close>: every listed tenant is enqueued; a failed listing is skipped.\<close>

definition resync_tick :: "string list option \<Rightarrow> queue \<Rightarrow> queue" where
  "resync_tick listing q = (case listing of None \<Rightarrow> q | Some tns \<Rightarrow> fold Enqueue tns q)"

inductive aq_step :: "queue \<Rightarrow> queue \<Rightarrow> bool" where
  aq_enqueue: "aq_step q (Enqueue tn q)"
| aq_spawn: "n < q_next q \<Longrightarrow> ts_pc (q_loops q n) = Spawning \<Longrightarrow> aq_step q (Enqueue_spawn n q)"
| aq_send: "n \<in> set (q_sends q) \<Longrightarrow> aq_step q (Enqueue_send n q)"
| aq_reset: "n < q_next q \<Longrightarrow> ts_pc (q_loops q n) = Debounce \<Longrightarrow> ts_trigger (q_loops q n) \<Longrightarrow>
    aq_step q (run_reset n q)"
| aq_fire: "n < q_next q \<Longrightarrow> ts_pc (q_loops q n) = Debounce \<Longrightarrow> aq_step q (run_fire n q)"
| aq_finish: "n < q_next q \<Longrightarrow> ts_pc (q_loops q n) = Applying \<Longrightarrow> aq_step q (run_finish n res q)"
| aq_decide: "n < q_next q \<Longrightarrow> ts_pc (q_loops q n) = Deciding \<Longrightarrow> aq_step q (run_decide n q)"
| aq_cancel: "aq_step q (Stop_cancel q)"
| aq_cancelled: "q_cancelled q \<Longrightarrow> n < q_next q \<Longrightarrow> ts_pc (q_loops q n) = Debounce \<Longrightarrow>
    aq_step q (run_cancelled n q)"

inductive_cases aq_stepE: "aq_step q q'"

definition aq_init :: "queue \<Rightarrow> bool" where
  "aq_init q \<longleftrightarrow> q_active q = Map.empty \<and> q_next q = 0 \<and> q_sends q = [] \<and> q_log q = []"

section \<open>Invariant\<close>

text \<open>The phases the listener sees for one tenant, as an automaton; \<open>None\<close> is a forbidden order.\<close>

datatype watch_state = WIdle | WQueued | WApplying | WDone

fun phase_next :: "watch_state \<Rightarrow> phase \<Rightarrow> watch_state option" where
  "phase_next st PhaseQueued = (if st = WApplying then None else Some WQueued)"
| "phase_next st PhaseApplying = (if st = WQueued \<or> st = WDone then Some WApplying else None)"
| "phase_next st p = (if st = WApplying then Some WDone else None)"

fun phases_run :: "watch_state \<Rightarrow> phase list \<Rightarrow> watch_state option" where
  "phases_run st [] = Some st"
| "phases_run st (p # ps) = (case phase_next st p of None \<Rightarrow> None | Some st' \<Rightarrow> phases_run st' ps)"

definition phases_of :: "string \<Rightarrow> (string \<times> phase) list \<Rightarrow> phase list" where
  "phases_of tn log = map snd (filter (\<lambda>(t, _). t = tn) log)"

fun pc_watch :: "pc \<Rightarrow> watch_state \<Rightarrow> bool" where
  "pc_watch Spawning st = (st \<noteq> WApplying)"
| "pc_watch Debounce st = (st = WQueued \<or> st = WDone)"
| "pc_watch Applying st = (st = WApplying)"
| "pc_watch Deciding st = (st = WDone)"
| "pc_watch Returned st = (st \<noteq> WApplying)"

definition live_pc :: "queue \<Rightarrow> string \<Rightarrow> pc" where
  "live_pc q tn = (case q_active q tn of None \<Rightarrow> Returned | Some n \<Rightarrow> ts_pc (q_loops q n))"

definition aq_active_inv :: "queue \<Rightarrow> bool" where
  "aq_active_inv q \<longleftrightarrow>
     (\<forall>tn n. q_active q tn = Some n \<longleftrightarrow>
        n < q_next q \<and> ts_tenant (q_loops q n) = tn \<and> ts_pc (q_loops q n) \<noteq> Returned) \<and>
     (\<forall>n \<in> set (q_sends q). n < q_next q)"

definition aq_count_inv :: "queue \<Rightarrow> bool" where
  "aq_count_inv q \<longleftrightarrow> (\<forall>n < q_next q.
     ts_applies (q_loops q n) + (if ts_pc (q_loops q n) \<in> {Spawning, Debounce} then 1 else 0) +
     (if ts_trigger (q_loops q n) then 1 else 0) + count_list (q_sends q) n \<le> ts_enqueued (q_loops q n))"

definition aq_log_inv :: "queue \<Rightarrow> bool" where
  "aq_log_inv q \<longleftrightarrow> (\<forall>tn. \<exists>st. phases_run WIdle (phases_of tn (q_log q)) = Some st \<and> pc_watch (live_pc q tn) st)"

definition aq_inv :: "queue \<Rightarrow> bool" where
  "aq_inv q \<longleftrightarrow> aq_active_inv q \<and> aq_count_inv q \<and> aq_log_inv q"

lemmas aq_ops = Enqueue_def Enqueue_spawn_def Enqueue_send_def run_reset_def run_fire_def run_finish_def
  run_decide_def release_def run_cancelled_def Stop_cancel_def upd_loop_def listener_def new_ts_def

lemma phases_run_append:
  "phases_run st (ps @ [p]) = (case phases_run st ps of None \<Rightarrow> None | Some st' \<Rightarrow> phase_next st' p)"
  by (induction ps arbitrary: st) (auto split: option.splits)

lemma phases_of_append [simp]:
  "phases_of tn (log @ [(t, p)]) = phases_of tn log @ (if t = tn then [p] else [])"
  by (simp add: phases_of_def)

lemma count_list_remove1: "n \<in> set xs \<Longrightarrow> count_list (remove1 n xs) m = count_list xs m - (if m = n then 1 else 0)"
  by (induction xs) (auto simp: count_list_0_iff)

lemma count_list_mem: "n \<in> set xs \<Longrightarrow> 0 < count_list xs n"
  by (induction xs) auto

text \<open>The active map. A loop that has returned is the only one that leaves it.\<close>

lemma active_inv_frame [simp]:
  "aq_active_inv (listener tn p q) = aq_active_inv q" "aq_active_inv (Stop_cancel q) = aq_active_inv q"
  by (simp_all add: aq_active_inv_def listener_def Stop_cancel_def)

lemma active_inv_sends:
  "aq_active_inv q \<Longrightarrow> (\<And>n. n \<in> set xs \<Longrightarrow> n < q_next q) \<Longrightarrow> aq_active_inv (q\<lparr>q_sends := xs\<rparr>)"
  by (simp add: aq_active_inv_def)

lemma active_inv_upd:
  assumes "aq_active_inv q" and "ts_tenant (f (q_loops q n)) = ts_tenant (q_loops q n)"
    and "ts_pc (f (q_loops q n)) = Returned \<longleftrightarrow> ts_pc (q_loops q n) = Returned"
  shows "aq_active_inv (upd_loop n f q)"
  using assms by (simp add: aq_active_inv_def upd_loop_def)

lemma active_inv_exit:
  assumes "aq_active_inv q" and "n < q_next q" and "ts_pc (q_loops q n) \<noteq> Returned"
  shows "aq_active_inv ((upd_loop n (\<lambda>l. l\<lparr>ts_pc := Returned\<rparr>) q)
           \<lparr>q_active := (q_active q)(ts_tenant (q_loops q n) := None)\<rparr>)"
    and "q_active q (ts_tenant (q_loops q n)) = Some n"
proof -
  have *: "q_active q tn = Some m \<longleftrightarrow>
      m < q_next q \<and> ts_tenant (q_loops q m) = tn \<and> ts_pc (q_loops q m) \<noteq> Returned" for tn m
    using assms(1) by (simp add: aq_active_inv_def)
  then show n: "q_active q (ts_tenant (q_loops q n)) = Some n"
    using assms(2,3) by blast
  show "aq_active_inv ((upd_loop n (\<lambda>l. l\<lparr>ts_pc := Returned\<rparr>) q)
           \<lparr>q_active := (q_active q)(ts_tenant (q_loops q n) := None)\<rparr>)"
    using assms(1) n * unfolding aq_active_inv_def
    by (auto simp: upd_loop_def) (metis option.inject)
qed

lemma active_inv_Enqueue:
  assumes "aq_active_inv q"
  shows "aq_active_inv (Enqueue tn q)"
proof (cases "q_active q tn")
  case None
  with assms show ?thesis
    unfolding aq_active_inv_def
    by (auto simp: Enqueue_def new_ts_def less_Suc_eq) (metis option.distinct(1))
next
  case (Some n)
  then have "n < q_next q" using assms by (simp add: aq_active_inv_def)
  moreover have "aq_active_inv (upd_loop n (\<lambda>l. l\<lparr>ts_enqueued := ts_enqueued l + 1\<rparr>) q)"
    using assms by (rule active_inv_upd) simp_all
  ultimately show ?thesis
    using Some assms by (auto simp: Enqueue_def intro!: active_inv_sends) (auto simp: aq_active_inv_def upd_loop_def)
qed

lemma run_cancelled_eq:
  "aq_active_inv q \<Longrightarrow> n < q_next q \<Longrightarrow> ts_pc (q_loops q n) \<noteq> Returned \<Longrightarrow>
   run_cancelled n q = (upd_loop n (\<lambda>l. l\<lparr>ts_pc := Returned\<rparr>) q)
     \<lparr>q_active := (q_active q)(ts_tenant (q_loops q n) := None)\<rparr>"
  by (simp add: run_cancelled_def release_def active_inv_exit(2) Let_def upd_loop_def)

lemma aq_active_step: "aq_step q q' \<Longrightarrow> aq_active_inv q \<Longrightarrow> aq_active_inv q'"
proof (induction rule: aq_step.induct)
  case (aq_send n q)
  have "aq_active_inv (upd_loop n (\<lambda>l. l\<lparr>ts_trigger := True\<rparr>) q)"
    using aq_send(2) by (rule active_inv_upd) simp_all
  then show ?case
    using set_remove1_subset [of n "q_sends q"] aq_send(2)
    by (auto simp: Enqueue_send_def intro!: active_inv_sends) (auto simp: aq_active_inv_def upd_loop_def)
next
  case (aq_decide n q)
  then show ?case
    by (auto simp: run_decide_def intro: active_inv_upd active_inv_exit(1))
next
  case (aq_cancelled q n)
  then show ?case
    using active_inv_exit(1) by (simp add: run_cancelled_eq)
qed (auto simp: active_inv_Enqueue Enqueue_spawn_def run_reset_def run_fire_def run_finish_def
    intro!: active_inv_upd, simp_all add: listener_def)

text \<open>The budget of a loop: applies started, an apply it is bound to start, and triggers on their way.\<close>

definition budget :: "queue \<Rightarrow> nat \<Rightarrow> nat" where
  "budget q n = ts_applies (q_loops q n) + (if ts_pc (q_loops q n) \<in> {Spawning, Debounce} then 1 else 0) +
     (if ts_trigger (q_loops q n) then 1 else 0) + count_list (q_sends q) n"

lemma count_inv_budget: "aq_count_inv q \<longleftrightarrow> (\<forall>n < q_next q. budget q n \<le> ts_enqueued (q_loops q n))"
  by (simp add: aq_count_inv_def budget_def)

lemma aq_count_step:
  assumes "aq_step q q'" and "aq_active_inv q" and "aq_count_inv q"
  shows "aq_count_inv q'"
  unfolding count_inv_budget
proof (intro allI impI)
  fix m assume m: "m < q_next q'"
  have b: "m < q_next q \<Longrightarrow> budget q m \<le> ts_enqueued (q_loops q m)"
    using assms(3) by (simp add: count_inv_budget)
  have fresh: "count_list (q_sends q) (q_next q) = 0"
    using assms(2) by (auto simp: aq_active_inv_def count_list_0_iff)
  from assms(1) show "budget q' m \<le> ts_enqueued (q_loops q' m)"
  proof cases
    case (aq_enqueue tn)
    then show ?thesis
      using b m fresh
      by (cases "q_active q tn") (auto simp: Enqueue_def budget_def upd_loop_def new_ts_def less_Suc_eq)
  next
    case (aq_send n)
    then show ?thesis
      using b m count_list_mem [of n "q_sends q"]
      by (auto simp: Enqueue_send_def budget_def upd_loop_def count_list_remove1)
  next
    case (aq_decide n)
    then show ?thesis
      using b m by (auto simp: run_decide_def budget_def upd_loop_def split: if_splits)
  next
    case (aq_cancelled n)
    then show ?thesis
      using b m by (auto simp: run_cancelled_eq [OF assms(2)] budget_def upd_loop_def)
  qed (use b m in \<open>auto simp: budget_def Enqueue_spawn_def run_reset_def run_fire_def run_finish_def
        Stop_cancel_def listener_def upd_loop_def\<close>)
qed

text \<open>The listener's log. What a step appends for a tenant is allowed where its loop is.\<close>

lemma log_inv_same:
  assumes "aq_log_inv q" and "q_log q' = q_log q"
    and "\<And>tn st. pc_watch (live_pc q tn) st \<Longrightarrow> pc_watch (live_pc q' tn) st"
  shows "aq_log_inv q'"
  using assms unfolding aq_log_inv_def by metis

lemma log_inv_append:
  assumes "aq_log_inv q" and "q_log q' = q_log q @ [(tn, p)]"
    and "\<And>st. pc_watch (live_pc q tn) st \<Longrightarrow> \<exists>st'. phase_next st p = Some st' \<and> pc_watch (live_pc q' tn) st'"
    and "\<And>t. t \<noteq> tn \<Longrightarrow> live_pc q' t = live_pc q t"
  shows "aq_log_inv q'"
  unfolding aq_log_inv_def
proof
  fix t
  obtain st where "phases_run WIdle (phases_of t (q_log q)) = Some st" "pc_watch (live_pc q t) st"
    using assms(1) unfolding aq_log_inv_def by blast
  then show "\<exists>st. phases_run WIdle (phases_of t (q_log q')) = Some st \<and> pc_watch (live_pc q' t) st"
    using assms(2-4) by (cases "t = tn") (auto simp: phases_run_append)
qed

lemma live_pc_at:
  "aq_active_inv q \<Longrightarrow> n < q_next q \<Longrightarrow> ts_pc (q_loops q n) \<noteq> Returned \<Longrightarrow>
   live_pc q (ts_tenant (q_loops q n)) = ts_pc (q_loops q n)"
  by (simp add: live_pc_def active_inv_exit(2))

lemma live_pc_upd:
  assumes "aq_active_inv q" and "n < q_next q" and "ts_pc (q_loops q n) \<noteq> Returned"
  shows "live_pc (upd_loop n f (listener t p q)) tn =
    (if tn = ts_tenant (q_loops q n) then ts_pc (f (q_loops q n)) else live_pc q tn)"
proof (cases "tn = ts_tenant (q_loops q n)")
  case True
  then show ?thesis
    using active_inv_exit(2) [OF assms] by (simp add: live_pc_def upd_loop_def listener_def)
next
  case False
  then have "q_active q tn \<noteq> Some n"
    using assms(1) by (simp add: aq_active_inv_def)
  then show ?thesis
    using False by (simp add: live_pc_def upd_loop_def listener_def split: option.splits)
qed

lemma q_log_upd [simp]: "q_log (upd_loop n f q) = q_log q" "q_log (listener tn p q) = q_log q @ [(tn, p)]"
  by (simp_all add: upd_loop_def listener_def)

lemma aq_log_step:
  assumes "aq_step q q'" and "aq_active_inv q" and "aq_log_inv q"
  shows "aq_log_inv q'"
  using assms(1)
proof cases
  case (aq_enqueue tn)
  have n: "n < q_next q" if "q_active q t = Some n" for t n
    using assms(2) that by (simp add: aq_active_inv_def)
  show ?thesis
    using assms(3)
  proof (rule log_inv_same)
    show "q_log q' = q_log q" unfolding aq_enqueue by (simp add: Enqueue_def upd_loop_def split: option.splits)
    show "pc_watch (live_pc q' t) st" if "pc_watch (live_pc q t) st" for t st
      using that n unfolding aq_enqueue
      by (auto simp: Enqueue_def live_pc_def upd_loop_def new_ts_def split: option.splits)
  qed
next
  case (aq_spawn n)
  note lp = live_pc_upd [OF assms(2) aq_spawn(2)] live_pc_at [OF assms(2) aq_spawn(2)]
  show ?thesis
    using assms(3) aq_spawn
    by (intro log_inv_append [of q q' "ts_tenant (q_loops q n)" PhaseQueued])
      (simp_all add: Enqueue_spawn_def lp)
next
  case (aq_send n)
  have "live_pc q' tn = live_pc q tn" for tn
    unfolding aq_send(1) by (simp add: Enqueue_send_def upd_loop_def live_pc_def split: option.splits)
  moreover have "q_log q' = q_log q"
    unfolding aq_send(1) by (simp add: Enqueue_send_def)
  ultimately show ?thesis
    using assms(3) by - (rule log_inv_same [of q], simp_all)
next
  case (aq_reset n)
  have "live_pc q' tn = live_pc q tn" for tn
    unfolding aq_reset(1) by (simp add: run_reset_def upd_loop_def live_pc_def split: option.splits)
  moreover have "q_log q' = q_log q"
    unfolding aq_reset(1) by (simp add: run_reset_def)
  ultimately show ?thesis
    using assms(3) by - (rule log_inv_same [of q], simp_all)
next
  case (aq_fire n)
  note lp = live_pc_upd [OF assms(2) aq_fire(2)] live_pc_at [OF assms(2) aq_fire(2)]
  show ?thesis
    using assms(3) aq_fire
    by (intro log_inv_append [of q q' "ts_tenant (q_loops q n)" PhaseApplying])
      (simp_all add: run_fire_def lp)
next
  case (aq_finish n res)
  note lp = live_pc_upd [OF assms(2) aq_finish(2)] live_pc_at [OF assms(2) aq_finish(2)]
  show ?thesis
    using assms(3) aq_finish
    by (intro log_inv_append [of q q' "ts_tenant (q_loops q n)" "if res = ApplyError then PhaseFailed else PhaseApplied"])
      (simp_all add: run_finish_def lp)
next
  case (aq_decide n)
  have act: "q_active q (ts_tenant (q_loops q n)) = Some n"
    using active_inv_exit(2) [OF assms(2) aq_decide(2)] aq_decide(3) by simp
  show ?thesis
    using assms(3) aq_decide act
    by - (rule log_inv_same [of q], auto simp: run_decide_def upd_loop_def live_pc_def split: option.splits if_splits)
next
  case aq_cancel
  then show ?thesis
    using assms(3) by - (rule log_inv_same [of q], auto simp: Stop_cancel_def live_pc_def split: option.splits)
next
  case (aq_cancelled n)
  have act: "q_active q (ts_tenant (q_loops q n)) = Some n"
    using active_inv_exit(2) [OF assms(2) aq_cancelled(3)] aq_cancelled(4) by simp
  show ?thesis
    using assms(3) aq_cancelled act run_cancelled_eq [OF assms(2) aq_cancelled(3)]
    by - (rule log_inv_same [of q], auto simp: upd_loop_def live_pc_def split: option.splits if_splits)
qed

lemma aq_step_inv: "aq_inv q \<Longrightarrow> aq_step q q' \<Longrightarrow> aq_inv q'"
  by (simp add: aq_inv_def aq_active_step aq_count_step aq_log_step)

interpretation aq_sys: invariant_system aq_init aq_step aq_inv
proof unfold_locales
  show "aq_inv q" if "aq_init q" for q
    using that
    by (simp add: aq_init_def aq_inv_def aq_active_inv_def aq_count_inv_def aq_log_inv_def phases_of_def live_pc_def)
qed (rule aq_step_inv)

section \<open>Properties\<close>

text \<open>
  C8: applies of one tenant never overlap: two loops inside the applier at the same time are for
  different tenants, whatever the interleaving of enqueues, timers, outcomes and cancellation.
\<close>

theorem apply_exclusive:
  assumes "reach aq_init aq_step q"
    and "n < q_next q" and "ts_pc (q_loops q n) = Applying"
    and "m < q_next q" and "ts_pc (q_loops q m) = Applying"
    and "ts_tenant (q_loops q n) = ts_tenant (q_loops q m)"
  shows "n = m"
proof -
  have inv: "aq_active_inv q"
    using aq_sys.reach_inv [OF assms(1)] by (simp add: aq_inv_def)
  have "q_active q (ts_tenant (q_loops q n)) = Some n"
    using active_inv_exit(2) [OF inv assms(2)] assms(3) by simp
  moreover have "q_active q (ts_tenant (q_loops q m)) = Some m"
    using active_inv_exit(2) [OF inv assms(4)] assms(5) by simp
  ultimately show ?thesis using assms(6) by (metis option.inject)
qed

text \<open>
  for every tenant the listener sees queued, then applying, then the apply's outcome, and after an
  outcome either a new queued or the next applying: no outcome without an apply, no apply begun
  before the previous one has reported.
\<close>

theorem listener_order: "reach aq_init aq_step q \<Longrightarrow> phases_run WIdle (phases_of tn (q_log q)) \<noteq> None"
  using aq_sys.reach_inv [of q] by (auto simp: aq_inv_def aq_log_inv_def)

text \<open>
  enqueues coalesce and never multiply: a loop starts at most as many applies as Enqueue calls
  were addressed to it, counting the one that created it.
\<close>

theorem applies_le_enqueues:
  "reach aq_init aq_step q \<Longrightarrow> n < q_next q \<Longrightarrow> ts_applies (q_loops q n) \<le> ts_enqueued (q_loops q n)"
  using aq_sys.reach_inv [of q] by (fastforce simp: aq_inv_def aq_count_inv_def)

definition ex_queue :: queue where
  "ex_queue = \<lparr>q_active = Map.empty, q_loops = (\<lambda>_. new_ts []), q_next = 0, q_sends = [], q_log = [],
     q_cancelled = False\<rparr>"

definition ex_applying :: "string \<Rightarrow> queue" where
  "ex_applying tn = run_fire 0 (Enqueue_spawn 0 (Enqueue tn ex_queue))"

definition ex_lost :: "string \<Rightarrow> queue" where
  "ex_lost tn = Enqueue_send 0 (run_decide 0 (Enqueue tn (run_finish 0 ApplyOk (ex_applying tn))))"

lemmas aq_reach_step = reach_step [of aq_init aq_step]

lemma reach_applying: "reach aq_init aq_step (ex_applying tn)"
  unfolding ex_applying_def
  by (rule aq_reach_step [OF _ aq_fire], rule aq_reach_step [OF _ aq_spawn], rule aq_reach_step [OF _ aq_enqueue],
      rule reach_init) (simp_all add: aq_init_def ex_queue_def aq_ops)

lemma reach_lost: "reach aq_init aq_step (ex_lost tn)"
  unfolding ex_lost_def
  by (rule aq_reach_step [OF _ aq_send], rule aq_reach_step [OF _ aq_decide], rule aq_reach_step [OF _ aq_enqueue],
      rule aq_reach_step [OF _ aq_finish], rule reach_applying)
    (simp_all add: ex_applying_def ex_queue_def aq_ops)

text \<open>
  a wakeup can be lost. An Enqueue that finds the loop releases the lock before it sends its
  trigger; when the loop takes its exit decision in between, the trigger lands in the channel of a
  loop that has returned: there is a reachable state in which both Enqueue calls are complete, no
  loop is active, nothing is on its way, and no apply started after the second call.
\<close>

theorem Enqueue_lost_wakeup:
  "\<exists>q. reach aq_init aq_step q \<and> q_active q tn = None \<and> q_sends q = [] \<and>
     ts_pc (q_loops q 0) = Returned \<and> ts_trigger (q_loops q 0) \<and>
     ts_enqueued (q_loops q 0) = 2 \<and> ts_applies (q_loops q 0) = 1 \<and>
     q_log q = [(tn, PhaseQueued), (tn, PhaseApplying), (tn, PhaseApplied)]"
  by (rule exI [of _ "ex_lost tn"]) (simp add: reach_lost, simp add: ex_lost_def ex_applying_def ex_queue_def aq_ops)

text \<open>
  the configuration in force has a positive debounce window, and a resync interval that is
  positive when a lister is given and never negative.
\<close>

theorem New_config_bounds:
  "0 < cfg_debounce (New_config lister c) \<and> 0 \<le> cfg_resync (New_config lister c) \<and>
   (lister \<longrightarrow> 0 < cfg_resync (New_config lister c))"
  by (auto simp: New_config_def withDefaults_def defaultResync_def Let_def)

theorem New_config_bounds_witness:
  "cfg_resync (New_config True \<lparr>cfg_debounce = 0, cfg_resync = -1\<rparr>) = 5 * minute \<and>
   0 < cfg_debounce (New_config True \<lparr>cfg_debounce = 0, cfg_resync = -1\<rparr>)"
  using New_config_bounds [of True "\<lparr>cfg_debounce = 0, cfg_resync = -1\<rparr>"]
  by (simp add: New_config_def withDefaults_def defaultResync_def Let_def)

theorem apply_exclusive_witness:
  "ts_pc (q_loops (ex_applying ''a'') 0) = Applying \<and> (0 :: nat) = 0"
  using apply_exclusive [OF reach_applying [of "''a''"], of 0 0]
  by (simp add: ex_applying_def ex_queue_def aq_ops)

theorem listener_order_witness:
  "phases_run WIdle (phases_of ''a'' (q_log (ex_applying ''a''))) \<noteq> None"
  by (rule listener_order [OF reach_applying])

theorem applies_le_enqueues_witness: "ts_applies (q_loops (ex_applying ''a'') 0) \<le> 1"
  using applies_le_enqueues [OF reach_applying [of "''a''"], of 0]
  by (simp add: ex_applying_def ex_queue_def aq_ops)

end
