(* ===== verification/Reconcile.thy ===== *)
theory Reconcile
  imports Store_Props ApplyQueue
begin

text \<open>
  The wiring between the store and the apply queue, \<^verbatim>\<open>internal/reconcile/bus.go\<close> and \<^verbatim>\<open>status.go\<close>: the
  event bus that turns store mutations into enqueues, and the tracker that writes the queue's phases
  back into the status of the tenant and of its node groups.
\<close>

section \<open>The enqueue bus\<close>

definition tenantOf :: "string \<Rightarrow> resource_event \<Rightarrow> string" where
  "tenantOf rt ev =
     (if rt = ''tenant'' then md_name (ev_metadata ev)
      else let tn = mget (md_labels (ev_metadata ev)) tenantLabel in if tn \<noteq> [] then tn else [])"

definition EnqueueBus_Publish :: "string \<Rightarrow> resource_event \<Rightarrow> queue \<Rightarrow> queue" where
  "EnqueueBus_Publish rt ev q =
     (if ev_mutation ev = MutationStatus then q
      else let tn = tenantOf rt ev in if tn = [] then q else Enqueue tn q)"

text \<open>The store's bus receives its events in the order they were published.\<close>

definition deliver :: "resource_event list \<Rightarrow> queue \<Rightarrow> queue" where
  "deliver evs q = fold (\<lambda>ev. EnqueueBus_Publish (ev_resourceType ev) ev) evs q"

section \<open>The status tracker\<close>

abbreviation "phQueued \<equiv> ''queued''"
abbreviation "phApplying \<equiv> ''applying''"
abbreviation "phApplied \<equiv> ''applied''"
abbreviation "phFailed \<equiv> ''failed''"
abbreviation "phDestroying \<equiv> ''destroying''"

record phase_event =
  pe_tenant :: string
  pe_phase :: string
  pe_err :: string

record node_group_status =
  nst_phase :: string
  nst_readyMachines :: int
  nst_totalMachines :: int
  nst_reconciliation :: "reconciliation_status option"

definition enc_node_group_status :: "node_group_status \<Rightarrow> json" where
  "enc_node_group_status x = jobj [
    (''phase'', eStr (nst_phase x)),
    (''readyMachines'', eInt (nst_readyMachines x)),
    (''totalMachines'', eInt (nst_totalMachines x)),
    (''reconciliation'', oPtr enc_reconciliation_status (nst_reconciliation x))]"

definition dec_node_group_status :: "json \<Rightarrow> node_group_status" where
  "dec_node_group_status j = \<lparr>
    nst_phase = dStr ''phase'' j,
    nst_readyMachines = dInt ''readyMachines'' j,
    nst_totalMachines = dInt ''totalMachines'' j,
    nst_reconciliation = dPtr dec_reconciliation_status ''reconciliation'' j\<rparr>"

text \<open>The listener's side of the tracker: a non-blocking send into a channel of 256 slots.\<close>

definition StatusTracker_Listener :: "phase_event \<Rightarrow> phase_event list \<Rightarrow> phase_event list" where
  "StatusTracker_Listener ev ch = (if length ch < 256 then ch @ [ev] else ch)"

definition nextReconciliation ::
  "reconciliation_status option \<Rightarrow> string \<Rightarrow> string \<Rightarrow> gotime \<Rightarrow> reconciliation_status" where
  "nextReconciliation cur phase errMsg now =
     (let next = \<lparr>rs_phase = phase,
                  rs_lastError = (case cur of None \<Rightarrow> [] | Some c \<Rightarrow> rs_lastError c),
                  rs_updatedAt = Some now\<rparr>
      in if phase = phFailed then next\<lparr>rs_lastError := errMsg\<rparr>
         else if phase = phApplied then next\<lparr>rs_lastError := []\<rparr>
         else next)"

definition track_tenant :: "phase_event \<Rightarrow> gotime \<Rightarrow> store \<Rightarrow> store" where
  "track_tenant ev now s0 =
     (case GetTenant (pe_tenant ev) s0 of (got, s) \<Rightarrow>
        (case got of
           Inr (Some t) \<Rightarrow>
             let phase = (if md_deletionTimestamp (t_metadata t) \<noteq> None \<and> pe_phase ev = phApplying
                          then phDestroying else pe_phase ev);
                 status = t_status t
             in snd (UpdateTenantStatus (pe_tenant ev)
                  (status\<lparr>tst_reconciliation :=
                     Some (nextReconciliation (tst_reconciliation status) phase (pe_err ev) now)\<rparr>) s)
         | _ \<Rightarrow> s))"

definition track_node_group :: "phase_event \<Rightarrow> gotime \<Rightarrow> metadata \<times> json \<times> json \<Rightarrow> store \<Rightarrow> store" where
  "track_node_group ev now = (\<lambda>(md, _, status) s.
     let st = dec_node_group_status status in
     snd (UpdateStatus ''nodegroup'' (md_name md)
       (enc_node_group_status (st\<lparr>nst_reconciliation :=
          Some (nextReconciliation (nst_reconciliation st) (pe_phase ev) (pe_err ev) now)\<rparr>)) s))"

definition StatusTracker_apply :: "phase_event \<Rightarrow> store \<Rightarrow> store" where
  "StatusTracker_apply ev s =
     (let now = clock s in
      case ListResources ''nodegroup'' (noOptions\<lparr>lo_labelSelector := tenantSelector (pe_tenant ev)\<rparr>)
             (track_tenant ev now s) of
        (Inl _, s) \<Rightarrow> s
      | (Inr (items, _), s) \<Rightarrow> fold (track_node_group ev now) items s)"

section \<open>Events a run publishes\<close>

definition publishes :: "(resource_event \<Rightarrow> bool) \<Rightarrow> store \<Rightarrow> store \<Rightarrow> bool" where
  "publishes P s t \<longleftrightarrow> (\<exists>es. events t = events s @ es \<and> list_all P es)"

lemma publishes_refl: "events t = events s \<Longrightarrow> publishes P s t"
  by (auto simp: publishes_def)

lemma publishes_trans: "publishes P s t \<Longrightarrow> publishes P t u \<Longrightarrow> publishes P s u"
  by (auto simp: publishes_def)

lemma publishes_fold: "(\<And>x s. publishes P s (f x s)) \<Longrightarrow> publishes P s (fold f xs s)"
proof (induction xs arbitrary: s)
  case Nil
  show ?case by (simp add: publishes_refl)
next
  case (Cons x xs)
  then show ?case by (auto intro: publishes_trans)
qed

lemma Get_events: "GetResource rt name s = (x, t) \<Longrightarrow> events t = events s"
  by (auto simp: GetResource_def sql_def split: option.splits if_splits)

lemma UpdateStatus_publishes: "publishes (\<lambda>e. ev_mutation e = MutationStatus) s (snd (UpdateStatus rt name st s))"
  by (auto simp: UpdateStatus_def updateResourceMetadataAndPublish_def publish_def publishes_def sql_def
      split: option.splits)

lemma UpdateTenantStatus_publishes:
  "publishes (\<lambda>e. ev_mutation e = MutationStatus) s (snd (UpdateTenantStatus name st s))"
  using UpdateStatus_publishes [of s "''tenant''" name "enc_tenant_status st"]
  by (auto simp: UpdateTenantStatus_def publishes_def dest!: Get_events split: prod.splits sum.splits)

lemma List_events: "ListResources rt opts s = (x, t) \<Longrightarrow> events t = events s"
  by (auto simp: ListResources_def sql_def Let_def split: if_splits)

lemma GetTenant_events: "GetTenant name s = (x, t) \<Longrightarrow> events t = events s"
  by (auto simp: GetTenant_def dest: Get_events split: prod.splits sum.splits)

lemma track_tenant_publishes: "publishes (\<lambda>e. ev_mutation e = MutationStatus) s (track_tenant ev now s)"
proof (cases "GetTenant (pe_tenant ev) s")
  case (Pair got t)
  then have "events t = events s" by (rule GetTenant_events)
  then have "publishes (\<lambda>e. ev_mutation e = MutationStatus) s (snd (UpdateTenantStatus n st t))" for n st
    by (rule publishes_trans [OF publishes_refl UpdateTenantStatus_publishes])
  then show ?thesis
    using Pair \<open>events t = events s\<close>
    by (auto simp: track_tenant_def Let_def publishes_refl split: sum.splits option.splits)
qed

lemma tracker_publishes: "publishes (\<lambda>e. ev_mutation e = MutationStatus) s (StatusTracker_apply ev s)"
proof -
  let ?P = "\<lambda>e. ev_mutation e = MutationStatus"
  have "publishes ?P t (fold (track_node_group ev now) items t)" for now items t
    by (rule publishes_fold) (auto simp: track_node_group_def Let_def UpdateStatus_publishes)
  note fold = this
  obtain x u where lst: "ListResources ''nodegroup'' (noOptions\<lparr>lo_labelSelector := tenantSelector (pe_tenant ev)\<rparr>)
      (track_tenant ev (clock s) s) = (x, u)"
    by fastforce
  have "publishes ?P s u"
    using track_tenant_publishes [of s ev "clock s"] List_events [OF lst] by (simp add: publishes_def)
  then show ?thesis
    unfolding StatusTracker_apply_def Let_def lst
    by (cases x) (auto intro: publishes_trans [OF _ fold])
qed

lemma deliver_status: "list_all (\<lambda>e. ev_mutation e = MutationStatus) es \<Longrightarrow> deliver es q = q"
  by (induction es) (auto simp: deliver_def EnqueueBus_Publish_def)

text \<open>The reconciliation state after a sequence of phases, each with its error message and time.\<close>

definition reconcile_run ::
  "reconciliation_status option \<Rightarrow> (string \<times> string \<times> gotime) list \<Rightarrow> reconciliation_status option" where
  "reconcile_run cur evs = foldl (\<lambda>c (ph, err, now). Some (nextReconciliation c ph err now)) cur evs"

section \<open>Properties\<close>

text \<open>
  writing reconciliation status never feeds back into the queue: the events the tracker's
  writes publish, whatever fails, leave the queue as it is when the enqueue bus receives them.
\<close>

theorem tracker_no_feedback:
  "\<exists>es. events (StatusTracker_apply ev s) = events s @ es \<and> deliver es q = q"
  using tracker_publishes [of s ev] deliver_status by (fastforce simp: publishes_def)

text \<open>
  along any sequence of phases the last error shown is the message of the most recent failure,
  until an apply succeeds; queued, applying and destroying phases keep it.
\<close>

theorem nextReconciliation_last_error:
  "let outcomes = filter (\<lambda>(ph, _, _). ph = phFailed \<or> ph = phApplied) evs;
       r = reconcile_run cur (evs @ [(ph, err, now)])
   in map_option rs_lastError r = Some
        (if ph = phFailed then err else if ph = phApplied then []
         else if outcomes = [] then (case cur of None \<Rightarrow> [] | Some c \<Rightarrow> rs_lastError c)
         else case last outcomes of (p, e, _) \<Rightarrow> if p = phFailed then e else []) \<and>
      map_option rs_phase r = Some ph \<and> map_option rs_updatedAt r = Some (Some now)"
proof -
  have "(case reconcile_run cur evs of None \<Rightarrow> [] | Some c \<Rightarrow> rs_lastError c) =
     (let outcomes = filter (\<lambda>(ph, _, _). ph = phFailed \<or> ph = phApplied) evs in
      if outcomes = [] then (case cur of None \<Rightarrow> [] | Some c \<Rightarrow> rs_lastError c)
      else case last outcomes of (p, e, _) \<Rightarrow> if p = phFailed then e else [])"
  proof (induction evs rule: rev_induct)
    case (snoc x xs)
    then show ?case
      by (cases x) (auto simp: reconcile_run_def nextReconciliation_def Let_def)
  qed (simp add: reconcile_run_def)
  then show ?thesis
    by (simp add: reconcile_run_def nextReconciliation_def Let_def)
qed

lemma fold_track_tenant_row:
  "find_row (fold (track_node_group ev now) items s) ''tenant'' name = find_row s ''tenant'' name"
proof (induction items arbitrary: s)
  case (Cons x items)
  have "find_row (track_node_group ev now x s) ''tenant'' name = find_row s ''tenant'' name"
    by (cases x) (simp add: track_node_group_def Let_def UpdateStatus_def sql_def)
  with Cons show ?case by simp
qed simp

lemma List_resources: "ListResources rt opts s = (x, t) \<Longrightarrow> resources t = resources s"
  by (auto simp: ListResources_def sql_def Let_def split: if_splits)

lemma GetTenant_healthy:
  "faults s = [] \<Longrightarrow> GetTenant name s =
     (Inr (map_option (\<lambda>r. mk_tenant (meta_of r, r_spec r, r_status r)) (find_row s ''tenant'' name)), s)"
  by (simp add: GetTenant_def GetResource_healthy split: option.splits)

text \<open>
  tracking a phase changes of the tenant's record only the reconciliation part of its status and
  the update time: spec, labels, finalizers, version and every other status field are those the last
  writer left. While the tenant is being deleted, an apply in progress is shown as destroying.
\<close>

theorem tracker_tenant_row:
  assumes "faults s = []" and "find_row s ''tenant'' (pe_tenant ev) = Some r"
  shows "let st = dec_tenant_status (r_status r);
             ph = (if r_deleted r \<noteq> None \<and> pe_phase ev = phApplying then phDestroying else pe_phase ev);
             st' = st\<lparr>tst_reconciliation := Some (nextReconciliation (tst_reconciliation st) ph (pe_err ev) (clock s))\<rparr>
    in find_row (StatusTracker_apply ev s) ''tenant'' (pe_tenant ev) =
         Some (r\<lparr>r_status := enc_tenant_status st', r_updated := clock s\<rparr>) \<and>
       dec_tenant_status (enc_tenant_status st') = st'"
proof -
  let ?t = "track_tenant ev (clock s) s"
  have "find_row (StatusTracker_apply ev s) ''tenant'' (pe_tenant ev) = find_row ?t ''tenant'' (pe_tenant ev)"
    using List_resources
    by (force simp: StatusTracker_apply_def Let_def fold_track_tenant_row split: prod.splits sum.splits)
  then show ?thesis
    using assms
    by (simp add: track_tenant_def GetTenant_healthy mk_tenant_def UpdateTenantStatus_def UpdateStatus_healthy
        GetResource_healthy Let_def json_simps)
qed

theorem tracker_tenant_row_witness:
  "\<exists>r. find_row (StatusTracker_apply \<lparr>pe_tenant = ''acme'', pe_phase = phQueued, pe_err = []\<rparr> ex_store)
     ''tenant'' ''acme'' = Some r \<and> r_updated r = 5"
  using tracker_tenant_row [of ex_store "\<lparr>pe_tenant = ''acme'', pe_phase = phQueued, pe_err = []\<rparr>"]
  by (simp add: Let_def)

end
