(* ===== verification/Tfexec.thy ===== *)
theory Tfexec
  imports Json
begin

text \<open>
  The tofu driver, \<^verbatim>\<open>internal/tfexec/exec.go\<close>: the per-tenant working directories, the backend file
  written into each, and the run of a command. The tofu process itself is outside the program: it is
  the parameter \<open>ex_tofu\<close>, which says whether a command over the files of a directory succeeds and
  what it prints. Directories are keyed by their name under the root; a directory is the association
  list of its files, whose content is bytes the program got from elsewhere or a JSON document it
  writes itself.
\<close>

datatype file_content = Raw string | Doc json

type_synonym files = "(string \<times> file_content) list"

type_synonym workdirs = "string \<Rightarrow> files"

record exec =
  ex_backendURL :: string
  ex_mkdir_ok :: "string \<Rightarrow> bool"
  ex_write_ok :: "string \<Rightarrow> string \<Rightarrow> bool"
  ex_tofu :: "string \<Rightarrow> string list \<Rightarrow> files \<Rightarrow> string option"

abbreviation "backendFile \<equiv> ''backend.tf.json''"

text \<open>Names are ASCII here: the source walks over runes, and writes one dash for each other rune.\<close>

definition safeChar :: "char \<Rightarrow> bool" where
  "safeChar c \<longleftrightarrow> (let n = (of_char c :: nat) in
     97 \<le> n \<and> n \<le> 122 \<or> 65 \<le> n \<and> n \<le> 90 \<or> 48 \<le> n \<and> n \<le> 57 \<or> c = CHR ''-'' \<or> c = CHR ''_'')"

definition sanitizeTenant :: "string \<Rightarrow> string" where
  "sanitizeTenant tn =
     (if tn = [] then ''default'' else map (\<lambda>c. if safeChar c then c else CHR ''-'') tn)"

definition trimRightSlash :: "string \<Rightarrow> string" where
  "trimRightSlash s = trimRightP (\<lambda>c. c = CHR ''/'') s"

definition WithBackendURL :: "string \<Rightarrow> exec \<Rightarrow> exec" where
  "WithBackendURL url e = e\<lparr>ex_backendURL := trimRightSlash url\<rparr>"

definition backend_block :: "string \<Rightarrow> string \<Rightarrow> json" where
  "backend_block url seg =
     JObj [(''terraform'', JObj [(''backend'', JObj [(''http'', JObj [(''address'', JStr (url @ ''?ID='' @ seg))])])])]"

definition writeBackend :: "exec \<Rightarrow> string \<Rightarrow> workdirs \<Rightarrow> (string + unit) \<times> workdirs" where
  "writeBackend e seg dirs =
     (if ex_write_ok e seg backendFile
      then (Inr (), dirs(seg := AList.update backendFile (Doc (backend_block (ex_backendURL e) seg)) (dirs seg)))
      else (Inl ''tfexec: write'', dirs))"

text \<open>The result is the directory's name.\<close>

definition Workdir :: "exec \<Rightarrow> string \<Rightarrow> workdirs \<Rightarrow> (string + string) \<times> workdirs" where
  "Workdir e tn dirs =
     (let seg = sanitizeTenant tn in
      if \<not> ex_mkdir_ok e seg then (Inl ''tfexec: create workdir'', dirs)
      else if ex_backendURL e = [] then (Inr seg, dirs)
      else (case writeBackend e seg dirs of
              (Inl err, dirs) \<Rightarrow> (Inl err, dirs)
            | (Inr _, dirs) \<Rightarrow> (Inr seg, dirs)))"

text \<open>A timeout and a non-zero exit are both errors of the run.\<close>

definition Run :: "exec \<Rightarrow> string \<Rightarrow> string list \<Rightarrow> workdirs \<Rightarrow> (string + string) \<times> workdirs" where
  "Run e tn args dirs =
     (case Workdir e tn dirs of
        (Inl err, dirs) \<Rightarrow> (Inl err, dirs)
      | (Inr seg, dirs) \<Rightarrow>
          (case ex_tofu e seg args (dirs seg) of
             None \<Rightarrow> (Inl ''tfexec: tofu failed'', dirs)
           | Some out \<Rightarrow> (Inr out, dirs)))"

definition StatePull :: "exec \<Rightarrow> string \<Rightarrow> workdirs \<Rightarrow> (string + string) \<times> workdirs" where
  "StatePull e tn dirs = Run e tn [''state'', ''pull''] dirs"

section \<open>Directories of tenants\<close>

definition safe_name :: "string \<Rightarrow> bool" where
  "safe_name tn \<longleftrightarrow> tn \<noteq> [] \<and> list_all safeChar tn"

lemma sanitize_safe: "safe_name tn \<Longrightarrow> sanitizeTenant tn = tn"
  by (auto simp: safe_name_def sanitizeTenant_def list_all_iff intro: map_idI)

lemma Workdir_seg: "Workdir e tn dirs = (Inr seg, dirs') \<Longrightarrow> seg = sanitizeTenant tn"
  by (auto simp: Workdir_def Let_def split: if_splits prod.splits sum.splits)

lemma Workdir_others: "Workdir e tn dirs = (x, dirs') \<Longrightarrow> d \<noteq> sanitizeTenant tn \<Longrightarrow> dirs' d = dirs d"
  by (auto simp: Workdir_def writeBackend_def Let_def split: if_splits prod.splits sum.splits)

text \<open>
  a working directory is always named by characters that are safe in a path, and tenants whose
  names consist of such characters never share one: a command run for one of them leaves the files
  of the other alone.
\<close>

theorem Run_isolated:
  assumes "safe_name a" and "safe_name b" and "a \<noteq> b"
  shows "list_all safeChar (sanitizeTenant tn) \<and> sanitizeTenant tn \<noteq> [] \<and>
    snd (Run e a args dirs) (sanitizeTenant b) = dirs (sanitizeTenant b)"
proof -
  have "list_all safeChar (sanitizeTenant tn)" "sanitizeTenant tn \<noteq> []"
    by (auto simp: sanitizeTenant_def list_all_iff safeChar_def)
  moreover obtain x dirs' where "Workdir e a dirs = (x, dirs')" by fastforce
  moreover have "sanitizeTenant b \<noteq> sanitizeTenant a"
    using assms by (simp add: sanitize_safe)
  ultimately show ?thesis
    by (auto simp: Run_def dest: Workdir_others split: sum.splits option.splits)
qed

theorem Run_isolated_witness:
  "snd (Run \<lparr>ex_backendURL = ''http://h/tfstate'', ex_mkdir_ok = (\<lambda>_. True), ex_write_ok = (\<lambda>_ _. True),
      ex_tofu = (\<lambda>_ _ _. Some [])\<rparr> ''team-a'' [''init''] (\<lambda>_. [])) (sanitizeTenant ''team-b'') = []"
  using Run_isolated [of "''team-a''" "''team-b''"]
  by (simp add: safe_name_def safeChar_def)

text \<open>
  the names of tenants are not restricted to safe characters, and different names can then meet
  in one directory and one remote state: \<^verbatim>\<open>team.a\<close> and \<^verbatim>\<open>team-a\<close> get the same working directory and the
  same backend address.
\<close>

theorem sanitizeTenant_collision:
  "sanitizeTenant ''team.a'' = sanitizeTenant ''team-a'' \<and> ''team.a'' \<noteq> ''team-a'' \<and>
   Workdir e ''team.a'' dirs = Workdir e ''team-a'' dirs"
  by (simp add: Workdir_def sanitizeTenant_def safeChar_def)

end
