(* ===== verification/Applier.thy ===== *)
theory Applier
  imports Reconcile Tfexec
begin

text \<open>
  The applier, \<^verbatim>\<open>internal/reconcile/applier.go\<close>: what one reconciliation of a tenant does to the store,
  to the tenant's working directory and to the outside. Providers, the upgrade runner, the bootstrap
  config and the random source are parameters (\<open>ap_env\<close>), as they are interfaces or libraries in the
  code; the trace records the upgrade runs and tofu commands in order.
\<close>

section \<open>Environment and state\<close>

record render_request =
  rr_tenant :: "tenant option"
  rr_nodeGroups :: "node_group_spec list"
  rr_bootstrapConfig :: string
  rr_bindingTokens :: gomap
  rr_mgmtEndpoint :: string

record ap_env =
  ap_exec :: exec
  ap_registry :: "(string \<times> (render_request \<Rightarrow> string option)) list"
  ap_upgrades :: "(string \<Rightarrow> string \<Rightarrow> string \<Rightarrow> string \<Rightarrow> store \<Rightarrow> bool \<times> store) option"
  ap_mgmtEndpoint :: string
  ap_bootstrap :: "string option"
  ap_random :: "nat \<Rightarrow> nat list option"
  ap_readdir_ok :: "string \<Rightarrow> bool"
  ap_remove_ok :: "string \<Rightarrow> string \<Rightarrow> bool"
  ap_read_ok :: "string \<Rightarrow> string \<Rightarrow> bool"

datatype ap_event = EvUpgrade string string string string | EvTofu string "string list"

record ap_state =
  as_store :: store
  as_dirs :: workdirs
  as_rand :: nat
  as_trace :: "ap_event list"

section \<open>Node groups\<close>

record ng_spec_json =
  nsj_count :: int
  nsj_role :: string
  nsj_providerClass :: string
  nsj_providerConfig :: "json option"
  nsj_talosVersion :: string

definition enc_ng_spec_json :: "ng_spec_json \<Rightarrow> json" where
  "enc_ng_spec_json x = jobj [
    (''count'', eInt (nsj_count x)),
    (''role'', eStr (nsj_role x)),
    (''providerClass'', oStr (nsj_providerClass x)),
    (''providerConfig'', nsj_providerConfig x),
    (''talosVersion'', oStr (nsj_talosVersion x))]"

definition dec_ng_spec_json :: "json \<Rightarrow> ng_spec_json option" where
  "dec_ng_spec_json j =
     (if orNull isObj j \<and> fieldOk isNum ''count'' j \<and> fieldOk isStr ''role'' j \<and>
         fieldOk isStr ''providerClass'' j \<and> fieldOk isStr ''talosVersion'' j
      then Some \<lparr>nsj_count = dInt ''count'' j, nsj_role = dStr ''role'' j,
                 nsj_providerClass = dStr ''providerClass'' j,
                 nsj_providerConfig = jget ''providerConfig'' j, nsj_talosVersion = dStr ''talosVersion'' j\<rparr>
      else None)"

text \<open>Whether a stored spec unmarshals into \<^verbatim>\<open>state.NodeGroupSpec\<close>.\<close>

definition ok_node_group_spec :: "json \<Rightarrow> bool" where
  "ok_node_group_spec j \<longleftrightarrow> orNull isObj j \<and> fieldOk isStr ''name'' j \<and> fieldOk isStr ''role'' j \<and>
     fieldOk isNum ''count'' j \<and> fieldOk isStr ''providerClass'' j \<and> fieldOk isStr ''talosVersion'' j \<and>
     fieldOk (isArr (orNull (\<lambda>x. isObj x \<and> fieldOk isStr ''name'' x))) ''configPatches'' j"

definition loadNodeGroups :: "string \<Rightarrow> store \<Rightarrow> node_group_spec list res" where
  "loadNodeGroups tn s =
     (case ListTypedByTenant ''nodegroup'' tn
             (\<lambda>md spec _. map_option (\<lambda>x. \<lparr>ng_name = md_name md, ng_role = nsj_role x, ng_count = nsj_count x,
                ng_providerClass = nsj_providerClass x, ng_providerConfig = nsj_providerConfig x,
                ng_talosVersion = nsj_talosVersion x, ng_configPatches = []\<rparr>) (dec_ng_spec_json spec)) s of
        (Inl e, s) \<Rightarrow> (Inl e, s)
      | (Inr (items, _), s) \<Rightarrow> (Inr items, s))"

definition providerTypeOf :: "string \<Rightarrow> string" where
  "providerTypeOf class =
     (let i = byteIndex class (CHR '':'') in if i \<ge> 0 then take (nat i) class else class)"

definition filterByProvider :: "node_group_spec list \<Rightarrow> string \<Rightarrow> node_group_spec list" where
  "filterByProvider ngs pt = filter (\<lambda>ng. providerTypeOf (ng_providerClass ng) = pt) ngs"

text \<open>The \<^verbatim>\<open>machines\<close> object of a metal node group's provider config; \<open>None\<close> when it does not unmarshal.\<close>

definition metalMachines :: "json \<Rightarrow> string list option" where
  "metalMachines j =
     (if \<not> orNull isObj j \<or> \<not> fieldOk isObj ''machines'' j then None
      else Some (case jget ''machines'' j of Some (JObj fs) \<Rightarrow> remdups (map fst fs) | _ \<Rightarrow> []))"

definition machineKeysFor :: "node_group_spec \<Rightarrow> string list" where
  "machineKeysFor ng =
     (if providerTypeOf (ng_providerClass ng) \<noteq> ''metal''
      then map (\<lambda>i. itoa (int i)) [0..<nat (ng_count ng)]
      else (case ng_providerConfig ng of
              None \<Rightarrow> []
            | Some j \<Rightarrow> (case metalMachines j of None \<Rightarrow> [] | Some ks \<Rightarrow> sort ks)))"

section \<open>Binding tokens\<close>

definition bindingTokenAnnotation :: "string \<Rightarrow> string" where
  "bindingTokenAnnotation key =
     ''rezuscloud.io/binding-token/'' @
     map (\<lambda>c. if c = CHR '':'' \<or> c = CHR ''.'' then CHR ''-'' else if c = CHR ''/'' then CHR ''_'' else c) key"

definition b64Char :: "nat \<Rightarrow> char" where
  "b64Char n = (if n < 26 then char_of (65 + n) else if n < 52 then char_of (71 + n)
     else if n < 62 then char_of (n - 4) else if n = 62 then CHR ''-'' else CHR ''_'')"

fun rawURLEncode :: "nat list \<Rightarrow> string" where
  "rawURLEncode [] = []"
| "rawURLEncode [a] = [b64Char (a div 4), b64Char ((a mod 4) * 16)]"
| "rawURLEncode [a, b] = [b64Char (a div 4), b64Char ((a mod 4) * 16 + b div 16), b64Char ((b mod 16) * 4)]"
| "rawURLEncode (a # b # c # r) =
     [b64Char (a div 4), b64Char ((a mod 4) * 16 + b div 16), b64Char ((b mod 16) * 4 + c div 64), b64Char (c mod 64)]
     @ rawURLEncode r"

text \<open>\<open>None\<close> is a failure of the random source.\<close>

definition newBindingToken :: "nat list option \<Rightarrow> string option" where
  "newBindingToken bytes = map_option rawURLEncode bytes"

text \<open>The loop over the machine keys of one node group: annotations, tokens and whether any is new.\<close>

fun bindKeys :: "(nat \<Rightarrow> nat list option) \<Rightarrow> string list \<Rightarrow> gomap \<Rightarrow> gomap \<Rightarrow> bool \<Rightarrow> nat \<Rightarrow>
    (string + gomap \<times> gomap \<times> bool) \<times> nat" where
  "bindKeys rnd [] anns tokens changed n = (Inr (anns, tokens, changed), n)"
| "bindKeys rnd (k # ks) anns tokens changed n =
     (let tok = mget anns (bindingTokenAnnotation k) in
      if tok \<noteq> [] then bindKeys rnd ks anns (AList.update k tok tokens) changed n
      else (case newBindingToken (rnd n) of
              None \<Rightarrow> (Inl ''generate binding token'', n + 1)
            | Some tok \<Rightarrow>
                bindKeys rnd ks (AList.update (bindingTokenAnnotation k) tok anns) (AList.update k tok tokens) True (n + 1)))"

fun ensureBindingTokens :: "(nat \<Rightarrow> nat list option) \<Rightarrow> node_group_spec list \<Rightarrow> gomap \<Rightarrow> nat \<Rightarrow> store \<Rightarrow>
    (string + gomap) \<times> nat \<times> store" where
  "ensureBindingTokens rnd [] tokens n s = (Inr tokens, n, s)"
| "ensureBindingTokens rnd (ng # ngs) tokens n s0 =
     (let keys = machineKeysFor ng in
      if keys = [] then ensureBindingTokens rnd ngs tokens n s0
      else (case GetResource ''nodegroup'' (ng_name ng) s0 of
              (Inl _, s) \<Rightarrow> (Inl ''node group'', n, s)
            | (Inr (md, spec, _), s) \<Rightarrow>
                (case bindKeys rnd keys (md_annotations md) tokens False n of
                   (Inl e, n) \<Rightarrow> (Inl e, n, s)
                 | (Inr (anns, tokens, changed), n) \<Rightarrow>
                     if \<not> changed then ensureBindingTokens rnd ngs tokens n s
                     else if \<not> ok_node_group_spec spec then (Inl ''node group spec'', n, s)
                     else (case UpdateResource ''nodegroup'' (ng_name ng) (md_resourceVersion md) spec
                                  (md_labels md) anns s of
                             (Inl _, s) \<Rightarrow> (Inl ''persist binding tokens'', n, s)
                           | (Inr _, s) \<Rightarrow> ensureBindingTokens rnd ngs tokens n s))))"

section \<open>The working directory\<close>

fun cleanLoop :: "(string \<Rightarrow> bool) \<Rightarrow> string list \<Rightarrow> files \<Rightarrow> bool \<times> files" where
  "cleanLoop ok [] fs = (True, fs)"
| "cleanLoop ok (name # names) fs =
     (if name = backendFile \<or> \<not> hasSuffix name ''.tf.json'' then cleanLoop ok names fs
      else if \<not> ok name then (False, fs)
      else cleanLoop ok names (AList.delete name fs))"

definition cleanProviderConfigs :: "ap_env \<Rightarrow> string \<Rightarrow> files \<Rightarrow> bool \<times> files" where
  "cleanProviderConfigs env dir fs =
     (if \<not> ap_readdir_ok env dir then (False, fs)
      else cleanLoop (ap_remove_ok env dir) (sort (remdups (map fst fs))) fs)"

text \<open>The loop over the registered providers; the flag is the source's \<^verbatim>\<open>wroteAny\<close>.\<close>

fun renderProviders :: "ap_env \<Rightarrow> string \<Rightarrow> tenant \<Rightarrow> node_group_spec list \<Rightarrow> render_request \<Rightarrow>
    (string \<times> (render_request \<Rightarrow> string option)) list \<Rightarrow> bool \<Rightarrow> files \<Rightarrow> (string + bool) \<times> files" where
  "renderProviders env dir t ngs req [] wrote fs = (Inr wrote, fs)"
| "renderProviders env dir t ngs req ((pt, render) # ps) wrote fs =
     (let matching = filterByProvider ngs pt in
      if matching = [] then renderProviders env dir t ngs req ps wrote fs
      else (case render (req\<lparr>rr_tenant := Some t, rr_nodeGroups := matching\<rparr>) of
              None \<Rightarrow> (Inl ''provider render'', fs)
            | Some raw \<Rightarrow>
                if \<not> ex_write_ok (ap_exec env) dir (pt @ ''.tf.json'') then (Inl ''write'', fs)
                else renderProviders env dir t ngs req ps True (AList.update (pt @ ''.tf.json'') (Raw raw) fs)))"

definition minimalConfig :: string where
  "minimalConfig = [CHR ''{'', CHR 0x22] @ ''terraform'' @ [CHR 0x22, CHR '':'', CHR ''{'', CHR ''}'', CHR ''}'']"

definition renderConfig :: "ap_env \<Rightarrow> string \<Rightarrow> tenant \<Rightarrow> node_group_spec list \<Rightarrow> render_request \<Rightarrow> files \<Rightarrow>
    (string + unit) \<times> files" where
  "renderConfig env dir t ngs req fs0 =
     (case cleanProviderConfigs env dir fs0 of (ok, fs) \<Rightarrow>
        if \<not> ok then (Inl ''clean stale configs'', fs)
        else (case renderProviders env dir t ngs req (ap_registry env) False fs of
                (Inl e, fs) \<Rightarrow> (Inl e, fs)
              | (Inr wrote, fs) \<Rightarrow>
                  if wrote then (Inr (), fs)
                  else if \<not> ex_write_ok (ap_exec env) dir ''main.tf.json'' then (Inl ''write minimal main.tf.json'', fs)
                  else (Inr (), AList.update ''main.tf.json'' (Raw minimalConfig) fs)))"

text \<open>A text mentions a word when it occurs in it; a document, when a key or a string of it does.\<close>

function (sequential) mentions :: "string \<Rightarrow> json \<Rightarrow> bool" where
  "mentions w (JStr s) = containsStr s w"
| "mentions w (JArr xs) = list_ex (mentions w) xs"
| "mentions w (JObj fs) = list_ex (\<lambda>(k, v). containsStr k w \<or> mentions w v) fs"
| "mentions w _ = False"
  by pat_completeness auto

lemma size_json_arr: "x \<in> set xs \<Longrightarrow> size x < Suc (size_list size xs)"
  by (induction xs) auto

lemma size_json_obj: "(k, v) \<in> set fs \<Longrightarrow> size v < Suc (size_list (size_prod (\<lambda>x. 0) size) fs)"
  by (induction fs) auto

termination mentions
  by (relation "measure (\<lambda>(_, j). size j)") (auto simp: size_json_arr size_json_obj)

fun fileMentions :: "string \<Rightarrow> file_content \<Rightarrow> bool" where
  "fileMentions w (Raw s) = containsStr s w"
| "fileMentions w (Doc j) = mentions w j"

definition configReferencesTalos :: "ap_env \<Rightarrow> string \<Rightarrow> files \<Rightarrow> bool" where
  "configReferencesTalos env dir fs \<longleftrightarrow> ap_readdir_ok env dir \<and>
     list_ex (\<lambda>(name, c). hasSuffix name ''.tf.json'' \<and> name \<noteq> backendFile \<and> ap_read_ok env dir name \<and>
       fileMentions ''talos_machine_secrets'' c) fs"

definition strVar :: "string \<Rightarrow> json" where
  "strVar desc = JObj [(''type'', JStr ''string''), (''description'', JStr desc)]"

definition optionalStrVar :: "string \<Rightarrow> json" where
  "optionalStrVar desc = JObj [(''type'', JStr ''string''), (''description'', JStr desc), (''default'', JStr [])]"

definition commonVariables :: json where
  "commonVariables = JObj [
     (''cluster_name'', strVar ''The tenant cluster name''),
     (''cluster_endpoint'', strVar ''The control-plane API endpoint''),
     (''talos_version'', strVar ''The desired Talos version''),
     (''kubernetes_version'', strVar ''The desired Kubernetes version''),
     (''region'', optionalStrVar ''OCI region''),
     (''compartment_ocid'', optionalStrVar ''OCI compartment OCID''),
     (''talos_image_ocid'', optionalStrVar ''Talos image OCID (OCI)''),
     (''bootstrap_config'', strVar ''Minimal bootstrap machine config (no secrets)''),
     (''mgmtlink_endpoint'', optionalStrVar ''Management link gRPC endpoint (host:port) nodes dial'')]"

definition renderCommonConfig :: "ap_env \<Rightarrow> string \<Rightarrow> files \<Rightarrow> (string + unit) \<times> files" where
  "renderCommonConfig env dir fs =
     (if \<not> ex_write_ok (ap_exec env) dir ''common.tf.json'' then (Inl ''common config'', fs)
      else (Inr (), AList.update ''common.tf.json'' (Doc (JObj [
        (''terraform'', JObj [(''required_providers'', JObj [(''talos'', JObj [(''source'', JStr ''siderolabs/talos'')])])]),
        (''resource'', JObj [(''talos_machine_secrets'', JObj [(''this'', JObj [])])]),
        (''variable'', commonVariables)])) fs))"

text \<open>The values of the first OCI node group whose provider config unmarshals.\<close>

definition ociVars :: "node_group_spec list \<Rightarrow> gomap" where
  "ociVars ngs =
     (case List.map_filter (\<lambda>ng. if providerTypeOf (ng_providerClass ng) \<noteq> ''oci'' then None
             else case ng_providerConfig ng of
                None \<Rightarrow> None
              | Some j \<Rightarrow> if orNull isObj j \<and> fieldOk isStr ''compartmentOcid'' j \<and> fieldOk isStr ''imageOcid'' j \<and>
                           fieldOk isStr ''region'' j then Some j else None) ngs of
        [] \<Rightarrow> []
      | j # _ \<Rightarrow> filter (\<lambda>(_, v). v \<noteq> [])
          [(''compartment_ocid'', dStr ''compartmentOcid'' j), (''talos_image_ocid'', dStr ''imageOcid'' j),
           (''region'', dStr ''region'' j)])"

definition renderTFVars :: "ap_env \<Rightarrow> string \<Rightarrow> tenant \<Rightarrow> render_request \<Rightarrow> files \<Rightarrow> (string + unit) \<times> files" where
  "renderTFVars env dir t req fs =
     (if \<not> ex_write_ok (ap_exec env) dir ''terraform.tfvars.json'' then (Inl ''tfvars'', fs)
      else (Inr (), AList.update ''terraform.tfvars.json'' (Doc (JObj (map (\<lambda>(k, v). (k, JStr v))
        ([(''cluster_name'', md_name (t_metadata t)), (''cluster_endpoint'', ts_controlPlaneEndpoint (t_spec t)),
          (''talos_version'', ts_talosVersion (t_spec t)), (''kubernetes_version'', ts_kubernetesVersion (t_spec t)),
          (''bootstrap_config'', rr_bootstrapConfig req), (''mgmtlink_endpoint'', rr_mgmtEndpoint req)]
         @ ociVars (ts_nodeGroups (t_spec t)))))) fs))"

section \<open>Upgrades\<close>

text \<open>The loop compares each version with the first; the Boolean says the first machine is still to come.\<close>

fun sharedLoop :: "string \<Rightarrow> bool \<Rightarrow> string list \<Rightarrow> string" where
  "sharedLoop v first [] = v"
| "sharedLoop v first (mv # mvs) =
     (if mv = [] then [] else if first then sharedLoop mv False mvs
      else if mv \<noteq> v then [] else sharedLoop v False mvs)"

definition sharedVersion :: "machine list \<Rightarrow> (machine \<Rightarrow> string) \<Rightarrow> string" where
  "sharedVersion machines pick = sharedLoop [] True (map pick machines)"

definition observedTalos :: "machine list \<Rightarrow> string" where
  "observedTalos machines = sharedVersion machines (\<lambda>m. mst_talosVersion (m_status m))"

definition runUpgradesIfNeeded :: "ap_env \<Rightarrow> string \<Rightarrow> tenant \<Rightarrow> ap_state \<Rightarrow> (string + unit) \<times> ap_state" where
  "runUpgradesIfNeeded env tn t st =
     (case ap_upgrades env of
        None \<Rightarrow> (Inr (), st)
      | Some runUpgrade \<Rightarrow>
          (case ListMachinesByTenant tn [] (as_store st) of
             (Inl _, s) \<Rightarrow> (Inl ''list machines'', st\<lparr>as_store := s\<rparr>)
           | (Inr (machines, _), s) \<Rightarrow>
               let st = st\<lparr>as_store := s\<rparr>;
                   target = ts_talosVersion (t_spec t);
                   observed = observedTalos machines
               in if machines = [] \<or> target = [] \<or> observed = [] \<or> observed = target then (Inr (), st)
                  else (case runUpgrade tn ''talos'' observed target s of (ok, s) \<Rightarrow>
                          let st = st\<lparr>as_store := s, as_trace := as_trace st @ [EvUpgrade tn ''talos'' observed target]\<rparr>
                          in if ok then (Inr (), st) else (Inl ''upgrade talos'', st))))"

section \<open>Apply and destroy\<close>

definition renderInputs :: "ap_env \<Rightarrow> node_group_spec list \<Rightarrow> ap_state \<Rightarrow> (string + render_request) \<times> ap_state" where
  "renderInputs env ngs st =
     (case ensureBindingTokens (ap_random env) ngs [] (as_rand st) (as_store st) of (toks, n, s) \<Rightarrow>
        let st = st\<lparr>as_store := s, as_rand := n\<rparr> in
        (case toks of
           Inl e \<Rightarrow> (Inl e, st)
         | Inr tokens \<Rightarrow>
             (case ap_bootstrap env of
                None \<Rightarrow> (Inl ''bootstrap config'', st)
              | Some b \<Rightarrow> (Inr \<lparr>rr_tenant = None, rr_nodeGroups = [], rr_bootstrapConfig = b,
                  rr_bindingTokens = tokens, rr_mgmtEndpoint = ap_mgmtEndpoint env\<rparr>, st))))"

definition set_dir :: "string \<Rightarrow> files \<Rightarrow> ap_state \<Rightarrow> ap_state" where
  "set_dir dir fs st = st\<lparr>as_dirs := (as_dirs st)(dir := fs)\<rparr>"

definition writeCommon :: "ap_env \<Rightarrow> string \<Rightarrow> tenant \<Rightarrow> render_request \<Rightarrow> files \<Rightarrow> (string + unit) \<times> files" where
  "writeCommon env dir t req fs =
     (if \<not> configReferencesTalos env dir fs then (Inr (), fs)
      else (case renderCommonConfig env dir fs of
              (Inl e, fs) \<Rightarrow> (Inl e, fs)
            | (Inr _, fs) \<Rightarrow> renderTFVars env dir t req fs))"

text \<open>What apply and destroy share: node groups, working directory, inputs and rendered files.\<close>

definition prepare :: "ap_env \<Rightarrow> string \<Rightarrow> tenant \<Rightarrow> ap_state \<Rightarrow> (string + unit) \<times> ap_state" where
  "prepare env tn t st =
     (case loadNodeGroups tn (as_store st) of
        (Inl _, s) \<Rightarrow> (Inl ''load node groups'', st\<lparr>as_store := s\<rparr>)
      | (Inr ngs, s) \<Rightarrow>
          let st = st\<lparr>as_store := s\<rparr> in
          (case Workdir (ap_exec env) tn (as_dirs st) of
             (Inl e, dirs) \<Rightarrow> (Inl e, st\<lparr>as_dirs := dirs\<rparr>)
           | (Inr dir, dirs) \<Rightarrow>
               (case renderInputs env ngs (st\<lparr>as_dirs := dirs\<rparr>) of
                  (Inl e, st) \<Rightarrow> (Inl e, st)
                | (Inr req, st) \<Rightarrow>
                    (case renderConfig env dir t ngs req (as_dirs st dir) of
                       (Inl e, fs) \<Rightarrow> (Inl e, set_dir dir fs st)
                     | (Inr _, fs) \<Rightarrow>
                         (case writeCommon env dir t req fs of
                            (Inl e, fs) \<Rightarrow> (Inl e, set_dir dir fs st)
                          | (Inr _, fs) \<Rightarrow> (Inr (), set_dir dir fs st))))))"

definition tofu :: "ap_env \<Rightarrow> string \<Rightarrow> string list \<Rightarrow> ap_state \<Rightarrow> (string + unit) \<times> ap_state" where
  "tofu env tn args st =
     (case Run (ap_exec env) tn args (as_dirs st) of (res, dirs) \<Rightarrow>
        let st = st\<lparr>as_dirs := dirs, as_trace := as_trace st @ [EvTofu tn args]\<rparr> in
        (case res of Inl e \<Rightarrow> (Inl e, st) | Inr _ \<Rightarrow> (Inr (), st)))"

abbreviation "initArgs \<equiv> [''init'', ''-input=false'']"
abbreviation "applyArgs \<equiv> [''apply'', ''-auto-approve'', ''-input=false'']"
abbreviation "destroyArgs \<equiv> [''destroy'', ''-auto-approve'', ''-input=false'']"

text \<open>The store writes after a successful destroy; the first two only log their errors.\<close>

definition teardown :: "string \<Rightarrow> store \<Rightarrow> (string + unit) \<times> store" where
  "teardown tn s =
     (case RemoveFinalizer ''tenant'' tn machinesFinalizer
             (snd (RemoveTenantSecrets tn (snd (RemoveResourcesByTenant tn s)))) of
        (_, Inl _, s) \<Rightarrow> (Inl ''remove machines finalizer'', s)
      | (_, Inr _, s) \<Rightarrow>
          (case RemoveFinalizer ''tenant'' tn secretsFinalizer s of
             (_, Inl _, s) \<Rightarrow> (Inl ''remove secrets finalizer'', s)
           | (_, Inr _, s) \<Rightarrow> (Inr (), s)))"

definition destroy :: "ap_env \<Rightarrow> string \<Rightarrow> tenant \<Rightarrow> ap_state \<Rightarrow> (string + unit) \<times> ap_state" where
  "destroy env tn t st =
     (case prepare env tn t st of
        (Inl e, st) \<Rightarrow> (Inl e, st)
      | (Inr _, st) \<Rightarrow>
          (case tofu env tn initArgs st of
             (Inl e, st) \<Rightarrow> (Inl e, st)
           | (Inr _, st) \<Rightarrow>
               (case tofu env tn destroyArgs st of
                  (Inl e, st) \<Rightarrow> (Inl e, st)
                | (Inr _, st) \<Rightarrow>
                    (case teardown tn (as_store st) of (res, s) \<Rightarrow> (res, st\<lparr>as_store := s\<rparr>)))))"

definition Apply :: "ap_env \<Rightarrow> string \<Rightarrow> ap_state \<Rightarrow> (string + unit) \<times> ap_state" where
  "Apply env tn st =
     (case GetTenant tn (as_store st) of
        (Inl _, s) \<Rightarrow> (Inl ''load tenant'', st\<lparr>as_store := s\<rparr>)
      | (Inr None, s) \<Rightarrow> (Inr (), st\<lparr>as_store := s\<rparr>)
      | (Inr (Some t), s) \<Rightarrow>
          let st = st\<lparr>as_store := s\<rparr> in
          if md_deletionTimestamp (t_metadata t) \<noteq> None then destroy env tn t st
          else (case runUpgradesIfNeeded env tn t st of
                  (Inl _, st) \<Rightarrow> (Inl ''pre-apply upgrade'', st)
                | (Inr _, st) \<Rightarrow>
                    (case prepare env tn t st of
                       (Inl e, st) \<Rightarrow> (Inl e, st)
                     | (Inr _, st) \<Rightarrow>
                         (case tofu env tn initArgs st of
                            (Inl e, st) \<Rightarrow> (Inl e, st)
                          | (Inr _, st) \<Rightarrow> tofu env tn applyArgs st))))"

end
