(* ===== verification/Applier_Props.thy ===== *)
theory Applier_Props
  imports Applier
begin

text \<open>
  What a reconciliation guarantees: binding tokens are stable, the working directory holds exactly the
  rendered configuration, upgrades come before the apply, a destroyed tenant leaves nothing behind
  and a failed destroy leaves everything in place.
\<close>

section \<open>Binding tokens\<close>

text \<open>The tokens a node group's annotations hold for its machine keys.\<close>

definition read_tokens :: "string list \<Rightarrow> gomap \<Rightarrow> gomap \<Rightarrow> gomap" where
  "read_tokens ks anns tokens = fold (\<lambda>k. AList.update k (mget anns (bindingTokenAnnotation k))) ks tokens"

definition bound :: "string list \<Rightarrow> gomap \<Rightarrow> bool" where
  "bound ks anns \<longleftrightarrow> list_all (\<lambda>k. mget anns (bindingTokenAnnotation k) \<noteq> []) ks"

lemma bindKeys_bound: "bound ks anns \<Longrightarrow> bindKeys rnd ks anns tokens c n = (Inr (anns, read_tokens ks anns tokens, c), n)"
  by (induction ks arbitrary: tokens) (auto simp: bound_def read_tokens_def Let_def)

text \<open>The random source fills the sixteen bytes it is asked for, or fails.\<close>

definition good_random :: "(nat \<Rightarrow> nat list option) \<Rightarrow> bool" where
  "good_random rnd \<longleftrightarrow> (\<forall>i. case rnd i of None \<Rightarrow> True | Some bs \<Rightarrow> length bs = 16)"

lemma token_nonempty: "newBindingToken (rnd i) = Some tok \<Longrightarrow> good_random rnd \<Longrightarrow> tok \<noteq> []"
proof -
  assume tok: "newBindingToken (rnd i) = Some tok" and "good_random rnd"
  then obtain bs where "rnd i = Some bs" "length bs = 16"
    by (auto simp: newBindingToken_def good_random_def split: option.splits dest: spec [of _ i])
  with tok show "tok \<noteq> []"
    by (cases bs rule: rawURLEncode.cases) (auto simp: newBindingToken_def)
qed

lemma bindKeys_changed: "bindKeys rnd ks anns tokens True n = (Inr (anns', tokens', c'), n') \<Longrightarrow> c'"
  by (induction ks arbitrary: anns tokens n) (auto simp: Let_def split: if_splits option.splits)

text \<open>A token once in the annotations stays, and every key gets one.\<close>

lemma bindKeys_Inr:
  assumes "bindKeys rnd ks anns tokens c n = (Inr (anns', tokens', c'), n')"
    and "good_random rnd"
  shows "bound ks anns' \<and> tokens' = read_tokens ks anns' tokens \<and> (\<not> c' \<longrightarrow> anns' = anns) \<and>
    (\<forall>a. mget anns a \<noteq> [] \<longrightarrow> mget anns' a = mget anns a)"
  using assms(1)
proof (induction ks arbitrary: anns tokens c n)
  case Nil
  then show ?case by (auto simp: bound_def read_tokens_def)
next
  case (Cons k ks)
  let ?a = "bindingTokenAnnotation k"
  show ?case
  proof (cases "mget anns ?a = []")
    case False
    with Cons.prems have "bindKeys rnd ks anns (AList.update k (mget anns ?a) tokens) c n = (Inr (anns', tokens', c'), n')"
      by (simp add: Let_def)
    from Cons.IH [OF this] False show ?thesis
      by (simp add: bound_def read_tokens_def)
  next
    case True
    with Cons.prems obtain tok where tok: "newBindingToken (rnd n) = Some tok"
      and step: "bindKeys rnd ks (AList.update ?a tok anns) (AList.update k tok tokens) True (n + 1) =
        (Inr (anns', tokens', c'), n')"
      by (auto simp: Let_def split: option.splits)
    have "tok \<noteq> []"
      using token_nonempty [OF tok assms(2)] .
    moreover have "c'"
      using bindKeys_changed [OF step] .
    ultimately show ?thesis
      using Cons.IH [OF step] True by (auto simp: bound_def read_tokens_def)
  qed
qed

text \<open>The annotations a node group row holds, and the pure reading of all tokens from the store.\<close>

definition anns_of :: "store \<Rightarrow> node_group_spec \<Rightarrow> gomap" where
  "anns_of s ng = (case find_row s ''nodegroup'' (ng_name ng) of None \<Rightarrow> [] | Some r \<Rightarrow> r_annotations r)"

definition all_tokens :: "node_group_spec list \<Rightarrow> store \<Rightarrow> gomap \<Rightarrow> gomap" where
  "all_tokens ngs s tokens = fold (\<lambda>ng. read_tokens (machineKeysFor ng) (anns_of s ng)) ngs tokens"

definition settled :: "node_group_spec \<Rightarrow> store \<Rightarrow> bool" where
  "settled ng s \<longleftrightarrow> machineKeysFor ng = [] \<or>
     (find_row s ''nodegroup'' (ng_name ng) \<noteq> None \<and> bound (machineKeysFor ng) (anns_of s ng))"

lemma read_tokens_Nil [simp]: "read_tokens [] anns tokens = tokens"
  by (simp add: read_tokens_def)

lemma ensure_settled:
  "faults s = [] \<Longrightarrow> list_all (\<lambda>ng. settled ng s) ngs \<Longrightarrow>
   ensureBindingTokens rnd ngs tokens n s = (Inr (all_tokens ngs s tokens), n, s)"
proof (induction ngs arbitrary: tokens)
  case (Cons ng ngs)
  show ?case
  proof (cases "machineKeysFor ng = []")
    case True
    with Cons show ?thesis by (simp add: all_tokens_def Let_def)
  next
    case False
    with Cons obtain r where "find_row s ''nodegroup'' (ng_name ng) = Some r"
      and "bound (machineKeysFor ng) (r_annotations r)"
      by (auto simp: settled_def anns_of_def)
    with Cons False show ?thesis
      by (simp add: GetResource_healthy bindKeys_bound all_tokens_def anns_of_def Let_def)
  qed
qed (simp add: all_tokens_def)

text \<open>One node group's share of a successful run: the row is settled and no other row changes.\<close>

lemma ensure_Cons:
  assumes "ensureBindingTokens rnd (ng # ngs) tokens n s = (Inr toks, n', s')"
    and "faults s = []" and "machineKeysFor ng \<noteq> []" and "good_random rnd"
  obtains s1 n1 where "ensureBindingTokens rnd ngs (read_tokens (machineKeysFor ng) (anns_of s1 ng) tokens) n1 s1 =
      (Inr toks, n', s')"
    and "faults s1 = []" and "settled ng s1"
    and "\<And>k. k \<noteq> (''nodegroup'', ng_name ng) \<Longrightarrow> tbl_get row_key (resources s1) k = tbl_get row_key (resources s) k"
proof -
  obtain r where r: "find_row s ''nodegroup'' (ng_name ng) = Some r"
    using assms by (auto simp: GetResource_healthy Let_def split: option.splits)
  obtain anns tokens1 c n1 where b: "bindKeys rnd (machineKeysFor ng) (r_annotations r) tokens False n =
      (Inr (anns, tokens1, c), n1)"
    using assms r by (auto simp: GetResource_healthy Let_def split: prod.splits sum.splits)
  note B = bindKeys_Inr [OF b assms(4)]
  show thesis
  proof (cases c)
    case False
    then have "ensureBindingTokens rnd ngs tokens1 n1 s = (Inr toks, n', s')"
      using assms r b by (simp add: GetResource_healthy Let_def)
    moreover have "anns_of s ng = anns"
      using B False r by (simp add: anns_of_def)
    ultimately show thesis
      using B r assms(2) by (intro that [of s n1]) (simp_all add: settled_def)
  next
    case True
    let ?s1 = "snd (UpdateResource ''nodegroup'' (ng_name ng) (r_version r) (r_spec r) (r_labels r) anns s)"
    have "ensureBindingTokens rnd ngs tokens1 n1 ?s1 = (Inr toks, n', s')"
      using assms r b True
      by (auto simp: GetResource_healthy UpdateResource_healthy Let_def split: if_splits)
    moreover have "faults ?s1 = []" and "anns_of ?s1 ng = anns"
      and "find_row ?s1 ''nodegroup'' (ng_name ng) \<noteq> None"
      and "\<And>k. k \<noteq> (''nodegroup'', ng_name ng) \<Longrightarrow>
             tbl_get row_key (resources ?s1) k = tbl_get row_key (resources s) k"
      using assms(2) r by (simp_all add: UpdateResource_healthy Let_def anns_of_def)
    ultimately show thesis
      using B by (intro that [of ?s1 n1]) (simp_all add: settled_def)
  qed
qed

lemma ensure_settles:
  assumes "ensureBindingTokens rnd ngs tokens n s = (Inr toks, n', s')"
    and "faults s = []" and "distinct (map ng_name ngs)" and "good_random rnd"
  shows "faults s' = [] \<and> list_all (\<lambda>ng. settled ng s') ngs \<and> toks = all_tokens ngs s' tokens \<and>
    (\<forall>k. k \<notin> (\<lambda>ng. (''nodegroup'', ng_name ng)) ` set ngs \<longrightarrow>
       tbl_get row_key (resources s') k = tbl_get row_key (resources s) k)"
  using assms(1-3)
proof (induction ngs arbitrary: tokens n s)
  case Nil
  then show ?case by (simp add: all_tokens_def)
next
  case (Cons ng ngs)
  show ?case
  proof (cases "machineKeysFor ng = []")
    case True
    with Cons show ?thesis
      by (auto simp: settled_def all_tokens_def Let_def)
  next
    case False
    obtain s1 n1 where
        step: "ensureBindingTokens rnd ngs (read_tokens (machineKeysFor ng) (anns_of s1 ng) tokens) n1 s1 =
          (Inr toks, n', s')"
      and s1: "faults s1 = []" "settled ng s1"
      and frame: "\<And>k. k \<noteq> (''nodegroup'', ng_name ng) \<Longrightarrow>
        tbl_get row_key (resources s1) k = tbl_get row_key (resources s) k"
      using ensure_Cons [OF Cons.prems(1,2) False assms(4)] by blast
    have IH: "faults s' = [] \<and> list_all (\<lambda>ng. settled ng s') ngs \<and>
        toks = all_tokens ngs s' (read_tokens (machineKeysFor ng) (anns_of s1 ng) tokens) \<and>
        (\<forall>k. k \<notin> (\<lambda>ng. (''nodegroup'', ng_name ng)) ` set ngs \<longrightarrow>
           tbl_get row_key (resources s') k = tbl_get row_key (resources s1) k)"
      using Cons.IH [OF step s1(1)] Cons.prems(3) by simp
    have "find_row s' ''nodegroup'' (ng_name ng) = find_row s1 ''nodegroup'' (ng_name ng)"
      using IH Cons.prems(3) by (auto simp: image_iff)
    then have "anns_of s' ng = anns_of s1 ng" and "settled ng s'"
      using s1(2) by (simp_all add: anns_of_def settled_def)
    then show ?thesis
      using IH frame by (simp add: all_tokens_def)
  qed
qed

text \<open>
  binding tokens are generated once. After a successful run over a tenant's node groups, every
  later run on the resulting store returns the same token for every machine, draws nothing from the
  random source and leaves the store unchanged.
\<close>

theorem binding_tokens_stable:
  assumes "ensureBindingTokens rnd ngs [] n s = (Inr toks, n', s')"
    and "faults s = []" and "distinct (map ng_name ngs)" and "good_random rnd"
  shows "ensureBindingTokens rnd' ngs [] m s' = (Inr toks, m, s')"
  using ensure_settles [OF assms] by (simp add: ensure_settled)

section \<open>What a reconciliation leaves alone\<close>

text \<open>Rendering only reads the store and writes annotations of node groups.\<close>

definition quiet :: "store \<Rightarrow> store \<Rightarrow> bool" where
  "quiet s s' \<longleftrightarrow> map row_key (resources s') = map row_key (resources s) \<and>
     (\<forall>n. find_row s' ''tenant'' n = find_row s ''tenant'' n) \<and>
     tenant_secrets s' = tenant_secrets s \<and> engine s' = engine s \<and>
     (faults s = [] \<longrightarrow> faults s' = []) \<and> store_steps s s'"

lemma quiet_refl [simp]: "quiet s s"
  by (simp add: quiet_def)

lemma quiet_trans: "quiet s t \<Longrightarrow> quiet t u \<Longrightarrow> quiet s u"
  unfolding quiet_def by (auto intro: rtranclp_trans)

lemma quiet_next: "quiet s (sql_next s)"
  by (simp add: quiet_def steps_next)

lemma quiet_Get: "GetResource rt name s = (x, t) \<Longrightarrow> quiet s t"
  by (auto simp: GetResource_def sql_def quiet_next split: option.splits if_splits)

lemma quiet_List: "ListResources rt opts s = (x, t) \<Longrightarrow> quiet s t"
  by (auto simp: ListResources_def sql_def Let_def intro: quiet_next quiet_trans split: if_splits)

lemma quiet_GetTenant: "GetTenant name s = (x, t) \<Longrightarrow> quiet s t"
  by (auto simp: GetTenant_def dest: quiet_Get split: prod.splits sum.splits)

lemma quiet_load: "loadNodeGroups tn s = (x, t) \<Longrightarrow> quiet s t"
  by (auto simp: loadNodeGroups_def ListTypedByTenant_def ListTyped_def dest: quiet_List
      split: prod.splits sum.splits)

lemma quiet_Update:
  assumes "UpdateResource ''nodegroup'' name v sp l a s = (x, t)"
  shows "quiet s t"
proof -
  have t: "t = snd (UpdateResource ''nodegroup'' name v sp l a s)" using assms by simp
  have "store_steps s t"
    unfolding t by (rule store_run)
  moreover have "map row_key (resources t) = map row_key (resources s)"
    and "find_row t ''tenant'' n = find_row s ''tenant'' n" for n
    unfolding t by (simp_all add: UpdateResource_def sql_def tbl_upd_keys split: option.splits)
  moreover have "tenant_secrets t = tenant_secrets s" "engine t = engine s" "faults s = [] \<longrightarrow> faults t = []"
    unfolding t
    by (simp_all add: UpdateResource_def updateResourceMetadataAndPublish_def sql_def split: option.splits)
  ultimately show ?thesis by (simp add: quiet_def)
qed

lemma quiet_ensure: "ensureBindingTokens rnd ngs tokens n s = (x, n', t) \<Longrightarrow> quiet s t"
proof (induction ngs arbitrary: tokens n s)
  case (Cons ng ngs)
  obtain got s1 where g: "GetResource ''nodegroup'' (ng_name ng) s = (got, s1)" by fastforce
  show ?case
  proof (cases "machineKeysFor ng = [] \<or> (\<exists>e. got = Inl e)")
    case True
    with Cons g quiet_Get [OF g] show ?thesis by (auto simp: Let_def split: if_splits)
  next
    case False
    then obtain md sp st where got: "got = Inr (md, sp, st)" by (cases got) auto
    obtain b n1 where b: "bindKeys rnd (machineKeysFor ng) (md_annotations md) tokens False n = (b, n1)" by fastforce
    obtain y s2 where u: "UpdateResource ''nodegroup'' (ng_name ng) (md_resourceVersion md) sp (md_labels md)
        (fst (projr b)) s1 = (y, s2)" by fastforce
    have "quiet s1 t \<or> quiet s2 t"
      using Cons.prems False g got b u
      by (auto simp: Let_def dest: Cons.IH split: sum.splits if_splits)
    then show ?thesis
      using quiet_trans [OF quiet_Get [OF g]] quiet_trans [OF quiet_Update [OF u]] by blast
  qed
qed simp

lemma quiet_inputs: "renderInputs env ngs st = (x, st') \<Longrightarrow> quiet (as_store st) (as_store st') \<and> as_trace st' = as_trace st"
  by (auto simp: renderInputs_def Let_def dest: quiet_ensure split: prod.splits sum.splits option.splits)

lemma quiet_prepare:
  assumes "prepare env tn t st = (x, st')"
  shows "quiet (as_store st) (as_store st') \<and> as_trace st' = as_trace st"
proof -
  obtain l s1 where l: "loadNodeGroups tn (as_store st) = (l, s1)" by fastforce
  note ql = quiet_load [OF l]
  show ?thesis
  proof (cases l)
    case (Inr ngs)
    obtain w dirs where w: "Workdir (ap_exec env) tn (as_dirs st) = (w, dirs)" by fastforce
    obtain i st1 where i: "renderInputs env ngs (st\<lparr>as_store := s1, as_dirs := dirs\<rparr>) = (i, st1)" by fastforce
    note qi = quiet_inputs [OF i]
    have "quiet (as_store st) (as_store st1)" "as_trace st1 = as_trace st"
      using quiet_trans [OF ql] qi by simp_all
    then show ?thesis
      using assms l Inr w i ql
      by (auto simp: prepare_def Let_def set_dir_def split: sum.splits prod.splits)
  qed (use assms l ql in \<open>auto simp: prepare_def\<close>)
qed

lemma tofu_store: "tofu env tn args st = (x, st') \<Longrightarrow> as_store st' = as_store st \<and> as_trace st' = as_trace st @ [EvTofu tn args]"
  by (auto simp: tofu_def Let_def split: prod.splits sum.splits)

section \<open>Teardown\<close>

definition child_of :: "string \<Rightarrow> row \<Rightarrow> bool" where
  "child_of tn r \<longleftrightarrow> has_tenant tn (r_labels r) \<and> r_type r \<noteq> ''tenant''"

lemma teardown_healthy:
  assumes "faults s = []" and "store_inv s" and "extract_ok (engine s)"
    and r: "find_row s ''tenant'' tn = Some r" "r_deleted r \<noteq> None"
      "set (r_finalizers r) = {machinesFinalizer, secretsFinalizer}"
  shows "\<exists>t. teardown tn s = (Inr (), t) \<and> tbl_get sec_tenant (tenant_secrets t) tn = None \<and>
    (\<forall>k. tbl_get row_key (resources t) k =
      (if k = (''tenant'', tn) then None
       else case tbl_get row_key (resources s) k of None \<Rightarrow> None | Some x \<Rightarrow> if child_of tn x then None else Some x))"
proof -
  have wf: "tbl_wf row_key (resources s)" using assms(2) by (simp add: store_inv_def)
  define s2 where "s2 = snd (RemoveTenantSecrets tn (snd (RemoveResourcesByTenant tn s)))"
  define s3 where "s3 = snd (snd (RemoveFinalizer ''tenant'' tn machinesFinalizer s2))"
  define s4 where "s4 = snd (snd (RemoveFinalizer ''tenant'' tn secretsFinalizer s3))"
  have s2: "faults s2 = []" "tbl_get sec_tenant (tenant_secrets s2) tn = None"
    "resources s2 = filter (\<lambda>r. \<not> child_of tn r) (resources s)"
    using assms(1) RemoveResourcesByTenant_exact [OF assms(1-3), of tn]
    by (simp_all add: s2_def RemoveTenantSecrets_def Let_def secret_table.get_del child_of_def)
  have g2: "tbl_get row_key (resources s2) k = (case tbl_get row_key (resources s) k of None \<Rightarrow> None
      | Some x \<Rightarrow> if child_of tn x then None else Some x)" for k
    unfolding s2(3) tbl_get_filter [OF wf] by (auto split: option.splits)
  have "r_type r = ''tenant''" using find_row_key [OF r(1)] by simp
  then have f2: "find_row s2 ''tenant'' tn = Some r"
    using r(1) by (simp add: g2 child_of_def)
  have fin: "machinesFinalizer \<in> set (r_finalizers r)"
    "filter (\<lambda>x. x \<noteq> machinesFinalizer) (r_finalizers r) \<noteq> []"
    using r(3) by (auto simp: filter_empty_conv)
  have e3: "RemoveFinalizer ''tenant'' tn machinesFinalizer s2 = (True, Inr (), s3)" and s3: "faults s3 = []"
    "tenant_secrets s3 = tenant_secrets s2"
    "find_row s3 ''tenant'' tn = Some (r\<lparr>r_finalizers := filter (\<lambda>x. x \<noteq> machinesFinalizer) (r_finalizers r),
       r_updated := clock s2\<rparr>)"
    "\<And>k. k \<noteq> (''tenant'', tn) \<Longrightarrow> tbl_get row_key (resources s3) k = tbl_get row_key (resources s2) k"
    using s2(1) f2 fin by (simp_all add: s3_def RemoveFinalizer_healthy Let_def)
  have fin4: "secretsFinalizer \<in> set (filter (\<lambda>x. x \<noteq> machinesFinalizer) (r_finalizers r))"
    "filter (\<lambda>x. x \<noteq> secretsFinalizer) (filter (\<lambda>x. x \<noteq> machinesFinalizer) (r_finalizers r)) = []"
    using r(3) by (auto simp: filter_empty_conv)
  have e4: "RemoveFinalizer ''tenant'' tn secretsFinalizer s3 = (True, Inr (), s4)"
    and s4: "resources s4 = tbl_del row_key (''tenant'', tn) (resources s3)" "tenant_secrets s4 = tenant_secrets s3"
    using s3(1,3) fin4 r(2) by (auto simp: s4_def RemoveFinalizer_healthy RemoveResource_healthy Let_def)
  have "teardown tn s = (Inr (), s4)"
    by (simp add: teardown_def s2_def [symmetric] e3 e4)
  moreover have "tbl_get row_key (resources s4) k = (if k = (''tenant'', tn) then None
       else case tbl_get row_key (resources s) k of None \<Rightarrow> None | Some x \<Rightarrow> if child_of tn x then None else Some x)" for k
    by (simp add: s4(1) resource_table.get_del s3(4) g2)
  ultimately show ?thesis
    using s2(2) s3(2) s4(2) by (intro exI [of _ s4]) simp
qed

lemma Apply_deleting:
  assumes "faults (as_store st) = []" and "find_row (as_store st) ''tenant'' tn = Some r" and "r_deleted r \<noteq> None"
  shows "Apply env tn st = destroy env tn (mk_tenant (meta_of r, r_spec r, r_status r)) st"
  using assms by (simp add: Apply_def GetTenant_healthy mk_tenant_def Let_def)

text \<open>A destroy that reaches its end, taken apart.\<close>

lemma destroy_Inr:
  assumes "destroy env tn t st = (Inr (), st')"
  obtains s1 where "quiet (as_store st) s1" and "teardown tn s1 = (Inr (), as_store st')"
    and "as_trace st' = as_trace st @ [EvTofu tn initArgs, EvTofu tn destroyArgs]"
proof -
  obtain x1 st1 where p: "prepare env tn t st = (x1, st1)" by fastforce
  obtain x2 st2 where i: "tofu env tn initArgs st1 = (x2, st2)" by fastforce
  obtain x3 st3 where d: "tofu env tn destroyArgs st2 = (x3, st3)" by fastforce
  note facts = quiet_prepare [OF p] tofu_store [OF i] tofu_store [OF d]
  have "teardown tn (as_store st3) = (Inr (), as_store st')" "as_trace st' = as_trace st3"
    using assms p i d by (auto simp: destroy_def split: sum.splits prod.splits)
  then show thesis
    using facts by (intro that [of "as_store st3"]) auto
qed


text \<open>
  a destroy that does not succeed loses nothing. When tofu cannot destroy the tenant's
  infrastructure, the applier reports an error whatever else happens, and no row has been deleted:
  the tenant's row, with its finalizers, and its secrets are as they were, so the next run retries.
\<close>

theorem Apply_failed_destroy_keeps:
  assumes "faults (as_store st) = []" and "find_row (as_store st) ''tenant'' tn = Some r" and "r_deleted r \<noteq> None"
    and "\<And>fs. ex_tofu (ap_exec env) (sanitizeTenant tn) destroyArgs fs = None"
  shows "\<exists>e st'. Apply env tn st = (Inl e, st') \<and>
    find_row (as_store st') ''tenant'' tn = Some r \<and>
    tenant_secrets (as_store st') = tenant_secrets (as_store st) \<and>
    map row_key (resources (as_store st')) = map row_key (resources (as_store st))"
proof -
  let ?t = "mk_tenant (meta_of r, r_spec r, r_status r)"
  obtain x1 st1 where p: "prepare env tn ?t st = (x1, st1)" by fastforce
  obtain x2 st2 where i: "tofu env tn initArgs st1 = (x2, st2)" by fastforce
  obtain x3 st3 where d: "tofu env tn destroyArgs st2 = (x3, st3)" by fastforce
  note facts = quiet_prepare [OF p] tofu_store [OF i] tofu_store [OF d]
  have "\<exists>e. x3 = Inl e"
    using d assms(4)
    by (auto simp: tofu_def Run_def Let_def dest!: Workdir_seg split: prod.splits sum.splits option.splits)
  then have "\<exists>e st'. Apply env tn st = (Inl e, st') \<and> quiet (as_store st) (as_store st')"
    using Apply_deleting [OF assms(1-3)] p i d facts
    by (cases x1; cases x2) (auto simp: destroy_def)
  then show ?thesis
    using assms(2) by (auto simp: quiet_def)
qed

section \<open>Upgrade before apply\<close>

lemma sharedLoop_spec:
  "sharedLoop v False mvs = (if \<forall>x\<in>set mvs. x = v \<and> x \<noteq> [] then v else [])"
  by (induction mvs) auto

text \<open>
  the observed version of a set of machines is a version exactly when there is at least one
  machine and all of them report it; when any machine has not reported, or two disagree, there is none.
\<close>

theorem sharedVersion_spec:
  "sharedVersion ms pick = v \<and> v \<noteq> [] \<longleftrightarrow> ms \<noteq> [] \<and> v \<noteq> [] \<and> pick ` set ms = {v}"
proof (cases ms)
  case (Cons m ms')
  then show ?thesis
    by (auto simp: sharedVersion_def sharedLoop_spec)
qed (simp add: sharedVersion_def)

text \<open>Whether the observed Talos version of the tenant's machines differs from the declared one.\<close>

definition drifts :: "string \<Rightarrow> machine list \<Rightarrow> bool" where
  "drifts target machines \<longleftrightarrow> machines \<noteq> [] \<and> target \<noteq> [] \<and> observedTalos machines \<noteq> [] \<and>
     observedTalos machines \<noteq> target"

lemma ListMachinesByTenant_healthy:
  assumes "faults s = []"
  obtains machines n where "ListMachinesByTenant tn [] s = (Inr (machines, n), s)"
  using assms
  by (auto simp: ListMachinesByTenant_def ListMachines_def newListOptions_def WithLabelSelector_def ListResources_healthy)

text \<open>
  a live tenant's reconciliation upgrades before it applies. When the declared Talos version
  differs from the one its machines agree on, the rolling upgrade is the first thing that runs, and
  if it fails no tofu command runs at all; a successful reconciliation is exactly the upgrade if one
  was due, then init, then apply.
\<close>

theorem Apply_upgrade_first:
  assumes "faults (as_store st) = []" and "find_row (as_store st) ''tenant'' tn = Some r" and "r_deleted r = None"
    and "ap_upgrades env = Some up" and "ListMachinesByTenant tn [] (as_store st) = (Inr (machines, n), as_store st)"
  shows "let target = ts_talosVersion (dec_tenant_spec (r_spec r));
             upgrade = [EvUpgrade tn ''talos'' (observedTalos machines) target]
    in (\<forall>st'. Apply env tn st = (Inr (), st') \<longrightarrow>
          as_trace st' = as_trace st @ (if drifts target machines then upgrade else []) @
            [EvTofu tn initArgs, EvTofu tn applyArgs]) \<and>
       (drifts target machines \<and> \<not> fst (up tn ''talos'' (observedTalos machines) target (as_store st)) \<longrightarrow>
          fst (Apply env tn st) = Inl ''pre-apply upgrade'' \<and> as_trace (snd (Apply env tn st)) = as_trace st @ upgrade)"
proof -
  let ?t = "mk_tenant (meta_of r, r_spec r, r_status r)"
  let ?target = "ts_talosVersion (dec_tenant_spec (r_spec r))"
  let ?up = "[EvUpgrade tn ''talos'' (observedTalos machines) ?target]"
  obtain x0 st0 where u: "runUpgradesIfNeeded env tn ?t st = (x0, st0)" by fastforce
  obtain x1 st1 where p: "prepare env tn ?t st0 = (x1, st1)" by fastforce
  obtain x2 st2 where i: "tofu env tn initArgs st1 = (x2, st2)" by fastforce
  obtain x3 st3 where d: "tofu env tn applyArgs st2 = (x3, st3)" by fastforce
  note facts = quiet_prepare [OF p] tofu_store [OF i] tofu_store [OF d]
  obtain ok s' where ups: "up tn ''talos'' (observedTalos machines) ?target (as_store st) = (ok, s')" by fastforce
  have tr0: "as_trace st0 = as_trace st @ (if drifts ?target machines then ?up else [])"
    and x0: "x0 = (if drifts ?target machines \<and> \<not> ok then Inl ''upgrade talos'' else Inr ())"
    using u assms(4,5) ups by (auto simp: runUpgradesIfNeeded_def mk_tenant_def Let_def drifts_def split: if_splits)
  have A: "Apply env tn st = (case x0 of Inl _ \<Rightarrow> (Inl ''pre-apply upgrade'', st0)
      | Inr _ \<Rightarrow> (case x1 of Inl e \<Rightarrow> (Inl e, st1) | Inr _ \<Rightarrow> (case x2 of Inl e \<Rightarrow> (Inl e, st2) | Inr _ \<Rightarrow> (x3, st3))))"
    using assms(1-3) u p i d
    by (simp add: Apply_def GetTenant_healthy mk_tenant_def Let_def split: sum.splits)
  show ?thesis
    using A tr0 x0 facts ups by (auto simp: Let_def split: sum.splits)
qed

section \<open>The rendered directory\<close>

definition tf_names :: "files \<Rightarrow> string set" where
  "tf_names fs = {n \<in> fst ` set fs. hasSuffix n ''.tf.json'' \<and> n \<noteq> backendFile}"

lemma cleanLoop_names:
  "cleanLoop ok names fs = (True, fs') \<Longrightarrow> tf_names fs' = tf_names fs - set names"
proof (induction names arbitrary: fs)
  case (Cons name names)
  have del: "tf_names (AList.delete name fs) = tf_names fs - {name}"
    using arg_cong [OF delete_keys [of name fs], of set] by (auto simp: tf_names_def)
  show ?case
  proof (cases "name = backendFile \<or> \<not> hasSuffix name ''.tf.json''")
    case True
    then have "name \<notin> tf_names fs" by (auto simp: tf_names_def)
    with Cons True show ?thesis by auto
  next
    case False
    with Cons have "cleanLoop ok names (AList.delete name fs) = (True, fs')"
      by (auto split: if_splits)
    from Cons.IH [OF this] del show ?thesis by auto
  qed
qed (simp add: tf_names_def)

lemma clean_names: "cleanProviderConfigs env dir fs = (True, fs') \<Longrightarrow> tf_names fs' = {}"
  by (auto simp: cleanProviderConfigs_def dest!: cleanLoop_names split: if_splits) (auto simp: tf_names_def)

lemma tf_names_update:
  "tf_names (AList.update n c fs) = tf_names fs \<union> (if hasSuffix n ''.tf.json'' \<and> n \<noteq> backendFile then {n} else {})"
  by (auto simp: tf_names_def dom_update)

lemma hasSuffix_append [simp]: "hasSuffix (s @ p) p"
  by (simp add: hasSuffix_def)

lemma renderProviders_names:
  "renderProviders env dir t ngs req ps wrote fs = (Inr wrote', fs') \<Longrightarrow>
   tf_names fs' = tf_names fs \<union> {pt @ ''.tf.json'' | pt. pt \<in> fst ` set ps \<and> filterByProvider ngs pt \<noteq> []} - {backendFile} \<and>
   wrote' = (wrote \<or> (\<exists>pt\<in>fst ` set ps. filterByProvider ngs pt \<noteq> []))"
proof (induction ps arbitrary: wrote fs)
  case Nil
  then show ?case by (auto simp: tf_names_def)
next
  case (Cons p ps)
  obtain pt render where p: "p = (pt, render)" by fastforce
  show ?case
  proof (cases "filterByProvider ngs pt = []")
    case True
    with Cons.prems p have "renderProviders env dir t ngs req ps wrote fs = (Inr wrote', fs')"
      by (simp add: Let_def)
    from Cons.IH [OF this] True p show ?thesis by auto
  next
    case False
    with Cons.prems p obtain raw where
      "renderProviders env dir t ngs req ps True (AList.update (pt @ ''.tf.json'') (Raw raw) fs) = (Inr wrote', fs')"
      by (auto simp: Let_def split: option.splits if_splits)
    from Cons.IH [OF this] False p show ?thesis
      by (auto simp: tf_names_update split: if_splits)
  qed
qed

text \<open>
  after a successful rendering the working directory's configuration is exactly the current
  one: its \<^verbatim>\<open>.tf.json\<close> files, besides the backend file, are one per registered provider with a node
  group of its class, or the minimal file when there is none; nothing stale is left.
\<close>

theorem renderConfig_exact:
  assumes "renderConfig env dir t ngs req fs = (Inr (), fs')"
  shows "tf_names fs' =
    (let used = {pt \<in> fst ` set (ap_registry env). filterByProvider ngs pt \<noteq> []} in
     if used = {} then {''main.tf.json''} else (\<lambda>pt. pt @ ''.tf.json'') ` used - {backendFile})"
proof -
  obtain fs1 where c: "cleanProviderConfigs env dir fs = (True, fs1)"
    using assms by (auto simp: renderConfig_def split: prod.splits if_splits)
  obtain w fs2 where r: "renderProviders env dir t ngs req (ap_registry env) False fs1 = (Inr w, fs2)"
    and fs': "fs' = (if w then fs2 else AList.update ''main.tf.json'' (Raw minimalConfig) fs2)"
    using assms c by (auto simp: renderConfig_def split: sum.splits prod.splits if_splits)
  have main: "hasSuffix ''main.tf.json'' ''.tf.json''" by (simp add: hasSuffix_def)
  show ?thesis
    using renderProviders_names [OF r] clean_names [OF c] fs' main
    by (auto simp: Let_def tf_names_update split: if_splits)
qed

section \<open>Witnesses\<close>

definition ex_env :: "bool \<Rightarrow> ap_env" where
  "ex_env ok = \<lparr>ap_exec = \<lparr>ex_backendURL = [], ex_mkdir_ok = (\<lambda>_. True), ex_write_ok = (\<lambda>_ _. True),
       ex_tofu = (\<lambda>_ args _. if ok \<or> args \<noteq> destroyArgs then Some [] else None)\<rparr>,
     ap_registry = [(''oci'', \<lambda>_. Some ''x'')], ap_upgrades = Some (\<lambda>_ _ _ _ s. (True, s)), ap_mgmtEndpoint = [],
     ap_bootstrap = Some ''b'', ap_random = (\<lambda>_. Some (replicate 16 7)), ap_readdir_ok = (\<lambda>_. True),
     ap_remove_ok = (\<lambda>_ _. True), ap_read_ok = (\<lambda>_ _. True)\<rparr>"

definition ex_state :: "store \<Rightarrow> ap_state" where
  "ex_state s = \<lparr>as_store = s, as_dirs = (\<lambda>_. []), as_rand = 0, as_trace = []\<rparr>"

definition ex_deleting :: store where
  "ex_deleting = snd (DeleteTenant ''acme'' ex_store)"

lemma ex_deleting_row:
  "faults ex_deleting = []" "find_row ex_deleting ''tenant'' ''acme'' = Some (deleting_row 5 (ex_row ''tenant'' ''acme'' []))"
  using DeleteTenant_row [of ex_store "''acme''"] by (simp_all add: ex_deleting_def)

lemma ex_deleting_inv: "store_inv ex_deleting"
  unfolding ex_deleting_def using store_sys.steps_inv [OF steps_DeleteTenant] ex_store_inv by blast

lemma ex_deleting_engine: "engine ex_deleting = ex_engine"
  by (simp add: ex_deleting_def DeleteTenant_def DeleteResource_healthy AddFinalizer_healthy Let_def)

lemma ex_deleting_nodegroups: "listed ''nodegroup'' sel ex_deleting = []"
  by (simp add: ex_deleting_def DeleteTenant_def DeleteResource_healthy AddFinalizer_healthy Let_def
      listed_def tbl_upd_def)

lemma ex_load: "faults s = [] \<Longrightarrow> listed ''nodegroup'' (tenantSelector tn) s = [] \<Longrightarrow> loadNodeGroups tn s = (Inr [], s)"
  by (simp add: loadNodeGroups_def ListTypedByTenant_def ListTyped_def ListResources_healthy page_def map_filter_simps)

lemma ex_prepare:
  "faults (as_store st) = [] \<Longrightarrow> listed ''nodegroup'' (tenantSelector tn) (as_store st) = [] \<Longrightarrow>
   as_dirs st = (\<lambda>_. []) \<Longrightarrow>
   prepare (ex_env ok) tn t st = (Inr (), set_dir (sanitizeTenant tn) [(''main.tf.json'', Raw minimalConfig)] st)"
  by (simp add: prepare_def ex_load ex_env_def Workdir_def renderInputs_def renderConfig_def cleanProviderConfigs_def
      filterByProvider_def writeCommon_def configReferencesTalos_def minimalConfig_def hasPrefix_def set_dir_def Let_def)

lemma ex_destroy_fst: "fst (Apply (ex_env True) ''acme'' (ex_state ex_deleting)) = Inr ()"
proof -
  have "\<exists>t. teardown ''acme'' ex_deleting = (Inr (), t)"
    using teardown_healthy [OF ex_deleting_row(1) ex_deleting_inv, of "''acme''"] ex_deleting_row(2)
    by (auto simp: ex_deleting_engine ex_engine_ok deleting_row_def)
  then show ?thesis
    using ex_deleting_row ex_prepare [of "ex_state ex_deleting" "''acme''" True] ex_deleting_nodegroups
    by (auto simp: Apply_deleting ex_state_def destroy_def tofu_def Run_def Workdir_def ex_env_def set_dir_def Let_def)
qed


theorem Apply_failed_destroy_keeps_witness:
  "\<exists>e st'. Apply (ex_env False) ''acme'' (ex_state ex_deleting) = (Inl e, st') \<and>
     find_row (as_store st') ''tenant'' ''acme'' = Some (deleting_row 5 (ex_row ''tenant'' ''acme'' []))"
  using Apply_failed_destroy_keeps [of "ex_state ex_deleting" "''acme''" _ "ex_env False"] ex_deleting_row
  by (fastforce simp: ex_state_def ex_env_def)

lemma ex_store_nodegroups: "listed ''nodegroup'' sel ex_store = []"
  by (simp add: listed_def)

lemma ex_state_store [simp]: "as_store (ex_state s) = s" "(ex_state s)\<lparr>as_store := s\<rparr> = ex_state s"
  by (simp_all add: ex_state_def)

lemma ex_tofu: "\<exists>st'. tofu (ex_env True) tn args st = (Inr (), st')"
  by (simp add: tofu_def Run_def Workdir_def ex_env_def Let_def)

theorem Apply_upgrade_first_witness:
  "as_trace (snd (Apply (ex_env True) ''acme'' (ex_state ex_store))) =
     [EvTofu ''acme'' initArgs, EvTofu ''acme'' applyArgs]"
proof -
  obtain ms n where ms: "ListMachinesByTenant ''acme'' [] ex_store = (Inr (ms, n), ex_store)"
    by (rule ListMachinesByTenant_healthy [of ex_store]) simp_all
  have tv: "ts_talosVersion (dec_tenant_spec (JObj [])) = []"
    by (simp add: dec_tenant_spec_def json_simps)
  have p: "prepare (ex_env True) ''acme'' t (ex_state ex_store) =
      (Inr (), set_dir ''acme'' [(''main.tf.json'', Raw minimalConfig)] (ex_state ex_store))" for t
    using ex_prepare [of "ex_state ex_store" "''acme''" True t] ex_store_nodegroups
    by (simp add: ex_state_def sanitizeTenant_def safeChar_def)
  have up: "runUpgradesIfNeeded (ex_env True) ''acme'' (mk_tenant (md, JObj [], JObj [])) (ex_state ex_store) =
      (Inr (), ex_state ex_store)" for md
    using ms tv by (simp add: runUpgradesIfNeeded_def ex_env_def ex_state_def mk_tenant_def Let_def)
  have g: "\<exists>md. GetTenant ''acme'' ex_store = (Inr (Some (mk_tenant (md, JObj [], JObj []))), ex_store) \<and>
      md_deletionTimestamp md = None"
    using ex_find by (simp add: GetTenant_healthy meta_of_def) (intro exI conjI, rule refl, simp)
  have "fst (Apply (ex_env True) ''acme'' (ex_state ex_store)) = Inr ()"
  proof -
    obtain md where md: "GetTenant ''acme'' ex_store = (Inr (Some (mk_tenant (md, JObj [], JObj []))), ex_store)"
      "md_deletionTimestamp md = None" using g by blast
    have "t_metadata (mk_tenant (md, JObj [], JObj [])) = md"
      by (simp add: mk_tenant_def)
    moreover obtain st1 where st1: "tofu (ex_env True) ''acme'' initArgs
        (set_dir ''acme'' [(''main.tf.json'', Raw minimalConfig)] (ex_state ex_store)) = (Inr (), st1)"
      using ex_tofu by blast
    moreover obtain st2 where "tofu (ex_env True) ''acme'' applyArgs st1 = (Inr (), st2)"
      using ex_tofu by blast
    ultimately show ?thesis
      unfolding Apply_def ex_state_store md(1) by (simp add: md(2) up p Let_def)
  qed
  then obtain st' where st': "Apply (ex_env True) ''acme'' (ex_state ex_store) = (Inr (), st')"
    by (cases "Apply (ex_env True) ''acme'' (ex_state ex_store)") auto
  show ?thesis
    unfolding st' snd_conv
    using Apply_upgrade_first [of "ex_state ex_store" "''acme''" "ex_row ''tenant'' ''acme'' []" "ex_env True"] ms tv st'
    by (simp add: ex_state_def ex_env_def drifts_def Let_def)
qed

theorem renderConfig_exact_witness:
  "tf_names (snd (renderConfig (ex_env True) ''d'' (mk_tenant (zero_metadata, JNull, JNull)) []
     \<lparr>rr_tenant = None, rr_nodeGroups = [], rr_bootstrapConfig = [], rr_bindingTokens = [], rr_mgmtEndpoint = []\<rparr>
     [(''stale.tf.json'', Raw [])])) = {''main.tf.json''}"
proof -
  let ?r = "renderConfig (ex_env True) ''d'' (mk_tenant (zero_metadata, JNull, JNull)) []
     \<lparr>rr_tenant = None, rr_nodeGroups = [], rr_bootstrapConfig = [], rr_bindingTokens = [], rr_mgmtEndpoint = []\<rparr>
     [(''stale.tf.json'', Raw [])]"
  have "?r = (Inr (), snd ?r)"
    by (simp add: renderConfig_def cleanProviderConfigs_def ex_env_def filterByProvider_def hasSuffix_def)
  from renderConfig_exact [OF this] show ?thesis
    by (simp add: filterByProvider_def)
qed

definition ex_ng :: node_group_spec where
  "ex_ng = \<lparr>ng_name = ''cp'', ng_role = ''controlplane'', ng_count = 1, ng_providerClass = ''oci:A1'',
     ng_providerConfig = None, ng_talosVersion = [], ng_configPatches = []\<rparr>"

definition ex_ng_store :: store where
  "ex_ng_store = ex_store\<lparr>resources := [ex_row ''nodegroup'' ''cp'' [(tenantLabel, ''acme'')]]\<rparr>"

lemma ex_ng_keys: "machineKeysFor ex_ng = [''0'']" "ng_name ex_ng = ''cp''"
  by code_simp+

theorem binding_tokens_stable_witness:
  "let run1 = ensureBindingTokens (\<lambda>_. Some (replicate 16 7)) [ex_ng] [] 0 ex_ng_store in
   ensureBindingTokens (\<lambda>_. None) [ex_ng] [] 5 (snd (snd run1)) = (fst run1, 5, snd (snd run1))"
proof -
  let ?run = "ensureBindingTokens (\<lambda>_. Some (replicate 16 7)) [ex_ng] [] 0 ex_ng_store"
  have "\<exists>toks. fst ?run = Inr toks"
    by (simp add: ex_ng_keys ex_ng_store_def GetResource_healthy UpdateResource_healthy Let_def
        newBindingToken_def ok_node_group_spec_def orNull_def fieldOk_def)
  then obtain toks n t where run: "?run = (Inr toks, n, t)"
    by (cases ?run) auto
  have "ensureBindingTokens (\<lambda>_. None) [ex_ng] [] 5 t = (Inr toks, 5, t)"
    using binding_tokens_stable [OF run]
    by (simp add: ex_ng_store_def good_random_def del: ensureBindingTokens.simps)
  then show ?thesis
    by (simp only: run Let_def fst_conv snd_conv)
qed

end
