(* ===== verification/Tenant_Status.thy ===== *)
theory Tenant_Status
  imports Store_Types
begin

text \<open>
  Status derivation, \<^verbatim>\<open>internal/state/status.go\<close>: the phase and status of a tenant computed from its
  machines and node groups. The counting loops are filters and sums.
\<close>

record node_group_summary =
  ngs_name :: string
  ngs_count :: int

definition ComputeTenantPhase :: "tenant \<Rightarrow> machine list \<Rightarrow> node_group_summary list \<Rightarrow> string" where
  "ComputeTenantPhase t machines nodeGroups =
     (if md_deletionTimestamp (t_metadata t) \<noteq> None then TenantRemoving
      else if machines = [] then TenantForming
      else let readyCount = length (filter (\<lambda>m. mst_ready (m_status m) \<and> mst_stage (m_status m) = StageReady) machines);
               expectedCount = sum_list (map ngs_count nodeGroups);
               totalMachines = int (length machines)
           in if totalMachines > expectedCount then TenantShrinking
              else if totalMachines < expectedCount then TenantForming
              else if int readyCount = totalMachines then TenantActive
              else TenantForming)"

definition ComputeTenantStatus :: "tenant \<Rightarrow> machine list \<Rightarrow> node_group_summary list \<Rightarrow> tenant_status" where
  "ComputeTenantStatus t machines nodeGroups =
     (let phase = ComputeTenantPhase t machines nodeGroups;
          readyCount = int (length (filter (\<lambda>m. mst_ready (m_status m)) machines));
          connectedCount = int (length (filter (\<lambda>m. ms_connected (m_spec m)) machines));
          controlPlaneReady = list_ex (\<lambda>m. mst_ready (m_status m) \<and>
            mget (md_labels (m_metadata m)) roleLabel = ''controlplane'') machines
      in \<lparr>tst_phase = phase,
          tst_available = (phase = TenantActive \<or> (phase = TenantForming \<and> controlPlaneReady)),
          tst_ready = (phase = TenantActive),
          tst_apiReady = (controlPlaneReady \<and> readyCount > 0),
          tst_controlPlaneReady = controlPlaneReady,
          tst_machines = \<lparr>mc_total = int (length machines), mc_healthy = readyCount, mc_connected = connectedCount\<rparr>,
          tst_kubernetesVersion = ts_kubernetesVersion (t_spec t),
          tst_talosVersion = ts_talosVersion (t_spec t),
          tst_reconciliation = tst_reconciliation (t_status t)\<rparr>)"

text \<open>The abstract specification of the phase: one condition per phase.\<close>

definition all_ready :: "machine list \<Rightarrow> bool" where
  "all_ready machines \<longleftrightarrow> (\<forall>m\<in>set machines. mst_ready (m_status m) \<and> mst_stage (m_status m) = StageReady)"

lemma filter_length_all: "length (filter P xs) = length xs \<longleftrightarrow> (\<forall>x\<in>set xs. P x)"
proof
  show "length (filter P xs) = length xs \<Longrightarrow> \<forall>x\<in>set xs. P x"
    by (metis length_filter_less less_irrefl)
qed simp

text \<open>
  a tenant is removing exactly when it is marked for deletion; among the others it is shrinking
  when it has machines and more than its node groups ask for, active when it has machines, exactly as
  many as asked for and all of them ready, and forming in every other case.
\<close>

theorem ComputeTenantPhase_spec:
  "let p = ComputeTenantPhase t machines ngs;
       gone = (md_deletionTimestamp (t_metadata t) \<noteq> None);
       want = sum_list (map ngs_count ngs);
       have_n = int (length machines)
   in (p = TenantRemoving \<longleftrightarrow> gone) \<and>
    (p = TenantShrinking \<longleftrightarrow> \<not> gone \<and> machines \<noteq> [] \<and> have_n > want) \<and>
    (p = TenantActive \<longleftrightarrow> \<not> gone \<and> machines \<noteq> [] \<and> have_n = want \<and> all_ready machines) \<and>
    (p = TenantForming \<longleftrightarrow> \<not> gone \<and> (machines = [] \<or> have_n < want \<or> (have_n = want \<and> \<not> all_ready machines)))"
  unfolding ComputeTenantPhase_def Let_def all_ready_def
  by (simp add: filter_length_all)

text \<open>
  the derived status is consistent: an active tenant is ready and available, a removing or
  shrinking one is not available, healthy and connected machines are at most the total, the API is
  ready exactly when a control-plane machine is, and the reconciliation state of the apply queue and
  the declared versions are carried over.
\<close>

theorem ComputeTenantStatus_consistent:
  "let st = ComputeTenantStatus t machines ngs in
    (tst_ready st \<longleftrightarrow> tst_phase st = TenantActive) \<and> (tst_available st \<longleftrightarrow>
      tst_phase st = TenantActive \<or> tst_phase st = TenantForming \<and> tst_controlPlaneReady st) \<and>
    0 \<le> mc_healthy (tst_machines st) \<and> mc_healthy (tst_machines st) \<le> mc_total (tst_machines st) \<and>
    0 \<le> mc_connected (tst_machines st) \<and> mc_connected (tst_machines st) \<le> mc_total (tst_machines st) \<and>
    mc_total (tst_machines st) = int (length machines) \<and>
    (tst_apiReady st \<longleftrightarrow> tst_controlPlaneReady st) \<and>
    tst_phase st = ComputeTenantPhase t machines ngs \<and>
    tst_reconciliation st = tst_reconciliation (t_status t) \<and>
    tst_talosVersion st = ts_talosVersion (t_spec t) \<and>
    tst_kubernetesVersion st = ts_kubernetesVersion (t_spec t)"
proof -
  have "list_ex (\<lambda>m. mst_ready (m_status m) \<and> mget (md_labels (m_metadata m)) roleLabel = ''controlplane'') machines
      \<Longrightarrow> filter (\<lambda>m. mst_ready (m_status m)) machines \<noteq> []"
    by (auto simp: list_ex_iff filter_empty_conv)
  then show ?thesis
    unfolding ComputeTenantStatus_def Let_def by auto
qed

end
