(* ===== verification/TfBackend.thy ===== *)
theory TfBackend
  imports Json
begin

text \<open>
  The OpenTofu HTTP backend, \<^verbatim>\<open>internal/tfbackend\<close>: the two tables of \<^verbatim>\<open>store.go\<close> with the operations on
  them, the JSON form of \<^verbatim>\<open>LockInfo\<close> (\<^verbatim>\<open>lockinfo.go\<close>), the handlers of the five methods
  (\<^verbatim>\<open>handler.go\<close>), and a step system in which the SQL statements of concurrent requests interleave,
  where the mutual exclusion of the state lock is decided.
\<close>

section \<open>State\<close>

record lock_info =
  li_ID :: string
  li_Operation :: string
  li_Info :: string
  li_Who :: string
  li_Version :: string
  li_Created :: gotime
  li_Path :: string

definition enc_lock_info :: "lock_info \<Rightarrow> json" where
  "enc_lock_info i = jobj [(''ID'', eStr (li_ID i)), (''Operation'', eStr (li_Operation i)),
     (''Info'', eStr (li_Info i)), (''Who'', eStr (li_Who i)), (''Version'', eStr (li_Version i)),
     (''Created'', eTime (li_Created i)), (''Path'', eStr (li_Path i))]"

definition dec_lock_info :: "json \<Rightarrow> lock_info" where
  "dec_lock_info j = \<lparr>li_ID = dStr ''ID'' j, li_Operation = dStr ''Operation'' j, li_Info = dStr ''Info'' j,
     li_Who = dStr ''Who'' j, li_Version = dStr ''Version'' j, li_Created = dTime ''Created'' j,
     li_Path = dStr ''Path'' j\<rparr>"

text \<open>Whether a value unmarshals into a \<^verbatim>\<open>LockInfo\<close>.\<close>

definition ok_lock_info :: "json \<Rightarrow> bool" where
  "ok_lock_info j \<longleftrightarrow> orNull isObj j \<and> fieldOk isStr ''ID'' j \<and> fieldOk isStr ''Operation'' j \<and>
     fieldOk isStr ''Info'' j \<and> fieldOk isStr ''Who'' j \<and> fieldOk isStr ''Version'' j \<and>
     fieldOk isTime ''Created'' j \<and> fieldOk isStr ''Path'' j"

text \<open>\<^verbatim>\<open>time.Time\<close> marshals for the years 0 to 9999 only.\<close>

definition yearOk :: "gotime \<Rightarrow> bool" where
  "yearOk t \<longleftrightarrow> - 62167219200 * second \<le> t \<and> t < 253402300800 * second"

definition marshalLockInfo :: "lock_info \<Rightarrow> json option" where
  "marshalLockInfo i = (if yearOk (li_Created i) then Some (enc_lock_info i) else None)"

definition unmarshalLockInfo :: "json \<Rightarrow> lock_info option" where
  "unmarshalLockInfo j = (if ok_lock_info j then Some (dec_lock_info j) else None)"

record tf_state_row =
  tfs_id :: string
  tfs_state :: string
  tfs_updated :: gotime

record tf_lock_row =
  tfl_id :: string
  tfl_lock_id :: string
  tfl_info :: json
  tfl_created :: gotime

record tf_store =
  tf_state :: "tf_state_row list"
  tf_locks :: "tf_lock_row list"
  tf_clock :: gotime
  tf_faults :: "bool list"

datatype tf_err = ErrLockHeld | ErrMarshal | ErrDB

type_synonym 'a tf_res = "(tf_err + 'a) \<times> tf_store"

text \<open>One statement: whether it succeeds, and the store with its fault consumed.\<close>

definition tf_sql :: "tf_store \<Rightarrow> bool \<times> tf_store" where
  "tf_sql s = (case tf_faults s of [] \<Rightarrow> True | b # _ \<Rightarrow> \<not> b, s\<lparr>tf_faults := tl (tf_faults s)\<rparr>)"

section \<open>Operations\<close>

definition GetState :: "string \<Rightarrow> tf_store \<Rightarrow> string option tf_res" where
  "GetState wid s =
     (case tf_sql s of
        (False, s) \<Rightarrow> (Inl ErrDB, s)
      | (True, s) \<Rightarrow> (Inr (map_option tfs_state (tbl_get tfs_id (tf_state s) wid)), s))"

definition PutState :: "string \<Rightarrow> string \<Rightarrow> tf_store \<Rightarrow> unit tf_res" where
  "PutState wid st s =
     (case tf_sql s of
        (False, s) \<Rightarrow> (Inl ErrDB, s)
      | (True, s) \<Rightarrow>
          (Inr (), s\<lparr>tf_state := (case tbl_get tfs_id (tf_state s) wid of
             None \<Rightarrow> tbl_ins \<lparr>tfs_id = wid, tfs_state = st, tfs_updated = tf_clock s\<rparr> (tf_state s)
           | Some _ \<Rightarrow> tbl_upd tfs_id wid (\<lambda>r. r\<lparr>tfs_state := st, tfs_updated := tf_clock s\<rparr>) (tf_state s))\<rparr>))"

definition DeleteState :: "string \<Rightarrow> tf_store \<Rightarrow> bool tf_res" where
  "DeleteState wid s =
     (case tf_sql s of
        (False, s) \<Rightarrow> (Inl ErrDB, s)
      | (True, s) \<Rightarrow> (Inr (tbl_get tfs_id (tf_state s) wid \<noteq> None),
                     s\<lparr>tf_state := tbl_del tfs_id wid (tf_state s)\<rparr>))"

text \<open>The INSERT of \<^verbatim>\<open>Lock\<close>: it fails on a statement error and when the primary key is taken.\<close>

definition lockInsert :: "string \<Rightarrow> string \<Rightarrow> json \<Rightarrow> tf_store \<Rightarrow> bool \<times> tf_store" where
  "lockInsert wid lid j s =
     (case tf_sql s of
        (False, s) \<Rightarrow> (False, s)
      | (True, s) \<Rightarrow>
          if tbl_get tfl_id (tf_locks s) wid = None
          then (True, s\<lparr>tf_locks := tbl_ins \<lparr>tfl_id = wid, tfl_lock_id = lid, tfl_info = j,
                                           tfl_created = tf_clock s\<rparr> (tf_locks s)\<rparr>)
          else (False, s))"

definition lockHolder :: "string \<Rightarrow> tf_store \<Rightarrow> lock_info option tf_res" where
  "lockHolder wid s =
     (case tf_sql s of
        (False, s) \<Rightarrow> (Inl ErrDB, s)
      | (True, s) \<Rightarrow>
          (case tbl_get tfl_id (tf_locks s) wid of
             None \<Rightarrow> (Inr None, s)
           | Some r \<Rightarrow> (case unmarshalLockInfo (tfl_info r) of
                         None \<Rightarrow> (Inl ErrMarshal, s)
                       | Some i \<Rightarrow> (Inr (Some i), s))))"

text \<open>\<^verbatim>\<open>Lock\<close> returns the holder beside \<^verbatim>\<open>ErrLockHeld\<close>: the first component is that pointer.\<close>

definition Lock :: "string \<Rightarrow> lock_info \<Rightarrow> tf_store \<Rightarrow> lock_info option \<times> unit tf_res" where
  "Lock wid info s =
     (case marshalLockInfo info of
        None \<Rightarrow> (None, Inl ErrMarshal, s)
      | Some j \<Rightarrow>
          (case lockInsert wid (li_ID info) j s of
             (True, s) \<Rightarrow> (None, Inr (), s)
           | (False, s) \<Rightarrow>
               (case lockHolder wid s of
                  (Inl e, s) \<Rightarrow> (None, Inl e, s)
                | (Inr holder, s) \<Rightarrow> (holder, Inl ErrLockHeld, s))))"

text \<open>The DELETE of \<^verbatim>\<open>Unlock\<close>: by workspace, whatever lock the row holds by then.\<close>

definition lockDelete :: "string \<Rightarrow> tf_store \<Rightarrow> bool \<times> tf_store" where
  "lockDelete wid s =
     (case tf_sql s of
        (False, s) \<Rightarrow> (False, s)
      | (True, s) \<Rightarrow> (True, s\<lparr>tf_locks := tbl_del tfl_id wid (tf_locks s)\<rparr>))"

text \<open>The result is the pair of \<^verbatim>\<open>released\<close> and \<^verbatim>\<open>mismatch\<close>.\<close>

definition Unlock :: "string \<Rightarrow> string \<Rightarrow> tf_store \<Rightarrow> (bool \<times> bool) tf_res" where
  "Unlock wid lockID s =
     (case lockHolder wid s of
        (Inl e, s) \<Rightarrow> (Inl e, s)
      | (Inr None, s) \<Rightarrow> (Inr (False, False), s)
      | (Inr (Some holder), s) \<Rightarrow>
          if li_ID holder \<noteq> lockID then (Inr (False, True), s)
          else (case lockDelete wid s of
                  (False, s) \<Rightarrow> (Inl ErrDB, s)
                | (True, s) \<Rightarrow> (Inr (True, False), s)))"

section \<open>Handlers\<close>

text \<open>
  A request: its method, the \<^verbatim>\<open>ID\<close> query value (empty when absent) and its body, \<open>None\<close> when
  reading it fails. \<open>parse\<close> is the JSON text decoder: \<open>None\<close> on a syntax error.
\<close>

record tf_request =
  rq_method :: string
  rq_ID :: string
  rq_body :: "string option"

datatype tf_payload = NoBody | Message string | Blob string | Holder json

type_synonym tf_response = "nat \<times> tf_payload"

definition workspaceID :: "tf_request \<Rightarrow> string" where
  "workspaceID r = (if rq_ID r \<noteq> [] then rq_ID r else ''default'')"

definition maxStateBytes :: nat where
  "maxStateBytes = 16 * 2 ^ 20"

definition handleRead :: "tf_request \<Rightarrow> tf_store \<Rightarrow> tf_response \<times> tf_store" where
  "handleRead r s =
     (case GetState (workspaceID r) s of
        (Inl _, s) \<Rightarrow> ((500, Message ''internal error''), s)
      | (Inr None, s) \<Rightarrow> ((404, Message ''no state''), s)
      | (Inr (Some st), s) \<Rightarrow> ((200, Blob st), s))"

definition handleWrite :: "tf_request \<Rightarrow> tf_store \<Rightarrow> tf_response \<times> tf_store" where
  "handleWrite r s =
     (case rq_body r of
        None \<Rightarrow> ((400, Message ''read body''), s)
      | Some body \<Rightarrow>
          if length body > maxStateBytes then ((400, Message ''read body''), s)
          else (case PutState (workspaceID r) body s of
                  (Inl _, s) \<Rightarrow> ((500, Message ''internal error''), s)
                | (Inr _, s) \<Rightarrow> ((200, NoBody), s)))"

definition handleDelete :: "tf_request \<Rightarrow> tf_store \<Rightarrow> tf_response \<times> tf_store" where
  "handleDelete r s =
     (case DeleteState (workspaceID r) s of
        (Inl _, s) \<Rightarrow> ((500, Message ''internal error''), s)
      | (Inr found, s) \<Rightarrow> if found then ((200, NoBody), s) else ((404, Message ''no state''), s))"

definition decodeBody :: "(string \<Rightarrow> json option) \<Rightarrow> (json \<Rightarrow> bool) \<Rightarrow> tf_request \<Rightarrow> json option" where
  "decodeBody parse ok r =
     (case rq_body r of
        None \<Rightarrow> None
      | Some b \<Rightarrow> (case parse b of None \<Rightarrow> None | Some j \<Rightarrow> if ok j then Some j else None))"

definition handleLock :: "(string \<Rightarrow> json option) \<Rightarrow> tf_request \<Rightarrow> tf_store \<Rightarrow> tf_response \<times> tf_store" where
  "handleLock parse r s =
     (case decodeBody parse ok_lock_info r of
        None \<Rightarrow> ((400, Message ''invalid lock info''), s)
      | Some j \<Rightarrow>
          let info = dec_lock_info j in
          if li_ID info = [] then ((400, Message ''lock info missing ID''), s)
          else (case Lock (workspaceID r) info s of
                  (_, Inr _, s) \<Rightarrow> ((200, NoBody), s)
                | (Some holder, Inl ErrLockHeld, s) \<Rightarrow> ((423, Holder (enc_lock_info holder)), s)
                | (_, Inl _, s) \<Rightarrow> ((500, Message ''internal error''), s)))"

definition handleUnlock :: "(string \<Rightarrow> json option) \<Rightarrow> tf_request \<Rightarrow> tf_store \<Rightarrow> tf_response \<times> tf_store" where
  "handleUnlock parse r s =
     (case decodeBody parse (\<lambda>j. orNull isObj j \<and> fieldOk isStr ''ID'' j) r of
        None \<Rightarrow> ((400, Message ''invalid unlock body''), s)
      | Some j \<Rightarrow>
          (case Unlock (workspaceID r) (dStr ''ID'' j) s of
             (Inl _, s) \<Rightarrow> ((500, Message ''internal error''), s)
           | (Inr (released, mismatch), s) \<Rightarrow>
               if released then ((200, NoBody), s)
               else if mismatch then ((409, Message ''lock ID mismatch''), s)
               else ((200, NoBody), s)))"

definition ServeHTTP :: "(string \<Rightarrow> json option) \<Rightarrow> tf_request \<Rightarrow> tf_store \<Rightarrow> tf_response \<times> tf_store" where
  "ServeHTTP parse r s =
     (if rq_method r = ''GET'' then handleRead r s
      else if rq_method r = ''POST'' then handleWrite r s
      else if rq_method r = ''DELETE'' then handleDelete r s
      else if rq_method r = ''LOCK'' then handleLock parse r s
      else if rq_method r = ''UNLOCK'' then handleUnlock parse r s
      else ((405, Message ''method not allowed''), s))"

section \<open>Statements of concurrent requests\<close>

text \<open>
  A client \<open>t\<close> is idle, about to read the holder after a refused INSERT, or about to delete a lock
  whose ID it has just compared. \<open>ty_held\<close> is the clients' view: the locks granted with 200 and
  not yet released with 200.
\<close>

datatype tf_pc = TIdle | TLockRead string | TUnlockDel string string

record tf_sys =
  ty_store :: tf_store
  ty_pc :: "nat \<Rightarrow> tf_pc"
  ty_held :: "(string \<times> string) set"

text \<open>
  With \<open>overlap\<close> two UNLOCK requests with the same ID may be in flight together, as when a client
  retries one whose answer was lost; without it a lock ID is being unlocked by one request at a time.
\<close>

inductive tf_step :: "bool \<Rightarrow> tf_sys \<Rightarrow> tf_sys \<Rightarrow> bool" for overlap where
  ts_put: "ty_pc y t = TIdle \<Longrightarrow> PutState wid st (ty_store y) = (res, s) \<Longrightarrow>
    tf_step overlap y (y\<lparr>ty_store := s\<rparr>)"
| ts_get: "ty_pc y t = TIdle \<Longrightarrow> GetState wid (ty_store y) = (res, s) \<Longrightarrow>
    tf_step overlap y (y\<lparr>ty_store := s\<rparr>)"
| ts_del: "ty_pc y t = TIdle \<Longrightarrow> DeleteState wid (ty_store y) = (res, s) \<Longrightarrow>
    tf_step overlap y (y\<lparr>ty_store := s\<rparr>)"
| ts_lock: "ty_pc y t = TIdle \<Longrightarrow> marshalLockInfo info = Some j \<Longrightarrow>
    lockInsert wid (li_ID info) j (ty_store y) = (True, s) \<Longrightarrow>
    tf_step overlap y (y\<lparr>ty_store := s, ty_held := insert (wid, li_ID info) (ty_held y)\<rparr>)"
| ts_refused: "ty_pc y t = TIdle \<Longrightarrow> marshalLockInfo info = Some j \<Longrightarrow>
    lockInsert wid (li_ID info) j (ty_store y) = (False, s) \<Longrightarrow>
    tf_step overlap y (y\<lparr>ty_store := s, ty_pc := (ty_pc y)(t := TLockRead wid)\<rparr>)"
| ts_lock_read: "ty_pc y t = TLockRead wid \<Longrightarrow> lockHolder wid (ty_store y) = (res, s) \<Longrightarrow>
    tf_step overlap y (y\<lparr>ty_store := s, ty_pc := (ty_pc y)(t := TIdle)\<rparr>)"
| ts_unlock: "ty_pc y t = TIdle \<Longrightarrow> overlap \<or> (\<forall>u. ty_pc y u \<noteq> TUnlockDel wid lid) \<Longrightarrow>
    lockHolder wid (ty_store y) = (res, s) \<Longrightarrow>
    tf_step overlap y (y\<lparr>ty_store := s, ty_pc := (ty_pc y)(t :=
      (case res of Inr (Some h) \<Rightarrow> if li_ID h = lid then TUnlockDel wid lid else TIdle | _ \<Rightarrow> TIdle))\<rparr>)"
| ts_unlock_del: "ty_pc y t = TUnlockDel wid lid \<Longrightarrow> lockDelete wid (ty_store y) = (ok, s) \<Longrightarrow>
    tf_step overlap y (y\<lparr>ty_store := s, ty_pc := (ty_pc y)(t := TIdle),
      ty_held := (if ok then ty_held y - {(wid, lid)} else ty_held y)\<rparr>)"

definition tf_init :: "tf_sys \<Rightarrow> bool" where
  "tf_init y \<longleftrightarrow> tf_locks (ty_store y) = [] \<and> tf_state (ty_store y) = [] \<and> ty_held y = {} \<and>
     (\<forall>t. ty_pc y t = TIdle)"

section \<open>Lemmas\<close>

interpretation tf_state_table: table "tbl_get tfs_id" tbl_ins "tbl_upd tfs_id" "tbl_del tfs_id" tfs_id "tbl_wf tfs_id"
  by unfold_locales (rule tbl_table; assumption)+

interpretation tf_lock_table: table "tbl_get tfl_id" tbl_ins "tbl_upd tfl_id" "tbl_del tfl_id" tfl_id "tbl_wf tfl_id"
  by unfold_locales (rule tbl_table; assumption)+

named_theorems tf_simps \<open>the statements of the backend, unfolded\<close>

lemma dec_enc_lock_info [simp]: "dec_lock_info (enc_lock_info i) = i"
  by (simp add: dec_lock_info_def enc_lock_info_def json_simps)

lemma ok_enc_lock_info [simp]: "ok_lock_info (enc_lock_info i)"
  by (simp add: ok_lock_info_def enc_lock_info_def orNull_def fieldOk_def jobj_def eStr_def eTime_def)

lemma unmarshal_marshal: "marshalLockInfo i = Some j \<Longrightarrow> unmarshalLockInfo j = Some i"
  by (auto simp: marshalLockInfo_def unmarshalLockInfo_def split: if_splits)

lemma tf_sql_healthy [tf_simps]: "tf_faults s = [] \<Longrightarrow> tf_sql s = (True, s)"
  by (simp add: tf_sql_def)

lemma tf_sql_keeps:
  assumes "tf_sql s = (ok, t)"
  shows "tf_state t = tf_state s" "tf_locks t = tf_locks s" "tf_clock t = tf_clock s"
  using assms by (auto simp: tf_sql_def)

lemma tf_state_ops_locks:
  "GetState wid s = (r1, t) \<Longrightarrow> tf_locks t = tf_locks s"
  "PutState wid st s = (r2, t) \<Longrightarrow> tf_locks t = tf_locks s"
  "DeleteState wid s = (r3, t) \<Longrightarrow> tf_locks t = tf_locks s"
  by (auto simp: GetState_def PutState_def DeleteState_def tf_sql_keeps split: prod.splits bool.splits)

lemma lockHolder_keeps: "lockHolder wid s = (r, t) \<Longrightarrow> tf_locks t = tf_locks s \<and> tf_state t = tf_state s"
  by (auto simp: lockHolder_def tf_sql_keeps split: prod.splits bool.splits option.splits)

lemma lockHolder_Some:
  "lockHolder wid s = (Inr (Some h), t) \<Longrightarrow>
   \<exists>r. tbl_get tfl_id (tf_locks s) wid = Some r \<and> unmarshalLockInfo (tfl_info r) = Some h"
  by (auto simp: lockHolder_def tf_sql_keeps split: prod.splits bool.splits option.splits)

lemma lockInsert_True:
  "lockInsert wid lid j s = (True, t) \<Longrightarrow>
   tbl_get tfl_id (tf_locks s) wid = None \<and>
   (\<exists>c. tf_locks t = tbl_ins \<lparr>tfl_id = wid, tfl_lock_id = lid, tfl_info = j, tfl_created = c\<rparr> (tf_locks s))"
  by (auto simp: lockInsert_def tf_sql_keeps split: prod.splits bool.splits if_splits)

lemma lockInsert_False: "lockInsert wid lid j s = (False, t) \<Longrightarrow> tf_locks t = tf_locks s"
  by (auto simp: lockInsert_def tf_sql_keeps split: prod.splits bool.splits if_splits)

lemma lockDelete_locks:
  "lockDelete wid s = (ok, t) \<Longrightarrow> tf_locks t = (if ok then tbl_del tfl_id wid (tf_locks s) else tf_locks s)"
  by (auto simp: lockDelete_def tf_sql_keeps split: prod.splits bool.splits)

section \<open>The lock of a workspace is exclusive\<close>

text \<open>The lock IDs the table holds.\<close>

definition locked :: "tf_store \<Rightarrow> string \<Rightarrow> string option" where
  "locked s wid = map_option tfl_lock_id (tbl_get tfl_id (tf_locks s) wid)"

definition lock_row_ok :: "tf_lock_row \<Rightarrow> bool" where
  "lock_row_ok r \<longleftrightarrow> map_option li_ID (unmarshalLockInfo (tfl_info r)) = Some (tfl_lock_id r)"

definition tf_inv :: "tf_sys \<Rightarrow> bool" where
  "tf_inv y \<longleftrightarrow>
     (\<forall>wid r. tbl_get tfl_id (tf_locks (ty_store y)) wid = Some r \<longrightarrow> lock_row_ok r) \<and>
     (\<forall>wid lid. (wid, lid) \<in> ty_held y \<longleftrightarrow> locked (ty_store y) wid = Some lid) \<and>
     (\<forall>t wid lid. ty_pc y t = TUnlockDel wid lid \<longrightarrow> locked (ty_store y) wid = Some lid) \<and>
     (\<forall>t u wid lid. ty_pc y t = TUnlockDel wid lid \<longrightarrow> ty_pc y u = TUnlockDel wid lid \<longrightarrow> t = u)"

lemma tf_inv_frame:
  assumes "tf_inv y" "tf_locks s = tf_locks (ty_store y)"
  shows "tf_inv (y\<lparr>ty_store := s\<rparr>)"
    and "(\<forall>wid lid. pc \<noteq> TUnlockDel wid lid) \<Longrightarrow> tf_inv (y\<lparr>ty_store := s, ty_pc := (ty_pc y)(t := pc)\<rparr>)"
  using assms by (auto simp: tf_inv_def locked_def)

lemma lock_row_ID:
  "lock_row_ok r \<Longrightarrow> unmarshalLockInfo (tfl_info r) = Some h \<Longrightarrow> tfl_lock_id r = li_ID h"
  by (simp add: lock_row_ok_def)

lemma tf_inv_lock:
  assumes inv: "tf_inv y" and m: "marshalLockInfo info = Some j"
    and ins: "lockInsert wid (li_ID info) j (ty_store y) = (True, s)"
  shows "tf_inv (y\<lparr>ty_store := s, ty_held := insert (wid, li_ID info) (ty_held y)\<rparr>)"
proof -
  obtain c where free: "tbl_get tfl_id (tf_locks (ty_store y)) wid = None"
    and s: "tf_locks s = tbl_ins \<lparr>tfl_id = wid, tfl_lock_id = li_ID info, tfl_info = j, tfl_created = c\<rparr> (tf_locks (ty_store y))"
    using lockInsert_True [OF ins] by blast
  have get: "tbl_get tfl_id (tf_locks s) k =
      (if k = wid then Some \<lparr>tfl_id = wid, tfl_lock_id = li_ID info, tfl_info = j, tfl_created = c\<rparr>
       else tbl_get tfl_id (tf_locks (ty_store y)) k)" for k
    using tbl_get_ins [of tfl_id "tf_locks (ty_store y)"] free by (simp add: s)
  have l: "locked s k = (if k = wid then Some (li_ID info) else locked (ty_store y) k)" for k
    by (simp add: locked_def get)
  have n: "locked (ty_store y) wid = None"
    by (simp add: locked_def free)
  show ?thesis
    using inv n unfolding tf_inv_def
    by (auto simp: get l lock_row_ok_def unmarshal_marshal [OF m])
qed

lemma tf_inv_unlock:
  assumes inv: "tf_inv y" and idle: "ty_pc y t = TIdle" and once: "\<forall>u. ty_pc y u \<noteq> TUnlockDel wid lid"
    and read: "lockHolder wid (ty_store y) = (res, s)"
  shows "tf_inv (y\<lparr>ty_store := s, ty_pc := (ty_pc y)(t :=
      (case res of Inr (Some h) \<Rightarrow> if li_ID h = lid then TUnlockDel wid lid else TIdle | _ \<Rightarrow> TIdle))\<rparr>)"
proof (cases "\<exists>h. res = Inr (Some h) \<and> li_ID h = lid")
  case True
  then obtain h where h: "res = Inr (Some h)" "li_ID h = lid" by blast
  then obtain r where r: "tbl_get tfl_id (tf_locks (ty_store y)) wid = Some r"
    "unmarshalLockInfo (tfl_info r) = Some h"
    using lockHolder_Some read by blast
  have "locked (ty_store y) wid = Some lid"
    using inv r h lock_row_ID unfolding tf_inv_def locked_def by auto
  then show ?thesis
    using inv once h lockHolder_keeps [OF read] unfolding tf_inv_def by (auto simp: locked_def)
next
  case False
  then show ?thesis
    using tf_inv_frame(2) [OF inv, of s TIdle t] lockHolder_keeps [OF read]
    by (auto split: sum.splits option.splits)
qed

lemma tf_inv_unlock_del:
  assumes inv: "tf_inv y" and pc: "ty_pc y t = TUnlockDel wid lid"
    and del: "lockDelete wid (ty_store y) = (ok, s)"
  shows "tf_inv (y\<lparr>ty_store := s, ty_pc := (ty_pc y)(t := TIdle),
      ty_held := (if ok then ty_held y - {(wid, lid)} else ty_held y)\<rparr>)"
proof (cases ok)
  case True
  have get: "tbl_get tfl_id (tf_locks s) k = (if k = wid then None else tbl_get tfl_id (tf_locks (ty_store y)) k)" for k
    using lockDelete_locks [OF del] True by (simp add: tbl_get_del)
  have l: "locked s k = (if k = wid then None else locked (ty_store y) k)" for k
    by (simp add: locked_def get)
  have only: "u = t" if "ty_pc y u = TUnlockDel wid lid'" for u lid'
  proof -
    have "lid' = lid"
      using inv pc that unfolding tf_inv_def by (metis option.inject)
    then show ?thesis
      using inv pc that unfolding tf_inv_def by blast
  qed
  have "locked (ty_store y) wid = Some lid"
    using inv pc unfolding tf_inv_def by blast
  then have held: "\<forall>k l. (k, l) \<in> ty_held y - {(wid, lid)} \<longleftrightarrow> locked s k = Some l"
    using inv unfolding tf_inv_def by (simp add: l)
  have rows: "\<forall>k r. tbl_get tfl_id (tf_locks s) k = Some r \<longrightarrow> lock_row_ok r"
    using inv unfolding tf_inv_def by (simp add: get)
  have others: "\<forall>u k l. ty_pc y u = TUnlockDel k l \<longrightarrow> u = t \<or> locked s k = Some l"
    using inv only unfolding tf_inv_def l by metis
  have once: "\<forall>u v k l. ty_pc y u = TUnlockDel k l \<longrightarrow> ty_pc y v = TUnlockDel k l \<longrightarrow> u = v"
    using inv unfolding tf_inv_def by blast
  show ?thesis
    unfolding tf_inv_def using rows others held once True by simp blast
next
  case False
  then show ?thesis
    using tf_inv_frame(2) [OF inv, of s TIdle t] lockDelete_locks [OF del] by simp
qed

lemma tf_step_inv: "tf_step False y y' \<Longrightarrow> tf_inv y \<Longrightarrow> tf_inv y'"
  by (induction rule: tf_step.induct)
    (simp_all add: tf_inv_frame tf_state_ops_locks lockInsert_False lockHolder_keeps tf_inv_lock tf_inv_unlock
      tf_inv_unlock_del)

interpretation tf_system: invariant_system tf_init "tf_step False" tf_inv
proof unfold_locales
  show "tf_inv y" if "tf_init y" for y
    using that by (simp add: tf_init_def tf_inv_def locked_def)
qed (rule tf_step_inv)

section \<open>Properties\<close>

text \<open>
  C10: mutual exclusion of the state lock under any interleaving of the statements of any number of
  clients, with statement failures: as long as one lock ID is not being unlocked by two requests at
  once, a workspace has at most one granted and unreleased lock, and it is the one in the table.
\<close>

theorem lock_exclusive:
  assumes "reach tf_init (tf_step False) y" "(wid, a) \<in> ty_held y" "(wid, b) \<in> ty_held y"
  shows "a = b \<and> locked (ty_store y) wid = Some a"
  using tf_system.reach_inv [OF assms(1)] assms(2,3) unfolding tf_inv_def by auto

definition ex_info :: "string \<Rightarrow> lock_info" where
  "ex_info lid = \<lparr>li_ID = lid, li_Operation = [], li_Info = [], li_Who = [], li_Version = [], li_Created = 0, li_Path = []\<rparr>"

definition ex_tf :: "tf_lock_row list \<Rightarrow> tf_store" where
  "ex_tf rows = \<lparr>tf_state = [], tf_locks = rows, tf_clock = 0, tf_faults = []\<rparr>"

definition ex_lock_row :: "string \<Rightarrow> tf_lock_row" where
  "ex_lock_row lid = \<lparr>tfl_id = ''w'', tfl_lock_id = lid, tfl_info = enc_lock_info (ex_info lid), tfl_created = 0\<rparr>"

definition ex_sys :: "tf_lock_row list \<Rightarrow> (nat \<Rightarrow> tf_pc) \<Rightarrow> (string \<times> string) set \<Rightarrow> tf_sys" where
  "ex_sys rows pc held = \<lparr>ty_store = ex_tf rows, ty_pc = pc, ty_held = held\<rparr>"

lemma ex_marshal [simp]: "marshalLockInfo (ex_info lid) = Some (enc_lock_info (ex_info lid))" "li_ID (ex_info lid) = lid"
  by (simp_all add: marshalLockInfo_def ex_info_def yearOk_def)

lemma ex_insert: "lockInsert ''w'' lid (enc_lock_info (ex_info lid)) (ex_tf []) = (True, ex_tf [ex_lock_row lid])"
  by (simp add: lockInsert_def tf_simps ex_tf_def tbl_ins_def ex_lock_row_def)

lemma ex_holder: "lockHolder ''w'' (ex_tf [ex_lock_row lid]) = (Inr (Some (ex_info lid)), ex_tf [ex_lock_row lid])"
  by (simp add: lockHolder_def tf_simps ex_tf_def ex_lock_row_def unmarshalLockInfo_def)

lemma ex_delete: "lockDelete ''w'' (ex_tf [ex_lock_row lid]) = (True, ex_tf [])"
  by (simp add: lockDelete_def tf_simps ex_tf_def ex_lock_row_def tbl_del_def)

lemma ex_init: "tf_init (ex_sys [] (\<lambda>_. TIdle) {})"
  by (simp add: tf_init_def ex_sys_def ex_tf_def)

text \<open>The steps of the runs below, as rules on reachable states.\<close>

lemma ex_run_lock:
  "reach tf_init (tf_step ov) (ex_sys [] pc held) \<Longrightarrow> pc t = TIdle \<Longrightarrow>
   reach tf_init (tf_step ov) (ex_sys [ex_lock_row lid] pc (insert (''w'', lid) held))"
  using ts_lock [of "ex_sys [] pc held" t "ex_info lid" "enc_lock_info (ex_info lid)" "''w''" "ex_tf [ex_lock_row lid]" ov]
  by (auto simp: ex_sys_def ex_insert intro: reach_step)

lemma ex_run_unlock:
  "reach tf_init (tf_step True) (ex_sys [ex_lock_row lid] pc held) \<Longrightarrow> pc t = TIdle \<Longrightarrow>
   reach tf_init (tf_step True) (ex_sys [ex_lock_row lid] (pc(t := TUnlockDel ''w'' lid)) held)"
  using ts_unlock [of "ex_sys [ex_lock_row lid] pc held" t True "''w''" lid "Inr (Some (ex_info lid))" "ex_tf [ex_lock_row lid]"]
  by (auto simp: ex_sys_def ex_holder intro: reach_step)

lemma ex_run_delete:
  "reach tf_init (tf_step ov) (ex_sys [ex_lock_row lid'] pc held) \<Longrightarrow> pc t = TUnlockDel ''w'' lid \<Longrightarrow>
   reach tf_init (tf_step ov) (ex_sys [] (pc(t := TIdle)) (held - {(''w'', lid)}))"
  using ts_unlock_del [of "ex_sys [ex_lock_row lid'] pc held" t "''w''" lid True "ex_tf []" ov]
  by (auto simp: ex_sys_def ex_delete intro: reach_step)

lemma ex_first: "reach tf_init (tf_step ov) (ex_sys [ex_lock_row ''A''] (\<lambda>_. TIdle) {(''w'', ''A'')})"
  by (rule ex_run_lock) (simp_all add: reach_init ex_init)

theorem lock_exclusive_witness:
  "\<exists>y :: tf_sys. (''w'', ''A'') \<in> ty_held y \<and> locked (ty_store y) ''w'' = Some ''A''"
proof -
  let ?y = "ex_sys [ex_lock_row ''A''] (\<lambda>_. TIdle) {(''w'', ''A'')}"
  have "(''w'', ''A'') \<in> ty_held ?y"
    by (simp add: ex_sys_def)
  with lock_exclusive [OF ex_first this this] show ?thesis
    by blast
qed

text \<open>
  the exclusion is lost when two UNLOCK requests with the same lock ID overlap: the ID is
  compared by one statement and the row is deleted by another that names only the workspace. The
  second request deletes the lock another client has acquired in between, and a third client then
  acquires the workspace too: two granted and unreleased locks.
\<close>

theorem unlock_race:
  "\<exists>y. reach tf_init (tf_step True) y \<and> (''w'', ''B'') \<in> ty_held y \<and> (''w'', ''C'') \<in> ty_held y"
proof -
  let ?r = "reach tf_init (tf_step True)"
  let ?p1 = "(\<lambda>_. TIdle)(0 := TUnlockDel ''w'' ''A'')"
  let ?p2 = "?p1(1 := TUnlockDel ''w'' ''A'')"
  have "?r (ex_sys [ex_lock_row ''A''] (\<lambda>_. TIdle) {(''w'', ''A'')})"
    by (rule ex_first)
  then have "?r (ex_sys [ex_lock_row ''A''] ?p1 {(''w'', ''A'')})"
    by (rule ex_run_unlock) simp
  then have "?r (ex_sys [ex_lock_row ''A''] ?p2 {(''w'', ''A'')})"
    by (rule ex_run_unlock) simp
  then have "?r (ex_sys [] (?p2(0 := TIdle)) ({(''w'', ''A'')} - {(''w'', ''A'')}))"
    by (rule ex_run_delete) simp
  then have "?r (ex_sys [ex_lock_row ''B''] (?p2(0 := TIdle)) (insert (''w'', ''B'') ({(''w'', ''A'')} - {(''w'', ''A'')})))"
    by (rule ex_run_lock [of _ _ _ 0]) simp
  then have "?r (ex_sys [] (?p2(0 := TIdle, 1 := TIdle))
      (insert (''w'', ''B'') ({(''w'', ''A'')} - {(''w'', ''A'')}) - {(''w'', ''A'')}))"
    by (rule ex_run_delete) simp
  then have "?r (ex_sys [ex_lock_row ''C''] (?p2(0 := TIdle, 1 := TIdle))
      (insert (''w'', ''C'') (insert (''w'', ''B'') ({(''w'', ''A'')} - {(''w'', ''A'')}) - {(''w'', ''A'')})))"
    by (rule ex_run_lock [of _ _ _ 0]) simp
  then show ?thesis
    by (intro exI conjI, assumption) (simp_all add: ex_sys_def)
qed

text \<open>
  C11: the lock protocol over HTTP, on a store without statement failures: LOCK on a free workspace
  answers 200 and records the lock; LOCK on a locked one answers 423 with the info its holder locked
  with and changes nothing; UNLOCK with another ID answers 409 and changes nothing; UNLOCK with the
  holder's ID answers 200 and frees the workspace, after which a further UNLOCK answers 200.
\<close>

theorem lock_protocol:
  assumes "tf_faults s = []" "locked s (workspaceID r) = None" "rq_method r = ''LOCK''" "rq_body r = Some b"
    "parse b = Some (enc_lock_info info)" "li_ID info \<noteq> []" "yearOk (li_Created info)"
    "rq_method r' = ''LOCK''" "workspaceID r' = workspaceID r" "rq_body r' = Some b'"
    "parse b' = Some (enc_lock_info info')" "li_ID info' \<noteq> []" "yearOk (li_Created info')"
    "rq_method u = ''UNLOCK''" "workspaceID u = workspaceID r" "rq_body u = Some c"
    "parse c = Some (JObj [(''ID'', JStr lid)])"
  shows "let s1 = snd (ServeHTTP parse r s) in
     fst (ServeHTTP parse r s) = (200, NoBody) \<and> locked s1 (workspaceID r) = Some (li_ID info) \<and>
     ServeHTTP parse r' s1 = ((423, Holder (enc_lock_info info)), s1) \<and>
     (if lid = li_ID info
      then \<exists>s2. ServeHTTP parse u s1 = ((200, NoBody), s2) \<and> locked s2 (workspaceID r) = None \<and>
             ServeHTTP parse u s2 = ((200, NoBody), s2)
      else ServeHTTP parse u s1 = ((409, Message ''lock ID mismatch''), s1))"
proof -
  let ?w = "workspaceID r"
  define row where "row = \<lparr>tfl_id = ?w, tfl_lock_id = li_ID info, tfl_info = enc_lock_info info, tfl_created = tf_clock s\<rparr>"
  define s1 where "s1 = s\<lparr>tf_locks := tbl_ins row (tf_locks s)\<rparr>"
  have free: "tbl_get tfl_id (tf_locks s) ?w = None"
    using assms(2) by (simp add: locked_def)
  have get: "tbl_get tfl_id (tf_locks s1) ?w = Some row"
    using tf_lock_table.get_ins_same [of "tf_locks s" row] free by (simp add: s1_def row_def)
  have lock: "ServeHTTP parse r s = ((200, NoBody), s1)"
    using assms free
    by (simp add: ServeHTTP_def handleLock_def decodeBody_def Lock_def marshalLockInfo_def lockInsert_def tf_simps
        s1_def row_def)
  have [simp]: "tf_faults s1 = []"
    using assms(1) by (simp add: s1_def)
  have holder: "lockHolder ?w s1 = (Inr (Some info), s1)"
    by (simp add: lockHolder_def tf_simps get) (simp add: row_def unmarshalLockInfo_def)
  have held: "ServeHTTP parse r' s1 = ((423, Holder (enc_lock_info info)), s1)"
    using assms(8-13) holder get
    by (simp add: ServeHTTP_def handleLock_def decodeBody_def Lock_def marshalLockInfo_def lockInsert_def tf_simps)
  have un: "decodeBody parse (\<lambda>j. orNull isObj j \<and> fieldOk isStr ''ID'' j) u = Some (JObj [(''ID'', JStr lid)])"
    using assms(16,17) by (simp add: decodeBody_def orNull_def fieldOk_def)
  have unlock: "ServeHTTP parse u s = handleUnlock parse u s" for s
    using assms(14) by (simp add: ServeHTTP_def)
  define s2 where "s2 = s1\<lparr>tf_locks := tbl_del tfl_id ?w (tf_locks s1)\<rparr>"
  have get2: "tbl_get tfl_id (tf_locks s2) ?w = None"
    by (simp add: s2_def tbl_get_del)
  have released: "ServeHTTP parse u s1 = ((200, NoBody), s2)" if "lid = li_ID info"
    using that assms(15) by (simp add: unlock handleUnlock_def un Unlock_def holder lockDelete_def tf_simps s2_def dStr_def)
  have again: "ServeHTTP parse u s2 = ((200, NoBody), s2)"
    using assms(15) get2
    by (simp add: unlock handleUnlock_def un Unlock_def lockHolder_def tf_simps s2_def)
  have mismatch: "ServeHTTP parse u s1 = ((409, Message ''lock ID mismatch''), s1)" if "lid \<noteq> li_ID info"
    using that assms(15) by (simp add: unlock handleUnlock_def un Unlock_def holder dStr_def)
  show ?thesis
    using lock held released again mismatch get get2
    by (auto simp: Let_def locked_def row_def)
qed

text \<open>
  the state blob of a workspace is opaque and isolated: a POST of at most 16 MiB answers 200,
  after which GET of that workspace returns exactly those bytes, every other workspace's GET answers
  as before, and DELETE answers 200 once and makes GET answer 404. A larger body answers 400 and
  changes nothing; locks are never changed by these methods.
\<close>

theorem state_roundtrip:
  assumes "tf_faults s = []" "rq_method w = ''POST''" "rq_body w = Some b"
    "rq_method g = ''GET''" "rq_method d = ''DELETE''" "workspaceID d = workspaceID w"
  shows "let s1 = snd (ServeHTTP parse w s); s2 = snd (ServeHTTP parse d s1) in
     (if length b \<le> maxStateBytes
      then fst (ServeHTTP parse w s) = (200, NoBody) \<and>
           fst (ServeHTTP parse g s1) = (if workspaceID g = workspaceID w then (200, Blob b) else fst (ServeHTTP parse g s)) \<and>
           fst (ServeHTTP parse d s1) = (200, NoBody) \<and>
           fst (ServeHTTP parse g s2) = (if workspaceID g = workspaceID w then (404, Message ''no state'')
             else fst (ServeHTTP parse g s)) \<and>
           tf_locks s2 = tf_locks s
      else ServeHTTP parse w s = ((400, Message ''read body''), s))"
proof (cases "length b \<le> maxStateBytes")
  case True
  let ?w = "workspaceID w"
  define row where "row = \<lparr>tfs_id = ?w, tfs_state = b, tfs_updated = tf_clock s\<rparr>"
  define f where "f = (\<lambda>r :: tf_state_row. r\<lparr>tfs_state := b, tfs_updated := tf_clock s\<rparr>)"
  define tbl where "tbl = (case tbl_get tfs_id (tf_state s) ?w of
     None \<Rightarrow> tbl_ins row (tf_state s) | Some _ \<Rightarrow> tbl_upd tfs_id ?w f (tf_state s))"
  have get: "tbl_get tfs_id tbl k = (if k = ?w then Some (case tbl_get tfs_id (tf_state s) ?w of None \<Rightarrow> row | Some x \<Rightarrow> f x)
      else tbl_get tfs_id (tf_state s) k)" for k
    unfolding tbl_def by (rule tf_state_table.upsert_get) (simp_all add: row_def f_def)
  have put: "ServeHTTP parse w s = ((200, NoBody), s\<lparr>tf_state := tbl\<rparr>)"
    using assms True
    by (cases "tbl_get tfs_id (tf_state s) ?w")
      (simp_all add: ServeHTTP_def handleWrite_def PutState_def tf_simps tbl_def row_def f_def)
  have read: "fst (ServeHTTP parse g t) = (case tbl_get tfs_id (tf_state t) (workspaceID g) of
      None \<Rightarrow> (404, Message ''no state'') | Some r \<Rightarrow> (200, Blob (tfs_state r)))" if "tf_faults t = []" for t
    using assms(4) that by (simp add: ServeHTTP_def handleRead_def GetState_def tf_simps split: option.splits)
  have del: "ServeHTTP parse d (s\<lparr>tf_state := tbl\<rparr>) = ((200, NoBody), s\<lparr>tf_state := tbl_del tfs_id ?w tbl\<rparr>)"
    using assms get by (simp add: ServeHTTP_def handleDelete_def DeleteState_def tf_simps)
  have blob: "tfs_state (case tbl_get tfs_id (tf_state s) ?w of None \<Rightarrow> row | Some x \<Rightarrow> f x) = b"
    by (simp add: row_def f_def split: option.splits)
  show ?thesis
    using True assms(1) by (simp add: Let_def put del read get tbl_get_del blob)
next
  case False
  then show ?thesis
    using assms by (simp add: Let_def ServeHTTP_def handleWrite_def)
qed

section \<open>Witnesses\<close>

definition ex_req :: "string \<Rightarrow> string \<Rightarrow> tf_request" where
  "ex_req m b = \<lparr>rq_method = m, rq_ID = ''w'', rq_body = Some b\<rparr>"

definition ex_parse :: "string \<Rightarrow> json option" where
  "ex_parse b = Some (if b = ''u'' then JObj [(''ID'', JStr ''A'')] else enc_lock_info (ex_info b))"

theorem lock_protocol_witness:
  "let s1 = snd (ServeHTTP ex_parse (ex_req ''LOCK'' ''A'') (ex_tf [])) in
   ServeHTTP ex_parse (ex_req ''LOCK'' ''B'') s1 = ((423, Holder (enc_lock_info (ex_info ''A''))), s1) \<and>
   fst (ServeHTTP ex_parse (ex_req ''UNLOCK'' ''u'') s1) = (200, NoBody)"
  using lock_protocol [of "ex_tf []" "ex_req ''LOCK'' ''A''" "''A''" ex_parse "ex_info ''A''" "ex_req ''LOCK'' ''B''"
      "''B''" "ex_info ''B''" "ex_req ''UNLOCK'' ''u''" "''u''" "''A''"]
  by (auto simp: ex_req_def ex_parse_def ex_tf_def locked_def ex_info_def yearOk_def workspaceID_def Let_def)

theorem state_roundtrip_witness:
  "let s1 = snd (ServeHTTP ex_parse (ex_req ''POST'' ''blob'') (ex_tf [])) in
   fst (ServeHTTP ex_parse (ex_req ''GET'' []) s1) = (200, Blob ''blob'')"
  using state_roundtrip [of "ex_tf []" "ex_req ''POST'' ''blob''" "''blob''" "ex_req ''GET'' []" "ex_req ''DELETE'' []" ex_parse]
  by (simp add: ex_req_def ex_tf_def workspaceID_def maxStateBytes_def Let_def)

end
