(* ===== verification/Upgrade.thy ===== *)
theory Upgrade
  imports Store_Props
begin

text \<open>
  Rolling upgrades: \<^verbatim>\<open>internal/upgrade/rolling.go\<close> (the machine order), \<^verbatim>\<open>manager.go\<close> (runs and the
  rolling loop), \<^verbatim>\<open>api.go\<close> (the HTTP handlers) and the Talos adapter \<^verbatim>\<open>talos/upgrader.go\<close>. The
  loop is written against the interface \<open>machine_upgrader\<close> as in the source, a record of three
  operations on the world, and the adapter is one value of that record. The Talos API is outside the
  program: its answers are the functions of \<open>talos_env\<close>, which may depend on how many calls went
  before, and every call is recorded in \<open>uw_calls\<close>.
\<close>

section \<open>Types\<close>

datatype up_phase = PhaseIdle | PhasePreCheck | PhaseUpgrading | PhaseRollback | PhaseComplete | PhaseFailed | PhaseCanceled

fun phase_text :: "up_phase \<Rightarrow> string" where
  "phase_text PhaseIdle = ''idle''"
| "phase_text PhasePreCheck = ''precheck''"
| "phase_text PhaseUpgrading = ''upgrading''"
| "phase_text PhaseRollback = ''rollback''"
| "phase_text PhaseComplete = ''complete''"
| "phase_text PhaseFailed = ''failed''"
| "phase_text PhaseCanceled = ''canceled''"

record up_status =
  up_phase :: string
  up_component :: string
  up_target :: string
  up_current :: string
  up_totalMachines :: int
  up_completed :: int
  up_currentMachine :: string
  up_error :: string

record run_spec =
  rs_tenant :: string
  rs_component :: string
  rs_target :: string
  rs_requestedBy :: string
  rs_startedAt :: gotime

record run_status =
  rst_status :: up_status
  rst_runID :: string
  rst_startedAt :: gotime
  rst_endedAt :: "gotime option"

record run =
  run_metadata :: metadata
  run_spec :: run_spec
  run_status :: run_status

definition enc_run_spec :: "run_spec \<Rightarrow> json" where
  "enc_run_spec x = jobj [(''tenant'', eStr (rs_tenant x)), (''component'', eStr (rs_component x)),
     (''target'', eStr (rs_target x)), (''requestedBy'', oStr (rs_requestedBy x)),
     (''startedAt'', eTime (rs_startedAt x))]"

definition dec_run_spec :: "json \<Rightarrow> run_spec" where
  "dec_run_spec j = \<lparr>rs_tenant = dStr ''tenant'' j, rs_component = dStr ''component'' j,
     rs_target = dStr ''target'' j, rs_requestedBy = dStr ''requestedBy'' j, rs_startedAt = dTime ''startedAt'' j\<rparr>"

text \<open>The embedded \<^verbatim>\<open>Status\<close> is flattened into the object of \<^verbatim>\<open>RunStatus\<close>.\<close>

definition enc_run_status :: "run_status \<Rightarrow> json" where
  "enc_run_status x = (let u = rst_status x in
     jobj [(''phase'', eStr (up_phase u)), (''component'', eStr (up_component u)), (''target'', eStr (up_target u)),
       (''current'', eStr (up_current u)), (''totalMachines'', eInt (up_totalMachines u)),
       (''completed'', eInt (up_completed u)), (''currentMachine'', oStr (up_currentMachine u)),
       (''error'', oStr (up_error u)), (''runId'', eStr (rst_runID x)), (''startedAt'', eTime (rst_startedAt x)),
       (''endedAt'', oTime (rst_endedAt x))])"

definition dec_run_status :: "json \<Rightarrow> run_status" where
  "dec_run_status j = \<lparr>rst_status = \<lparr>up_phase = dStr ''phase'' j, up_component = dStr ''component'' j,
       up_target = dStr ''target'' j, up_current = dStr ''current'' j, up_totalMachines = dInt ''totalMachines'' j,
       up_completed = dInt ''completed'' j, up_currentMachine = dStr ''currentMachine'' j, up_error = dStr ''error'' j\<rparr>,
     rst_runID = dStr ''runId'' j, rst_startedAt = dTime ''startedAt'' j, rst_endedAt = dTimePtr ''endedAt'' j\<rparr>"

section \<open>The world and the machine upgrader\<close>

datatype talos_call =
    CallUpgrade string string
  | CallRollback string
  | CallVersion string
  | CallReboot string
  | CallShutdown string

record up_world =
  uw_store :: store
  uw_running :: "string list"
  uw_calls :: "talos_call list"

record machine_upgrader =
  UpgradeMachine :: "string \<Rightarrow> string \<Rightarrow> up_world \<Rightarrow> (string + unit) \<times> up_world"
  CheckMachineHealth :: "string \<Rightarrow> up_world \<Rightarrow> (string + unit) \<times> up_world"
  RollbackMachine :: "string \<Rightarrow> string \<Rightarrow> up_world \<Rightarrow> (string + unit) \<times> up_world"

definition ListMachinesInOrder :: "string \<Rightarrow> store \<Rightarrow> string list res" where
  "ListMachinesInOrder tn s =
     (case ListMachinesByTenant tn [] s of
        (Inl e, s) \<Rightarrow> (Inl e, s)
      | (Inr (machines, _), s) \<Rightarrow>
          let isCP = (\<lambda>m. mst_role (m_status m) = ''controlplane'') in
          (Inr (map (md_name \<circ> m_metadata) (filter isCP machines) @
                map (md_name \<circ> m_metadata) (filter (\<lambda>m. \<not> isCP m) machines)), s))"

section \<open>Runs\<close>

definition currentVersion :: "tenant_spec \<Rightarrow> string \<Rightarrow> string" where
  "currentVersion spec component = (if component = ''kubernetes'' then ts_kubernetesVersion spec else ts_talosVersion spec)"

text \<open>
  \<^verbatim>\<open>persistStatus\<close> and \<^verbatim>\<open>persistFinal\<close> read the run, replace the status (and the end) and write it
  back; every error is dropped.
\<close>

definition persist :: "string \<Rightarrow> up_status \<Rightarrow> (gotime option \<Rightarrow> gotime option) \<Rightarrow> up_world \<Rightarrow> up_world" where
  "persist runID st ended w =
     (case GetResource ''upgraderun'' runID (uw_store w) of
        (Inl _, s) \<Rightarrow> w\<lparr>uw_store := s\<rparr>
      | (Inr (md, _, j), s) \<Rightarrow>
          if md_name md = [] then w\<lparr>uw_store := s\<rparr>
          else let rs = dec_run_status j; rs' = rs\<lparr>rst_status := st, rst_endedAt := ended (rst_endedAt rs)\<rparr>
               in w\<lparr>uw_store := snd (UpdateStatus ''upgraderun'' runID (enc_run_status rs') s)\<rparr>)"

definition persistStatus :: "string \<Rightarrow> up_status \<Rightarrow> up_world \<Rightarrow> up_world" where
  "persistStatus runID st w = persist runID st (\<lambda>e. e) w"

definition persistFinal :: "string \<Rightarrow> up_status \<Rightarrow> gotime option \<Rightarrow> up_world \<Rightarrow> up_world" where
  "persistFinal runID st endedAt w = persist runID st (\<lambda>_. endedAt) w"

definition zero_status :: up_status where
  "zero_status = \<lparr>up_phase = [], up_component = [], up_target = [], up_current = [], up_totalMachines = 0,
     up_completed = 0, up_currentMachine = [], up_error = []\<rparr>"

definition failRun :: "string \<Rightarrow> string \<Rightarrow> up_world \<Rightarrow> up_world" where
  "failRun runID msg w =
     persistFinal runID (zero_status\<lparr>up_phase := phase_text PhaseFailed, up_error := msg\<rparr>) (Some (clock (uw_store w))) w"

text \<open>
  The loop over the machines; \<open>i\<close> is the index of the first one left and \<open>canceled i\<close> whether the
  context is done when the loop checks it there.
\<close>

fun rollMachines :: "machine_upgrader \<Rightarrow> (nat \<Rightarrow> bool) \<Rightarrow> string \<Rightarrow> string \<Rightarrow> string \<Rightarrow> nat \<Rightarrow> string list \<Rightarrow>
    up_status \<Rightarrow> up_world \<Rightarrow> up_status \<times> up_world" where
  "rollMachines mu canceled runID cur target i [] st w =
     (st\<lparr>up_phase := phase_text PhaseComplete, up_currentMachine := []\<rparr>, w)"
| "rollMachines mu canceled runID cur target i (m # ms) st w =
     (if canceled i
      then (st\<lparr>up_phase := phase_text PhaseCanceled, up_error := ''cancelled by operator''\<rparr>, w)
      else
        let st = st\<lparr>up_currentMachine := m, up_completed := int i\<rparr>; w = persistStatus runID st w in
        (case UpgradeMachine mu m target w of
           (Inl e, w) \<Rightarrow>
             (case RollbackMachine mu m cur w of
                (Inl rb, w) \<Rightarrow> (st\<lparr>up_error := e @ ''; rollback also failed: '' @ rb, up_phase := phase_text PhaseFailed\<rparr>, w)
              | (Inr _, w) \<Rightarrow> (st\<lparr>up_error := e, up_phase := phase_text PhaseFailed\<rparr>, w))
         | (Inr _, w) \<Rightarrow>
             (case CheckMachineHealth mu m w of
                (Inl e, w) \<Rightarrow>
                  (case RollbackMachine mu m cur w of (_, w) \<Rightarrow>
                     (st\<lparr>up_phase := phase_text PhaseFailed,
                         up_error := ''health check failed for '' @ m @ '': '' @ e\<rparr>, w))
              | (Inr _, w) \<Rightarrow>
                  rollMachines mu canceled runID cur target (Suc i) ms (st\<lparr>up_completed := int i + 1\<rparr>) w)))"

definition rollUpgrade :: "machine_upgrader \<Rightarrow> (nat \<Rightarrow> bool) \<Rightarrow> string \<Rightarrow> string \<Rightarrow> string \<Rightarrow> string \<Rightarrow> string \<Rightarrow>
    up_world \<Rightarrow> up_status \<times> up_world" where
  "rollUpgrade mu canceled runID tn cur target component w =
     (let st = zero_status\<lparr>up_phase := phase_text PhasePreCheck, up_component := component, up_target := target,
                up_current := cur\<rparr> in
      if cur = target then (st\<lparr>up_phase := phase_text PhaseComplete\<rparr>, w)
      else (case ListMachinesInOrder tn (uw_store w) of
              (Inl _, s) \<Rightarrow> (st\<lparr>up_phase := phase_text PhaseFailed, up_error := ''list resources''\<rparr>, w\<lparr>uw_store := s\<rparr>)
            | (Inr ms, s) \<Rightarrow>
                let w = w\<lparr>uw_store := s\<rparr> in
                if ms = [] then (st\<lparr>up_phase := phase_text PhaseComplete\<rparr>, w)
                else rollMachines mu canceled runID cur target 0 ms
                       (st\<lparr>up_totalMachines := int (length ms), up_phase := phase_text PhaseUpgrading\<rparr>) w))"

definition executeRun :: "machine_upgrader \<Rightarrow> (nat \<Rightarrow> bool) \<Rightarrow> string \<Rightarrow> string \<Rightarrow> string \<Rightarrow> string \<Rightarrow> string \<Rightarrow>
    up_world \<Rightarrow> up_world" where
  "executeRun mu canceled runID tn component target cur w =
     (let w = persistStatus runID (zero_status\<lparr>up_component := component, up_target := target, up_current := cur,
                up_phase := phase_text PhasePreCheck\<rparr>) w in
      (case rollUpgrade mu canceled runID tn cur target component w of (final, w) \<Rightarrow>
         let w = persistFinal runID (final\<lparr>up_current := cur, up_component := component, up_target := target\<rparr>)
                   (Some (clock (uw_store w))) w
         in w\<lparr>uw_running := filter (\<lambda>r. r \<noteq> runID) (uw_running w)\<rparr>))"

definition RunUpgrade :: "machine_upgrader \<Rightarrow> (nat \<Rightarrow> bool) \<Rightarrow> string \<Rightarrow> string \<Rightarrow> string \<Rightarrow> string \<Rightarrow>
    up_world \<Rightarrow> (string + unit) \<times> up_world" where
  "RunUpgrade mu canceled tn component cur target w =
     (case rollUpgrade mu canceled [] tn cur target component w of (st, w) \<Rightarrow>
        if up_phase st = phase_text PhaseFailed
        then (Inl (''upgrade '' @ component @ '' failed: '' @ up_error st), w)
        else if up_phase st = phase_text PhaseCanceled then (Inl (''upgrade '' @ component @ '' canceled''), w)
        else (Inr (), w))"

text \<open>\<^verbatim>\<open>StartRun\<close> returns the run it records; the goroutine it starts is \<open>executeRun\<close> on the same run.\<close>

definition StartRun :: "string \<Rightarrow> string \<Rightarrow> string \<Rightarrow> string \<Rightarrow> up_world \<Rightarrow> (string + run) \<times> up_world" where
  "StartRun tn component target requestedBy w =
     (if component \<noteq> ''talos'' \<and> component \<noteq> ''kubernetes''
      then (Inl ''component must be talos or kubernetes'', w)
      else if target = [] then (Inl ''target version is required'', w)
      else (case GetTenant tn (uw_store w) of
          (Inl _, s) \<Rightarrow> (Inl ''get tenant'', w\<lparr>uw_store := s\<rparr>)
        | (Inr None, s) \<Rightarrow> (Inl ''tenant not found'', w\<lparr>uw_store := s\<rparr>)
        | (Inr (Some t), s) \<Rightarrow>
            (case ListMachinesByTenant tn [] s of
               (Inl _, s) \<Rightarrow> (Inl ''list machines'', w\<lparr>uw_store := s\<rparr>)
             | (Inr (machines, _), s) \<Rightarrow>
                 if machines = [] then (Inl ''no machines in tenant'', w\<lparr>uw_store := s\<rparr>)
                 else
                   let runID = tn @ ''-'' @ itoa (clock s);
                       spec = \<lparr>rs_tenant = tn, rs_component = component, rs_target = target,
                               rs_requestedBy = requestedBy, rs_startedAt = clock s\<rparr>;
                       st = \<lparr>rst_status = zero_status\<lparr>up_phase := phase_text PhaseUpgrading, up_component := component,
                               up_target := target, up_current := currentVersion (t_spec t) component,
                               up_totalMachines := int (length machines)\<rparr>,
                             rst_runID = runID, rst_startedAt = clock s, rst_endedAt = None\<rparr>
                   in (case CreateResource ''upgraderun'' runID (enc_run_spec spec) (enc_run_status st)
                              [(tenantLabel, tn)] [] s of
                         (Inl _, s) \<Rightarrow> (Inl ''insert resource'', w\<lparr>uw_store := s\<rparr>)
                       | (Inr md, s) \<Rightarrow>
                           (Inr \<lparr>run_metadata = md, run_spec = spec, run_status = st\<rparr>,
                            w\<lparr>uw_store := s, uw_running := runID # uw_running w\<rparr>)))))"

text \<open>\<^verbatim>\<open>CancelRun\<close> looks the run up by its ID alone; the result says whether a run was signalled.\<close>

definition CancelRun :: "string \<Rightarrow> up_world \<Rightarrow> string + unit" where
  "CancelRun runID w = (if runID \<in> set (uw_running w) then Inr () else Inl ''run is not active'')"

definition mk_run :: "metadata \<times> json \<times> json \<Rightarrow> run" where
  "mk_run = (\<lambda>(md, spec, st). \<lparr>run_metadata = md, run_spec = dec_run_spec spec, run_status = dec_run_status st\<rparr>)"

definition GetRun :: "string \<Rightarrow> string \<Rightarrow> store \<Rightarrow> run option res" where
  "GetRun tn runID s =
     (case GetResource ''upgraderun'' runID s of
        (Inl e, s) \<Rightarrow> (if e = ErrNotFound then Inr None else Inl e, s)
      | (Inr (md, spec, st), s) \<Rightarrow>
          if mget (md_labels md) tenantLabel \<noteq> tn then (Inr None, s) else (Inr (Some (mk_run (md, spec, st))), s))"

definition ListRuns :: "string \<Rightarrow> store \<Rightarrow> run list res" where
  "ListRuns tn s =
     (case ListResources ''upgraderun'' (noOptions\<lparr>lo_labelSelector := tenantSelector tn\<rparr>) s of
        (Inl e, s) \<Rightarrow> (Inl e, s)
      | (Inr (items, _), s) \<Rightarrow> (Inr (rev (map mk_run items)), s))"

section \<open>The Talos adapter\<close>

record talos_env =
  te_registry :: string
  te_cache :: "string \<Rightarrow> string option"
  te_open :: "string \<Rightarrow> string \<Rightarrow> bool"
  te_upgrade :: "nat \<Rightarrow> string \<Rightarrow> string \<Rightarrow> bool"
  te_rollback :: "nat \<Rightarrow> string \<Rightarrow> bool"
  te_version :: "nat \<Rightarrow> string \<Rightarrow> string option"
  te_power :: "nat \<Rightarrow> string \<Rightarrow> bool"

definition resolve :: "string \<Rightarrow> store \<Rightarrow> (string + string \<times> string) \<times> store" where
  "resolve machineID s =
     (case GetMachine machineID s of
        (Inl _, s) \<Rightarrow> (Inl ''talos: load machine'', s)
      | (Inr None, s) \<Rightarrow> (Inl ''talos: machine not found'', s)
      | (Inr (Some m), s) \<Rightarrow>
          if ms_managementAddress (m_spec m) = [] then (Inl ''talos: machine has no management address'', s)
          else let tn = mget (md_labels (m_metadata m)) tenantLabel in
            if tn = [] then (Inl ''talos: machine has no tenant label'', s)
            else (Inr (tn, ms_managementAddress (m_spec m)), s))"

text \<open>
  \<^verbatim>\<open>action\<close>: resolve the machine, take the tenant's cached secrets, open a client and call \<open>fn\<close>, which
  is given the number of earlier calls and the address.
\<close>

definition action :: "talos_env \<Rightarrow> string \<Rightarrow> (string \<Rightarrow> talos_call) \<Rightarrow> (nat \<Rightarrow> string \<Rightarrow> string + 'a) \<Rightarrow> up_world \<Rightarrow>
    (string + 'a) \<times> up_world" where
  "action env machineID call fn w =
     (case resolve machineID (uw_store w) of
        (Inl e, s) \<Rightarrow> (Inl e, w\<lparr>uw_store := s\<rparr>)
      | (Inr (tn, addr), s) \<Rightarrow>
          let w = w\<lparr>uw_store := s\<rparr> in
          (case te_cache env tn of
             None \<Rightarrow> (Inl ''talos: no cached secrets bundle'', w)
           | Some bundle \<Rightarrow>
               if \<not> te_open env addr bundle then (Inl ''talos: open client'', w)
               else (fn (length (uw_calls w)) addr, w\<lparr>uw_calls := uw_calls w @ [call addr]\<rparr>)))"

definition normalizeVersionTag :: "string \<Rightarrow> string" where
  "normalizeVersionTag v = (if v = [] then v else if hasPrefix v ''v'' then v else ''v'' @ v)"

definition installerImage :: "string \<Rightarrow> string \<Rightarrow> string" where
  "installerImage registry version = registry @ '':'' @ normalizeVersionTag version"

definition talos_UpgradeMachine :: "talos_env \<Rightarrow> string \<Rightarrow> string \<Rightarrow> up_world \<Rightarrow> (string + unit) \<times> up_world" where
  "talos_UpgradeMachine env machineID targetVersion w =
     (let image = installerImage (te_registry env) targetVersion in
      action env machineID (\<lambda>addr. CallUpgrade addr image)
        (\<lambda>n addr. if te_upgrade env n addr image then Inr () else Inl ''talos: upgrade'') w)"

definition talos_CheckMachineHealth :: "talos_env \<Rightarrow> string \<Rightarrow> up_world \<Rightarrow> (string + unit) \<times> up_world" where
  "talos_CheckMachineHealth env machineID w =
     action env machineID CallVersion
       (\<lambda>n addr. case te_version env n addr of
           None \<Rightarrow> Inl ''talos: version check''
         | Some ver \<Rightarrow> if ver = [] then Inl ''talos: empty version'' else Inr ()) w"

definition MachineVersion :: "talos_env \<Rightarrow> string \<Rightarrow> up_world \<Rightarrow> (string + string) \<times> up_world" where
  "MachineVersion env machineID w =
     action env machineID CallVersion
       (\<lambda>n addr. case te_version env n addr of None \<Rightarrow> Inl ''version'' | Some ver \<Rightarrow> Inr ver) w"

definition talos_RollbackMachine :: "talos_env \<Rightarrow> string \<Rightarrow> string \<Rightarrow> up_world \<Rightarrow> (string + unit) \<times> up_world" where
  "talos_RollbackMachine env machineID previous w =
     action env machineID CallRollback
       (\<lambda>n addr. if te_rollback env n addr then Inr () else Inl ''talos: rollback'') w"

definition Reboot :: "talos_env \<Rightarrow> string \<Rightarrow> up_world \<Rightarrow> (string + unit) \<times> up_world" where
  "Reboot env machineID w =
     action env machineID CallReboot (\<lambda>n addr. if te_power env n addr then Inr () else Inl ''reboot'') w"

definition Shutdown :: "talos_env \<Rightarrow> string \<Rightarrow> up_world \<Rightarrow> (string + unit) \<times> up_world" where
  "Shutdown env machineID w =
     action env machineID CallShutdown (\<lambda>n addr. if te_power env n addr then Inr () else Inl ''shutdown'') w"

definition talos_upgrader :: "talos_env \<Rightarrow> machine_upgrader" where
  "talos_upgrader env = \<lparr>UpgradeMachine = talos_UpgradeMachine env,
     CheckMachineHealth = talos_CheckMachineHealth env, RollbackMachine = talos_RollbackMachine env\<rparr>"

text \<open>The placeholder of \<^verbatim>\<open>rolling.go\<close>: every call succeeds and does nothing.\<close>

definition NoOpMachineUpgrader :: machine_upgrader where
  "NoOpMachineUpgrader = \<lparr>UpgradeMachine = (\<lambda>_ _ w. (Inr (), w)), CheckMachineHealth = (\<lambda>_ w. (Inr (), w)),
     RollbackMachine = (\<lambda>_ _ w. (Inr (), w))\<rparr>"

section \<open>The API\<close>

text \<open>
  A handler's answer: an error with its HTTP code, or one of the JSON bodies. The request body is
  \<open>None\<close> when it does not decode.
\<close>

datatype up_reply =
    UpError nat string
  | UpPreCheck bool "string list" "string list"
  | UpRefused "string list"
  | UpRun nat run
  | UpRuns "run list" nat
  | UpStatus up_status
  | UpNoContent

type_synonym up_request = "(string \<times> string) option"

definition canStart :: "string \<Rightarrow> string \<Rightarrow> string \<Rightarrow> store \<Rightarrow> (bool \<times> string list \<times> string) \<times> store" where
  "canStart tn component version s =
     (case GetResource ''tenant'' tn s of
        (Inl _, s) \<Rightarrow> ((False, [], ''tenant not found''), s)
      | (Inr (md, j, _), s) \<Rightarrow>
          if md_name md = [] then ((False, [], ''tenant not found''), s)
          else
            (case ListResources ''machine'' (noOptions\<lparr>lo_labelSelector := tenantSelector tn\<rparr>) s of (res, s) \<Rightarrow>
               let total = (case res of Inl _ \<Rightarrow> 0 | Inr (_, n) \<Rightarrow> n);
                   reasons = (if total = 0 then [''no machines in tenant''] else []) @
                     (if currentVersion (dec_tenant_spec j) component = version
                      then [''already at version '' @ version] else [])
               in ((reasons = [], reasons, []), s)))"

definition PreCheck :: "string \<Rightarrow> up_request \<Rightarrow> store \<Rightarrow> up_reply \<times> store" where
  "PreCheck tn req s =
     (case req of
        None \<Rightarrow> (UpError 400 ''invalid json'', s)
      | Some (component, version) \<Rightarrow>
          if component \<noteq> ''talos'' \<and> component \<noteq> ''kubernetes''
          then (UpError 400 ''component must be talos or kubernetes'', s)
          else if version = [] then (UpError 400 ''version is required'', s)
          else (case canStart tn component version s of ((ok, reasons, notFound), s) \<Rightarrow>
            if notFound \<noteq> [] then (UpError 404 notFound, s)
            else (case GetResource ''tenant'' tn s of (got, s) \<Rightarrow>
              let spec = dec_tenant_spec (case got of Inl _ \<Rightarrow> JNull | Inr (_, j, _) \<Rightarrow> j);
                  cur = currentVersion spec component
              in (UpPreCheck ok reasons
                    (if cur \<noteq> [] \<and> cur > version then [''downgrade from '' @ cur @ '' to '' @ version] else []), s))))"

definition Start :: "string \<Rightarrow> up_request \<Rightarrow> up_world \<Rightarrow> up_reply \<times> up_world" where
  "Start tn req w =
     (case req of
        None \<Rightarrow> (UpError 400 ''invalid json'', w)
      | Some (component, version) \<Rightarrow>
          if component \<noteq> ''talos'' \<and> component \<noteq> ''kubernetes''
          then (UpError 400 ''component must be talos or kubernetes'', w)
          else if version = [] then (UpError 400 ''version is required'', w)
          else (case canStart tn component version (uw_store w) of ((ok, reasons, notFound), s) \<Rightarrow>
            let w = w\<lparr>uw_store := s\<rparr> in
            if \<not> ok then (if notFound \<noteq> [] then (UpError 404 notFound, w) else (UpRefused reasons, w))
            else (case StartRun tn component version ''api'' w of
                    (Inl e, w) \<Rightarrow> (UpError 400 e, w)
                  | (Inr r, w) \<Rightarrow> (UpRun 201 r, w))))"

definition api_ListRuns :: "string \<Rightarrow> store \<Rightarrow> up_reply \<times> store" where
  "api_ListRuns tn s =
     (case ListRuns tn s of
        (Inl _, s) \<Rightarrow> (UpError 500 ''list resources'', s)
      | (Inr runs, s) \<Rightarrow> (UpRuns runs (length runs), s))"

definition api_GetRun :: "string \<Rightarrow> string \<Rightarrow> store \<Rightarrow> up_reply \<times> store" where
  "api_GetRun tn ident s =
     (case GetRun tn ident s of
        (Inl _, s) \<Rightarrow> (UpError 500 ''get resource'', s)
      | (Inr None, s) \<Rightarrow> (UpError 404 ''upgrade run not found'', s)
      | (Inr (Some r), s) \<Rightarrow> (UpRun 200 r, s))"

text \<open>The path of \<^verbatim>\<open>Cancel\<close> names a tenant, which the handler does not read.\<close>

definition Cancel :: "string \<Rightarrow> string \<Rightarrow> up_world \<Rightarrow> up_reply" where
  "Cancel tn ident w = (case CancelRun ident w of Inl e \<Rightarrow> UpError 400 e | Inr _ \<Rightarrow> UpNoContent)"

definition GetStatus :: "string \<Rightarrow> store \<Rightarrow> up_reply \<times> store" where
  "GetStatus tn s =
     (case GetResource ''tenant'' tn s of
        (Inl _, s) \<Rightarrow> (UpError 404 ''tenant not found'', s)
      | (Inr (md, j, _), s) \<Rightarrow>
          if md_name md = [] then (UpError 404 ''tenant not found'', s)
          else (case ListRuns tn s of (runs, s) \<Rightarrow>
            (UpStatus (case runs of
                 Inr (r # _) \<Rightarrow> rst_status (run_status r)
               | _ \<Rightarrow> zero_status\<lparr>up_phase := phase_text PhaseIdle, up_current := ts_talosVersion (dec_tenant_spec j)\<rparr>), s)))"

end
