(* ===== verification/Upgrade_Props.thy ===== *)
theory Upgrade_Props
  imports Upgrade
begin

text \<open>
  What a rolling upgrade does to the machines: the order it takes them in, the calls it makes, where
  it stops and what it rolls back. The loop's lemmas are proved once from the contract
  \<open>rolling_contract\<close> of a machine upgrader and addr_of the program through the Talos adapter.
\<close>

section \<open>What persisting a run keeps\<close>

definition same_machines :: "store \<Rightarrow> store \<Rightarrow> bool" where
  "same_machines s t \<longleftrightarrow> (\<forall>m. find_row t ''machine'' m = find_row s ''machine'' m) \<and> faults t = faults s"

lemma same_machines_refl [simp]: "same_machines s s"
  by (simp add: same_machines_def)

lemma same_faults: "same_machines s t \<Longrightarrow> faults s = [] \<Longrightarrow> faults t = []"
  by (simp add: same_machines_def)

lemma UpdateStatus_other:
  "faults s = [] \<Longrightarrow> rt \<noteq> ''machine'' \<Longrightarrow> same_machines s (snd (UpdateStatus rt n j s))"
  by (auto simp: same_machines_def UpdateStatus_healthy Let_def tbl_get_upd split: option.splits)

lemma persist_machines:
  "faults (uw_store w) = [] \<Longrightarrow> same_machines (uw_store w) (uw_store (persist runID st e w)) \<and>
     uw_calls (persist runID st e w) = uw_calls w"
  by (auto simp: persist_def GetResource_healthy Let_def UpdateStatus_other split: option.splits)

lemma persistStatus_machines:
  "faults (uw_store w) = [] \<Longrightarrow> same_machines (uw_store w) (uw_store (persistStatus runID st w))"
  "faults (uw_store w) = [] \<Longrightarrow> uw_calls (persistStatus runID st w) = uw_calls w"
  by (simp_all add: persistStatus_def persist_machines)

section \<open>The contract of a machine upgrader\<close>

text \<open>The calls for machines that were upgraded and found healthy.\<close>

definition upgraded_calls :: "(string \<Rightarrow> string option) \<Rightarrow> string \<Rightarrow> string list \<Rightarrow> talos_call list" where
  "upgraded_calls addr img ms = concat (map (\<lambda>m. [CallUpgrade (the (addr m)) img, CallVersion (the (addr m))]) ms)"

lemma upgraded_calls_simps [simp]:
  "upgraded_calls addr img [] = []"
  "upgraded_calls addr img (m # ms) =
     CallUpgrade (the (addr m)) img # CallVersion (the (addr m)) # upgraded_calls addr img ms"
  by (simp_all add: upgraded_calls_def)

text \<open>
  How a loop over \<open>ms\<close> may end after \<open>k\<close> machines: all done; stopped by a cancellation; or failed
  on machine \<open>k\<close>, whose own calls \<open>rest\<close> end with its rollback when it could be reached at all.
\<close>

definition roll_end :: "(nat \<Rightarrow> bool) \<Rightarrow> (string \<Rightarrow> string option) \<Rightarrow> string \<Rightarrow> string list \<Rightarrow> nat \<Rightarrow> string \<Rightarrow>
    talos_call list \<Rightarrow> bool" where
  "roll_end canceled addr img ms k phase rest \<longleftrightarrow>
     (if phase = phase_text PhaseComplete then k = length ms \<and> rest = []
      else if phase = phase_text PhaseCanceled then k < length ms \<and> canceled k \<and> rest = []
      else phase = phase_text PhaseFailed \<and> k < length ms \<and>
        (case addr (ms ! k) of
           None \<Rightarrow> rest = []
         | Some a \<Rightarrow> rest = [CallUpgrade a img, CallRollback a] \<or>
                     rest = [CallUpgrade a img, CallVersion a, CallRollback a]))"

locale rolling_contract =
  fixes mu :: machine_upgrader
    and addr_of :: "store \<Rightarrow> string \<Rightarrow> string option"
    and img :: "string \<Rightarrow> string"
  assumes reach_frame: "faults s = [] \<Longrightarrow> same_machines s t \<Longrightarrow> addr_of t = addr_of s"
    and upgrade_law: "faults (uw_store w) = [] \<Longrightarrow> UpgradeMachine mu m v w = (r, w') \<Longrightarrow>
      (case addr_of (uw_store w) m of None \<Rightarrow> isl r \<and> w' = w
       | Some a \<Rightarrow> w' = w\<lparr>uw_calls := uw_calls w @ [CallUpgrade a (img v)]\<rparr>)"
    and health_law: "faults (uw_store w) = [] \<Longrightarrow> CheckMachineHealth mu m w = (r, w') \<Longrightarrow>
      (case addr_of (uw_store w) m of None \<Rightarrow> isl r \<and> w' = w
       | Some a \<Rightarrow> w' = w\<lparr>uw_calls := uw_calls w @ [CallVersion a]\<rparr>)"
    and rollback_law: "faults (uw_store w) = [] \<Longrightarrow> RollbackMachine mu m v w = (r, w') \<Longrightarrow>
      (case addr_of (uw_store w) m of None \<Rightarrow> isl r \<and> w' = w
       | Some a \<Rightarrow> w' = w\<lparr>uw_calls := uw_calls w @ [CallRollback a]\<rparr>)"
begin

text \<open>One round of the loop on an unreachable and on a reachable machine.\<close>

lemma round_unreachable:
  assumes "faults (uw_store w) = []" "addr_of (uw_store w) m = None" "\<not> canceled i"
    "rollMachines mu canceled runID cur target i (m # ms) st w = (st', w')"
  shows "up_phase st' = phase_text PhaseFailed \<and> up_completed st' = int i \<and> uw_calls w' = uw_calls w"
proof -
  let ?st = "st\<lparr>up_currentMachine := m, up_completed := int i\<rparr>"
  let ?w = "persistStatus runID ?st w"
  have same: "same_machines (uw_store w) (uw_store ?w)"
    by (rule persistStatus_machines(1) [OF assms(1)])
  have f: "faults (uw_store ?w) = []"
    by (rule same_faults [OF same assms(1)])
  have n: "addr_of (uw_store ?w) m = None"
    by (simp add: reach_frame [OF assms(1) same] assms(2))
  obtain e where u: "UpgradeMachine mu m target ?w = (Inl e, ?w)"
    using upgrade_law [OF f] n by (cases "UpgradeMachine mu m target ?w") (fastforce simp: isl_def)
  obtain e' where rb: "RollbackMachine mu m cur ?w = (Inl e', ?w)"
    using rollback_law [OF f] n by (cases "RollbackMachine mu m cur ?w") (fastforce simp: isl_def)
  show ?thesis
    using assms u rb persistStatus_machines(2) [OF assms(1)] by (auto simp: Let_def)
qed

lemma round_reachable:
  assumes "faults (uw_store w) = []" "addr_of (uw_store w) m = Some a" "\<not> canceled i"
    "rollMachines mu canceled runID cur target i (m # ms) st w = (st', w')"
  shows "(up_phase st' = phase_text PhaseFailed \<and> up_completed st' = int i \<and>
           (uw_calls w' = uw_calls w @ [CallUpgrade a (img target), CallRollback a] \<or>
            uw_calls w' = uw_calls w @ [CallUpgrade a (img target), CallVersion a, CallRollback a])) \<or>
         (\<exists>st1 w1. rollMachines mu canceled runID cur target (Suc i) ms st1 w1 = (st', w') \<and>
            up_completed st1 = int (Suc i) \<and> same_machines (uw_store w) (uw_store w1) \<and>
            uw_calls w1 = uw_calls w @ [CallUpgrade a (img target), CallVersion a])"
proof -
  let ?st = "st\<lparr>up_currentMachine := m, up_completed := int i\<rparr>"
  define w0 where "w0 = persistStatus runID ?st w"
  have same: "same_machines (uw_store w) (uw_store w0)" and calls: "uw_calls w0 = uw_calls w"
    using persistStatus_machines [OF assms(1)] by (simp_all add: w0_def)
  have f: "faults (uw_store w0) = []"
    by (rule same_faults [OF same assms(1)])
  have n: "addr_of (uw_store w0) m = Some a"
    by (simp add: reach_frame [OF assms(1) same] assms(2))
  define w1 where "w1 = w0\<lparr>uw_calls := uw_calls w0 @ [CallUpgrade a (img target)]\<rparr>"
  define w2 where "w2 = w1\<lparr>uw_calls := uw_calls w1 @ [CallVersion a]\<rparr>"
  have f1: "faults (uw_store w1) = []" "addr_of (uw_store w1) m = Some a"
    and f2: "faults (uw_store w2) = []" "addr_of (uw_store w2) m = Some a"
    using f n by (simp_all add: w1_def w2_def)
  obtain ru where u: "UpgradeMachine mu m target w0 = (ru, w1)"
    using upgrade_law [OF f] n by (cases "UpgradeMachine mu m target w0") (fastforce simp: w1_def)
  obtain rh where h: "CheckMachineHealth mu m w1 = (rh, w2)"
    using health_law [OF f1(1)] f1(2) by (cases "CheckMachineHealth mu m w1") (fastforce simp: w2_def)
  obtain r1 where rb1: "RollbackMachine mu m cur w1 = (r1, w1\<lparr>uw_calls := uw_calls w1 @ [CallRollback a]\<rparr>)"
    using rollback_law [OF f1(1)] f1(2) by (cases "RollbackMachine mu m cur w1") fastforce
  obtain r2 where rb2: "RollbackMachine mu m cur w2 = (r2, w2\<lparr>uw_calls := uw_calls w2 @ [CallRollback a]\<rparr>)"
    using rollback_law [OF f2(1)] f2(2) by (cases "RollbackMachine mu m cur w2") fastforce
  show ?thesis
  proof (cases ru)
    case (Inl e)
    then show ?thesis
      using assms(3,4) u rb1 calls by (cases r1) (auto simp: Let_def w0_def [symmetric] w1_def)
  next
    case ok: (Inr _)
    show ?thesis
    proof (cases rh)
      case (Inl e)
      then show ?thesis
        using assms(3,4) u h rb2 calls ok by (auto simp: Let_def w0_def [symmetric] w1_def w2_def)
    next
      case (Inr _)
      then have "rollMachines mu canceled runID cur target (Suc i) ms (?st\<lparr>up_completed := int i + 1\<rparr>) w2 = (st', w')"
        using assms(3,4) u h ok by (simp add: Let_def w0_def [symmetric])
      moreover have "uw_calls w2 = uw_calls w @ [CallUpgrade a (img target), CallVersion a]"
        "same_machines (uw_store w) (uw_store w2)"
        using calls same by (simp_all add: w1_def w2_def)
      ultimately show ?thesis
        by (intro disjI2 exI [of _ "?st\<lparr>up_completed := int i + 1\<rparr>"] exI [of _ w2]) simp
    qed
  qed
qed

lemma roll_calls:
  assumes "faults (uw_store w) = []" "up_completed st = int i"
    "rollMachines mu canceled runID cur target i ms st w = (st', w')"
  shows "\<exists>k rest. roll_end (\<lambda>j. canceled (i + j)) (addr_of (uw_store w)) (img target) ms k (up_phase st') rest \<and>
     up_completed st' = int (i + k) \<and>
     uw_calls w' = uw_calls w @ upgraded_calls (addr_of (uw_store w)) (img target) (take k ms) @ rest"
  using assms
proof (induction ms arbitrary: i st w)
  case Nil
  then show ?case
    by (auto simp: roll_end_def)
next
  case (Cons m ms)
  let ?R = "addr_of (uw_store w)"
  consider (c) "canceled i" | (u) "\<not> canceled i" "?R m = None" | (r) a where "\<not> canceled i" "?R m = Some a"
    by fastforce
  then show ?case
  proof cases
    case c
    then show ?thesis
      using Cons.prems by (intro exI [of _ 0] exI [of _ "[]"]) (auto simp: roll_end_def)
  next
    case u
    then show ?thesis
      using round_unreachable [OF Cons.prems(1) u(2) _ Cons.prems(3)]
      by (intro exI [of _ 0] exI [of _ "[]"]) (auto simp: roll_end_def)
  next
    case r
    from round_reachable [where canceled = canceled, OF Cons.prems(1) r(2) r(1) Cons.prems(3)] show ?thesis
    proof (elim disjE exE conjE)
      fix st1 w1
      assume run: "rollMachines mu canceled runID cur target (Suc i) ms st1 w1 = (st', w')"
        and st1: "up_completed st1 = int (Suc i)" and same: "same_machines (uw_store w) (uw_store w1)"
        and calls: "uw_calls w1 = uw_calls w @ [CallUpgrade a (img target), CallVersion a]"
      have f: "faults (uw_store w1) = []"
        by (rule same_faults [OF same Cons.prems(1)])
      have R: "addr_of (uw_store w1) = ?R"
        by (rule reach_frame [OF Cons.prems(1) same])
      obtain k rest where k: "roll_end (\<lambda>j. canceled (Suc i + j)) ?R (img target) ms k (up_phase st') rest"
        "up_completed st' = int (Suc i + k)"
        "uw_calls w' = uw_calls w1 @ upgraded_calls ?R (img target) (take k ms) @ rest"
        using Cons.IH [OF f st1 run] by (auto simp: R)
      then show ?thesis
        using calls r(2) by (intro exI [of _ "Suc k"] exI [of _ rest]) (auto simp: roll_end_def)
    next
      assume "up_phase st' = phase_text PhaseFailed" "up_completed st' = int i"
        "uw_calls w' = uw_calls w @ [CallUpgrade a (img target), CallRollback a]"
      then show ?thesis
        using r(2) by (intro exI [of _ 0]) (auto simp: roll_end_def)
    next
      assume "up_phase st' = phase_text PhaseFailed" "up_completed st' = int i"
        "uw_calls w' = uw_calls w @ [CallUpgrade a (img target), CallVersion a, CallRollback a]"
      then show ?thesis
        using r(2) by (intro exI [of _ 0]) (auto simp: roll_end_def)
    qed
  qed
qed

text \<open>Whatever of the store persisting a status keeps, the whole loop keeps.\<close>

lemma op_store:
  assumes "faults (uw_store w) = []"
  shows "uw_store (snd (UpgradeMachine mu m v w)) = uw_store w" "uw_running (snd (UpgradeMachine mu m v w)) = uw_running w"
    "uw_store (snd (CheckMachineHealth mu m w)) = uw_store w" "uw_running (snd (CheckMachineHealth mu m w)) = uw_running w"
    "uw_store (snd (RollbackMachine mu m v w)) = uw_store w" "uw_running (snd (RollbackMachine mu m v w)) = uw_running w"
  using upgrade_law [OF assms, of m v "fst (UpgradeMachine mu m v w)" "snd (UpgradeMachine mu m v w)"]
    health_law [OF assms, of m "fst (CheckMachineHealth mu m w)" "snd (CheckMachineHealth mu m w)"]
    rollback_law [OF assms, of m v "fst (RollbackMachine mu m v w)" "snd (RollbackMachine mu m v w)"]
  by (auto split: option.splits)

lemma roll_keeps:
  assumes keeps: "\<And>st w. Q w \<Longrightarrow> Q (persistStatus runID st w)"
    and calls: "\<And>w w'. Q w \<Longrightarrow> uw_store w' = uw_store w \<Longrightarrow> uw_running w' = uw_running w \<Longrightarrow> Q w'"
    and healthy: "\<And>w. Q w \<Longrightarrow> faults (uw_store w) = []"
  shows "Q w \<Longrightarrow> Q (snd (rollMachines mu canceled runID cur target i ms st w))"
proof (induction ms arbitrary: i st w)
  case (Cons m ms)
  let ?st = "st\<lparr>up_currentMachine := m, up_completed := int i\<rparr>"
  define w0 where "w0 = persistStatus runID ?st w"
  have ops: "Q (snd (UpgradeMachine mu m v x))" "Q (snd (CheckMachineHealth mu m x))"
    "Q (snd (RollbackMachine mu m v x))" if "Q x" for x v
    using calls [OF that] op_store [OF healthy [OF that]] by blast+
  have "Q w0"
    unfolding w0_def using keeps Cons.prems by blast
  then have u: "Q w1" if "UpgradeMachine mu m target w0 = (r, w1)" for r w1
    using ops(1) [of w0 target] that by simp
  have h: "Q w2" if "CheckMachineHealth mu m w1 = (r, w2)" "Q w1" for r w1 w2
    using ops(2) [OF that(2)] that(1) by simp
  have rb: "Q w2" if "RollbackMachine mu m cur w1 = (r, w2)" "Q w1" for r w1 w2
    using ops(3) [OF that(2), of cur] that(1) by simp
  show ?case
    using Cons.prems Cons.IH u h rb
    by (auto simp: Let_def w0_def [symmetric] split: prod.splits sum.splits)
qed simp

end

section \<open>The Talos adapter meets the contract\<close>

text \<open>The address at which the adapter reaches a machine, if it gets as far as calling it.\<close>

definition reachable :: "talos_env \<Rightarrow> store \<Rightarrow> string \<Rightarrow> string option" where
  "reachable env s m =
     (case find_row s ''machine'' m of
        None \<Rightarrow> None
      | Some r \<Rightarrow>
          let addr = ms_managementAddress (dec_machine_spec (r_spec r)); tn = mget (r_labels r) tenantLabel in
          if addr = [] \<or> tn = [] then None
          else (case te_cache env tn of
                  None \<Rightarrow> None
                | Some bundle \<Rightarrow> if te_open env addr bundle then Some addr else None))"

lemma resolve_healthy:
  "faults s = [] \<Longrightarrow> \<exists>res. resolve m s = (res, s) \<and>
     (case find_row s ''machine'' m of
        None \<Rightarrow> isl res
      | Some r \<Rightarrow>
          let addr = ms_managementAddress (dec_machine_spec (r_spec r)); tn = mget (r_labels r) tenantLabel in
          if addr = [] \<or> tn = [] then isl res else res = Inr (tn, addr))"
  by (auto simp: resolve_def GetMachine_def GetResource_healthy mk_machine_def meta_of_def Let_def split: option.splits)

lemma action_healthy:
  assumes "faults (uw_store w) = []"
  shows "case reachable env (uw_store w) m of
      None \<Rightarrow> \<exists>e. action env m call fn w = (Inl e, w)
    | Some a \<Rightarrow> action env m call fn w = (fn (length (uw_calls w)) a, w\<lparr>uw_calls := uw_calls w @ [call a]\<rparr>)"
proof -
  obtain res where res: "resolve m (uw_store w) = (res, uw_store w)"
    "case find_row (uw_store w) ''machine'' m of
        None \<Rightarrow> isl res
      | Some r \<Rightarrow>
          let addr = ms_managementAddress (dec_machine_spec (r_spec r)); tn = mget (r_labels r) tenantLabel in
          if addr = [] \<or> tn = [] then isl res else res = Inr (tn, addr)"
    using resolve_healthy [OF assms] by blast
  show ?thesis
    using res by (cases res) (auto simp: action_def reachable_def Let_def split: option.splits if_splits)
qed

lemma action_result:
  assumes "faults (uw_store w) = []" "action env m call fn w = (r, w')"
  shows "case reachable env (uw_store w) m of None \<Rightarrow> isl r \<and> w' = w
    | Some a \<Rightarrow> w' = w\<lparr>uw_calls := uw_calls w @ [call a]\<rparr>"
  using action_healthy [OF assms(1), of env m call fn] assms(2) by (auto split: option.splits)

interpretation talos: rolling_contract "talos_upgrader env" "reachable env" "installerImage (te_registry env)" for env
proof unfold_locales
  show "reachable env t = reachable env s" if "same_machines s t" for s t
    using that by (simp add: fun_eq_iff reachable_def same_machines_def)
  show "case reachable env (uw_store w) m of None \<Rightarrow> isl r \<and> w' = w
      | Some a \<Rightarrow> w' = w\<lparr>uw_calls := uw_calls w @ [CallUpgrade a (installerImage (te_registry env) v)]\<rparr>"
    if "faults (uw_store w) = []" "UpgradeMachine (talos_upgrader env) m v w = (r, w')" for w m v r w'
    by (rule action_result [OF that(1)]) (use that(2) in \<open>simp add: talos_upgrader_def talos_UpgradeMachine_def Let_def\<close>)
  show "case reachable env (uw_store w) m of None \<Rightarrow> isl r \<and> w' = w
      | Some a \<Rightarrow> w' = w\<lparr>uw_calls := uw_calls w @ [CallVersion a]\<rparr>"
    if "faults (uw_store w) = []" "CheckMachineHealth (talos_upgrader env) m w = (r, w')" for w m r w'
    by (rule action_result [OF that(1)]) (use that(2) in \<open>simp add: talos_upgrader_def talos_CheckMachineHealth_def\<close>)
  show "case reachable env (uw_store w) m of None \<Rightarrow> isl r \<and> w' = w
      | Some a \<Rightarrow> w' = w\<lparr>uw_calls := uw_calls w @ [CallRollback a]\<rparr>"
    if "faults (uw_store w) = []" "RollbackMachine (talos_upgrader env) m v w = (r, w')" for w m v r w'
    by (rule action_result [OF that(1)]) (use that(2) in \<open>simp add: talos_upgrader_def talos_RollbackMachine_def\<close>)
qed

section \<open>Properties\<close>

text \<open>The live machines of a tenant in name order.\<close>

definition tenant_machines :: "string \<Rightarrow> store \<Rightarrow> row list" where
  "tenant_machines tn s = sort_key r_name (filter (\<lambda>r. r_type r = ''machine'' \<and> r_deleted r = None \<and>
     has_tenant tn (r_labels r)) (resources s))"

definition is_cp :: "row \<Rightarrow> bool" where
  "is_cp r \<longleftrightarrow> mst_role (dec_machine_status (r_status r)) = ''controlplane''"

lemma upgrade_order_page:
  assumes "faults s = []" "extract_ok (engine s)"
  shows "ListMachinesInOrder tn s =
    (Inr (let page = take 50 (tenant_machines tn s)
          in map r_name (filter is_cp page) @ map r_name (filter (\<lambda>r. \<not> is_cp r) page)), s)"
proof -
  have "listed ''machine'' (tenantSelector tn) s =
      filter (\<lambda>r. r_type r = ''machine'' \<and> r_deleted r = None \<and> has_tenant tn (r_labels r)) (resources s)"
    by (simp only: listed_def selects_tenant [OF assms(2)])
  then show ?thesis
    using assms(1)
    by (simp add: ListMachinesInOrder_def ListMachinesByTenant_def ListMachines_def newListOptions_def
        WithLabelSelector_def ListResources_healthy page_def tenant_machines_def filter_map comp_def mk_machine_def
        meta_of_def is_cp_def [abs_def] Let_def)
qed

lemma upgrade_order_tenant:
  assumes "faults s = []" "extract_ok (engine s)" "store_inv s" "ListMachinesInOrder tn s = (Inr ms, s')"
  shows "s' = s \<and> (\<forall>m\<in>set ms. \<exists>r. find_row s ''machine'' m = Some r \<and> has_tenant tn (r_labels r))"
proof -
  have wf: "tbl_wf row_key (resources s)"
    using assms(3) by (simp add: store_inv_def)
  have "\<exists>r\<in>set (take 50 (tenant_machines tn s)). r_name r = m" if "m \<in> set ms" for m
    using upgrade_order_page [OF assms(1,2), of tn] assms(4) that by (auto simp: Let_def)
  then have "\<exists>r\<in>set (resources s). r_type r = ''machine'' \<and> r_name r = m \<and> has_tenant tn (r_labels r)"
    if "m \<in> set ms" for m
    using that by (fastforce simp: tenant_machines_def dest: in_set_takeD)
  then show ?thesis
    using upgrade_order_page [OF assms(1,2), of tn] assms(4) tbl_get_Some [OF wf] by auto
qed

text \<open>
  the upgrade order: the control planes first, then the other machines, each group in name
  order; but only the first fifty of the tenant's machines in name order are in it, because the list
  is read through the default page.
\<close>

theorem upgrade_order:
  assumes "faults s = []" "extract_ok (engine s)"
  shows "ListMachinesInOrder tn s =
    (Inr (let page = take 50 (tenant_machines tn s)
          in map r_name (filter is_cp page) @ map r_name (filter (\<lambda>r. \<not> is_cp r) page)), s)"
  using assms by (rule upgrade_order_page)


lemma dec_enc_run_status [simp]: "dec_run_status (enc_run_status x) = x"
  by (cases x, cases "rst_status x") (simp add: dec_run_status_def enc_run_status_def Let_def json_simps)

text \<open>A run's record while it is being executed: the row, with what no update of its status changes.\<close>

definition run_row :: "string \<Rightarrow> row \<Rightarrow> gotime \<Rightarrow> string list \<Rightarrow> up_world \<Rightarrow> bool" where
  "run_row runID r now running w \<longleftrightarrow> faults (uw_store w) = [] \<and> clock (uw_store w) = now \<and> uw_running w = running \<and>
     (\<exists>q. find_row (uw_store w) ''upgraderun'' runID = Some q \<and> r_labels q = r_labels r \<and> r_spec q = r_spec r \<and>
        rst_runID (dec_run_status (r_status q)) = rst_runID (dec_run_status (r_status r)) \<and>
        rst_startedAt (dec_run_status (r_status q)) = rst_startedAt (dec_run_status (r_status r)))"

lemma persist_row:
  assumes "run_row runID r now running w" "runID \<noteq> []"
  shows "run_row runID r now running (persist runID st e w)"
    and "\<exists>q. find_row (uw_store (persist runID st e w)) ''upgraderun'' runID = Some q \<and>
       rst_status (dec_run_status (r_status q)) = st \<and>
       (\<exists>old. rst_endedAt (dec_run_status (r_status q)) = e old)"
proof -
  obtain q where f: "faults (uw_store w) = []" and q: "find_row (uw_store w) ''upgraderun'' runID = Some q"
    using assms(1) by (auto simp: run_row_def)
  have n: "r_name q \<noteq> []"
    using find_row_key [OF q] assms(2) by simp
  note eqs = persist_def GetResource_healthy [OF f] UpdateStatus_healthy [OF f] meta_of_def q n Let_def
  show "run_row runID r now running (persist runID st e w)"
    using assms(1) q by (simp add: eqs run_row_def tbl_get_upd)
  show "\<exists>q. find_row (uw_store (persist runID st e w)) ''upgraderun'' runID = Some q \<and>
       rst_status (dec_run_status (r_status q)) = st \<and>
       (\<exists>old. rst_endedAt (dec_run_status (r_status q)) = e old)"
    using q by (auto simp: eqs tbl_get_upd)
qed

abbreviation terminal_phases :: "string set" where
  "terminal_phases \<equiv> {phase_text PhaseComplete, phase_text PhaseFailed, phase_text PhaseCanceled}"

lemma rollMachines_phase: "up_phase (fst (rollMachines mu canceled runID cur target i ms st w)) \<in> terminal_phases"
  by (induction ms arbitrary: i st w) (auto simp: Let_def split: prod.splits sum.splits)

lemma rollUpgrade_phase: "up_phase (fst (rollUpgrade mu canceled runID tn cur target component w)) \<in> terminal_phases"
  using rollMachines_phase
  by (simp add: rollUpgrade_def Let_def split: prod.splits sum.splits del: phase_text.simps)

lemma rollUpgrade_row:
  assumes "run_row runID r now running w" "runID \<noteq> []"
  shows "run_row runID r now running (snd (rollUpgrade (talos_upgrader env) canceled runID tn cur target component w))"
proof -
  have f: "faults (uw_store w) = []"
    using assms(1) by (simp add: run_row_def)
  obtain ms where ms: "ListMachinesInOrder tn (uw_store w) = (Inr ms, uw_store w)"
    using f by (auto simp: ListMachinesInOrder_def ListMachinesByTenant_def ListMachines_def newListOptions_def
        WithLabelSelector_def ListResources_healthy Let_def)
  have "run_row runID r now running (snd (rollMachines (talos_upgrader env) canceled runID cur target i ms st w))" for i st
    by (rule talos.roll_keeps [where Q = "run_row runID r now running"])
      (use assms persist_row(1) in \<open>auto simp: persistStatus_def run_row_def\<close>)
  then show ?thesis
    using assms(1) ms by (simp add: rollUpgrade_def Let_def)
qed

text \<open>
  every run ends: executing a recorded run over the Talos adapter leaves its record with a
  terminal phase and an end time, keeps the tenant label, the spec, the ID and the start it was
  created with, and takes the run, and only that run, out of the set of active runs.
\<close>

theorem executeRun_ends:
  assumes "faults (uw_store w) = []" "find_row (uw_store w) ''upgraderun'' runID = Some r" "runID \<noteq> []"
  shows "let w' = executeRun (talos_upgrader env) canceled runID tn component target cur w in
     \<exists>q. find_row (uw_store w') ''upgraderun'' runID = Some q \<and>
       up_phase (rst_status (dec_run_status (r_status q))) \<in> {''complete'', ''failed'', ''canceled''} \<and>
       rst_endedAt (dec_run_status (r_status q)) = Some (clock (uw_store w)) \<and>
       r_labels q = r_labels r \<and> r_spec q = r_spec r \<and>
       rst_runID (dec_run_status (r_status q)) = rst_runID (dec_run_status (r_status r)) \<and>
       rst_startedAt (dec_run_status (r_status q)) = rst_startedAt (dec_run_status (r_status r)) \<and>
       set (uw_running w') = set (uw_running w) - {runID}"
proof -
  let ?row = "run_row runID r (clock (uw_store w)) (uw_running w)"
  let ?pre = "zero_status\<lparr>up_component := component, up_target := target, up_current := cur,
    up_phase := phase_text PhasePreCheck\<rparr>"
  obtain final w1 where w1: "rollUpgrade (talos_upgrader env) canceled runID tn cur target component
      (persistStatus runID ?pre w) = (final, w1)"
    by (metis surj_pair)
  let ?st = "final\<lparr>up_current := cur, up_component := component, up_target := target\<rparr>"
  let ?w2 = "persistFinal runID ?st (Some (clock (uw_store w1))) w1"
  have "?row w"
    using assms by (simp add: run_row_def)
  then have "?row (persistStatus runID ?pre w)"
    unfolding persistStatus_def using persist_row(1) assms(3) by blast
  then have row1: "?row w1"
    using rollUpgrade_row [of runID r _ _ "persistStatus runID ?pre w" env canceled tn cur target component] assms(3) w1
    by simp
  have row2: "?row ?w2"
    unfolding persistFinal_def by (rule persist_row(1) [OF row1 assms(3)])
  have phase: "up_phase final \<in> terminal_phases"
    using rollUpgrade_phase [of "talos_upgrader env" canceled runID tn cur target component "persistStatus runID ?pre w"]
    unfolding w1 fst_conv .
  obtain q where q: "find_row (uw_store ?w2) ''upgraderun'' runID = Some q"
    "rst_status (dec_run_status (r_status q)) = ?st" "rst_endedAt (dec_run_status (r_status q)) = Some (clock (uw_store w1))"
    using persist_row(2) [OF row1 assms(3)] unfolding persistFinal_def by blast
  have w': "executeRun (talos_upgrader env) canceled runID tn component target cur w =
      ?w2\<lparr>uw_running := filter (\<lambda>r. r \<noteq> runID) (uw_running ?w2)\<rparr>"
    unfolding executeRun_def Let_def w1 by simp
  show ?thesis
    unfolding w' Let_def using q row1 row2 phase by (auto simp: run_row_def)
qed

section \<open>Witnesses\<close>

definition ex_up_store :: store where
  "ex_up_store = ex_store\<lparr>resources := [ex_row ''tenant'' ''acme'' [],
     (ex_row ''machine'' ''m1'' [(tenantLabel, ''acme'')])\<lparr>r_spec := JObj [(''managementAddress'', JStr ''a1'')]\<rparr>,
     ex_row ''machine'' ''m2'' [(tenantLabel, ''b'')], ex_row ''upgraderun'' ''r'' [(tenantLabel, ''acme'')]]\<rparr>"

definition ex_world :: up_world where
  "ex_world = \<lparr>uw_store = ex_up_store, uw_running = [''r''], uw_calls = []\<rparr>"

definition ex_talos :: talos_env where
  "ex_talos = \<lparr>te_registry = ''reg'', te_cache = (\<lambda>_. Some []), te_open = (\<lambda>_ _. True), te_upgrade = (\<lambda>_ _ _. True),
     te_rollback = (\<lambda>_ _. True), te_version = (\<lambda>_ _. Some ''v2''), te_power = (\<lambda>_ _. True)\<rparr>"

lemma ex_up_fields [simp]:
  "faults ex_up_store = []" "engine ex_up_store = ex_engine" "uw_store ex_world = ex_up_store"
  "clock ex_up_store = 5" "uw_running ex_world = [''r'']" "uw_calls ex_world = []"
  by (simp_all add: ex_up_store_def ex_world_def)

lemma ex_up_inv: "store_inv ex_up_store"
  by (simp add: ex_up_store_def store_inv_def tbl_wf_def row_ok_def) (simp add: ex_store_def)

lemma ex_up_order: "ListMachinesInOrder ''acme'' ex_up_store = (Inr [''m1''], ex_up_store)"
proof -
  have "tenant_machines ''acme'' ex_up_store =
      [(ex_row ''machine'' ''m1'' [(tenantLabel, ''acme'')])\<lparr>r_spec := JObj [(''managementAddress'', JStr ''a1'')]\<rparr>]"
    by (simp add: tenant_machines_def ex_up_store_def has_tenant_def)
  then show ?thesis
    by (simp add: upgrade_order_page ex_engine_ok Let_def)
qed

theorem upgrade_order_witness:
  "ListMachinesInOrder ''b'' ex_up_store = (Inr [''m2''], ex_up_store)"
proof -
  have "tenant_machines ''b'' ex_up_store = [ex_row ''machine'' ''m2'' [(tenantLabel, ''b'')]]"
    by (simp add: tenant_machines_def ex_up_store_def has_tenant_def)
  then show ?thesis
    using upgrade_order [of ex_up_store "''b''"] ex_engine_ok by (simp add: Let_def)
qed


theorem executeRun_ends_witness:
  "let w' = executeRun (talos_upgrader ex_talos) (\<lambda>_. False) ''r'' ''acme'' ''talos'' ''2'' ''1'' ex_world in
     \<exists>q. find_row (uw_store w') ''upgraderun'' ''r'' = Some q \<and>
       rst_endedAt (dec_run_status (r_status q)) = Some 5 \<and> set (uw_running w') = {}"
  using executeRun_ends [of ex_world "''r''" "ex_row ''upgraderun'' ''r'' [(tenantLabel, ''acme'')]" ex_talos "\<lambda>_. False"
      "''acme''" "''talos''" "''2''" "''1''"]
  by (auto simp: Let_def ex_up_store_def)

end
