(* ===== verification/Auth.thy ===== *)
theory Auth
  imports Store_Props
begin

text \<open>
  Authentication and authorization, \<^verbatim>\<open>internal/auth\<close>: JSON web tokens (\<^verbatim>\<open>jwt.go\<close>), the middleware
  (\<^verbatim>\<open>middleware.go\<close>, \<^verbatim>\<open>store_verifier.go\<close>), login (\<^verbatim>\<open>handlers.go\<close>), user management
  (\<^verbatim>\<open>users.go\<close>) and API tokens (\<^verbatim>\<open>apitokens.go\<close>), with the part of \<^verbatim>\<open>internal/api/router.go\<close> that puts
  them behind the middleware. The JWT package, bcrypt, SHA-256 and the random source are fields of
  \<open>auth_env\<close>.
\<close>

section \<open>Types\<close>

abbreviation "RoleView \<equiv> ''view''"
abbreviation "RoleEdit \<equiv> ''edit''"
abbreviation "RoleAdmin \<equiv> ''admin''"

abbreviation DefaultTokenExpiry :: gotime where "DefaultTokenExpiry \<equiv> 24 * hour"

definition ValidRoles :: "string \<Rightarrow> bool" where
  "ValidRoles r \<longleftrightarrow> r \<in> {RoleView, RoleEdit, RoleAdmin}"

text \<open>The claims, with their numeric dates in seconds.\<close>

record claims =
  cl_issuer :: string
  cl_username :: string
  cl_role :: string
  cl_expiresAt :: int
  cl_issuedAt :: int

datatype jwt_result = JwtOk claims | JwtExpired | JwtInvalid

text \<open>
  \<open>jwt_sign\<close> is \<^verbatim>\<open>SignedString\<close> with HS256 (\<open>None\<close> on an error) and \<open>jwt_parse\<close> is
  \<^verbatim>\<open>ParseWithClaims\<close> at a time, restricted to HMAC methods by the key function.
\<close>

record auth_env =
  ae_secret :: string
  jwt_sign :: "string \<Rightarrow> claims \<Rightarrow> string option"
  jwt_parse :: "string \<Rightarrow> gotime \<Rightarrow> string \<Rightarrow> jwt_result"
  sha256 :: "string \<Rightarrow> nat list"
  bcrypt_hash :: "string \<Rightarrow> string option"
  bcrypt_check :: "string \<Rightarrow> string \<Rightarrow> bool"
  rand_read :: "nat list option"

record token_pair =
  tp_accessToken :: string
  tp_expiresAt :: int
  tp_tokenType :: string

record user_response =
  ur_metadata :: metadata
  ur_role :: string
  ur_status :: user_status

record token_response =
  tr_id :: string
  tr_userName :: string
  tr_role :: string
  tr_expiresAt :: "int option"
  tr_createdAt :: int
  tr_lastUsed :: "int option"

datatype auth_reply =
    AErr nat string
  | ANoContent
  | ALogin token_pair string string
  | AWhoami string string
  | AUser nat user_response
  | AUsers "user_response list" nat
  | AToken token_response
  | ANewToken token_response string
  | ATokens "token_response list" nat

text \<open>The caller the middleware puts into the request context: user name and role.\<close>

type_synonym auth_ctx = "string \<times> string"

section \<open>JSON web tokens\<close>

definition unixSeconds :: "gotime \<Rightarrow> int" where
  "unixSeconds t = t div second"

definition GenerateToken :: "auth_env \<Rightarrow> user \<Rightarrow> gotime \<Rightarrow> gotime \<Rightarrow> token_pair option" where
  "GenerateToken env u expiry now =
     (if \<not> ValidRoles (us_role (u_spec u)) then None
      else let expiresAt = now + expiry in
        map_option (\<lambda>t. \<lparr>tp_accessToken = t, tp_expiresAt = unixSeconds expiresAt, tp_tokenType = ''Bearer''\<rparr>)
          (jwt_sign env (ae_secret env)
             \<lparr>cl_issuer = ''rezuscloud'', cl_username = md_name (u_metadata u), cl_role = us_role (u_spec u),
              cl_expiresAt = unixSeconds expiresAt, cl_issuedAt = unixSeconds now\<rparr>))"

definition ValidateToken :: "auth_env \<Rightarrow> string \<Rightarrow> gotime \<Rightarrow> jwt_result" where
  "ValidateToken env tok now = jwt_parse env (ae_secret env) now tok"

section \<open>API tokens\<close>

text \<open>\<^verbatim>\<open>hex.EncodeToString\<close>\<close>

definition hexEncode :: "nat list \<Rightarrow> string" where
  "hexEncode bs = concat (map (\<lambda>b. [digitChar (b div 16), digitChar (b mod 16)]) bs)"

definition HashAPIToken :: "auth_env \<Rightarrow> string \<Rightarrow> string" where
  "HashAPIToken env plaintext = hexEncode (sha256 env plaintext)"

definition GenerateAPIToken :: "auth_env \<Rightarrow> (string \<times> string \<times> string) option" where
  "GenerateAPIToken env =
     map_option (\<lambda>buf. let plaintext = ''rez_'' @ hexEncode buf in
        (plaintext, ''tok_'' @ hexEncode (take 8 buf), hexEncode (sha256 env plaintext))) (rand_read env)"

definition tokenToResponse :: "api_token \<Rightarrow> string \<Rightarrow> token_response" where
  "tokenToResponse t role = \<lparr>tr_id = at_id t, tr_userName = at_userName t, tr_role = role,
     tr_expiresAt = map_option unixSeconds (at_expiresAt t), tr_createdAt = unixSeconds (at_createdAt t),
     tr_lastUsed = map_option unixSeconds (at_lastUsed t)\<rparr>"

definition VerifyAPIToken :: "auth_env \<Rightarrow> string \<Rightarrow> store \<Rightarrow> user option \<times> store" where
  "VerifyAPIToken env text s =
     (let plaintext = trimSpace text in
      if plaintext = [] then (None, s)
      else (case LookupAPITokenByHash (HashAPIToken env plaintext) s of
              (Inl _, s) \<Rightarrow> (None, s)
            | (Inr None, s) \<Rightarrow> (None, s)
            | (Inr (Some tok), s) \<Rightarrow>
                if (case at_expiresAt tok of None \<Rightarrow> False | Some e \<Rightarrow> clock s > e) then (None, s)
                else (case GetUser (at_userName tok) s of
                        (Inl _, s) \<Rightarrow> (None, s)
                      | (Inr None, s) \<Rightarrow> (None, s)
                      | (Inr (Some u), s) \<Rightarrow> (Some u, snd (TouchAPIToken (at_id tok) s)))))"

section \<open>Middleware\<close>

text \<open>\<^verbatim>\<open>strings.SplitN\<close> with a space and 2: \<open>None\<close> when there is no space.\<close>

definition extractBearerToken :: "string \<Rightarrow> string" where
  "extractBearerToken header =
     (let scheme = takeWhile (\<lambda>c. c \<noteq> CHR '' '') header in
      if length scheme = length header \<or> toLower scheme \<noteq> ''bearer'' then []
      else trimSpace (drop (Suc (length scheme)) header))"

text \<open>The caller, or the message of the 401 answer. \<open>tokens\<close> says whether API tokens are enabled.\<close>

definition authenticateWith :: "auth_env \<Rightarrow> bool \<Rightarrow> string \<Rightarrow> store \<Rightarrow> (string + auth_ctx) \<times> store" where
  "authenticateWith env tokens header s =
     (let token = extractBearerToken header in
      if token = [] then (Inl ''missing authorization header'', s)
      else if \<not> hasPrefix token ''rez_'' then
        (case ValidateToken env token (clock s) of
           JwtExpired \<Rightarrow> (Inl ''token expired'', s)
         | JwtInvalid \<Rightarrow> (Inl ''invalid token'', s)
         | JwtOk c \<Rightarrow> (Inr (cl_username c, cl_role c), s))
      else if \<not> tokens then (Inl ''api tokens not enabled'', s)
      else (case VerifyAPIToken env token s of
              (None, s) \<Rightarrow> (Inl ''invalid token'', s)
            | (Some u, s) \<Rightarrow> (Inr (md_name (u_metadata u), us_role (u_spec u)), s)))"

definition RequireRole :: "string list \<Rightarrow> auth_ctx \<Rightarrow> (auth_reply + unit)" where
  "RequireRole allowed ctx =
     (if snd ctx = [] then Inl (AErr 401 ''authentication required'')
      else if snd ctx = RoleAdmin then Inr ()
      else if snd ctx \<notin> set allowed then Inl (AErr 403 ''insufficient permissions'')
      else Inr ())"

section \<open>Login\<close>

definition Login :: "auth_env \<Rightarrow> (string \<times> string) option \<Rightarrow> store \<Rightarrow> auth_reply \<times> store" where
  "Login env req s =
     (case req of
        None \<Rightarrow> (AErr 400 ''invalid json'', s)
      | Some (username, password) \<Rightarrow>
          if username = [] \<or> password = [] then (AErr 400 ''username and password are required'', s)
          else (case GetUser username s of
                  (Inl _, s) \<Rightarrow> (AErr 500 ''internal error'', s)
                | (Inr None, s) \<Rightarrow> (AErr 401 ''invalid credentials'', s)
                | (Inr (Some u), s) \<Rightarrow>
                    if \<not> bcrypt_check env password (us_passwordHash (u_spec u))
                    then (AErr 401 ''invalid credentials'', s)
                    else (case GenerateToken env u DefaultTokenExpiry (clock s) of
                            None \<Rightarrow> (AErr 500 ''token generation failed'', s)
                          | Some t \<Rightarrow> (ALogin t (md_name (u_metadata u)) (us_role (u_spec u)),
                                       snd (UpdateUserLastLogin username s)))))"

definition Logout :: "store \<Rightarrow> auth_reply \<times> store" where
  "Logout s = (ANoContent, s)"

definition Whoami :: "auth_ctx \<Rightarrow> auth_reply" where
  "Whoami ctx = (if fst ctx = [] then AErr 401 ''not authenticated'' else AWhoami (fst ctx) (snd ctx))"

section \<open>User management\<close>

text \<open>The fields of the request bodies the handlers read; \<open>None\<close> when the body does not decode.\<close>

record user_request =
  uq_name :: string
  uq_role :: string
  uq_password :: string

definition userToResponse :: "user \<Rightarrow> user_response" where
  "userToResponse u = \<lparr>ur_metadata = u_metadata u, ur_role = us_role (u_spec u), ur_status = u_status u\<rparr>"

definition users_Create :: "auth_env \<Rightarrow> user_request option \<Rightarrow> store \<Rightarrow> auth_reply \<times> store" where
  "users_Create env req s =
     (case req of
        None \<Rightarrow> (AErr 400 ''invalid json'', s)
      | Some q \<Rightarrow>
          if uq_name q = [] then (AErr 400 ''metadata.name is required'', s)
          else if uq_password q = [] then (AErr 400 ''spec.password is required'', s)
          else if \<not> ValidRoles (uq_role q) then (AErr 400 ''spec.role must be one of: view, edit, admin'', s)
          else (case GetUser (uq_name q) s of
                  (Inl _, s) \<Rightarrow> (AErr 500 ''internal error'', s)
                | (Inr (Some _), s) \<Rightarrow> (AErr 409 ''user already exists'', s)
                | (Inr None, s) \<Rightarrow>
                    (case bcrypt_hash env (uq_password q) of
                       None \<Rightarrow> (AErr 500 ''password hashing failed'', s)
                     | Some h \<Rightarrow>
                         (case CreateUser (uq_name q) \<lparr>us_role = uq_role q, us_passwordHash = h\<rparr> s of
                            (Inl _, s) \<Rightarrow> (AErr 500 ''create failed'', s)
                          | (Inr u, s) \<Rightarrow> (AUser 201 (userToResponse u), s)))))"

definition users_List :: "store \<Rightarrow> auth_reply \<times> store" where
  "users_List s =
     (case ListUsers s of
        (Inl _, s) \<Rightarrow> (AErr 500 ''list failed'', s)
      | (Inr us, s) \<Rightarrow> (AUsers (map userToResponse us) (length us), s))"

definition users_Get :: "string \<Rightarrow> store \<Rightarrow> auth_reply \<times> store" where
  "users_Get name s =
     (case GetUser name s of
        (Inl _, s) \<Rightarrow> (AErr 500 ''internal error'', s)
      | (Inr None, s) \<Rightarrow> (AErr 404 ''user not found'', s)
      | (Inr (Some u), s) \<Rightarrow> (AUser 200 (userToResponse u), s))"

definition users_Update :: "auth_env \<Rightarrow> string \<Rightarrow> user_request option \<Rightarrow> store \<Rightarrow> auth_reply \<times> store" where
  "users_Update env name req s =
     (case req of
        None \<Rightarrow> (AErr 400 ''invalid json'', s)
      | Some q \<Rightarrow>
          if \<not> ValidRoles (uq_role q) then (AErr 400 ''spec.role must be one of: view, edit, admin'', s)
          else (case GetUser name s of
                  (Inl _, s) \<Rightarrow> (AErr 500 ''internal error'', s)
                | (Inr None, s) \<Rightarrow> (AErr 404 ''user not found'', s)
                | (Inr (Some u), s) \<Rightarrow>
                    (case (if uq_password q = [] then Some (us_passwordHash (u_spec u)) else bcrypt_hash env (uq_password q)) of
                       None \<Rightarrow> (AErr 500 ''password hashing failed'', s)
                     | Some h \<Rightarrow>
                         (case UpdateUser name (md_resourceVersion (u_metadata u))
                                 \<lparr>us_role = uq_role q, us_passwordHash = h\<rparr> s of
                            (Inl _, s) \<Rightarrow> (AErr 500 ''update failed'', s)
                          | (Inr u', s) \<Rightarrow> (AUser 200 (userToResponse u'), s)))))"

definition users_Delete :: "string \<Rightarrow> store \<Rightarrow> auth_reply \<times> store" where
  "users_Delete name s =
     (case DeleteUser name s of
        (Inl _, s) \<Rightarrow> (AErr 500 ''delete failed'', s)
      | (Inr _, s) \<Rightarrow> (ANoContent, s))"

section \<open>API token handlers\<close>

definition roleOf :: "string \<Rightarrow> store \<Rightarrow> string \<times> store" where
  "roleOf name s = (case GetUser name s of (Inr (Some u), s) \<Rightarrow> (us_role (u_spec u), s) | (_, s) \<Rightarrow> ([], s))"

fun tokenItems :: "api_token list \<Rightarrow> store \<Rightarrow> token_response list \<times> store" where
  "tokenItems [] s = ([], s)"
| "tokenItems (t # ts) s =
     (case roleOf (at_userName t) s of (role, s) \<Rightarrow>
        (case tokenItems ts s of (rs, s) \<Rightarrow> (tokenToResponse t role # rs, s)))"

definition listTokens :: "string \<Rightarrow> store \<Rightarrow> auth_reply \<times> store" where
  "listTokens userName s =
     (case ListAPITokens userName s of
        (Inl _, s) \<Rightarrow> (AErr 500 ''list failed'', s)
      | (Inr ts, s) \<Rightarrow> (case tokenItems ts s of (items, s) \<Rightarrow> (ATokens items (length items), s)))"

definition tokens_List :: "auth_ctx \<Rightarrow> store \<Rightarrow> auth_reply \<times> store" where
  "tokens_List ctx s =
     (if snd ctx \<noteq> RoleAdmin then (AErr 403 ''admin role required'', s) else listTokens [] s)"

definition tokens_ListForUser :: "auth_ctx \<Rightarrow> string \<Rightarrow> store \<Rightarrow> auth_reply \<times> store" where
  "tokens_ListForUser ctx target s =
     (if snd ctx \<noteq> RoleAdmin \<and> fst ctx \<noteq> target then (AErr 403 ''cannot list another users tokens'', s)
      else listTokens target s)"

definition tokens_Get :: "auth_ctx \<Rightarrow> string \<Rightarrow> store \<Rightarrow> auth_reply \<times> store" where
  "tokens_Get ctx ident s =
     (case GetAPIToken ident s of
        (Inl _, s) \<Rightarrow> (AErr 500 ''internal error'', s)
      | (Inr None, s) \<Rightarrow> (AErr 404 ''token not found'', s)
      | (Inr (Some tok), s) \<Rightarrow>
          if snd ctx \<noteq> RoleAdmin \<and> fst ctx \<noteq> at_userName tok then (AErr 403 ''forbidden'', s)
          else (case roleOf (at_userName tok) s of (role, s) \<Rightarrow> (AToken (tokenToResponse tok role), s)))"

text \<open>Multiplying durations is arithmetic on \<^verbatim>\<open>int64\<close>, which wraps around.\<close>

definition wrap64 :: "int \<Rightarrow> int" where
  "wrap64 x = (x + 2 ^ 63) mod 2 ^ 64 - 2 ^ 63"

text \<open>
  The body of \<^verbatim>\<open>CreateForUser\<close>: \<open>None\<close> when it is absent, \<open>Some None\<close> when it does not decode,
  otherwise the number of days.
\<close>

definition tokens_CreateForUser :: "auth_env \<Rightarrow> auth_ctx \<Rightarrow> string \<Rightarrow> int option option \<Rightarrow> store \<Rightarrow> auth_reply \<times> store" where
  "tokens_CreateForUser env ctx target body s =
     (if snd ctx \<noteq> RoleAdmin \<and> fst ctx \<noteq> target then (AErr 403 ''cannot create tokens for another user'', s)
      else (case GetUser target s of
              (Inl _, s) \<Rightarrow> (AErr 500 ''internal error'', s)
            | (Inr None, s) \<Rightarrow> (AErr 404 ''user not found'', s)
            | (Inr (Some u), s) \<Rightarrow>
                (case body of
                   Some None \<Rightarrow> (AErr 400 ''invalid json'', s)
                 | _ \<Rightarrow>
                     let days = (case body of Some (Some d) \<Rightarrow> d | _ \<Rightarrow> 0);
                         expiresAt = (if days > 0 then Some (clock s + wrap64 (days * (24 * hour))) else None)
                     in (case GenerateAPIToken env of
                           None \<Rightarrow> (AErr 500 ''token generation failed'', s)
                         | Some (plaintext, ident, h) \<Rightarrow>
                             (case CreateAPIToken ident target h expiresAt s of
                                (Inl _, s) \<Rightarrow> (AErr 500 ''create failed'', s)
                              | (Inr None, s) \<Rightarrow> (AErr 500 ''panic'', s)
                              | (Inr (Some tok), s) \<Rightarrow>
                                  (ANewToken (tokenToResponse tok (us_role (u_spec u))) plaintext, s))))))"

definition tokens_Delete :: "auth_ctx \<Rightarrow> string \<Rightarrow> store \<Rightarrow> auth_reply \<times> store" where
  "tokens_Delete ctx ident s =
     (case GetAPIToken ident s of
        (Inl _, s) \<Rightarrow> (AErr 500 ''internal error'', s)
      | (Inr None, s) \<Rightarrow> (AErr 404 ''token not found'', s)
      | (Inr (Some tok), s) \<Rightarrow>
          if snd ctx \<noteq> RoleAdmin \<and> fst ctx \<noteq> at_userName tok then (AErr 403 ''forbidden'', s)
          else (case DeleteAPIToken ident s of
                  (Inl _, s) \<Rightarrow> (AErr 500 ''delete failed'', s)
                | (Inr _, s) \<Rightarrow> (ANoContent, s)))"

section \<open>Routes\<close>

datatype user_route =
    UserList
  | UserCreate "user_request option"
  | UserGet string
  | UserUpdate string "user_request option"
  | UserDelete string

datatype token_route =
    TokenList
  | TokenGet string
  | TokenDelete string
  | TokenListFor string
  | TokenCreateFor string "int option option"

fun userMux :: "auth_env \<Rightarrow> user_route \<Rightarrow> store \<Rightarrow> auth_reply \<times> store" where
  "userMux env UserList s = users_List s"
| "userMux env (UserCreate q) s = users_Create env q s"
| "userMux env (UserGet n) s = users_Get n s"
| "userMux env (UserUpdate n q) s = users_Update env n q s"
| "userMux env (UserDelete n) s = users_Delete n s"

fun tokenMux :: "auth_env \<Rightarrow> auth_ctx \<Rightarrow> token_route \<Rightarrow> store \<Rightarrow> auth_reply \<times> store" where
  "tokenMux env ctx TokenList s = tokens_List ctx s"
| "tokenMux env ctx (TokenGet i) s = tokens_Get ctx i s"
| "tokenMux env ctx (TokenDelete i) s = tokens_Delete ctx i s"
| "tokenMux env ctx (TokenListFor n) s = tokens_ListForUser ctx n s"
| "tokenMux env ctx (TokenCreateFor n b) s = tokens_CreateForUser env ctx n b s"

text \<open>
  The router: authentication, then for user management the admin role. The audit middleware between
  the two only records the answer.
\<close>

definition users_endpoint :: "auth_env \<Rightarrow> string \<Rightarrow> user_route \<Rightarrow> store \<Rightarrow> auth_reply \<times> store" where
  "users_endpoint env header route s =
     (case authenticateWith env True header s of
        (Inl msg, s) \<Rightarrow> (AErr 401 msg, s)
      | (Inr ctx, s) \<Rightarrow> (case RequireRole [RoleAdmin] ctx of Inl e \<Rightarrow> (e, s) | Inr _ \<Rightarrow> userMux env route s))"

definition tokens_endpoint :: "auth_env \<Rightarrow> string \<Rightarrow> token_route \<Rightarrow> store \<Rightarrow> auth_reply \<times> store" where
  "tokens_endpoint env header route s =
     (case authenticateWith env True header s of
        (Inl msg, s) \<Rightarrow> (AErr 401 msg, s)
      | (Inr ctx, s) \<Rightarrow> tokenMux env ctx route s)"

text \<open>\<^verbatim>\<open>ensureAdminUser\<close> of \<^verbatim>\<open>main.go\<close>.\<close>

definition ensureAdminUser :: "auth_env \<Rightarrow> string \<Rightarrow> store \<Rightarrow> store" where
  "ensureAdminUser env password s =
     (case ListUsers s of
        (Inl _, s) \<Rightarrow> s
      | (Inr us, s) \<Rightarrow>
          if us \<noteq> [] \<or> password = [] then s
          else (case bcrypt_hash env password of
                  None \<Rightarrow> s
                | Some h \<Rightarrow> snd (CreateUser ''admin'' \<lparr>us_role = RoleAdmin, us_passwordHash = h\<rparr> s)))"

end
