(* ===== verification/Auth_Props.thy ===== *)
theory Auth_Props
  imports Auth
begin

text \<open>
  What authentication guarantees: a login yields a token that is accepted until it expires, an API
  token acts as its user with the user's current role until it expires or is revoked, and tokens
  of other users are out of reach of a caller who is not an admin.
\<close>

section \<open>Headers and hexadecimal text\<close>

lemma dropWhile_none: "list_all (\<lambda>c. \<not> P c) s \<Longrightarrow> dropWhile P s = s"
  by (cases s) auto

lemma trimSpace_none: "list_all (\<lambda>c. \<not> isSpace c) s \<Longrightarrow> trimSpace s = s"
  by (simp add: trimSpace_def trimLeftP_def trimRightP_def dropWhile_none)

lemma toLower_Bearer: "toLower ''Bearer'' = ''bearer''"
  by code_simp

lemma extractBearerToken_Bearer:
  "list_all (\<lambda>c. \<not> isSpace c) tok \<Longrightarrow> extractBearerToken (''Bearer '' @ tok) = tok"
  using toLower_Bearer by (simp add: extractBearerToken_def trimSpace_none Let_def)

lemma digitChar_not_space: "n < 16 \<Longrightarrow> \<not> isSpace (digitChar n)"
  by (auto simp: digitChar_def isSpace_def)

lemma hexEncode_no_space: "list_all (\<lambda>b. b < 256) bs \<Longrightarrow> list_all (\<lambda>c. \<not> isSpace c) (hexEncode bs)"
  by (induction bs) (auto simp: hexEncode_def digitChar_not_space)

lemma rez_no_space: "list_all (\<lambda>b. b < 256) bs \<Longrightarrow> list_all (\<lambda>c. \<not> isSpace c) (''rez_'' @ hexEncode bs)"
  using hexEncode_no_space by (simp add: isSpace_def)

section \<open>The user behind a name\<close>

abbreviation user_row :: "store \<Rightarrow> string \<Rightarrow> row option" where
  "user_row s n \<equiv> find_row s ''user'' n"

abbreviation row_role :: "row \<Rightarrow> string" where
  "row_role r \<equiv> us_role (dec_user_spec (r_spec r))"

lemma GetUser_healthy:
  "faults s = [] \<Longrightarrow>
   GetUser n s = (Inr (map_option (\<lambda>r. mk_user (meta_of r, r_spec r, r_status r)) (user_row s n)), s)"
  by (simp add: GetUser_def GetResource_healthy split: option.splits)

lemma mk_user_simps [simp]:
  "md_name (u_metadata (mk_user (meta_of r, j, k))) = r_name r"
  "us_role (u_spec (mk_user (md, j, k))) = us_role (dec_user_spec j)"
  "us_passwordHash (u_spec (mk_user (md, j, k))) = us_passwordHash (dec_user_spec j)"
  by (simp_all add: mk_user_def meta_of_def)

section \<open>Login\<close>

text \<open>
  What the JWT package documents: a signed token is a compact serialization, so has no white space and
  does not start like an API token, and parsing it under the key it was signed with gives its claims
  back before the expiry date and the expiry error from then on.
\<close>

definition jwt_sound :: "auth_env \<Rightarrow> bool" where
  "jwt_sound env \<longleftrightarrow> (\<forall>c tok. jwt_sign env (ae_secret env) c = Some tok \<longrightarrow>
     tok \<noteq> [] \<and> list_all (\<lambda>ch. \<not> isSpace ch) tok \<and> \<not> hasPrefix tok ''rez_'' \<and>
     (\<forall>now. jwt_parse env (ae_secret env) now tok =
        (if now < cl_expiresAt c * second then JwtOk c else JwtExpired)))"

definition login_claims :: "row \<Rightarrow> gotime \<Rightarrow> claims" where
  "login_claims r now = \<lparr>cl_issuer = ''rezuscloud'', cl_username = r_name r, cl_role = row_role r,
     cl_expiresAt = unixSeconds (now + DefaultTokenExpiry), cl_issuedAt = unixSeconds now\<rparr>"

lemma UpdateUserLastLogin_frame: "faults s = [] \<Longrightarrow> faults (snd (UpdateUserLastLogin n s)) = [] \<and>
    api_tokens (snd (UpdateUserLastLogin n s)) = api_tokens s"
  by (simp add: UpdateUserLastLogin_def)

lemma authenticate_jwt:
  assumes "jwt_sound env" "jwt_sign env (ae_secret env) c = Some tok"
  shows "authenticateWith env tokens (''Bearer '' @ tok) t =
     (if clock t < cl_expiresAt c * second then Inr (cl_username c, cl_role c) else Inl ''token expired'', t)"
proof -
  have tok: "tok \<noteq> []" "list_all (\<lambda>ch. \<not> isSpace ch) tok" "\<not> hasPrefix tok ''rez_''"
    "jwt_parse env (ae_secret env) (clock t) tok = (if clock t < cl_expiresAt c * second then JwtOk c else JwtExpired)"
    using assms unfolding jwt_sound_def by blast+
  show ?thesis
    unfolding authenticateWith_def extractBearerToken_Bearer [OF tok(2)]
    using tok by (simp add: ValidateToken_def)
qed

text \<open>
  C13: logging in. On a healthy store a login with a wrong password answers 401 and changes nothing;
  with the right password of a user with a valid role it answers with a token that the middleware
  accepts, as that user and role, at every time before the end of the day-long expiry (in whole
  seconds) and rejects as expired from then on.
\<close>

theorem login_token:
  assumes "faults s = []" "user_row s n = Some r" "n \<noteq> []" "pw \<noteq> []" "jwt_sound env"
    "jwt_sign env (ae_secret env) (login_claims r (clock s)) = Some tok"
  shows "if \<not> bcrypt_check env pw (us_passwordHash (dec_user_spec (r_spec r)))
         then Login env (Some (n, pw)) s = (AErr 401 ''invalid credentials'', s)
         else if \<not> ValidRoles (row_role r)
         then Login env (Some (n, pw)) s = (AErr 500 ''token generation failed'', s)
         else \<exists>p s'. Login env (Some (n, pw)) s = (ALogin p n (row_role r), s') \<and>
           tp_expiresAt p = (clock s + 24 * hour) div second \<and>
           (\<forall>t. fst (authenticateWith env True (''Bearer '' @ tp_accessToken p) t) =
              (if clock t < tp_expiresAt p * second then Inr (n, row_role r) else Inl ''token expired''))"
proof -
  have "r_name r = n"
    using find_row_key [OF assms(2)] by simp
  then have login: "Login env (Some (n, pw)) s =
      (if \<not> bcrypt_check env pw (us_passwordHash (dec_user_spec (r_spec r))) then (AErr 401 ''invalid credentials'', s)
       else if \<not> ValidRoles (row_role r) then (AErr 500 ''token generation failed'', s)
       else (ALogin \<lparr>tp_accessToken = tok, tp_expiresAt = unixSeconds (clock s + DefaultTokenExpiry), tp_tokenType = ''Bearer''\<rparr>
               n (row_role r), snd (UpdateUserLastLogin n s)))"
    using assms by (simp add: Login_def GetUser_healthy GenerateToken_def login_claims_def Let_def)
  show ?thesis
    unfolding login using authenticate_jwt [OF assms(5,6)] \<open>r_name r = n\<close>
    by (simp add: login_claims_def unixSeconds_def)
qed

section \<open>API tokens\<close>

lemma VerifyAPIToken_healthy:
  assumes "faults t = []" "list_all (\<lambda>c. \<not> isSpace c) plain" "plain \<noteq> []"
    "find (\<lambda>k. at_tokenHash k = HashAPIToken env plain) (api_tokens t) = tk"
  shows "fst (VerifyAPIToken env plain t) =
    (case tk of None \<Rightarrow> None
     | Some tok \<Rightarrow> if (\<exists>e. at_expiresAt tok = Some e \<and> e < clock t) then None
       else map_option (\<lambda>r. mk_user (meta_of r, r_spec r, r_status r)) (user_row t (at_userName tok)))"
  using assms
  by (auto simp: VerifyAPIToken_def trimSpace_none LookupAPITokenByHash_def GetUser_healthy TouchAPIToken_def Let_def
      split: option.splits)

lemma authenticate_rez:
  assumes "faults t = []" "plain = ''rez_'' @ hexEncode buf" "list_all (\<lambda>b. b < 256) buf"
    "find (\<lambda>k. at_tokenHash k = HashAPIToken env plain) (api_tokens t) = tk"
  shows "fst (authenticateWith env True (''Bearer '' @ plain) t) =
    (case tk of None \<Rightarrow> Inl ''invalid token''
     | Some tok \<Rightarrow>
         if (\<exists>e. at_expiresAt tok = Some e \<and> e < clock t) then Inl ''invalid token''
         else (case user_row t (at_userName tok) of
                 None \<Rightarrow> Inl ''invalid token''
               | Some r \<Rightarrow> Inr (at_userName tok, row_role r)))"
proof -
  have ns: "list_all (\<lambda>c. \<not> isSpace c) plain"
    unfolding assms(2) by (rule rez_no_space [OF assms(3)])
  have ne: "plain \<noteq> []" and rez: "hasPrefix plain ''rez_''"
    by (simp_all add: assms(2) hasPrefix_def)
  have eq: "authenticateWith env True (''Bearer '' @ plain) t =
      (case VerifyAPIToken env plain t of
         (None, s) \<Rightarrow> (Inl ''invalid token'', s)
       | (Some u, s) \<Rightarrow> (Inr (md_name (u_metadata u), us_role (u_spec u)), s))"
    unfolding authenticateWith_def extractBearerToken_Bearer [OF ns] using ne rez by simp
  have name: "r_name r = m" if "user_row t m = Some r" for m r
    using find_row_key [OF that] by simp
  show ?thesis
    using VerifyAPIToken_healthy [OF assms(1) ns ne assms(4)] name
    unfolding eq by (cases "VerifyAPIToken env plain t") (auto split: option.splits if_splits)
qed

lemma wrap64_id: "0 \<le> x \<Longrightarrow> x < 2 ^ 63 \<Longrightarrow> wrap64 x = x"
  by (simp add: wrap64_def)

text \<open>The row \<^verbatim>\<open>CreateForUser\<close> inserts for the random bytes \<open>buf\<close>.\<close>

definition new_token :: "auth_env \<Rightarrow> nat list \<Rightarrow> string \<Rightarrow> int \<Rightarrow> gotime \<Rightarrow> api_token" where
  "new_token env buf n days now = \<lparr>at_id = ''tok_'' @ hexEncode (take 8 buf), at_userName = n,
     at_tokenHash = HashAPIToken env (''rez_'' @ hexEncode buf),
     at_expiresAt = (if days > 0 then Some (now + wrap64 (days * (24 * hour))) else None), at_createdAt = now,
     at_lastUsed = None\<rparr>"

lemma CreateForUser_healthy:
  assumes "faults s = []" "user_row s n = Some r" "snd ctx = RoleAdmin \<or> fst ctx = n" "rand_read env = Some buf"
    "tbl_get at_id (api_tokens s) (''tok_'' @ hexEncode (take 8 buf)) = None"
  shows "tokens_CreateForUser env ctx n (Some (Some days)) s =
    (ANewToken (tokenToResponse (new_token env buf n days (clock s)) (row_role r)) (''rez_'' @ hexEncode buf),
     s\<lparr>api_tokens := tbl_ins (new_token env buf n days (clock s)) (api_tokens s)\<rparr>)"
proof -
  let ?k = "new_token env buf n days (clock s)"
  have id: "at_id ?k = ''tok_'' @ hexEncode (take 8 buf)"
    by (simp add: new_token_def)
  have "tbl_get at_id (tbl_ins ?k (api_tokens s)) (''tok_'' @ hexEncode (take 8 buf)) = Some ?k"
    using token_table.get_ins_same [of "api_tokens s" ?k] assms(5) unfolding id .
  then show ?thesis
    using assms
    by (simp add: tokens_CreateForUser_def GetUser_healthy GenerateAPIToken_def CreateAPIToken_def GetAPIToken_def
        HashAPIToken_def [symmetric] new_token_def Let_def)
qed

lemma find_tbl_ins:
  "\<forall>k\<in>set rows. \<not> P k \<Longrightarrow> P x \<Longrightarrow> find P (tbl_ins x rows) = Some x"
  by (induction rows) (auto simp: tbl_ins_def)

lemma find_tbl_del_ins:
  "\<forall>k\<in>set rows. \<not> P k \<Longrightarrow> find P (tbl_del key (key x) (tbl_ins x rows)) = None"
  by (auto simp: tbl_ins_def tbl_del_def find_None_iff)

text \<open>
  the life of an API token. A user (or an admin) mints a token; the answer carries a secret
  whose hash is what the table keeps. In every later store that still has those tokens, that secret
  authenticates as the user with the role the user has at that moment, exactly while the token is not
  expired and the user exists; the expiry is the requested number of days, none for 0 or less. When
  the owner deletes the token it is rejected in every store that has the tokens left after that.
\<close>

theorem api_token_lifecycle:
  assumes "faults s = []" "user_row s n = Some r" "snd ctx = RoleAdmin \<or> fst ctx = n"
    "rand_read env = Some buf" "list_all (\<lambda>b. b < 256) buf"
    "tbl_get at_id (api_tokens s) (''tok_'' @ hexEncode (take 8 buf)) = None"
    "\<forall>k\<in>set (api_tokens s). at_tokenHash k \<noteq> HashAPIToken env (''rez_'' @ hexEncode buf)"
    "days < 106752"
  shows "\<exists>resp secret s1. tokens_CreateForUser env ctx n (Some (Some days)) s = (ANewToken resp secret, s1) \<and>
     (\<forall>t. faults t = [] \<and> api_tokens t = api_tokens s1 \<longrightarrow>
        fst (authenticateWith env True (''Bearer '' @ secret) t) =
          (if days > 0 \<and> clock s + days * (24 * hour) < clock t then Inl ''invalid token''
           else (case user_row t n of None \<Rightarrow> Inl ''invalid token'' | Some q \<Rightarrow> Inr (n, row_role q)))) \<and>
     (\<exists>s2. tokens_Delete ctx (tr_id resp) s1 = (ANoContent, s2) \<and>
        (\<forall>t. faults t = [] \<and> api_tokens t = api_tokens s2 \<longrightarrow>
           fst (authenticateWith env True (''Bearer '' @ secret) t) = Inl ''invalid token''))"
proof -
  let ?k = "new_token env buf n days (clock s)" and ?secret = "''rez_'' @ hexEncode buf"
  let ?s1 = "s\<lparr>api_tokens := tbl_ins ?k (api_tokens s)\<rparr>"
  let ?P = "\<lambda>k. at_tokenHash k = HashAPIToken env ?secret"
  have k: "?P ?k" "at_userName ?k = n"
    by (simp_all add: new_token_def)
  have fresh: "tbl_get at_id (api_tokens s) (at_id ?k) = None"
    using assms(6) by (simp add: new_token_def)
  have hash: "\<forall>k\<in>set (api_tokens s). \<not> ?P k"
    using assms(7) by blast
  have wrap: "wrap64 (days * (24 * hour)) = days * (24 * hour)" if "days > 0"
    using that assms(8) by (intro wrap64_id) simp_all
  have expired: "(\<exists>e. at_expiresAt ?k = Some e \<and> e < now) \<longleftrightarrow> days > 0 \<and> clock s + days * (24 * hour) < now" for now
    using wrap by (simp add: new_token_def)
  have alive: "fst (authenticateWith env True (''Bearer '' @ ?secret) t) =
      (if days > 0 \<and> clock s + days * (24 * hour) < clock t then Inl ''invalid token''
       else (case user_row t n of None \<Rightarrow> Inl ''invalid token'' | Some q \<Rightarrow> Inr (n, row_role q)))"
    if t: "faults t = []" "api_tokens t = api_tokens ?s1" for t
  proof -
    have "find ?P (api_tokens t) = Some ?k"
      using find_tbl_ins [of "api_tokens s" ?P, OF hash k(1)] t(2) by simp
    from authenticate_rez [OF t(1) refl assms(5) this] show ?thesis
      by (simp only: option.case expired k(2))
  qed
  have get: "tbl_get at_id (tbl_ins ?k (api_tokens s)) (at_id ?k) = Some ?k"
    using token_table.get_ins_same [of "api_tokens s" ?k] fresh .
  let ?s2 = "s\<lparr>api_tokens := tbl_del at_id (at_id ?k) (tbl_ins ?k (api_tokens s))\<rparr>"
  have del: "tokens_Delete ctx (at_id ?k) ?s1 = (ANoContent, ?s2)"
    using assms(1,3) get k by (auto simp: tokens_Delete_def GetAPIToken_def DeleteAPIToken_def)
  have dead: "fst (authenticateWith env True (''Bearer '' @ ?secret) t) = Inl ''invalid token''"
    if t: "faults t = []" "api_tokens t = api_tokens ?s2" for t
  proof -
    have "find ?P (api_tokens t) = None"
      using find_tbl_del_ins [of "api_tokens s" ?P at_id ?k, OF hash] t(2) by simp
    from authenticate_rez [OF t(1) refl assms(5) this] show ?thesis
      by simp
  qed
  show ?thesis
  proof (intro exI conjI)
    show "tokens_CreateForUser env ctx n (Some (Some days)) s = (ANewToken (tokenToResponse ?k (row_role r)) ?secret, ?s1)"
      by (rule CreateForUser_healthy [OF assms(1-4,6)])
    show "tokens_Delete ctx (tr_id (tokenToResponse ?k (row_role r))) ?s1 = (ANoContent, ?s2)"
      using del by (simp add: tokenToResponse_def)
  qed (use alive dead in blast)+
qed

text \<open>
  deleting a user does not end the user's API tokens. After the user is removed and a user of
  the same name is created, a token minted for the first one authenticates as the second, with the
  second one's role.
\<close>

theorem deleted_user_token_revived:
  assumes "faults s = []" "user_row s n = Some r" "snd ctx = RoleAdmin \<or> fst ctx = n" "n \<noteq> []"
    "rand_read env = Some buf" "list_all (\<lambda>b. b < 256) buf"
    "tbl_get at_id (api_tokens s) (''tok_'' @ hexEncode (take 8 buf)) = None"
    "\<forall>k\<in>set (api_tokens s). at_tokenHash k \<noteq> HashAPIToken env (''rez_'' @ hexEncode buf)"
  shows "let s1 = snd (tokens_CreateForUser env ctx n (Some (Some 0)) s);
             s2 = snd (users_Delete n s1);
             s3 = snd (CreateUser n spec s2);
             header = ''Bearer rez_'' @ hexEncode buf
         in fst (authenticateWith env True header s2) = Inl ''invalid token'' \<and>
            fst (authenticateWith env True header s3) = Inr (n, us_role spec)"
proof -
  let ?k = "new_token env buf n 0 (clock s)" and ?secret = "''rez_'' @ hexEncode buf"
  define s1 where "s1 = s\<lparr>api_tokens := tbl_ins ?k (api_tokens s)\<rparr>"
  define s2 where "s2 = snd (users_Delete n s1)"
  define s3 where "s3 = snd (CreateUser n spec s2)"
  have s1: "snd (tokens_CreateForUser env ctx n (Some (Some 0)) s) = s1"
    by (simp add: CreateForUser_healthy [OF assms(1-3,5,7)] s1_def)
  have f1: "faults s1 = []"
    using assms(1) by (simp add: s1_def)
  have two: "faults s2 = []" "api_tokens s2 = api_tokens s1" "user_row s2 n = None"
    using f1 by (auto simp: s2_def users_Delete_def DeleteUser_def RemoveResource_healthy Let_def tbl_get_del
        split: option.splits)
  have three: "faults s3 = []" "api_tokens s3 = api_tokens s1"
    "\<exists>q. user_row s3 n = Some q \<and> row_role q = us_role spec"
    using two
    by (auto simp: s3_def CreateUser_def CreateResource_healthy Let_def tbl_get_ins new_row_def dec_enc_user_spec)
  have hit: "find (\<lambda>k. at_tokenHash k = HashAPIToken env ?secret) (api_tokens s1) = Some ?k"
    using find_tbl_ins [of "api_tokens s" "\<lambda>k. at_tokenHash k = HashAPIToken env ?secret" ?k] assms(8)
    by (simp add: s1_def new_token_def)
  have auth: "fst (authenticateWith env True (''Bearer '' @ ?secret) t) =
      (case user_row t n of None \<Rightarrow> Inl ''invalid token'' | Some q \<Rightarrow> Inr (n, row_role q))"
    if "faults t = []" "api_tokens t = api_tokens s1" for t
  proof -
    have k: "at_expiresAt ?k = None" "at_userName ?k = n"
      by (simp_all add: new_token_def)
    have "find (\<lambda>k. at_tokenHash k = HashAPIToken env ?secret) (api_tokens t) = Some ?k"
      using hit that(2) by simp
    from authenticate_rez [OF that(1) refl assms(6) this] show ?thesis
      by (simp only: option.case k option.distinct simp_thms ex_simps if_False)
  qed
  show ?thesis
    using auth [OF two(1,2)] auth [OF three(1,2)] two(3) three(3)
    by (auto simp: Let_def s1 s2_def [symmetric] s3_def [symmetric])
qed

section \<open>Ownership\<close>

lemma tokenItems_names: "map tr_userName (fst (tokenItems ts s)) = map at_userName ts"
  by (induction ts arbitrary: s) (auto simp: tokenToResponse_def split: prod.splits, metis fst_conv)

lemma token_ownership_cases:
  assumes "faults s = []" "snd ctx \<noteq> RoleAdmin"
  shows "\<exists>msg. tokenMux env ctx TokenList s = (AErr 403 msg, s)"
    and "fst ctx \<noteq> n \<Longrightarrow> \<exists>msg. tokenMux env ctx (TokenListFor n) s = (AErr 403 msg, s)"
    and "fst ctx \<noteq> n \<Longrightarrow> \<exists>msg. tokenMux env ctx (TokenCreateFor n body) s = (AErr 403 msg, s)"
    and "tbl_get at_id (api_tokens s) i = Some k \<Longrightarrow> fst ctx \<noteq> at_userName k \<Longrightarrow>
      \<exists>msg. tokenMux env ctx (TokenGet i) s = (AErr 403 msg, s) \<and> tokenMux env ctx (TokenDelete i) s = (AErr 403 msg, s)"
    and "fst ctx \<noteq> [] \<Longrightarrow> \<exists>items s'. tokenMux env ctx (TokenListFor (fst ctx)) s = (ATokens items (length items), s') \<and>
      (\<forall>x\<in>set items. tr_userName x = fst ctx)"
proof -
  show "\<exists>msg. tokenMux env ctx TokenList s = (AErr 403 msg, s)"
    using assms by (simp add: tokens_List_def)
  show "\<exists>msg. tokenMux env ctx (TokenListFor n) s = (AErr 403 msg, s)" if "fst ctx \<noteq> n"
    using assms that by (simp add: tokens_ListForUser_def)
  show "\<exists>msg. tokenMux env ctx (TokenCreateFor n body) s = (AErr 403 msg, s)" if "fst ctx \<noteq> n"
    using assms that by (simp add: tokens_CreateForUser_def)
  show "\<exists>msg. tokenMux env ctx (TokenGet i) s = (AErr 403 msg, s) \<and> tokenMux env ctx (TokenDelete i) s = (AErr 403 msg, s)"
    if "tbl_get at_id (api_tokens s) i = Some k" "fst ctx \<noteq> at_userName k"
    using assms that by (simp add: tokens_Get_def tokens_Delete_def GetAPIToken_def)
  assume "fst ctx \<noteq> []"
  let ?own = "sort_key (\<lambda>t. - at_createdAt t) (filter (\<lambda>t. at_userName t = fst ctx) (api_tokens s))"
  obtain items s' where items: "tokenItems ?own s = (items, s')"
    by (metis surj_pair)
  have "map tr_userName items = map at_userName ?own"
    using tokenItems_names [of ?own s] by (simp add: items)
  then have "set (map tr_userName items) \<subseteq> {fst ctx}"
    by auto
  then have "\<forall>x\<in>set items. tr_userName x = fst ctx"
    by auto
  then show "\<exists>items s'. tokenMux env ctx (TokenListFor (fst ctx)) s = (ATokens items (length items), s') \<and>
      (\<forall>x\<in>set items. tr_userName x = fst ctx)"
    using assms(1) items \<open>fst ctx \<noteq> []\<close>
    by (simp add: tokens_ListForUser_def listTokens_def ListAPITokens_def)
qed

text \<open>
  a caller without the admin role reaches only its own tokens: listing all tokens, listing or
  creating for another user, and reading or deleting another user's token answer 403 and change
  nothing, and its own list holds tokens of that caller only.
\<close>

theorem token_ownership:
  assumes "faults s = []" "snd ctx \<noteq> RoleAdmin"
  shows "(\<exists>msg. tokenMux env ctx TokenList s = (AErr 403 msg, s)) \<and>
    (\<forall>n body. fst ctx \<noteq> n \<longrightarrow>
       (\<exists>msg. tokenMux env ctx (TokenListFor n) s = (AErr 403 msg, s)) \<and>
       (\<exists>msg. tokenMux env ctx (TokenCreateFor n body) s = (AErr 403 msg, s))) \<and>
    (\<forall>i k. tbl_get at_id (api_tokens s) i = Some k \<and> fst ctx \<noteq> at_userName k \<longrightarrow>
       (\<exists>msg. tokenMux env ctx (TokenGet i) s = (AErr 403 msg, s) \<and> tokenMux env ctx (TokenDelete i) s = (AErr 403 msg, s))) \<and>
    (fst ctx \<noteq> [] \<longrightarrow>
       (\<exists>items s'. tokenMux env ctx (TokenListFor (fst ctx)) s = (ATokens items (length items), s') \<and>
          (\<forall>x\<in>set items. tr_userName x = fst ctx)))"
  using token_ownership_cases [OF assms] by blast

section \<open>User management\<close>

lemma UpdateUser_healthy:
  assumes "faults s = []" "user_row s n = Some r"
  shows "\<exists>u s' r'. UpdateUser n (r_version r) spec s = (Inr u, s') \<and> user_row s' n = Some r' \<and> dec_user_spec (r_spec r') = spec"
  using assms
  by (simp add: UpdateUser_def UpdateResource_healthy Let_def GetResource_healthy tbl_get_upd dec_enc_user_spec)

lemma users_endpoint_cases:
  assumes "faults s = []" "authenticateWith env True header s = (auth, s1)"
  shows "\<not> (\<exists>n. auth = Inr (n, RoleAdmin)) \<Longrightarrow>
      \<exists>code msg. users_endpoint env header route s = (AErr code msg, s1) \<and> code \<in> {401, 403} \<and> resources s1 = resources s"
    and "auth = Inr (a, RoleAdmin) \<Longrightarrow> user_row s n = Some r \<Longrightarrow> ValidRoles (uq_role q) \<Longrightarrow>
      (if uq_password q = [] then Some (us_passwordHash (dec_user_spec (r_spec r))) else bcrypt_hash env (uq_password q)) = Some h \<Longrightarrow>
      \<exists>resp s2 r2. users_endpoint env header (UserUpdate n (Some q)) s = (AUser 200 resp, s2) \<and>
        user_row s2 n = Some r2 \<and> dec_user_spec (r_spec r2) = \<lparr>us_role = uq_role q, us_passwordHash = h\<rparr>"
proof -
  have frame: "resources s1 = resources s \<and> faults s1 = []"
    using assms
    by (auto simp: authenticateWith_def VerifyAPIToken_def LookupAPITokenByHash_def GetUser_healthy TouchAPIToken_def
        Let_def split: if_splits option.splits jwt_result.splits)
  show "\<exists>code msg. users_endpoint env header route s = (AErr code msg, s1) \<and> code \<in> {401, 403} \<and> resources s1 = resources s"
    if "\<not> (\<exists>n. auth = Inr (n, RoleAdmin))"
    using that assms(2) frame by (auto simp: users_endpoint_def RequireRole_def split: sum.splits)
  assume a: "auth = Inr (a, RoleAdmin)" and r: "user_row s n = Some r" and v: "ValidRoles (uq_role q)"
    and h: "(if uq_password q = [] then Some (us_passwordHash (dec_user_spec (r_spec r)))
      else bcrypt_hash env (uq_password q)) = Some h"
  have r1: "user_row s1 n = Some r" and f1: "faults s1 = []"
    using r frame by simp_all
  let ?spec = "\<lparr>us_role = uq_role q, us_passwordHash = h\<rparr>"
  have endpoint: "users_endpoint env header (UserUpdate n (Some q)) s = users_Update env n (Some q) s1"
    using a assms(2) by (simp add: users_endpoint_def RequireRole_def)
  have "\<exists>resp s2 r2. users_Update env n (Some q) s1 = (AUser 200 resp, s2) \<and> user_row s2 n = Some r2 \<and>
      dec_user_spec (r_spec r2) = ?spec"
  proof -
    have "md_resourceVersion (u_metadata (mk_user (meta_of r, r_spec r, r_status r))) = r_version r"
      by (simp add: mk_user_def meta_of_def)
    then show ?thesis
      using v h r1 UpdateUser_healthy [OF f1 r1, of ?spec]
      by (auto simp: users_Update_def GetUser_healthy [OF f1])
  qed
  then show "\<exists>resp s2 r2. users_endpoint env header (UserUpdate n (Some q)) s = (AUser 200 resp, s2) \<and>
      user_row s2 n = Some r2 \<and> dec_user_spec (r_spec r2) = ?spec"
    unfolding endpoint .
qed

text \<open>
  user management is for admins, and changing a user's role without giving a password keeps the
  password. A request that does not authenticate as an admin is answered 401 or 403 and leaves every
  resource as it was; an admin's update of an existing user answers 200 and stores the new role with
  the old hash, or with the hash of the new password when one is given.
\<close>

theorem users_endpoint_guard:
  assumes "faults s = []" "authenticateWith env True header s = (auth, s1)"
  shows "(\<forall>route. \<not> (\<exists>n. auth = Inr (n, RoleAdmin)) \<longrightarrow>
      (\<exists>code msg. users_endpoint env header route s = (AErr code msg, s1) \<and> code \<in> {401, 403} \<and>
         resources s1 = resources s)) \<and>
    (\<forall>a n r q h. auth = Inr (a, RoleAdmin) \<and> user_row s n = Some r \<and> ValidRoles (uq_role q) \<and>
      (if uq_password q = [] then Some (us_passwordHash (dec_user_spec (r_spec r))) else bcrypt_hash env (uq_password q)) = Some h \<longrightarrow>
      (\<exists>resp s2 r2. users_endpoint env header (UserUpdate n (Some q)) s = (AUser 200 resp, s2) \<and>
        user_row s2 n = Some r2 \<and> dec_user_spec (r_spec r2) = \<lparr>us_role = uq_role q, us_passwordHash = h\<rparr>))"
  using users_endpoint_cases [OF assms] by blast

section \<open>Witnesses\<close>

definition ex_user :: row where
  "ex_user = (ex_row ''user'' ''ann'' [])\<lparr>r_spec := JObj [(''role'', JStr ''admin''), (''passwordHash'', JStr ''h'')]\<rparr>"

definition ex_auth_store :: store where
  "ex_auth_store = ex_store\<lparr>resources := [ex_user]\<rparr>"

definition ex_auth :: auth_env where
  "ex_auth = \<lparr>ae_secret = ''k'',
     jwt_sign = (\<lambda>_ c. if c = login_claims ex_user 5 then Some ''eyJ'' else None),
     jwt_parse = (\<lambda>_ now t. if t \<noteq> ''eyJ'' then JwtInvalid
        else if now < cl_expiresAt (login_claims ex_user 5) * second then JwtOk (login_claims ex_user 5) else JwtExpired),
     sha256 = (\<lambda>t. map of_char t), bcrypt_hash = (\<lambda>p. Some p), bcrypt_check = (\<lambda>p h. p = h), rand_read = Some [1, 2]\<rparr>"

lemma ex_auth_facts [simp]:
  "faults ex_auth_store = []" "clock ex_auth_store = 5" "user_row ex_auth_store ''ann'' = Some ex_user"
  "api_tokens ex_auth_store = []" "row_role ex_user = ''admin''" "us_passwordHash (dec_user_spec (r_spec ex_user)) = ''h''"
  "rand_read ex_auth = Some [1, 2]" "bcrypt_check ex_auth p h = (p = h)" "ae_secret ex_auth = ''k''"
  by (simp_all add: ex_auth_store_def ex_user_def ex_auth_def dec_user_spec_def json_simps)
     (simp add: ex_store_def)

lemma ex_auth_sound: "jwt_sound ex_auth"
  by (auto simp: jwt_sound_def ex_auth_def isSpace_def hasPrefix_def split: if_splits)

theorem login_token_witness:
  "\<exists>p s'. Login ex_auth (Some (''ann'', ''h'')) ex_auth_store = (ALogin p ''ann'' ''admin'', s') \<and>
     fst (authenticateWith ex_auth True (''Bearer '' @ tp_accessToken p) (ex_auth_store\<lparr>clock := 7\<rparr>)) = Inr (''ann'', ''admin'')"
proof -
  have "jwt_sign ex_auth (ae_secret ex_auth) (login_claims ex_user (clock ex_auth_store)) = Some ''eyJ''"
    by (simp add: ex_auth_def)
  from login_token [OF _ _ _ _ ex_auth_sound this, of "''ann''" "''h''"]
  obtain p s' where ps: "Login ex_auth (Some (''ann'', ''h'')) ex_auth_store = (ALogin p ''ann'' ''admin'', s')"
    "tp_expiresAt p = (5 + 24 * hour) div second"
    "\<forall>t. fst (authenticateWith ex_auth True (''Bearer '' @ tp_accessToken p) t) =
       (if clock t < tp_expiresAt p * second then Inr (''ann'', ''admin'') else Inl ''token expired'')"
    by (auto simp: ValidRoles_def)
  show ?thesis
    using ps(1,2) ps(3) [rule_format, of "ex_auth_store\<lparr>clock := 7\<rparr>"] by auto
qed

theorem api_token_lifecycle_witness:
  "\<exists>resp secret s1. tokens_CreateForUser ex_auth (''ann'', ''view'') ''ann'' (Some (Some 3)) ex_auth_store = (ANewToken resp secret, s1)"
  using api_token_lifecycle [of ex_auth_store "''ann''" ex_user "(''ann'', ''view'')" ex_auth "[1, 2]" 3]
  by auto

theorem deleted_user_token_revived_witness:
  "fst (authenticateWith ex_auth True (''Bearer rez_'' @ hexEncode [1, 2])
     (snd (CreateUser ''ann'' \<lparr>us_role = ''view'', us_passwordHash = []\<rparr>
       (snd (users_Delete ''ann'' (snd (tokens_CreateForUser ex_auth (''ann'', ''view'') ''ann'' (Some (Some 0)) ex_auth_store)))))))
   = Inr (''ann'', ''view'')"
  using deleted_user_token_revived [of ex_auth_store "''ann''" ex_user "(''ann'', ''view'')" ex_auth "[1, 2]"
      "\<lparr>us_role = ''view'', us_passwordHash = []\<rparr>"]
  by (simp add: Let_def)

theorem token_ownership_witness:
  "\<exists>msg. tokenMux ex_auth (''bob'', ''edit'') (TokenListFor ''ann'') ex_auth_store = (AErr 403 msg, ex_auth_store)"
  using token_ownership [of ex_auth_store "(''bob'', ''edit'')" ex_auth] by simp

theorem users_endpoint_guard_witness:
  "\<exists>code msg. users_endpoint ex_auth [] (UserDelete ''ann'') ex_auth_store = (AErr code msg, ex_auth_store) \<and> code \<in> {401, 403}"
proof -
  have "authenticateWith ex_auth True [] ex_auth_store = (Inl ''missing authorization header'', ex_auth_store)"
    by (simp add: authenticateWith_def extractBearerToken_def Let_def)
  from users_endpoint_guard [OF _ this] show ?thesis
    by simp
qed

end
