(* ===== verification/Credentials.thy ===== *)
theory Credentials
  imports Store_Laws
begin

text \<open>
  Credentials and machine configurations: \<^verbatim>\<open>internal/credentials\<close> (generator and cache),
  \<^verbatim>\<open>internal/talosconfig\<close> (the configuration generator, the bootstrap configuration and the encrypted
  secrets file) and the pipeline of \<^verbatim>\<open>internal/configrender\<close>. The Talos machinery library, the
  client-go writer, AES-GCM and the file system are fields of parameter records.
\<close>

section \<open>The libraries the code calls\<close>

text \<open>A parsed secrets bundle: the two CA certificates the code reads, and the rest.\<close>

record secrets_bundle =
  b_k8sCrt :: string
  b_osCrt :: string
  b_rest :: string

text \<open>What \<^verbatim>\<open>GenerateKubeconfig\<close> puts into the client-go structure it writes.\<close>

record kubeconfig =
  kc_clusterName :: string
  kc_server :: string
  kc_caData :: string
  kc_clientCert :: string
  kc_clientKey :: string
  kc_currentContext :: string

record config_input =
  ci_clusterName :: string
  ci_endpoint :: string
  ci_kubernetesVersion :: string
  ci_host :: string
  ci_bundle :: secrets_bundle
  ci_contract :: string

record talos_lib =
  parse_contract :: "string \<Rightarrow> string option"
  new_bundle :: "string \<Rightarrow> secrets_bundle option"
  bundle_json :: "secrets_bundle \<Rightarrow> string option"
  bundle_parse :: "string \<Rightarrow> secrets_bundle option"
  client_cert :: "secrets_bundle \<Rightarrow> (string \<times> string) option"
  write_kubeconfig :: "kubeconfig \<Rightarrow> string option"
  write_talosconfig :: "string \<Rightarrow> string list \<Rightarrow> string \<Rightarrow> string \<times> string \<Rightarrow> string option"
  url_host :: "string \<Rightarrow> string option"
  make_config :: "config_input \<Rightarrow> string \<Rightarrow> string option"
  apply_patches :: "string \<Rightarrow> string list \<Rightarrow> string option"

section \<open>Generator\<close>

definition GenerateKubeconfig :: "talos_lib \<Rightarrow> string \<Rightarrow> string \<Rightarrow> secrets_bundle option \<Rightarrow> string option" where
  "GenerateKubeconfig lib clusterName clusterEndpoint bundle =
     (case bundle of
        None \<Rightarrow> None
      | Some b \<Rightarrow>
          (case client_cert lib b of
             None \<Rightarrow> None
           | Some (crt, key) \<Rightarrow>
               let endpoint = (if clusterEndpoint = [] then ''https://127.0.0.1:6443'' else clusterEndpoint) in
               write_kubeconfig lib
                 \<lparr>kc_clusterName = clusterName, kc_server = endpoint, kc_caData = b_k8sCrt b,
                  kc_clientCert = crt, kc_clientKey = key, kc_currentContext = clusterName\<rparr>))"

definition GenerateTalosconfig :: "talos_lib \<Rightarrow> string \<Rightarrow> string \<Rightarrow> secrets_bundle option \<Rightarrow> string option" where
  "GenerateTalosconfig lib clusterName endpoint0 bundle =
     (case bundle of
        None \<Rightarrow> None
      | Some b \<Rightarrow>
          (case client_cert lib b of
             None \<Rightarrow> None
           | Some cert \<Rightarrow>
               let endpoint = (if endpoint0 = [] then ''127.0.0.1:50000'' else endpoint0) in
               write_talosconfig lib clusterName [endpoint] (b_osCrt b) cert))"

definition GenerateSecretsBundle :: "talos_lib \<Rightarrow> string \<Rightarrow> secrets_bundle option" where
  "GenerateSecretsBundle lib talosVersion =
     (case parse_contract lib talosVersion of None \<Rightarrow> None | Some vc \<Rightarrow> new_bundle lib vc)"

definition SecretsBundleJSON :: "talos_lib \<Rightarrow> secrets_bundle \<Rightarrow> string option" where
  "SecretsBundleJSON lib b = bundle_json lib b"

text \<open>The outer option is the error, the inner one the nil bundle of an empty input.\<close>

definition UnmarshalSecretsBundle :: "talos_lib \<Rightarrow> string \<Rightarrow> secrets_bundle option option" where
  "UnmarshalSecretsBundle lib raw =
     (if raw = [] then Some None else map_option Some (bundle_parse lib raw))"

section \<open>Cache\<close>

record cached_bundle =
  cb_bundle :: "secrets_bundle option"
  cb_raw :: string
  cb_loaded :: gotime

type_synonym secrets_cache = "string \<rightharpoonup> cached_bundle"

definition bytesEqual :: "string \<Rightarrow> string \<Rightarrow> bool" where
  "bytesEqual a b \<longleftrightarrow> length a = length b \<and> list_all2 (=) a b"

definition StoreSource :: "string \<Rightarrow> store \<Rightarrow> string option res" where
  "StoreSource tn s = LoadTenantSecrets tn s"

definition cache_Refresh :: "talos_lib \<Rightarrow> string \<Rightarrow> secrets_cache \<Rightarrow> store \<Rightarrow> secrets_cache \<times> store" where
  "cache_Refresh lib tn c s0 =
     (case StoreSource tn s0 of
        (Inl _, s) \<Rightarrow> (c, s)
      | (Inr raw, s) \<Rightarrow>
          let raw = (case raw of None \<Rightarrow> [] | Some x \<Rightarrow> x) in
          if raw = [] then (c(tn := None), s)
          else
            (case c tn of
               Some existing \<Rightarrow>
                 if bytesEqual (cb_raw existing) raw then (c(tn \<mapsto> existing\<lparr>cb_loaded := clock s\<rparr>), s)
                 else (case UnmarshalSecretsBundle lib raw of
                         None \<Rightarrow> (c, s)
                       | Some b \<Rightarrow> (c(tn \<mapsto> \<lparr>cb_bundle = b, cb_raw = raw, cb_loaded = clock s\<rparr>), s))
             | None \<Rightarrow>
                 (case UnmarshalSecretsBundle lib raw of
                    None \<Rightarrow> (c, s)
                  | Some b \<Rightarrow> (c(tn \<mapsto> \<lparr>cb_bundle = b, cb_raw = raw, cb_loaded = clock s\<rparr>), s))))"

definition cache_Get :: "string \<Rightarrow> secrets_cache \<Rightarrow> secrets_bundle option" where
  "cache_Get tn c = (case c tn of None \<Rightarrow> None | Some e \<Rightarrow> cb_bundle e)"

definition cache_Drop :: "string \<Rightarrow> secrets_cache \<Rightarrow> secrets_cache" where
  "cache_Drop tn c = c(tn := None)"

section \<open>Machine configuration\<close>

abbreviation "TypeInit \<equiv> ''init''"
abbreviation "TypeControlPlane \<equiv> ''controlplane''"
abbreviation "TypeWorker \<equiv> ''worker''"

definition DetermineMachineType :: "string \<Rightarrow> bool \<Rightarrow> string" where
  "DetermineMachineType role isFirstControlPlane =
     (if role = ''controlplane'' then (if isFirstControlPlane then TypeInit else TypeControlPlane) else TypeWorker)"

record config_request =
  cq_clusterName :: string
  cq_clusterEndpoint :: string
  cq_kubernetesVersion :: string
  cq_talosVersion :: string
  cq_machineType :: string
  cq_secretsBundle :: "string option"
  cq_configPatches :: "string list"
  cq_machineID :: string

record config_result =
  cr_machineConfig :: string
  cr_machineType :: string
  cr_machineID :: string

definition normalizeEndpoint :: "string \<Rightarrow> string" where
  "normalizeEndpoint endpoint0 =
     (let endpoint = (if endpoint0 = [] then ''https://127.0.0.1:6443'' else endpoint0) in
      if hasPrefix endpoint ''https://'' then endpoint else ''https://'' @ endpoint)"

definition GenerateConfig :: "talos_lib \<Rightarrow> config_request \<Rightarrow> config_result option" where
  "GenerateConfig lib req =
     (if cq_clusterName req = [] \<or> cq_kubernetesVersion req = [] \<or> cq_machineType req = [] then None
      else
        let endpoint = normalizeEndpoint (cq_clusterEndpoint req) in
        (case url_host lib endpoint of
           None \<Rightarrow> None
         | Some host \<Rightarrow>
             let talosVersion = (if cq_talosVersion req = [] then ''1.12.6'' else cq_talosVersion req) in
             (case parse_contract lib talosVersion of
                None \<Rightarrow> None
              | Some vc \<Rightarrow>
                  (case (case cq_secretsBundle req of Some raw \<Rightarrow> bundle_parse lib raw | None \<Rightarrow> new_bundle lib vc) of
                     None \<Rightarrow> None
                   | Some b \<Rightarrow>
                       if cq_machineType req \<notin> {TypeInit, TypeControlPlane, TypeWorker} then None
                       else
                         (case make_config lib
                                 \<lparr>ci_clusterName = cq_clusterName req, ci_endpoint = endpoint,
                                  ci_kubernetesVersion = cq_kubernetesVersion req, ci_host = host,
                                  ci_bundle = b, ci_contract = vc\<rparr> (cq_machineType req) of
                            None \<Rightarrow> None
                          | Some yaml \<Rightarrow>
                              map_option (\<lambda>y. \<lparr>cr_machineConfig = y, cr_machineType = cq_machineType req,
                                               cr_machineID = cq_machineID req\<rparr>)
                                (if cq_configPatches req \<noteq> [] then apply_patches lib yaml (cq_configPatches req)
                                 else Some yaml))))))"

text \<open>The bootstrap configuration; \<^verbatim>\<open>%q\<close> of an argument without quotes and newlines is the argument in quotes.\<close>

abbreviation dq :: string where "dq \<equiv> [CHR 0x22]"

definition BootstrapConfig :: "string \<Rightarrow> string list \<Rightarrow> string option" where
  "BootstrapConfig installDisk extraKernelArgs =
     (if list_ex (\<lambda>a. CHR 0x0A \<in> set a \<or> CHR 0x22 \<in> set a) extraKernelArgs then None
      else Some (''machine:'' @ [CHR 0x0A] @ ''    install:'' @ [CHR 0x0A] @
        (if installDisk \<noteq> [] then ''        disk: '' @ installDisk @ [CHR 0x0A] else []) @
        (if extraKernelArgs \<noteq> [] then ''        extraKernelArgs:'' @ [CHR 0x0A] @
           concat (map (\<lambda>a. ''            - '' @ dq @ a @ dq @ [CHR 0x0A]) extraKernelArgs) else [])))"

definition SiderolinkKernelArg :: "string \<Rightarrow> string \<Rightarrow> string" where
  "SiderolinkKernelArg endpoint bindingToken = ''siderolink.api=grpc://'' @ endpoint @ ''?jointoken='' @ bindingToken"

section \<open>The encrypted secrets file\<close>

text \<open>
  \<open>seal\<close> and \<open>open\<close> are AES-GCM under a key with a nonce; \<open>enc_data\<close> and \<open>dec_data\<close> are the JSON
  text of the tenants map. The file system is the contents of the two files, \<open>None\<close> when absent.
\<close>

record secrets_lib =
  gcm_seal :: "nat list \<Rightarrow> nat list \<Rightarrow> nat list \<Rightarrow> nat list"
  gcm_open :: "nat list \<Rightarrow> nat list \<Rightarrow> nat list \<Rightarrow> nat list option"
  nonce_size :: nat
  enc_data :: "gomap \<Rightarrow> nat list"
  dec_data :: "nat list \<Rightarrow> gomap option"

record secrets_fs =
  data_file :: "nat list option"
  key_file :: "nat list option"
  entropy :: "nat list list"

definition loadOrGenerateKey :: "secrets_fs \<Rightarrow> nat list option \<times> secrets_fs" where
  "loadOrGenerateKey fs =
     (case key_file fs of
        Some key \<Rightarrow> if length key = 32 then (Some key, fs)
                    else (case entropy fs of [] \<Rightarrow> (None, fs) | k # ks \<Rightarrow> (Some k, fs\<lparr>key_file := Some k, entropy := ks\<rparr>))
      | None \<Rightarrow> (case entropy fs of [] \<Rightarrow> (None, fs) | k # ks \<Rightarrow> (Some k, fs\<lparr>key_file := Some k, entropy := ks\<rparr>)))"

definition secrets_encrypt :: "secrets_lib \<Rightarrow> nat list \<Rightarrow> nat list \<Rightarrow> nat list \<Rightarrow> nat list" where
  "secrets_encrypt lib key nonce plain = nonce @ gcm_seal lib key nonce plain"

definition secrets_decrypt :: "secrets_lib \<Rightarrow> nat list \<Rightarrow> nat list \<Rightarrow> nat list option" where
  "secrets_decrypt lib key cipher =
     (if length cipher < nonce_size lib then None
      else gcm_open lib key (take (nonce_size lib) cipher) (drop (nonce_size lib) cipher))"

definition secrets_Load :: "secrets_lib \<Rightarrow> nat list \<Rightarrow> secrets_fs \<Rightarrow> gomap option" where
  "secrets_Load lib key fs =
     (case data_file fs of
        None \<Rightarrow> Some []
      | Some d \<Rightarrow> (case secrets_decrypt lib key d of None \<Rightarrow> None | Some plain \<Rightarrow> dec_data lib plain))"

definition secrets_Save :: "secrets_lib \<Rightarrow> nat list \<Rightarrow> gomap \<Rightarrow> secrets_fs \<Rightarrow> bool \<times> secrets_fs" where
  "secrets_Save lib key d fs =
     (case entropy fs of
        [] \<Rightarrow> (False, fs)
      | n # ns \<Rightarrow> (True, fs\<lparr>data_file := Some (secrets_encrypt lib key n (enc_data lib d)), entropy := ns\<rparr>))"

definition StoreTenantBundle :: "secrets_lib \<Rightarrow> nat list \<Rightarrow> string \<Rightarrow> string \<Rightarrow> secrets_fs \<Rightarrow> bool \<times> secrets_fs" where
  "StoreTenantBundle lib key tn b fs =
     (case secrets_Load lib key fs of None \<Rightarrow> (False, fs) | Some d \<Rightarrow> secrets_Save lib key (AList.update tn b d) fs)"

definition LoadTenantBundle :: "secrets_lib \<Rightarrow> nat list \<Rightarrow> string \<Rightarrow> secrets_fs \<Rightarrow> string option option" where
  "LoadTenantBundle lib key tn fs = map_option (\<lambda>d. map_of d tn) (secrets_Load lib key fs)"

definition DeleteTenantBundle :: "secrets_lib \<Rightarrow> nat list \<Rightarrow> string \<Rightarrow> secrets_fs \<Rightarrow> bool \<times> secrets_fs" where
  "DeleteTenantBundle lib key tn fs =
     (case secrets_Load lib key fs of None \<Rightarrow> (False, fs) | Some d \<Rightarrow> secrets_Save lib key (AList.delete tn d) fs)"

end
