(* ===== verification/Diff.thy ===== *)
theory Diff
  imports Prelude "HOL-Library.Sublist"
begin

text \<open>
  The configuration diff of \<^verbatim>\<open>internal/api/machine/diff.go\<close>: the table of longest common subsequence
  lengths, the edit script read off it, the hunks with three lines of context, and the printed text.
  The table is proved to hold the optimum, and the hunks to be a patch: applying them to the current
  lines gives the desired lines.
\<close>

section \<open>The edit script\<close>

datatype op_kind = Keep | Del | Add

type_synonym op = "op_kind \<times> string"

text \<open>
  One row of the table, from right to left: \<open>nxt\<close> is the row below it. An entry looks at the entry
  below and to the right, the one below, and the one to the right.
\<close>

fun lcsRow :: "'a \<Rightarrow> 'a list \<Rightarrow> nat list \<Rightarrow> nat list" where
  "lcsRow x [] nxt = [0]"
| "lcsRow x (y # ys) nxt =
     (let rest = lcsRow x ys (tl nxt) in
      (if x = y then hd (tl nxt) + 1 else if hd nxt \<ge> hd rest then hd nxt else hd rest) # rest)"

fun lcsTable :: "'a list \<Rightarrow> 'a list \<Rightarrow> nat list list" where
  "lcsTable [] b = [replicate (length b + 1) 0]"
| "lcsTable (x # xs) b = (let t = lcsTable xs b in lcsRow x b (hd t) # t)"

function walk :: "string list \<Rightarrow> string list \<Rightarrow> nat list list \<Rightarrow> nat \<Rightarrow> nat \<Rightarrow> op list" where
  "walk a b t i j =
     (if i < length a \<and> j < length b then
        if a ! i = b ! j then (Keep, a ! i) # walk a b t (i + 1) (j + 1)
        else if t ! (i + 1) ! j \<ge> t ! i ! (j + 1) then (Del, a ! i) # walk a b t (i + 1) j
        else (Add, b ! j) # walk a b t i (j + 1)
      else map (Pair Del) (drop i a) @ map (Pair Add) (drop j b))"
  by pat_completeness auto

termination
  by (relation "measure (\<lambda>(a, b, t, i, j). (length a - i) + (length b - j))") auto

declare walk.simps [simp del]

definition diffOps :: "string list \<Rightarrow> string list \<Rightarrow> op list" where
  "diffOps a b = walk a b (lcsTable a b) 0 0"

section \<open>Hunks\<close>

abbreviation ctx :: nat where "ctx \<equiv> 3"

definition change :: "op list \<Rightarrow> nat \<Rightarrow> bool" where
  "change ops k \<longleftrightarrow> fst (ops ! k) \<noteq> Keep"

text \<open>The line number in one of the files at an index of the script.\<close>

definition fileLine :: "op list \<Rightarrow> nat \<Rightarrow> op_kind \<Rightarrow> nat" where
  "fileLine ops upTo which = 1 + length (filter (\<lambda>o'. fst o' = Keep \<or> fst o' = which) (take upTo ops))"

text \<open>The loop that grows a hunk: \<open>os\<close> is the script from \<open>idx\<close> on.\<close>

fun growHunk :: "op list \<Rightarrow> nat \<Rightarrow> nat \<Rightarrow> nat" where
  "growHunk [] idx lst = lst"
| "growHunk (o' # os) idx lst =
     (if fst o' \<noteq> Keep then
        if idx - lst > 2 * ctx then lst else growHunk os (idx + 1) idx
      else growHunk os (idx + 1) lst)"

record hunk =
  h_aStart :: nat
  h_aCount :: nat
  h_bStart :: nat
  h_bCount :: nat
  h_ops :: "op list"

definition mkHunk :: "op list \<Rightarrow> nat \<Rightarrow> nat \<Rightarrow> hunk" where
  "mkHunk ops frm to =
     (let body = drop frm (take to ops) in
      \<lparr>h_aStart = fileLine ops frm Del, h_aCount = length (filter (\<lambda>o'. fst o' \<noteq> Add) body),
       h_bStart = fileLine ops frm Add, h_bCount = length (filter (\<lambda>o'. fst o' \<noteq> Del) body), h_ops = body\<rparr>)"

lemma growHunk_ge: "lst \<le> idx \<Longrightarrow> lst \<le> growHunk os idx lst"
  by (induction os idx lst rule: growHunk.induct) force+

function hunksFrom :: "op list \<Rightarrow> nat \<Rightarrow> hunk list" where
  "hunksFrom ops k =
     (if k \<ge> length ops then []
      else if \<not> change ops k then hunksFrom ops (k + 1)
      else
        let lst = growHunk (drop k ops) k k;
            frm = k - ctx;
            to = min (lst + 1 + ctx) (length ops)
        in mkHunk ops frm to # hunksFrom ops to)"
  by pat_completeness auto

termination
proof (relation "measure (\<lambda>(ops, k). length ops - k)", goal_cases)
  case (3 ops k lst frm to)
  have "k \<le> lst"
    using 3(3) growHunk_ge [of k k "drop k ops"] by simp
  then show ?case
    using 3 by auto
qed auto

declare hunksFrom.simps [simp del]

section \<open>The text\<close>

definition splitLines :: "string \<Rightarrow> string list" where
  "splitLines s = (let s = trimRightP (\<lambda>c. c = CHR 0x0A) s in if s = [] then [] else splitOn (CHR 0x0A) s)"

fun kindChar :: "op_kind \<Rightarrow> char" where
  "kindChar Keep = CHR '' ''"
| "kindChar Del = CHR ''-''"
| "kindChar Add = CHR ''+''"

abbreviation nl :: string where "nl \<equiv> [CHR 0x0A]"

definition printHunk :: "hunk \<Rightarrow> string" where
  "printHunk h =
     ''@@ -'' @ itoa (int (h_aStart h)) @ '','' @ itoa (int (h_aCount h)) @ '' +'' @ itoa (int (h_bStart h)) @ '','' @
     itoa (int (h_bCount h)) @ '' @@'' @ nl @ concat (map (\<lambda>(k, l). kindChar k # l @ nl) (h_ops h))"

definition unifiedDiff :: "string \<Rightarrow> string \<Rightarrow> string" where
  "unifiedDiff desired current =
     (let a = splitLines current; b = splitLines desired in
      if a = b then []
      else let ops = diffOps a b in
        if list_all (\<lambda>o'. fst o' = Keep) ops then []
        else ''--- current'' @ nl @ ''+++ desired'' @ nl @ concat (map printHunk (hunksFrom ops 0)))"

section \<open>The table holds the optimum\<close>

text \<open>The recursive specification of the optimal length, on the remaining lines of the two files.\<close>

fun lcs :: "'a list \<Rightarrow> 'a list \<Rightarrow> nat" where
  "lcs [] ys = 0"
| "lcs (x # xs) [] = 0"
| "lcs (x # xs) (y # ys) = (if x = y then lcs xs ys + 1 else max (lcs xs (y # ys)) (lcs (x # xs) ys))"

lemma lcs_Nil2 [simp]: "lcs xs [] = 0"
  by (cases xs) simp_all

definition specRow :: "'a list \<Rightarrow> 'a list \<Rightarrow> nat list" where
  "specRow xs ys = map (\<lambda>j. lcs xs (drop j ys)) [0..<length ys + 1]"

lemma specRow_Cons: "specRow xs (y # ys) = lcs xs (y # ys) # specRow xs ys"
  by (simp add: specRow_def map_upt_Suc del: upt_Suc)

lemma specRow_Nil: "specRow xs [] = [0]"
  by (simp add: specRow_def)

lemma hd_specRow: "hd (specRow xs ys) = lcs xs ys"
  by (cases ys) (simp_all add: specRow_Cons specRow_Nil)

lemma lcsRow_spec: "lcsRow x ys (specRow xs ys) = specRow (x # xs) ys"
  by (induction ys) (auto simp: specRow_Cons specRow_Nil hd_specRow Let_def)

lemma specRow_empty: "specRow [] ys = replicate (length ys + 1) 0"
  by (simp add: specRow_def map_replicate_const del: upt_Suc)

lemma lcsTable_spec: "lcsTable xs ys = map (\<lambda>i. specRow (drop i xs) ys) [0..<length xs + 1]"
proof (induction xs)
  case Nil
  then show ?case by (simp add: specRow_empty)
next
  case (Cons x xs)
  have "hd (lcsTable xs ys) = specRow xs ys"
    unfolding Cons.IH by (subst upt_conv_Cons) simp_all
  then show ?case
    by (simp add: Let_def lcsRow_spec Cons.IH map_upt_Suc del: upt_Suc)
qed

lemma table_entry: "i \<le> length xs \<Longrightarrow> j \<le> length ys \<Longrightarrow> lcsTable xs ys ! i ! j = lcs (drop i xs) (drop j ys)"
  by (simp add: lcsTable_spec specRow_def nth_append del: upt_Suc)

lemma lcs_upper: "subseq zs xs \<Longrightarrow> subseq zs ys \<Longrightarrow> length zs \<le> lcs xs ys"
proof (induction xs ys arbitrary: zs rule: lcs.induct)
  case (3 x xs y ys)
  show ?case
  proof (cases zs)
    case (Cons z zs')
    show ?thesis
    proof (cases "x = y")
      case True
      then have "subseq zs' xs" "subseq zs' ys"
        using 3(4,5) Cons by (auto simp: subseq_Cons' split: if_splits dest: subseq_Cons')
      then show ?thesis
        using 3(1) True Cons by simp
    next
      case False
      then have "subseq zs xs \<or> subseq zs ys"
        using 3(4,5) Cons by (auto split: if_splits)
      then show ?thesis
        using 3(2,3) [OF False] 3(4,5) False by fastforce
    qed
  qed simp
qed auto

section \<open>The script\<close>

definition oldLines :: "op list \<Rightarrow> string list" where
  "oldLines os = map snd (filter (\<lambda>o'. fst o' \<noteq> Add) os)"

definition newLines :: "op list \<Rightarrow> string list" where
  "newLines os = map snd (filter (\<lambda>o'. fst o' \<noteq> Del) os)"

lemma lines_simps [simp]:
  "oldLines [] = []" "newLines [] = []"
  "oldLines (o' # os) = (if fst o' = Add then oldLines os else snd o' # oldLines os)"
  "newLines (o' # os) = (if fst o' = Del then newLines os else snd o' # newLines os)"
  "oldLines (xs @ ys) = oldLines xs @ oldLines ys" "newLines (xs @ ys) = newLines xs @ newLines ys"
  "oldLines (map (Pair Del) ls) = ls" "oldLines (map (Pair Add) ls) = []"
  "newLines (map (Pair Del) ls) = []" "newLines (map (Pair Add) ls) = ls"
  by (simp_all add: oldLines_def newLines_def filter_map comp_def)

lemma walk_lines:
  "i \<le> length a \<Longrightarrow> j \<le> length b \<Longrightarrow> oldLines (walk a b t i j) = drop i a \<and> newLines (walk a b t i j) = drop j b"
proof (induction a b t i j rule: walk.induct)
  case (1 a b t i j)
  show ?case
  proof (cases "i < length a \<and> j < length b")
    case True
    have d: "drop i a = a ! i # drop (Suc i) a" "drop j b = b ! j # drop (Suc j) b"
      using True by (simp_all add: Cons_nth_drop_Suc)
    show ?thesis
      unfolding walk.simps [of a b t i j] d using 1 True by (simp add: d)
  next
    case False
    then show ?thesis
      using 1(4,5) unfolding walk.simps [of a b t i j] by auto
  qed
qed

abbreviation kept :: "op list \<Rightarrow> nat" where
  "kept os \<equiv> length (filter (\<lambda>o'. fst o' = Keep) os)"

lemma walk_kept:
  "i \<le> length a \<Longrightarrow> j \<le> length b \<Longrightarrow> kept (walk a b (lcsTable a b) i j) = lcs (drop i a) (drop j b)"
proof (induction a b "lcsTable a b" i j rule: walk.induct)
  case (1 a b i j)
  show ?case
  proof (cases "i < length a \<and> j < length b")
    case True
    then have d: "drop i a = a ! i # drop (Suc i) a" "drop j b = b ! j # drop (Suc j) b"
      by (simp_all add: Cons_nth_drop_Suc)
    show ?thesis
      unfolding walk.simps [of a b "lcsTable a b" i j] using 1 True by (simp add: table_entry d max_def)
  next
    case False
    then show ?thesis
      using 1(4,5) unfolding walk.simps [of a b "lcsTable a b" i j] by (auto simp: filter_map comp_def)
  qed
qed

definition keptLines :: "op list \<Rightarrow> string list" where
  "keptLines os = map snd (filter (\<lambda>o'. fst o' = Keep) os)"

section \<open>The hunks\<close>

text \<open>
  Applying hunks as a patch tool does: \<open>p\<close> and \<open>q\<close> are the numbers of the next line of the two files.
  A hunk must name the right line of both, its counts must be those of its lines, and the lines it
  keeps or removes must be there.
\<close>

fun applyHunks :: "nat \<Rightarrow> nat \<Rightarrow> string list \<Rightarrow> hunk list \<Rightarrow> string list option" where
  "applyHunks p q a [] = Some a"
| "applyHunks p q a (h # hs) =
     (let n = h_aStart h - p; old = oldLines (h_ops h); new = newLines (h_ops h) in
      if h_aStart h < p \<or> h_bStart h \<noteq> q + n \<or> h_aCount h \<noteq> length old \<or> h_bCount h \<noteq> length new \<or>
         take (length old) (drop n a) \<noteq> old then None
      else map_option (\<lambda>r. take n a @ new @ r)
             (applyHunks (p + n + length old) (q + n + length new) (drop (n + length old) a) hs))"

lemma fileLine_seg:
  assumes "k \<le> m"
  shows "fileLine ops m Del = fileLine ops k Del + length (oldLines (drop k (take m ops)))"
    and "fileLine ops m Add = fileLine ops k Add + length (newLines (drop k (take m ops)))"
proof -
  have s: "take m ops = take k ops @ drop k (take m ops)"
    using assms by (metis append_take_drop_id min.absorb_iff1 take_take)
  have d: "(fst o' = Keep \<or> fst o' = Del) = (fst o' \<noteq> Add)" "(fst o' = Keep \<or> fst o' = Add) = (fst o' \<noteq> Del)" for o' :: op
    by (cases "fst o'"; simp)+
  show "fileLine ops m Del = fileLine ops k Del + length (oldLines (drop k (take m ops)))"
    unfolding fileLine_def oldLines_def d by (subst s) simp
  show "fileLine ops m Add = fileLine ops k Add + length (newLines (drop k (take m ops)))"
    unfolding fileLine_def newLines_def d by (subst s) simp
qed

lemma growHunk_clear:
  assumes "l < idx" "idx \<le> length ops" "\<forall>i. l < i \<and> i < idx \<longrightarrow> \<not> change ops i"
  shows "let r = growHunk (drop idx ops) idx l in
    l \<le> r \<and> r < length ops \<and> (\<forall>i. r < i \<and> i \<le> r + 6 \<and> i < length ops \<longrightarrow> \<not> change ops i)"
  using assms
proof (induction "length ops - idx" arbitrary: idx l)
  case 0
  then show ?case
    by (auto simp: Let_def)
next
  case (Suc n)
  then have i: "idx < length ops"
    by simp
  have d: "drop idx ops = ops ! idx # drop (Suc idx) ops"
    using i by (simp add: Cons_nth_drop_Suc)
  have n: "n = length ops - Suc idx"
    using Suc(2) by simp
  consider (brk) "change ops idx" "idx - l > 6" | (ext) "change ops idx" "\<not> idx - l > 6" | (ctx) "\<not> change ops idx"
    by blast
  then show ?case
  proof cases
    case brk
    then have "growHunk (drop idx ops) idx l = l"
      by (simp add: d change_def)
    then show ?thesis
      using Suc(3-5) brk(2) by (auto simp: Let_def)
  next
    case ext
    then have "growHunk (drop idx ops) idx l = growHunk (drop (Suc idx) ops) (Suc idx) idx"
      by (simp add: d change_def)
    then show ?thesis
      using Suc(1) [OF n, of idx] i Suc(3) by (fastforce simp: Let_def)
  next
    case ctx
    then have "growHunk (drop idx ops) idx l = growHunk (drop (Suc idx) ops) (Suc idx) l"
      by (simp add: d change_def)
    moreover have "\<forall>i. l < i \<and> i < Suc idx \<longrightarrow> \<not> change ops i"
      using Suc(5) ctx less_Suc_eq by auto
    ultimately show ?thesis
      using Suc(1) [OF n, of l] i Suc(3) by simp
  qed
qed

lemma growHunk_first:
  assumes "k < length ops" "change ops k" "r = growHunk (drop k ops) k k"
  shows "k \<le> r" "r < length ops" "\<forall>i. r < i \<and> i \<le> r + 6 \<and> i < length ops \<longrightarrow> \<not> change ops i"
proof -
  have "growHunk (drop k ops) k k = growHunk (drop (Suc k) ops) (Suc k) k"
    using assms(1,2) by (subst Cons_nth_drop_Suc [OF assms(1), symmetric]) (simp add: change_def)
  moreover have "\<forall>i. k < i \<and> i < Suc k \<longrightarrow> \<not> change ops i"
    by auto
  ultimately show "k \<le> r" "r < length ops" "\<forall>i. r < i \<and> i \<le> r + 6 \<and> i < length ops \<longrightarrow> \<not> change ops i"
    using growHunk_clear [of k "Suc k" ops] assms by (auto simp: Let_def)
qed

lemma same_lines:
  assumes "\<forall>i. k \<le> i \<and> i < m \<and> i < length ops \<longrightarrow> \<not> change ops i"
  shows "oldLines (drop k (take m ops)) = newLines (drop k (take m ops))"
proof -
  have "fst o' = Keep" if "o' \<in> set (drop k (take m ops))" for o'
  proof -
    from that obtain i where i: "i < min (length ops) m - k" "o' = drop k (take m ops) ! i"
      by (auto simp: in_set_conv_nth)
    then have b: "k + i < m" "k + i < length ops"
      by linarith+
    then have "o' = ops ! (k + i)"
      using i(2) by simp
    note this b
    then show ?thesis
      using assms by (simp add: change_def)
  qed
  then show ?thesis
    unfolding oldLines_def newLines_def by (auto intro!: arg_cong [where f = "map snd"] filter_cong)
qed

lemma applyHunks_mkHunk:
  assumes "k \<le> frm" "frm \<le> to" "to \<le> length ops" "\<forall>i. k \<le> i \<and> i < frm \<longrightarrow> \<not> change ops i"
    and rest: "applyHunks (fileLine ops to Del) (fileLine ops to Add) (oldLines (drop to ops)) hs = Some (newLines (drop to ops))"
  shows "applyHunks (fileLine ops k Del) (fileLine ops k Add) (oldLines (drop k ops)) (mkHunk ops frm to # hs) =
    Some (newLines (drop k ops))"
proof -
  define seg body where "seg = drop k (take frm ops)" and "body = drop frm (take to ops)"
  have split: "drop k ops = seg @ body @ drop to ops"
  proof -
    have "take to ops = take frm ops @ body"
      using assms(2) unfolding body_def by (metis append_take_drop_id min.absorb_iff1 take_take)
    then have "ops = take frm ops @ body @ drop to ops"
      by (metis append.assoc append_take_drop_id)
    then have "drop k ops = drop k (take frm ops @ body @ drop to ops)"
      by simp
    then show ?thesis
      using assms(1-3) by (simp add: seg_def)
  qed
  have seg: "oldLines seg = newLines seg"
    unfolding seg_def by (rule same_lines) (use assms(4) in blast)
  have counts: "length (filter (\<lambda>o'. fst o' \<noteq> Add) body) = length (oldLines body)"
    "length (filter (\<lambda>o'. fst o' \<noteq> Del) body) = length (newLines body)"
    by (simp_all add: oldLines_def newLines_def)
  have pos: "fileLine ops frm Del = fileLine ops k Del + length (oldLines seg)"
    "fileLine ops frm Add = fileLine ops k Add + length (oldLines seg)"
    "fileLine ops to Del = fileLine ops k Del + length (oldLines seg) + length (oldLines body)"
    "fileLine ops to Add = fileLine ops k Add + length (oldLines seg) + length (newLines body)"
    using fileLine_seg [OF assms(1), of ops] fileLine_seg [OF assms(2), of ops] seg
    by (simp_all add: seg_def body_def)
  show ?thesis
    using rest by (simp add: split mkHunk_def body_def [symmetric] counts pos seg Let_def)
qed

lemma hunksFrom_patch:
  assumes "k0 \<le> k" "k \<le> length ops" "\<forall>i. k0 \<le> i \<and> i < k \<longrightarrow> \<not> change ops i"
    "k0 = 0 \<or> (\<forall>i<3. k0 + i < length ops \<longrightarrow> \<not> change ops (k0 + i))"
  shows "applyHunks (fileLine ops k0 Del) (fileLine ops k0 Add) (oldLines (drop k0 ops)) (hunksFrom ops k) =
    Some (newLines (drop k0 ops))"
  using assms
proof (induction ops k arbitrary: k0 rule: hunksFrom.induct)
  case (1 ops k)
  consider (stop) "k \<ge> length ops" | (skip) "k < length ops" "\<not> change ops k" | (hunk) "k < length ops" "change ops k"
    by linarith
  then show ?case
  proof cases
    case stop
    then have "hunksFrom ops k = []"
      by (simp add: hunksFrom.simps)
    then show ?thesis
      using same_lines [of k0 "length ops" ops] 1(5) stop by auto
  next
    case skip
    then have eq: "hunksFrom ops k = hunksFrom ops (k + 1)"
      by (simp add: hunksFrom.simps)
    have clear: "\<forall>i. k0 \<le> i \<and> i < k + 1 \<longrightarrow> \<not> change ops i"
      using 1(5) skip by (metis Suc_eq_plus1 less_Suc_eq)
    show ?thesis
      unfolding eq by (rule 1(1)) (use skip 1(3,6) clear in auto)
  next
    case hunk
    define r where "r = growHunk (drop k ops) k k"
    define to where "to = min (r + 1 + ctx) (length ops)"
    have r: "k \<le> r" "r < length ops" "\<forall>i. r < i \<and> i \<le> r + 6 \<and> i < length ops \<longrightarrow> \<not> change ops i"
      using growHunk_first [OF hunk r_def] by blast+
    have eq: "hunksFrom ops k = mkHunk ops (k - ctx) to # hunksFrom ops to"
      using hunk by (subst hunksFrom.simps) (simp add: r_def to_def Let_def)
    have k0: "k0 \<le> k - ctx"
      using 1(6) hunk 1(3)
    proof (elim disjE)
      assume a: "\<forall>i<3. k0 + i < length ops \<longrightarrow> \<not> change ops (k0 + i)"
      have "\<not> k < k0 + 3"
      proof
        assume "k < k0 + 3"
        then have "k - k0 < 3"
          using 1(3) by arith
        then show False
          using a [rule_format, of "k - k0"] hunk 1(3) by simp
      qed
      then show ?thesis by simp
    qed simp
    have "\<forall>i<3. to + i < length ops \<longrightarrow> \<not> change ops (to + i)"
      using r(3) by (auto simp: to_def min_def)
    then have next3: "to = 0 \<or> (\<forall>i<3. to + i < length ops \<longrightarrow> \<not> change ops (to + i))"
      by blast
    have n: "\<not> k \<ge> length ops" "\<not> \<not> change ops k" and to: "to \<le> length ops"
      using hunk by (auto simp: to_def)
    have rest: "applyHunks (fileLine ops to Del) (fileLine ops to Add) (oldLines (drop to ops)) (hunksFrom ops to) =
        Some (newLines (drop to ops))"
      by (rule 1(2) [OF n r_def refl to_def order_refl to _ next3]) linarith
    show ?thesis
      unfolding eq
      by (rule applyHunks_mkHunk [OF k0 _ _ _ rest]) (use r(1) hunk(1) 1(5) in \<open>auto simp: to_def\<close>)
  qed
qed

lemma hunks_patch: "applyHunks 1 1 (oldLines ops) (hunksFrom ops 0) = Some (newLines ops)"
  using hunksFrom_patch [of 0 0 ops] by (simp add: fileLine_def)

lemma diffOps_lines: "oldLines (diffOps a b) = a" "newLines (diffOps a b) = b"
  using walk_lines [of 0 a 0 b "lcsTable a b"] by (simp_all add: diffOps_def)

lemma diffOps_change: "a \<noteq> b \<Longrightarrow> \<not> list_all (\<lambda>o'. fst o' = Keep) (diffOps a b)"
proof
  assume "a \<noteq> b" "list_all (\<lambda>o'. fst o' = Keep) (diffOps a b)"
  moreover have "list_all (\<lambda>o'. fst o' = Keep) os \<Longrightarrow> oldLines os = newLines os" for os :: "op list"
    by (induction os) auto
  ultimately show False
    using diffOps_lines [of a b] by simp
qed

section \<open>What the diff promises\<close>

text \<open>
  C14: The edit script of the configuration diff is correct and shortest. Its kept and removed lines are
  the current file, its kept and added lines the desired file; the lines it keeps number the longest
  common subsequence: no sequence of lines that occurs in order in both files is longer. So the diff
  shows an operator no change that is not one.
\<close>

theorem diff_optimal:
  "let ops = diffOps a b in
     oldLines ops = a \<and> newLines ops = b \<and> kept ops = lcs a b \<and>
     (\<forall>zs. subseq zs a \<and> subseq zs b \<longrightarrow> length zs \<le> kept ops) \<and>
     (\<exists>zs. subseq zs a \<and> subseq zs b \<and> length zs = kept ops)"
proof -
  have k: "kept (diffOps a b) = lcs a b"
    using walk_kept [of 0 a 0 b] by (simp add: diffOps_def)
  have "subseq (keptLines os) (oldLines os) \<and> subseq (keptLines os) (newLines os) \<and>
      length (keptLines os) = kept os" for os
    by (induction os) (auto simp: keptLines_def)
  then have "subseq (keptLines (diffOps a b)) a" "subseq (keptLines (diffOps a b)) b"
    "length (keptLines (diffOps a b)) = kept (diffOps a b)"
    using diffOps_lines [of a b] by metis+
  then show ?thesis
    using diffOps_lines [of a b] k lcs_upper [of _ a b] by (simp only: Let_def) metis
qed

theorem diff_optimal_witness:
  "oldLines (diffOps [''a'', ''b'', ''c''] [''b'', ''x'', ''c'']) = [''a'', ''b'', ''c''] \<and>
   subseq [''b'', ''c''] [''a'', ''b'', ''c''] \<and> subseq [''b'', ''c''] [''b'', ''x'', ''c''] \<and>
   length [''b'', ''c''] \<le> kept (diffOps [''a'', ''b'', ''c''] [''b'', ''x'', ''c''])"
proof -
  have "subseq [''b'', ''c''] [''a'', ''b'', ''c'']" "subseq [''b'', ''c''] [''b'', ''x'', ''c'']"
    by simp_all
  then show ?thesis
    using diff_optimal [of "[''a'', ''b'', ''c'']" "[''b'', ''x'', ''c'']"] unfolding Let_def by blast
qed

text \<open>
  C15: The printed hunks are a patch. Applied in order to the lines of the current configuration, each at
  the line number it names for both files, with the counts of its header and with every line it keeps or
  removes found in place, the hunks give exactly the lines of the desired configuration. The printed text
  is empty exactly when the two configurations have the same lines.
\<close>

theorem diff_patches:
  "let a = splitLines current; b = splitLines desired in
     applyHunks 1 1 a (hunksFrom (diffOps a b) 0) = Some b \<and>
     (unifiedDiff desired current = [] \<longleftrightarrow> a = b) \<and>
     (a \<noteq> b \<longrightarrow> unifiedDiff desired current =
        ''--- current'' @ nl @ ''+++ desired'' @ nl @ concat (map printHunk (hunksFrom (diffOps a b) 0)))"
  using hunks_patch [of "diffOps (splitLines current) (splitLines desired)"] diffOps_change
  by (auto simp: diffOps_lines unifiedDiff_def Let_def)

theorem diff_patches_witness:
  "splitLines ''x'' \<noteq> splitLines ''y'' \<and> unifiedDiff ''y'' ''x'' =
     ''--- current'' @ nl @ ''+++ desired'' @ nl @
     concat (map printHunk (hunksFrom (diffOps (splitLines ''x'') (splitLines ''y'')) 0))"
proof -
  have "splitLines ''x'' \<noteq> splitLines ''y''"
    by code_simp
  then show ?thesis
    using diff_patches [of "''x''" "''y''"] unfolding Let_def by blast
qed

end
