(* ===== verification/Api.thy ===== *)
theory Api
  imports Credentials Reconcile Applier Diff
begin

text \<open>
  The REST handlers for tenants, node groups, machines, configuration patches and providers:
  \<^verbatim>\<open>internal/api\<close> with \<^verbatim>\<open>internal/pagination\<close>, \<^verbatim>\<open>internal/validation\<close>, \<^verbatim>\<open>internal/configrender\<close>
  and the patch resolution. A request is its path values, its decoded body (\<open>None\<close> when the body
  does not decode) and its query; a reply is its status code with the encoded value, or with the
  \<^verbatim>\<open>reason\<close> of the error body (the \<^verbatim>\<open>message\<close> text is not modelled).
\<close>

section \<open>Requests and replies\<close>

datatype 'a reply =
    Reply int 'a
  | Fail int string
  | NoBody int
  | Stream string "string option"

abbreviation "BadRequest \<equiv> Fail 400 ''BadRequest''"
abbreviation "NotFound \<equiv> Fail 404 ''NotFound''"
abbreviation "Conflict \<equiv> Fail 409 ''Conflict''"
abbreviation "InternalError \<equiv> Fail 500 ''InternalError''"
abbreviation "ServiceUnavailable \<equiv> Fail 503 ''ServiceUnavailable''"
abbreviation "Unavailable \<equiv> Fail 503 ''Unavailable''"

text \<open>The query parameters the list handlers read; an absent parameter is the empty string.\<close>

record query =
  q_watch :: string
  q_limit :: string
  q_offset :: string

section \<open>Pagination\<close>

abbreviation DefaultLimit :: int where "DefaultLimit \<equiv> 100"
abbreviation MaxLimit :: int where "MaxLimit \<equiv> 500"

text \<open>\<^verbatim>\<open>strconv.Atoi\<close>: an optional sign and decimal digits, within the range of \<^verbatim>\<open>int64\<close>.\<close>

definition isDigit :: "char \<Rightarrow> bool" where
  "isDigit c \<longleftrightarrow> 48 \<le> (of_char c :: nat) \<and> (of_char c :: nat) \<le> 57"

definition digitsValue :: "string \<Rightarrow> nat" where
  "digitsValue ds = foldl (\<lambda>n c. 10 * n + (of_char c - 48)) 0 ds"

definition atoi :: "string \<Rightarrow> int option" where
  "atoi s =
     (let neg = hasPrefix s ''-'';
          ds = (if neg \<or> hasPrefix s ''+'' then drop 1 s else s)
      in if ds = [] \<or> \<not> list_all isDigit ds then None
         else let v = (if neg then - int (digitsValue ds) else int (digitsValue ds)) in
           if v < - (2 ^ 63) \<or> v \<ge> 2 ^ 63 then None else Some v)"

record params =
  pg_limit :: int
  pg_offset :: int

definition Parse :: "query \<Rightarrow> params" where
  "Parse q =
     \<lparr>pg_limit =
        (if q_limit q \<noteq> [] then
           (case atoi (q_limit q) of
              None \<Rightarrow> DefaultLimit
            | Some n \<Rightarrow> if n \<le> 0 then DefaultLimit else if n > MaxLimit then MaxLimit else n)
         else DefaultLimit),
      pg_offset =
        (if q_offset q \<noteq> [] then
           (case atoi (q_offset q) of None \<Rightarrow> 0 | Some n \<Rightarrow> if n \<ge> 0 then n else 0)
         else 0)\<rparr>"

definition RemainingItemCount :: "int \<Rightarrow> int \<Rightarrow> int \<Rightarrow> int" where
  "RemainingItemCount tot offset returned =
     (let r = tot - offset - returned in if r < 0 then 0 else r)"

record 'a list_response =
  lr_items :: "'a list"
  lr_total :: int
  lr_remaining :: int

definition mk_list :: "params \<Rightarrow> 'a list \<Rightarrow> int \<Rightarrow> 'a list_response" where
  "mk_list pg items tot =
     \<lparr>lr_items = items, lr_total = tot,
      lr_remaining = RemainingItemCount tot (pg_offset pg) (int (length items))\<rparr>"

section \<open>Validation\<close>

record patch_spec =
  ps_patch :: string
  ps_format :: string
  ps_scope :: string
  ps_targetMachine :: string
  ps_targetRole :: string
  ps_enabled :: bool

definition enc_patch_spec :: "patch_spec \<Rightarrow> json" where
  "enc_patch_spec x = jobj [
    (''patch'', eStr (ps_patch x)),
    (''format'', oStr (ps_format x)),
    (''scope'', oStr (ps_scope x)),
    (''targetMachine'', oStr (ps_targetMachine x)),
    (''targetRole'', oStr (ps_targetRole x)),
    (''enabled'', eBool (ps_enabled x))]"

definition dec_patch_spec :: "json \<Rightarrow> patch_spec" where
  "dec_patch_spec j = \<lparr>
    ps_patch = dStr ''patch'' j,
    ps_format = dStr ''format'' j,
    ps_scope = dStr ''scope'' j,
    ps_targetMachine = dStr ''targetMachine'' j,
    ps_targetRole = dStr ''targetRole'' j,
    ps_enabled = dBool ''enabled'' j\<rparr>"

definition ok_patch_spec :: "json \<Rightarrow> bool" where
  "ok_patch_spec j \<longleftrightarrow> orNull isObj j \<and> fieldOk isStr ''patch'' j \<and> fieldOk isStr ''format'' j \<and>
     fieldOk isStr ''scope'' j \<and> fieldOk isStr ''targetMachine'' j \<and> fieldOk isStr ''targetRole'' j \<and>
     fieldOk isBool ''enabled'' j"

text \<open>The specs the handlers hand to the registry, and the registry: \<open>None\<close> is the nil registry.\<close>

datatype any_spec = SpecTenant tenant_spec | SpecNodeGroup ng_spec_json | SpecPatch patch_spec

type_synonym validator = "any_spec \<Rightarrow> bool"
type_synonym registry = "(string \<times> validator) list option"

definition NewRegistry :: registry where
  "NewRegistry = Some []"

definition Register :: "string \<Rightarrow> validator \<Rightarrow> registry \<Rightarrow> registry" where
  "Register rt v r = map_option (AList.update rt v) r"

definition Validate :: "registry \<Rightarrow> string \<Rightarrow> any_spec \<Rightarrow> bool" where
  "Validate r rt spec =
     (case r of None \<Rightarrow> True | Some m \<Rightarrow> (case map_of m rt of None \<Rightarrow> True | Some v \<Rightarrow> v spec))"

fun validateTenantSpec :: validator where
  "validateTenantSpec (SpecTenant s) = (trimSpace (ts_kubernetesVersion s) \<noteq> [])"
| "validateTenantSpec _ = False"

fun validateNodeGroup :: validator where
  "validateNodeGroup (SpecNodeGroup s) = (nsj_count s \<ge> 0 \<and> nsj_role s \<in> {''controlplane'', ''worker''})"
| "validateNodeGroup _ = True"

definition ValidFormats :: "string \<Rightarrow> bool" where
  "ValidFormats f \<longleftrightarrow> f \<in> {''strategic'', ''json6902'', ''text'', []}"

definition ValidTargetRoles :: "string \<Rightarrow> bool" where
  "ValidTargetRoles r \<longleftrightarrow> r \<in> {[], ''all'', ''controlplane'', ''worker'', ''kernel''}"

abbreviation "ScopeCluster \<equiv> ''cluster''"
abbreviation "ScopeMachine \<equiv> ''machine''"

definition ValidScopes :: "string \<Rightarrow> bool" where
  "ValidScopes s \<longleftrightarrow> s \<in> {[], ScopeCluster, ScopeMachine}"

definition effectiveScope :: "string \<Rightarrow> string" where
  "effectiveScope scope = (if scope = [] then ScopeCluster else scope)"

definition ValidateScope :: "string \<Rightarrow> string \<Rightarrow> bool" where
  "ValidateScope scope targetMachine \<longleftrightarrow>
     ValidScopes scope \<and>
     \<not> (effectiveScope scope = ScopeMachine \<and> trimSpace targetMachine = []) \<and>
     \<not> (scope \<noteq> ScopeMachine \<and> targetMachine \<noteq> [])"

text \<open>\<open>yaml_ok\<close>: the text is YAML. \<open>json_ops\<close>: the length of the JSON array of objects it is, if it is one.\<close>

fun validatePatch :: "(string \<Rightarrow> bool) \<Rightarrow> (string \<Rightarrow> nat option) \<Rightarrow> validator" where
  "validatePatch yaml_ok json_ops (SpecPatch s) =
     (trimSpace (ps_patch s) \<noteq> [] \<and> ValidFormats (ps_format s) \<and> ValidTargetRoles (ps_targetRole s) \<and>
      ValidateScope (ps_scope s) (ps_targetMachine s) \<and>
      (if ps_format s \<in> {[], ''strategic''} then yaml_ok (ps_patch s)
       else if ps_format s = ''json6902'' then (case json_ops (ps_patch s) of None \<Rightarrow> False | Some n \<Rightarrow> n \<noteq> 0)
       else True))"
| "validatePatch yaml_ok json_ops _ = True"

text \<open>The registry after the three handlers have registered, as \<^verbatim>\<open>NewRouter\<close> builds them.\<close>

definition routerRegistry :: "(string \<Rightarrow> bool) \<Rightarrow> (string \<Rightarrow> nat option) \<Rightarrow> registry \<Rightarrow> registry" where
  "routerRegistry yaml_ok json_ops r =
     Register ''configpatch'' (validatePatch yaml_ok json_ops)
       (Register ''nodegroup'' validateNodeGroup (Register ''tenant'' validateTenantSpec r))"

record api_env =
  av_bus :: bool
  av_registry :: registry
  av_lib :: talos_lib
  av_fetcher :: "(string \<Rightarrow> string option) option"

section \<open>Tenants\<close>

record 'a api_request =
  rq_metadata :: metadata
  rq_spec :: 'a

definition tenant_Create :: "api_env \<Rightarrow> tenant_spec api_request option \<Rightarrow> store \<Rightarrow> tenant reply \<times> store" where
  "tenant_Create env body s0 =
     (case body of
        None \<Rightarrow> (BadRequest, s0)
      | Some req \<Rightarrow>
          let name = md_name (rq_metadata req);
              spec = (if ts_kubernetesVersion (rq_spec req) = [] then (rq_spec req)\<lparr>ts_kubernetesVersion := ''1.35.0''\<rparr>
                      else rq_spec req)
          in
          if name = [] then (BadRequest, s0)
          else if \<not> Validate (av_registry env) ''tenant'' (SpecTenant spec) then (BadRequest, s0)
          else (case GetTenant name s0 of
                  (Inl _, s) \<Rightarrow> (InternalError, s)
                | (Inr (Some _), s) \<Rightarrow> (Conflict, s)
                | (Inr None, s) \<Rightarrow>
                    (case CreateTenant name spec (md_labels (rq_metadata req)) (md_annotations (rq_metadata req)) s of
                       (Inl _, s) \<Rightarrow> (InternalError, s)
                     | (Inr t, s) \<Rightarrow>
                         let talosVersion = (if ts_talosVersion spec = [] then ''1.12.0'' else ts_talosVersion spec) in
                         (Reply 201 t,
                          case GenerateSecretsBundle (av_lib env) talosVersion of
                            None \<Rightarrow> s
                          | Some b \<Rightarrow> (case SecretsBundleJSON (av_lib env) b of
                                         None \<Rightarrow> s
                                       | Some raw \<Rightarrow> snd (SaveTenantSecrets name raw s))))))"

definition tenant_List :: "api_env \<Rightarrow> query \<Rightarrow> store \<Rightarrow> tenant list_response reply \<times> store" where
  "tenant_List env q s =
     (if q_watch q = ''true'' then
        if \<not> av_bus env then (ServiceUnavailable, s) else (Stream ''tenant'' None, s)
      else let pg = Parse q in
        (case ListTenants [WithLimit (pg_limit pg), WithOffset (pg_offset pg)] s of
           (Inl _, s) \<Rightarrow> (InternalError, s)
         | (Inr (ts, tot), s) \<Rightarrow> (Reply 200 (mk_list pg ts tot), s)))"

definition tenant_Get :: "string \<Rightarrow> store \<Rightarrow> tenant reply \<times> store" where
  "tenant_Get name s =
     (case GetTenant name s of
        (Inl _, s) \<Rightarrow> (InternalError, s)
      | (Inr None, s) \<Rightarrow> (NotFound, s)
      | (Inr (Some t), s) \<Rightarrow> (Reply 200 t, s))"

definition tenant_Update :: "string \<Rightarrow> tenant_spec api_request option \<Rightarrow> store \<Rightarrow> tenant reply \<times> store" where
  "tenant_Update name body s =
     (case body of
        None \<Rightarrow> (BadRequest, s)
      | Some req \<Rightarrow>
          let md = rq_metadata req in
          if md_resourceVersion md = 0 then (BadRequest, s)
          else (case UpdateTenantSpec name (md_resourceVersion md) (rq_spec req) (md_labels md) (md_annotations md) s of
                  (Inl e, s) \<Rightarrow>
                    (if e = ErrConflict then Conflict else if e = ErrNotFound then NotFound else InternalError, s)
                | (Inr t, s) \<Rightarrow> (Reply 200 t, s)))"

definition tenant_UpdateStatus :: "string \<Rightarrow> tenant_status option \<Rightarrow> store \<Rightarrow> tenant reply \<times> store" where
  "tenant_UpdateStatus name body s =
     (case body of
        None \<Rightarrow> (BadRequest, s)
      | Some st \<Rightarrow>
          (case UpdateTenantStatus name st s of
             (Inl e, s) \<Rightarrow> (if e = ErrNotFound then NotFound else InternalError, s)
           | (Inr t, s) \<Rightarrow> (Reply 200 t, s)))"

definition tenant_Delete :: "string \<Rightarrow> store \<Rightarrow> tenant reply \<times> store" where
  "tenant_Delete name s =
     (case DeleteTenant name s of
        (Inl e, s) \<Rightarrow> (if e = ErrNotFound then NotFound else InternalError, s)
      | (Inr _, s) \<Rightarrow>
          (case GetTenant name s of
             (Inr (Some t), s) \<Rightarrow> (Reply 202 t, s)
           | (_, s) \<Rightarrow> (NoBody 204, s)))"

text \<open>The part \<^verbatim>\<open>Kubeconfig\<close> and \<^verbatim>\<open>Talosconfig\<close> share: the tenant and its parsed bundle.\<close>

definition tenantBundle :: "api_env \<Rightarrow> string \<Rightarrow> store \<Rightarrow> (string reply + tenant \<times> secrets_bundle option) \<times> store" where
  "tenantBundle env name s =
     (case GetTenant name s of
        (Inl _, s) \<Rightarrow> (Inl InternalError, s)
      | (Inr None, s) \<Rightarrow> (Inl NotFound, s)
      | (Inr (Some t), s) \<Rightarrow>
          (case LoadTenantSecrets name s of
             (Inl _, s) \<Rightarrow> (Inl InternalError, s)
           | (Inr None, s) \<Rightarrow> (Inl NotFound, s)
           | (Inr (Some raw), s) \<Rightarrow>
               (case UnmarshalSecretsBundle (av_lib env) raw of
                  None \<Rightarrow> (Inl InternalError, s)
                | Some b \<Rightarrow> (Inr (t, b), s))))"

definition tenant_Kubeconfig :: "api_env \<Rightarrow> string \<Rightarrow> store \<Rightarrow> string reply \<times> store" where
  "tenant_Kubeconfig env name s =
     (case tenantBundle env name s of
        (Inl e, s) \<Rightarrow> (e, s)
      | (Inr (t, b), s) \<Rightarrow>
          (case GenerateKubeconfig (av_lib env) name (ts_controlPlaneEndpoint (t_spec t)) b of
             None \<Rightarrow> (InternalError, s)
           | Some kc \<Rightarrow> (Reply 200 kc, s)))"

definition tenant_Talosconfig :: "api_env \<Rightarrow> string \<Rightarrow> store \<Rightarrow> string reply \<times> store" where
  "tenant_Talosconfig env name s =
     (case tenantBundle env name s of
        (Inl e, s) \<Rightarrow> (e, s)
      | (Inr (t, b), s) \<Rightarrow>
          (case GenerateTalosconfig (av_lib env) name (ts_controlPlaneEndpoint (t_spec t)) b of
             None \<Rightarrow> (InternalError, s)
           | Some tc \<Rightarrow> (Reply 200 tc, s)))"

end
