(* ===== verification/Api_Resources.thy ===== *)
theory Api_Resources
  imports Api
begin

text \<open>
  The handlers of the tenant-scoped resources: node groups (\<^verbatim>\<open>internal/api/nodegroup\<close>), configuration
  patches and their resolution (\<^verbatim>\<open>internal/api/patch\<close>), the rendering pipeline
  (\<^verbatim>\<open>internal/configrender\<close>), machines (\<^verbatim>\<open>internal/api/machine\<close>) and providers
  (\<^verbatim>\<open>internal/api/provider\<close>).
\<close>

text \<open>The loop that copies the user's labels into a map, all but the two reserved ones.\<close>

definition copyUserLabels :: "gomap \<Rightarrow> gomap \<Rightarrow> gomap" where
  "copyUserLabels src dst =
     fold (\<lambda>(k, v) m. if k \<noteq> tenantLabel \<and> k \<noteq> roleLabel then AList.update k v m else m) src dst"

section \<open>Node groups\<close>

record node_group =
  g_metadata :: metadata
  g_spec :: ng_spec_json
  g_status :: node_group_status

abbreviation "PhaseForming \<equiv> ''forming''"

definition validNodeRoles :: "string \<Rightarrow> bool" where
  "validNodeRoles r \<longleftrightarrow> r \<in> {''controlplane'', ''worker''}"

text \<open>Decoding a stored spec, keeping the zero value of a field that does not fit.\<close>

definition dec_ng_spec :: "json \<Rightarrow> ng_spec_json" where
  "dec_ng_spec j = \<lparr>nsj_count = dInt ''count'' j, nsj_role = dStr ''role'' j,
     nsj_providerClass = dStr ''providerClass'' j, nsj_providerConfig = jget ''providerConfig'' j,
     nsj_talosVersion = dStr ''talosVersion'' j\<rparr>"

definition mk_node_group :: "metadata \<times> json \<times> json \<Rightarrow> node_group" where
  "mk_node_group = (\<lambda>(md, spec, status).
     \<lparr>g_metadata = md, g_spec = dec_ng_spec spec, g_status = dec_node_group_status status\<rparr>)"

definition storeNodeGroup :: "node_group \<Rightarrow> store \<Rightarrow> node_group res" where
  "storeNodeGroup ng s =
     (let md = g_metadata ng;
          labels = copyUserLabels (md_labels md)
            [(tenantLabel, mget (md_labels md) tenantLabel), (roleLabel, nsj_role (g_spec ng))]
      in case CreateResource ''nodegroup'' (md_name md) (enc_ng_spec_json (g_spec ng))
               (enc_node_group_status (g_status ng)) labels (md_annotations md) s of
           (Inl e, s) \<Rightarrow> (Inl e, s)
         | (Inr meta, s) \<Rightarrow> (Inr (ng\<lparr>g_metadata := meta\<rparr>), s))"

definition getNodeGroup :: "string \<Rightarrow> string \<Rightarrow> store \<Rightarrow> node_group option res" where
  "getNodeGroup tn name s =
     (case GetResource ''nodegroup'' name s of
        (Inl e, s) \<Rightarrow> (if e = ErrNotFound then Inr None else Inl e, s)
      | (Inr x, s) \<Rightarrow>
          if mget (md_labels (fst x)) tenantLabel \<noteq> tn then (Inr None, s)
          else (Inr (Some (mk_node_group x)), s))"

definition nodegroup_Create ::
  "api_env \<Rightarrow> string \<Rightarrow> ng_spec_json api_request option \<Rightarrow> store \<Rightarrow> node_group reply \<times> store" where
  "nodegroup_Create env tn body s =
     (case body of
        None \<Rightarrow> (BadRequest, s)
      | Some req \<Rightarrow>
          let md = rq_metadata req; spec = rq_spec req in
          if md_name md = [] then (BadRequest, s)
          else if \<not> Validate (av_registry env) ''nodegroup'' (SpecNodeGroup spec) then (BadRequest, s)
          else if \<not> validNodeRoles (nsj_role spec) then (BadRequest, s)
          else if nsj_count spec < 1 then (BadRequest, s)
          else (case GetTenant tn s of
                  (Inl _, s) \<Rightarrow> (InternalError, s)
                | (Inr None, s) \<Rightarrow> (NotFound, s)
                | (Inr (Some _), s) \<Rightarrow>
                    (case getNodeGroup tn (md_name md) s of
                       (Inl _, s) \<Rightarrow> (InternalError, s)
                     | (Inr (Some _), s) \<Rightarrow> (Conflict, s)
                     | (Inr None, s) \<Rightarrow>
                         (case storeNodeGroup
                                 \<lparr>g_metadata = md\<lparr>md_labels := AList.update tenantLabel tn (md_labels md)\<rparr>,
                                  g_spec = spec,
                                  g_status = (dec_node_group_status JNull)\<lparr>nst_phase := PhaseForming\<rparr>\<rparr> s of
                            (Inl _, s) \<Rightarrow> (InternalError, s)
                          | (Inr ng, s) \<Rightarrow> (Reply 201 ng, s)))))"

definition nodegroup_List ::
  "api_env \<Rightarrow> string \<Rightarrow> query \<Rightarrow> store \<Rightarrow> node_group list_response reply \<times> store" where
  "nodegroup_List env tn q s =
     (if q_watch q = ''true'' then
        if \<not> av_bus env then (ServiceUnavailable, s) else (Stream ''nodegroup'' (Some tn), s)
      else let pg = Parse q in
        (case ListTyped ''nodegroup''
                \<lparr>lo_offset = pg_offset pg, lo_limit = pg_limit pg, lo_labelSelector = tenantSelector tn\<rparr>
                (\<lambda>md spec status. map_option (\<lambda>x. \<lparr>g_metadata = md, g_spec = x,
                   g_status = dec_node_group_status status\<rparr>) (dec_ng_spec_json spec)) s of
           (Inl _, s) \<Rightarrow> (InternalError, s)
         | (Inr (items, tot), s) \<Rightarrow> (Reply 200 (mk_list pg items tot), s)))"

definition nodegroup_Get :: "string \<Rightarrow> string \<Rightarrow> store \<Rightarrow> node_group reply \<times> store" where
  "nodegroup_Get tn name s =
     (case getNodeGroup tn name s of
        (Inl _, s) \<Rightarrow> (InternalError, s)
      | (Inr None, s) \<Rightarrow> (NotFound, s)
      | (Inr (Some ng), s) \<Rightarrow> (Reply 200 ng, s))"

definition nodegroup_Update ::
  "string \<Rightarrow> string \<Rightarrow> ng_spec_json api_request option \<Rightarrow> store \<Rightarrow> node_group reply \<times> store" where
  "nodegroup_Update tn name body s =
     (case body of
        None \<Rightarrow> (BadRequest, s)
      | Some req \<Rightarrow>
          let version = md_resourceVersion (rq_metadata req); spec = rq_spec req in
          if version = 0 then (BadRequest, s)
          else if \<not> validNodeRoles (nsj_role spec) then (BadRequest, s)
          else if nsj_count spec < 1 then (BadRequest, s)
          else (case getNodeGroup tn name s of
                  (Inl _, s) \<Rightarrow> (InternalError, s)
                | (Inr None, s) \<Rightarrow> (NotFound, s)
                | (Inr (Some existing), s) \<Rightarrow>
                    let labels = AList.update tenantLabel tn
                          (AList.update roleLabel (nsj_role spec) (md_labels (g_metadata existing)))
                    in
                    (case UpdateResource ''nodegroup'' name version (enc_ng_spec_json spec) labels
                            (md_annotations (g_metadata existing)) s of
                       (Inl e, s) \<Rightarrow> (if e = ErrConflict then Conflict else InternalError, s)
                     | (Inr meta, s) \<Rightarrow>
                         (Reply 200 \<lparr>g_metadata = meta, g_spec = spec, g_status = g_status existing\<rparr>, s))))"

definition nodegroup_Delete :: "string \<Rightarrow> string \<Rightarrow> store \<Rightarrow> node_group reply \<times> store" where
  "nodegroup_Delete tn name s =
     (case getNodeGroup tn name s of
        (Inl _, s) \<Rightarrow> (InternalError, s)
      | (Inr None, s) \<Rightarrow> (NotFound, s)
      | (Inr (Some _), s) \<Rightarrow>
          (case RemoveResource ''nodegroup'' name s of
             (Inl _, s) \<Rightarrow> (InternalError, s)
           | (Inr _, s) \<Rightarrow> (NoBody 204, s)))"

definition nodegroup_UpdateStatus ::
  "string \<Rightarrow> string \<Rightarrow> node_group_status option \<Rightarrow> store \<Rightarrow> node_group reply \<times> store" where
  "nodegroup_UpdateStatus tn name body s =
     (case getNodeGroup tn name s of
        (Inl _, s) \<Rightarrow> (InternalError, s)
      | (Inr None, s) \<Rightarrow> (NotFound, s)
      | (Inr (Some existing), s) \<Rightarrow>
          (case body of
             None \<Rightarrow> (BadRequest, s)
           | Some st \<Rightarrow>
               (case UpdateStatus ''nodegroup'' name (enc_node_group_status st) s of
                  (Inl _, s) \<Rightarrow> (InternalError, s)
                | (Inr _, s) \<Rightarrow> (Reply 200 (existing\<lparr>g_status := st\<rparr>), s))))"

section \<open>Configuration patches\<close>

record config_patch =
  cp_metadata :: metadata
  cp_spec :: patch_spec

definition storePatch :: "config_patch \<Rightarrow> store \<Rightarrow> config_patch res" where
  "storePatch p s =
     (let md = cp_metadata p;
          labels0 = [(tenantLabel, mget (md_labels md) tenantLabel)];
          labels1 = (if ps_targetRole (cp_spec p) \<noteq> [] then AList.update roleLabel (ps_targetRole (cp_spec p)) labels0
                     else labels0);
          labels = copyUserLabels (md_labels md) labels1
      in case CreateResource ''configpatch'' (md_name md) (enc_patch_spec (cp_spec p)) JNull labels
               (md_annotations md) s of
           (Inl e, s) \<Rightarrow> (Inl e, s)
         | (Inr meta, s) \<Rightarrow> (Inr (p\<lparr>cp_metadata := meta\<rparr>), s))"

definition getPatch :: "string \<Rightarrow> string \<Rightarrow> store \<Rightarrow> config_patch option res" where
  "getPatch tn name s =
     (case GetResource ''configpatch'' name s of
        (Inl e, s) \<Rightarrow> (if e = ErrNotFound then Inr None else Inl e, s)
      | (Inr (md, spec, _), s) \<Rightarrow>
          if mget (md_labels md) tenantLabel \<noteq> tn then (Inr None, s)
          else (Inr (Some \<lparr>cp_metadata = md, cp_spec = dec_patch_spec spec\<rparr>), s))"

abbreviation defaultFormat :: "patch_spec \<Rightarrow> patch_spec" where
  "defaultFormat spec \<equiv> (if ps_format spec = [] then spec\<lparr>ps_format := ''strategic''\<rparr> else spec)"

definition patch_Create ::
  "api_env \<Rightarrow> string \<Rightarrow> patch_spec api_request option \<Rightarrow> store \<Rightarrow> config_patch reply \<times> store" where
  "patch_Create env tn body s =
     (case body of
        None \<Rightarrow> (BadRequest, s)
      | Some req \<Rightarrow>
          let md = rq_metadata req; spec = rq_spec req in
          if md_name md = [] then (BadRequest, s)
          else if ps_patch spec = [] then (BadRequest, s)
          else if \<not> Validate (av_registry env) ''configpatch'' (SpecPatch spec) then (BadRequest, s)
          else (case GetTenant tn s of
                  (Inl _, s) \<Rightarrow> (InternalError, s)
                | (Inr None, s) \<Rightarrow> (NotFound, s)
                | (Inr (Some _), s) \<Rightarrow>
                    (case getPatch tn (md_name md) s of
                       (Inl _, s) \<Rightarrow> (InternalError, s)
                     | (Inr (Some _), s) \<Rightarrow> (Conflict, s)
                     | (Inr None, s) \<Rightarrow>
                         (case storePatch
                                 \<lparr>cp_metadata = md\<lparr>md_labels := AList.update tenantLabel tn (md_labels md)\<rparr>,
                                  cp_spec = defaultFormat spec\<rparr> s of
                            (Inl _, s) \<Rightarrow> (InternalError, s)
                          | (Inr p, s) \<Rightarrow> (Reply 201 p, s)))))"

definition patch_List ::
  "api_env \<Rightarrow> string \<Rightarrow> query \<Rightarrow> store \<Rightarrow> config_patch list_response reply \<times> store" where
  "patch_List env tn q s =
     (if q_watch q = ''true'' then
        if \<not> av_bus env then (ServiceUnavailable, s) else (Stream ''configpatch'' (Some tn), s)
      else let pg = Parse q in
        (case ListTyped ''configpatch''
                \<lparr>lo_offset = pg_offset pg, lo_limit = pg_limit pg, lo_labelSelector = tenantSelector tn\<rparr>
                (\<lambda>md spec _. if ok_patch_spec spec then Some \<lparr>cp_metadata = md, cp_spec = dec_patch_spec spec\<rparr>
                             else None) s of
           (Inl _, s) \<Rightarrow> (InternalError, s)
         | (Inr (items, tot), s) \<Rightarrow> (Reply 200 (mk_list pg items tot), s)))"

definition patch_Get :: "string \<Rightarrow> string \<Rightarrow> store \<Rightarrow> config_patch reply \<times> store" where
  "patch_Get tn name s =
     (case getPatch tn name s of
        (Inl _, s) \<Rightarrow> (InternalError, s)
      | (Inr None, s) \<Rightarrow> (NotFound, s)
      | (Inr (Some p), s) \<Rightarrow> (Reply 200 p, s))"

text \<open>The update is made at the version that was just read: the request's version is not looked at.\<close>

definition patch_Update ::
  "api_env \<Rightarrow> string \<Rightarrow> string \<Rightarrow> patch_spec api_request option \<Rightarrow> store \<Rightarrow> config_patch reply \<times> store" where
  "patch_Update env tn name body s =
     (case body of
        None \<Rightarrow> (BadRequest, s)
      | Some req \<Rightarrow>
          let spec = rq_spec req in
          if ps_patch spec = [] then (BadRequest, s)
          else if \<not> Validate (av_registry env) ''configpatch'' (SpecPatch spec) then (BadRequest, s)
          else (case getPatch tn name s of
                  (Inl _, s) \<Rightarrow> (InternalError, s)
                | (Inr None, s) \<Rightarrow> (NotFound, s)
                | (Inr (Some existing), s) \<Rightarrow>
                    let labels0 = AList.update tenantLabel tn (md_labels (cp_metadata existing));
                        labels = (if ps_targetRole spec \<noteq> [] then AList.update roleLabel (ps_targetRole spec) labels0
                                  else labels0)
                    in
                    (case UpdateResource ''configpatch'' name (md_resourceVersion (cp_metadata existing))
                            (enc_patch_spec (defaultFormat spec)) labels (md_annotations (cp_metadata existing)) s of
                       (Inl e, s) \<Rightarrow> (if e = ErrConflict then Conflict else InternalError, s)
                     | (Inr meta, s) \<Rightarrow> (Reply 200 \<lparr>cp_metadata = meta, cp_spec = defaultFormat spec\<rparr>, s))))"

definition patch_Delete :: "string \<Rightarrow> string \<Rightarrow> store \<Rightarrow> config_patch reply \<times> store" where
  "patch_Delete tn name s =
     (case getPatch tn name s of
        (Inl _, s) \<Rightarrow> (InternalError, s)
      | (Inr None, s) \<Rightarrow> (NotFound, s)
      | (Inr (Some _), s) \<Rightarrow>
          (case RemoveResource ''configpatch'' name s of
             (Inl _, s) \<Rightarrow> (InternalError, s)
           | (Inr _, s) \<Rightarrow> (NoBody 204, s)))"

subsection \<open>Resolution\<close>

record scoped =
  sc_name :: string
  sc_rank :: nat
  sc_patches :: string

definition resolvePatch :: "string \<Rightarrow> string \<Rightarrow> string \<times> patch_spec \<Rightarrow> scoped option" where
  "resolvePatch role machine = (\<lambda>(name, ps).
     let scope = effectiveScope (ps_scope ps) in
     if \<not> ps_enabled ps then None
     else if scope = ScopeMachine \<and> ps_targetMachine ps \<noteq> machine then None
     else if ps_targetRole ps \<noteq> [] \<and> ps_targetRole ps \<noteq> ''all'' \<and> role \<noteq> [] \<and> ps_targetRole ps \<noteq> role then None
     else Some \<lparr>sc_name = name, sc_rank = (if scope = ScopeMachine then 1 else 0), sc_patches = ps_patch ps\<rparr>)"

text \<open>
  \<^verbatim>\<open>sort.Slice\<close> with the comparison by rank and name: names are unique, so the order is total and the
  instability of the sort does not show.
\<close>

definition ResolvePatches :: "string \<Rightarrow> string \<Rightarrow> string \<Rightarrow> store \<Rightarrow> string list res" where
  "ResolvePatches tn role machine s =
     (case ListTypedByTenant ''configpatch'' tn
             (\<lambda>md spec _. if ok_patch_spec spec then Some (md_name md, dec_patch_spec spec) else None) s of
        (Inl e, s) \<Rightarrow> (Inl e, s)
      | (Inr (items, _), s) \<Rightarrow>
          let resolved = List.map_filter (resolvePatch role machine) items;
              sorted = sort_key sc_rank (sort_key sc_name resolved)
          in (Inr (map sc_patches sorted), s))"

section \<open>Rendering\<close>

datatype render_err = RenderNotFound | RenderError

record machine_config_result =
  mcr_yaml :: string
  mcr_machine :: machine
  mcr_tenant :: tenant
  mcr_machineType :: string

definition GenerateMachineConfig ::
  "api_env \<Rightarrow> string \<Rightarrow> string \<Rightarrow> string list option \<Rightarrow> store \<Rightarrow> (render_err + machine_config_result) \<times> store" where
  "GenerateMachineConfig env tn ident patches0 s =
     (case GetMachine ident s of
        (Inl _, s) \<Rightarrow> (Inl RenderError, s)
      | (Inr None, s) \<Rightarrow> (Inl RenderNotFound, s)
      | (Inr (Some m), s) \<Rightarrow>
          (case GetTenant tn s of
             (Inl _, s) \<Rightarrow> (Inl RenderError, s)
           | (Inr None, s) \<Rightarrow> (Inl RenderNotFound, s)
           | (Inr (Some t), s) \<Rightarrow>
               (case LoadTenantSecrets tn s of
                  (Inl _, s) \<Rightarrow> (Inl RenderError, s)
                | (Inr None, s) \<Rightarrow> (Inl RenderNotFound, s)
                | (Inr (Some raw), s) \<Rightarrow>
                    (case (case patches0 of
                             Some ps \<Rightarrow> (Inr ps, s)
                           | None \<Rightarrow> ResolvePatches tn (mst_role (m_status m)) (md_name (m_metadata m)) s) of
                       (Inl _, s) \<Rightarrow> (Inl RenderError, s)
                     | (Inr patches, s) \<Rightarrow>
                         let machineType = DetermineMachineType (mst_role (m_status m)) False in
                         (case GenerateConfig (av_lib env)
                                 \<lparr>cq_clusterName = tn, cq_clusterEndpoint = ts_controlPlaneEndpoint (t_spec t),
                                  cq_kubernetesVersion = ts_kubernetesVersion (t_spec t),
                                  cq_talosVersion = ts_talosVersion (t_spec t), cq_machineType = machineType,
                                  cq_secretsBundle = Some raw, cq_configPatches = patches, cq_machineID = ident\<rparr> of
                            None \<Rightarrow> (Inl RenderError, s)
                          | Some r \<Rightarrow> (Inr \<lparr>mcr_yaml = cr_machineConfig r, mcr_machine = m, mcr_tenant = t,
                                           mcr_machineType = machineType\<rparr>, s))))))"

section \<open>Machines\<close>

definition machine_List :: "api_env \<Rightarrow> query \<Rightarrow> store \<Rightarrow> machine list_response reply \<times> store" where
  "machine_List env q s =
     (if q_watch q = ''true'' then
        if \<not> av_bus env then (ServiceUnavailable, s) else (Stream ''machine'' None, s)
      else let pg = Parse q in
        (case ListMachines [WithLimit (pg_limit pg), WithOffset (pg_offset pg)] s of
           (Inl _, s) \<Rightarrow> (InternalError, s)
         | (Inr (ms, tot), s) \<Rightarrow> (Reply 200 (mk_list pg ms tot), s)))"

definition machine_Get :: "string \<Rightarrow> store \<Rightarrow> machine reply \<times> store" where
  "machine_Get ident s =
     (case GetMachine ident s of
        (Inl _, s) \<Rightarrow> (InternalError, s)
      | (Inr None, s) \<Rightarrow> (NotFound, s)
      | (Inr (Some m), s) \<Rightarrow> (Reply 200 m, s))"

definition machine_ListByTenant ::
  "api_env \<Rightarrow> string \<Rightarrow> query \<Rightarrow> store \<Rightarrow> machine list_response reply \<times> store" where
  "machine_ListByTenant env tn q s =
     (if q_watch q = ''true'' then
        if \<not> av_bus env then (ServiceUnavailable, s) else (Stream ''machine'' (Some tn), s)
      else
        (case GetTenant tn s of
           (Inl _, s) \<Rightarrow> (InternalError, s)
         | (Inr None, s) \<Rightarrow> (NotFound, s)
         | (Inr (Some _), s) \<Rightarrow>
             let pg = Parse q in
             (case ListMachinesByTenant tn [WithLimit (pg_limit pg), WithOffset (pg_offset pg)] s of
                (Inl _, s) \<Rightarrow> (InternalError, s)
              | (Inr (ms, tot), s) \<Rightarrow> (Reply 200 (mk_list pg ms tot), s))))"

text \<open>The check the tenant-scoped handlers start with: the machine exists and belongs to the tenant.\<close>

definition tenantMachine :: "string \<Rightarrow> string \<Rightarrow> store \<Rightarrow> ('a reply + machine) \<times> store" where
  "tenantMachine tn ident s =
     (case GetMachine ident s of
        (Inl _, s) \<Rightarrow> (Inl InternalError, s)
      | (Inr None, s) \<Rightarrow> (Inl NotFound, s)
      | (Inr (Some m), s) \<Rightarrow>
          if mget (md_labels (m_metadata m)) tenantLabel \<noteq> tn then (Inl NotFound, s) else (Inr m, s))"

definition machine_GetByTenant :: "string \<Rightarrow> string \<Rightarrow> store \<Rightarrow> machine reply \<times> store" where
  "machine_GetByTenant tn ident s =
     (case tenantMachine tn ident s of (Inl e, s) \<Rightarrow> (e, s) | (Inr m, s) \<Rightarrow> (Reply 200 m, s))"

definition machine_UpdateStatus ::
  "string \<Rightarrow> string \<Rightarrow> machine_status option \<Rightarrow> store \<Rightarrow> machine reply \<times> store" where
  "machine_UpdateStatus tn ident body s =
     (case tenantMachine tn ident s of
        (Inl e, s) \<Rightarrow> (e, s)
      | (Inr _, s) \<Rightarrow>
          (case body of
             None \<Rightarrow> (BadRequest, s)
           | Some st \<Rightarrow>
               (case UpdateMachineStatus ident st s of
                  (Inl e, s) \<Rightarrow> (if e = ErrNotFound then NotFound else InternalError, s)
                | (Inr m, s) \<Rightarrow> (Reply 200 m, s))))"

definition machine_Config :: "api_env \<Rightarrow> string \<Rightarrow> string \<Rightarrow> store \<Rightarrow> string reply \<times> store" where
  "machine_Config env tn ident s =
     (case GenerateMachineConfig env tn ident None s of
        (Inl e, s) \<Rightarrow> (if e = RenderNotFound then NotFound else InternalError, s)
      | (Inr r, s) \<Rightarrow>
          if mget (md_labels (m_metadata (mcr_machine r))) tenantLabel \<noteq> tn then (NotFound, s)
          else (Reply 200 (mcr_yaml r), s))"

text \<open>The reply is the triple of desired text, current text and diff.\<close>

definition machine_ConfigDiff ::
  "api_env \<Rightarrow> string \<Rightarrow> string \<Rightarrow> store \<Rightarrow> (string \<times> string \<times> string) reply \<times> store" where
  "machine_ConfigDiff env tn ident s =
     (case GetMachine ident s of
        (Inr (Some m), s) \<Rightarrow>
          if mget (md_labels (m_metadata m)) tenantLabel \<noteq> tn then (NotFound, s)
          else (case av_fetcher env of
                  None \<Rightarrow> (Unavailable, s)
                | Some fetch \<Rightarrow>
                    (case GenerateMachineConfig env tn ident None s of
                       (Inl e, s) \<Rightarrow> (if e = RenderNotFound then NotFound else InternalError, s)
                     | (Inr r, s) \<Rightarrow>
                         (case fetch ident of
                            None \<Rightarrow> (Unavailable, s)
                          | Some current \<Rightarrow>
                              (Reply 200 (mcr_yaml r, current, unifiedDiff (mcr_yaml r) current), s))))
      | (_, s) \<Rightarrow> (NotFound, s))"

definition machine_Delete :: "string \<Rightarrow> string \<Rightarrow> store \<Rightarrow> machine reply \<times> store" where
  "machine_Delete tn ident s =
     (case tenantMachine tn ident s of
        (Inl e, s) \<Rightarrow> (e, s)
      | (Inr _, s) \<Rightarrow>
          (case DeleteMachine ident s of
             (Inl _, s) \<Rightarrow> (InternalError, s)
           | (Inr _, s) \<Rightarrow> (NoBody 204, s)))"

section \<open>Providers\<close>

definition provider_List :: "store \<Rightarrow> (provider list \<times> int) reply \<times> store" where
  "provider_List s =
     (case ListProviders s of
        (Inl _, s) \<Rightarrow> (InternalError, s)
      | (Inr ps, s) \<Rightarrow> (Reply 200 (ps, int (length ps)), s))"

definition provider_Get :: "string \<Rightarrow> store \<Rightarrow> provider reply \<times> store" where
  "provider_Get pt s =
     (case GetProvider pt s of
        (Inl _, s) \<Rightarrow> (InternalError, s)
      | (Inr None, s) \<Rightarrow> (NotFound, s)
      | (Inr (Some p), s) \<Rightarrow> (Reply 200 p, s))"

definition provider_UpdateStatus :: "string \<Rightarrow> provider_status option \<Rightarrow> store \<Rightarrow> unit reply \<times> store" where
  "provider_UpdateStatus pt body s =
     (case body of
        None \<Rightarrow> (BadRequest, s)
      | Some st \<Rightarrow>
          (case GetProvider pt s of
             (Inl _, s) \<Rightarrow> (InternalError, s)
           | (Inr None, s) \<Rightarrow> (NotFound, s)
           | (Inr (Some existing), s) \<Rightarrow>
               (case UpsertProvider pt (p_spec existing) st (md_labels (p_metadata existing)) s of
                  (Inl e, s) \<Rightarrow> (if e = ErrNotFound then NotFound else InternalError, s)
                | (Inr _, s) \<Rightarrow> (NoBody 204, s))))"

end
