(* ===== verification/Api_Props.thy ===== *)
theory Api_Props
  imports Api_Resources Store_Props
begin

text \<open>
  The laws of the REST handlers. The tenant-scoped handlers share a contract, \<open>tenant_lookup\<close>: the
  lookup they start with returns only objects that carry the label of the tenant in the path. From it
  follows that no request under one tenant's path reads or changes an object of another.
\<close>

section \<open>What a tenant-scoped request may change\<close>

abbreviation owned_by :: "string \<Rightarrow> gomap \<Rightarrow> bool" where
  "owned_by tn ls \<equiv> mget ls tenantLabel = tn"

text \<open>The rows that do not carry the tenant's label, the secrets and the tokens are the same in both stores.\<close>

definition isolated :: "string \<Rightarrow> store \<Rightarrow> store \<Rightarrow> bool" where
  "isolated tn s t \<longleftrightarrow>
     (\<forall>rt name r. \<not> owned_by tn (r_labels r) \<longrightarrow> (find_row s rt name = Some r \<longleftrightarrow> find_row t rt name = Some r)) \<and>
     tenant_secrets t = tenant_secrets s \<and> api_tokens t = api_tokens s"

named_theorems isolated_intros \<open>operations on an object of the tenant\<close>

lemma isolated_same [isolated_intros]:
  "resources t = resources s \<Longrightarrow> tenant_secrets t = tenant_secrets s \<Longrightarrow> api_tokens t = api_tokens s \<Longrightarrow> isolated tn s t"
  by (simp add: isolated_def)

lemma isolated_trans: "isolated tn s t \<Longrightarrow> isolated tn t u \<Longrightarrow> isolated tn s u"
  by (simp add: isolated_def)

lemma isolated_next: "isolated tn (sql_next s) t \<Longrightarrow> isolated tn s t"
  by (simp add: isolated_def)

text \<open>The operations on one row, when that row is the tenant's.\<close>

definition owns :: "string \<Rightarrow> string \<Rightarrow> string \<Rightarrow> store \<Rightarrow> bool" where
  "owns tn rt name s \<longleftrightarrow> (\<exists>r. find_row s rt name = Some r \<and> owned_by tn (r_labels r))"

lemma owns_next [simp]: "owns tn rt name (sql_next s) = owns tn rt name s"
  by (simp add: owns_def)

lemma isolated_sql [simp]: "isolated tn s (sql_next s)" "isolated tn s (sql_next (sql_next s))"
  by (simp_all add: isolated_def)

lemma isolated_sql_right [simp]: "isolated tn s (sql_next t) = isolated tn s t"
  by (simp add: isolated_def)

lemma GetResource_snd: "GetResource rt name s = (x, t) \<Longrightarrow> t = sql_next s"
  by (auto simp: GetResource_def sql_def split: option.splits if_splits)

lemma isolated_publish [simp]: "isolated tn s (publish et mu rt md sp st t) = isolated tn s t"
  by (simp add: isolated_def)

lemma isolated_upd:
  assumes "owns tn rt name s" "\<And>r. row_key (f r) = row_key r"
    and "\<And>r. owned_by tn (r_labels r) \<Longrightarrow> owned_by tn (r_labels (f r))"
    and "resources t = resources s" "tenant_secrets t = tenant_secrets s" "api_tokens t = api_tokens s"
  shows "isolated tn s (upd_row rt name f t)"
proof -
  have "find_row (upd_row rt name f t) rt' name' =
      (if (rt', name') = (rt, name) then map_option f (find_row s rt name) else find_row s rt' name')" for rt' name'
    using find_upd_row [of f rt name "resources s" "(rt', name')", OF assms(2)] assms(4) by simp
  then show ?thesis
    using assms(1,3,5,6) unfolding isolated_def owns_def by auto
qed

lemma isolated_del:
  assumes "owns tn rt name s" "resources t = resources s" "tenant_secrets t = tenant_secrets s" "api_tokens t = api_tokens s"
  shows "isolated tn s (t\<lparr>resources := tbl_del row_key (rt, name) (resources t)\<rparr>)"
  using assms by (auto simp: isolated_def owns_def resource_table.get_del)

lemma isolated_reload:
  "isolated tn s t \<Longrightarrow> isolated tn s (snd (updateResourceMetadataAndPublish et mu rt name t))"
  by (rule isolated_trans) (auto simp: updateResourceMetadataAndPublish_def sql_def isolated_def split: option.splits)

lemma isolated_Create [isolated_intros]:
  assumes "owned_by tn l"
  shows "isolated tn s (snd (CreateResource rt name sp st l a s))"
proof (cases "sql_ok s \<and> find_row s rt name = None")
  case True
  let ?r = "new_row rt name sp st l a (sql_next s)"
  have "find_row ((sql_next s)\<lparr>resources := tbl_ins ?r (resources s)\<rparr>) rt' name' =
      (if (rt', name') = (rt, name) then Some ?r else find_row s rt' name')" for rt' name'
    using True resource_table.get_ins [of "resources s" ?r "(rt', name')"] by simp
  then have "isolated tn s ((sql_next s)\<lparr>resources := tbl_ins ?r (resources s)\<rparr>)"
    using True assms unfolding isolated_def by (auto split: if_splits)
  then show ?thesis
    using True by (simp add: CreateResource_def sql_def new_row_def isolated_reload)
next
  case False
  then show ?thesis
    by (auto simp: CreateResource_def sql_def isolated_def)
qed

lemma isolated_Update [isolated_intros]:
  assumes "owns tn rt name s" "owned_by tn l"
  shows "isolated tn s (snd (UpdateResource rt name v sp l a s))"
  using assms(2) isolated_upd [OF assms(1), of "\<lambda>r. r\<lparr>r_spec := sp, r_labels := l, r_annotations := a,
      r_updated := clock s, r_version := r_version r + 1\<rparr>" "sql_next s"]
  by (auto simp: UpdateResource_def sql_def intro!: isolated_reload split: option.splits)

lemma isolated_UpdateStatus [isolated_intros]:
  assumes "owns tn rt name s"
  shows "isolated tn s (snd (UpdateStatus rt name st s))"
  using isolated_upd [OF assms, of "\<lambda>r. r\<lparr>r_status := st, r_updated := clock s\<rparr>" "sql_next s"]
  by (auto simp: UpdateStatus_def sql_def intro!: isolated_reload)

lemma isolated_Delete [isolated_intros]:
  assumes "owns tn rt name s"
  shows "isolated tn s (snd (DeleteResource rt name s))"
  using isolated_upd [OF assms, of "\<lambda>r. r\<lparr>r_deleted := Some (clock s), r_updated := clock s\<rparr>" "sql_next s"]
  by (auto simp: DeleteResource_def sql_def intro!: isolated_reload split: option.splits)

lemma isolated_Remove [isolated_intros]:
  assumes "owns tn rt name s"
  shows "isolated tn s (snd (RemoveResource rt name s))"
  using isolated_del [OF assms, of "sql_next (sql_next s)"]
  by (auto simp: RemoveResource_def GetResource_def sql_def Let_def split: option.splits)

lemma isolated_AddFinalizer [isolated_intros]:
  assumes "owns tn rt name s"
  shows "isolated tn s (snd (AddFinalizer rt name f s))"
  using isolated_upd [OF assms, of "\<lambda>r. r\<lparr>r_finalizers := fs, r_updated := clock s\<rparr>" "sql_next (sql_next s)" for fs]
  by (auto simp: AddFinalizer_def GetResource_def sql_def split: option.splits)

lemma owns_Delete: "owns tn rt name s \<Longrightarrow> owns tn rt name (snd (DeleteResource rt name s))"
  by (auto simp: DeleteResource_def updateResourceMetadataAndPublish_def sql_def owns_def split: option.splits)

lemma owns_AddFinalizer: "owns tn rt name s \<Longrightarrow> owns tn rt name (snd (AddFinalizer rt name' f s))"
  by (auto simp: AddFinalizer_def GetResource_def sql_def owns_def split: option.splits)

section \<open>The contract of the scoped lookups\<close>

text \<open>The objects a reply shows, and what a tenant-scoped handler promises of its result.\<close>

fun shown :: "('a \<Rightarrow> metadata list) \<Rightarrow> 'a reply \<Rightarrow> metadata list" where
  "shown f (Reply c x) = f x"
| "shown f _ = []"

definition scoped_ok :: "string \<Rightarrow> ('a \<Rightarrow> metadata list) \<Rightarrow> store \<Rightarrow> 'a reply \<times> store \<Rightarrow> bool" where
  "scoped_ok tn f s res \<longleftrightarrow>
     isolated tn s (snd res) \<and> list_all (\<lambda>md. owned_by tn (md_labels md)) (shown f (fst res))"

lemma scoped_fail [simp]:
  "scoped_ok tn f s (Fail c m, t) = isolated tn s t" "scoped_ok tn f s (NoBody c, t) = isolated tn s t"
  "scoped_ok tn f s (Stream rt g, t) = isolated tn s t"
  "scoped_ok tn f s (Reply c x, t) \<longleftrightarrow> isolated tn s t \<and> list_all (\<lambda>md. owned_by tn (md_labels md)) (f x)"
  by (simp_all add: scoped_ok_def)

locale tenant_lookup =
  fixes rt :: string
    and get :: "string \<Rightarrow> string \<Rightarrow> store \<Rightarrow> 'x option res"
    and meta :: "'x \<Rightarrow> metadata"
  assumes get_frame: "snd (get tn name s) = sql_next s"
    and get_owned: "get tn name s = (Inr (Some x), t) \<Longrightarrow>
      \<exists>r. find_row s rt name = Some r \<and> owned_by tn (r_labels r) \<and> meta x = meta_of r"
begin

lemma get_cases:
  obtains (err) e where "get tn name s = (Inl e, sql_next s)"
  | (none) "get tn name s = (Inr None, sql_next s)"
  | (found) x where "get tn name s = (Inr (Some x), sql_next s)" "owns tn rt name (sql_next s)"
      "owned_by tn (md_labels (meta x))"
proof -
  obtain a t where g: "get tn name s = (a, t)" by fastforce
  then have t: "t = sql_next s" using get_frame [of tn name s] by simp
  show ?thesis
  proof (cases a)
    case (Inr o')
    show ?thesis
    proof (cases o')
      case (Some x)
      then have "\<exists>r. find_row s rt name = Some r \<and> owned_by tn (r_labels r) \<and> meta x = meta_of r"
        using get_owned g Inr by simp
      then show ?thesis
        using found g t Inr Some by (auto simp: owns_def)
    qed (use none g t Inr in auto)
  qed (use err g t in auto)
qed

text \<open>A handler that answers 500 or 404 unless the lookup finds the object is scoped when its last part is.\<close>

lemma guarded:
  assumes "\<And>x. owns tn rt name (sql_next s) \<Longrightarrow> owned_by tn (md_labels (meta x)) \<Longrightarrow>
      scoped_ok tn f (sql_next s) (k x (sql_next s))"
  shows "scoped_ok tn f s (case get tn name s of
      (Inl _, s) \<Rightarrow> (InternalError, s)
    | (Inr None, s) \<Rightarrow> (NotFound, s)
    | (Inr (Some x), s) \<Rightarrow> k x s)"
proof (cases rule: get_cases [of tn name s])
  case (found x)
  then have "scoped_ok tn f (sql_next s) (k x (sql_next s))"
    by (intro assms)
  then show ?thesis
    using found by (auto simp: scoped_ok_def intro: isolated_next)
qed simp_all

end

interpretation node_groups: tenant_lookup "''nodegroup''" getNodeGroup g_metadata
proof
  show "snd (getNodeGroup tn name s) = sql_next s" for tn name s
    by (auto simp: getNodeGroup_def GetResource_def sql_def split: option.splits)
  show "\<exists>r. find_row s ''nodegroup'' name = Some r \<and> owned_by tn (r_labels r) \<and> g_metadata x = meta_of r"
    if "getNodeGroup tn name s = (Inr (Some x), t)" for tn name s x t
    using that by (auto simp: getNodeGroup_def mk_node_group_def split: prod.splits sum.splits if_splits dest: GetResource_Inr)
qed

interpretation patches: tenant_lookup "''configpatch''" getPatch cp_metadata
proof
  show "snd (getPatch tn name s) = sql_next s" for tn name s
    by (auto simp: getPatch_def GetResource_def sql_def split: option.splits)
  show "\<exists>r. find_row s ''configpatch'' name = Some r \<and> owned_by tn (r_labels r) \<and> cp_metadata x = meta_of r"
    if "getPatch tn name s = (Inr (Some x), t)" for tn name s x t
    using that by (auto simp: getPatch_def split: prod.splits sum.splits if_splits dest: GetResource_Inr)
qed

text \<open>The machine handlers' check, as a lookup.\<close>

definition getMachineOf :: "string \<Rightarrow> string \<Rightarrow> store \<Rightarrow> machine option res" where
  "getMachineOf tn ident s =
     (case GetMachine ident s of
        (Inr (Some m), s) \<Rightarrow> if owned_by tn (md_labels (m_metadata m)) then (Inr (Some m), s) else (Inr None, s)
      | r \<Rightarrow> r)"

lemma GetMachine_Some:
  "GetMachine ident s = (Inr (Some m), t) \<Longrightarrow>
   t = sql_next s \<and> (\<exists>r. find_row s ''machine'' ident = Some r \<and> m_metadata m = meta_of r)"
  by (auto simp: GetMachine_def mk_machine_def split: prod.splits sum.splits if_splits dest: GetResource_Inr)

interpretation machines: tenant_lookup "''machine''" getMachineOf m_metadata
proof
  show "snd (getMachineOf tn name s) = sql_next s" for tn name s
    by (auto simp: getMachineOf_def GetMachine_def GetResource_def sql_def split: option.splits)
  show "\<exists>r. find_row s ''machine'' name = Some r \<and> owned_by tn (r_labels r) \<and> m_metadata x = meta_of r"
    if "getMachineOf tn name s = (Inr (Some x), t)" for tn name s x t
    using that by (auto simp: getMachineOf_def split: prod.splits sum.splits option.splits if_splits dest!: GetMachine_Some)
qed

lemma tenantMachine_eq:
  "(case tenantMachine tn ident s of (Inl e, s) \<Rightarrow> (e, s) | (Inr m, s) \<Rightarrow> k m s) =
   (case getMachineOf tn ident s of
      (Inl _, s) \<Rightarrow> (InternalError, s) | (Inr None, s) \<Rightarrow> (NotFound, s) | (Inr (Some m), s) \<Rightarrow> k m s)"
  by (auto simp: tenantMachine_def getMachineOf_def split: prod.splits sum.splits option.splits)

section \<open>The handlers keep to their tenant\<close>

lemma reload_Inr:
  "updateResourceMetadataAndPublish et mu rt name s = (Inr md, t) \<Longrightarrow> \<exists>r. find_row s rt name = Some r \<and> md = meta_of r"
  by (auto simp: updateResourceMetadataAndPublish_def sql_def split: if_splits option.splits)

lemma UpdateResource_labels: "UpdateResource rt name v sp l a s = (Inr md, t) \<Longrightarrow> md_labels md = l"
  by (auto simp: UpdateResource_def sql_def split: if_splits option.splits dest!: reload_Inr)

lemma CreateResource_labels: "CreateResource rt name sp st l a s = (Inr md, t) \<Longrightarrow> md_labels md = l"
  by (auto simp: CreateResource_def sql_def resource_table.get_ins split: if_splits dest!: reload_Inr)

lemma UpdateStatus_labels:
  "UpdateStatus rt name st s = (Inr md, t) \<Longrightarrow> owns tn rt name s \<Longrightarrow> owned_by tn (md_labels md)"
  by (auto simp: UpdateStatus_def sql_def owns_def split: if_splits dest!: reload_Inr)

lemma mget_copyUserLabels:
  "k \<in> {tenantLabel, roleLabel} \<Longrightarrow> mget (copyUserLabels src dst) k = mget dst k"
  unfolding copyUserLabels_def by (induction src arbitrary: dst) (auto split: prod.splits)

lemma scoped_trans: "isolated tn s t \<Longrightarrow> scoped_ok tn f t res \<Longrightarrow> scoped_ok tn f s res"
  by (auto simp: scoped_ok_def intro: isolated_trans)

lemma isolated_GetTenant: "isolated tn s (snd (GetTenant name s))"
  by (auto simp: GetTenant_def GetResource_def sql_def split: option.splits)

lemma scoped_GetTenant:
  assumes "\<And>t' s'. isolated tn s s' \<Longrightarrow> scoped_ok tn f s' (k t' s')"
  shows "scoped_ok tn f s (case GetTenant name s of
      (Inl _, s) \<Rightarrow> (InternalError, s) | (Inr None, s) \<Rightarrow> (NotFound, s) | (Inr (Some x), s) \<Rightarrow> k x s)"
  using isolated_GetTenant [of tn s name] assms
  by (auto intro: scoped_trans split: prod.splits sum.splits option.splits)

lemma isolated_refl [simp]: "isolated tn s s"
  by (simp add: isolated_def)

lemma scoped_if:
  "(b \<Longrightarrow> scoped_ok tn f s x) \<Longrightarrow> (\<not> b \<Longrightarrow> scoped_ok tn f s y) \<Longrightarrow> scoped_ok tn f s (if b then x else y)"
  by simp

text \<open>A last operation whose error becomes an error reply and whose result is shown, or not.\<close>

lemma scoped_op:
  assumes "isolated tn s (snd m)" "\<And>e. shown f (h e) = []"
    and "\<And>x t. m = (Inr x, t) \<Longrightarrow> list_all (\<lambda>md. owned_by tn (md_labels md)) (f (g x))"
  shows "scoped_ok tn f s (case m of (Inl e, s) \<Rightarrow> (h e, s) | (Inr x, s) \<Rightarrow> (Reply c (g x), s))"
  using assms by (auto simp: scoped_ok_def split: prod.splits sum.splits)

lemma scoped_end:
  assumes "isolated tn s (snd m)"
  shows "scoped_ok tn f s (case m of (Inl e, s) \<Rightarrow> (InternalError, s) | (Inr x, s) \<Rightarrow> (NoBody c, s))"
  using assms by (auto split: prod.splits sum.splits)

subsection \<open>Node groups\<close>

abbreviation ng_shown :: "node_group \<Rightarrow> metadata list" where "ng_shown ng \<equiv> [g_metadata ng]"

lemma storeNodeGroup_scoped:
  assumes "owned_by tn (md_labels (g_metadata ng))"
  shows "scoped_ok tn ng_shown s
    (case storeNodeGroup ng s of (Inl _, s) \<Rightarrow> (InternalError, s) | (Inr ng, s) \<Rightarrow> (Reply 201 ng, s))"
proof -
  define l where "l = copyUserLabels (md_labels (g_metadata ng))
    [(tenantLabel, mget (md_labels (g_metadata ng)) tenantLabel), (roleLabel, nsj_role (g_spec ng))]"
  have l: "owned_by tn l"
    using assms by (simp add: l_def mget_copyUserLabels)
  show ?thesis
  proof (rule scoped_op)
    show "isolated tn s (snd (storeNodeGroup ng s))"
      using isolated_Create [OF l, of s "''nodegroup''" "md_name (g_metadata ng)" "enc_ng_spec_json (g_spec ng)"
        "enc_node_group_status (g_status ng)" "md_annotations (g_metadata ng)"]
      unfolding storeNodeGroup_def Let_def l_def [symmetric] by (auto split: prod.splits sum.splits)
    show "list_all (\<lambda>md. owned_by tn (md_labels md)) (ng_shown x)" if "storeNodeGroup ng s = (Inr x, t)" for x t
      using that l unfolding storeNodeGroup_def Let_def l_def [symmetric]
      by (auto split: prod.splits sum.splits dest: CreateResource_labels)
  qed simp
qed

lemma nodegroup_Create_scoped: "scoped_ok tn ng_shown s (nodegroup_Create env tn body s)"
proof (cases body)
  case None
  then show ?thesis by (simp add: nodegroup_Create_def isolated_def)
next
  case (Some req)
  have store: "scoped_ok tn ng_shown s'
      (case getNodeGroup tn (md_name (rq_metadata req)) s' of
         (Inl _, s) \<Rightarrow> (InternalError, s)
       | (Inr (Some _), s) \<Rightarrow> (Conflict, s)
       | (Inr None, s) \<Rightarrow>
           (case storeNodeGroup
                   \<lparr>g_metadata = (rq_metadata req)\<lparr>md_labels := AList.update tenantLabel tn (md_labels (rq_metadata req))\<rparr>,
                    g_spec = rq_spec req, g_status = (dec_node_group_status JNull)\<lparr>nst_phase := PhaseForming\<rparr>\<rparr> s of
              (Inl _, s) \<Rightarrow> (InternalError, s)
            | (Inr ng, s) \<Rightarrow> (Reply 201 ng, s)))" for s'
    by (cases rule: node_groups.get_cases [of tn "md_name (rq_metadata req)" s'])
       (auto intro!: scoped_trans [OF isolated_sql(1) storeNodeGroup_scoped])
  show ?thesis
    unfolding nodegroup_Create_def Some Let_def option.case
    by (intro scoped_if scoped_GetTenant store; simp)
qed

lemma nodegroup_Get_scoped: "scoped_ok tn ng_shown s (nodegroup_Get tn name s)"
  unfolding nodegroup_Get_def by (rule node_groups.guarded) (simp add: isolated_def)

lemma nodegroup_Update_scoped: "scoped_ok tn ng_shown s (nodegroup_Update tn name body s)"
proof (cases body)
  case (Some req)
  let ?l = "\<lambda>x. AList.update tenantLabel tn (AList.update roleLabel (nsj_role (rq_spec req)) (md_labels (g_metadata x)))"
  have upd: "scoped_ok tn ng_shown (sql_next s)
      (case UpdateResource ''nodegroup'' name (md_resourceVersion (rq_metadata req)) (enc_ng_spec_json (rq_spec req))
              (?l x) (md_annotations (g_metadata x)) (sql_next s) of
         (Inl e, s) \<Rightarrow> (if e = ErrConflict then Conflict else InternalError, s)
       | (Inr meta, s) \<Rightarrow> (Reply 200 \<lparr>g_metadata = meta, g_spec = rq_spec req, g_status = g_status x\<rparr>, s))"
    if "owns tn ''nodegroup'' name (sql_next s)" for x
  proof (rule scoped_op)
    show "isolated tn (sql_next s) (snd (UpdateResource ''nodegroup'' name (md_resourceVersion (rq_metadata req))
        (enc_ng_spec_json (rq_spec req)) (?l x) (md_annotations (g_metadata x)) (sql_next s)))"
      by (rule isolated_Update [OF that]) simp
  qed (auto dest!: UpdateResource_labels)
  show ?thesis
    unfolding nodegroup_Update_def Some Let_def option.case
    by (intro scoped_if node_groups.guarded upd; (assumption | simp))
qed (simp add: nodegroup_Update_def isolated_def)

lemma nodegroup_Delete_scoped: "scoped_ok tn ng_shown s (nodegroup_Delete tn name s)"
  unfolding nodegroup_Delete_def
  by (intro node_groups.guarded scoped_end isolated_Remove)

lemma nodegroup_UpdateStatus_scoped: "scoped_ok tn ng_shown s (nodegroup_UpdateStatus tn name body s)"
  unfolding nodegroup_UpdateStatus_def
  by (cases body; simp only: option.case; intro node_groups.guarded scoped_op isolated_UpdateStatus; simp)

text \<open>A list by label selector shows the tenant's rows, given that SQLite extracts labels.\<close>

lemma steps_only_next: "isolated tn s (snd (ListResources rt opts s))"
  by (auto simp: ListResources_def sql_def Let_def)

lemma listed_owned:
  assumes "extract_ok (engine s)" "ListResources rt opts s = (Inr (items, n), t)" "lo_labelSelector opts = tenantSelector tn"
    and "(md, sp, st) \<in> set items"
  shows "owned_by tn (md_labels md)"
proof -
  from ListResources_mem [OF assms(2,4)] obtain r where "r \<in> set (listed rt (tenantSelector tn) s)" "md = meta_of r"
    using assms(3) by auto
  then have "has_tenant tn (md_labels md)"
    using selects_tenant [OF assms(1)] unfolding listed_iff by simp
  then show ?thesis
    by (simp add: has_tenant_def mget_def)
qed

lemma ListTyped_scoped:
  assumes "extract_ok (engine s)" "lo_labelSelector opts = tenantSelector tn"
    and "\<And>md sp st x. build md sp st = Some x \<Longrightarrow> meta x = md"
  shows "scoped_ok tn (\<lambda>l. map meta (lr_items l)) s (case ListTyped rt opts build s of
      (Inl _, s) \<Rightarrow> (InternalError, s) | (Inr (items, tot), s) \<Rightarrow> (Reply 200 (mk_list pg items tot), s))"
proof (cases "ListResources rt opts s")
  case (Pair a t)
  then have iso: "isolated tn s t"
    using steps_only_next [of tn s rt opts] by simp
  show ?thesis
  proof (cases a)
    case (Inr x)
    obtain items n where x: "x = (items, n)" by fastforce
    have "owned_by tn (md_labels (meta y))" if "y \<in> set (List.map_filter (\<lambda>(md, sp, st). build md sp st) items)" for y
    proof -
      from that obtain md sp st where "(md, sp, st) \<in> set items" "build md sp st = Some y"
        by (auto simp: map_filter_def)
      then show ?thesis
        using listed_owned [OF assms(1) _ assms(2)] Pair Inr x assms(3) by blast
    qed
    then show ?thesis
      using iso by (simp add: ListTyped_def Pair Inr x mk_list_def list_all_iff)
  qed (use iso in \<open>simp add: ListTyped_def Pair\<close>)
qed

lemma nodegroup_List_scoped:
  "extract_ok (engine s) \<Longrightarrow> scoped_ok tn (\<lambda>l. map g_metadata (lr_items l)) s (nodegroup_List env tn q s)"
  unfolding nodegroup_List_def Let_def by (intro scoped_if ListTyped_scoped) auto

subsection \<open>Configuration patches\<close>

abbreviation cp_shown :: "config_patch \<Rightarrow> metadata list" where "cp_shown p \<equiv> [cp_metadata p]"

lemma storePatch_scoped:
  assumes "owned_by tn (md_labels (cp_metadata p))"
  shows "scoped_ok tn cp_shown s
    (case storePatch p s of (Inl _, s) \<Rightarrow> (InternalError, s) | (Inr p, s) \<Rightarrow> (Reply 201 p, s))"
proof -
  define base where "base = (if ps_targetRole (cp_spec p) \<noteq> []
    then AList.update roleLabel (ps_targetRole (cp_spec p)) [(tenantLabel, mget (md_labels (cp_metadata p)) tenantLabel)]
    else [(tenantLabel, mget (md_labels (cp_metadata p)) tenantLabel)])"
  define l where "l = copyUserLabels (md_labels (cp_metadata p)) base"
  have "owned_by tn base"
    using assms by (simp add: base_def)
  then have l: "owned_by tn l"
    unfolding l_def by (subst mget_copyUserLabels) simp_all
  show ?thesis
  proof (rule scoped_op)
    show "isolated tn s (snd (storePatch p s))"
      using isolated_Create [OF l, of s "''configpatch''" "md_name (cp_metadata p)" "enc_patch_spec (cp_spec p)"
        JNull "md_annotations (cp_metadata p)"]
      unfolding storePatch_def Let_def base_def [symmetric] l_def [symmetric] by (auto split: prod.splits sum.splits)
    show "list_all (\<lambda>md. owned_by tn (md_labels md)) (cp_shown x)" if "storePatch p s = (Inr x, t)" for x t
      using that l unfolding storePatch_def Let_def base_def [symmetric] l_def [symmetric]
      by (auto split: prod.splits sum.splits dest: CreateResource_labels)
  qed simp
qed

lemma patch_Create_scoped: "scoped_ok tn cp_shown s (patch_Create env tn body s)"
proof (cases body)
  case (Some req)
  have store: "scoped_ok tn cp_shown s'
      (case getPatch tn (md_name (rq_metadata req)) s' of
         (Inl _, s) \<Rightarrow> (InternalError, s)
       | (Inr (Some _), s) \<Rightarrow> (Conflict, s)
       | (Inr None, s) \<Rightarrow>
           (case storePatch
                   \<lparr>cp_metadata = (rq_metadata req)\<lparr>md_labels := AList.update tenantLabel tn (md_labels (rq_metadata req))\<rparr>,
                    cp_spec = defaultFormat (rq_spec req)\<rparr> s of
              (Inl _, s) \<Rightarrow> (InternalError, s)
            | (Inr p, s) \<Rightarrow> (Reply 201 p, s)))" for s'
    by (cases rule: patches.get_cases [of tn "md_name (rq_metadata req)" s'])
       (auto intro!: scoped_trans [OF isolated_sql(1) storePatch_scoped])
  show ?thesis
    unfolding patch_Create_def Some Let_def option.case
    by (intro scoped_if scoped_GetTenant store; simp)
qed (simp add: patch_Create_def)

lemma patch_Get_scoped: "scoped_ok tn cp_shown s (patch_Get tn name s)"
  unfolding patch_Get_def by (rule patches.guarded) simp

lemma patch_Update_scoped: "scoped_ok tn cp_shown s (patch_Update env tn name body s)"
proof (cases body)
  case (Some req)
  have upd: "scoped_ok tn cp_shown t
      (case UpdateResource ''configpatch'' name v sp
              (if b then AList.update roleLabel x (AList.update tenantLabel tn l) else AList.update tenantLabel tn l) a t of
         (Inl e, s) \<Rightarrow> (if e = ErrConflict then Conflict else InternalError, s)
       | (Inr meta, s) \<Rightarrow> (Reply 200 \<lparr>cp_metadata = meta, cp_spec = spec\<rparr>, s))"
    if "owns tn ''configpatch'' name t" for v sp b x l a t spec
  proof (rule scoped_op)
    show "isolated tn t (snd (UpdateResource ''configpatch'' name v sp
        (if b then AList.update roleLabel x (AList.update tenantLabel tn l) else AList.update tenantLabel tn l) a t))"
      by (rule isolated_Update [OF that]) simp
  qed (auto dest!: UpdateResource_labels)
  show ?thesis
    unfolding patch_Update_def Some Let_def option.case
    by (intro scoped_if patches.guarded upd; (assumption | simp))
qed (simp add: patch_Update_def)

lemma patch_Delete_scoped: "scoped_ok tn cp_shown s (patch_Delete tn name s)"
  unfolding patch_Delete_def by (intro patches.guarded scoped_end isolated_Remove)

lemma patch_List_scoped:
  "extract_ok (engine s) \<Longrightarrow> scoped_ok tn (\<lambda>l. map cp_metadata (lr_items l)) s (patch_List env tn q s)"
  unfolding patch_List_def Let_def by (intro scoped_if ListTyped_scoped) (auto split: if_splits)

subsection \<open>Machines\<close>

abbreviation m_shown :: "machine \<Rightarrow> metadata list" where "m_shown m \<equiv> [m_metadata m]"

lemma machine_GetByTenant_scoped: "scoped_ok tn m_shown s (machine_GetByTenant tn ident s)"
  unfolding machine_GetByTenant_def tenantMachine_eq by (rule machines.guarded) simp

lemma UpdateMachineStatus_scoped:
  assumes "owns tn ''machine'' ident s"
  shows "isolated tn s (snd (UpdateMachineStatus ident st s))"
    and "UpdateMachineStatus ident st s = (Inr m, t) \<Longrightarrow> owned_by tn (md_labels (m_metadata m))"
proof -
  have "isolated tn s (snd (UpdateStatus ''machine'' ident (enc_machine_status st) s))"
    by (rule isolated_UpdateStatus [OF assms])
  then show "isolated tn s (snd (UpdateMachineStatus ident st s))"
    by (auto simp: UpdateMachineStatus_def split: prod.splits sum.splits dest!: GetResource_snd)
  show "owned_by tn (md_labels (m_metadata m))" if "UpdateMachineStatus ident st s = (Inr m, t)"
    using that UpdateStatus_labels [OF _ assms]
    by (auto simp: UpdateMachineStatus_def split: prod.splits sum.splits)
qed

lemma machine_UpdateStatus_scoped: "scoped_ok tn m_shown s (machine_UpdateStatus tn ident body s)"
  unfolding machine_UpdateStatus_def tenantMachine_eq
proof (rule machines.guarded)
  fix x
  assume "owns tn ''machine'' ident (sql_next s)"
  note st = UpdateMachineStatus_scoped [OF this]
  show "scoped_ok tn m_shown (sql_next s)
      (case body of None \<Rightarrow> (BadRequest, sql_next s)
       | Some st \<Rightarrow>
           (case UpdateMachineStatus ident st (sql_next s) of
              (Inl e, s) \<Rightarrow> (if e = ErrNotFound then NotFound else InternalError, s)
            | (Inr m, s) \<Rightarrow> (Reply 200 m, s)))"
    by (cases body) (auto intro!: scoped_op st(1) dest: st(2))
qed

lemma machine_Delete_scoped: "scoped_ok tn m_shown s (machine_Delete tn ident s)"
  unfolding machine_Delete_def tenantMachine_eq
proof (rule machines.guarded, rule scoped_end)
  fix x
  assume o': "owns tn ''machine'' ident (sql_next s)"
  let ?d = "DeleteResource ''machine'' ident (sql_next s)"
  have d: "isolated tn (sql_next s) (snd ?d)" "owns tn ''machine'' ident (snd ?d)"
    by (rule isolated_Delete [OF o'], rule owns_Delete [OF o'])
  have a: "isolated tn (snd ?d) (snd (AddFinalizer ''machine'' ident linkFinalizer
      (snd (AddFinalizer ''machine'' ident configFinalizer (snd ?d)))))"
    by (rule isolated_trans [OF isolated_AddFinalizer [OF d(2)] isolated_AddFinalizer [OF owns_AddFinalizer [OF d(2)]]])
  show "isolated tn (sql_next s) (snd (DeleteMachine ident (sql_next s)))"
    using d(1) isolated_trans [OF d(1) a] by (auto simp: DeleteMachine_def split: prod.splits sum.splits)
qed

text \<open>Operations that only read: they consume faults and change nothing.\<close>

definition reads :: "store \<Rightarrow> store \<Rightarrow> bool" where
  "reads s t \<longleftrightarrow> (\<exists>fs. t = s\<lparr>faults := fs\<rparr>)"

named_theorems reads_intros \<open>reading operations\<close>

lemma reads_refl [simp]: "reads s s"
  by (auto simp: reads_def intro: exI [of _ "faults s"])

lemma reads_next [simp]: "reads s (sql_next t) = reads s t"
proof
  assume "reads s (sql_next t)"
  then obtain fs where "sql_next t = s\<lparr>faults := fs\<rparr>" by (auto simp: reads_def)
  then have "t = s\<lparr>faults := faults t\<rparr>" by (cases s; cases t) (simp add: sql_next_def)
  then show "reads s t" by (auto simp: reads_def)
qed (auto simp: reads_def sql_next_def)

lemma reads_isolated: "reads s t \<Longrightarrow> isolated tn s t"
  by (auto simp: reads_def isolated_def)

lemma reads_trans: "reads s t \<Longrightarrow> reads t u \<Longrightarrow> reads s u"
  by (auto simp: reads_def)

lemma reads_bind:
  "reads s (snd m) \<Longrightarrow> (\<And>x t. reads s t \<Longrightarrow> reads s (snd (f x t))) \<Longrightarrow> reads s (snd (case m of (x, t) \<Rightarrow> f x t))"
  by (cases m) auto

lemma reads_List: "reads s t \<Longrightarrow> reads s (snd (ListResources rt opts t))"
  by (auto simp: ListResources_def sql_def Let_def)

lemma reads_GetMachine [reads_intros]: "reads s t \<Longrightarrow> reads s (snd (GetMachine ident t))"
  by (auto simp: GetMachine_def GetResource_def sql_def split: option.splits)

lemma reads_GetTenant [reads_intros]: "reads s t \<Longrightarrow> reads s (snd (GetTenant name t))"
  by (auto simp: GetTenant_def GetResource_def sql_def split: option.splits)

lemma reads_LoadSecrets [reads_intros]: "reads s t \<Longrightarrow> reads s (snd (LoadTenantSecrets name t))"
  by (auto simp: LoadTenantSecrets_def sql_def)

lemma reads_ResolvePatches [reads_intros]: "reads s t \<Longrightarrow> reads s (snd (ResolvePatches tn role m t))"
  using reads_List [of s t]
  by (auto simp: ResolvePatches_def ListTypedByTenant_def ListTyped_def Let_def split: prod.splits sum.splits)
    (metis snd_conv)+

lemma reads_render: "reads s (snd (GenerateMachineConfig env tn ident patches s))"
  unfolding GenerateMachineConfig_def
  by (intro reads_bind reads_intros; auto split: sum.splits option.splits
      simp: Let_def intro!: reads_bind reads_intros)

lemma machine_Config_scoped: "scoped_ok tn (\<lambda>_. []) s (machine_Config env tn ident s)"
proof -
  have "reads s (snd (machine_Config env tn ident s))"
    using reads_render [of s env tn ident None] by (auto simp: machine_Config_def split: prod.splits sum.splits)
  then show ?thesis
    by (cases "fst (machine_Config env tn ident s)") (simp_all add: scoped_ok_def reads_isolated)
qed

lemma machine_ConfigDiff_scoped: "scoped_ok tn (\<lambda>_. []) s (machine_ConfigDiff env tn ident s)"
proof -
  have r: "reads s (snd (GenerateMachineConfig env tn ident None t))" if "reads s t" for t tn
    using reads_trans [OF that reads_render] .
  have "reads s (snd (machine_ConfigDiff env tn ident s))"
    unfolding machine_ConfigDiff_def
    by (rule reads_bind)
      (auto intro!: reads_intros reads_bind r split: sum.splits option.splits)
  then show ?thesis
    by (cases "fst (machine_ConfigDiff env tn ident s)") (simp_all add: scoped_ok_def reads_isolated)
qed

lemma ListMachinesByTenant_scoped:
  assumes "extract_ok (engine s)"
  shows "scoped_ok tn (\<lambda>l. map m_metadata (lr_items l)) s
    (case ListMachinesByTenant tn [WithLimit lim, WithOffset off] s of
       (Inl _, s) \<Rightarrow> (InternalError, s) | (Inr (ms, tot), s) \<Rightarrow> (Reply 200 (mk_list pg ms tot), s))"
proof (cases "ListResources ''machine'' (newListOptions ([WithLimit lim, WithOffset off] @ [WithLabelSelector (tenantSelector tn)])) s")
  case (Pair a t)
  let ?o = "newListOptions ([WithLimit lim, WithOffset off] @ [WithLabelSelector (tenantSelector tn)])"
  have sel: "lo_labelSelector ?o = tenantSelector tn"
    by (simp add: newListOptions_def WithLabelSelector_def)
  have iso: "isolated tn s t"
    using steps_only_next [of tn s "''machine''" ?o] Pair by simp
  show ?thesis
  proof (cases a)
    case (Inr x)
    obtain items n where x: "x = (items, n)" by fastforce
    have "owned_by tn (md_labels (m_metadata (mk_machine y)))" if "y \<in> set items" for y
      using listed_owned [OF assms Pair [unfolded Inr x] sel] that by (cases y) (simp add: mk_machine_def)
    then show ?thesis
      using iso by (simp add: ListMachinesByTenant_def ListMachines_def Pair [simplified] Inr x mk_list_def list_all_iff)
  qed (use iso in \<open>simp add: ListMachinesByTenant_def ListMachines_def Pair [simplified]\<close>)
qed

lemma machine_ListByTenant_scoped:
  assumes "extract_ok (engine s)"
  shows "scoped_ok tn (\<lambda>l. map m_metadata (lr_items l)) s (machine_ListByTenant env tn q s)"
proof -
  have g: "snd (GetTenant tn s) = sql_next s"
    by (auto simp: GetTenant_def GetResource_def sql_def split: option.splits)
  have "extract_ok (engine (sql_next s))"
    using assms by simp
  note l = scoped_trans [OF isolated_sql(1) ListMachinesByTenant_scoped [OF this]]
  show ?thesis
    unfolding machine_ListByTenant_def Let_def
    by (intro scoped_if; cases "GetTenant tn s")
      (use g l in \<open>auto split: sum.splits option.splits\<close>)
qed

section \<open>The routes under a tenant\<close>

datatype ng_route =
    NgList query
  | NgCreate "ng_spec_json api_request option"
  | NgGet string
  | NgUpdate string "ng_spec_json api_request option"
  | NgDelete string
  | NgStatus string "node_group_status option"

datatype patch_route =
    PatchList query
  | PatchCreate "patch_spec api_request option"
  | PatchGet string
  | PatchUpdate string "patch_spec api_request option"
  | PatchDelete string

datatype machine_route =
    MachineList query
  | MachineGet string
  | MachineConfig string
  | MachineConfigDiff string
  | MachineStatus string "machine_status option"
  | MachineDelete string

text \<open>What the client sees of an answer: the status code and the metadata of the objects in the body.\<close>

fun code :: "'a reply \<Rightarrow> int" where
  "code (Reply c x) = c"
| "code (Fail c m) = c"
| "code (NoBody c) = c"
| "code (Stream rt f) = 200"

definition answer :: "('a \<Rightarrow> metadata list) \<Rightarrow> 'a reply \<times> store \<Rightarrow> (int \<times> metadata list) \<times> store" where
  "answer f res = ((code (fst res), shown f (fst res)), snd res)"

abbreviation listed_meta :: "('a \<Rightarrow> metadata) \<Rightarrow> 'a list_response \<Rightarrow> metadata list" where
  "listed_meta f l \<equiv> map f (lr_items l)"

fun nodegroupMux :: "api_env \<Rightarrow> string \<Rightarrow> ng_route \<Rightarrow> store \<Rightarrow> (int \<times> metadata list) \<times> store" where
  "nodegroupMux env tn (NgList q) s = answer (listed_meta g_metadata) (nodegroup_List env tn q s)"
| "nodegroupMux env tn (NgCreate b) s = answer ng_shown (nodegroup_Create env tn b s)"
| "nodegroupMux env tn (NgGet n) s = answer ng_shown (nodegroup_Get tn n s)"
| "nodegroupMux env tn (NgUpdate n b) s = answer ng_shown (nodegroup_Update tn n b s)"
| "nodegroupMux env tn (NgDelete n) s = answer ng_shown (nodegroup_Delete tn n s)"
| "nodegroupMux env tn (NgStatus n b) s = answer ng_shown (nodegroup_UpdateStatus tn n b s)"

fun patchMux :: "api_env \<Rightarrow> string \<Rightarrow> patch_route \<Rightarrow> store \<Rightarrow> (int \<times> metadata list) \<times> store" where
  "patchMux env tn (PatchList q) s = answer (listed_meta cp_metadata) (patch_List env tn q s)"
| "patchMux env tn (PatchCreate b) s = answer cp_shown (patch_Create env tn b s)"
| "patchMux env tn (PatchGet n) s = answer cp_shown (patch_Get tn n s)"
| "patchMux env tn (PatchUpdate n b) s = answer cp_shown (patch_Update env tn n b s)"
| "patchMux env tn (PatchDelete n) s = answer cp_shown (patch_Delete tn n s)"

fun machineMux :: "api_env \<Rightarrow> string \<Rightarrow> machine_route \<Rightarrow> store \<Rightarrow> (int \<times> metadata list) \<times> store" where
  "machineMux env tn (MachineList q) s = answer (listed_meta m_metadata) (machine_ListByTenant env tn q s)"
| "machineMux env tn (MachineGet n) s = answer m_shown (machine_GetByTenant tn n s)"
| "machineMux env tn (MachineConfig n) s = answer (\<lambda>_. []) (machine_Config env tn n s)"
| "machineMux env tn (MachineConfigDiff n) s = answer (\<lambda>_. []) (machine_ConfigDiff env tn n s)"
| "machineMux env tn (MachineStatus n b) s = answer m_shown (machine_UpdateStatus tn n b s)"
| "machineMux env tn (MachineDelete n) s = answer m_shown (machine_Delete tn n s)"

datatype scoped_request = OnNodeGroups ng_route | OnPatches patch_route | OnMachines machine_route

fun scopedMux :: "api_env \<Rightarrow> string \<Rightarrow> scoped_request \<Rightarrow> store \<Rightarrow> (int \<times> metadata list) \<times> store" where
  "scopedMux env tn (OnNodeGroups r) s = nodegroupMux env tn r s"
| "scopedMux env tn (OnPatches r) s = patchMux env tn r s"
| "scopedMux env tn (OnMachines r) s = machineMux env tn r s"

lemma answer_scoped:
  "scoped_ok tn f s res \<Longrightarrow>
   isolated tn s (snd (answer f res)) \<and> list_all (\<lambda>md. owned_by tn (md_labels md)) (snd (fst (answer f res)))"
  by (simp add: answer_def scoped_ok_def)

lemma scopedMux_isolated:
  assumes "extract_ok (engine s)"
  shows "isolated tn s (snd (scopedMux env tn r s)) \<and>
    list_all (\<lambda>md. owned_by tn (md_labels md)) (snd (fst (scopedMux env tn r s)))"
proof (cases r)
  case (OnNodeGroups x)
  show ?thesis
    by (cases x; simp only: OnNodeGroups scopedMux.simps nodegroupMux.simps;
        intro answer_scoped nodegroup_List_scoped [OF assms] nodegroup_Create_scoped nodegroup_Get_scoped
          nodegroup_Update_scoped nodegroup_Delete_scoped nodegroup_UpdateStatus_scoped)
next
  case (OnPatches x)
  show ?thesis
    by (cases x; simp only: OnPatches scopedMux.simps patchMux.simps;
        intro answer_scoped patch_List_scoped [OF assms] patch_Create_scoped patch_Get_scoped patch_Update_scoped
          patch_Delete_scoped)
next
  case (OnMachines x)
  show ?thesis
    by (cases x; simp only: OnMachines scopedMux.simps machineMux.simps;
        intro answer_scoped machine_ListByTenant_scoped [OF assms] machine_GetByTenant_scoped machine_Config_scoped
          machine_ConfigDiff_scoped machine_UpdateStatus_scoped machine_Delete_scoped)
qed

definition ex_lib :: talos_lib where
  "ex_lib = \<lparr>parse_contract = (\<lambda>v. if v = [] then None else Some v), new_bundle = (\<lambda>v. Some \<lparr>b_k8sCrt = v, b_osCrt = v, b_rest = []\<rparr>),
     bundle_json = (\<lambda>b. Some (b_k8sCrt b)), bundle_parse = (\<lambda>x. Some \<lparr>b_k8sCrt = x, b_osCrt = x, b_rest = []\<rparr>),
     client_cert = (\<lambda>b. Some (b_k8sCrt b, b_osCrt b)), write_kubeconfig = (\<lambda>k. Some (kc_server k)),
     write_talosconfig = (\<lambda>n es c k. Some (concat es)), url_host = (\<lambda>u. Some (drop 8 u)),
     make_config = (\<lambda>i t. Some t), apply_patches = (\<lambda>y ps. Some (y @ concat ps))\<rparr>"

definition ex_api :: api_env where
  "ex_api = \<lparr>av_bus = True, av_registry = routerRegistry (\<lambda>_. True) (\<lambda>_. Some 1) NewRegistry, av_lib = ex_lib, av_fetcher = None\<rparr>"



section \<open>The life of a tenant through the API\<close>

abbreviation row_tenant :: "row \<Rightarrow> tenant" where
  "row_tenant r \<equiv> mk_tenant (meta_of r, r_spec r, r_status r)"

abbreviation defaulted :: "tenant_spec \<Rightarrow> tenant_spec" where
  "defaulted spec \<equiv> (if ts_kubernetesVersion spec = [] then spec\<lparr>ts_kubernetesVersion := ''1.35.0''\<rparr> else spec)"

lemma SaveTenantSecrets_frame:
  "faults s = [] \<Longrightarrow> resources (snd (SaveTenantSecrets n b s)) = resources s \<and> faults (snd (SaveTenantSecrets n b s)) = []"
  by (simp add: SaveTenantSecrets_def)

lemma tenant_Create_healthy:
  assumes "faults s = []" "md_name (rq_metadata req) = name" "name \<noteq> []"
    and "Validate (av_registry env) ''tenant'' (SpecTenant (defaulted (rq_spec req)))"
    and "find_row s ''tenant'' name = None"
  shows "\<exists>r t. tenant_Create env (Some req) s = (Reply 201 (row_tenant r), t) \<and>
    find_row t ''tenant'' name = Some r \<and> faults t = [] \<and> r_version r = 1 \<and> r_deleted r = None \<and>
    dec_tenant_spec (r_spec r) = defaulted (rq_spec req) \<and> tst_phase (dec_tenant_status (r_status r)) = TenantForming"
proof -
  define r where "r = new_row ''tenant'' name (enc_tenant_spec (defaulted (rq_spec req)))
      (enc_tenant_status ((dec_tenant_status JNull)\<lparr>tst_phase := TenantForming\<rparr>))
      (md_labels (rq_metadata req)) (md_annotations (rq_metadata req)) s"
  let ?s = "publish ''ADDED'' MutationCreate ''tenant'' (meta_of r) (Some (r_spec r)) (Some (r_status r))
    (s\<lparr>resources := tbl_ins r (resources s)\<rparr>)"
  have c: "CreateTenant name (defaulted (rq_spec req)) (md_labels (rq_metadata req)) (md_annotations (rq_metadata req)) s =
      (Inr (row_tenant r), ?s)"
    using assms(1,5)
    by (simp add: CreateTenant_def CreateResource_healthy Let_def r_def mk_tenant_def dec_enc_tenant_spec dec_enc_tenant_status)
  have k: "r_type r = ''tenant''" "r_name r = name"
    by (simp_all add: r_def)
  have f: "find_row ?s ''tenant'' name = Some r"
    using assms(5) resource_table.get_ins [of "resources s" r "(''tenant'', name)"] by (simp add: k)
  have "\<exists>t. tenant_Create env (Some req) s = (Reply 201 (row_tenant r), t) \<and>
      find_row t ''tenant'' name = Some r \<and> faults t = []"
    using assms(1-5) f c SaveTenantSecrets_frame [of ?s]
    by (auto simp: tenant_Create_def GetTenant_healthy Let_def SaveTenantSecrets_def split: option.splits)
  moreover have "r_version r = 1" "r_deleted r = None" "dec_tenant_spec (r_spec r) = defaulted (rq_spec req)"
    "tst_phase (dec_tenant_status (r_status r)) = TenantForming"
    by (simp_all add: r_def dec_enc_tenant_spec dec_enc_tenant_status)
  ultimately show ?thesis
    by blast
qed

lemma tenant_Update_healthy:
  assumes "faults s = []" "find_row s ''tenant'' name = Some r" "v = md_resourceVersion (rq_metadata req)" "v \<noteq> 0"
  shows "v \<noteq> r_version r \<Longrightarrow> tenant_Update name (Some req) s = (Conflict, s)"
    and "v = r_version r \<Longrightarrow> \<exists>t r'. tenant_Update name (Some req) s = (Reply 200 (row_tenant r'), t) \<and>
      find_row t ''tenant'' name = Some r' \<and> faults t = [] \<and> r_version r' = v + 1 \<and>
      dec_tenant_spec (r_spec r') = rq_spec req \<and> r_status r' = r_status r \<and> r_deleted r' = r_deleted r"
proof -
  assume "v \<noteq> r_version r"
  then show "tenant_Update name (Some req) s = (Conflict, s)"
    using assms by (simp add: tenant_Update_def UpdateTenantSpec_def UpdateResource_healthy Let_def)
next
  assume v: "v = r_version r"
  let ?r = "r\<lparr>r_spec := enc_tenant_spec (rq_spec req), r_labels := md_labels (rq_metadata req),
    r_annotations := md_annotations (rq_metadata req), r_updated := clock s, r_version := r_version r + 1\<rparr>"
  show "\<exists>t r'. tenant_Update name (Some req) s = (Reply 200 (row_tenant r'), t) \<and>
      find_row t ''tenant'' name = Some r' \<and> faults t = [] \<and> r_version r' = v + 1 \<and>
      dec_tenant_spec (r_spec r') = rq_spec req \<and> r_status r' = r_status r \<and> r_deleted r' = r_deleted r"
    using assms v
    by (auto simp: tenant_Update_def UpdateTenantSpec_def UpdateResource_healthy GetResource_healthy Let_def
        mk_tenant_def dec_enc_tenant_spec intro!: exI [of _ ?r])
qed

lemma tenant_Delete_healthy:
  assumes "faults s = []" "find_row s ''tenant'' name = Some r" "r_deleted r = None"
  shows "\<exists>t. tenant_Delete name s = (Reply 202 (row_tenant (deleting_row (clock s) r)), t) \<and>
    find_row t ''tenant'' name = Some (deleting_row (clock s) r) \<and> faults t = []"
  using DeleteTenant_row [OF assms]
  by (cases "DeleteTenant name s") (auto simp: tenant_Delete_def GetTenant_healthy)

lemma tenant_Delete_twice:
  "faults s = [] \<Longrightarrow> find_row s ''tenant'' name = Some r \<Longrightarrow> r_deleted r \<noteq> None \<Longrightarrow> tenant_Delete name s = (NotFound, s)"
  by (simp add: tenant_Delete_def DeleteTenant_def DeleteResource_healthy)

text \<open>
  a tenant through the API of a healthy store. A valid POST of a new name answers 201 with version
  1, the default Kubernetes version filled in and the phase forming; GET returns the same object and a
  second POST answers 409 without effect. A PUT at the current version answers 200 with the version
  raised by one and the new spec, and repeating it answers 409 without effect. DELETE answers 202 with
  the deletion time and both teardown finalizers on the object that GET still returns, and a second
  DELETE answers 404.
\<close>

theorem tenant_api_lifecycle:
  assumes "faults s = []" "md_name (rq_metadata req) = name" "name \<noteq> []"
    and "Validate (av_registry env) ''tenant'' (SpecTenant (defaulted (rq_spec req)))"
    and "find_row s ''tenant'' name = None" "md_resourceVersion (rq_metadata put) = 1"
  shows "\<exists>t s1 t2 s2 t3 s3.
    tenant_Create env (Some req) s = (Reply 201 t, s1) \<and> t_spec t = defaulted (rq_spec req) \<and>
    tst_phase (t_status t) = TenantForming \<and> md_resourceVersion (t_metadata t) = 1 \<and>
    tenant_Get name s1 = (Reply 200 t, s1) \<and> tenant_Create env (Some req) s1 = (Conflict, s1) \<and>
    tenant_Update name (Some put) s1 = (Reply 200 t2, s2) \<and> t_spec t2 = rq_spec put \<and>
    md_resourceVersion (t_metadata t2) = 2 \<and> t_status t2 = t_status t \<and> tenant_Get name s2 = (Reply 200 t2, s2) \<and>
    tenant_Update name (Some put) s2 = (Conflict, s2) \<and>
    tenant_Delete name s2 = (Reply 202 t3, s3) \<and> md_deletionTimestamp (t_metadata t3) = Some (clock s2) \<and>
    {machinesFinalizer, secretsFinalizer} \<subseteq> set (md_finalizers (t_metadata t3)) \<and>
    tenant_Get name s3 = (Reply 200 t3, s3) \<and> tenant_Delete name s3 = (NotFound, s3)"
proof -
  from tenant_Create_healthy [OF assms(1-5)] obtain r s1 where
    c: "tenant_Create env (Some req) s = (Reply 201 (row_tenant r), s1)" "find_row s1 ''tenant'' name = Some r" "faults s1 = []"
    and r: "r_version r = 1" "r_deleted r = None" "dec_tenant_spec (r_spec r) = defaulted (rq_spec req)"
      "tst_phase (dec_tenant_status (r_status r)) = TenantForming"
    by blast
  have c2: "tenant_Create env (Some req) s1 = (Conflict, s1)"
    using assms(2-4) c(2,3) by (simp add: tenant_Create_def GetTenant_healthy Let_def)
  have put: "1 = md_resourceVersion (rq_metadata put)" "(1::int) \<noteq> 0" "1 = r_version r"
    using assms(6) r(1) by simp_all
  from tenant_Update_healthy(2) [OF c(3,2) put] obtain r2 s2 where
    u: "tenant_Update name (Some put) s1 = (Reply 200 (row_tenant r2), s2)" "find_row s2 ''tenant'' name = Some r2"
      "faults s2 = []" "r_version r2 = 2" "dec_tenant_spec (r_spec r2) = rq_spec put" "r_status r2 = r_status r"
      "r_deleted r2 = None"
    using r(2) by auto
  have u2: "tenant_Update name (Some put) s2 = (Conflict, s2)"
    by (rule tenant_Update_healthy(1) [OF u(3,2) put(1,2)]) (simp add: u(4))
  from tenant_Delete_healthy [OF u(3,2,7)] obtain s3 where
    d: "tenant_Delete name s2 = (Reply 202 (row_tenant (deleting_row (clock s2) r2)), s3)"
      "find_row s3 ''tenant'' name = Some (deleting_row (clock s2) r2)" "faults s3 = []"
    by blast
  have d2: "tenant_Delete name s3 = (NotFound, s3)"
    by (rule tenant_Delete_twice [OF d(3,2)]) simp
  have g: "tenant_Get name s1 = (Reply 200 (row_tenant r), s1)" "tenant_Get name s2 = (Reply 200 (row_tenant r2), s2)"
    "tenant_Get name s3 = (Reply 200 (row_tenant (deleting_row (clock s2) r2)), s3)"
    using c(2,3) u(2,3) d(2,3) by (simp_all add: tenant_Get_def GetTenant_healthy)
  have fin: "{machinesFinalizer, secretsFinalizer} \<subseteq> set (md_finalizers (t_metadata (row_tenant (deleting_row (clock s2) r2))))"
    by (auto simp: mk_tenant_def deleting_row_def)
  show ?thesis
    by (intro exI conjI, rule c(1), simp add: mk_tenant_def r, simp add: mk_tenant_def r, simp add: mk_tenant_def r,
        rule g(1), rule c2, rule u(1), simp add: mk_tenant_def u(5), simp add: mk_tenant_def u(4),
        simp add: mk_tenant_def u(6), rule g(2), rule u2, rule d(1), simp add: mk_tenant_def, rule fin, rule g(3), rule d2)
qed

definition ex_tenant_req :: "string \<Rightarrow> int \<Rightarrow> tenant_spec api_request" where
  "ex_tenant_req name v = \<lparr>rq_metadata = zero_metadata\<lparr>md_name := name, md_resourceVersion := v\<rparr>,
     rq_spec = (dec_tenant_spec JNull)\<lparr>ts_kubernetesVersion := ''1.34.1''\<rparr>\<rparr>"

theorem tenant_api_lifecycle_witness:
  "\<exists>t s1 t2 s2 t3 s3.
    tenant_Create ex_api (Some (ex_tenant_req ''new'' 0)) ex_store = (Reply 201 t, s1) \<and>
    tenant_Update ''new'' (Some (ex_tenant_req ''new'' 1)) s1 = (Reply 200 t2, s2) \<and>
    md_resourceVersion (t_metadata t2) = 2 \<and> tenant_Delete ''new'' s2 = (Reply 202 t3, s3)"
proof -
  have n: "md_name (rq_metadata (ex_tenant_req ''new'' 0)) = ''new''" "''new'' \<noteq> []"
    "md_resourceVersion (rq_metadata (ex_tenant_req ''new'' 1)) = 1"
    by (simp_all add: ex_tenant_req_def)
  have f: "find_row ex_store ''tenant'' ''new'' = None" "faults ex_store = []"
    by simp_all
  have "trimSpace ''1.34.1'' \<noteq> []"
    by code_simp
  then have v: "Validate (av_registry ex_api) ''tenant'' (SpecTenant (defaulted (rq_spec (ex_tenant_req ''new'' 0))))"
    by (simp add: ex_api_def routerRegistry_def Register_def NewRegistry_def Validate_def ex_tenant_req_def)
  show ?thesis
    using tenant_api_lifecycle [OF f(2) n(1,2) v f(1) n(3)]
    by (elim exE conjE, intro exI conjI) assumption+
qed

section \<open>Pagination\<close>

lemma digitChar_digit: "n < 10 \<Longrightarrow> isDigit (digitChar n) \<and> (of_char (digitChar n) :: nat) = 48 + n"
  by (simp add: isDigit_def digitChar_def)

lemma digitsValue_snoc: "digitsValue (ds @ [c]) = 10 * digitsValue ds + (of_char c - 48)"
  by (simp add: digitsValue_def)

lemma baseDigits_value: "list_all isDigit (baseDigits 10 n) \<and> digitsValue (baseDigits 10 n) = n"
proof (induction "10 :: nat" n rule: baseDigits.induct)
  case (1 n)
  show ?case
  proof (cases "n < 10")
    case True
    then show ?thesis
      by (subst (1 2) baseDigits.simps) (simp add: digitChar_digit digitsValue_def)
  next
    case False
    then have IH: "list_all isDigit (baseDigits 10 (n div 10))" "digitsValue (baseDigits 10 (n div 10)) = n div 10"
      using 1 by simp_all
    have "n mod 10 < 10" by simp
    note d = digitChar_digit [OF this]
    show ?thesis
      using False IH d by (subst (1 2) baseDigits.simps) (simp add: digitsValue_snoc)
  qed
qed

lemma atoi_itoa: "- (2 ^ 63) \<le> i \<Longrightarrow> i < 2 ^ 63 \<Longrightarrow> atoi (itoa i) = Some i"
proof -
  assume i: "- (2 ^ 63) \<le> i" "i < 2 ^ 63"
  have sign: "\<not> hasPrefix (baseDigits 10 n) ''-''" "\<not> hasPrefix (baseDigits 10 n) ''+''" for n
    using baseDigits_value [of n] by (cases "baseDigits 10 n"; auto simp: hasPrefix_def isDigit_def)+
  show ?thesis
  proof (cases "i < 0")
    case True
    then have "itoa i = CHR ''-'' # baseDigits 10 (nat (- i))"
      by (simp add: itoa_def)
    then show ?thesis
      using i True baseDigits_value [of "nat (- i)"] by (simp add: atoi_def hasPrefix_def)
  next
    case False
    then have "itoa i = baseDigits 10 (nat i)"
      by (simp add: itoa_def)
    then show ?thesis
      using i False baseDigits_value [of "nat i"] sign by (simp add: atoi_def)
  qed
qed

lemma itoa_not_Nil [simp]: "itoa i \<noteq> []"
  by (simp add: itoa_def)

lemma Parse_bounds: "1 \<le> pg_limit (Parse q) \<and> pg_limit (Parse q) \<le> 500 \<and> 0 \<le> pg_offset (Parse q)"
  by (auto simp: Parse_def split: option.splits)

lemma Remaining_page:
  assumes "limit \<ge> 1" "off \<ge> 0"
  shows "RemainingItemCount (int n) off (int (min (n - nat off) (nat limit))) = int (n - (nat off + nat limit))"
proof -
  obtain o' l where "off = int o'" "limit = int l"
    using assms by (metis nonneg_int_cases order_trans zero_le_one)
  then show ?thesis
    by (auto simp: RemainingItemCount_def Let_def min_def)
qed

lemma ListTenants_page:
  assumes "faults s = []" "limit > 0"
  shows "ListTenants [WithLimit limit, WithOffset off] s =
    (Inr (map row_tenant (page off limit (sort_key r_name (listed ''tenant'' [] s))), int (length (listed ''tenant'' [] s))), s)"
  using assms
  by (simp add: ListTenants_def newListOptions_def WithLimit_def WithOffset_def ListResources_healthy comp_def)

text \<open>
  pagination of the tenant list. Whatever the query says, the limit is between 1 and 500 and the
  offset is not negative; a limit or offset in that range written in decimal is taken as it is. On a
  healthy store the answer is that slice of all tenants in name order, with their number and the number
  of those after the slice, so a client that goes on until nothing remains has seen each tenant once.
\<close>

theorem tenant_List_pages:
  assumes "faults s = []" "q_watch q \<noteq> ''true''"
  shows "let pg = Parse q; everything = map row_tenant (sort_key r_name (listed ''tenant'' [] s)) in
    1 \<le> pg_limit pg \<and> pg_limit pg \<le> 500 \<and> 0 \<le> pg_offset pg \<and>
    (\<forall>n. 1 \<le> n \<and> n \<le> 500 \<and> q_limit q = itoa n \<longrightarrow> pg_limit pg = n) \<and>
    (\<forall>n. 0 \<le> n \<and> n < 2 ^ 63 \<and> q_offset q = itoa n \<longrightarrow> pg_offset pg = n) \<and>
    tenant_List env q s =
      (Reply 200 \<lparr>lr_items = take (nat (pg_limit pg)) (drop (nat (pg_offset pg)) everything),
         lr_total = int (length everything),
         lr_remaining = int (length (drop (nat (pg_offset pg) + nat (pg_limit pg)) everything))\<rparr>, s)"
proof -
  have "pg_limit (Parse q) = n" if "1 \<le> n" "n \<le> 500" "q_limit q = itoa n" for n
    using that atoi_itoa [of n] by (simp add: Parse_def)
  moreover have "pg_offset (Parse q) = n" if "0 \<le> n" "n < 2 ^ 63" "q_offset q = itoa n" for n
    using that atoi_itoa [of n] by (simp add: Parse_def)
  moreover have "tenant_List env q s =
      (Reply 200 (mk_list (Parse q) (map row_tenant (page (pg_offset (Parse q)) (pg_limit (Parse q))
         (sort_key r_name (listed ''tenant'' [] s)))) (int (length (listed ''tenant'' [] s)))), s)"
    using assms Parse_bounds [of q] by (simp add: tenant_List_def Let_def ListTenants_page)
  moreover have "mk_list pg (map f (page (pg_offset pg) (pg_limit pg) xs)) (int (length ys)) =
      \<lparr>lr_items = take (nat (pg_limit pg)) (drop (nat (pg_offset pg)) (map f xs)), lr_total = int (length (map f xs)),
       lr_remaining = int (length (drop (nat (pg_offset pg) + nat (pg_limit pg)) (map f xs)))\<rparr>"
    if "pg_limit pg \<ge> 1" "pg_offset pg \<ge> 0" "length ys = length xs" for pg and f :: "row \<Rightarrow> tenant" and xs ys :: "row list"
    using that Remaining_page [of "pg_limit pg" "pg_offset pg" "length xs"]
    by (cases "pg_offset pg = 0") (simp_all add: mk_list_def page_def take_map drop_map Let_def)
  ultimately show ?thesis
    using Parse_bounds [of q] by (simp add: Let_def)
qed

theorem tenant_List_pages_witness:
  "tenant_List ex_api \<lparr>q_watch = [], q_limit = itoa 1, q_offset = itoa 1\<rparr> ex_store =
     (Reply 200 \<lparr>lr_items = [], lr_total = 1, lr_remaining = 0\<rparr>, ex_store)"
proof -
  let ?q = "\<lparr>q_watch = [], q_limit = itoa 1, q_offset = itoa 1\<rparr>"
  have f: "faults ex_store = []" "q_watch ?q \<noteq> ''true''"
    by simp_all
  have l: "length (listed ''tenant'' [] ex_store) = 1"
    by (simp add: listed_def selects_def)
  have "pg_limit (Parse ?q) = 1" "pg_offset (Parse ?q) = 1"
    using atoi_itoa [of 1] by (simp_all add: Parse_def)
  then show ?thesis
    using tenant_List_pages [OF f, of ex_api] l by (simp add: Let_def)
qed

section \<open>Which patches a machine gets\<close>

text \<open>Whether a patch applies to a machine of a role, as the comment of \<^verbatim>\<open>ResolvePatches\<close> puts it.\<close>

definition patch_applies :: "string \<Rightarrow> string \<Rightarrow> patch_spec \<Rightarrow> bool" where
  "patch_applies role machine ps \<longleftrightarrow>
     ps_enabled ps \<and> (ps_scope ps = ScopeMachine \<longrightarrow> ps_targetMachine ps = machine) \<and>
     (ps_targetRole ps \<in> {[], ''all'', role} \<or> role = [])"

abbreviation patch_rank :: "patch_spec \<Rightarrow> nat" where
  "patch_rank ps \<equiv> (if ps_scope ps = ScopeMachine then 1 else 0)"

lemma resolvePatch_iff:
  "resolvePatch role machine (name, ps) =
     (if patch_applies role machine ps then Some \<lparr>sc_name = name, sc_rank = patch_rank ps, sc_patches = ps_patch ps\<rparr> else None)"
  by (auto simp: resolvePatch_def patch_applies_def effectiveScope_def Let_def)

lemma sort_rank:
  "(\<And>x. x \<in> set ys \<Longrightarrow> f x \<le> (1::nat)) \<Longrightarrow>
   sort_key f ys = filter (\<lambda>x. f x = 0) ys @ filter (\<lambda>x. f x \<noteq> 0) ys"
proof (induction ys)
  case (Cons y ys)
  have ins: "insort_key f y (zs @ os) = zs @ y # os"
    if "\<forall>x\<in>set zs. f x = 0" "\<forall>x\<in>set os. f y \<le> f x" "f y \<noteq> 0" for zs os
    using that by (induction zs) (auto simp: insort_is_Cons)
  have front: "insort_key f y zs = y # zs" if "f y = 0" for zs
    using that by (cases zs) auto
  show ?case
  proof (cases "f y = 0")
    case False
    then have "f y = 1" using Cons.prems [of y] by simp
    then show ?thesis
      using Cons ins [of "filter (\<lambda>x. f x = 0) ys" "filter (\<lambda>x. f x \<noteq> 0) ys"] by auto
  qed (use Cons front in simp)
qed simp

definition patch_before :: "scoped \<Rightarrow> scoped \<Rightarrow> bool" where
  "patch_before x y \<longleftrightarrow> sc_rank x < sc_rank y \<or> sc_rank x = sc_rank y \<and> sc_name x < sc_name y"

lemma sorted_patches:
  assumes "distinct (map sc_name xs)" "\<And>x. x \<in> set xs \<Longrightarrow> sc_rank x \<le> 1"
  shows "sorted_wrt patch_before (sort_key sc_rank (sort_key sc_name xs))"
proof -
  let ?ys = "sort_key sc_name xs"
  have "sorted_wrt (<) (map sc_name ?ys)"
    using assms(1) by (simp only: strict_sorted_iff sorted_sort_key distinct_map distinct_sort set_sort simp_thms)
  then have s: "sorted_wrt (\<lambda>x y. sc_name x < sc_name y) ?ys"
    by (simp add: sorted_wrt_map)
  have z: "sorted_wrt patch_before (filter (\<lambda>x. sc_rank x = 0) ?ys)"
    by (rule sorted_wrt_mono_rel [OF _ sorted_wrt_filter [OF s]]) (auto simp: patch_before_def)
  have o': "sorted_wrt patch_before (filter (\<lambda>x. sc_rank x \<noteq> 0) ?ys)"
    using assms(2)
    by (intro sorted_wrt_mono_rel [OF _ sorted_wrt_filter [OF s]]) (fastforce simp: patch_before_def)
  show ?thesis
    using assms(2) z o' by (subst sort_rank) (auto simp: sorted_wrt_append patch_before_def)
qed

text \<open>The patch row of a tenant that counts: live, labelled and well-formed.\<close>

definition patch_row :: "string \<Rightarrow> store \<Rightarrow> row \<Rightarrow> bool" where
  "patch_row tn s r \<longleftrightarrow> r \<in> set (resources s) \<and> r_type r = ''configpatch'' \<and> r_deleted r = None \<and>
     has_tenant tn (r_labels r) \<and> ok_patch_spec (r_spec r)"

definition row_scoped :: "string \<Rightarrow> string \<Rightarrow> row \<Rightarrow> scoped option" where
  "row_scoped role machine r =
     (if ok_patch_spec (r_spec r) then resolvePatch role machine (r_name r, dec_patch_spec (r_spec r)) else None)"

lemma row_scoped_Some:
  "row_scoped role machine r = Some x \<longleftrightarrow> ok_patch_spec (r_spec r) \<and> patch_applies role machine (dec_patch_spec (r_spec r)) \<and>
     x = \<lparr>sc_name = r_name r, sc_rank = patch_rank (dec_patch_spec (r_spec r)), sc_patches = ps_patch (dec_patch_spec (r_spec r))\<rparr>"
  by (auto simp: row_scoped_def resolvePatch_iff)

lemma ResolvePatches_healthy:
  assumes "faults s = []"
  shows "ResolvePatches tn role machine s =
    (Inr (map sc_patches (sort_key sc_rank (sort_key sc_name
       (List.map_filter (row_scoped role machine) (sort_key r_name (listed ''configpatch'' (tenantSelector tn) s)))))), s)"
proof -
  have m: "List.map_filter (resolvePatch role machine)
      (List.map_filter (\<lambda>(md, spec, status). if ok_patch_spec spec then Some (md_name md, dec_patch_spec spec) else None)
        (map (\<lambda>r. (meta_of r, r_spec r, r_status r)) rs)) = List.map_filter (row_scoped role machine) rs" for rs
    by (induction rs) (auto simp: List.map_filter_simps row_scoped_def split: option.splits)
  show ?thesis
    using assms
    by (simp add: ResolvePatches_def ListTypedByTenant_def ListTyped_def ListResources_healthy Let_def m)
qed

lemma map_filter_mem: "x \<in> set (List.map_filter f xs) \<Longrightarrow> \<exists>r\<in>set xs. f r = Some x"
  by (auto simp: map_filter_def)

lemma map_filter_names:
  "(\<And>r x. g r = Some x \<Longrightarrow> sc_name x = r_name r) \<Longrightarrow> distinct (map r_name rs) \<Longrightarrow>
   distinct (map sc_name (List.map_filter g rs))"
proof (induction rs)
  case (Cons r rs)
  have "sc_name ` set (List.map_filter g rs) \<subseteq> r_name ` set rs"
    using Cons.prems(1) by (auto simp: map_filter_def)
  then show ?case
    using Cons by (auto simp: List.map_filter_simps split: option.splits)
qed (simp add: List.map_filter_simps)

text \<open>
  C17: the patches of a machine. On a healthy store the resolver returns the texts of exactly the
  tenant's live patches that are enabled and apply to the machine and role, each once, ordered by
  scope and then by name: every cluster patch before every machine patch, so that the machine patch,
  applied last, wins, and the order does not depend on the database.
\<close>

theorem ResolvePatches_exact:
  assumes "faults s = []" "store_inv s" "extract_ok (engine s)"
  shows "\<exists>sel. ResolvePatches tn role machine s = (Inr (map sc_patches sel), s) \<and>
    (\<forall>x. x \<in> set sel \<longleftrightarrow> (\<exists>r. patch_row tn s r \<and> patch_applies role machine (dec_patch_spec (r_spec r)) \<and>
       x = \<lparr>sc_name = r_name r, sc_rank = patch_rank (dec_patch_spec (r_spec r)),
            sc_patches = ps_patch (dec_patch_spec (r_spec r))\<rparr>)) \<and>
    distinct (map sc_name sel) \<and> sorted_wrt patch_before sel"
proof (intro exI conjI)
  let ?rs = "sort_key r_name (listed ''configpatch'' (tenantSelector tn) s)"
  let ?xs = "List.map_filter (row_scoped role machine) ?rs"
  let ?sel = "sort_key sc_rank (sort_key sc_name ?xs)"
  have d: "distinct (map sc_name ?xs)"
  proof (rule map_filter_names)
    show "distinct (map r_name ?rs)"
      using listed_names_distinct [OF assms(2)] by (simp add: distinct_map)
  qed (auto simp: row_scoped_Some)
  show "ResolvePatches tn role machine s = (Inr (map sc_patches ?sel), s)"
    by (rule ResolvePatches_healthy [OF assms(1)])
  show "\<forall>x. x \<in> set ?sel \<longleftrightarrow> (\<exists>r. patch_row tn s r \<and> patch_applies role machine (dec_patch_spec (r_spec r)) \<and>
       x = \<lparr>sc_name = r_name r, sc_rank = patch_rank (dec_patch_spec (r_spec r)),
            sc_patches = ps_patch (dec_patch_spec (r_spec r))\<rparr>)"
  proof
    fix x
    have row: "r \<in> set ?rs \<and> ok_patch_spec (r_spec r) \<longleftrightarrow> patch_row tn s r" for r
      by (simp only: set_sort listed_iff selects_tenant [OF assms(3)] patch_row_def conj_assoc)
    have "x \<in> set ?sel \<longleftrightarrow> (\<exists>r\<in>set ?rs. row_scoped role machine r = Some x)"
      by (force simp: map_filter_def)
    then show "x \<in> set ?sel \<longleftrightarrow> (\<exists>r. patch_row tn s r \<and> patch_applies role machine (dec_patch_spec (r_spec r)) \<and>
       x = \<lparr>sc_name = r_name r, sc_rank = patch_rank (dec_patch_spec (r_spec r)),
            sc_patches = ps_patch (dec_patch_spec (r_spec r))\<rparr>)"
      unfolding row_scoped_Some row [symmetric] by blast
  qed
  show "distinct (map sc_name ?sel)"
    using d by (simp add: distinct_map)
  show "sorted_wrt patch_before ?sel"
    by (rule sorted_patches [OF d]) (auto dest!: map_filter_mem simp: row_scoped_Some)
qed

definition ex_patch_row :: "string \<Rightarrow> patch_spec \<Rightarrow> row" where
  "ex_patch_row name ps = (ex_row ''configpatch'' name [(tenantLabel, ''acme'')])\<lparr>r_spec := enc_patch_spec ps\<rparr>"

definition ex_patches :: store where
  "ex_patches = ex_store\<lparr>resources :=
     [ex_patch_row ''a'' \<lparr>ps_patch = ''one'', ps_format = [], ps_scope = ScopeMachine, ps_targetMachine = ''m1'',
        ps_targetRole = [], ps_enabled = True\<rparr>,
      ex_patch_row ''b'' \<lparr>ps_patch = ''all'', ps_format = [], ps_scope = [], ps_targetMachine = [],
        ps_targetRole = ''worker'', ps_enabled = True\<rparr>]\<rparr>"

theorem ResolvePatches_exact_witness:
  "fst (ResolvePatches ''acme'' ''worker'' ''m1'' ex_patches) = Inr [''all'', ''one''] \<and>
   (\<exists>sel. map sc_patches sel = [''all'', ''one''] \<and> sorted_wrt patch_before sel)"
proof -
  have i: "store_inv ex_patches" "faults ex_patches = []" "extract_ok (engine ex_patches)"
    by (simp_all add: store_inv_def tbl_wf_def row_ok_def ex_patches_def ex_patch_row_def ex_store_def ex_engine_ok)
  have e: "fst (ResolvePatches ''acme'' ''worker'' ''m1'' ex_patches) = Inr [''all'', ''one'']"
    by code_simp
  from ResolvePatches_exact [OF i(2,1,3), of "''acme''" "''worker''" "''m1''"] obtain sel where
    "ResolvePatches ''acme'' ''worker'' ''m1'' ex_patches = (Inr (map sc_patches sel), ex_patches)" "sorted_wrt patch_before sel"
    by (elim exE conjE)
  with e show ?thesis
    by (intro conjI exI [of _ sel]) (simp_all only: fst_conv sum.inject)
qed

end
