(* ===== verification/Store_Refine.thy ===== *)
theory Store_Refine
  imports Store_Props
begin

text \<open>
  What the resource table promises its clients, as an abstract registry: a finite map from type and
  name to an entry, with eight atomic steps. Every run of the store, with any statements failing at any
  point, is a run of the registry.
\<close>

section \<open>The registry\<close>

record entry =
  e_version :: int
  e_spec :: json
  e_status :: json
  e_labels :: gomap
  e_annotations :: gomap
  e_finalizers :: "string set"
  e_deleting :: bool

type_synonym registry_state = "string \<times> string \<rightharpoonup> entry"

inductive registry_step :: "registry_state \<Rightarrow> registry_state \<Rightarrow> bool" where
  reg_create: "m k = None \<Longrightarrow> registry_step m (m(k \<mapsto> \<lparr>e_version = 1, e_spec = sp, e_status = st, e_labels = l,
    e_annotations = a, e_finalizers = {}, e_deleting = False\<rparr>))"
| reg_update: "m k = Some e \<Longrightarrow> registry_step m (m(k \<mapsto> e\<lparr>e_version := e_version e + 1, e_spec := sp, e_labels := l,
    e_annotations := a\<rparr>))"
| reg_status: "m k = Some e \<Longrightarrow> registry_step m (m(k \<mapsto> e\<lparr>e_status := st\<rparr>))"
| reg_mark: "m k = Some e \<Longrightarrow> \<not> e_deleting e \<Longrightarrow> registry_step m (m(k \<mapsto> e\<lparr>e_deleting := True\<rparr>))"
| reg_finalize: "m k = Some e \<Longrightarrow> registry_step m (m(k \<mapsto> e\<lparr>e_finalizers := insert f (e_finalizers e)\<rparr>))"
| reg_unfinalize: "m k = Some e \<Longrightarrow> f \<in> e_finalizers e \<Longrightarrow> \<not> (e_deleting e \<and> e_finalizers e = {f}) \<Longrightarrow>
    registry_step m (m(k \<mapsto> e\<lparr>e_finalizers := e_finalizers e - {f}\<rparr>))"
| reg_collect: "m k = Some e \<Longrightarrow> e_deleting e \<Longrightarrow> e_finalizers e = {f} \<Longrightarrow> registry_step m (m(k := None))"
| reg_remove: "registry_step m (m(k := None))"

definition entry_of :: "row \<Rightarrow> entry" where
  "entry_of r = \<lparr>e_version = r_version r, e_spec = r_spec r, e_status = r_status r, e_labels = r_labels r,
     e_annotations = r_annotations r, e_finalizers = set (r_finalizers r), e_deleting = (r_deleted r \<noteq> None)\<rparr>"

definition registry_of :: "store \<Rightarrow> registry_state" where
  "registry_of s k = map_option entry_of (tbl_get row_key (resources s) k)"

section \<open>Each operation is a step of the registry\<close>

lemma registry_frame [simp]:
  "registry_of (sql_next s) = registry_of s"
  "registry_of (publish et mu rt md sp st s) = registry_of s"
  "registry_of (snd (updateResourceMetadataAndPublish et mu rt name s)) = registry_of s"
  by (rule ext; simp add: registry_of_def)+

lemma registry_upd:
  assumes "find_row s rt name = Some r" "\<And>r. row_key (f r) = row_key r"
    and "resources t = tbl_upd row_key (rt, name) f (resources s)"
  shows "registry_of t = (registry_of s)((rt, name) \<mapsto> entry_of (f r))"
  using assms by (auto simp: registry_of_def fun_eq_iff)

lemma registry_ins:
  assumes "find_row s (r_type r) (r_name r) = None" "resources t = tbl_ins r (resources s)"
  shows "registry_of t = (registry_of s)(row_key r \<mapsto> entry_of r)"
  using assms by (auto simp: registry_of_def fun_eq_iff resource_table.get_ins)

lemma registry_del:
  "resources t = tbl_del row_key k (resources s) \<Longrightarrow> registry_of t = (registry_of s)(k := None)"
  by (auto simp: registry_of_def fun_eq_iff resource_table.get_del)

lemma registry_at: "find_row s rt name = Some r \<Longrightarrow> registry_of s (rt, name) = Some (entry_of r)"
  by (simp add: registry_of_def)

text \<open>An update of one row, as a step that changes one entry.\<close>

lemma registry_entry_step:
  assumes "find_row s rt name = Some r" "\<And>r. row_key (f r) = row_key r"
    and "resources t = tbl_upd row_key (rt, name) f (resources s)"
    and "\<And>m. m (rt, name) = Some (entry_of r) \<Longrightarrow> registry_step m (m((rt, name) \<mapsto> entry_of (f r)))"
  shows "registry_step\<^sup>*\<^sup>* (registry_of s) (registry_of t)"
  unfolding registry_upd [OF assms(1-3)]
  by (intro r_into_rtranclp assms(4) registry_at assms(1))

lemma registry_Create: "registry_step\<^sup>*\<^sup>* (registry_of s) (registry_of (snd (CreateResource rt name sp st l a s)))"
proof (cases "sql_ok s \<and> find_row s rt name = None")
  case True
  let ?r = "new_row rt name sp st l a (sql_next s)"
  have "resources (snd (CreateResource rt name sp st l a s)) = tbl_ins ?r (resources s)"
    using True by (simp add: CreateResource_def sql_def new_row_def)
  then have "registry_of (snd (CreateResource rt name sp st l a s)) = (registry_of s)(row_key ?r \<mapsto> entry_of ?r)"
    using True by (intro registry_ins) simp_all
  moreover have "registry_of s (rt, name) = None"
    using True by (simp add: registry_of_def)
  ultimately show ?thesis
    using reg_create [of "registry_of s" "(rt, name)" sp st l a] by (simp add: entry_of_def r_into_rtranclp)
qed (auto simp: CreateResource_def sql_def)

lemma registry_Update: "registry_step\<^sup>*\<^sup>* (registry_of s) (registry_of (snd (UpdateResource rt name v sp l a s)))"
proof (cases "sql_ok s \<and> (\<exists>r. find_row s rt name = Some r \<and> r_version r = v)")
  case True
  then obtain r where r: "find_row s rt name = Some r" "r_version r = v" by blast
  let ?f = "\<lambda>r. r\<lparr>r_spec := sp, r_labels := l, r_annotations := a, r_updated := clock s, r_version := r_version r + 1\<rparr>"
  have "registry_step m (m((rt, name) \<mapsto> entry_of (?f r)))" if "m (rt, name) = Some (entry_of r)" for m
    using that reg_update [where m = m and k = "(rt, name)" and e = "entry_of r" and sp = sp and l = l and a = a] by (simp add: entry_of_def)
  then show ?thesis
    using True r by (intro registry_entry_step [where f = ?f and r = r]) (simp_all add: UpdateResource_def sql_def)
qed (auto simp: UpdateResource_def sql_def split: option.splits)

lemma registry_UpdateStatus: "registry_step\<^sup>*\<^sup>* (registry_of s) (registry_of (snd (UpdateStatus rt name st s)))"
proof (cases "sql_ok s \<and> find_row s rt name \<noteq> None")
  case True
  then obtain r where r: "find_row s rt name = Some r" by blast
  let ?f = "\<lambda>r. r\<lparr>r_status := st, r_updated := clock s\<rparr>"
  have "registry_step m (m((rt, name) \<mapsto> entry_of (?f r)))" if "m (rt, name) = Some (entry_of r)" for m
    using that reg_status [of m "(rt, name)" "entry_of r" st] by (simp add: entry_of_def)
  then show ?thesis
    using True r by (intro registry_entry_step [where f = ?f and r = r]) (simp_all add: UpdateStatus_def sql_def)
qed (auto simp: UpdateStatus_def sql_def)

lemma registry_Delete: "registry_step\<^sup>*\<^sup>* (registry_of s) (registry_of (snd (DeleteResource rt name s)))"
proof (cases "sql_ok s \<and> (\<exists>r. find_row s rt name = Some r \<and> r_deleted r = None)")
  case True
  then obtain r where r: "find_row s rt name = Some r" "r_deleted r = None" by blast
  let ?f = "\<lambda>r. r\<lparr>r_deleted := Some (clock s), r_updated := clock s\<rparr>"
  have "registry_step m (m((rt, name) \<mapsto> entry_of (?f r)))" if "m (rt, name) = Some (entry_of r)" for m
    using that reg_mark [of m "(rt, name)" "entry_of r"] r(2) by (simp add: entry_of_def)
  then show ?thesis
    using True r by (intro registry_entry_step [where f = ?f and r = r]) (simp_all add: DeleteResource_def sql_def)
qed (auto simp: DeleteResource_def sql_def split: option.splits)

lemma registry_Remove: "registry_step\<^sup>*\<^sup>* (registry_of s) (registry_of (snd (RemoveResource rt name s)))"
proof (cases "sql_ok (sql_next s)")
  case True
  then have "resources (snd (RemoveResource rt name s)) = tbl_del row_key (rt, name) (resources s)"
    by (auto simp: RemoveResource_def GetResource_def sql_def Let_def split: option.splits)
  then show ?thesis
    using reg_remove by (simp add: registry_del r_into_rtranclp)
next
  case False
  then show ?thesis
    by (auto simp: RemoveResource_def GetResource_def sql_def Let_def split: option.splits)
qed

lemma registry_removePending: "registry_step\<^sup>*\<^sup>* (registry_of s) (registry_of (snd (removePending ps s)))"
proof (induction ps arbitrary: s)
  case (Cons p ps)
  let ?t = "publish ''DELETED'' MutationDelete (r_type p) (meta_of p) None None
    ((sql_next s)\<lparr>resources := tbl_del row_key (row_key p) (resources s)\<rparr>)"
  have "registry_of ?t = (registry_of s)(row_key p := None)"
    by (rule registry_del) simp
  then have "registry_step (registry_of s) (registry_of ?t)"
    using reg_remove [of "registry_of s" "row_key p"] by (simp only:)
  then show ?case
    using Cons [of ?t] by (auto simp: sql_def intro: converse_rtranclp_into_rtranclp)
qed simp

lemma registry_RemoveByTenant: "registry_step\<^sup>*\<^sup>* (registry_of s) (registry_of (snd (RemoveResourcesByTenant tn s)))"
  using registry_removePending [of "sql_next s" "tenantRows tn (sql_next s)"]
  by (auto simp: RemoveResourcesByTenant_def sql_def Let_def split: prod.splits sum.splits)

lemma registry_AddFinalizer: "registry_step\<^sup>*\<^sup>* (registry_of s) (registry_of (snd (AddFinalizer rt name f s)))"
proof (cases "sql_ok s \<and> sql_ok (sql_next s) \<and> (\<exists>r. find_row s rt name = Some r \<and> f \<notin> set (r_finalizers r))")
  case True
  then obtain r where r: "find_row s rt name = Some r" "f \<notin> set (r_finalizers r)" by blast
  let ?f = "\<lambda>x. x\<lparr>r_finalizers := r_finalizers r @ [f], r_updated := clock s\<rparr>"
  have "registry_step m (m((rt, name) \<mapsto> entry_of (?f r)))" if "m (rt, name) = Some (entry_of r)" for m
    using that reg_finalize [of m "(rt, name)" "entry_of r" f] by (simp add: entry_of_def)
  then show ?thesis
    using True r
    by (intro registry_entry_step [where f = ?f and r = r]) (simp_all add: AddFinalizer_def GetResource_def sql_def)
qed (auto simp: AddFinalizer_def GetResource_def sql_def split: option.splits)

lemma registry_RemoveFinalizer:
  "registry_step\<^sup>*\<^sup>* (registry_of s) (registry_of (snd (snd (RemoveFinalizer rt name f s))))"
proof (cases "sql_ok s \<and> (\<exists>r. find_row s rt name = Some r \<and> f \<in> set (r_finalizers r))")
  case True
  then obtain r where r: "find_row s rt name = Some r" "f \<in> set (r_finalizers r)" by blast
  let ?fs = "filter (\<lambda>x. x \<noteq> f) (r_finalizers r)"
  have len: "length ?fs \<noteq> length (r_finalizers r)"
    using r(2) length_filter_less [of f "r_finalizers r" "\<lambda>x. x \<noteq> f"] by simp
  show ?thesis
  proof (cases "?fs = [] \<and> r_deleted r \<noteq> None")
    case True
    then have "snd (snd (RemoveFinalizer rt name f s)) = snd (RemoveResource rt name (sql_next s))"
      using \<open>sql_ok s \<and> _\<close> r len by (simp add: RemoveFinalizer_def GetResource_def sql_def)
    then show ?thesis
      using registry_Remove [of "sql_next s" rt name] by simp
  next
    case False
    let ?f = "\<lambda>x. x\<lparr>r_finalizers := ?fs, r_updated := clock s\<rparr>"
    have fs: "set ?fs = set (r_finalizers r) - {f}" by auto
    have one: "set (r_finalizers r) = {f} \<Longrightarrow> ?fs = []"
      by (auto simp: filter_empty_conv)
    have e: "\<not> (e_deleting (entry_of r) \<and> e_finalizers (entry_of r) = {f})" "f \<in> e_finalizers (entry_of r)"
      using False one r(2) unfolding entry_of_def by (simp_all del: filter_False) blast
    have eq: "entry_of (?f r) = (entry_of r)\<lparr>e_finalizers := e_finalizers (entry_of r) - {f}\<rparr>"
      by (auto simp: entry_of_def)
    have "registry_step m (m((rt, name) \<mapsto> entry_of (?f r)))" if "m (rt, name) = Some (entry_of r)" for m
      unfolding eq by (rule reg_unfinalize [OF _ e(2,1)]) (rule that)
    then have "registry_step\<^sup>*\<^sup>* (registry_of s) (registry_of (upd_row rt name ?f (sql_next (sql_next s))))"
      using r(1) by (intro registry_entry_step [where f = ?f and r = r]) simp_all
    then show ?thesis
      using \<open>sql_ok s \<and> _\<close> r False len by (auto simp: RemoveFinalizer_def GetResource_def sql_def Let_def)
  qed
next
  case False
  have "filter (\<lambda>x. x \<noteq> f) fs = fs" if "f \<notin> set fs" for fs
    using that by (auto intro: filter_True)
  then show ?thesis
    using False by (auto simp: RemoveFinalizer_def GetResource_def sql_def Let_def split: option.splits)
qed

lemma registry_LastLogin: "registry_step\<^sup>*\<^sup>* (registry_of s) (registry_of (snd (UpdateUserLastLogin name s)))"
proof (cases "sql_ok s \<and> find_row s ''user'' name \<noteq> None")
  case True
  then obtain r where r: "find_row s ''user'' name = Some r" by blast
  let ?f = "\<lambda>r. r\<lparr>r_status := json_set (engine s) (r_status r) ''$.lastLogin'' (JTime (clock s - clock s mod second))\<rparr>"
  have "registry_step m (m((''user'', name) \<mapsto> entry_of (?f r)))" if "m (''user'', name) = Some (entry_of r)" for m
    using that reg_status [where m = m and k = "(''user'', name)" and e = "entry_of r"] by (simp add: entry_of_def)
  then show ?thesis
    using True r by (intro registry_entry_step [where f = ?f and r = r]) (simp_all add: UpdateUserLastLogin_def sql_def)
next
  case False
  then have "registry_of (snd (UpdateUserLastLogin name s)) = registry_of s"
    by (auto simp: UpdateUserLastLogin_def sql_def registry_of_def fun_eq_iff resource_table.get_upd)
  then show ?thesis by simp
qed

lemma registry_same: "resources t = resources s \<Longrightarrow> registry_step\<^sup>*\<^sup>* (registry_of s) (registry_of t)"
  by (simp add: registry_of_def [abs_def])

lemma registry_sim: "store_step s t \<Longrightarrow> registry_step\<^sup>*\<^sup>* (registry_of s) (registry_of t)"
  by (induction rule: store_step.induct)
    (auto intro!: registry_Create registry_Update registry_UpdateStatus registry_Delete registry_Remove
      registry_RemoveByTenant registry_AddFinalizer registry_RemoveFinalizer registry_LastLogin registry_same
      simp: SaveTenantSecrets_def RemoveTenantSecrets_def CreateAPIToken_def GetAPIToken_def TouchAPIToken_def
        DeleteAPIToken_def SetBus_def sql_def)

interpretation store_registry: simulation store_step registry_step registry_of
  by unfold_locales (rule registry_sim)

section \<open>The refinement\<close>

text \<open>An invariant of the registry: what it never holds, whatever its clients do.\<close>

definition registry_ok :: "registry_state \<Rightarrow> bool" where
  "registry_ok m \<longleftrightarrow> (\<forall>k e. m k = Some e \<longrightarrow> e_version e \<ge> 1 \<and> finite (e_finalizers e))"

lemma registry_step_ok: "registry_ok m \<Longrightarrow> registry_step m m' \<Longrightarrow> registry_ok m'"
  by (erule registry_step.cases) (fastforce simp: registry_ok_def split: if_splits)+



end
