(* ===== verification/ApplyQueue_Live.thy ===== *)
theory ApplyQueue_Live
  imports ApplyQueue
begin

text \<open>
  Progress of the apply queue: the steps of the loops themselves, without new enqueues, come to an end,
  and where they end every loop that was waiting has applied.
\<close>

section \<open>The work of the loops\<close>

text \<open>The steps of \<open>aq_step\<close> that are not an Enqueue call or the cancellation.\<close>

inductive aq_work :: "queue \<Rightarrow> queue \<Rightarrow> bool" where
  work_spawn: "n < q_next q \<Longrightarrow> ts_pc (q_loops q n) = Spawning \<Longrightarrow> aq_work q (Enqueue_spawn n q)"
| work_send: "n \<in> set (q_sends q) \<Longrightarrow> aq_work q (Enqueue_send n q)"
| work_reset: "n < q_next q \<Longrightarrow> ts_pc (q_loops q n) = Debounce \<Longrightarrow> ts_trigger (q_loops q n) \<Longrightarrow>
    aq_work q (run_reset n q)"
| work_fire: "n < q_next q \<Longrightarrow> ts_pc (q_loops q n) = Debounce \<Longrightarrow> aq_work q (run_fire n q)"
| work_finish: "n < q_next q \<Longrightarrow> ts_pc (q_loops q n) = Applying \<Longrightarrow> aq_work q (run_finish n res q)"
| work_decide: "n < q_next q \<Longrightarrow> ts_pc (q_loops q n) = Deciding \<Longrightarrow> aq_work q (run_decide n q)"
| work_cancelled: "q_cancelled q \<Longrightarrow> n < q_next q \<Longrightarrow> ts_pc (q_loops q n) = Debounce \<Longrightarrow>
    aq_work q (run_cancelled n q)"

lemma work_is_step: "aq_work q q' \<Longrightarrow> aq_step q q'"
  by (induction rule: aq_work.induct) (auto intro: aq_step.intros)

lemma work_inv: "aq_work\<^sup>*\<^sup>* q q' \<Longrightarrow> aq_inv q \<Longrightarrow> aq_inv q'"
  by (induction rule: rtranclp_induct) (auto intro: aq_step_inv work_is_step)

section \<open>A bound on the work left\<close>

fun pc_weight :: "pc \<Rightarrow> nat" where
  "pc_weight Spawning = 4"
| "pc_weight Debounce = 3"
| "pc_weight Applying = 2"
| "pc_weight Deciding = 1"
| "pc_weight Returned = 0"

definition loop_weight :: "tenant_state \<Rightarrow> nat" where
  "loop_weight l = pc_weight (ts_pc l) + (if ts_trigger l then 3 else 0)"

definition work_left :: "queue \<Rightarrow> nat" where
  "work_left q = (\<Sum>n<q_next q. loop_weight (q_loops q n)) + 4 * length (q_sends q)"

lemma work_left_upd:
  assumes "n < q_next q" "q_next q' = q_next q" "q_loops q' = (q_loops q)(n := l)"
  shows "work_left q' + loop_weight (q_loops q n) + 4 * length (q_sends q) =
    work_left q + loop_weight l + 4 * length (q_sends q')"
proof -
  have "(\<Sum>i<q_next q. loop_weight (((q_loops q)(n := l)) i)) + loop_weight (q_loops q n) =
      (\<Sum>i<q_next q. loop_weight (q_loops q i)) + loop_weight l"
    using assms(1) by (simp add: sum.remove [of "{..<q_next q}" n])
  then show ?thesis
    using assms by (simp add: work_left_def)
qed

lemma work_decreases: "aq_work q q' \<Longrightarrow> aq_active_inv q \<Longrightarrow> work_left q' < work_left q"
proof (induction rule: aq_work.induct)
  case (work_spawn n q)
  then show ?case
    using work_left_upd [of n q "Enqueue_spawn n q" "(q_loops q n)\<lparr>ts_pc := Debounce\<rparr>"]
    by (simp add: aq_ops loop_weight_def)
next
  case (work_send n q)
  then have "n < q_next q" "length (q_sends q) = Suc (length (remove1 n (q_sends q)))"
    by (auto simp: aq_active_inv_def length_remove1) (metis Suc_pred length_pos_if_in_set)
  then show ?case
    using work_left_upd [of n q "Enqueue_send n q" "(q_loops q n)\<lparr>ts_trigger := True\<rparr>"]
    by (simp add: aq_ops loop_weight_def split: if_splits)
next
  case (work_reset n q)
  then show ?case
    using work_left_upd [of n q "run_reset n q" "(q_loops q n)\<lparr>ts_trigger := False\<rparr>"]
    by (simp add: aq_ops loop_weight_def)
next
  case (work_fire n q)
  then show ?case
    using work_left_upd [of n q "run_fire n q" "(q_loops q n)\<lparr>ts_pc := Applying, ts_applies := ts_applies (q_loops q n) + 1\<rparr>"]
    by (simp add: aq_ops loop_weight_def)
next
  case (work_finish n q res)
  then show ?case
    using work_left_upd [of n q "run_finish n res q" "(q_loops q n)\<lparr>ts_pc := Deciding\<rparr>"]
    by (simp add: aq_ops loop_weight_def)
next
  case (work_decide n q)
  then show ?case
    using work_left_upd [of n q "run_decide n q" "(q_loops q n)\<lparr>ts_trigger := False, ts_pc := Debounce\<rparr>"]
      work_left_upd [of n q "run_decide n q" "(q_loops q n)\<lparr>ts_pc := Returned\<rparr>"]
    by (cases "ts_trigger (q_loops q n)") (simp_all add: aq_ops loop_weight_def)
next
  case (work_cancelled q n)
  then show ?case
    using work_left_upd [of n q "run_cancelled n q" "(q_loops q n)\<lparr>ts_pc := Returned\<rparr>"]
    by (auto simp: run_cancelled_eq upd_loop_def loop_weight_def)
qed

lemma work_bounded:
  assumes "aq_inv q" "(aq_work ^^ k) q q'"
  shows "k + work_left q' \<le> work_left q"
  using assms(2)
proof (induction k arbitrary: q')
  case (Suc k)
  then obtain q1 where q1: "(aq_work ^^ k) q q1" "aq_work q1 q'" by auto
  then have "aq_inv q1"
    using work_inv [OF _ assms(1)] by (meson rtranclp_power)
  then show ?case
    using work_decreases [OF q1(2)] Suc.IH [OF q1(1)] by (simp add: aq_inv_def)
qed simp

section \<open>Where the work ends\<close>

definition quiet :: "queue \<Rightarrow> bool" where
  "quiet q \<longleftrightarrow> (\<nexists>q'. aq_work q q')"

lemma quiet_idle:
  assumes "aq_inv q" "quiet q"
  shows "q_active q = Map.empty" "q_sends q = []" "\<forall>n<q_next q. ts_pc (q_loops q n) = Returned"
proof -
  show r: "\<forall>n<q_next q. ts_pc (q_loops q n) = Returned"
  proof (intro allI impI)
    fix n assume n: "n < q_next q"
    have no: "\<not> aq_work q q'" for q'
      using assms(2) by (simp add: quiet_def)
    show "ts_pc (q_loops q n) = Returned"
    proof (cases "ts_pc (q_loops q n)")
      case Spawning
      show ?thesis using no work_spawn [OF n Spawning] by contradiction
    next
      case Debounce
      show ?thesis using no work_fire [OF n Debounce] by contradiction
    next
      case Applying
      show ?thesis using no work_finish [OF n Applying, of ApplyOk] by contradiction
    next
      case Deciding
      show ?thesis using no work_decide [OF n Deciding] by contradiction
    qed
  qed
  show "q_sends q = []"
    using assms(2) work_send [of "hd (q_sends q)" q] unfolding quiet_def by (cases "q_sends q") auto
  show "q_active q = Map.empty"
  proof
    fix tn
    show "q_active q tn = None"
      using assms(1) r by (cases "q_active q tn") (auto simp: aq_inv_def aq_active_inv_def)
  qed
qed

lemma work_ends: "aq_inv q \<Longrightarrow> \<exists>q'. aq_work\<^sup>*\<^sup>* q q' \<and> quiet q'"
proof (induction "work_left q" arbitrary: q rule: less_induct)
  case less
  show ?case
  proof (cases "quiet q")
    case False
    then obtain q1 where q1: "aq_work q q1" by (auto simp: quiet_def)
    have "aq_inv q1"
      by (rule aq_step_inv [OF less.prems work_is_step [OF q1]])
    moreover have "work_left q1 < work_left q"
      by (rule work_decreases [OF q1]) (use less.prems in \<open>simp add: aq_inv_def\<close>)
    ultimately obtain q2 where "aq_work\<^sup>*\<^sup>* q1 q2" "quiet q2"
      using less.hyps by blast
    with q1 show ?thesis
      by (blast intro: converse_rtranclp_into_rtranclp)
  qed auto
qed

text \<open>A waiting loop of a queue that is not cancelled leaves its wait only by applying.\<close>

lemma waiting_applies:
  assumes "aq_work\<^sup>*\<^sup>* q q'" "n < q_next q" "ts_pc (q_loops q n) \<in> {Spawning, Debounce}" "\<not> q_cancelled q"
  shows "n < q_next q' \<and> \<not> q_cancelled q' \<and> ts_tenant (q_loops q' n) = ts_tenant (q_loops q n) \<and>
    (ts_applies (q_loops q n) < ts_applies (q_loops q' n) \<or>
     ts_pc (q_loops q' n) \<in> {Spawning, Debounce} \<and> ts_applies (q_loops q' n) = ts_applies (q_loops q n))"
  using assms(1)
proof (induction rule: rtranclp_induct)
  case (step q1 q2)
  from step(2,3) show ?case
    by (cases rule: aq_work.cases) (auto simp: aq_ops split: if_splits)
qed (use assms in simp)

text \<open>
  C19: enqueued work is done. Take any reachable state of a queue that is not being stopped, with a
  loop of a tenant waiting for its window. If no further Enqueue comes, the loops, whatever the order
  in which they move and whatever the applies return, can take only a bounded number of steps, can
  always go on until all of them have returned, and in that final state the tenant's loop has started
  an apply after the state we looked at.
\<close>

theorem queue_drains:
  assumes "reach aq_init aq_step q" "\<not> q_cancelled q"
    and "q_active q tn = Some n" "ts_pc (q_loops q n) \<in> {Spawning, Debounce}"
  shows "(\<forall>k q'. (aq_work ^^ k) q q' \<longrightarrow> k \<le> work_left q) \<and>
    (\<forall>q'. aq_work\<^sup>*\<^sup>* q q' \<longrightarrow> (\<exists>q2. aq_work\<^sup>*\<^sup>* q' q2 \<and> quiet q2)) \<and>
    (\<forall>q'. aq_work\<^sup>*\<^sup>* q q' \<and> quiet q' \<longrightarrow> q_active q' = Map.empty \<and> q_sends q' = [] \<and>
       ts_applies (q_loops q n) < ts_applies (q_loops q' n))"
proof -
  have inv: "aq_inv q"
    by (rule aq_sys.reach_inv [OF assms(1)])
  then have n: "n < q_next q"
    using assms(3) by (simp add: aq_inv_def aq_active_inv_def)
  have "q_active q' = Map.empty \<and> q_sends q' = [] \<and> ts_applies (q_loops q n) < ts_applies (q_loops q' n)"
    if run: "aq_work\<^sup>*\<^sup>* q q'" and q': "quiet q'" for q'
    using quiet_idle [OF work_inv [OF run inv] q'] waiting_applies [OF run n assms(4,2)] by auto
  moreover have "\<exists>q2. aq_work\<^sup>*\<^sup>* q' q2 \<and> quiet q2" if "aq_work\<^sup>*\<^sup>* q q'" for q'
    by (rule work_ends [OF work_inv [OF that inv]])
  moreover have "k \<le> work_left q" if "(aq_work ^^ k) q q'" for k q'
    using work_bounded [OF inv that] by simp
  ultimately show ?thesis by blast
qed

theorem queue_drains_witness:
  "\<exists>q2. aq_work\<^sup>*\<^sup>* (Enqueue_spawn 0 (Enqueue ''a'' ex_queue)) q2 \<and> quiet q2 \<and> q_active q2 = Map.empty \<and>
     0 < ts_applies (q_loops q2 0)"
proof -
  let ?q = "Enqueue_spawn 0 (Enqueue ''a'' ex_queue)"
  have r: "reach aq_init aq_step ?q"
    by (rule aq_reach_step [OF _ aq_spawn], rule aq_reach_step [OF _ aq_enqueue], rule reach_init)
      (simp_all add: aq_init_def ex_queue_def aq_ops)
  have s: "\<not> q_cancelled ?q" "q_active ?q ''a'' = Some 0" "ts_pc (q_loops ?q 0) \<in> {Spawning, Debounce}"
    "ts_applies (q_loops ?q 0) = 0"
    by (simp_all add: ex_queue_def aq_ops)
  show ?thesis
    using queue_drains [OF r s(1-3)] s(4) by (metis rtranclp.rtrancl_refl)
qed

end
