(* ===== verification/Watch.thy ===== *)
theory Watch
  imports Store_Laws
begin

text \<open>
  Watching resources, \<^verbatim>\<open>internal/watch\<close>: the adapter that turns store events into watch events, the two
  buses (in-process channels, and the embedded NATS server), the tenant filter, the streaming handler
  and the polling loop. Both buses implement the interface \<open>watch_bus\<close>; they differ in what an event is
  after the transport. Publishing to NATS includes the delivery to the subscriptions' handlers; JSON
  text is its value.
\<close>

section \<open>Events\<close>

text \<open>
  The object of an event is an \<^verbatim>\<open>any\<close>: a map whose \<^verbatim>\<open>metadata\<close> entry holds either the \<^verbatim>\<open>state.Metadata\<close>
  struct the adapter put there or the map a JSON decoder made, or another value, kept as its JSON.
\<close>

datatype md_value = MdStruct metadata | MdMap json

record obj_map =
  om_metadata :: md_value
  om_spec :: "json option"
  om_status :: "json option"

datatype watch_obj = WMap obj_map | WOther json

record watch_event =
  we_type :: string
  we_object :: watch_obj

abbreviation "EventAdded \<equiv> ''ADDED''"
abbreviation "EventModified \<equiv> ''MODIFIED''"
abbreviation "EventDeleted \<equiv> ''DELETED''"

definition enc_metadata :: "metadata \<Rightarrow> json" where
  "enc_metadata x = jobj [
    (''name'', eStr (md_name x)),
    (''uid'', eStr (md_uid x)),
    (''resourceVersion'', eInt (md_resourceVersion x)),
    (''createdAt'', eTime (md_createdAt x)),
    (''updatedAt'', eTime (md_updatedAt x)),
    (''deletionTimestamp'', oTime (md_deletionTimestamp x)),
    (''finalizers'', oList JStr (md_finalizers x)),
    (''labels'', oMap (md_labels x)),
    (''annotations'', oMap (md_annotations x))]"

text \<open>\<^verbatim>\<open>Adapter.Publish\<close>, up to the call of the bus.\<close>

definition adapterEvent :: "resource_event \<Rightarrow> watch_event" where
  "adapterEvent ev = \<lparr>we_type = ev_type ev,
     we_object = WMap \<lparr>om_metadata = MdStruct (ev_metadata ev), om_spec = ev_spec ev, om_status = ev_status ev\<rparr>\<rparr>"

text \<open>Marshalling an event and unmarshalling it into an \<^verbatim>\<open>Event\<close>: objects become maps.\<close>

fun jsonMetadata :: "md_value \<Rightarrow> md_value" where
  "jsonMetadata (MdStruct md) = MdMap (enc_metadata md)"
| "jsonMetadata (MdMap j) = MdMap j"

fun jsonObject :: "watch_obj \<Rightarrow> watch_obj" where
  "jsonObject (WMap m) = WMap (m\<lparr>om_metadata := jsonMetadata (om_metadata m)\<rparr>)"
| "jsonObject (WOther j) = WOther j"

definition jsonEvent :: "watch_event \<Rightarrow> watch_event" where
  "jsonEvent e = e\<lparr>we_object := jsonObject (we_object e)\<rparr>"

section \<open>Buses\<close>

text \<open>A subscription: the type it watches and its channel of 64 slots. The position is its identity.\<close>

record subscription =
  sub_type :: string
  sub_open :: bool
  sub_chan :: "watch_event list"

abbreviation chan_cap :: nat where "chan_cap \<equiv> 64"

definition trySend :: "watch_event \<Rightarrow> subscription \<Rightarrow> subscription" where
  "trySend e sub = (if length (sub_chan sub) < chan_cap then sub\<lparr>sub_chan := sub_chan sub @ [e]\<rparr> else sub)"

type_synonym local_bus = "subscription list"

definition local_Publish :: "string \<Rightarrow> watch_event \<Rightarrow> local_bus \<Rightarrow> local_bus" where
  "local_Publish rt e b = map (\<lambda>sub. if sub_open sub \<and> sub_type sub = rt then trySend e sub else sub) b"

definition local_Subscribe :: "string \<Rightarrow> local_bus \<Rightarrow> nat \<times> local_bus" where
  "local_Subscribe rt b = (length b, b @ [\<lparr>sub_type = rt, sub_open = True, sub_chan = []\<rparr>])"

definition local_cancel :: "nat \<Rightarrow> local_bus \<Rightarrow> local_bus" where
  "local_cancel i b = (if i < length b then b[i := (b ! i)\<lparr>sub_open := False\<rparr>] else b)"

text \<open>
  \<^verbatim>\<open>NATSBus\<close>: the subject of a type and the handlers. A subscription matches the subject it was made
  for; wildcards do not occur, because resource types are fixed words.
\<close>

record nats_sub =
  ns_subject :: string
  ns_open :: bool
  ns_chan :: "watch_event list"

type_synonym nats_bus = "nats_sub list"

definition subject :: "string \<Rightarrow> string" where
  "subject rt = ''rezuscloud.events.'' @ rt"

lemma subject_eq [simp]: "subject rt = subject rt' \<longleftrightarrow> rt = rt'"
  by (simp only: subject_def same_append_eq)

definition nats_handler :: "watch_event \<Rightarrow> nats_sub \<Rightarrow> nats_sub" where
  "nats_handler e sub = (if length (ns_chan sub) < chan_cap then sub\<lparr>ns_chan := ns_chan sub @ [jsonEvent e]\<rparr> else sub)"

definition nats_Publish :: "string \<Rightarrow> watch_event \<Rightarrow> nats_bus \<Rightarrow> nats_bus" where
  "nats_Publish rt e b = map (\<lambda>sub. if ns_open sub \<and> ns_subject sub = subject rt then nats_handler e sub else sub) b"

definition nats_Subscribe :: "string \<Rightarrow> nats_bus \<Rightarrow> nat \<times> nats_bus" where
  "nats_Subscribe rt b = (length b, b @ [\<lparr>ns_subject = subject rt, ns_open = True, ns_chan = []\<rparr>])"

definition nats_cancel :: "nat \<Rightarrow> nats_bus \<Rightarrow> nats_bus" where
  "nats_cancel i b = (if i < length b then b[i := (b ! i)\<lparr>ns_open := False\<rparr>] else b)"

section \<open>Streaming\<close>

fun TenantFilter :: "string \<Rightarrow> watch_event \<Rightarrow> bool" where
  "TenantFilter tn e =
     (case we_object e of
        WMap m \<Rightarrow> (case om_metadata m of MdStruct md \<Rightarrow> mget (md_labels md) tenantLabel = tn | MdMap _ \<Rightarrow> False)
      | WOther _ \<Rightarrow> False)"

text \<open>
  \<^verbatim>\<open>ServeWatch\<close>: the frames it writes for the snapshot (\<open>None\<close> when there is none or it fails) and for
  the events it receives until the client goes away. A frame is the marshalled event.
\<close>

definition writeEvent :: "(watch_event \<Rightarrow> bool) option \<Rightarrow> watch_event \<Rightarrow> watch_event list" where
  "writeEvent flt e = (case flt of Some p \<Rightarrow> if p e then [jsonEvent e] else [] | None \<Rightarrow> [jsonEvent e])"

definition ServeWatch :: "json list option \<Rightarrow> (watch_event \<Rightarrow> bool) option \<Rightarrow> watch_event list \<Rightarrow> watch_event list" where
  "ServeWatch snapshot flt received =
     concat (map (writeEvent flt)
       ((case snapshot of None \<Rightarrow> [] | Some rs \<Rightarrow> map (\<lambda>r. \<lparr>we_type = EventAdded, we_object = WOther r\<rparr>) rs) @ received))"

section \<open>Polling\<close>

definition extractName :: "json \<Rightarrow> string" where
  "extractName r = dStr ''name'' (case jget ''metadata'' r of None \<Rightarrow> JNull | Some m \<Rightarrow> m)"

text \<open>
  One tick of \<^verbatim>\<open>StartPolling\<close>: the events it publishes and the names it remembers. The code goes through
  the remembered names in the unspecified order of a Go map; the model goes in the order of the listing.
\<close>

definition pollTick :: "string list \<Rightarrow> json list option \<Rightarrow> watch_event list \<times> string list" where
  "pollTick previous listing =
     (case listing of
        None \<Rightarrow> ([], previous)
      | Some rs \<Rightarrow>
          let current = remdups (map extractName rs) in
          (map (\<lambda>r. \<lparr>we_type = (if extractName r \<notin> set previous then EventAdded else EventModified), we_object = WOther r\<rparr>) rs @
           map (\<lambda>n. \<lparr>we_type = EventDeleted, we_object = WOther (JObj [(''name'', JStr n)])\<rparr>)
             (filter (\<lambda>n. n \<notin> set current) previous), current))"

section \<open>The interface of a bus\<close>

locale watch_bus =
  fixes Publish :: "string \<Rightarrow> watch_event \<Rightarrow> 'b \<Rightarrow> 'b"
    and Subscribe :: "string \<Rightarrow> 'b \<Rightarrow> nat \<times> 'b"
    and chan :: "'b \<Rightarrow> nat \<Rightarrow> watch_event list"
    and listens :: "'b \<Rightarrow> nat \<Rightarrow> string \<Rightarrow> bool"
    and carry :: "watch_event \<Rightarrow> watch_event"
  assumes subscribed: "Subscribe rt b = (i, b') \<Longrightarrow> chan b' i = [] \<and> (listens b' i rt' \<longleftrightarrow> rt' = rt)"
    and published: "chan (Publish rt e b) i =
      (if listens b i rt \<and> length (chan b i) < chan_cap then chan b i @ [carry e] else chan b i)"
    and listens_Publish: "listens (Publish rt e b) i rt' = listens b i rt'"
begin

text \<open>A subscriber with room in its channel gets every event of its type, in order, as the transport leaves it.\<close>

lemma delivered:
  assumes "\<And>rt'. listens b i rt' \<longleftrightarrow> rt' = rt"
    and "length (chan b i) + length (filter (\<lambda>(t, _). t = rt) evs) \<le> chan_cap"
  shows "chan (fold (\<lambda>(t, e). Publish t e) evs b) i = chan b i @ map (carry \<circ> snd) (filter (\<lambda>(t, _). t = rt) evs)"
  using assms
proof (induction evs arbitrary: b)
  case (Cons x evs)
  obtain t e where x: "x = (t, e)" by fastforce
  have "length (chan (Publish t e b) i) + length (filter (\<lambda>(t, _). t = rt) evs) \<le> chan_cap"
    using Cons.prems x by (auto simp: published split: if_splits)
  then have "chan (fold (\<lambda>(t, e). Publish t e) evs (Publish t e b)) i =
      chan (Publish t e b) i @ map (carry \<circ> snd) (filter (\<lambda>(t, _). t = rt) evs)"
    using Cons.prems(1) by (intro Cons.IH) (simp add: listens_Publish)
  moreover have "chan (Publish t e b) i = (if t = rt then chan b i @ [carry e] else chan b i)"
    using Cons.prems(2) by (auto simp: x published Cons.prems(1))
  ultimately show ?case
    by (simp add: x)
qed simp

lemma watch_stream:
  assumes "Subscribe rt b = (i, b')" "length (filter (\<lambda>(t, _). t = rt) evs) \<le> chan_cap"
  shows "ServeWatch None flt (chan (fold (\<lambda>(t, e). Publish t e) evs b') i) =
    concat (map (writeEvent flt \<circ> carry \<circ> snd) (filter (\<lambda>(t, _). t = rt) evs))"
  using delivered [of b' i rt evs] subscribed [OF assms(1)] assms(2) by (simp add: ServeWatch_def comp_assoc)

end

definition local_chan :: "local_bus \<Rightarrow> nat \<Rightarrow> watch_event list" where
  "local_chan b i = (if i < length b then sub_chan (b ! i) else [])"

definition local_listens :: "local_bus \<Rightarrow> nat \<Rightarrow> string \<Rightarrow> bool" where
  "local_listens b i rt \<longleftrightarrow> i < length b \<and> sub_open (b ! i) \<and> sub_type (b ! i) = rt"

lemma trySend_fields [simp]: "sub_open (trySend e s) = sub_open s" "sub_type (trySend e s) = sub_type s"
  by (simp_all add: trySend_def)

interpretation local: watch_bus local_Publish local_Subscribe local_chan local_listens id
  by unfold_locales
    (auto simp: local_Subscribe_def local_Publish_def local_chan_def local_listens_def trySend_def split: if_splits)

definition nats_chan :: "nats_bus \<Rightarrow> nat \<Rightarrow> watch_event list" where
  "nats_chan b i = (if i < length b then ns_chan (b ! i) else [])"

definition nats_listens :: "nats_bus \<Rightarrow> nat \<Rightarrow> string \<Rightarrow> bool" where
  "nats_listens b i rt \<longleftrightarrow> i < length b \<and> ns_open (b ! i) \<and> ns_subject (b ! i) = subject rt"

lemma nats_handler_fields [simp]:
  "ns_open (nats_handler e s) = ns_open s" "ns_subject (nats_handler e s) = ns_subject s"
  by (simp_all add: nats_handler_def)

interpretation nats: watch_bus nats_Publish nats_Subscribe nats_chan nats_listens jsonEvent
  by unfold_locales
    (auto simp: nats_Subscribe_def nats_Publish_def nats_chan_def nats_listens_def nats_handler_def split: if_splits)

section \<open>What a tenant's watch shows\<close>

lemma adapter_filter: "TenantFilter tn (adapterEvent ev) \<longleftrightarrow> mget (md_labels (ev_metadata ev)) tenantLabel = tn"
  by (simp add: adapterEvent_def)

lemma nats_filter: "\<not> TenantFilter tn (jsonEvent e)"
  by (cases "we_object e") (auto simp: jsonEvent_def split: watch_obj.splits md_value.splits elim: jsonMetadata.elims)

abbreviation store_published :: "resource_event list \<Rightarrow> (string \<times> watch_event) list" where
  "store_published evs \<equiv> map (\<lambda>ev. (ev_resourceType ev, adapterEvent ev)) evs"

lemma filter_published:
  "filter (\<lambda>(t, _). t = rt) (store_published evs) = store_published (filter (\<lambda>ev. ev_resourceType ev = rt) evs)"
  by (induction evs) auto

text \<open>
  C20: on the in-process bus a tenant-scoped watch streams exactly the store's events of its resource
  type whose object carries the tenant's label, in order and without loss, when no more than the 64
  events a channel holds are waiting.
\<close>

theorem local_watch_exact:
  assumes "local_Subscribe rt b = (i, b')" "length (filter (\<lambda>ev. ev_resourceType ev = rt) evs) \<le> 64"
  shows "ServeWatch None (Some (TenantFilter tn))
      (local_chan (fold (\<lambda>(t, e). local_Publish t e) (store_published evs) b') i) =
    map (jsonEvent \<circ> adapterEvent)
      (filter (\<lambda>ev. ev_resourceType ev = rt \<and> mget (md_labels (ev_metadata ev)) tenantLabel = tn) evs)"
proof -
  have l: "length (filter (\<lambda>(t, _). t = rt) (store_published evs)) \<le> chan_cap"
    using assms(2) unfolding filter_published by simp
  have "concat (map (writeEvent (Some (TenantFilter tn)) \<circ> adapterEvent) (filter (\<lambda>ev. ev_resourceType ev = rt) evs)) =
      map (jsonEvent \<circ> adapterEvent)
        (filter (\<lambda>ev. ev_resourceType ev = rt \<and> mget (md_labels (ev_metadata ev)) tenantLabel = tn) evs)"
    by (induction evs) (auto simp: writeEvent_def adapter_filter simp del: TenantFilter.simps)
  then show ?thesis
    unfolding local.watch_stream [OF assms(1) l] filter_published by (simp add: comp_def)
qed

text \<open>
  over NATS, the bus the program runs with, a tenant-scoped watch never writes anything: after the
  transport the metadata of an event is a JSON map and no longer the struct the filter looks for, so
  the filter drops every event of every tenant. The same watch without a filter gets all of them.
\<close>

theorem nats_tenant_watch_silent:
  assumes "nats_Subscribe rt b = (i, b')" "length (filter (\<lambda>ev. ev_resourceType ev = rt) evs) \<le> 64"
  shows "ServeWatch None (Some (TenantFilter tn))
      (nats_chan (fold (\<lambda>(t, e). nats_Publish t e) (store_published evs) b') i) = [] \<and>
    length (ServeWatch None None (nats_chan (fold (\<lambda>(t, e). nats_Publish t e) (store_published evs) b') i)) =
      length (filter (\<lambda>ev. ev_resourceType ev = rt) evs)"
proof -
  have l: "length (filter (\<lambda>(t, _). t = rt) (store_published evs)) \<le> chan_cap"
    using assms(2) unfolding filter_published by simp
  have "concat (map (\<lambda>ev. writeEvent (Some (TenantFilter tn)) (jsonEvent (adapterEvent ev))) evs) = []" for evs
    by (induction evs) (auto simp: writeEvent_def nats_filter simp del: TenantFilter.simps)
  moreover have "length (concat (map (\<lambda>ev. writeEvent None (jsonEvent (adapterEvent ev))) evs)) = length evs" for evs
    by (induction evs) (auto simp: writeEvent_def)
  ultimately show ?thesis
    unfolding nats.watch_stream [OF assms(1) l] filter_published map_map comp_def snd_conv by blast
qed

definition ex_watch_event :: resource_event where
  "ex_watch_event = \<lparr>ev_type = EventModified, ev_mutation = ''spec'', ev_resourceType = ''machine'',
     ev_metadata = \<lparr>md_name = ''m1'', md_uid = [], md_resourceVersion = 2, md_createdAt = 0, md_updatedAt = 0,
       md_deletionTimestamp = None, md_finalizers = [], md_labels = [(tenantLabel, ''acme'')], md_annotations = []\<rparr>,
     ev_spec = None, ev_status = None\<rparr>"

theorem local_watch_exact_witness:
  "ServeWatch None (Some (TenantFilter ''acme''))
     (local_chan (fold (\<lambda>(t, e). local_Publish t e) (store_published [ex_watch_event]) (snd (local_Subscribe ''machine'' []))) 0) =
   [jsonEvent (adapterEvent ex_watch_event)]"
  using local_watch_exact [of "''machine''" "[]" 0 "snd (local_Subscribe ''machine'' [])" "[ex_watch_event]" "''acme''"]
  by (simp add: local_Subscribe_def ex_watch_event_def)

theorem nats_tenant_watch_silent_witness:
  "ServeWatch None (Some (TenantFilter ''acme''))
     (nats_chan (fold (\<lambda>(t, e). nats_Publish t e) (store_published [ex_watch_event]) (snd (nats_Subscribe ''machine'' []))) 0) = [] \<and>
   length (filter (\<lambda>ev. ev_resourceType ev = ''machine'') [ex_watch_event]) = 1"
  using nats_tenant_watch_silent [of "''machine''" "[]" 0 "snd (nats_Subscribe ''machine'' [])" "[ex_watch_event]" "''acme''"]
  by (simp add: nats_Subscribe_def ex_watch_event_def)

end
