(* ===== verification/Net.thy ===== *)
theory Net
  imports Prelude "HOL-Library.Word"
begin

text \<open>
  Network addresses as lists of bytes, most significant first: masks, the successor of an address, and
  the number an address stands for.
\<close>

unbundle bit_operations_syntax

section \<open>Masks\<close>

text \<open>The first \<open>b\<close> bits of an address, the rest cleared.\<close>

fun mask_bytes :: "nat \<Rightarrow> 8 word list \<Rightarrow> 8 word list" where
  "mask_bytes b [] = []"
| "mask_bytes b (x # xs) = (if 8 \<le> b then x else x AND NOT (mask (8 - b))) # mask_bytes (b - 8) xs"

lemma length_mask_bytes [simp]: "length (mask_bytes b xs) = length xs"
  by (induction b xs rule: mask_bytes.induct) auto

lemma and_not_mask_8 [simp]: "(x :: 8 word) AND NOT (mask 8) = 0"
  by (rule bit_word_eqI) (auto simp: bit_simps)

lemma mask_bytes_idem [simp]: "mask_bytes b (mask_bytes b xs) = mask_bytes b xs"
  by (induction b xs rule: mask_bytes.induct) (auto simp: and.assoc)

lemma mask_bytes_update: "b \<le> 8 * i \<Longrightarrow> mask_bytes b (xs[i := x]) = mask_bytes b xs"
proof (induction b xs arbitrary: i rule: mask_bytes.induct)
  case (2 b y ys)
  then show ?case by (cases i) auto
qed simp

lemma mask_bytes_nth: "8 * Suc i \<le> b \<Longrightarrow> i < length xs \<Longrightarrow> mask_bytes b xs ! i = xs ! i"
proof (induction b xs arbitrary: i rule: mask_bytes.induct)
  case (2 b y ys)
  then show ?case by (cases i) auto
qed simp

lemma mask_bytes_zero: "b \<le> 8 * i \<Longrightarrow> i < length xs \<Longrightarrow> mask_bytes b xs ! i = 0"
proof (induction b xs arbitrary: i rule: mask_bytes.induct)
  case (2 b y ys)
  then show ?case by (cases i) auto
qed simp

section \<open>Successor and number\<close>

fun incRev :: "8 word list \<Rightarrow> 8 word list" where
  "incRev [] = []"
| "incRev (x # xs) = (x + 1) # (if x + 1 = 0 then incRev xs else xs)"

definition incrementIP :: "8 word list \<Rightarrow> 8 word list" where
  "incrementIP bs = rev (incRev (rev bs))"

fun num :: "8 word list \<Rightarrow> nat" where
  "num [] = 0"
| "num (x # xs) = unat x * 256 ^ length xs + num xs"

lemma num_snoc: "num (xs @ [x]) = num xs * 256 + unat x"
  by (induction xs) (auto simp: algebra_simps)

lemma byte_bound: "unat (x :: 8 word) < 256"
  by (rule order_less_le_trans [OF unsigned_less]) simp

lemma num_bound: "num xs < 256 ^ length xs"
proof (induction xs)
  case (Cons x xs)
  define P :: nat where "P = 256 ^ length xs"
  have "unat x * P \<le> 255 * P" using byte_bound [of x] by (intro mult_right_mono) simp_all
  moreover have "num xs < P" using Cons by (simp add: P_def)
  moreover have "num (x # xs) = unat x * P + num xs" "256 ^ length (x # xs) = 256 * P" by (simp_all add: P_def)
  ultimately show ?case by linarith
qed simp

lemma num_inj: "length xs = length ys \<Longrightarrow> num xs = num ys \<Longrightarrow> xs = ys"
proof (induction xs ys rule: rev_induct2)
  case (4 x xs y ys)
  then have e: "num xs * 256 + unat x = num ys * 256 + unat y" by (simp add: num_snoc)
  have "num xs = num ys" "unat x = unat y"
    using arg_cong [OF e, of "\<lambda>n. n div 256"] arg_cong [OF e, of "\<lambda>n. n mod 256"] byte_bound [of x] byte_bound [of y]
    by simp_all
  then have "xs = ys" "x = y" using 4 by (simp_all add: unsigned_word_eqI)
  then show ?case by simp
qed auto

lemma byte_succ: "unat (x + 1 :: 8 word) = (if unat x = 255 then 0 else unat x + 1)" "x + 1 = 0 \<longleftrightarrow> unat x = 255"
proof -
  have "unat (x + 1) = (unat x + 1) mod 256" by (simp add: unat_word_ariths(1))
  then show u: "unat (x + 1) = (if unat x = 255 then 0 else unat x + 1)" using byte_bound [of x] by simp
  have "x + 1 = 0 \<longleftrightarrow> unat (x + 1) = 0" by (simp add: unat_eq_0)
  then show "x + 1 = 0 \<longleftrightarrow> unat x = 255" using u by simp
qed

lemma length_incrementIP [simp]: "length (incrementIP bs) = length bs"
proof -
  have "length (incRev xs) = length xs" for xs by (induction xs) auto
  then show ?thesis by (simp add: incrementIP_def)
qed

lemma num_increment: "num (incrementIP bs) = (if num bs + 1 = 256 ^ length bs then 0 else num bs + 1)"
proof -
  have "num (rev (incRev xs)) = (if num (rev xs) + 1 = 256 ^ length xs then 0 else num (rev xs) + 1)" for xs
  proof (induction xs)
    case (Cons x xs)
    have b: "num (rev xs) < 256 ^ length xs" using num_bound [of "rev xs"] by simp
    have u: "unat x < 256" by (rule byte_bound)
    show ?case using Cons b u by (auto simp: num_snoc byte_succ)
  qed simp
  then show ?thesis by (simp add: incrementIP_def)
qed

text \<open>Masking clears the low bits of the number.\<close>

lemma unat_and_not_mask:
  assumes "k \<le> 8"
  shows "unat (x AND NOT (mask k) :: 8 word) = unat x div 2 ^ k * 2 ^ k"
proof -
  have "x AND NOT (mask k) = push_bit k (drop_bit k x)"
    by (rule bit_word_eqI) (auto simp: bit_simps)
  moreover have "unat (push_bit k (drop_bit k x)) = take_bit 8 (push_bit k (drop_bit k (take_bit 8 (unat x))))"
    by (simp only: unsigned_push_bit_eq unsigned_drop_bit_eq) simp
  moreover have "unat x div 2 ^ k * 2 ^ k < 256"
    using byte_bound [of x] div_times_less_eq_dividend [of "unat x" "2 ^ k"] by linarith
  ultimately show ?thesis
    using byte_bound [of x] by (simp only: push_bit_eq_mult drop_bit_eq_div take_bit_eq_mod) simp
qed

lemma num_mask_0: "num (mask_bytes 0 xs) = 0"
  by (induction xs) auto

lemma num_mask:
  assumes "b \<le> 8 * length xs"
  shows "num (mask_bytes b xs) = num xs div 2 ^ (8 * length xs - b) * 2 ^ (8 * length xs - b)"
  using assms
proof (induction b xs rule: mask_bytes.induct)
  case (2 b x xs)
  let ?n = "length xs"
  have P: "(256 :: nat) ^ ?n = 2 ^ (8 * ?n)" by (simp add: power_mult)
  show ?case
  proof (cases "8 \<le> b")
    case True
    define h where "h = 8 * ?n - (b - 8)"
    have h: "8 * length (x # xs) - b = h" "h \<le> 8 * ?n" using True 2(2) by (simp_all add: h_def)
    then obtain q :: nat where q: "(256 :: nat) ^ ?n = q * 2 ^ h"
      unfolding P using le_imp_power_dvd [of h "8 * ?n" "2 :: nat"] by (auto simp: dvd_def mult.commute)
    have IH: "num (mask_bytes (b - 8) xs) = num xs div 2 ^ h * 2 ^ h"
      using 2 True by (simp add: h_def)
    have n: "num (x # xs) = unat x * q * 2 ^ h + num xs" by (simp add: q)
    have "num (x # xs) div 2 ^ h = unat x * q + num xs div 2 ^ h" unfolding n by simp
    moreover have "num (mask_bytes b (x # xs)) = unat x * q * 2 ^ h + num xs div 2 ^ h * 2 ^ h"
      using True by (simp add: IH q)
    ultimately show ?thesis
      unfolding h(1) by (simp only: distrib_right)
  next
    case False
    define h where "h = 8 * ?n + (8 - b)"
    have h: "8 * length (x # xs) - b = h" using False by (simp add: h_def)
    have H: "(2 :: nat) ^ h = 2 ^ (8 - b) * 256 ^ ?n" by (simp add: h_def P power_add)
    have "(unat x * 256 ^ ?n + num xs) div 256 ^ ?n = unat x"
      using num_bound [of xs] by simp
    then have "num (x # xs) div 2 ^ h = unat x div 2 ^ (8 - b)"
      unfolding H by (simp add: mult.commute [of "2 ^ (8 - b)"] div_mult2_eq)
    then show ?thesis
      unfolding h using False by (simp add: num_mask_0 unat_and_not_mask H)
  qed
qed simp

end
