(* ===== verification/Mgmtlink.thy ===== *)
theory Mgmtlink
  imports Net
begin

text \<open>
  The management link, \<^verbatim>\<open>internal/mgmtlink\<close>: the allocation of a /64 per node (\<^verbatim>\<open>store.go\<close>), provisioning
  (\<^verbatim>\<open>provisionsvc.go\<close>), the configuration (\<^verbatim>\<open>config.go\<close>), the routing of packets between the WireGuard device
  and the nodes' streams (\<^verbatim>\<open>bind.go\<close>, \<^verbatim>\<open>queue.go\<close>) and the life of a stream (\<^verbatim>\<open>streamsvc.go\<close>). An address is its
  bytes and not its text, in memory and in the table; the text form that a node or the environment
  gives is parsed by a parameter. WireGuard keys are a parameter too, and the WireGuard device is the
  list of calls it gets.
\<close>

unbundle bit_operations_syntax

section \<open>Addresses\<close>

text \<open>\<^verbatim>\<open>netip.Addr\<close> and \<^verbatim>\<open>netip.Prefix\<close>: no address, four bytes or sixteen; an invalid prefix has \<open>-1\<close> bits.\<close>

datatype ip = NoAddr | V4 "8 word list" | V6 "8 word list"

record ip_prefix =
  pfx_ip :: ip
  pfx_bits :: int

type_synonym addrport = "ip \<times> 16 word"

fun BitLen :: "ip \<Rightarrow> int" where
  "BitLen NoAddr = 0"
| "BitLen (V4 _) = 32"
| "BitLen (V6 _) = 128"

definition PrefixFrom :: "ip \<Rightarrow> int \<Rightarrow> ip_prefix" where
  "PrefixFrom a b = \<lparr>pfx_ip = a, pfx_bits = (if a \<noteq> NoAddr \<and> 0 \<le> b \<and> b \<le> BitLen a then b else -1)\<rparr>"

definition prefix_IsValid :: "ip_prefix \<Rightarrow> bool" where
  "prefix_IsValid p \<longleftrightarrow> 0 \<le> pfx_bits p"

definition Masked :: "ip_prefix \<Rightarrow> ip_prefix" where
  "Masked p = (if prefix_IsValid p
     then p\<lparr>pfx_ip := (case pfx_ip p of NoAddr \<Rightarrow> NoAddr | V4 bs \<Rightarrow> V4 (mask_bytes (nat (pfx_bits p)) bs)
                       | V6 bs \<Rightarrow> V6 (mask_bytes (nat (pfx_bits p)) bs))\<rparr>
     else \<lparr>pfx_ip = NoAddr, pfx_bits = -1\<rparr>)"

definition mapped :: "8 word list" where
  "mapped = replicate 10 0 @ [255, 255]"

fun As16 :: "ip \<Rightarrow> 8 word list" where
  "As16 NoAddr = replicate 16 0"
| "As16 (V4 bs) = mapped @ bs"
| "As16 (V6 bs) = bs"

fun Unmap :: "ip \<Rightarrow> ip" where
  "Unmap (V6 bs) = (if take 12 bs = mapped then V4 (drop 12 bs) else V6 bs)"
| "Unmap a = a"

text \<open>The two bytes that number a /64, and the n-th /64 of a prefix.\<close>

definition setIndex :: "16 word \<Rightarrow> 8 word list \<Rightarrow> 8 word list" where
  "setIndex n bs = bs[6 := ucast (drop_bit 8 n), 7 := ucast n]"

definition prefixNth :: "ip_prefix \<Rightarrow> 16 word \<Rightarrow> ip_prefix option" where
  "prefixNth p n =
     (if 64 \<le> pfx_bits p then None
      else Some (PrefixFrom (Unmap (V6 (setIndex n (As16 (pfx_ip (Masked p)))))) 64))"

definition prefixNthAddr :: "ip_prefix \<Rightarrow> 16 word \<Rightarrow> 8 word \<Rightarrow> ip" where
  "prefixNthAddr p n l = Unmap (V6 ((setIndex n (As16 (pfx_ip (Masked p))))[15 := l]))"

section \<open>Configuration\<close>

record link_config =
  lc_prefix :: ip_prefix
  lc_joinToken :: string
  lc_listen :: string
  lc_wgListen :: string
  lc_endpoints :: "string list"
  lc_streamPort :: "16 word"
  lc_mtu :: int

datatype link_err = ErrStatement | ErrExhausted | ErrPrefixLength | ErrJoinToken | ErrPublicKey | ErrDevice
  | ErrConfig string | ErrNotConfigured | ErrHeader | ErrAddress | ErrPeerNotAllowed | ErrPeerReplaced

definition link_Enabled :: "link_config \<Rightarrow> bool" where
  "link_Enabled c \<longleftrightarrow> prefix_IsValid (lc_prefix c) \<or> lc_joinToken c \<noteq> [] \<or> lc_listen c \<noteq> []"

definition link_Validate :: "link_config \<Rightarrow> link_err option" where
  "link_Validate c =
     (if \<not> link_Enabled c then None
      else if \<not> prefix_IsValid (lc_prefix c) then Some (ErrConfig ''REZUSCLOUD_MGMTLINK_PREFIX'')
      else if 64 \<le> pfx_bits (lc_prefix c) then Some ErrPrefixLength
      else if lc_joinToken c = [] then Some (ErrConfig ''REZUSCLOUD_MGMTLINK_JOIN_TOKEN'')
      else if lc_listen c = [] then Some (ErrConfig ''REZUSCLOUD_MGMTLINK_LISTEN'')
      else None)"

definition splitNonEmpty :: "string \<Rightarrow> string list" where
  "splitNonEmpty s = (if s = [] then [] else filter (\<lambda>p. p \<noteq> []) (map trimSpace (splitOn (CHR '','') s)))"

definition parsePrefix :: "(string \<Rightarrow> ip_prefix option) \<Rightarrow> string \<Rightarrow> ip_prefix" where
  "parsePrefix ParsePrefix s =
     (if s = [] then \<lparr>pfx_ip = NoAddr, pfx_bits = -1\<rparr>
      else case ParsePrefix (trimSpace s) of None \<Rightarrow> \<lparr>pfx_ip = NoAddr, pfx_bits = -1\<rparr> | Some p \<Rightarrow> p)"

definition link_FromEnv :: "(string \<Rightarrow> ip_prefix option) \<Rightarrow> (string \<Rightarrow> string) \<Rightarrow> link_config" where
  "link_FromEnv ParsePrefix get = \<lparr>
     lc_prefix = parsePrefix ParsePrefix (get ''REZUSCLOUD_MGMTLINK_PREFIX''),
     lc_joinToken = get ''REZUSCLOUD_MGMTLINK_JOIN_TOKEN'',
     lc_listen = get ''REZUSCLOUD_MGMTLINK_LISTEN'',
     lc_wgListen = get ''REZUSCLOUD_MGMTLINK_WGLISTEN'',
     lc_endpoints = splitNonEmpty (get ''REZUSCLOUD_MGMTLINK_WG_ENDPOINTS''),
     lc_streamPort = 51820, lc_mtu = 1280\<rparr>"

section \<open>The peer table\<close>

record peer_row =
  pr_identity :: string
  pr_node_uuid :: string
  pr_pubkey :: string
  pr_prefix :: ip_prefix
  pr_node_addr :: addrport
  pr_idx :: int
  pr_joined :: gotime
  pr_last_seen :: gotime

record peer_store =
  ps_peers :: "peer_row list"
  ps_settings :: gomap
  ps_clock :: gotime
  ps_faults :: "bool list"

type_synonym 'a link_res = "(link_err + 'a) \<times> peer_store"

definition ps_sql :: "peer_store \<Rightarrow> bool \<times> peer_store" where
  "ps_sql s = (case ps_faults s of [] \<Rightarrow> True | b # _ \<Rightarrow> \<not> b, s\<lparr>ps_faults := tl (ps_faults s)\<rparr>)"

definition isZeroUUID :: "string \<Rightarrow> bool" where
  "isZeroUUID s \<longleftrightarrow> list_all (\<lambda>c. c = CHR ''0'') (map (\<lambda>c. if c = CHR ''-'' then CHR ''0'' else c) (toLower s))"

text \<open>\<open>sha\<close> is the first sixteen bytes of SHA-256 in hexadecimal.\<close>

definition identityFor :: "(string \<Rightarrow> string) \<Rightarrow> string \<Rightarrow> string \<Rightarrow> string" where
  "identityFor sha nodeUUID uniqueToken =
     (if nodeUUID \<noteq> [] \<and> \<not> isZeroUUID nodeUUID then ''uuid:'' @ toLower nodeUUID
      else ''tok:'' @ sha (''tok:'' @ uniqueToken))"

definition maxIdx :: "peer_row list \<Rightarrow> int option" where
  "maxIdx rows = (if rows = [] then None else Some (Max (set (map pr_idx rows))))"

definition nextIndex :: "peer_store \<Rightarrow> 16 word link_res" where
  "nextIndex s =
     (case ps_sql s of
        (False, s) \<Rightarrow> (Inl ErrStatement, s)
      | (True, s) \<Rightarrow>
          (case maxIdx (ps_peers s) of
             None \<Rightarrow> (Inr 1, s)
           | Some m \<Rightarrow> if 65535 \<le> m then (Inl ErrExhausted, s) else (Inr (of_int (m + 1)), s)))"

text \<open>The INSERT: it fails on a statement error and when the identity or the index is taken.\<close>

definition insertPeer :: "peer_row \<Rightarrow> peer_store \<Rightarrow> unit link_res" where
  "insertPeer r s =
     (case ps_sql s of
        (False, s) \<Rightarrow> (Inl ErrStatement, s)
      | (True, s) \<Rightarrow>
          if tbl_get pr_identity (ps_peers s) (pr_identity r) = None \<and> tbl_get pr_idx (ps_peers s) (pr_idx r) = None
          then (Inr (), s\<lparr>ps_peers := tbl_ins r (ps_peers s)\<rparr>) else (Inl ErrStatement, s))"

definition updatePubkey :: "string \<Rightarrow> string \<Rightarrow> peer_store \<Rightarrow> unit link_res" where
  "updatePubkey ident key s =
     (case ps_sql s of
        (False, s) \<Rightarrow> (Inl ErrStatement, s)
      | (True, s) \<Rightarrow> (Inr (), s\<lparr>ps_peers := tbl_upd pr_identity ident
          (\<lambda>r. r\<lparr>pr_pubkey := key, pr_last_seen := ps_clock s\<rparr>) (ps_peers s)\<rparr>))"

definition selectPeer :: "string \<Rightarrow> peer_store \<Rightarrow> peer_row option link_res" where
  "selectPeer ident s =
     (case ps_sql s of
        (False, s) \<Rightarrow> (Inl ErrStatement, s)
      | (True, s) \<Rightarrow> (Inr (tbl_get pr_identity (ps_peers s) ident), s))"

text \<open>The row for a new node. In memory its times are zero; the table gets the time of the call.\<close>

definition newPeer :: "string \<Rightarrow> string \<Rightarrow> string \<Rightarrow> ip_prefix \<Rightarrow> 16 word \<Rightarrow> 16 word \<Rightarrow> gotime \<Rightarrow> peer_row" where
  "newPeer ident uuid key np port idx now =
     \<lparr>pr_identity = ident, pr_node_uuid = uuid, pr_pubkey = key, pr_prefix = np, pr_node_addr = (pfx_ip np, port),
      pr_idx = uint idx, pr_joined = now, pr_last_seen = now\<rparr>"

definition findOrAllocate ::
  "string \<Rightarrow> string \<Rightarrow> string \<Rightarrow> ip_prefix \<Rightarrow> 16 word \<Rightarrow> peer_store \<Rightarrow> (peer_row \<times> bool) link_res" where
  "findOrAllocate ident uuid key prefix port s =
     (case selectPeer ident s of
        (Inl e, s) \<Rightarrow> (Inl e, s)
      | (Inr (Some p), s) \<Rightarrow>
          if pr_pubkey p \<noteq> key
          then (case updatePubkey ident key s of
                  (Inl e, s) \<Rightarrow> (Inl e, s)
                | (Inr _, s) \<Rightarrow> (Inr (p\<lparr>pr_pubkey := key\<rparr>, False), s))
          else (Inr (p, False), s)
      | (Inr None, s) \<Rightarrow>
          (case nextIndex s of
             (Inl e, s) \<Rightarrow> (Inl e, s)
           | (Inr idx, s) \<Rightarrow>
               (case prefixNth prefix idx of
                  None \<Rightarrow> (Inl ErrPrefixLength, s)
                | Some np \<Rightarrow>
                    let r = newPeer ident uuid key np port idx (ps_clock s) in
                    (case insertPeer r s of
                       (Inl e, s) \<Rightarrow> (Inl e, s)
                     | (Inr _, s) \<Rightarrow> (Inr (r\<lparr>pr_joined := 0, pr_last_seen := 0\<rparr>, True), s)))))"

definition touch :: "string \<Rightarrow> peer_store \<Rightarrow> peer_store" where
  "touch ident s =
     (case ps_sql s of
        (False, s) \<Rightarrow> s
      | (True, s) \<Rightarrow> s\<lparr>ps_peers := tbl_upd pr_identity ident (\<lambda>r. r\<lparr>pr_last_seen := ps_clock s\<rparr>) (ps_peers s)\<rparr>)"

definition peers_list :: "peer_store \<Rightarrow> peer_row list link_res" where
  "peers_list s =
     (case ps_sql s of
        (False, s) \<Rightarrow> (Inl ErrStatement, s)
      | (True, s) \<Rightarrow> (Inr (sort_key pr_joined (ps_peers s)), s))"

definition setting :: "string \<Rightarrow> peer_store \<Rightarrow> string link_res" where
  "setting k s =
     (case ps_sql s of (False, s) \<Rightarrow> (Inl ErrStatement, s) | (True, s) \<Rightarrow> (Inr (mget (ps_settings s) k), s))"

definition setSetting :: "string \<Rightarrow> string \<Rightarrow> peer_store \<Rightarrow> unit link_res" where
  "setSetting k v s =
     (case ps_sql s of
        (False, s) \<Rightarrow> (Inl ErrStatement, s)
      | (True, s) \<Rightarrow> (Inr (), s\<lparr>ps_settings := AList.update k v (ps_settings s)\<rparr>))"

text \<open>The server's key: \<open>parseKey\<close> reads a stored key, \<open>fresh\<close> is the generated one (\<open>None\<close> when that fails).\<close>

definition loadOrCreateServerKey :: "(string \<Rightarrow> 'k option) \<Rightarrow> ('k \<Rightarrow> string) \<Rightarrow> 'k option \<Rightarrow> peer_store \<Rightarrow> 'k link_res" where
  "loadOrCreateServerKey parseKey showKey fresh s =
     (case setting ''server_key'' s of
        (Inl e, s) \<Rightarrow> (Inl e, s)
      | (Inr v, s) \<Rightarrow>
          (case (if v \<noteq> [] then parseKey v else None) of
             Some k \<Rightarrow> (Inr k, s)
           | None \<Rightarrow>
               (case fresh of
                  None \<Rightarrow> (Inl ErrStatement, s)
                | Some k \<Rightarrow>
                    (case setSetting ''server_key'' (showKey k) s of
                       (Inl e, s) \<Rightarrow> (Inl e, s)
                     | (Inr _, s) \<Rightarrow> (Inr k, s)))))"

section \<open>Provisioning\<close>

datatype peer_event_kind = PeerConnected | PeerDisconnected

record peer_event =
  pe_kind :: peer_event_kind
  pe_nodeUUID :: string
  pe_joinToken :: string
  pe_nodeAddrPort :: addrport

record link =
  ln_store :: peer_store
  ln_streamTokens :: "(addrport \<times> string) list"
  ln_applied :: "(string \<times> ip_prefix) list"
  ln_events :: "peer_event list"

text \<open>
  The surroundings: the configuration, the server's public key and address, the acceptor of binding
  tokens, whether a text is a WireGuard key and whether the device takes a peer.
\<close>

record link_env =
  le_cfg :: link_config
  le_serverKey :: string
  le_serverAP :: ip
  le_acceptToken :: "(string \<Rightarrow> bool) option"
  le_keyOk :: "string \<Rightarrow> bool"
  le_deviceOk :: "string \<Rightarrow> ip_prefix \<Rightarrow> bool"
  le_sha :: "string \<Rightarrow> string"

record provision_request =
  rq_nodeUuid :: string
  rq_uniqueToken :: string
  rq_publicKey :: string
  rq_joinToken :: string
  rq_overGrpc :: bool

record provision_response =
  rs_serverEndpoint :: "string list"
  rs_serverPublicKey :: string
  rs_nodeAddressPrefix :: ip_prefix
  rs_serverAddress :: ip
  rs_grpcPeerAddrPort :: "addrport option"

definition tokenAccepted :: "link_env \<Rightarrow> string \<Rightarrow> bool" where
  "tokenAccepted e t \<longleftrightarrow> t = lc_joinToken (le_cfg e) \<or> (case le_acceptToken e of None \<Rightarrow> False | Some f \<Rightarrow> f t)"

definition Provision :: "link_env \<Rightarrow> provision_request \<Rightarrow> link \<Rightarrow> (link_err + provision_response) \<times> link" where
  "Provision e rq l =
     (if \<not> tokenAccepted e (rq_joinToken rq) then (Inl ErrJoinToken, l)
      else if \<not> le_keyOk e (rq_publicKey rq) then (Inl ErrPublicKey, l)
      else
        (case findOrAllocate (identityFor (le_sha e) (rq_nodeUuid rq) (rq_uniqueToken rq)) (rq_nodeUuid rq)
                (rq_publicKey rq) (lc_prefix (le_cfg e)) (lc_streamPort (le_cfg e)) (ln_store l) of
           (Inl er, s) \<Rightarrow> (Inl er, l\<lparr>ln_store := s\<rparr>)
         | (Inr (p, _), s) \<Rightarrow>
             if \<not> le_deviceOk e (rq_publicKey rq) (pr_prefix p) then (Inl ErrDevice, l\<lparr>ln_store := s\<rparr>)
             else
               (Inr \<lparr>rs_serverEndpoint = lc_endpoints (le_cfg e), rs_serverPublicKey = le_serverKey e,
                     rs_nodeAddressPrefix = pr_prefix p, rs_serverAddress = le_serverAP e,
                     rs_grpcPeerAddrPort = (if rq_overGrpc rq then Some (pr_node_addr p) else None)\<rparr>,
                \<lparr>ln_store = s,
                 ln_streamTokens = (if rq_overGrpc rq
                   then AList.update (pr_node_addr p) (pr_identity p) (ln_streamTokens l) else ln_streamTokens l),
                 ln_applied = ln_applied l @ [(rq_publicKey rq, pr_prefix p)],
                 ln_events = ln_events l @ [\<lparr>pe_kind = PeerConnected, pe_nodeUUID = pr_node_uuid p,
                   pe_joinToken = rq_joinToken rq, pe_nodeAddrPort = pr_node_addr p\<rparr>]\<rparr>)))"

definition allowStream :: "addrport \<Rightarrow> link \<Rightarrow> bool" where
  "allowStream a l \<longleftrightarrow> map_of (ln_streamTokens l) a \<noteq> None"

definition noteStream :: "addrport \<Rightarrow> link \<Rightarrow> link" where
  "noteStream a l = (case map_of (ln_streamTokens l) a of None \<Rightarrow> l | Some i \<Rightarrow> l\<lparr>ln_store := touch i (ln_store l)\<rparr>)"

text \<open>\<^verbatim>\<open>NewServer\<close>: the effective configuration, the server's address and the peers it restores.\<close>

definition effectiveConfig :: "link_config \<Rightarrow> link_err + link_config" where
  "effectiveConfig c =
     (case link_Validate c of
        Some e \<Rightarrow> Inl e
      | None \<Rightarrow>
          if \<not> link_Enabled c then Inl ErrNotConfigured
          else
            let c = (if lc_mtu c = 0 then c\<lparr>lc_mtu := 1280\<rparr> else c) in
            Inr (if lc_endpoints c = []
                 then c\<lparr>lc_endpoints := [if lc_wgListen c \<noteq> [] then lc_wgListen c else lc_listen c]\<rparr> else c))"

definition restoredPeers :: "(string \<Rightarrow> bool) \<Rightarrow> peer_row list \<Rightarrow> (string \<times> ip_prefix) list" where
  "restoredPeers keyOk ps = map (\<lambda>p. (pr_pubkey p, pr_prefix p)) (filter (\<lambda>p. keyOk (pr_pubkey p)) ps)"

record peer_status =
  pst_identity :: string
  pst_nodeUUID :: string
  pst_prefix :: ip_prefix
  pst_streamAddr :: addrport
  pst_connected :: bool
  pst_lastSeen :: gotime

definition Peers :: "addrport list \<Rightarrow> peer_store \<Rightarrow> peer_status list \<times> peer_store" where
  "Peers active s =
     (case peers_list s of
        (Inl _, s) \<Rightarrow> ([], s)
      | (Inr ps, s) \<Rightarrow>
          (map (\<lambda>p. \<lparr>pst_identity = pr_identity p, pst_nodeUUID = pr_node_uuid p, pst_prefix = pr_prefix p,
                    pst_streamAddr = pr_node_addr p, pst_connected = (pr_node_addr p \<in> set active),
                    pst_lastSeen = pr_last_seen p\<rparr>) ps, s))"

end
