(* ===== verification/Mgmtlink_Props.thy ===== *)
theory Mgmtlink_Props
  imports Mgmtlink
begin

text \<open>
  The allocation of node prefixes: the bytes of the n-th /64, and the interleaving of the SQL
  statements of concurrent \<^verbatim>\<open>Provision\<close> calls, in which allocations stay disjoint and stable.
\<close>

unbundle bit_operations_syntax

section \<open>Masks and indices\<close>

lemma setIndex_nth:
  "7 < length bs \<Longrightarrow> setIndex n bs ! 6 = ucast (drop_bit 8 n) \<and> setIndex n bs ! 7 = ucast n"
  by (simp add: setIndex_def)

lemma index_bytes_inj:
  fixes m n :: "16 word"
  assumes "(ucast (drop_bit 8 m) :: 8 word) = ucast (drop_bit 8 n)" "(ucast m :: 8 word) = ucast n"
  shows "m = n"
proof (rule bit_word_eqI)
  fix i assume i: "i < LENGTH(16)"
  show "bit m i = bit n i"
  proof (cases "i < 8")
    case True
    then show ?thesis
      using arg_cong [OF assms(2), of "\<lambda>w. bit w i"] by (simp add: bit_simps)
  next
    case False
    then show ?thesis
      using arg_cong [OF assms(1), of "\<lambda>w. bit w (i - 8)"] i by (auto simp: bit_simps)
  qed
qed

lemma setIndex_inj: "7 < length bs \<Longrightarrow> setIndex m bs = setIndex n bs' \<Longrightarrow> length bs' = length bs \<Longrightarrow> m = n"
  using setIndex_nth [of bs m] setIndex_nth [of bs' n] index_bytes_inj [of m n] by simp

text \<open>Membership of an address in a prefix, \<^verbatim>\<open>Prefix.Contains\<close>, for the sixteen byte form.\<close>

definition contains6 :: "ip_prefix \<Rightarrow> ip \<Rightarrow> bool" where
  "contains6 p a = (case (pfx_ip p, a) of
     (V6 bs, V6 cs) \<Rightarrow> mask_bytes (nat (pfx_bits p)) cs = mask_bytes (nat (pfx_bits p)) bs
   | _ \<Rightarrow> False)"

text \<open>A prefix the server can number its nodes in: sixteen bytes and at most 48 bits.\<close>

definition prefix48 :: "ip_prefix \<Rightarrow> bool" where
  "prefix48 p \<longleftrightarrow> (\<exists>bs. pfx_ip p = V6 bs \<and> length bs = 16) \<and> 0 \<le> pfx_bits p \<and> pfx_bits p \<le> 48"

lemma Unmap_setIndex:
  assumes "length bs = 16" "n \<noteq> 0"
  shows "Unmap (V6 (setIndex n bs)) = V6 (setIndex n bs)"
proof -
  have "take 12 (setIndex n bs) \<noteq> mapped"
  proof
    assume "take 12 (setIndex n bs) = mapped"
    then have "take 12 (setIndex n bs) ! 6 = mapped ! 6" "take 12 (setIndex n bs) ! 7 = mapped ! 7"
      by simp_all
    then have "(ucast (drop_bit 8 n) :: 8 word) = ucast (drop_bit 8 (0 :: 16 word))" "(ucast n :: 8 word) = ucast (0 :: 16 word)"
      using setIndex_nth [of bs n] assms(1) by (simp_all add: mapped_def nth_append)
    then show False using index_bytes_inj assms(2) by blast
  qed
  then show ?thesis by simp
qed

lemma prefixNth_eq:
  assumes "prefix48 p" "n \<noteq> 0" "pfx_ip p = V6 bs"
  shows "prefixNth p n = Some \<lparr>pfx_ip = V6 (setIndex n (mask_bytes (nat (pfx_bits p)) bs)), pfx_bits = 64\<rparr>"
proof -
  have "length (mask_bytes (nat (pfx_bits p)) bs) = 16" using assms by (auto simp: prefix48_def)
  from Unmap_setIndex [OF this assms(2)] show ?thesis
    using assms by (simp add: prefixNth_def Masked_def prefix_IsValid_def prefix48_def PrefixFrom_def)
qed

lemma prefixNth_contains:
  assumes "prefix48 p" "n \<noteq> 0" "prefixNth p n = Some q"
  shows "contains6 p (pfx_ip q) \<and> pfx_bits q = 64"
proof -
  obtain bs where bs: "pfx_ip p = V6 bs" using assms(1) by (auto simp: prefix48_def)
  have "nat (pfx_bits p) \<le> 8 * 6" using assms(1) by (auto simp: prefix48_def)
  then show ?thesis
    using prefixNth_eq [OF assms(1,2) bs] assms(3) bs
    by (auto simp: contains6_def setIndex_def mask_bytes_update)
qed

lemma prefixNth_inj:
  assumes "prefix48 p" "m \<noteq> 0" "n \<noteq> 0" "prefixNth p m = Some q" "prefixNth p n = Some q'" "pfx_ip q = pfx_ip q'"
  shows "m = n"
proof -
  obtain bs where bs: "pfx_ip p = V6 bs" "length bs = 16" using assms(1) by (auto simp: prefix48_def)
  then show ?thesis
    using assms prefixNth_eq [OF assms(1,2) bs(1)] prefixNth_eq [OF assms(1,3) bs(1)]
    by (intro setIndex_inj [of "mask_bytes (nat (pfx_bits p)) bs" m n "mask_bytes (nat (pfx_bits p)) bs"]) auto
qed

text \<open>
  The server's own /64 has index 0, so no node's /64 contains the server's address.
\<close>

lemma server_outside:
  assumes "prefix48 p" "n \<noteq> 0" "prefixNth p n = Some q"
  shows "\<not> contains6 q (V6 ((setIndex 0 (As16 (pfx_ip (Masked p))))[15 := l]))"
proof
  obtain bs where bs: "pfx_ip p = V6 bs" "length bs = 16" using assms(1) by (auto simp: prefix48_def)
  define ms where "ms = mask_bytes (nat (pfx_bits p)) bs"
  have len: "length ms = 16" by (simp add: ms_def bs)
  have M: "As16 (pfx_ip (Masked p)) = ms" using assms(1) bs by (simp add: Masked_def prefix_IsValid_def prefix48_def ms_def)
  have q: "q = \<lparr>pfx_ip = V6 (setIndex n ms), pfx_bits = 64\<rparr>"
    using prefixNth_eq [OF assms(1,2) bs(1)] assms(3) by (simp add: ms_def)
  assume "contains6 q (V6 ((setIndex 0 (As16 (pfx_ip (Masked p))))[15 := l]))"
  then have eq: "mask_bytes 64 ((setIndex 0 ms)[15 := l]) = mask_bytes 64 (setIndex n ms)"
    by (simp add: q M contains6_def)
  have "setIndex 0 ms ! i = setIndex n ms ! i" if "i \<in> {6, 7}" for i
    using arg_cong [OF eq, of "\<lambda>xs. xs ! i"] that len
    by (auto simp: mask_bytes_nth setIndex_def)
  then have "(0 :: 16 word) = n"
    using setIndex_nth [of ms 0] setIndex_nth [of ms n] len by (intro index_bytes_inj) auto
  then show False using assms(2) by simp
qed

section \<open>Interleaved allocations\<close>

text \<open>
  The rows whose INSERT is still to come, beside the table. One step is one SQL statement of some
  \<^verbatim>\<open>Provision\<close> or stream, or the passing of time: a row enters \<open>al_pending\<close> when \<^verbatim>\<open>nextIndex\<close> and \<^verbatim>\<open>prefixNth\<close> have
  answered. Which statements fail is left to the fault list.
\<close>

record alloc =
  al_store :: peer_store
  al_pending :: "peer_row list"

inductive alloc_step :: "ip_prefix \<Rightarrow> 16 word \<Rightarrow> alloc \<Rightarrow> alloc \<Rightarrow> bool" for p port where
  st_select: "alloc_step p port a (a\<lparr>al_store := snd (selectPeer ident (al_store a))\<rparr>)"
| st_index: "nextIndex (al_store a) = (Inr idx, s) \<Longrightarrow> prefixNth p idx = Some np \<Longrightarrow>
    alloc_step p port a \<lparr>al_store = s, al_pending = newPeer ident uuid key np port idx (ps_clock s) # al_pending a\<rparr>"
| st_no_index: "alloc_step p port a (a\<lparr>al_store := snd (nextIndex (al_store a))\<rparr>)"
| st_insert: "r \<in> set (al_pending a) \<Longrightarrow>
    alloc_step p port a \<lparr>al_store = snd (insertPeer r (al_store a)), al_pending = remove1 r (al_pending a)\<rparr>"
| st_pubkey: "alloc_step p port a (a\<lparr>al_store := snd (updatePubkey ident key (al_store a))\<rparr>)"
| st_touch: "alloc_step p port a (a\<lparr>al_store := touch ident (al_store a)\<rparr>)"
| st_time: "alloc_step p port a (a\<lparr>al_store := al_store a\<lparr>ps_clock := t\<rparr>\<rparr>)"

definition goodPeer :: "ip_prefix \<Rightarrow> 16 word \<Rightarrow> peer_row \<Rightarrow> bool" where
  "goodPeer p port r \<longleftrightarrow> (\<exists>idx. idx \<noteq> 0 \<and> pr_idx r = uint idx \<and> prefixNth p idx = Some (pr_prefix r)) \<and>
     pr_node_addr r = (pfx_ip (pr_prefix r), port)"

definition alloc_inv :: "ip_prefix \<Rightarrow> 16 word \<Rightarrow> alloc \<Rightarrow> bool" where
  "alloc_inv p port a \<longleftrightarrow> tbl_wf pr_identity (ps_peers (al_store a)) \<and> tbl_wf pr_idx (ps_peers (al_store a)) \<and>
     (\<forall>r \<in> set (ps_peers (al_store a)) \<union> set (al_pending a). goodPeer p port r)"

definition alloc_init :: "alloc \<Rightarrow> bool" where
  "alloc_init a \<longleftrightarrow> ps_peers (al_store a) = [] \<and> al_pending a = []"

text \<open>What no step changes in the row of a node.\<close>

definition same_alloc :: "peer_row \<Rightarrow> peer_row \<Rightarrow> bool" where
  "same_alloc r r' \<longleftrightarrow> pr_identity r' = pr_identity r \<and> pr_prefix r' = pr_prefix r \<and>
     pr_node_addr r' = pr_node_addr r \<and> pr_idx r' = pr_idx r"

lemma same_alloc_good: "same_alloc r r' \<Longrightarrow> goodPeer p port r \<Longrightarrow> goodPeer p port r'"
  by (auto simp: same_alloc_def goodPeer_def)

lemma ps_sql_fields [simp]: "ps_peers (snd (ps_sql s)) = ps_peers s" "ps_clock (snd (ps_sql s)) = ps_clock s"
  by (simp_all add: ps_sql_def)

lemma ps_sqlD: "ps_sql s = (b, s') \<Longrightarrow> ps_peers s' = ps_peers s \<and> ps_clock s' = ps_clock s"
  using ps_sql_fields [of s] by (metis snd_conv)

lemma selectPeer_peers [simp]: "ps_peers (snd (selectPeer i s)) = ps_peers s"
  by (auto simp: selectPeer_def split: prod.splits bool.splits dest: ps_sqlD)

lemma nextIndex_peers [simp]: "ps_peers (snd (nextIndex s)) = ps_peers s"
  by (auto simp: nextIndex_def split: prod.splits bool.splits option.splits dest: ps_sqlD)

lemma maxIdx_ge: "maxIdx rows = Some m \<Longrightarrow> r \<in> set rows \<Longrightarrow> pr_idx r \<le> m"
  by (auto simp: maxIdx_def split: if_splits)

lemma maxIdx_mem:
  assumes "maxIdx rows = Some m"
  shows "\<exists>r\<in>set rows. pr_idx r = m"
proof -
  have "rows \<noteq> []" "m = Max (pr_idx ` set rows)" using assms by (auto simp: maxIdx_def split: if_splits)
  then have "m \<in> pr_idx ` set rows" using Max_in [of "pr_idx ` set rows"] by simp
  then show ?thesis by blast
qed

text \<open>The next index is positive: over existing rows with positive indices the sum does not wrap.\<close>

lemma nextIndex_pos:
  assumes "nextIndex s = (Inr idx, s')" "\<And>r. r \<in> set (ps_peers s) \<Longrightarrow> 1 \<le> pr_idx r"
  shows "idx \<noteq> 0 \<and> (\<forall>r\<in>set (ps_peers s). pr_idx r < uint idx)"
proof -
  obtain s1 where s1: "ps_sql s = (True, s1)"
    using assms(1) by (auto simp: nextIndex_def split: prod.splits bool.splits)
  show ?thesis
  proof (cases "maxIdx (ps_peers s)")
    case None
    then show ?thesis
      using assms(1) s1 ps_sqlD [OF s1] by (auto simp: nextIndex_def maxIdx_def split: if_splits)
  next
    case (Some m)
    then have m: "m < 65535" "idx = of_int (m + 1)" "1 \<le> m"
      using assms s1 ps_sqlD [OF s1] maxIdx_mem [OF Some] by (auto simp: nextIndex_def split: if_splits)
    have u: "uint idx = m + 1"
      unfolding m(2) uint_word_of_int using m by (simp add: take_bit_eq_mod)
    then have "idx \<noteq> 0" using m by auto
    then show ?thesis
      using u maxIdx_ge [OF Some] by fastforce
  qed
qed

lemma insertPeer_peers:
  "ps_peers (snd (insertPeer r s)) = ps_peers s \<or>
   (tbl_get pr_identity (ps_peers s) (pr_identity r) = None \<and> tbl_get pr_idx (ps_peers s) (pr_idx r) = None \<and>
    ps_peers (snd (insertPeer r s)) = tbl_ins r (ps_peers s))"
  by (auto simp: insertPeer_def split: prod.splits bool.splits dest: ps_sqlD)

text \<open>The two UPDATEs leave the allocation of every row alone.\<close>

definition upd_keeps :: "peer_row list \<Rightarrow> peer_row list \<Rightarrow> bool" where
  "upd_keeps rows rows' \<longleftrightarrow> (\<exists>i f. rows' = tbl_upd pr_identity i f rows \<and> (\<forall>r. same_alloc r (f r)))"

lemma upd_keeps_id: "upd_keeps rows rows"
proof -
  have "rows = tbl_upd pr_identity [] (\<lambda>r. r) rows" by (simp add: tbl_upd_def)
  moreover have "same_alloc r r" for r by (simp add: same_alloc_def)
  ultimately show ?thesis unfolding upd_keeps_def by blast
qed

lemma updatePubkey_keeps: "upd_keeps (ps_peers s) (ps_peers (snd (updatePubkey i k s)))"
proof (cases "fst (ps_sql s)")
  case True
  then show ?thesis
    unfolding upd_keeps_def
    by (intro exI [of _ i] exI [of _ "\<lambda>r. r\<lparr>pr_pubkey := k, pr_last_seen := ps_clock s\<rparr>"])
      (auto simp: updatePubkey_def same_alloc_def split: prod.splits bool.splits dest: ps_sqlD)
next
  case False
  then have "ps_peers (snd (updatePubkey i k s)) = ps_peers s"
    by (auto simp: updatePubkey_def split: prod.splits bool.splits dest: ps_sqlD)
  then show ?thesis by (simp add: upd_keeps_id)
qed

lemma touch_keeps: "upd_keeps (ps_peers s) (ps_peers (touch i s))"
proof (cases "fst (ps_sql s)")
  case True
  then show ?thesis
    unfolding upd_keeps_def
    by (intro exI [of _ i] exI [of _ "\<lambda>r. r\<lparr>pr_last_seen := ps_clock s\<rparr>"])
      (auto simp: touch_def same_alloc_def split: prod.splits bool.splits dest: ps_sqlD)
next
  case False
  then have "ps_peers (touch i s) = ps_peers s"
    by (auto simp: touch_def split: prod.splits bool.splits dest: ps_sqlD)
  then show ?thesis by (simp add: upd_keeps_id)
qed

lemma upd_keeps_get:
  "upd_keeps rows rows' \<Longrightarrow> tbl_get pr_identity rows i = Some r \<Longrightarrow>
   \<exists>r'. tbl_get pr_identity rows' i = Some r' \<and> same_alloc r r'"
  by (auto simp: upd_keeps_def same_alloc_def tbl_get_upd)

lemma upd_keeps_maps:
  assumes "upd_keeps rows rows'"
  shows "map pr_identity rows' = map pr_identity rows \<and> map pr_idx rows' = map pr_idx rows \<and>
    (\<forall>r'\<in>set rows'. \<exists>r\<in>set rows. same_alloc r r')"
proof -
  obtain i f where f: "rows' = tbl_upd pr_identity i f rows" and k: "\<And>r. same_alloc r (f r)"
    using assms unfolding upd_keeps_def by blast
  have "\<exists>r\<in>set rows. same_alloc r r'" if "r' \<in> set rows'" for r'
    using tbl_upd_mem [OF that [unfolded f]] k same_alloc_def by blast
  then show ?thesis using k by (simp add: f tbl_upd_def same_alloc_def)
qed

lemma upd_keeps_inv:
  assumes "alloc_inv p port a" "upd_keeps (ps_peers (al_store a)) (ps_peers s)"
  shows "alloc_inv p port (a\<lparr>al_store := s\<rparr>)"
  using assms(1) upd_keeps_maps [OF assms(2)] same_alloc_good by (auto simp: alloc_inv_def tbl_wf_def)

lemma newPeer_good:
  assumes "idx \<noteq> 0" "prefixNth p idx = Some np"
  shows "goodPeer p port (newPeer i u k np port idx t)"
  using assms by (auto simp: goodPeer_def newPeer_def)

lemma good_idx_pos: "goodPeer p port r \<Longrightarrow> 1 \<le> pr_idx r"
proof -
  have "1 \<le> uint w" if "w \<noteq> 0" for w :: "16 word"
    using that uint_0_iff [of w] uint_ge_0 [of w] by linarith
  then show "goodPeer p port r \<Longrightarrow> 1 \<le> pr_idx r" by (auto simp: goodPeer_def)
qed

lemma insertPeer_inv:
  assumes "alloc_inv p port a" "r \<in> set (al_pending a)"
  shows "alloc_inv p port \<lparr>al_store = snd (insertPeer r (al_store a)), al_pending = remove1 r (al_pending a)\<rparr>"
proof -
  have "set (ps_peers (snd (insertPeer r (al_store a)))) \<union> set (remove1 r (al_pending a)) \<subseteq>
      set (ps_peers (al_store a)) \<union> set (al_pending a)"
    using insertPeer_peers [of r "al_store a"] assms(2) set_remove1_subset [of r "al_pending a"] by (auto simp: tbl_ins_def)
  moreover have "tbl_wf pr_identity (ps_peers (snd (insertPeer r (al_store a))))"
      "tbl_wf pr_idx (ps_peers (snd (insertPeer r (al_store a))))"
    using insertPeer_peers [of r "al_store a"] assms(1) tbl_wf_ins unfolding alloc_inv_def by metis+
  ultimately show ?thesis
    using assms(1) unfolding alloc_inv_def by auto
qed

lemma alloc_step_inv:
  assumes "alloc_step p port a b" "alloc_inv p port a"
  shows "alloc_inv p port b"
  using assms
proof (induction rule: alloc_step.induct)
  case (st_index a idx s np ident uuid key)
  have "ps_peers s = ps_peers (al_store a)" using nextIndex_peers [of "al_store a"] st_index(1) by simp
  moreover have "idx \<noteq> 0"
    using nextIndex_pos [OF st_index(1)] st_index.prems good_idx_pos by (auto simp: alloc_inv_def)
  ultimately show ?case
    using st_index newPeer_good by (auto simp: alloc_inv_def)
next
  case (st_insert r a)
  then show ?case by (intro insertPeer_inv)
next
  case (st_pubkey a ident key)
  then show ?case by (intro upd_keeps_inv updatePubkey_keeps)
next
  case (st_touch a ident)
  then show ?case by (intro upd_keeps_inv touch_keeps)
qed (auto simp: alloc_inv_def)

lemma alloc_step_get:
  assumes "alloc_step p port a b" "tbl_get pr_identity (ps_peers (al_store a)) i = Some r"
  shows "\<exists>r'. tbl_get pr_identity (ps_peers (al_store b)) i = Some r' \<and> same_alloc r r'"
  using assms
proof (induction rule: alloc_step.induct)
  case (st_index a idx s np ident uuid key)
  then show ?case using nextIndex_peers [of "al_store a"] by (auto simp: same_alloc_def)
next
  case (st_insert x a)
  then show ?case using insertPeer_peers [of x "al_store a"] by (auto simp: same_alloc_def tbl_get_ins)
next
  case (st_pubkey a ident key)
  then show ?case using upd_keeps_get [OF updatePubkey_keeps] by auto
next
  case (st_touch a ident)
  then show ?case using upd_keeps_get [OF touch_keeps] by auto
qed (auto simp: same_alloc_def)

lemma same_alloc_trans: "same_alloc a b \<Longrightarrow> same_alloc b c \<Longrightarrow> same_alloc a c"
  by (simp add: same_alloc_def)

lemma alloc_run_get:
  assumes "(alloc_step p port)\<^sup>*\<^sup>* a b" "tbl_get pr_identity (ps_peers (al_store a)) i = Some r"
  shows "\<exists>r'. tbl_get pr_identity (ps_peers (al_store b)) i = Some r' \<and> same_alloc r r'"
  using assms
proof (induction rule: rtranclp_induct)
  case (step b c)
  then show ?case using alloc_step_get same_alloc_trans by blast
qed (auto simp: same_alloc_def)

interpretation alloc: invariant_system alloc_init "alloc_step p port" "alloc_inv p port"
proof unfold_locales
  show "alloc_init a \<Longrightarrow> alloc_inv p port a" for a by (simp add: alloc_init_def alloc_inv_def)
qed (rule alloc_step_inv)

lemma prefixNthAddr_eq:
  assumes "prefix48 p"
  shows "prefixNthAddr p n l = V6 ((setIndex n (As16 (pfx_ip (Masked p))))[15 := l])"
proof -
  obtain bs where bs: "pfx_ip p = V6 bs" "length bs = 16" using assms by (auto simp: prefix48_def)
  define ms where "ms = mask_bytes (nat (pfx_bits p)) bs"
  have M: "As16 (pfx_ip (Masked p)) = ms" using assms bs by (simp add: Masked_def prefix_IsValid_def prefix48_def ms_def)
  have z: "ms ! 10 = 0" unfolding ms_def using assms bs by (intro mask_bytes_zero) (auto simp: prefix48_def)
  have "take 12 ((setIndex n ms)[15 := l]) \<noteq> mapped"
  proof
    assume "take 12 ((setIndex n ms)[15 := l]) = mapped"
    then have "take 12 ((setIndex n ms)[15 := l]) ! 10 = mapped ! 10" by simp
    then show False by (simp add: mapped_def nth_append setIndex_def z)
  qed
  then show ?thesis by (simp add: prefixNthAddr_def M)
qed

text \<open>A call of \<^verbatim>\<open>findOrAllocate\<close> is a sequence of those steps.\<close>

lemma alloc_step_conv:
  "alloc_step p port \<lparr>al_store = s, al_pending = q\<rparr> \<lparr>al_store = snd (selectPeer ident s), al_pending = q\<rparr>"
  "alloc_step p port \<lparr>al_store = s, al_pending = q\<rparr> \<lparr>al_store = snd (updatePubkey ident key s), al_pending = q\<rparr>"
  "alloc_step p port \<lparr>al_store = s, al_pending = q\<rparr> \<lparr>al_store = snd (nextIndex s), al_pending = q\<rparr>"
  using st_select [of p port "\<lparr>al_store = s, al_pending = q\<rparr>" ident]
    st_pubkey [of p port "\<lparr>al_store = s, al_pending = q\<rparr>" ident key]
    st_no_index [of p port "\<lparr>al_store = s, al_pending = q\<rparr>"] by simp_all

lemma alloc_insert_steps:
  assumes "nextIndex s = (Inr idx, s')" "prefixNth p idx = Some np" "ps_clock s' = now"
  shows "(alloc_step p port)\<^sup>*\<^sup>* \<lparr>al_store = s, al_pending = q\<rparr>
    \<lparr>al_store = snd (insertPeer (newPeer i u k np port idx now) s'), al_pending = q\<rparr>"
proof -
  let ?r = "newPeer i u k np port idx now"
  have "alloc_step p port \<lparr>al_store = s, al_pending = q\<rparr> \<lparr>al_store = s', al_pending = ?r # q\<rparr>"
    using st_index [of "\<lparr>al_store = s, al_pending = q\<rparr>" idx s' p np port i u k] assms by simp
  moreover have "alloc_step p port \<lparr>al_store = s', al_pending = ?r # q\<rparr> \<lparr>al_store = snd (insertPeer ?r s'), al_pending = q\<rparr>"
    using st_insert [of ?r "\<lparr>al_store = s', al_pending = ?r # q\<rparr>" p port] by simp
  ultimately show ?thesis by (meson rtranclp.rtrancl_into_rtrancl rtranclp.rtrancl_refl)
qed

lemma findOrAllocate_steps:
  "(alloc_step p port)\<^sup>*\<^sup>* \<lparr>al_store = s, al_pending = q\<rparr>
     \<lparr>al_store = snd (findOrAllocate i u k p port s), al_pending = q\<rparr>"
proof -
  obtain res s1 where sel: "selectPeer i s = (res, s1)" by fastforce
  then have s1: "(alloc_step p port)\<^sup>*\<^sup>* \<lparr>al_store = s, al_pending = q\<rparr> \<lparr>al_store = s1, al_pending = q\<rparr>"
    using alloc_step_conv(1) [of p port s q i] by simp
  have "(alloc_step p port)\<^sup>*\<^sup>* \<lparr>al_store = s1, al_pending = q\<rparr>
      \<lparr>al_store = snd (findOrAllocate i u k p port s), al_pending = q\<rparr>"
  proof (cases "\<exists>r. res = Inr (Some r) \<and> pr_pubkey r \<noteq> k")
    case True
    then show ?thesis
      using sel alloc_step_conv(2) [of p port s1 q i k] by (auto simp: findOrAllocate_def split: prod.splits sum.splits)
  next
    case False
    obtain nx s2 where nx: "nextIndex s1 = (nx, s2)" by fastforce
    note n3 = alloc_step_conv(3) [of p port s1 q, unfolded nx snd_conv]
    show ?thesis
    proof (cases "res = Inr None \<and> (\<exists>idx. nx = Inr idx \<and> prefixNth p idx \<noteq> None)")
      case True
      then obtain idx np where idx: "nx = Inr idx" "prefixNth p idx = Some np" by auto
      show ?thesis
        using alloc_insert_steps [of s1 idx s2 p np "ps_clock s2" port q i u k] True sel nx idx
        by (auto simp: findOrAllocate_def Let_def split: prod.splits sum.splits)
    next
      case no: False
      then show ?thesis
        using False sel nx n3
        by (auto simp: findOrAllocate_def split: prod.splits sum.splits option.splits)
    qed
  qed
  with s1 show ?thesis by (rule rtranclp_trans)
qed

lemma findOrAllocate_row:
  assumes "findOrAllocate i u k p port s = (Inr (r, c), s')"
  shows "\<exists>r'. tbl_get pr_identity (ps_peers s') i = Some r' \<and> same_alloc r r'"
proof -
  obtain res s1 where sel: "selectPeer i s = (Inr res, s1)"
    using assms by (auto simp: findOrAllocate_def split: prod.splits sum.splits)
  have res: "res = tbl_get pr_identity (ps_peers s1) i"
    using sel by (auto simp: selectPeer_def split: prod.splits bool.splits)
  show ?thesis
  proof (cases res)
    case (Some r0)
    show ?thesis
    proof (cases "pr_pubkey r0 = k")
      case True
      then show ?thesis using assms sel Some res by (auto simp: findOrAllocate_def same_alloc_def)
    next
      case False
      then have s': "s' = snd (updatePubkey i k s1)" and r: "r = r0\<lparr>pr_pubkey := k\<rparr>"
        using assms sel Some by (auto simp: findOrAllocate_def split: prod.splits sum.splits)
      show ?thesis
        using upd_keeps_get [OF updatePubkey_keeps, of s1 i r0 i k] res Some s' r by (auto simp: same_alloc_def)
    qed
  next
    case None
    then obtain idx s2 np where n: "nextIndex s1 = (Inr idx, s2)" "prefixNth p idx = Some np"
        "insertPeer (newPeer i u k np port idx (ps_clock s2)) s2 = (Inr (), s')"
        "r = newPeer i u k np port idx (ps_clock s2)\<lparr>pr_joined := 0, pr_last_seen := 0\<rparr>"
      using assms sel by (auto simp: findOrAllocate_def Let_def split: prod.splits sum.splits option.splits)
    have "tbl_get pr_identity (ps_peers s') i = Some (newPeer i u k np port idx (ps_clock s2))"
      using n(3) by (auto simp: insertPeer_def newPeer_def tbl_get_ins split: prod.splits bool.splits if_splits)
    then show ?thesis using n(4) by (auto simp: same_alloc_def)
  qed
qed

section \<open>Allocations are disjoint and stable\<close>

abbreviation node_address :: "peer_row \<Rightarrow> ip" where "node_address r \<equiv> pfx_ip (pr_prefix r)"

lemma good_index: "goodPeer p port r \<Longrightarrow> \<exists>idx. idx \<noteq> 0 \<and> pr_idx r = uint idx \<and> prefixNth p idx = Some (pr_prefix r)"
  by (simp add: goodPeer_def)

lemma good_inside:
  assumes "prefix48 p" "goodPeer p port r"
  shows "contains6 p (node_address r) \<and> pfx_bits (pr_prefix r) = 64 \<and> \<not> contains6 (pr_prefix r) (prefixNthAddr p 0 1)"
  using good_index [OF assms(2)] prefixNth_contains [OF assms(1)] server_outside [OF assms(1)]
  by (auto simp: prefixNthAddr_eq [OF assms(1)])

lemma good_distinct:
  assumes "prefix48 p" "goodPeer p port r" "goodPeer p port r'" "node_address r = node_address r'"
  shows "pr_idx r = pr_idx r'"
  using good_index [OF assms(2)] good_index [OF assms(3)] prefixNth_inj [OF assms(1)] assms(4) by metis

lemma wf_key_inj: "tbl_wf key rows \<Longrightarrow> r \<in> set rows \<Longrightarrow> r' \<in> set rows \<Longrightarrow> key r = key r' \<Longrightarrow> r = r'"
  by (auto simp: tbl_wf_def distinct_map inj_on_def)

text \<open>
  with a configured prefix of at most 48 bits, and however the statements of concurrent
  provisioning calls interleave and fail, the /64 of every node lies inside the configured prefix and
  never holds the server's own address, two nodes never get the same /64, and from the moment a node
  has one it keeps it for ever.
\<close>

theorem link_allocations:
  assumes "prefix48 p" "alloc_init a" "(alloc_step p port)\<^sup>*\<^sup>* a b" "(alloc_step p port)\<^sup>*\<^sup>* b c"
    "r \<in> set (ps_peers (al_store b))"
  shows "contains6 p (node_address r) \<and> pfx_bits (pr_prefix r) = 64 \<and>
    \<not> contains6 (pr_prefix r) (prefixNthAddr p 0 1) \<and>
    (\<forall>r'\<in>set (ps_peers (al_store b)). node_address r' = node_address r \<longrightarrow> r' = r) \<and>
    (\<exists>r'\<in>set (ps_peers (al_store c)). pr_identity r' = pr_identity r \<and> pr_prefix r' = pr_prefix r \<and>
       pr_node_addr r' = pr_node_addr r)"
proof (intro conjI ballI impI)
  have inv: "alloc_inv p port b" using alloc.steps_inv [OF assms(3)] alloc.init_inv [OF assms(2)] by blast
  then have good: "x \<in> set (ps_peers (al_store b)) \<Longrightarrow> goodPeer p port x" for x by (simp add: alloc_inv_def)
  show "contains6 p (node_address r)" "pfx_bits (pr_prefix r) = 64" "\<not> contains6 (pr_prefix r) (prefixNthAddr p 0 1)"
    using good_inside [OF assms(1) good [OF assms(5)]] by auto
  show "r' = r" if "r' \<in> set (ps_peers (al_store b))" "node_address r' = node_address r" for r'
    using good_distinct [OF assms(1) good good, of r' r] that assms(5) inv wf_key_inj [of pr_idx _ r' r]
    by (auto simp: alloc_inv_def)
  have "tbl_get pr_identity (ps_peers (al_store b)) (pr_identity r) = Some r"
    using inv assms(5) by (simp add: alloc_inv_def tbl_get_Some)
  from alloc_run_get [OF assms(4) this]
  show "\<exists>r'\<in>set (ps_peers (al_store c)). pr_identity r' = pr_identity r \<and> pr_prefix r' = pr_prefix r \<and>
      pr_node_addr r' = pr_node_addr r"
    using tbl_get_mem by (fastforce simp: same_alloc_def)
qed

text \<open>
  The prefix must not be longer: \<^verbatim>\<open>Validate\<close> and \<^verbatim>\<open>prefixNth\<close> accept up to 63 bits, and the index then
  overwrites bits of the prefix.
\<close>

lemma long_prefix_escapes:
  assumes "pfx_ip p = V6 bs" "length bs = 16" "56 \<le> pfx_bits p" "pfx_bits p < 64" "bs ! 6 \<noteq> 0"
  shows "\<exists>q. prefixNth p 1 = Some q \<and> \<not> contains6 p (pfx_ip q)"
proof -
  define ms where "ms = mask_bytes (nat (pfx_bits p)) bs"
  have len: "length ms = 16" by (simp add: ms_def assms(2))
  have nth: "prefixNth p 1 = Some \<lparr>pfx_ip = V6 (setIndex 1 ms), pfx_bits = 64\<rparr>"
    using assms Unmap_setIndex [OF len, of 1]
    by (simp add: prefixNth_def Masked_def prefix_IsValid_def PrefixFrom_def ms_def)
  have "\<not> contains6 p (V6 (setIndex 1 ms))"
  proof
    assume "contains6 p (V6 (setIndex 1 ms))"
    then have "mask_bytes (nat (pfx_bits p)) (setIndex 1 ms) ! 6 = mask_bytes (nat (pfx_bits p)) bs ! 6"
      by (simp add: contains6_def assms(1))
    moreover have "8 * Suc 6 \<le> nat (pfx_bits p)" using assms(3) by simp
    moreover have "setIndex 1 ms ! 6 = 0" using len by (simp add: setIndex_def)
    ultimately show False using assms(2,5) len by (simp add: mask_bytes_nth setIndex_def)
  qed
  with nth show ?thesis by simp
qed

text \<open>
  provisioning is refused, and changes nothing, without a valid token and key. An accepted node gets
  a /64 that any later call for the same node returns again, whatever happened in between and even
  with another key; over gRPC its stream address is from then on allowed to open a stream.
\<close>

theorem Provision_stable:
  assumes "Provision e rq l = (Inr rs, l')"
    and "(alloc_step (lc_prefix (le_cfg e)) (lc_streamPort (le_cfg e)))\<^sup>*\<^sup>*
      \<lparr>al_store = ln_store l', al_pending = q\<rparr> \<lparr>al_store = ln_store m, al_pending = q'\<rparr>"
    and "Provision e rq' m = (Inr rs', m')"
    and "identityFor (le_sha e) (rq_nodeUuid rq') (rq_uniqueToken rq') =
      identityFor (le_sha e) (rq_nodeUuid rq) (rq_uniqueToken rq)"
  shows "rs_nodeAddressPrefix rs' = rs_nodeAddressPrefix rs \<and> tokenAccepted e (rq_joinToken rq) \<and>
    le_keyOk e (rq_publicKey rq) \<and>
    (rq_overGrpc rq \<longrightarrow> (\<exists>ap. rs_grpcPeerAddrPort rs = Some ap \<and> allowStream ap l')) \<and>
    (\<forall>rq0 l0. \<not> tokenAccepted e (rq_joinToken rq0) \<or> \<not> le_keyOk e (rq_publicKey rq0) \<longrightarrow>
       (\<exists>er. Provision e rq0 l0 = (Inl er, l0)))"
proof -
  let ?i = "identityFor (le_sha e) (rq_nodeUuid rq) (rq_uniqueToken rq)"
  let ?p = "lc_prefix (le_cfg e)" and ?port = "lc_streamPort (le_cfg e)"
  obtain r c where f: "findOrAllocate ?i (rq_nodeUuid rq) (rq_publicKey rq) ?p ?port (ln_store l) = (Inr (r, c), ln_store l')"
      and rs: "rs_nodeAddressPrefix rs = pr_prefix r"
      and ok: "tokenAccepted e (rq_joinToken rq)" "le_keyOk e (rq_publicKey rq)"
      and gr: "rq_overGrpc rq \<longrightarrow> rs_grpcPeerAddrPort rs = Some (pr_node_addr r) \<and>
        ln_streamTokens l' = AList.update (pr_node_addr r) (pr_identity r) (ln_streamTokens l)"
    using assms(1) by (auto simp: Provision_def split: if_splits prod.splits sum.splits)
  obtain r2 c2 where f2: "findOrAllocate ?i (rq_nodeUuid rq') (rq_publicKey rq') ?p ?port (ln_store m) = (Inr (r2, c2), ln_store m')"
      and rs2: "rs_nodeAddressPrefix rs' = pr_prefix r2"
    using assms(3,4) by (auto simp: Provision_def split: if_splits prod.splits sum.splits)
  obtain r1 where r1: "tbl_get pr_identity (ps_peers (ln_store l')) ?i = Some r1" "same_alloc r r1"
    using findOrAllocate_row [OF f] by blast
  have "(alloc_step ?p ?port)\<^sup>*\<^sup>* \<lparr>al_store = ln_store l', al_pending = q\<rparr> \<lparr>al_store = ln_store m', al_pending = q'\<rparr>"
    using assms(2) findOrAllocate_steps [of ?p ?port "ln_store m" q' ?i "rq_nodeUuid rq'" "rq_publicKey rq'"]
    by (simp add: f2)
  from alloc_run_get [OF this] r1
  obtain r3 where "tbl_get pr_identity (ps_peers (ln_store m')) ?i = Some r3" "same_alloc r1 r3"
    by auto
  with findOrAllocate_row [OF f2] r1(2) have "pr_prefix r2 = pr_prefix r" by (auto simp: same_alloc_def)
  then show ?thesis
    using rs rs2 ok gr by (auto simp: allowStream_def update_conv' Provision_def)
qed

section \<open>Witnesses\<close>

definition ex_link_config :: link_config where
  "ex_link_config = \<lparr>lc_prefix = \<lparr>pfx_ip = V6 ([0xfd, 0x8c, 0x42, 0x16, 0x9a, 0x10] @ replicate 10 0), pfx_bits = 48\<rparr>,
     lc_joinToken = ''secret'', lc_listen = '':50180'', lc_wgListen = [], lc_endpoints = ['':50180''],
     lc_streamPort = 51820, lc_mtu = 1280\<rparr>"

definition ex_link_env :: link_env where
  "ex_link_env = \<lparr>le_cfg = ex_link_config, le_serverKey = ''srv'', le_serverAP = prefixNthAddr (lc_prefix ex_link_config) 0 1,
     le_acceptToken = None, le_keyOk = (\<lambda>k. k \<noteq> []), le_deviceOk = (\<lambda>_ _. True), le_sha = id\<rparr>"

definition ex_peer_store :: peer_store where
  "ex_peer_store = \<lparr>ps_peers = [], ps_settings = [], ps_clock = 5, ps_faults = []\<rparr>"

definition ex_link :: link where
  "ex_link = \<lparr>ln_store = ex_peer_store, ln_streamTokens = [], ln_applied = [], ln_events = []\<rparr>"

definition ex_provision :: "string \<Rightarrow> string \<Rightarrow> provision_request" where
  "ex_provision u k = \<lparr>rq_nodeUuid = u, rq_uniqueToken = [], rq_publicKey = k, rq_joinToken = ''secret'', rq_overGrpc = True\<rparr>"

definition ex_allocated :: "peer_store" where
  "ex_allocated = snd (findOrAllocate ''uuid:b'' ''B'' ''k2'' (lc_prefix ex_link_config) 51820
     (snd (findOrAllocate ''uuid:a'' ''A'' ''k1'' (lc_prefix ex_link_config) 51820 ex_peer_store)))"

lemma ex_prefix48: "prefix48 (lc_prefix ex_link_config)"
  by (simp add: prefix48_def ex_link_config_def)

lemma ex_allocated_run:
  "(alloc_step (lc_prefix ex_link_config) 51820)\<^sup>*\<^sup>* \<lparr>al_store = ex_peer_store, al_pending = []\<rparr>
     \<lparr>al_store = ex_allocated, al_pending = []\<rparr>"
  unfolding ex_allocated_def by (rule rtranclp_trans [OF findOrAllocate_steps findOrAllocate_steps])

lemma ex_allocated_peers: "map pr_identity (ps_peers ex_allocated) = [''uuid:a'', ''uuid:b'']"
  by code_simp

theorem link_allocations_witness:
  "length (ps_peers ex_allocated) = 2 \<and> contains6 (lc_prefix ex_link_config) (node_address (ps_peers ex_allocated ! 1)) \<and>
   node_address (ps_peers ex_allocated ! 0) \<noteq> node_address (ps_peers ex_allocated ! 1)"
proof -
  have len: "length (ps_peers ex_allocated) = 2" using arg_cong [OF ex_allocated_peers, of length] by simp
  have d: "ps_peers ex_allocated ! 0 \<noteq> ps_peers ex_allocated ! 1"
    using arg_cong [OF ex_allocated_peers, of "\<lambda>xs. xs ! 0"] arg_cong [OF ex_allocated_peers, of "\<lambda>xs. xs ! 1"] len
    by auto
  have i: "alloc_init \<lparr>al_store = ex_peer_store, al_pending = []\<rparr>" by (simp add: alloc_init_def ex_peer_store_def)
  show ?thesis
    using link_allocations [OF ex_prefix48 i ex_allocated_run rtranclp.rtrancl_refl, of "ps_peers ex_allocated ! 1"] d len
    by auto
qed

theorem Provision_stable_witness:
  "case Provision ex_link_env (ex_provision ''A1'' ''k1'') ex_link of
     (Inr rs, l) \<Rightarrow>
       (case Provision ex_link_env (ex_provision ''a1'' ''k2'') l of
          (Inr rs', l') \<Rightarrow> rs_nodeAddressPrefix rs' = rs_nodeAddressPrefix rs
        | _ \<Rightarrow> False)
   | _ \<Rightarrow> False"
proof -
  obtain rs l where p: "Provision ex_link_env (ex_provision ''A1'' ''k1'') ex_link = (Inr rs, l)"
    and "\<exists>rs' l'. Provision ex_link_env (ex_provision ''a1'' ''k2'') l = (Inr rs', l')"
  proof -
    have "case Provision ex_link_env (ex_provision ''A1'' ''k1'') ex_link of
       (Inr rs, l) \<Rightarrow> (case Provision ex_link_env (ex_provision ''a1'' ''k2'') l of (Inr _, _) \<Rightarrow> True | _ \<Rightarrow> False) | _ \<Rightarrow> False"
      by code_simp
    then show ?thesis using that by (auto split: prod.splits sum.splits)
  qed
  then obtain rs' l' where p': "Provision ex_link_env (ex_provision ''a1'' ''k2'') l = (Inr rs', l')" by blast
  have "identityFor (le_sha ex_link_env) ''a1'' [] = identityFor (le_sha ex_link_env) ''A1'' []" by code_simp
  then show ?thesis
    using Provision_stable [OF p rtranclp.rtrancl_refl p'] p p' by (simp add: ex_provision_def)
qed

end
