(* ===== verification/Link_Streams.thy ===== *)
theory Link_Streams
  imports Mgmtlink
begin

text \<open>
  Streams of the management link: the per-node send queues of \<^verbatim>\<open>serverBind\<close> (\<^verbatim>\<open>bind.go\<close>, \<^verbatim>\<open>queue.go\<close>) and the
  life of a stream in \<^verbatim>\<open>CreateStream\<close> (\<^verbatim>\<open>streamsvc.go\<close>), cut where the code gives up a lock, so that the
  streams of one node and the sends of the WireGuard device interleave.
\<close>

section \<open>Queues\<close>

type_synonym packet = string

abbreviation ring_cap :: nat where "ring_cap \<equiv> 128"

definition ringPush :: "nat \<Rightarrow> packet \<Rightarrow> packet list \<Rightarrow> packet list" where
  "ringPush cap v q =
     (if length q < cap then q @ [v] else let q = tl q in if length q < cap then q @ [v] else q)"

record ring =
  rg_items :: "packet list"
  rg_closed :: bool

datatype stream_phase = Opening | Running | Leaving | Gone

record stream =
  sh_addr :: addrport
  sh_queue :: nat
  sh_phase :: stream_phase
  sh_cancelled :: bool
  sh_sent :: "packet list"

text \<open>
  Queues and streams are numbered by their creation. \<open>ss_sends\<close> are the device's sends that have found their
  queue and still have to push; \<open>ss_panicked\<close> records a send on a closed channel, which ends the process.
\<close>

record streams =
  ss_slots :: "addrport \<Rightarrow> nat option"
  ss_peers :: "addrport \<Rightarrow> nat option"
  ss_queues :: "ring list"
  ss_streams :: "stream list"
  ss_sends :: "(nat \<times> packet) list"
  ss_panicked :: bool
  ss_gone :: "addrport list"

definition no_streams :: streams where
  "no_streams = \<lparr>ss_slots = (\<lambda>_. None), ss_peers = (\<lambda>_. None), ss_queues = [], ss_streams = [],
     ss_sends = [], ss_panicked = False, ss_gone = []\<rparr>"

definition getSendQueue :: "addrport \<Rightarrow> bool \<Rightarrow> streams \<Rightarrow> nat option \<times> streams" where
  "getSendQueue a create s =
     (case ss_peers s a of
        Some q \<Rightarrow> (Some q, s)
      | None \<Rightarrow>
          if \<not> create then (None, s)
          else (Some (length (ss_queues s)),
                s\<lparr>ss_queues := ss_queues s @ [\<lparr>rg_items = [], rg_closed = False\<rparr>],
                  ss_peers := (ss_peers s)(a := Some (length (ss_queues s)))\<rparr>))"

definition dropPeer :: "addrport \<Rightarrow> streams \<Rightarrow> streams" where
  "dropPeer a s =
     (case ss_peers s a of
        None \<Rightarrow> s
      | Some q \<Rightarrow> s\<lparr>ss_queues := (ss_queues s)[q := (ss_queues s ! q)\<lparr>rg_closed := True\<rparr>],
                    ss_peers := (ss_peers s)(a := None)\<rparr>)"

text \<open>\<^verbatim>\<open>Send\<close> of the bind for a node's endpoint: the lookup under the lock, and one push without it.\<close>

definition sendLookup :: "addrport \<Rightarrow> packet list \<Rightarrow> streams \<Rightarrow> streams" where
  "sendLookup a bufs s =
     (case getSendQueue a False s of
        (None, s) \<Rightarrow> s
      | (Some q, s) \<Rightarrow> s\<lparr>ss_sends := ss_sends s @ map (\<lambda>b. (q, b)) bufs\<rparr>)"

definition pushTo :: "nat \<Rightarrow> packet \<Rightarrow> streams \<Rightarrow> streams" where
  "pushTo q b s =
     (if rg_closed (ss_queues s ! q) then s\<lparr>ss_panicked := True\<rparr>
      else s\<lparr>ss_queues := (ss_queues s)[q := (ss_queues s ! q)\<lparr>rg_items := ringPush ring_cap b (rg_items (ss_queues s ! q))\<rparr>]\<rparr>)"

section \<open>The life of a stream\<close>

text \<open>The header a node gives: missing, unparsable, another spelling of an address, or an address.\<close>

datatype peer_header = NoHeader | BadHeader | OtherSpelling addrport | AddrHeader addrport

text \<open>\<^verbatim>\<open>CreateStream\<close> up to the send queue: the checks, and the new stream's number.\<close>

definition openStream :: "(addrport \<Rightarrow> bool) \<Rightarrow> peer_header \<Rightarrow> streams \<Rightarrow> (link_err + nat) \<times> streams" where
  "openStream allowed h s =
     (case h of
        NoHeader \<Rightarrow> (Inl ErrHeader, s)
      | BadHeader \<Rightarrow> (Inl ErrAddress, s)
      | OtherSpelling _ \<Rightarrow> (Inl ErrPeerNotAllowed, s)
      | AddrHeader a \<Rightarrow>
          if \<not> allowed a then (Inl ErrPeerNotAllowed, s)
          else
            (case getSendQueue a True s of
               (None, s) \<Rightarrow> (Inl ErrPeerNotAllowed, s)
             | (Some q, s) \<Rightarrow>
                 (Inr (length (ss_streams s)),
                  s\<lparr>ss_streams := ss_streams s @ [\<lparr>sh_addr = a, sh_queue = q, sh_phase = Opening,
                      sh_cancelled = False, sh_sent = []\<rparr>]\<rparr>)))"

definition cancelStream :: "nat option \<Rightarrow> stream list \<Rightarrow> stream list" where
  "cancelStream h xs = (case h of None \<Rightarrow> xs | Some i \<Rightarrow> xs[i := (xs ! i)\<lparr>sh_cancelled := True\<rparr>])"

text \<open>Taking over the slot of the address.\<close>

definition registerStream :: "nat \<Rightarrow> streams \<Rightarrow> streams" where
  "registerStream i s =
     (let a = sh_addr (ss_streams s ! i);
          xs = cancelStream (ss_slots s a) (ss_streams s) in
      s\<lparr>ss_streams := xs[i := (xs ! i)\<lparr>sh_phase := Running\<rparr>], ss_slots := (ss_slots s)(a := Some i)\<rparr>)"

text \<open>
  The outbound loop sends one packet. The stream of a closed queue reads the zero value, an empty packet,
  for ever; a cancelled stream may still take a packet, because Go's select chooses freely.
\<close>

definition streamSend :: "nat \<Rightarrow> streams \<Rightarrow> streams" where
  "streamSend i s =
     (let x = ss_streams s ! i; q = ss_queues s ! sh_queue x in
      case rg_items q of
        [] \<Rightarrow> if rg_closed q then s\<lparr>ss_streams := (ss_streams s)[i := x\<lparr>sh_sent := sh_sent x @ [[]]\<rparr>]\<rparr> else s
      | p # ps \<Rightarrow> s\<lparr>ss_streams := (ss_streams s)[i := x\<lparr>sh_sent := sh_sent x @ [p]\<rparr>],
                    ss_queues := (ss_queues s)[sh_queue x := q\<lparr>rg_items := ps\<rparr>]\<rparr>)"

text \<open>The deferred function: under the lock, then without it.\<close>

definition leaveStream :: "nat \<Rightarrow> streams \<Rightarrow> streams" where
  "leaveStream i s =
     (let x = ss_streams s ! i; owns = (ss_slots s (sh_addr x) = Some i) in
      s\<lparr>ss_streams := (ss_streams s)[i := x\<lparr>sh_phase := (if owns then Leaving else Gone)\<rparr>],
        ss_slots := (if owns then (ss_slots s)(sh_addr x := None) else ss_slots s)\<rparr>)"

definition dropStream :: "nat \<Rightarrow> streams \<Rightarrow> streams" where
  "dropStream i s =
     (let a = sh_addr (ss_streams s ! i); s = dropPeer a s in
      s\<lparr>ss_streams := (ss_streams s)[i := (ss_streams s ! i)\<lparr>sh_phase := Gone\<rparr>], ss_gone := ss_gone s @ [a]\<rparr>)"

definition streamResult :: "stream \<Rightarrow> link_err \<Rightarrow> link_err" where
  "streamResult x e = (if sh_cancelled x then ErrPeerReplaced else e)"

text \<open>The addresses with a slot: those of the streams that hold it.\<close>

definition activeStreams :: "streams \<Rightarrow> addrport list" where
  "activeStreams s = map (\<lambda>i. sh_addr (ss_streams s ! i))
     (filter (\<lambda>i. ss_slots s (sh_addr (ss_streams s ! i)) = Some i) [0..<length (ss_streams s)])"

abbreviation in_phase :: "streams \<Rightarrow> nat \<Rightarrow> stream_phase \<Rightarrow> bool" where
  "in_phase s i ph \<equiv> i < length (ss_streams s) \<and> sh_phase (ss_streams s ! i) = ph"

inductive stream_step :: "(addrport \<Rightarrow> bool) \<Rightarrow> streams \<Rightarrow> streams \<Rightarrow> bool" for allowed where
  sm_open: "stream_step allowed s (snd (openStream allowed h s))"
| sm_register: "in_phase s i Opening \<Longrightarrow> stream_step allowed s (registerStream i s)"
| sm_send: "in_phase s i Running \<Longrightarrow> stream_step allowed s (streamSend i s)"
| sm_leave: "in_phase s i Running \<Longrightarrow> stream_step allowed s (leaveStream i s)"
| sm_drop: "in_phase s i Leaving \<Longrightarrow> stream_step allowed s (dropStream i s)"
| sm_lookup: "stream_step allowed s (sendLookup a bufs s)"
| sm_push: "ss_sends s = (q, b) # rest \<Longrightarrow> stream_step allowed s (pushTo q b (s\<lparr>ss_sends := rest\<rparr>))"

section \<open>The slot of an address\<close>

text \<open>A slot holds the newest registered stream of its address, and no other stream of it is live.\<close>

abbreviation live :: "stream \<Rightarrow> bool" where
  "live x \<equiv> sh_phase x = Running \<and> \<not> sh_cancelled x"

definition slot_ok :: "(addrport \<Rightarrow> nat option) \<Rightarrow> stream \<Rightarrow> nat \<Rightarrow> bool" where
  "slot_ok slots x i \<longleftrightarrow> (live x \<longleftrightarrow> slots (sh_addr x) = Some i) \<and> (sh_phase x = Opening \<longrightarrow> \<not> sh_cancelled x)"

definition slot_inv :: "streams \<Rightarrow> bool" where
  "slot_inv s \<longleftrightarrow>
     (\<forall>a i. ss_slots s a = Some i \<longrightarrow> i < length (ss_streams s) \<and> sh_addr (ss_streams s ! i) = a) \<and>
     (\<forall>i < length (ss_streams s). slot_ok (ss_slots s) (ss_streams s ! i) i)"

lemma slot_invI:
  assumes "\<And>a i. ss_slots s a = Some i \<Longrightarrow> i < length (ss_streams s) \<and> sh_addr (ss_streams s ! i) = a"
    "\<And>i. i < length (ss_streams s) \<Longrightarrow> slot_ok (ss_slots s) (ss_streams s ! i) i"
  shows "slot_inv s"
  using assms by (simp add: slot_inv_def)

lemma slot_inv_addr: "slot_inv s \<Longrightarrow> ss_slots s a = Some i \<Longrightarrow> i < length (ss_streams s) \<and> sh_addr (ss_streams s ! i) = a"
  unfolding slot_inv_def by blast

lemma slot_inv_ok: "slot_inv s \<Longrightarrow> i < length (ss_streams s) \<Longrightarrow> slot_ok (ss_slots s) (ss_streams s ! i) i"
  by (simp add: slot_inv_def)

lemma upd_nth: "xs[i := y] ! j = (if j = i \<and> i < length xs then y else xs ! j)"
  by (cases "i < length xs") (auto simp: nth_list_update list_update_beyond)

definition same_slot :: "stream \<Rightarrow> stream \<Rightarrow> bool" where
  "same_slot x y \<longleftrightarrow> sh_addr x = sh_addr y \<and> sh_phase x = sh_phase y \<and> sh_cancelled x = sh_cancelled y"

lemma slot_inv_cong:
  assumes "slot_inv s" "ss_slots t = ss_slots s" "list_all2 same_slot (ss_streams t) (ss_streams s)"
  shows "slot_inv t"
proof (rule slot_invI)
  have len: "length (ss_streams t) = length (ss_streams s)" using assms(3) by (rule list_all2_lengthD)
  have same: "same_slot (ss_streams t ! i) (ss_streams s ! i)" if "i < length (ss_streams s)" for i
    using list_all2_nthD2 [OF assms(3) that] .
  show "i < length (ss_streams t) \<and> sh_addr (ss_streams t ! i) = a" if "ss_slots t a = Some i" for a i
    using slot_inv_addr [OF assms(1), of a i] that same [of i] assms(2) len by (simp add: same_slot_def)
  show "slot_ok (ss_slots t) (ss_streams t ! i) i" if "i < length (ss_streams t)" for i
    using slot_inv_ok [OF assms(1), of i] that same [of i] assms(2) len by (simp add: same_slot_def slot_ok_def)
qed

lemma same_slot_refl [simp]: "same_slot x x"
  by (simp add: same_slot_def)

lemma same_slots_refl [simp]: "list_all2 same_slot xs xs"
  by (simp add: list_all2_refl)

lemma same_slots_upd: "same_slot y (xs ! i) \<Longrightarrow> list_all2 same_slot (xs[i := y]) xs"
  by (auto simp: list_all2_conv_all_nth upd_nth)

lemma getSendQueue_frame:
  "getSendQueue a c s = (r, t) \<Longrightarrow> ss_slots t = ss_slots s \<and> ss_streams t = ss_streams s \<and> ss_sends t = ss_sends s \<and>
     ss_panicked t = ss_panicked s"
  by (auto simp: getSendQueue_def split: option.splits if_splits)

lemma openStream_cases:
  obtains "snd (openStream allowed h s) = s"
  | a q t where "h = AddrHeader a" "allowed a" "getSendQueue a True s = (Some q, t)"
      "snd (openStream allowed h s) = t\<lparr>ss_streams := ss_streams t @ [\<lparr>sh_addr = a, sh_queue = q, sh_phase = Opening,
        sh_cancelled = False, sh_sent = []\<rparr>]\<rparr>"
proof (cases "\<exists>a. h = AddrHeader a \<and> allowed a")
  case True
  then obtain a where a: "h = AddrHeader a" "allowed a" by blast
  obtain q t where q: "getSendQueue a True s = (Some q, t)"
    by (cases "ss_peers s a") (auto simp: getSendQueue_def)
  show ?thesis by (rule that(2) [OF a q]) (simp add: openStream_def a q)
next
  case False
  then show ?thesis using that(1) by (cases h) (auto simp: openStream_def)
qed

lemma openStream_slots:
  assumes "slot_inv s"
  shows "slot_inv (snd (openStream allowed h s))"
proof (cases rule: openStream_cases [of allowed h s])
  case 1
  then show ?thesis using assms by simp
next
  case (2 a q t)
  note f = getSendQueue_frame [OF 2(3)]
  have no: "ss_slots s b \<noteq> Some (length (ss_streams s))" for b
    using slot_inv_addr [OF assms] by blast
  show ?thesis
    unfolding 2(4)
  proof (rule slot_invI, goal_cases)
    case (1 b i)
    then show ?case using slot_inv_addr [OF assms, of b i] f by (simp add: nth_append)
  next
    case (2 i)
    then show ?case
      using slot_inv_ok [OF assms, of i] f no [of a] by (auto simp: nth_append slot_ok_def less_Suc_eq)
  qed
qed

lemma registerStream_slots:
  assumes "slot_inv s" "in_phase s i Opening"
  shows "slot_inv (registerStream i s)"
proof (rule slot_invI, goal_cases)
  case (1 b j)
  then show ?case
    using slot_inv_addr [OF assms(1), of b j] assms(2)
    by (auto simp: registerStream_def cancelStream_def Let_def upd_nth split: if_splits option.splits)
next
  case (2 j)
  let ?a = "sh_addr (ss_streams s ! i)"
  have j: "j < length (ss_streams s)"
    using 2 by (auto simp: registerStream_def cancelStream_def Let_def split: option.splits)
  have i: "\<not> live (ss_streams s ! i)" "\<not> sh_cancelled (ss_streams s ! i)"
    using slot_inv_ok [OF assms(1), of i] assms(2) by (auto simp: slot_ok_def)
  have ok: "slot_ok (ss_slots s) (ss_streams s ! j) j" using slot_inv_ok [OF assms(1) j] .
  show ?case
  proof (cases "ss_slots s ?a")
    case None
    then show ?thesis
      using ok i j assms(2) by (auto simp: registerStream_def cancelStream_def Let_def upd_nth slot_ok_def)
  next
    case (Some k)
    then have k: "k \<noteq> i" "k < length (ss_streams s)" "sh_addr (ss_streams s ! k) = ?a" "live (ss_streams s ! k)"
      using slot_inv_addr [OF assms(1) Some] slot_inv_ok [OF assms(1), of k] slot_inv_ok [OF assms(1), of i] i
      by (auto simp: slot_ok_def)
    then show ?thesis
      using ok i j assms(2) Some by (auto simp: registerStream_def cancelStream_def Let_def upd_nth slot_ok_def)
  qed
qed

lemma leaveStream_slots:
  assumes "slot_inv s" "in_phase s i Running"
  shows "slot_inv (leaveStream i s)"
proof (rule slot_invI, goal_cases)
  case (1 b j)
  then show ?case
    using slot_inv_addr [OF assms(1), of b j] by (auto simp: leaveStream_def Let_def upd_nth split: if_splits)
next
  case (2 j)
  then have "slot_ok (ss_slots s) (ss_streams s ! j) j" using slot_inv_ok [OF assms(1)] by (simp add: leaveStream_def Let_def)
  then show ?case using assms(2) by (auto simp: leaveStream_def Let_def upd_nth slot_ok_def)
qed

lemma dropPeer_frame [simp]:
  "ss_slots (dropPeer a s) = ss_slots s" "ss_streams (dropPeer a s) = ss_streams s" "ss_sends (dropPeer a s) = ss_sends s"
  by (auto simp: dropPeer_def split: option.splits)

lemma dropStream_slots:
  assumes "slot_inv s" "in_phase s i Leaving"
  shows "slot_inv (dropStream i s)"
proof (rule slot_invI, goal_cases)
  case (1 b j)
  then show ?case
    using slot_inv_addr [OF assms(1), of b j] by (auto simp: dropStream_def Let_def upd_nth)
next
  case (2 j)
  then have "slot_ok (ss_slots s) (ss_streams s ! j) j" using slot_inv_ok [OF assms(1)] by (simp add: dropStream_def Let_def)
  then show ?case using assms(2) by (auto simp: dropStream_def Let_def upd_nth slot_ok_def)
qed

lemma streamSend_slots: "slot_inv s \<Longrightarrow> slot_inv (streamSend i s)"
  by (rule slot_inv_cong [of s])
    (auto simp: streamSend_def Let_def same_slot_def split: list.splits intro!: same_slots_upd)

lemma sendLookup_slots: "slot_inv s \<Longrightarrow> slot_inv (sendLookup a bufs s)"
  by (rule slot_inv_cong [of s]) (auto simp: sendLookup_def split: prod.splits option.splits dest: getSendQueue_frame)

lemma pushTo_slots: "slot_inv s \<Longrightarrow> slot_inv (pushTo q b (s\<lparr>ss_sends := rest\<rparr>))"
  by (rule slot_inv_cong [of s]) (auto simp: pushTo_def)

lemma stream_step_slots: "stream_step allowed s t \<Longrightarrow> slot_inv s \<Longrightarrow> slot_inv t"
  by (induction rule: stream_step.induct)
    (blast intro: openStream_slots registerStream_slots streamSend_slots leaveStream_slots dropStream_slots
      sendLookup_slots pushTo_slots)+

section \<open>The queues\<close>

definition rings_ok :: "ring list \<Rightarrow> bool" where
  "rings_ok qs \<longleftrightarrow> (\<forall>r\<in>set qs. length (rg_items r) \<le> ring_cap)"

lemma ringPush_bound: "length q \<le> cap \<Longrightarrow> length (ringPush cap v q) \<le> cap"
  by (auto simp: ringPush_def Let_def)

text \<open>A queue nobody reads holds the newest packets, oldest first.\<close>

lemma ringPush_newest:
  assumes "0 < cap"
  shows "fold (ringPush cap) vs [] = drop (length vs - cap) vs"
proof (induction vs rule: rev_induct)
  case (snoc v vs)
  then show ?case
    using assms by (auto simp: ringPush_def Let_def tl_drop drop_Suc [symmetric] Suc_diff_le)
qed simp

lemma rings_upd:
  assumes "rings_ok qs" "q < length qs \<Longrightarrow> length (rg_items r) \<le> ring_cap"
  shows "rings_ok (qs[q := r])"
  using assms set_update_subset_insert [of qs q r] by (cases "q < length qs") (auto simp: rings_ok_def list_update_beyond)

lemma rings_nth: "rings_ok qs \<Longrightarrow> q < length qs \<Longrightarrow> length (rg_items (qs ! q)) \<le> ring_cap"
  by (simp add: rings_ok_def)

lemma getSendQueue_rings: "getSendQueue a c s = (r, t) \<Longrightarrow> rings_ok (ss_queues s) \<Longrightarrow> rings_ok (ss_queues t)"
  by (auto simp: getSendQueue_def rings_ok_def split: option.splits if_splits)

lemma dropPeer_rings: "rings_ok (ss_queues s) \<Longrightarrow> rings_ok (ss_queues (dropPeer a s))"
  by (auto simp: dropPeer_def rings_nth split: option.splits intro!: rings_upd)

lemma streamSend_rings:
  assumes "rings_ok (ss_queues s)"
  shows "rings_ok (ss_queues (streamSend i s))"
proof (cases "rg_items (ss_queues s ! sh_queue (ss_streams s ! i))")
  case Nil
  then show ?thesis using assms by (simp add: streamSend_def Let_def)
next
  case (Cons p ps)
  have "length ps \<le> ring_cap" if "sh_queue (ss_streams s ! i) < length (ss_queues s)"
    using rings_nth [OF assms that] Cons by simp
  then show ?thesis using assms Cons by (auto simp: streamSend_def Let_def intro!: rings_upd)
qed

lemma pushTo_rings: "rings_ok (ss_queues s) \<Longrightarrow> rings_ok (ss_queues (pushTo q b s))"
  by (auto simp: pushTo_def rings_nth ringPush_bound intro!: rings_upd)

lemma stream_step_rings: "stream_step allowed s t \<Longrightarrow> rings_ok (ss_queues s) \<Longrightarrow> rings_ok (ss_queues t)"
proof (induction rule: stream_step.induct)
  case (sm_open s h)
  then show ?case
    by (cases rule: openStream_cases [of allowed h s]) (auto dest: getSendQueue_rings)
next
  case (sm_drop s i)
  then show ?case by (simp add: dropStream_def Let_def dropPeer_rings)
next
  case (sm_lookup s a bufs)
  then show ?case by (auto simp: sendLookup_def split: prod.splits option.splits dest: getSendQueue_rings)
next
  case (sm_push s q b rest)
  then show ?case by (simp add: pushTo_rings)
qed (simp_all add: registerStream_def leaveStream_def streamSend_rings Let_def)

definition streams_inv :: "streams \<Rightarrow> bool" where
  "streams_inv s \<longleftrightarrow> slot_inv s \<and> rings_ok (ss_queues s)"

interpretation link_streams: invariant_system "\<lambda>s. s = no_streams" "stream_step allowed" streams_inv
proof unfold_locales
  show "s = no_streams \<Longrightarrow> streams_inv s" for s by (simp add: streams_inv_def no_streams_def slot_inv_def rings_ok_def)
  show "streams_inv s \<Longrightarrow> stream_step allowed s t \<Longrightarrow> streams_inv t" for s t
    unfolding streams_inv_def using stream_step_slots stream_step_rings by blast
qed

section \<open>One live stream per node\<close>

abbreviation streams_reach :: "(addrport \<Rightarrow> bool) \<Rightarrow> streams \<Rightarrow> bool" where
  "streams_reach allowed \<equiv> reach (\<lambda>s. s = no_streams) (stream_step allowed)"

lemma streams_reach_inv: "streams_reach allowed s \<Longrightarrow> slot_inv s \<and> rings_ok (ss_queues s)"
  using link_streams.reach_inv [of allowed s] by (simp add: streams_inv_def)

text \<open>
  in every interleaving an address has at most one live stream, the last one registered; the
  addresses reported as active are exactly those of live streams; no send queue exceeds 128 packets;
  and a stream that has been replaced leaves without touching the slot or the queue of its successor.
\<close>

theorem stream_slots:
  assumes "streams_reach allowed s"
  shows "(\<forall>i < length (ss_streams s). \<forall>j < length (ss_streams s). live (ss_streams s ! i) \<longrightarrow> live (ss_streams s ! j) \<longrightarrow>
      sh_addr (ss_streams s ! i) = sh_addr (ss_streams s ! j) \<longrightarrow> i = j) \<and>
    set (activeStreams s) = {sh_addr x | x. x \<in> set (ss_streams s) \<and> live x} \<and>
    (\<forall>q\<in>set (ss_queues s). length (rg_items q) \<le> 128) \<and>
    (\<forall>i. in_phase s i Running \<longrightarrow> sh_cancelled (ss_streams s ! i) \<longrightarrow>
       in_phase (leaveStream i s) i Gone \<and> ss_slots (leaveStream i s) = ss_slots s \<and>
       ss_peers (leaveStream i s) = ss_peers s \<and> ss_queues (leaveStream i s) = ss_queues s)"
proof (intro conjI allI impI)
  have inv: "slot_inv s" and rings: "rings_ok (ss_queues s)" using streams_reach_inv [OF assms] by auto
  have ok: "slot_ok (ss_slots s) (ss_streams s ! i) i" if "i < length (ss_streams s)" for i
    using slot_inv_ok [OF inv that] .
  show "i = j" if "i < length (ss_streams s)" "j < length (ss_streams s)" "live (ss_streams s ! i)" "live (ss_streams s ! j)"
      "sh_addr (ss_streams s ! i) = sh_addr (ss_streams s ! j)" for i j
    using ok [OF that(1)] ok [OF that(2)] that(3-5) by (simp add: slot_ok_def)
  show "set (activeStreams s) = {sh_addr x | x. x \<in> set (ss_streams s) \<and> live x}"
    using ok by (fastforce simp: activeStreams_def slot_ok_def in_set_conv_nth)
  show "\<forall>q\<in>set (ss_queues s). length (rg_items q) \<le> 128" using rings by (simp add: rings_ok_def)
  fix i assume "in_phase s i Running" "sh_cancelled (ss_streams s ! i)"
  then have "ss_slots s (sh_addr (ss_streams s ! i)) \<noteq> Some i" "i < length (ss_streams s)"
    using ok [of i] by (auto simp: slot_ok_def)
  then show "ss_slots (leaveStream i s) = ss_slots s" "ss_peers (leaveStream i s) = ss_peers s"
      "ss_queues (leaveStream i s) = ss_queues s" "sh_phase (ss_streams (leaveStream i s) ! i) = Gone"
      "i < length (ss_streams (leaveStream i s))"
    by (simp_all add: leaveStream_def Let_def)
qed

abbreviation one_stream :: "(addrport \<Rightarrow> bool) \<Rightarrow> addrport \<Rightarrow> streams" where
  "one_stream allowed a \<equiv> registerStream 0 (snd (openStream allowed (AddrHeader a) no_streams))"

lemmas stream_ops = openStream_def getSendQueue_def registerStream_def cancelStream_def leaveStream_def
  dropStream_def dropPeer_def sendLookup_def pushTo_def streamSend_def no_streams_def Let_def

lemma no_streams_reach: "streams_reach allowed no_streams"
  by (rule reach_init) simp

lemma one_stream_reach: "allowed a \<Longrightarrow> streams_reach allowed (one_stream allowed a)"
  by (rule reach_step [OF reach_step [OF no_streams_reach sm_open] sm_register]) (simp add: stream_ops)

lemma takeover_state:
  assumes "allowed a"
  defines "s \<equiv> dropStream 0 (registerStream 1 (snd (openStream allowed (AddrHeader a) (leaveStream 0 (one_stream allowed a)))))"
  shows "streams_reach allowed s"
  unfolding s_def
  by (rule reach_step [OF reach_step [OF reach_step [OF reach_step [OF one_stream_reach sm_leave] sm_open] sm_register] sm_drop])
    (use assms in \<open>simp_all add: stream_ops\<close>)

text \<open>
  what the cut between the two halves of leaving allows. A node that reconnects while its old
  stream is between giving up the slot and dropping the queue gets the queue that is then closed: it
  stays registered as the live stream of its address, reads empty packets for ever, and what the
  device sends to it is thrown away. And a packet for a node whose stream is being dropped is pushed
  to a closed channel, which ends the whole process.
\<close>

theorem stream_races:
  assumes "allowed a"
  shows "(\<exists>s. streams_reach allowed s \<and> activeStreams s = [a] \<and> ss_peers s a = None \<and>
      live (ss_streams s ! 1) \<and> ss_slots s a = Some 1 \<and>
      (\<forall>bufs. sendLookup a bufs s = s) \<and> sh_sent (ss_streams (streamSend 1 s) ! 1) = [[]]) \<and>
    (\<exists>s. streams_reach allowed s \<and> ss_panicked s)"
proof (intro conjI)
  let ?s = "dropStream 0 (registerStream 1 (snd (openStream allowed (AddrHeader a) (leaveStream 0 (one_stream allowed a)))))"
  show "\<exists>s. streams_reach allowed s \<and> activeStreams s = [a] \<and> ss_peers s a = None \<and>
      live (ss_streams s ! 1) \<and> ss_slots s a = Some 1 \<and>
      (\<forall>bufs. sendLookup a bufs s = s) \<and> sh_sent (ss_streams (streamSend 1 s) ! 1) = [[]]"
    using takeover_state [of allowed a] assms
    by (intro exI [of _ ?s] conjI allI) (simp_all add: stream_ops activeStreams_def upt_rec)
  let ?t = "dropStream 0 (leaveStream 0 (sendLookup a [[]] (one_stream allowed a)))"
  have "streams_reach allowed ?t"
    by (rule reach_step [OF reach_step [OF reach_step [OF one_stream_reach sm_lookup] sm_leave] sm_drop])
      (use assms in \<open>simp_all add: stream_ops\<close>)
  then have "streams_reach allowed (pushTo 0 [] (?t\<lparr>ss_sends := []\<rparr>))"
    by (rule reach_step, intro sm_push) (use assms in \<open>simp add: stream_ops\<close>)
  moreover have "ss_panicked (pushTo 0 [] (?t\<lparr>ss_sends := []\<rparr>))"
    using assms by (simp add: stream_ops)
  ultimately show "\<exists>s. streams_reach allowed s \<and> ss_panicked s" by blast
qed

theorem stream_slots_witness:
  "live (ss_streams (one_stream (\<lambda>_. True) (V6 [], 1)) ! 0) \<and>
   set (activeStreams (one_stream (\<lambda>_. True) (V6 [], 1))) =
     {sh_addr x | x. x \<in> set (ss_streams (one_stream (\<lambda>_. True) (V6 [], 1))) \<and> live x}"
  using stream_slots [of "\<lambda>_. True", OF one_stream_reach [of "\<lambda>_. True" "(V6 [], 1)"]] by (simp add: stream_ops)

theorem stream_races_witness: "\<exists>s. streams_reach (\<lambda>a. a = (V6 [], 1)) s \<and> ss_panicked s"
  using stream_races [of "\<lambda>a. a = (V6 [], 1)" "(V6 [], 1)"] by simp

end
