(* ===== verification/Discovery.thy ===== *)
theory Discovery
  imports Net
begin

text \<open>
  Discovery of bare-metal nodes, \<^verbatim>\<open>internal/provider/metal/discovery.go\<close>: the hosts of a network range and the
  scan. An address is its bytes; the TCP probe is a parameter, and the concurrent probes are one
  filter, so the order of the result is that of the addresses.
\<close>

text \<open>\<^verbatim>\<open>net.IPNet\<close>: the masked address, four or sixteen bytes, and the number of ones in its mask.\<close>

record ipnet =
  net_IP :: "8 word list"
  net_ones :: nat

abbreviation net_bits :: "ipnet \<Rightarrow> nat" where "net_bits n \<equiv> 8 * length (net_IP n)"

definition net_contains :: "ipnet \<Rightarrow> 8 word list \<Rightarrow> bool" where
  "net_contains n a \<longleftrightarrow> length a = length (net_IP n) \<and> mask_bytes (net_ones n) a = net_IP n"

text \<open>The loop over the hosts; a loop that does not end is \<open>None\<close>.\<close>

partial_function (option) walkHosts :: "ipnet \<Rightarrow> 8 word list \<Rightarrow> 8 word list list option" where
  "walkHosts n cur =
     (if net_contains n cur
      then Option.bind (walkHosts n (incrementIP cur)) (\<lambda>rest. Some (cur # rest))
      else Some [])"

datatype scan_err = ErrCIDR | ErrMask | ErrTooLarge

definition expandCIDR :: "ipnet \<Rightarrow> (scan_err + 8 word list list) option" where
  "expandCIDR n =
     (let ones = net_ones n; bits = net_bits n; hostBits = bits - ones in
      if bits = 0 then Some (Inl ErrMask)
      else if 16 \<le> hostBits then Some (Inl ErrTooLarge)
      else if ones = bits then Some (Inr [net_IP n])
      else
        Option.bind (walkHosts n (incrementIP (net_IP n)))
          (\<lambda>out. Some (Inr (if bits = 32 \<and> out \<noteq> [] then butlast out else out))))"

record scan_config =
  sc_port :: int
  sc_timeout :: gotime
  sc_concurrency :: int

definition scanDefaults :: "scan_config \<Rightarrow> scan_config" where
  "scanDefaults c = \<lparr>sc_port = (if sc_port c = 0 then 50000 else sc_port c),
     sc_timeout = (if sc_timeout c = 0 then 800000000 else sc_timeout c),
     sc_concurrency = (if sc_concurrency c = 0 then 64 else sc_concurrency c)\<rparr>"

definition probeAddresses :: "(8 word list \<Rightarrow> int \<Rightarrow> gotime \<Rightarrow> bool) \<Rightarrow> 8 word list list \<Rightarrow> scan_config \<Rightarrow> (8 word list \<times> int) list" where
  "probeAddresses probe addrs c = map (\<lambda>a. (a, sc_port c)) (filter (\<lambda>a. probe a (sc_port c) (sc_timeout c)) addrs)"

definition Scan ::
  "(8 word list \<Rightarrow> int \<Rightarrow> gotime \<Rightarrow> bool) \<Rightarrow> ipnet option \<Rightarrow> scan_config \<Rightarrow> (scan_err + (8 word list \<times> int) list) option" where
  "Scan probe cidr c =
     (case cidr of
        None \<Rightarrow> Some (Inl ErrCIDR)
      | Some n \<Rightarrow>
          Option.bind (expandCIDR n)
            (\<lambda>r. Some (case r of Inl e \<Rightarrow> Inl e | Inr ips \<Rightarrow> Inr (probeAddresses probe ips (scanDefaults c)))))"

section \<open>The hosts of a range\<close>

text \<open>What \<^verbatim>\<open>net.ParseCIDR\<close> returns: a masked address and a mask no longer than it.\<close>

definition net_ok :: "ipnet \<Rightarrow> bool" where
  "net_ok n \<longleftrightarrow> length (net_IP n) \<in> {4, 16} \<and> net_ones n \<le> net_bits n \<and>
     mask_bytes (net_ones n) (net_IP n) = net_IP n"

abbreviation host_bits :: "ipnet \<Rightarrow> nat" where "host_bits n \<equiv> net_bits n - net_ones n"

lemma contains_iff:
  assumes "net_ok n" "length a = length (net_IP n)"
  shows "net_contains n a \<longleftrightarrow> num a div 2 ^ host_bits n = num (net_IP n) div 2 ^ host_bits n"
proof -
  have b: "net_ones n \<le> 8 * length a" using assms by (simp add: net_ok_def)
  have "net_contains n a \<longleftrightarrow> num (mask_bytes (net_ones n) a) = num (mask_bytes (net_ones n) (net_IP n))"
    using assms num_inj [of "mask_bytes (net_ones n) a" "mask_bytes (net_ones n) (net_IP n)"]
    by (auto simp: net_contains_def net_ok_def)
  then show ?thesis
    using assms b num_mask [OF b] num_mask [of "net_ones n" "net_IP n"] by (auto simp: net_ok_def)
qed

lemma net_base: "net_ok n \<Longrightarrow> num (net_IP n) = num (net_IP n) div 2 ^ host_bits n * 2 ^ host_bits n"
  using num_mask [of "net_ones n" "net_IP n"] by (simp add: net_ok_def)

lemma butlast_upt: "butlast [a ..< b] = [a ..< b - 1]"
  by (cases b) auto

lemma block_div:
  assumes "net_ok n" "k < 2 ^ host_bits n"
  shows "(num (net_IP n) + k) div 2 ^ host_bits n = num (net_IP n) div 2 ^ host_bits n"
proof -
  have "(num (net_IP n) div 2 ^ host_bits n * 2 ^ host_bits n + k) div 2 ^ host_bits n = num (net_IP n) div 2 ^ host_bits n"
    using assms(2) by simp
  then show ?thesis using net_base [OF assms(1)] by simp
qed

text \<open>The block of the range ends inside the address space, or at its end where the successor wraps to 0.\<close>

lemma block_end:
  assumes "net_ok n" "host_bits n < 16"
  shows "num (net_IP n) + 2 ^ host_bits n \<le> 256 ^ length (net_IP n)" "(2 :: nat) ^ host_bits n < 256 ^ length (net_IP n)"
proof -
  let ?h = "host_bits n" and ?L = "length (net_IP n)"
  have P: "(256 :: nat) ^ ?L = 2 ^ (8 * ?L)" by (simp add: power_mult)
  have "2 ^ ?h dvd (256 :: nat) ^ ?L" unfolding P by (intro le_imp_power_dvd) simp
  then obtain q where q: "(256 :: nat) ^ ?L = q * 2 ^ ?h" by (auto simp: dvd_def mult.commute)
  have "num (net_IP n) div 2 ^ ?h < q"
    using num_bound [of "net_IP n"] unfolding q by (simp add: less_mult_imp_div_less)
  then have "(num (net_IP n) div 2 ^ ?h + 1) * 2 ^ ?h \<le> q * 2 ^ ?h" by (intro mult_right_mono) simp_all
  then show "num (net_IP n) + 2 ^ ?h \<le> 256 ^ ?L"
    using net_base [OF assms(1)] unfolding q by (simp add: algebra_simps)
  have "?h < 8 * ?L" using assms by (auto simp: net_ok_def)
  then show "(2 :: nat) ^ ?h < 256 ^ ?L" unfolding P by (intro power_strict_increasing) simp_all
qed

lemma walkHosts_exact:
  assumes "net_ok n" "host_bits n < 16" "length cur = length (net_IP n)"
    "num cur = num (net_IP n) + k" "k < 2 ^ host_bits n"
  shows "\<exists>out. walkHosts n cur = Some out \<and> map num out = [num cur ..< num (net_IP n) + 2 ^ host_bits n] \<and>
    (\<forall>a\<in>set out. length a = length (net_IP n))"
  using assms(3-5)
proof (induction "2 ^ host_bits n - k" arbitrary: k cur rule: less_induct)
  case less
  let ?h = "host_bits n" and ?N = "num (net_IP n)" and ?L = "length (net_IP n)"
  have "num cur div 2 ^ ?h = ?N div 2 ^ ?h"
    using block_div [OF assms(1) less.prems(3)] less.prems(2) by simp
  then have c: "net_contains n cur" using contains_iff [OF assms(1) less.prems(1)] by simp
  show ?case
  proof (cases "Suc k = 2 ^ ?h")
    case False
    then have k: "Suc k < 2 ^ ?h" using less.prems(3) by simp
    have "num (incrementIP cur) = ?N + Suc k"
      using num_increment [of cur] block_end [OF assms(1,2)] less.prems(1,2) k by simp
    have lt: "2 ^ ?h - Suc k < 2 ^ ?h - k" using k by linarith
    from less.hyps [OF lt _ \<open>num (incrementIP cur) = ?N + Suc k\<close> k] obtain out where out: "walkHosts n (incrementIP cur) = Some out"
        "map num out = [?N + Suc k ..< ?N + 2 ^ ?h]" "\<forall>a\<in>set out. length a = ?L"
      using less.prems(1,3) k \<open>num (incrementIP cur) = ?N + Suc k\<close> by auto
    then show ?thesis
      using c less.prems by (auto simp: walkHosts.simps [of n cur] upt_conv_Cons)
  next
    case True
    have "\<not> net_contains n (incrementIP cur)"
    proof -
      have "num (incrementIP cur) div 2 ^ ?h \<noteq> ?N div 2 ^ ?h"
      proof (cases "num cur + 1 = 256 ^ ?L")
        case True
        then have "num (incrementIP cur) = 0" using num_increment [of cur] less.prems(1) by simp
        moreover have "2 ^ ?h \<le> ?N"
          using True less.prems(2) \<open>Suc k = 2 ^ ?h\<close> block_end(2) [OF assms(1,2)] net_base [OF assms(1)]
          by (cases "?N div 2 ^ ?h") auto
        ultimately show ?thesis by (simp add: div_greater_zero_iff)
      next
        case False
        then have "num (incrementIP cur) = ?N + 2 ^ ?h"
          using num_increment [of cur] less.prems(1,2) \<open>Suc k = 2 ^ ?h\<close> by simp
        then show ?thesis by (simp add: div_add_self2)
      qed
      then show ?thesis using contains_iff [OF assms(1)] less.prems(1) by simp
    qed
    then have "walkHosts n cur = Some [cur]"
      using c by (simp add: walkHosts.simps [of n cur] walkHosts.simps [of n "incrementIP cur"])
    then show ?thesis using less.prems True by (simp add: upt_conv_Cons)
  qed
qed


definition ex_net :: ipnet where
  "ex_net = \<lparr>net_IP = [0, 0, 0, 4], net_ones = 30\<rparr>"


end
