(* ===== verification/Providers.thy ===== *)
theory Providers
  imports Applier
begin

text \<open>
  The provider renderers, \<^verbatim>\<open>internal/provider\<close>: the builder of OpenTofu documents (\<^verbatim>\<open>tfconfig.go\<close>), the
  registry (\<^verbatim>\<open>provider.go\<close>) and the three modules that turn node groups into resources (\<^verbatim>\<open>oci\<close>, \<^verbatim>\<open>openstack\<close>,
  \<^verbatim>\<open>metal\<close>). A document is its JSON value, whose objects are association lists: the order of keys, which the
  encoder sorts, is not modelled. Node group names are ASCII.
\<close>

section \<open>The document builder\<close>

type_synonym obj = "(string \<times> json) list"

text \<open>\<^verbatim>\<open>TFConfig\<close>: the required providers (\<open>None\<close> until the first are added) and the three kinds of blocks.\<close>

record tf_config =
  tc_required :: "obj option"
  tc_providers :: obj
  tc_resources :: "(string \<times> obj) list"
  tc_dataSrcs :: "(string \<times> obj) list"

definition NewTFConfig :: tf_config where
  "NewTFConfig = \<lparr>tc_required = None, tc_providers = [], tc_resources = [], tc_dataSrcs = []\<rparr>"

record req_provider =
  rp_name :: string
  rp_source :: string
  rp_version :: string

definition AddRequiredProviders :: "req_provider list \<Rightarrow> tf_config \<Rightarrow> tf_config" where
  "AddRequiredProviders ps c =
     c\<lparr>tc_required := Some (fold
         (\<lambda>p rps. AList.update (rp_name p) (jobj [(''source'', eStr (rp_source p)), (''version'', oStr (rp_version p))]) rps)
         ps (case tc_required c of None \<Rightarrow> [] | Some r \<Rightarrow> r))\<rparr>"

definition AddProvider :: "string \<Rightarrow> obj \<Rightarrow> tf_config \<Rightarrow> tf_config" where
  "AddProvider n body c = c\<lparr>tc_providers := AList.update n (JObj body) (tc_providers c)\<rparr>"

definition blocks_of :: "(string \<times> obj) list \<Rightarrow> string \<Rightarrow> obj" where
  "blocks_of m typ = (case map_of m typ of None \<Rightarrow> [] | Some x \<Rightarrow> x)"

definition addBlock :: "string \<Rightarrow> string \<Rightarrow> obj \<Rightarrow> (string \<times> obj) list \<Rightarrow> (string \<times> obj) list" where
  "addBlock typ n body m = AList.update typ (AList.update n (JObj body) (blocks_of m typ)) m"

definition AddResource :: "string \<Rightarrow> string \<Rightarrow> obj \<Rightarrow> tf_config \<Rightarrow> tf_config" where
  "AddResource typ n body c = c\<lparr>tc_resources := addBlock typ n body (tc_resources c)\<rparr>"

definition AddDataSource :: "string \<Rightarrow> string \<Rightarrow> obj \<Rightarrow> tf_config \<Rightarrow> tf_config" where
  "AddDataSource typ n body c = c\<lparr>tc_dataSrcs := addBlock typ n body (tc_dataSrcs c)\<rparr>"

definition tf_MarshalJSON :: "tf_config \<Rightarrow> json" where
  "tf_MarshalJSON c = jobj [
     (''terraform'', map_option (\<lambda>r. JObj [(''required_providers'', JObj r)]) (tc_required c)),
     (''provider'', if tc_providers c = [] then None else Some (JObj (tc_providers c))),
     (''resource'', if tc_resources c = [] then None else Some (JObj (map (map_prod id JObj) (tc_resources c)))),
     (''data'', if tc_dataSrcs c = [] then None else Some (JObj (map (map_prod id JObj) (tc_dataSrcs c))))]"

section \<open>Shared helpers\<close>

definition alnum :: "char \<Rightarrow> bool" where
  "alnum c = (let n = (of_char c :: nat) in 48 \<le> n \<and> n \<le> 57 \<or> 65 \<le> n \<and> n \<le> 90 \<or> 97 \<le> n \<and> n \<le> 122)"

definition sanitize :: "string \<Rightarrow> string" where
  "sanitize s = (if s = [] then ''x'' else map (\<lambda>c. if alnum c then c else CHR ''_'') s)"

definition rolePrefix :: "string \<Rightarrow> string" where
  "rolePrefix role = (if role = ''controlplane'' then ''c'' else ''w'')"

definition fromClassPrefix :: "string \<Rightarrow> string \<Rightarrow> string" where
  "fromClassPrefix cls p = (if length p < length cls \<and> take (length p) cls = p then drop (length p) cls else [])"

text \<open>Unmarshalling over a preset field: a missing key or null keeps the preset.\<close>

definition fStr :: "string \<Rightarrow> string \<Rightarrow> json \<Rightarrow> string" where
  "fStr k d j = (case jget k j of Some (JStr s) \<Rightarrow> s | _ \<Rightarrow> d)"

definition fInt :: "string \<Rightarrow> int \<Rightarrow> json \<Rightarrow> int" where
  "fInt k d j = (case jget k j of Some (JNum i) \<Rightarrow> i | _ \<Rightarrow> d)"

definition fBoolPtr :: "string \<Rightarrow> json \<Rightarrow> bool option" where
  "fBoolPtr k j = (case jget k j of Some (JBool b) \<Rightarrow> Some b | _ \<Rightarrow> None)"

definition fieldsOk :: "(json \<Rightarrow> bool) \<Rightarrow> string list \<Rightarrow> json \<Rightarrow> bool" where
  "fieldsOk p ks j = list_all (\<lambda>k. fieldOk p k j) ks"

definition jstrs :: "string list \<Rightarrow> json" where
  "jstrs xs = JArr (map JStr xs)"

definition forEachPet :: "string \<Rightarrow> string" where
  "forEachPet pet = ''${{ for idx, val in random_pet.'' @ pet @ '' : idx => val }}''"

text \<open>The \<^verbatim>\<open>random_pet\<close> of a cloud node group.\<close>

definition countedPets :: "string \<Rightarrow> int \<Rightarrow> tf_config \<Rightarrow> tf_config" where
  "countedPets pet n = AddResource ''random_pet'' pet
     [(''count'', JNum n), (''length'', JNum 2), (''separator'', JStr ''-''),
      (''keepers'', JObj [(''index'', JStr ''${count.index}'')])]"

text \<open>The loop over the node groups: the first error ends it.\<close>

fun renderGroups :: "(tf_config \<Rightarrow> node_group_spec \<Rightarrow> string + tf_config) \<Rightarrow> node_group_spec list \<Rightarrow> tf_config \<Rightarrow> string + tf_config" where
  "renderGroups f [] c = Inr c"
| "renderGroups f (ng # ngs) c = (case f c ng of Inl e \<Rightarrow> Inl e | Inr c \<Rightarrow> renderGroups f ngs c)"

section \<open>OCI\<close>

record oci_config =
  oc_region :: string
  oc_compartment :: string
  oc_shape :: string
  oc_subnet :: string
  oc_image :: string
  oc_nsg :: string
  oc_ocpus :: int
  oc_memory :: int
  oc_boot :: int
  oc_assign :: "bool option"
  oc_role :: string

definition oci_parse :: "node_group_spec \<Rightarrow> oci_config option" where
  "oci_parse ng =
     (let shape = fromClassPrefix (ng_providerClass ng) ''oci:'' in
      case ng_providerConfig ng of
        None \<Rightarrow> Some \<lparr>oc_region = [], oc_compartment = [], oc_shape = shape, oc_subnet = [], oc_image = [], oc_nsg = [],
                   oc_ocpus = 0, oc_memory = 0, oc_boot = 0, oc_assign = None, oc_role = ng_role ng\<rparr>
      | Some j \<Rightarrow>
          if orNull isObj j \<and>
             fieldsOk isStr [''region'', ''compartmentOcid'', ''shape'', ''subnetId'', ''imageOcid'', ''nsgId'', ''role''] j \<and>
             fieldsOk isNum [''ocpus'', ''memoryGb'', ''bootVolumeGb''] j \<and> fieldOk isBool ''assignPublicIp'' j
          then Some \<lparr>oc_region = fStr ''region'' [] j, oc_compartment = fStr ''compartmentOcid'' [] j,
                 oc_shape = fStr ''shape'' shape j, oc_subnet = fStr ''subnetId'' [] j, oc_image = fStr ''imageOcid'' [] j,
                 oc_nsg = fStr ''nsgId'' [] j, oc_ocpus = fInt ''ocpus'' 0 j, oc_memory = fInt ''memoryGb'' 0 j,
                 oc_boot = fInt ''bootVolumeGb'' 0 j, oc_assign = fBoolPtr ''assignPublicIp'' j,
                 oc_role = fStr ''role'' (ng_role ng) j\<rparr>
          else None)"

definition resourceName :: "string \<Rightarrow> string \<Rightarrow> string" where
  "resourceName ng suffix = sanitize ng @ ''_'' @ suffix"

definition isFlex :: "string \<Rightarrow> bool" where
  "isFlex shape = hasSuffix shape ''Flex''"

definition oci_instance :: "oci_config \<Rightarrow> string \<Rightarrow> string \<Rightarrow> obj" where
  "oci_instance cfg role pet =
     [(''for_each'', JStr (forEachPet pet)),
      (''availability_domain'', JStr ''${data.oci_identity_availability_domains.ads.availability_domains[each.key % length(data.oci_identity_availability_domains.ads.availability_domains)].name}''),
      (''compartment_id'', JStr (oc_compartment cfg)),
      (''shape'', JStr (oc_shape cfg)),
      (''create_vnic_details'', JArr [jobj [
         (''assign_public_ip'', Some (JBool (case oc_assign cfg of None \<Rightarrow> True | Some b \<Rightarrow> b))),
         (''subnet_id'', eStr (oc_subnet cfg)),
         (''nsg_ids'', if oc_nsg cfg \<noteq> [] then Some (jstrs [oc_nsg cfg]) else None)]]),
      (''source_details'', JArr [JObj [(''source_type'', JStr ''image''),
         (''source_id'', JStr (if oc_image cfg \<noteq> [] then oc_image cfg else ''${var.talos_image_ocid}'')),
         (''boot_volume_size_in_gbs'', JStr (itoa (if oc_boot cfg = 0 then 50 else oc_boot cfg)))]]),
      (''display_name'', JStr (''talos-oci-'' @ rolePrefix role @ ''-${random_pet.'' @ pet @ ''[each.value].id}'')),
      (''metadata'', JObj [(''user_data'', JStr ''${var.bootstrap_config}'')])] @
     (if isFlex (oc_shape cfg) \<and> 0 < oc_ocpus cfg
      then [(''shape_config'', JArr [JObj [(''ocpus'', JNum (oc_ocpus cfg)), (''memory_in_gbs'', JNum (oc_memory cfg))]])]
      else []) @
     [(''lifecycle'', JArr [JObj [(''create_before_destroy'', JBool True),
        (''ignore_changes'', jstrs [''metadata.user_data'', ''defined_tags''])]])]"

definition oci_renderNodeGroup :: "tf_config \<Rightarrow> node_group_spec \<Rightarrow> string + tf_config" where
  "oci_renderNodeGroup root ng =
     (case oci_parse ng of
        None \<Rightarrow> Inl ''invalid providerConfig JSON''
      | Some cfg \<Rightarrow>
          if oc_compartment cfg = [] then Inl ''compartmentOcid is required''
          else if oc_shape cfg = [] then Inl ''shape is required''
          else if oc_subnet cfg = [] then Inl ''subnetId is required''
          else
            let role = (if oc_role cfg = [] then ng_role ng else oc_role cfg);
                pet = resourceName (ng_name ng) ''pet'' in
            Inr (AddResource ''oci_core_instance'' (resourceName (ng_name ng) ''instance'') (oci_instance cfg role pet)
              (countedPets pet (ng_count ng) root)))"

definition oci_Render :: "render_request \<Rightarrow> string + json" where
  "oci_Render req =
     (if rr_tenant req = None then Inl ''missing tenant''
      else if rr_nodeGroups req = [] then Inl ''no node groups''
      else
        (case renderGroups oci_renderNodeGroup (rr_nodeGroups req)
                (AddDataSource ''oci_identity_availability_domains'' ''ads'' [(''compartment_id'', JStr ''${var.compartment_ocid}'')]
                  (AddProvider ''oci'' [(''region'', JStr ''${var.region}'')]
                    (AddRequiredProviders [\<lparr>rp_name = ''oci'', rp_source = ''oracle/oci'', rp_version = ''>= 6.0''\<rparr>,
                       \<lparr>rp_name = ''random'', rp_source = ''hashicorp/random'', rp_version = []\<rparr>] NewTFConfig))) of
           Inl e \<Rightarrow> Inl e
         | Inr c \<Rightarrow> Inr (tf_MarshalJSON c)))"

section \<open>OpenStack\<close>

record os_config =
  os_flavor :: string
  os_image :: string
  os_boot :: int
  os_data :: int
  os_bootType :: string
  os_dataType :: string
  os_extNet :: string
  os_fixedIPv4 :: string
  os_role :: string

definition orDefault :: "string \<Rightarrow> string \<Rightarrow> string" where
  "orDefault s d = (if s = [] then d else s)"

definition os_parse :: "node_group_spec \<Rightarrow> os_config option" where
  "os_parse ng =
     (let flavor = fromClassPrefix (ng_providerClass ng) ''openstack:'';
          j = (case ng_providerConfig ng of None \<Rightarrow> JNull | Some j \<Rightarrow> j) in
      if orNull isObj j \<and>
         fieldsOk isStr [''flavorName'', ''imageName'', ''talosVersion'', ''bootVolumeType'', ''dataVolumeType'', ''extNetName'',
           ''fixedIpV4'', ''role''] j \<and>
         fieldsOk isNum [''bootVolumeSizeGb'', ''dataVolumeSizeGb''] j
      then
        let ver = orDefault (fStr ''talosVersion'' [] j) (ng_talosVersion ng);
            img = fStr ''imageName'' [] j in
        Some \<lparr>os_flavor = fStr ''flavorName'' flavor j,
          os_image = (if img = [] \<and> ver \<noteq> [] then ''talos-'' @ ver @ ''-openstack-amd64'' else img),
          os_boot = fInt ''bootVolumeSizeGb'' 0 j, os_data = fInt ''dataVolumeSizeGb'' 0 j,
          os_bootType = orDefault (fStr ''bootVolumeType'' [] j) ''ssd-ephemeral'',
          os_dataType = orDefault (fStr ''dataVolumeType'' [] j) ''ssd'',
          os_extNet = orDefault (fStr ''extNetName'' [] j) ''ext-net'',
          os_fixedIPv4 = fStr ''fixedIpV4'' [] j, os_role = fStr ''role'' (ng_role ng) j\<rparr>
      else None)"

definition rolesPresent :: "node_group_spec list \<Rightarrow> string list" where
  "rolesPresent ngs = rev (fold (\<lambda>r rs. if r = [] \<or> r \<in> set rs then rs else r # rs) (map ng_role ngs) [])"

definition talosConfigDataSource :: "string \<Rightarrow> tf_config \<Rightarrow> tf_config" where
  "talosConfigDataSource role = AddDataSource ''talos_machine_configuration'' role
     [(''cluster_name'', JStr ''${var.cluster_name}''), (''cluster_endpoint'', JStr ''${var.cluster_endpoint}''),
      (''machine_type'', JStr role), (''machine_secrets'', JStr ''${talos_machine_secrets.this.machine_secrets}''),
      (''kubernetes_version'', JStr ''${var.kubernetes_version}''), (''talos_version'', JStr ''${var.talos_version}'')]"

definition secGroupRule :: "string \<Rightarrow> string \<times> string \<Rightarrow> tf_config \<Rightarrow> tf_config" where
  "secGroupRule sg r = AddResource ''openstack_networking_secgroup_rule_v2'' (sg @ ''_'' @ fst r @ ''_'' @ snd r)
     [(''direction'', JStr (fst r)), (''ethertype'', JStr (snd r)),
      (''remote_ip_prefix'', JStr (if snd r = ''IPv6'' then ''::/0'' else ''0.0.0.0/0'')),
      (''security_group_id'', JStr (''${openstack_networking_secgroup_v2.'' @ sg @ ''.id}''))]"

definition renderSecGroup :: "string \<Rightarrow> tf_config \<Rightarrow> tf_config" where
  "renderSecGroup sg c =
     fold (secGroupRule sg) [(''ingress'', ''IPv4''), (''ingress'', ''IPv6''), (''egress'', ''IPv4''), (''egress'', ''IPv6'')]
       (AddResource ''openstack_networking_secgroup_v2'' sg
          [(''name'', JStr sg),
           (''description'', JStr ''Permissive ingress for Talos (filtered by Talos Ingress Firewall on the host)''),
           (''delete_default_rules'', JBool True)] c)"

definition os_volRef :: "string \<Rightarrow> string" where
  "os_volRef v = ''${openstack_blockstorage_volume_v3.'' @ v @ ''[each.key].id}''"

definition os_blockDevice :: "string \<Rightarrow> int \<Rightarrow> json" where
  "os_blockDevice v i = JObj [(''uuid'', JStr (os_volRef v)), (''source_type'', JStr ''volume''), (''boot_index'', JNum i),
     (''destination_type'', JStr ''volume''), (''delete_on_termination'', JBool True)]"

definition os_userDataRef :: "string \<Rightarrow> string" where
  "os_userDataRef role = ''${base64encode(data.talos_machine_configuration.'' @
     (if role = ''controlplane'' then ''controlplane'' else ''worker'') @ ''.machine_configuration)}''"

definition os_name :: "string \<Rightarrow> string \<Rightarrow> string" where
  "os_name role pet = ''talos-os-'' @ rolePrefix role @ ''-${random_pet.'' @ pet @ ''[each.key].id}''"

definition os_volumes :: "os_config \<Rightarrow> string \<Rightarrow> node_group_spec \<Rightarrow> tf_config \<Rightarrow> tf_config" where
  "os_volumes cfg role ng c =
     (let base = sanitize (ng_name ng); pet = base @ ''_pet'';
          c = AddResource ''openstack_blockstorage_volume_v3'' (base @ ''_boot'')
            [(''for_each'', JStr (forEachPet pet)), (''name'', JStr (os_name role pet)), (''size'', JNum (os_boot cfg)),
             (''volume_type'', JStr (os_bootType cfg)),
             (''image_id'', JStr (''${data.openstack_images_image_v2.'' @ base @ ''_image.id}'')),
             (''description'', JStr (''Boot volume for node group '' @ ng_name ng)),
             (''lifecycle'', JArr [JObj [(''ignore_changes'', jstrs [''image_id''])]])] c in
      if 0 < os_data cfg
      then AddResource ''openstack_blockstorage_volume_v3'' (base @ ''_data'')
        [(''for_each'', JStr (forEachPet pet)), (''name'', JStr (os_name role pet @ ''-data'')), (''size'', JNum (os_data cfg)),
         (''volume_type'', JStr (os_dataType cfg)), (''description'', JStr (''Data volume for node group '' @ ng_name ng))] c
      else c)"

definition os_instance :: "os_config \<Rightarrow> string \<Rightarrow> string \<Rightarrow> obj" where
  "os_instance cfg role base =
     [(''for_each'', JStr (forEachPet (base @ ''_pet''))), (''name'', JStr (os_name role (base @ ''_pet''))),
      (''flavor_name'', JStr (os_flavor cfg)),
      (''block_device'', JArr (os_blockDevice (base @ ''_boot'') 0 #
         (if 0 < os_data cfg then [os_blockDevice (base @ ''_data'') 1] else []))),
      (''network'', JArr [jobj [(''name'', eStr (''${data.openstack_networking_network_v2.'' @ base @ ''_extnet.name}'')),
         (''fixed_ip_v4'', oStr (os_fixedIPv4 cfg))]]),
      (''security_groups'', jstrs [base @ ''_secgroup'']), (''config_drive'', JBool True),
      (''user_data'', JStr (os_userDataRef role)), (''stop_before_destroy'', JBool True),
      (''lifecycle'', JArr [JObj [(''ignore_changes'', jstrs [''image_id'', ''block_device'', ''user_data''])]])]"

definition os_renderNodeGroup :: "tf_config \<Rightarrow> node_group_spec \<Rightarrow> string + tf_config" where
  "os_renderNodeGroup root ng =
     (case os_parse ng of
        None \<Rightarrow> Inl ''invalid providerConfig JSON''
      | Some cfg \<Rightarrow>
          if os_flavor cfg = [] then Inl ''flavorName is required''
          else if os_boot cfg \<le> 0 then Inl ''bootVolumeSizeGb must be > 0''
          else
            let role = orDefault (os_role cfg) (ng_role ng); base = sanitize (ng_name ng);
                c = AddDataSource ''openstack_networking_network_v2'' (base @ ''_extnet'')
                  [(''name'', JStr (os_extNet cfg)), (''external'', JBool True)] root;
                c = AddDataSource ''openstack_images_image_v2'' (base @ ''_image'')
                  [(''name'', JStr (os_image cfg)), (''most_recent'', JBool True)] c;
                c = countedPets (base @ ''_pet'') (ng_count ng) (renderSecGroup (base @ ''_secgroup'') c) in
            Inr (AddResource ''openstack_compute_instance_v2'' (base @ ''_instance'') (os_instance cfg role base)
              (os_volumes cfg role ng c)))"

definition os_Render :: "render_request \<Rightarrow> string + json" where
  "os_Render req =
     (if rr_tenant req = None then Inl ''missing tenant''
      else if rr_nodeGroups req = [] then Inl ''no node groups''
      else
        (case renderGroups os_renderNodeGroup (rr_nodeGroups req)
                (fold talosConfigDataSource (rolesPresent (rr_nodeGroups req))
                  (AddProvider ''openstack'' []
                    (AddRequiredProviders [
                       \<lparr>rp_name = ''openstack'', rp_source = ''terraform-provider-openstack/openstack'', rp_version = []\<rparr>,
                       \<lparr>rp_name = ''talos'', rp_source = ''siderolabs/talos'', rp_version = []\<rparr>,
                       \<lparr>rp_name = ''random'', rp_source = ''hashicorp/random'', rp_version = []\<rparr>] NewTFConfig))) of
           Inl e \<Rightarrow> Inl e
         | Inr c \<Rightarrow> Inr (tf_MarshalJSON c)))"

section \<open>Metal\<close>

record metal_config =
  mt_machines :: "string list"
  mt_schematic :: string
  mt_role :: string

definition ok_metal_machine :: "json \<Rightarrow> bool" where
  "ok_metal_machine j \<longleftrightarrow> orNull isObj j \<and> fieldsOk isStr [''installDisk'', ''storageDisk'', ''deviceType'', ''networkInterface''] j"

definition ok_metal_machines :: "json \<Rightarrow> bool" where
  "ok_metal_machines j = (case j of JObj fs \<Rightarrow> list_all (\<lambda>(_, v). ok_metal_machine v) fs | _ \<Rightarrow> False)"

definition metal_parse :: "node_group_spec \<Rightarrow> metal_config option" where
  "metal_parse ng =
     (let j = (case ng_providerConfig ng of None \<Rightarrow> JNull | Some j \<Rightarrow> j) in
      if orNull isObj j \<and> fieldOk ok_metal_machines ''machines'' j \<and> fieldsOk isStr [''schematicId'', ''role''] j
      then Some \<lparr>mt_machines = (case jget ''machines'' j of Some (JObj fs) \<Rightarrow> remdups (map fst fs) | _ \<Rightarrow> []),
                 mt_schematic = fStr ''schematicId'' [] j, mt_role = fStr ''role'' (ng_role ng) j\<rparr>
      else None)"

definition bindingTokensFor :: "render_request \<Rightarrow> node_group_spec \<Rightarrow> gomap" where
  "bindingTokensFor req ng =
     (case metal_parse ng of
        None \<Rightarrow> []
      | Some cfg \<Rightarrow> List.map_filter (\<lambda>ip. map_option (\<lambda>t. (ip, t)) (map_of (rr_bindingTokens req) ip)) (mt_machines cfg))"

definition bindingPatch :: "string \<Rightarrow> string" where
  "bindingPatch tokenVar =
     (let nl = [CHR 0x0A]; q = [CHR 0x22] in
      ''machine:'' @ nl @ ''    install:'' @ nl @ ''        extraKernelArgs:'' @ nl @
      ''            - '' @ q @ ''siderolink.api=grpc://${var.mgmtlink_endpoint}?jointoken=${'' @ tokenVar @ ''[each.key]}'' @ q)"

definition buildConfigPatches :: "metal_config \<Rightarrow> string \<Rightarrow> string \<Rightarrow> string list" where
  "buildConfigPatches cfg pre pet =
     [''talos-edge-'' @ pre @ ''-${random_pet.'' @ pet @ ''[each.key].id}''] @
     (if mt_schematic cfg \<noteq> [] then [''factory.talos.dev/installer/'' @ mt_schematic cfg @ '':${var.talos_version}''] else [])"

definition metal_apply :: "metal_config \<Rightarrow> string \<Rightarrow> string \<Rightarrow> obj" where
  "metal_apply cfg role base =
     [(''for_each'', JStr (''${var.metal_machines_'' @ base @ ''}'')),
      (''client_configuration'', JStr ''${talos_machine_secrets.this.client_configuration}''),
      (''machine_configuration_input'', JStr ''${var.bootstrap_config}''), (''node'', JStr ''${each.key}''),
      (''apply_mode'', JStr ''auto''),
      (''config_patches'', jstrs (buildConfigPatches cfg (rolePrefix role) (base @ ''_pet'') @
         [bindingPatch (''metal_binding_tokens_'' @ base)])),
      (''on_destroy'', JObj [(''reset'', JBool True), (''graceful'', JBool True), (''reboot'', JBool True)]),
      (''lifecycle'', JArr [JObj [(''create_before_destroy'', JBool True)]])]"

definition metal_renderNodeGroup :: "render_request \<Rightarrow> tf_config \<Rightarrow> node_group_spec \<Rightarrow> string + tf_config" where
  "metal_renderNodeGroup req root ng =
     (case metal_parse ng of
        None \<Rightarrow> Inl ''invalid providerConfig JSON''
      | Some cfg \<Rightarrow>
          if mt_machines cfg = [] then Inl ''machines map is required''
          else if bindingTokensFor req ng = [] then Inl ''no binding tokens''
          else
            let role = orDefault (mt_role cfg) (ng_role ng); base = sanitize (ng_name ng);
                c = AddResource ''random_pet'' (base @ ''_pet'')
                  [(''for_each'', JStr (''${var.metal_machines_'' @ base @ ''}'')), (''length'', JNum 2),
                   (''separator'', JStr ''-''), (''keepers'', JObj [(''ip'', JStr ''${each.key}'')])] root;
                c = AddResource ''talos_machine_configuration_apply'' base (metal_apply cfg role base) c in
            Inr (AddResource ''terraform_data'' base
              [(''for_each'', JStr (''${metal_binding_tokens_'' @ base @ ''}'')),
               (''input'', JObj [(''machine'', JStr ''${each.key}''), (''token'', JStr ''${each.value}'')])] c))"

definition metal_Render :: "render_request \<Rightarrow> string + json" where
  "metal_Render req =
     (if rr_tenant req = None then Inl ''missing tenant''
      else if rr_nodeGroups req = [] then Inl ''no node groups''
      else if rr_mgmtEndpoint req = [] \<or> rr_bindingTokens req = [] then Inl ''the management link must be enabled''
      else
        (case renderGroups (metal_renderNodeGroup req) (rr_nodeGroups req)
                (AddRequiredProviders [\<lparr>rp_name = ''talos'', rp_source = ''siderolabs/talos'', rp_version = []\<rparr>,
                   \<lparr>rp_name = ''random'', rp_source = ''hashicorp/random'', rp_version = []\<rparr>] NewTFConfig) of
           Inl e \<Rightarrow> Inl e
         | Inr c \<Rightarrow> Inr (tf_MarshalJSON c)))"

section \<open>The registry\<close>

record provider_module =
  pm_type :: string
  pm_render :: "render_request \<Rightarrow> string + json"
  pm_mappings :: "(string \<times> string) list"

definition oci_module :: provider_module where
  "oci_module = \<lparr>pm_type = ''oci'', pm_render = oci_Render, pm_mappings = [(''oci_core_instance'', ''Machine'')]\<rparr>"

definition os_module :: provider_module where
  "os_module = \<lparr>pm_type = ''openstack'', pm_render = os_Render,
     pm_mappings = [(''openstack_compute_instance_v2'', ''Machine'')]\<rparr>"

definition metal_module :: provider_module where
  "metal_module = \<lparr>pm_type = ''metal'', pm_render = metal_Render,
     pm_mappings = [(''talos_machine_configuration_apply'', ''Machine''), (''terraform_data'', ''MachineBinding'')]\<rparr>"

type_synonym provider_registry = "(string \<times> provider_module) list"

text \<open>\<^verbatim>\<open>Register\<close> panics (\<open>None\<close>) on a duplicate type.\<close>

definition reg_Register :: "provider_module \<Rightarrow> provider_registry \<Rightarrow> provider_registry option" where
  "reg_Register p r = (if map_of r (pm_type p) \<noteq> None then None else Some (r @ [(pm_type p, p)]))"

definition reg_Lookup :: "string \<Rightarrow> provider_registry \<Rightarrow> provider_module option" where
  "reg_Lookup t r = map_of r t"

definition reg_All :: "provider_registry \<Rightarrow> provider_module list" where
  "reg_All r = map snd r"

text \<open>The registry \<^verbatim>\<open>main\<close> builds.\<close>

definition main_registry :: provider_registry where
  "main_registry = map (\<lambda>p. (pm_type p, p)) [oci_module, os_module, metal_module]"

end
