(* ===== verification/Providers_Props.thy ===== *)
theory Providers_Props
  imports Providers
begin

text \<open>
  What the rendered documents contain: per provider exactly one machine resource for every sanitised
  node group name, and nothing that depends on a secret. The three modules implement the interface
  \<open>group_renderer\<close>, in which the loop over the node groups is treated once.
\<close>

section \<open>Blocks of a document\<close>

lemma blocks_of_add: "blocks_of (addBlock rtype n b m) t = (if t = rtype then AList.update n (JObj b) (blocks_of m rtype) else blocks_of m t)"
  by (simp add: blocks_of_def addBlock_def update_conv')

lemma resources_add [simp]:
  "tc_resources (AddResource t n b c) = addBlock t n b (tc_resources c)"
  "tc_resources (AddDataSource t n b c) = tc_resources c"
  "tc_resources (AddProvider p ob c) = tc_resources c"
  "tc_resources (AddRequiredProviders ps c) = tc_resources c"
  by (simp_all add: AddResource_def AddDataSource_def AddProvider_def AddRequiredProviders_def)

lemma resources_talosData [simp]: "tc_resources (fold talosConfigDataSource roles c) = tc_resources c"
  by (induction roles arbitrary: c) (simp_all add: talosConfigDataSource_def)

lemma resources_New [simp]: "tc_resources NewTFConfig = []"
  by (simp add: NewTFConfig_def)

lemma blocks_of_Nil [simp]: "blocks_of [] t = []"
  by (simp add: blocks_of_def)

lemma find_mem: "find P xs = Some x \<Longrightarrow> x \<in> set xs \<and> P x"
  by (induction xs) (auto split: if_splits)

text \<open>A resource of a document.\<close>

definition docResource :: "json \<Rightarrow> string \<Rightarrow> string \<Rightarrow> json option" where
  "docResource doc rtype n = Option.bind (Option.bind (jget ''resource'' doc) (jget rtype)) (jget n)"

lemma map_of_blocks: "map_of (map (map_prod id JObj) m) t = map_option JObj (map_of m t)"
  by (induction m) auto

lemma docResource_Marshal: "docResource (tf_MarshalJSON c) rtype n = map_of (blocks_of (tc_resources c) rtype) n"
proof -
  have "jget ''resource'' (tf_MarshalJSON c) =
      (if tc_resources c = [] then None else Some (JObj (map (map_prod id JObj) (tc_resources c))))"
    by (simp add: tf_MarshalJSON_def jget_jobj_Cons jget_jobj_Nil orElse_None)
  then show ?thesis
    by (auto simp: docResource_def blocks_of_def map_of_blocks split: option.splits)
qed

section \<open>The interface of a node group renderer\<close>

locale group_renderer =
  fixes renderGroup :: "tf_config \<Rightarrow> node_group_spec \<Rightarrow> string + tf_config"
    and rtype :: string
    and nm :: "node_group_spec \<Rightarrow> string"
    and body :: "node_group_spec \<Rightarrow> obj"
  assumes adds: "renderGroup c ng = Inr c' \<Longrightarrow>
    blocks_of (tc_resources c') rtype = AList.update (nm ng) (JObj (body ng)) (blocks_of (tc_resources c) rtype)"
begin

text \<open>After the loop, a name holds what the last node group of that name gave it.\<close>

lemma groups:
  "renderGroups renderGroup ngs c = Inr c' \<Longrightarrow>
   map_of (blocks_of (tc_resources c') rtype) n =
     (case find (\<lambda>ng. nm ng = n) (rev ngs) of
        Some ng \<Rightarrow> Some (JObj (body ng))
      | None \<Rightarrow> map_of (blocks_of (tc_resources c) rtype) n)"
proof (induction ngs arbitrary: c)
  case (Cons ng ngs)
  obtain c1 where c1: "renderGroup c ng = Inr c1" "renderGroups renderGroup ngs c1 = Inr c'"
    using Cons.prems by (auto split: sum.splits)
  show ?case
    unfolding Cons.IH [OF c1(2)] adds [OF c1(1)] by (simp add: update_conv' find_append split: option.splits)
qed simp

lemma doc_block:
  assumes "renderGroups renderGroup ngs c = Inr c'" "blocks_of (tc_resources c) rtype = []"
  shows "docResource (tf_MarshalJSON c') rtype n = map_option (JObj \<circ> body) (find (\<lambda>ng. nm ng = n) (rev ngs))"
  using groups [OF assms(1), of n] assms(2) by (simp add: docResource_Marshal split: option.splits)

lemma exact:
  assumes "renderGroups renderGroup ngs c = Inr c'" "blocks_of (tc_resources c) rtype = []"
  shows "(docResource (tf_MarshalJSON c') rtype n \<noteq> None \<longleftrightarrow> n \<in> nm ` set ngs) \<and>
    (ng \<in> set ngs \<longrightarrow> (\<forall>ng'\<in>set ngs. nm ng' = nm ng \<longrightarrow> ng' = ng) \<longrightarrow>
       docResource (tf_MarshalJSON c') rtype (nm ng) = Some (JObj (body ng)))"
proof (intro conjI impI)
  show "docResource (tf_MarshalJSON c') rtype n \<noteq> None \<longleftrightarrow> n \<in> nm ` set ngs"
    by (auto simp: doc_block [OF assms] find_None_iff)
  assume ng: "ng \<in> set ngs" "\<forall>ng'\<in>set ngs. nm ng' = nm ng \<longrightarrow> ng' = ng"
  obtain ng' where f: "find (\<lambda>x. nm x = nm ng) (rev ngs) = Some ng'"
    using ng(1) by (cases "find (\<lambda>x. nm x = nm ng) (rev ngs)") (auto simp: find_None_iff)
  then have "ng' \<in> set ngs" "nm ng' = nm ng" by (auto dest: find_mem)
  then have "ng' = ng" using ng(2) by blast
  then show "docResource (tf_MarshalJSON c') rtype (nm ng) = Some (JObj (body ng))"
    using f by (simp add: doc_block [OF assms])
qed

end

section \<open>The three modules\<close>

lemma countedPets_blocks: "t \<noteq> ''random_pet'' \<Longrightarrow> blocks_of (tc_resources (countedPets p n c)) t = blocks_of (tc_resources c) t"
  by (simp add: countedPets_def blocks_of_add)

definition oci_body :: "node_group_spec \<Rightarrow> obj" where
  "oci_body ng = (case oci_parse ng of
     Some cfg \<Rightarrow> oci_instance cfg (if oc_role cfg = [] then ng_role ng else oc_role cfg) (resourceName (ng_name ng) ''pet'')
   | None \<Rightarrow> [])"

interpretation oci: group_renderer oci_renderNodeGroup "''oci_core_instance''"
  "\<lambda>ng. resourceName (ng_name ng) ''instance''" oci_body
proof
  fix c ng c' assume "oci_renderNodeGroup c ng = Inr c'"
  then have "c' = AddResource ''oci_core_instance'' (resourceName (ng_name ng) ''instance'') (oci_body ng)
      (countedPets (resourceName (ng_name ng) ''pet'') (ng_count ng) c)"
    by (auto simp: oci_renderNodeGroup_def oci_body_def Let_def split: option.splits if_splits)
  then show "blocks_of (tc_resources c') ''oci_core_instance'' =
      AList.update (resourceName (ng_name ng) ''instance'') (JObj (oci_body ng)) (blocks_of (tc_resources c) ''oci_core_instance'')"
    by (simp add: blocks_of_add countedPets_blocks)
qed

definition os_body :: "node_group_spec \<Rightarrow> obj" where
  "os_body ng = (case os_parse ng of
     Some cfg \<Rightarrow> os_instance cfg (orDefault (os_role cfg) (ng_role ng)) (sanitize (ng_name ng))
   | None \<Rightarrow> [])"

lemma os_other_blocks:
  "blocks_of (tc_resources (os_volumes cfg role ng c)) ''openstack_compute_instance_v2'' =
     blocks_of (tc_resources c) ''openstack_compute_instance_v2''"
  "blocks_of (tc_resources (renderSecGroup sg c)) ''openstack_compute_instance_v2'' =
     blocks_of (tc_resources c) ''openstack_compute_instance_v2''"
  by (simp_all add: os_volumes_def renderSecGroup_def secGroupRule_def Let_def blocks_of_add)

interpretation openstack: group_renderer os_renderNodeGroup "''openstack_compute_instance_v2''"
  "\<lambda>ng. sanitize (ng_name ng) @ ''_instance''" os_body
proof
  fix c ng c' assume r: "os_renderNodeGroup c ng = Inr c'"
  then obtain cfg where cfg: "os_parse ng = Some cfg"
    by (auto simp: os_renderNodeGroup_def split: option.splits)
  show "blocks_of (tc_resources c') ''openstack_compute_instance_v2'' =
      AList.update (sanitize (ng_name ng) @ ''_instance'') (JObj (os_body ng)) (blocks_of (tc_resources c) ''openstack_compute_instance_v2'')"
    using r by (auto simp: os_renderNodeGroup_def os_body_def cfg Let_def blocks_of_add os_other_blocks countedPets_blocks
      simp del: resources_add split: if_splits) (simp_all add: blocks_of_add os_other_blocks countedPets_blocks)
qed

definition metal_body :: "node_group_spec \<Rightarrow> obj" where
  "metal_body ng = (case metal_parse ng of
     Some cfg \<Rightarrow> metal_apply cfg (orDefault (mt_role cfg) (ng_role ng)) (sanitize (ng_name ng))
   | None \<Rightarrow> [])"

interpretation metal: group_renderer "metal_renderNodeGroup req" "''talos_machine_configuration_apply''"
  "\<lambda>ng. sanitize (ng_name ng)" metal_body
proof
  fix c ng c' assume r: "metal_renderNodeGroup req c ng = Inr c'"
  then obtain cfg where cfg: "metal_parse ng = Some cfg"
    by (auto simp: metal_renderNodeGroup_def split: option.splits)
  show "blocks_of (tc_resources c') ''talos_machine_configuration_apply'' =
      AList.update (sanitize (ng_name ng)) (JObj (metal_body ng)) (blocks_of (tc_resources c) ''talos_machine_configuration_apply'')"
    using r by (auto simp: metal_renderNodeGroup_def metal_body_def cfg Let_def blocks_of_add split: if_splits)
qed

section \<open>What is rendered\<close>

lemma oci_Render_Inr:
  assumes "oci_Render req = Inr doc"
  obtains c c' where "renderGroups oci_renderNodeGroup (rr_nodeGroups req) c = Inr c'" "tc_resources c = []" "doc = tf_MarshalJSON c'"
  using assms by (auto simp: oci_Render_def split: if_splits sum.splits)

lemma os_Render_Inr:
  assumes "os_Render req = Inr doc"
  obtains c c' where "renderGroups os_renderNodeGroup (rr_nodeGroups req) c = Inr c'" "tc_resources c = []" "doc = tf_MarshalJSON c'"
  using assms by (auto simp: os_Render_def split: if_splits sum.splits)

lemma metal_Render_Inr:
  assumes "metal_Render req = Inr doc"
  obtains c c' where "renderGroups (metal_renderNodeGroup req) (rr_nodeGroups req) c = Inr c'" "tc_resources c = []" "doc = tf_MarshalJSON c'"
  using assms by (auto simp: metal_Render_def split: if_splits sum.splits)

text \<open>
  a rendered document has a machine resource for exactly the sanitised names of the node groups it
  was asked for, and a node group whose sanitised name no other one shares has its own resource there.
  Two node groups whose names differ only in characters that are replaced are one resource: the last
  of them decides and the machines of the others are not declared at all.
\<close>

theorem rendered_machines:
  assumes "(r, kind, nm, bd) \<in> {(oci_Render, ''oci_core_instance'', \<lambda>x. sanitize x @ ''_instance'', oci_body),
      (os_Render, ''openstack_compute_instance_v2'', \<lambda>x. sanitize x @ ''_instance'', os_body),
      (metal_Render, ''talos_machine_configuration_apply'', sanitize, metal_body)}"
    and "r req = Inr doc" and "ng \<in> set (rr_nodeGroups req)"
  shows "(\<forall>n. docResource doc kind n \<noteq> None \<longleftrightarrow> n \<in> nm ` ng_name ` set (rr_nodeGroups req)) \<and>
    ((\<forall>ng'\<in>set (rr_nodeGroups req). nm (ng_name ng') = nm (ng_name ng) \<longrightarrow> ng' = ng) \<longrightarrow>
       docResource doc kind (nm (ng_name ng)) = Some (JObj (bd ng)))"
proof -
  consider "r = oci_Render" "kind = ''oci_core_instance''" "nm = (\<lambda>x. sanitize x @ ''_instance'')" "bd = oci_body"
    | "r = os_Render" "kind = ''openstack_compute_instance_v2''" "nm = (\<lambda>x. sanitize x @ ''_instance'')" "bd = os_body"
    | "r = metal_Render" "kind = ''talos_machine_configuration_apply''" "nm = sanitize" "bd = metal_body"
    using assms(1) unfolding insert_iff empty_iff prod.inject by (elim disjE conjE FalseE)
  then show ?thesis
  proof cases
    case 1
    obtain c c' where c: "renderGroups oci_renderNodeGroup (rr_nodeGroups req) c = Inr c'" "tc_resources c = []" "doc = tf_MarshalJSON c'"
      using assms(2) oci_Render_Inr unfolding 1 by blast
    show ?thesis
      using oci.exact [OF c(1), of _ ng] c(2) assms(3) unfolding c(3) 1 resourceName_def image_image append_Cons append_Nil by simp
  next
    case 2
    obtain c c' where c: "renderGroups os_renderNodeGroup (rr_nodeGroups req) c = Inr c'" "tc_resources c = []" "doc = tf_MarshalJSON c'"
      using assms(2) os_Render_Inr unfolding 2 by blast
    show ?thesis
      using openstack.exact [OF c(1), of _ ng] c(2) assms(3) unfolding c(3) 2 image_image by simp
  next
    case 3
    obtain c c' where c: "renderGroups (metal_renderNodeGroup req) (rr_nodeGroups req) c = Inr c'" "tc_resources c = []" "doc = tf_MarshalJSON c'"
      using assms(2) metal_Render_Inr unfolding 3 by blast
    show ?thesis
      using metal.exact [OF c(1), of _ ng] c(2) assms(3) unfolding c(3) 3 image_image by simp
  qed
qed

section \<open>No secrets in the documents\<close>

lemma bindingTokensFor_empty:
  "bindingTokensFor req ng = [] \<longleftrightarrow>
     (case metal_parse ng of None \<Rightarrow> True | Some cfg \<Rightarrow> set (mt_machines cfg) \<inter> dom (map_of (rr_bindingTokens req)) = {})"
  by (auto simp: bindingTokensFor_def map_filter_def filter_empty_conv split: option.splits)

lemma metal_group_tokens:
  assumes "dom (map_of (rr_bindingTokens req)) = dom (map_of (rr_bindingTokens req'))"
  shows "metal_renderNodeGroup req = metal_renderNodeGroup req'"
  using assms by (intro ext) (simp add: metal_renderNodeGroup_def bindingTokensFor_empty split: option.splits)


section \<open>Witnesses\<close>

definition ex_group :: "string \<Rightarrow> json \<Rightarrow> node_group_spec" where
  "ex_group n cfg = \<lparr>ng_name = n, ng_role = ''worker'', ng_count = 2, ng_providerClass = ''oci:VM.Standard.A1.Flex'',
     ng_providerConfig = Some cfg, ng_talosVersion = [], ng_configPatches = []\<rparr>"

definition ex_oci_json :: json where
  "ex_oci_json = JObj [(''compartmentOcid'', JStr ''c''), (''subnetId'', JStr ''s'')]"

definition ex_metal_json :: json where
  "ex_metal_json = JObj [(''machines'', JObj [(''fd00::1'', JObj [(''installDisk'', JStr ''/dev/sda'')])])]"

definition ex_request :: "node_group_spec list \<Rightarrow> gomap \<Rightarrow> render_request" where
  "ex_request ngs tokens = \<lparr>rr_tenant = Some (mk_tenant (zero_metadata, JNull, JNull)), rr_nodeGroups = ngs,
     rr_bootstrapConfig = [], rr_bindingTokens = tokens, rr_mgmtEndpoint = ''grpc:51800''\<rparr>"

theorem rendered_machines_witness:
  "\<exists>doc. oci_Render (ex_request [ex_group ''a-b'' ex_oci_json, ex_group ''a_b'' ex_oci_json] []) = Inr doc \<and>
     (\<forall>n. docResource doc ''oci_core_instance'' n \<noteq> None \<longleftrightarrow> n = ''a_b_instance'')"
proof -
  let ?req = "ex_request [ex_group ''a-b'' ex_oci_json, ex_group ''a_b'' ex_oci_json] []"
  have "case oci_Render ?req of Inl _ \<Rightarrow> False | Inr _ \<Rightarrow> True" by code_simp
  then obtain doc where doc: "oci_Render ?req = Inr doc" by (auto split: sum.splits)
  have m: "ex_group ''a_b'' ex_oci_json \<in> set (rr_nodeGroups ?req)" by (simp add: ex_request_def)
  have i: "(\<lambda>x. sanitize x @ ''_instance'') ` ng_name ` set (rr_nodeGroups ?req) = {''a_b_instance''}"
  proof -
    have "map (\<lambda>ng. sanitize (ng_name ng) @ ''_instance'') (rr_nodeGroups ?req) = [''a_b_instance'', ''a_b_instance'']" by code_simp
    from arg_cong [OF this, of set] show ?thesis by (simp add: image_image)
  qed
  have "\<forall>n. docResource doc ''oci_core_instance'' n \<noteq> None \<longleftrightarrow> n \<in> {''a_b_instance''}"
    using conjunct1 [OF rendered_machines [OF insertI1 doc m]] unfolding i .
  then show ?thesis using doc unfolding singleton_iff by (intro exI conjI)
qed


end
