(* ===== verification/Projection.thy ===== *)
theory Projection
  imports Providers Api
begin

text \<open>
  The projection of OpenTofu states, \<^verbatim>\<open>internal/projection\<close>, with its consumers: the index and its rebuilding, the
  extractors, the HTTP handlers (\<^verbatim>\<open>internal/api/projection\<close>), and the enricher that copies projected machines
  into the store (\<^verbatim>\<open>internal/reconcile/enricher.go\<close>). Reading a tenant's state, parsing JSON text and
  printing a JSON value are parameters. Go maps are association lists: where the code walks one, the model
  walks it in insertion order.
\<close>

section \<open>Environment and index\<close>

type_synonym extractor = "string \<Rightarrow> obj option \<Rightarrow> obj option"

record proj_env =
  pj_source :: "string \<Rightarrow> string + string"
  pj_parse :: "string \<Rightarrow> json option"
  pj_text :: "json \<Rightarrow> string"
  pj_registry :: provider_registry
  pj_extractors :: "(string \<times> extractor) list"

record proj_resource =
  prj_tenant :: string
  prj_kind :: string
  prj_name :: string
  prj_tfType :: string
  prj_tfAddress :: string
  prj_spec :: "obj option"
  prj_serial :: int

text \<open>Per tenant: type, name and resource; and the serial of the state it was built from.\<close>

type_synonym tenant_index = "(string \<times> (string \<times> proj_resource) list) list"

record proj_index =
  px_entries :: "(string \<times> tenant_index) list"
  px_serial :: "(string \<times> int) list"

section \<open>State documents\<close>

record state_instance =
  si_indexKey :: "json option"
  si_attributes :: "obj option"

record state_resource =
  sr_type :: string
  sr_name :: string
  sr_instances :: "state_instance list"

record parsed_state =
  pst_serial :: int
  pst_resources :: "state_resource list"

fun vObj :: "json \<Rightarrow> obj option" where
  "vObj (JObj fs) = Some fs"
| "vObj _ = None"

definition dec_instance :: "json \<Rightarrow> state_instance" where
  "dec_instance j = \<lparr>si_indexKey = jget ''index_key'' j, si_attributes = Option.bind (jget ''attributes'' j) vObj\<rparr>"

definition ok_instance :: "json \<Rightarrow> bool" where
  "ok_instance j \<longleftrightarrow> orNull isObj j \<and> fieldOk isObj ''attributes'' j \<and> fieldOk isNum ''schema_version'' j"

definition dec_resource :: "json \<Rightarrow> state_resource" where
  "dec_resource j = \<lparr>sr_type = dStr ''type'' j, sr_name = dStr ''name'' j, sr_instances = dList dec_instance ''instances'' j\<rparr>"

definition ok_resource :: "json \<Rightarrow> bool" where
  "ok_resource j \<longleftrightarrow> orNull isObj j \<and> fieldsOk isStr [''mode'', ''type'', ''name'', ''provider''] j \<and>
     fieldOk (isArr ok_instance) ''instances'' j"

definition parseState :: "proj_env \<Rightarrow> string \<Rightarrow> parsed_state option" where
  "parseState e blob =
     (case pj_parse e blob of
        None \<Rightarrow> None
      | Some j \<Rightarrow>
          if orNull isObj j \<and> fieldsOk isNum [''version'', ''serial''] j \<and> fieldOk isStr ''lineage'' j \<and>
             fieldOk (isArr ok_resource) ''resources'' j
          then Some \<lparr>pst_serial = dInt ''serial'' j, pst_resources = dList dec_resource ''resources'' j\<rparr>
          else None)"

definition hasKey :: "json option \<Rightarrow> bool" where
  "hasKey k \<longleftrightarrow> k \<noteq> None \<and> k \<noteq> Some JNull"

text \<open>The text of a raw key: a count index is its decimal text.\<close>

definition rawText :: "proj_env \<Rightarrow> json \<Rightarrow> string" where
  "rawText e j = (case j of JNum i \<Rightarrow> itoa i | _ \<Rightarrow> pj_text e j)"

definition IndexSuffix :: "proj_env \<Rightarrow> json option \<Rightarrow> string" where
  "IndexSuffix e k =
     (case k of
        None \<Rightarrow> []
      | Some JNull \<Rightarrow> []
      | Some (JStr s) \<Rightarrow> ''['' @ pj_text e (JStr s) @ '']''
      | Some j \<Rightarrow> ''['' @ rawText e j @ '']'')"

definition instanceName :: "proj_env \<Rightarrow> string \<Rightarrow> json option \<Rightarrow> string" where
  "instanceName e n k =
     (case k of
        None \<Rightarrow> n
      | Some JNull \<Rightarrow> n
      | Some (JStr s) \<Rightarrow> n @ ''-'' @ s
      | Some j \<Rightarrow> n @ ''-'' @ rawText e j)"

section \<open>Rebuilding\<close>

text \<open>The kind of a type and its extractor, \<open>None\<close> for the nil function.\<close>

definition extractorFor :: "proj_env \<Rightarrow> string \<Rightarrow> (extractor option \<times> string) option" where
  "extractorFor e ty =
     map_option (\<lambda>(_, kind). (map_of (pj_extractors e) kind, kind))
       (find (\<lambda>m. fst m = ty) (concat (map pm_mappings (reg_All (pj_registry e)))))"

definition putResource :: "proj_resource \<Rightarrow> tenant_index \<Rightarrow> tenant_index" where
  "putResource r ix = AList.update (prj_tfType r)
     (AList.update (prj_name r) r (case map_of ix (prj_tfType r) of None \<Rightarrow> [] | Some m \<Rightarrow> m)) ix"

definition projectInstance :: "proj_env \<Rightarrow> string \<Rightarrow> int \<Rightarrow> string \<Rightarrow> extractor \<Rightarrow> state_resource \<Rightarrow> state_instance \<Rightarrow> proj_resource" where
  "projectInstance e tn serial kind ext r i = \<lparr>
     prj_tenant = tn, prj_kind = kind, prj_name = instanceName e (sr_name r) (si_indexKey i), prj_tfType = sr_type r,
     prj_tfAddress = sr_type r @ ''.'' @ sr_name r @ IndexSuffix e (si_indexKey i),
     prj_spec = ext (sr_type r) (si_attributes i), prj_serial = serial\<rparr>"

text \<open>
  The resources one entry of the state projects to: none for an unmapped type, and \<open>None\<close> when the code
  calls a nil extractor, which panics.
\<close>

definition projectResource :: "proj_env \<Rightarrow> string \<Rightarrow> int \<Rightarrow> state_resource \<Rightarrow> proj_resource list option" where
  "projectResource e tn serial r =
     (case extractorFor e (sr_type r) of
        None \<Rightarrow> Some []
      | Some (None, _) \<Rightarrow> if sr_instances r = [] then Some [] else None
      | Some (Some ext, kind) \<Rightarrow> Some (map (projectInstance e tn serial kind ext r) (sr_instances r)))"

fun projectAll :: "proj_env \<Rightarrow> string \<Rightarrow> int \<Rightarrow> state_resource list \<Rightarrow> proj_resource list option" where
  "projectAll e tn serial [] = Some []"
| "projectAll e tn serial (r # rs) =
     (case projectResource e tn serial r of
        None \<Rightarrow> None
      | Some xs \<Rightarrow> map_option (\<lambda>ys. xs @ ys) (projectAll e tn serial rs))"

datatype rebuild_result = RebuildError | RebuildPanic | Projected nat

definition Rebuild :: "proj_env \<Rightarrow> string \<Rightarrow> proj_index \<Rightarrow> rebuild_result \<times> proj_index" where
  "Rebuild e tn ix =
     (case pj_source e tn of
        Inl _ \<Rightarrow> (RebuildError, ix)
      | Inr blob \<Rightarrow>
          if blob = []
          then (Projected 0, ix\<lparr>px_entries := AList.delete tn (px_entries ix), px_serial := AList.delete tn (px_serial ix)\<rparr>)
          else
            (case parseState e blob of
               None \<Rightarrow> (RebuildError, ix)
             | Some st \<Rightarrow>
                 (case projectAll e tn (pst_serial st) (pst_resources st) of
                    None \<Rightarrow> (RebuildPanic, ix)
                  | Some rs \<Rightarrow>
                      (Projected (length rs),
                       ix\<lparr>px_entries := AList.update tn (fold putResource rs []) (px_entries ix),
                          px_serial := AList.update tn (pst_serial st) (px_serial ix)\<rparr>))))"

section \<open>Reading the index\<close>

definition px_tenant :: "proj_index \<Rightarrow> string \<Rightarrow> tenant_index" where
  "px_tenant ix tn = (case map_of (px_entries ix) tn of None \<Rightarrow> [] | Some t \<Rightarrow> t)"

definition proj_Lookup :: "proj_index \<Rightarrow> string \<Rightarrow> string \<Rightarrow> string \<Rightarrow> proj_resource option" where
  "proj_Lookup ix tn ty n = Option.bind (Option.bind (map_of (px_entries ix) tn) (\<lambda>t. map_of t ty)) (\<lambda>m. map_of m n)"

text \<open>The insertion sort: an element moves left while its predecessor has a greater address.\<close>

definition sinkIn :: "proj_resource \<Rightarrow> proj_resource list \<Rightarrow> proj_resource list" where
  "sinkIn x ys = (let greater = (\<lambda>y. prj_tfAddress x < prj_tfAddress y) in
     rev (dropWhile greater (rev ys)) @ [x] @ rev (takeWhile greater (rev ys)))"

definition sortByAddress :: "proj_resource list \<Rightarrow> proj_resource list" where
  "sortByAddress rs = fold sinkIn rs []"

definition proj_List :: "proj_index \<Rightarrow> string \<Rightarrow> string \<Rightarrow> proj_resource list" where
  "proj_List ix tn kind =
     sortByAddress (filter (\<lambda>r. kind = [] \<or> prj_kind r = kind) (map snd (concat (map snd (px_tenant ix tn)))))"

definition proj_Serial :: "proj_index \<Rightarrow> string \<Rightarrow> int" where
  "proj_Serial ix tn = (case map_of (px_serial ix) tn of None \<Rightarrow> 0 | Some n \<Rightarrow> n)"

definition proj_Drop :: "string \<Rightarrow> proj_index \<Rightarrow> proj_index" where
  "proj_Drop tn ix = ix\<lparr>px_entries := AList.delete tn (px_entries ix), px_serial := AList.delete tn (px_serial ix)\<rparr>"

definition proj_Tenants :: "proj_index \<Rightarrow> string list" where
  "proj_Tenants ix = map fst (px_entries ix)"

section \<open>Extractors\<close>

definition ExtractMachineBinding :: extractor where
  "ExtractMachineBinding ty attrs =
     (case attrs of
        None \<Rightarrow> None
      | Some fs \<Rightarrow>
          let spec = List.map_filter (\<lambda>k. case map_of fs k of Some (JStr s) \<Rightarrow> Some (k, JStr s) | _ \<Rightarrow> None) [''machine'', ''token''] in
          if spec = [] then None else Some spec)"

text \<open>\<^verbatim>\<open>machineExtractor\<close> of \<^verbatim>\<open>main.go\<close>, the one that is registered for machines.\<close>

definition machineExtractor :: extractor where
  "machineExtractor ty attrs =
     (case attrs of
        None \<Rightarrow> None
      | Some fs \<Rightarrow>
          let spec = List.map_filter (\<lambda>k. map_option (\<lambda>v. (k, v)) (map_of fs k))
                [''id'', ''public_ip'', ''private_ip'', ''shape'', ''display_name'', ''state''] in
          if spec = [] then None else Some spec)"

definition stringAttr :: "proj_env \<Rightarrow> obj \<Rightarrow> string \<Rightarrow> string" where
  "stringAttr e fs k =
     (case map_of fs k of
        None \<Rightarrow> []
      | Some JNull \<Rightarrow> []
      | Some (JStr s) \<Rightarrow> s
      | Some (JNum i) \<Rightarrow> itoa i
      | Some v \<Rightarrow> pj_text e v)"

definition nestedString :: "proj_env \<Rightarrow> obj \<Rightarrow> string \<Rightarrow> string \<Rightarrow> string" where
  "nestedString e fs a b = (case map_of fs a of Some (JObj inner) \<Rightarrow> stringAttr e inner b | _ \<Rightarrow> [])"

definition networkV4 :: "proj_env \<Rightarrow> obj \<Rightarrow> string" where
  "networkV4 e fs =
     (case map_of fs ''network'' of
        Some (JArr (JObj first # _)) \<Rightarrow> stringAttr e first ''fixed_ip_v4''
      | _ \<Rightarrow> [])"

definition firstNonEmpty :: "string list \<Rightarrow> string" where
  "firstNonEmpty ss = (case find (\<lambda>s. s \<noteq> []) ss of None \<Rightarrow> [] | Some s \<Rightarrow> s)"

text \<open>\<^verbatim>\<open>machineSpecToMap\<close>: the five fields in the order of the struct, the empty ones left out.\<close>

definition machineSpecToMap :: "string \<Rightarrow> string \<Rightarrow> string \<Rightarrow> string \<Rightarrow> string \<Rightarrow> obj option" where
  "machineSpecToMap pid host addr shape region =
     (let fs = filter (\<lambda>(_, s). s \<noteq> []) [(''providerId'', pid), (''hostname'', host), (''address'', addr), (''shape'', shape), (''region'', region)] in
      if fs = [] then None else Some (map (map_prod id JStr) fs))"

definition extractMachine :: "proj_env \<Rightarrow> extractor" where
  "extractMachine e ty attrs =
     (case attrs of
        None \<Rightarrow> None
      | Some fs \<Rightarrow>
          let at = stringAttr e fs in
          if ty = ''oci_core_instance''
          then machineSpecToMap (at ''id'') (at ''display_name'')
            (firstNonEmpty [at ''public_ip'', at ''primary_public_ip'', nestedString e fs ''create_vnic_details'' ''assign_public_ip''])
            (at ''shape'') (at ''region'')
          else if ty = ''openstack_compute_instance_v2''
          then machineSpecToMap (at ''id'') (at ''name'') (firstNonEmpty [at ''access_ip_v4'', at ''access_ip_v6'', networkV4 e fs])
            (at ''flavor_name'') []
          else if ty = ''talos_machine_configuration_apply''
          then machineSpecToMap [] (at ''hostname'') (at ''node'') [] []
          else Some fs)"

text \<open>The extractors \<^verbatim>\<open>main\<close> registers.\<close>

definition main_extractors :: "(string \<times> extractor) list" where
  "main_extractors = [(''Machine'', machineExtractor), (''MachineBinding'', ExtractMachineBinding)]"

section \<open>HTTP handlers\<close>

type_synonym proj_reply = "(proj_resource list \<times> nat) reply"

definition proj_respond :: "proj_resource list \<Rightarrow> proj_reply" where
  "proj_respond items = Reply 200 (items, length items)"

definition proj_ListByTenant :: "proj_index option \<Rightarrow> string \<Rightarrow> string \<Rightarrow> proj_reply" where
  "proj_ListByTenant ix tn kind =
     (case ix of None \<Rightarrow> Fail 503 ''ServiceUnavailable'' | Some ix \<Rightarrow> proj_respond (proj_List ix tn kind))"

definition proj_ListAll :: "proj_index option \<Rightarrow> string \<Rightarrow> proj_reply" where
  "proj_ListAll ix kind =
     (case ix of
        None \<Rightarrow> Fail 503 ''ServiceUnavailable''
      | Some ix \<Rightarrow> proj_respond (concat (map (\<lambda>t. proj_List ix t kind) (proj_Tenants ix))))"

section \<open>The enricher\<close>

definition stringFromSpec :: "obj option \<Rightarrow> string list \<Rightarrow> string" where
  "stringFromSpec spec ks =
     firstNonEmpty (map (\<lambda>k. case Option.bind spec (\<lambda>m. map_of m k) of Some (JStr s) \<Rightarrow> s | _ \<Rightarrow> []) ks)"

definition enrichAddr :: "proj_resource \<Rightarrow> string" where
  "enrichAddr r = stringFromSpec (prj_spec r) [''address'', ''public_ip'', ''private_ip'', ''providerId'']"

definition enrichName :: "proj_resource \<Rightarrow> string" where
  "enrichName r = (if prj_name r = [] then prj_tfAddress r else prj_name r)"

definition enrichRole :: "proj_resource \<Rightarrow> string" where
  "enrichRole r = (if containsStr (toLower (enrichName r)) ''control'' \<or> containsStr (prj_tfType r) ''control''
     then ''controlplane'' else ''worker'')"

definition enrichOne :: "string \<Rightarrow> machine list \<Rightarrow> proj_resource \<Rightarrow> store \<Rightarrow> store" where
  "enrichOne tn existing r s =
     (if enrichName r \<in> set (map (md_name \<circ> m_metadata) existing) then s
      else if enrichAddr r \<noteq> [] \<and> enrichAddr r \<in> set (map (ms_managementAddress \<circ> m_spec) existing) then s
      else snd (CreateMachine (enrichName r) ((dec_machine_spec JNull)\<lparr>ms_managementAddress := enrichAddr r\<rparr>)
             [(tenantLabel, tn), (''rezuscloud.io/role'', enrichRole r)] [] s))"

definition bindOne :: "proj_resource \<Rightarrow> store \<Rightarrow> store" where
  "bindOne b s =
     (let token = stringFromSpec (prj_spec b) [''token''] in
      if token = [] then s
      else
        (case GetMachine (prj_name b) s of
           (Inr (Some m), s) \<Rightarrow>
             if ms_bindingToken (m_spec m) = token then s
             else snd (UpdateMachineSpec (md_name (m_metadata m)) (md_resourceVersion (m_metadata m))
                    ((m_spec m)\<lparr>ms_bindingToken := token\<rparr>) (md_labels (m_metadata m)) (md_annotations (m_metadata m)) s)
         | (_, s) \<Rightarrow> s))"

definition applyBindingTokens :: "proj_index \<Rightarrow> string \<Rightarrow> store \<Rightarrow> store" where
  "applyBindingTokens ix tn s = fold bindOne (proj_List ix tn ''MachineBinding'') s"

definition enrich :: "proj_index \<Rightarrow> string \<Rightarrow> store \<Rightarrow> store" where
  "enrich ix tn s =
     (let rs = proj_List ix tn ''Machine'' in
      if rs = [] then s
      else
        (case ListMachinesByTenant tn [] s of
           (Inl _, s) \<Rightarrow> s
         | (Inr (existing, _), s) \<Rightarrow> applyBindingTokens ix tn (fold (enrichOne tn existing) rs s)))"

text \<open>
  The two listeners of an applied phase. Each starts a goroutine, so the rebuilding and the enrichment of
  one apply run in either order.
\<close>

definition ProjectionListener :: "proj_env \<Rightarrow> phase_event \<Rightarrow> proj_index \<Rightarrow> proj_index" where
  "ProjectionListener e ev ix = (if pe_phase ev \<noteq> phApplied then ix else snd (Rebuild e (pe_tenant ev) ix))"

definition EnrichListener :: "phase_event \<Rightarrow> proj_index \<Rightarrow> store \<Rightarrow> store" where
  "EnrichListener ev ix s = (if pe_phase ev \<noteq> phApplied then s else enrich ix (pe_tenant ev) s)"

end
