(* ===== verification/Projection_Props.thy ===== *)
theory Projection_Props
  imports Projection Applier_Props "HOL-Library.Multiset"
begin

text \<open>
  The projection index is a function of the state, listings are sorted and complete, and what reaches
  the store through the enricher.
\<close>

section \<open>Sorting\<close>

lemma mset_sinkIn: "mset (sinkIn x ys) = add_mset x (mset ys)"
proof -
  have "mset (takeWhile P (rev ys)) + mset (dropWhile P (rev ys)) = mset ys" for P
    by (metis mset_append mset_rev takeWhile_dropWhile_id)
  then show ?thesis by (simp add: sinkIn_def Let_def add.commute)
qed

lemma mset_sortByAddress: "mset (sortByAddress rs) = mset rs"
proof -
  have "mset (fold sinkIn rs ys) = mset rs + mset ys" for ys
    by (induction rs arbitrary: ys) (simp_all add: mset_sinkIn)
  then show ?thesis by (simp add: sortByAddress_def)
qed

lemma sorted_sinkIn:
  assumes "sorted (map prj_tfAddress ys)"
  shows "sorted (map prj_tfAddress (sinkIn x ys))"
proof -
  define a where "a = prj_tfAddress x"
  define P :: "proj_resource \<Rightarrow> bool" where "P = (\<lambda>y. a < prj_tfAddress y)"
  let ?lo = "dropWhile P (rev ys)" and ?hi = "takeWhile P (rev ys)"
  have hi: "\<forall>y\<in>set ?hi. a \<le> prj_tfAddress y" using set_takeWhileD by (fastforce simp: P_def)
  have sr: "sorted_wrt (\<lambda>u v. prj_tfAddress v \<le> prj_tfAddress u) (rev ys)"
    using assms by (simp add: sorted_wrt_rev sorted_map)
  then have w: "sorted_wrt (\<lambda>u v. prj_tfAddress v \<le> prj_tfAddress u) (?hi @ ?lo)" by simp
  have lo: "\<forall>y\<in>set ?lo. prj_tfAddress y \<le> a"
  proof (cases ?lo)
    case (Cons z zs)
    then have "\<not> P z" using hd_dropWhile [of P "rev ys"] by simp
    moreover have "\<forall>y\<in>set zs. prj_tfAddress y \<le> prj_tfAddress z" using w Cons by (simp add: sorted_wrt_append)
    ultimately show ?thesis using Cons by (auto simp: P_def intro: order_trans)
  next
    case Nil
    then show ?thesis by (simp only: list.set ball_empty)
  qed
  have "sorted_wrt (\<lambda>u v. prj_tfAddress v \<le> prj_tfAddress u) (?hi @ [x] @ ?lo)"
    using w hi lo by (auto simp: sorted_wrt_append a_def intro: order_trans)
  then have "sorted_wrt (\<lambda>u v. prj_tfAddress u \<le> prj_tfAddress v) (rev (?hi @ [x] @ ?lo))"
    by (simp only: sorted_wrt_rev)
  moreover have "rev (?hi @ [x] @ ?lo) = sinkIn x ys" by (simp add: sinkIn_def Let_def P_def a_def)
  ultimately show ?thesis by (simp add: sorted_map)
qed

lemma sorted_sortByAddress: "sorted (map prj_tfAddress (sortByAddress rs))"
proof -
  have "sorted (map prj_tfAddress ys) \<Longrightarrow> sorted (map prj_tfAddress (fold sinkIn rs ys))" for ys
    by (induction rs arbitrary: ys) (simp_all add: sorted_sinkIn)
  then show ?thesis by (simp add: sortByAddress_def)
qed

lemma set_sortByAddress [simp]: "set (sortByAddress rs) = set rs"
  by (metis mset_sortByAddress set_mset_mset)

section \<open>The entries of a tenant\<close>

definition ti_wf :: "tenant_index \<Rightarrow> bool" where
  "ti_wf t \<longleftrightarrow> distinct (map fst t) \<and> (\<forall>(ty, m)\<in>set t. distinct (map fst m))"

definition ti_lookup :: "tenant_index \<Rightarrow> string \<Rightarrow> string \<Rightarrow> proj_resource option" where
  "ti_lookup t ty n = Option.bind (map_of t ty) (\<lambda>m. map_of m n)"

lemma ti_lookup_put:
  "ti_lookup (putResource r t) ty n = (if ty = prj_tfType r \<and> n = prj_name r then Some r else ti_lookup t ty n)"
  by (auto simp: ti_lookup_def putResource_def update_conv' split: option.splits)

lemma set_update_subset: "set (AList.update k v m) \<subseteq> insert (k, v) (set m)"
  by (induction m) auto

lemma ti_wf_put: "ti_wf t \<Longrightarrow> ti_wf (putResource r t)"
proof -
  assume wf: "ti_wf t"
  have "distinct (map fst (case map_of t (prj_tfType r) of None \<Rightarrow> [] | Some m \<Rightarrow> m))"
    using wf by (auto simp: ti_wf_def split: option.splits dest: map_of_SomeD)
  then have "distinct (map fst (AList.update (prj_name r) r (case map_of t (prj_tfType r) of None \<Rightarrow> [] | Some m \<Rightarrow> m)))"
    by (rule distinct_update)
  moreover have "distinct (map fst (putResource r t))"
    using wf by (simp add: ti_wf_def putResource_def distinct_update)
  ultimately show ?thesis
    using wf set_update_subset unfolding ti_wf_def putResource_def by fastforce
qed

lemma ti_wf_fold: "ti_wf t \<Longrightarrow> ti_wf (fold putResource rs t)"
  by (induction rs arbitrary: t) (simp_all add: ti_wf_put)

lemma ti_lookup_fold: "ti_lookup (fold putResource rs t) ty n = Some r \<Longrightarrow> r \<in> set rs \<or> ti_lookup t ty n = Some r"
proof (induction rs arbitrary: t)
  case (Cons a rs)
  then have "r \<in> set rs \<or> ti_lookup (putResource a t) ty n = Some r" by simp
  then show ?case by (auto simp: ti_lookup_put split: if_splits)
qed simp

lemma ti_resources:
  assumes "ti_wf t"
  shows "r \<in> snd ` set (concat (map snd t)) \<longleftrightarrow> (\<exists>ty n. ti_lookup t ty n = Some r)"
proof
  assume "r \<in> snd ` set (concat (map snd t))"
  then obtain ty m n where m: "(ty, m) \<in> set t" "(n, r) \<in> set m" by auto
  then have "map_of t ty = Some m" "map_of m n = Some r" using assms by (auto simp: ti_wf_def)
  then have "ti_lookup t ty n = Some r" by (simp add: ti_lookup_def)
  then show "\<exists>ty n. ti_lookup t ty n = Some r" by blast
next
  assume "\<exists>ty n. ti_lookup t ty n = Some r"
  then obtain ty m n where "map_of t ty = Some m" "map_of m n = Some r"
    by (auto simp: ti_lookup_def bind_eq_Some_conv)
  then have "(ty, m) \<in> set t" "(n, r) \<in> set m" by (auto dest: map_of_SomeD)
  then show "r \<in> snd ` set (concat (map snd t))" by force
qed

section \<open>Rebuilding\<close>

lemma main_kind:
  assumes "pj_registry e = main_registry" "pj_extractors e = main_extractors"
  shows "extractorFor e ty =
    (if ty \<in> {''oci_core_instance'', ''openstack_compute_instance_v2'', ''talos_machine_configuration_apply''}
     then Some (Some machineExtractor, ''Machine'')
     else if ty = ''terraform_data'' then Some (Some ExtractMachineBinding, ''MachineBinding'') else None)"
  by (simp add: extractorFor_def assms main_registry_def reg_All_def oci_module_def os_module_def metal_module_def
    main_extractors_def)

lemma main_no_panic:
  assumes "pj_registry e = main_registry" "pj_extractors e = main_extractors"
  shows "projectAll e tn serial rs \<noteq> None"
  by (induction rs) (auto simp: projectResource_def main_kind [OF assms] split: option.splits)

lemma projectAll_mem:
  assumes "projectAll e tn serial rs = Some ys" "y \<in> set ys"
  shows "\<exists>r\<in>set rs. \<exists>i\<in>set (sr_instances r). \<exists>ext kind. extractorFor e (sr_type r) = Some (Some ext, kind) \<and>
    y = projectInstance e tn serial kind ext r i"
  using assms
proof (induction rs arbitrary: ys)
  case (Cons r rs)
  then obtain xs zs where xz: "projectResource e tn serial r = Some xs" "projectAll e tn serial rs = Some zs" "ys = xs @ zs"
    by (auto split: option.splits)
  show ?case
  proof (cases "y \<in> set xs")
    case True
    then obtain ext kind i where "extractorFor e (sr_type r) = Some (Some ext, kind)" "i \<in> set (sr_instances r)"
        "y = projectInstance e tn serial kind ext r i"
      using xz(1) by (auto simp: projectResource_def split: option.splits if_splits)
    then show ?thesis by (intro bexI [of _ r] bexI [of _ i] exI [of _ ext] exI [of _ kind]) simp_all
  next
    case False
    then have "y \<in> set zs" using Cons.prems(2) xz(3) by simp
    then show ?thesis using Cons.IH [OF xz(2)] by auto
  qed
qed simp

lemma Rebuild_cases:
  obtains (error) "Rebuild e tn ix = (RebuildError, ix)" "\<And>jx. Rebuild e tn jx = (RebuildError, jx)"
  | (empty) "\<And>jx. Rebuild e tn jx = (Projected 0, proj_Drop tn jx)"
  | (panic) "\<And>jx. Rebuild e tn jx = (RebuildPanic, jx)" "\<exists>serial rs. projectAll e tn serial rs = None"
  | (built) blob st rs where "pj_source e tn = Inr blob" "parseState e blob = Some st"
      "projectAll e tn (pst_serial st) (pst_resources st) = Some rs"
      "\<And>jx. Rebuild e tn jx = (Projected (length rs), jx\<lparr>px_entries := AList.update tn (fold putResource rs []) (px_entries jx),
         px_serial := AList.update tn (pst_serial st) (px_serial jx)\<rparr>)"
proof (cases "pj_source e tn")
  case (Inl x)
  then show ?thesis using error by (simp add: Rebuild_def)
next
  case (Inr blob)
  show ?thesis
  proof (cases "blob = []")
    case True
    then show ?thesis using empty Inr by (simp add: Rebuild_def proj_Drop_def)
  next
    case False
    show ?thesis
    proof (cases "parseState e blob")
      case None
      then show ?thesis using error Inr False by (simp add: Rebuild_def)
    next
      case (Some st)
      show ?thesis
      proof (cases "projectAll e tn (pst_serial st) (pst_resources st)")
        case None
        show ?thesis by (rule panic) (use None Some Inr False in \<open>auto simp: Rebuild_def\<close>)
      next
        case (Some rs)
        show ?thesis
          by (rule built [OF Inr \<open>parseState e blob = Some st\<close> Some])
            (use Some \<open>parseState e blob = Some st\<close> Inr False in \<open>simp add: Rebuild_def\<close>)
      qed
    qed
  qed
qed

definition index_wf :: "proj_index \<Rightarrow> bool" where
  "index_wf ix \<longleftrightarrow> (\<forall>t. ti_wf (px_tenant ix t))"

lemma px_tenant_update: "px_tenant (ix\<lparr>px_entries := AList.update tn x (px_entries ix), px_serial := ser\<rparr>) t =
    (if t = tn then x else px_tenant ix t)"
  by (simp add: px_tenant_def update_conv')

lemma px_tenant_Drop: "px_tenant (proj_Drop tn ix) t = (if t = tn then [] else px_tenant ix t)"
  by (simp add: px_tenant_def proj_Drop_def delete_conv')

lemma ti_wf_Nil [simp]: "ti_wf []"
  by (simp add: ti_wf_def)

lemma Rebuild_wf: "index_wf ix \<Longrightarrow> index_wf (snd (Rebuild e tn ix))"
  by (cases rule: Rebuild_cases [of e tn ix]) (auto simp: index_wf_def px_tenant_update px_tenant_Drop ti_wf_fold)

lemma proj_List_set:
  assumes "index_wf ix"
  shows "r \<in> set (proj_List ix tn kind) \<longleftrightarrow>
    (\<exists>ty n. proj_Lookup ix tn ty n = Some r) \<and> (kind = [] \<or> prj_kind r = kind)"
proof -
  have "(\<exists>ty n. ti_lookup (px_tenant ix tn) ty n = Some r) \<longleftrightarrow> (\<exists>ty n. proj_Lookup ix tn ty n = Some r)"
    by (auto simp: ti_lookup_def proj_Lookup_def px_tenant_def split: option.splits)
  then show ?thesis
    using ti_resources [of "px_tenant ix tn" r] assms by (auto simp: proj_List_def index_wf_def image_iff)
qed

text \<open>
  C23: with the modules and extractors the program registers, rebuilding never panics. It touches no
  other tenant; when it fails the index is kept as it was; when it succeeds the tenant's entries and
  serial do not depend on what the index held before, so rebuilding again changes nothing. A listing is
  sorted by address and holds exactly the entries of its kind.
\<close>

theorem Rebuild_pure:
  assumes "pj_registry e = main_registry" "pj_extractors e = main_extractors" "index_wf ix" "Rebuild e tn ix = (res, ix')"
  shows "res \<noteq> RebuildPanic \<and> (res = RebuildError \<longrightarrow> ix' = ix) \<and>
    (\<forall>t. t \<noteq> tn \<longrightarrow> px_tenant ix' t = px_tenant ix t \<and> proj_Serial ix' t = proj_Serial ix t) \<and>
    (\<forall>jx. fst (Rebuild e tn jx) = res \<and> (res \<noteq> RebuildError \<longrightarrow>
       px_tenant (snd (Rebuild e tn jx)) tn = px_tenant ix' tn \<and> proj_Serial (snd (Rebuild e tn jx)) tn = proj_Serial ix' tn)) \<and>
    (\<forall>kind. sorted (map prj_tfAddress (proj_List ix' tn kind)) \<and>
       set (proj_List ix' tn kind) = {r. (\<exists>ty n. proj_Lookup ix' tn ty n = Some r) \<and> (kind = [] \<or> prj_kind r = kind)})"
proof -
  have l: "sorted (map prj_tfAddress (proj_List ix' tn kind)) \<and>
       set (proj_List ix' tn kind) = {r. (\<exists>ty n. proj_Lookup ix' tn ty n = Some r) \<and> (kind = [] \<or> prj_kind r = kind)}" for kind
    using Rebuild_wf [OF assms(3), of e tn] proj_List_set [of ix' _ tn kind] assms(4)
    by (auto simp: proj_List_def sorted_sortByAddress)
  show ?thesis
  proof (cases rule: Rebuild_cases [of e tn ix])
    case error
    then show ?thesis using assms(4) l by auto
  next
    case empty
    then show ?thesis using assms(4) l [unfolded proj_Lookup_def]
      by (auto simp: px_tenant_Drop proj_Serial_def proj_Drop_def delete_conv' px_tenant_def proj_Lookup_def)
  next
    case panic
    then show ?thesis using main_no_panic [OF assms(1,2)] by blast
  next
    case (built blob st rs)
    then show ?thesis using assms(4) l
      by (auto simp: px_tenant_update proj_Serial_def update_conv')
  qed
qed

section \<open>Binding tokens\<close>

lemma fold_id: "(\<And>x. x \<in> set xs \<Longrightarrow> f x s = s) \<Longrightarrow> fold f xs s = s"
  by (induction xs) auto

lemma binding_spec:
  assumes "fst ` set fs \<subseteq> {''id'', ''input'', ''output'', ''triggers_replace''}"
  shows "ExtractMachineBinding ty (Some fs) = None"
proof -
  have "map_of fs ''machine'' = None" "map_of fs ''token'' = None"
    using assms by (auto simp: map_of_eq_None_iff)
  then show ?thesis by (simp add: ExtractMachineBinding_def map_filter_def)
qed

text \<open>
  C24: no binding token ever reaches a machine. The metal module declares a \<^verbatim>\<open>terraform_data\<close> resource whose
  \<^verbatim>\<open>input\<close> is the pair of machine and token, and OpenTofu records such a resource with the attributes
  \<^verbatim>\<open>id\<close>, \<^verbatim>\<open>input\<close>, \<^verbatim>\<open>output\<close> and \<^verbatim>\<open>triggers_replace\<close>; the extractor looks for \<^verbatim>\<open>machine\<close> and \<^verbatim>\<open>token\<close> beside \<^verbatim>\<open>input\<close> and not
  inside it. After rebuilding from such a state, attaching the tokens leaves the store as it was.
\<close>

theorem metal_tokens_never_bound:
  assumes "pj_registry e = main_registry" "pj_extractors e = main_extractors" "index_wf ix"
    and "pj_source e tn = Inr blob" "blob \<noteq> []" "parseState e blob = Some st"
    and "\<And>r i fs. r \<in> set (pst_resources st) \<Longrightarrow> sr_type r = ''terraform_data'' \<Longrightarrow> i \<in> set (sr_instances r) \<Longrightarrow>
      si_attributes i = Some fs \<Longrightarrow> fst ` set fs \<subseteq> {''id'', ''input'', ''output'', ''triggers_replace''}"
  shows "applyBindingTokens (snd (Rebuild e tn ix)) tn s = s"
proof -
  obtain rs where rs: "projectAll e tn (pst_serial st) (pst_resources st) = Some rs"
    using main_no_panic [OF assms(1,2)] by blast
  have built: "px_tenant (snd (Rebuild e tn ix)) tn = fold putResource rs []"
    using assms(4-6) rs by (simp add: Rebuild_def px_tenant_def update_conv')
  have "bindOne b s = s" if b: "b \<in> set (proj_List (snd (Rebuild e tn ix)) tn ''MachineBinding'')" for b
  proof -
    have "b \<in> set rs" and kind: "prj_kind b = ''MachineBinding''"
      using b ti_resources [OF ti_wf_fold [OF ti_wf_Nil], of b rs] ti_lookup_fold [of rs "[]" _ _ b]
      unfolding proj_List_def built by (auto simp: ti_lookup_def image_iff)
    then obtain r i ext k where "r \<in> set (pst_resources st)" "i \<in> set (sr_instances r)"
        "extractorFor e (sr_type r) = Some (Some ext, k)" "b = projectInstance e tn (pst_serial st) k ext r i"
      using projectAll_mem [OF rs] by blast
    moreover from this kind have "sr_type r = ''terraform_data''" "ext = ExtractMachineBinding"
      by (auto simp: projectInstance_def main_kind [OF assms(1,2)] split: if_splits)
    ultimately have "prj_spec b = None"
      using assms(7) [of r i] binding_spec
      by (cases "si_attributes i") (auto simp: projectInstance_def ExtractMachineBinding_def)
    then show ?thesis by (simp add: bindOne_def stringFromSpec_def firstNonEmpty_def)
  qed
  then show ?thesis unfolding applyBindingTokens_def by (rule fold_id)
qed

section \<open>Machines\<close>

abbreviation listed_machines :: "string \<Rightarrow> store \<Rightarrow> machine list" where
  "listed_machines tn s \<equiv> (case fst (ListMachinesByTenant tn [] s) of Inr (ms, _) \<Rightarrow> ms | Inl _ \<Rightarrow> [])"

definition enrichedRow :: "string \<Rightarrow> proj_resource \<Rightarrow> row \<Rightarrow> bool" where
  "enrichedRow tn r row \<longleftrightarrow> mget (r_labels row) tenantLabel = tn \<and>
     mget (r_labels row) ''rezuscloud.io/role'' = enrichRole r \<and>
     ms_managementAddress (dec_machine_spec (r_spec row)) = enrichAddr r \<and> r_version row = 1"

definition skipped :: "machine list \<Rightarrow> proj_resource \<Rightarrow> bool" where
  "skipped ms r \<longleftrightarrow> enrichName r \<in> set (map (md_name \<circ> m_metadata) ms) \<or>
     (enrichAddr r \<noteq> [] \<and> enrichAddr r \<in> set (map (ms_managementAddress \<circ> m_spec) ms))"

lemma enrichOne_healthy:
  assumes "faults s = []"
  shows "faults (enrichOne tn ms r s) = [] \<and>
    (\<forall>rt n. find_row (enrichOne tn ms r s) rt n = (if rt = ''machine'' \<and> n = enrichName r \<and> find_row s rt n = None \<and> \<not> skipped ms r
       then find_row (enrichOne tn ms r s) ''machine'' (enrichName r) else find_row s rt n)) \<and>
    (skipped ms r \<or> find_row (enrichOne tn ms r s) ''machine'' (enrichName r) \<noteq> None) \<and>
    (find_row s ''machine'' (enrichName r) = None \<longrightarrow> \<not> skipped ms r \<longrightarrow>
       (\<exists>row. find_row (enrichOne tn ms r s) ''machine'' (enrichName r) = Some row \<and> enrichedRow tn r row))"
proof (cases "skipped ms r \<or> find_row s ''machine'' (enrichName r) \<noteq> None")
  case True
  then have "enrichOne tn ms r s = s"
    using assms by (auto simp: enrichOne_def skipped_def CreateMachine_def CreateResource_healthy Let_def)
  then show ?thesis using assms True by auto
next
  case False
  then have none: "find_row s ''machine'' (enrichName r) = None" and sk: "\<not> skipped ms r" by auto
  let ?sp = "enc_machine_spec ((dec_machine_spec JNull)\<lparr>ms_managementAddress := enrichAddr r\<rparr>)"
  let ?st = "enc_machine_status ((dec_machine_status JNull)\<lparr>mst_stage := StageInitializing\<rparr>)"
  let ?row = "new_row ''machine'' (enrichName r) ?sp ?st [(tenantLabel, tn), (''rezuscloud.io/role'', enrichRole r)] [] s"
  have res: "resources (enrichOne tn ms r s) = tbl_ins ?row (resources s)" "faults (enrichOne tn ms r s) = []"
    using assms none sk
    by (auto simp: enrichOne_def skipped_def CreateMachine_def CreateResource_healthy Let_def split: prod.splits sum.splits)
  have get: "find_row (enrichOne tn ms r s) rt n = (if rt = ''machine'' \<and> n = enrichName r then Some ?row else find_row s rt n)" for rt n
    unfolding res(1) using tbl_get_ins [of row_key "resources s" ?row "(rt, n)"] none by auto
  moreover have "enrichedRow tn r ?row"
    by (simp add: enrichedRow_def dec_enc_machine_spec)
  ultimately show ?thesis using res none sk by simp
qed

lemma enrich_fold:
  assumes "faults s = []"
  shows "faults (fold (enrichOne tn ms) rs s) = [] \<and>
    (\<forall>rt n row. find_row s rt n = Some row \<longrightarrow> find_row (fold (enrichOne tn ms) rs s) rt n = Some row) \<and>
    (\<forall>rt n row. find_row s rt n = None \<longrightarrow> find_row (fold (enrichOne tn ms) rs s) rt n = Some row \<longrightarrow>
       rt = ''machine'' \<and> (\<exists>r\<in>set rs. n = enrichName r \<and> \<not> skipped ms r \<and> enrichedRow tn r row)) \<and>
    (\<forall>r\<in>set rs. skipped ms r \<or> find_row (fold (enrichOne tn ms) rs s) ''machine'' (enrichName r) \<noteq> None)"
  using assms
proof (induction rs arbitrary: s)
  case (Cons r rs)
  let ?t = "enrichOne tn ms r s"
  note one = enrichOne_healthy [OF Cons.prems, of tn ms r]
  note IH = Cons.IH [OF one [THEN conjunct1]]
  have keep: "find_row ?t rt n = Some row" if "find_row s rt n = Some row" for rt n row
    using one [THEN conjunct2, THEN conjunct1, rule_format, of rt n] that by (simp split: if_splits)
  have new: "rt = ''machine'' \<and> n = enrichName r \<and> \<not> skipped ms r \<and> enrichedRow tn r row"
    if "find_row s rt n = None" "find_row ?t rt n = Some row" for rt n row
  proof -
    have c: "rt = ''machine'' \<and> n = enrichName r \<and> \<not> skipped ms r"
      using one [THEN conjunct2, THEN conjunct1, rule_format, of rt n] that by (simp split: if_splits)
    with that one [THEN conjunct2, THEN conjunct2, THEN conjunct2] show ?thesis by auto
  qed
  show ?case
  proof (intro conjI allI impI ballI)
    fix rt n row assume "find_row s rt n = Some row"
    then show "find_row (fold (enrichOne tn ms) (r # rs) s) rt n = Some row" using keep IH by simp
  next
    fix rt n row assume a: "find_row s rt n = None" "find_row (fold (enrichOne tn ms) (r # rs) s) rt n = Some row"
    have "rt = ''machine'' \<and> (\<exists>r\<in>set (r # rs). n = enrichName r \<and> \<not> skipped ms r \<and> enrichedRow tn r row)"
    proof (cases "find_row ?t rt n")
      case None
      from IH [THEN conjunct2, THEN conjunct2, THEN conjunct1, rule_format, OF this] a(2) show ?thesis by auto
    next
      case (Some x)
      then have "x = row" using IH [THEN conjunct2, THEN conjunct1, rule_format, OF Some] a(2) by simp
      with new [OF a(1) Some] show ?thesis by simp
    qed
    then show "rt = ''machine''" "\<exists>r\<in>set (r # rs). n = enrichName r \<and> \<not> skipped ms r \<and> enrichedRow tn r row" by blast+
  next
    fix q assume "q \<in> set (r # rs)"
    then consider "q = r" | "q \<in> set rs" by auto
    then show "skipped ms q \<or> find_row (fold (enrichOne tn ms) (r # rs) s) ''machine'' (enrichName q) \<noteq> None"
    proof cases
      case 1
      from one have "skipped ms r \<or> find_row ?t ''machine'' (enrichName r) \<noteq> None" by blast
      then show ?thesis
      proof
        assume "find_row ?t ''machine'' (enrichName r) \<noteq> None"
        then obtain x where "find_row ?t ''machine'' (enrichName r) = Some x" by blast
        from IH [THEN conjunct2, THEN conjunct1, rule_format, OF this] 1 show ?thesis by simp
      qed (simp add: 1)
    next
      case 2
      then show ?thesis using IH by simp
    qed
  qed (use IH in simp)
qed simp

text \<open>
  what an enrichment does to a healthy store when no projected binding carries a token. It never
  touches a row that exists; a row it adds is a machine named after one of the tenant's projected machines,
  at version 1, with the tenant's label, the inferred role and the projected address; and afterwards every
  projected machine is accounted for: a machine of the tenant's first page has its name or its address,
  or some machine row has its name. The name is not scoped to the tenant, so that row may belong to another.
\<close>

theorem enrich_accounts:
  assumes "faults s = []" "\<And>b. b \<in> set (proj_List ix tn ''MachineBinding'') \<Longrightarrow> stringFromSpec (prj_spec b) [''token''] = []"
  shows "faults (enrich ix tn s) = [] \<and>
    (\<forall>rt n row. find_row s rt n = Some row \<longrightarrow> find_row (enrich ix tn s) rt n = Some row) \<and>
    (\<forall>rt n row. find_row s rt n = None \<longrightarrow> find_row (enrich ix tn s) rt n = Some row \<longrightarrow>
       rt = ''machine'' \<and> (\<exists>r\<in>set (proj_List ix tn ''Machine''). n = enrichName r \<and> \<not> skipped (listed_machines tn s) r \<and> enrichedRow tn r row)) \<and>
    (\<forall>r\<in>set (proj_List ix tn ''Machine''). skipped (listed_machines tn s) r \<or> find_row (enrich ix tn s) ''machine'' (enrichName r) \<noteq> None)"
proof -
  obtain ms n where ms: "ListMachinesByTenant tn [] s = (Inr (ms, n), s)"
    by (rule ListMachinesByTenant_healthy [OF assms(1)])
  have bind: "applyBindingTokens ix tn t = t" for t
    unfolding applyBindingTokens_def by (rule fold_id) (simp add: bindOne_def assms(2))
  have run: "enrich ix tn s = fold (enrichOne tn ms) (proj_List ix tn ''Machine'') s"
    by (simp add: enrich_def Let_def ms bind)
  have listed: "listed_machines tn s = ms" by (simp add: ms)
  show ?thesis unfolding run listed by (rule enrich_fold [OF assms(1)])
qed


section \<open>Instances\<close>

text \<open>A state of one metal binding and one OCI instance, as OpenTofu writes it.\<close>

definition ex_tf_state :: json where
  "ex_tf_state = JObj [(''version'', JNum 4), (''serial'', JNum 7), (''resources'', JArr
     [JObj [(''type'', JStr ''terraform_data''), (''name'', JStr ''bind''), (''instances'', JArr
        [JObj [(''attributes'', JObj [(''id'', JStr ''u1''), (''input'', JObj [(''machine'', JStr ''m1''), (''token'', JStr ''t1'')])])]])],
      JObj [(''type'', JStr ''oci_core_instance''), (''name'', JStr ''control''), (''instances'', JArr
        [JObj [(''index_key'', JNum 0), (''attributes'', JObj [(''id'', JStr ''ocid''), (''public_ip'', JStr ''1.2.3.4'')])]])]])]"

definition ex_proj :: proj_env where
  "ex_proj = \<lparr>pj_source = (\<lambda>tn. Inr (if tn = ''acme'' then ''x'' else [])), pj_parse = (\<lambda>_. Some ex_tf_state), pj_text = (\<lambda>_. []),
     pj_registry = main_registry, pj_extractors = main_extractors\<rparr>"

definition ex_index :: proj_index where
  "ex_index = snd (Rebuild ex_proj ''acme'' \<lparr>px_entries = [], px_serial = []\<rparr>)"

lemma ex_index_machines:
  "map prj_name (proj_List ex_index ''acme'' ''Machine'') = [''control-0'']"
  "map enrichAddr (proj_List ex_index ''acme'' ''Machine'') = [''1.2.3.4'']"
  "map prj_spec (proj_List ex_index ''acme'' ''MachineBinding'') = [None]"
  "proj_Serial ex_index ''acme'' = 7"
  by code_simp+


abbreviation no_index :: proj_index where
  "no_index \<equiv> \<lparr>px_entries = [], px_serial = []\<rparr>"

lemma no_index_wf: "index_wf no_index"
  by (simp add: index_wf_def px_tenant_def)

lemma ex_proj_env: "pj_registry ex_proj = main_registry" "pj_extractors ex_proj = main_extractors"
    "pj_source ex_proj ''acme'' = Inr ''x''"
  by (simp_all add: ex_proj_def)

theorem Rebuild_pure_witness:
  "map prj_name (proj_List ex_index ''acme'' ''Machine'') = [''control-0''] \<and>
   px_tenant (snd (Rebuild ex_proj ''acme'' ex_index)) ''acme'' = px_tenant ex_index ''acme'' \<and>
   px_tenant (snd (Rebuild ex_proj ''b'' ex_index)) ''acme'' = px_tenant ex_index ''acme''"
proof -
  have run: "Rebuild ex_proj ''acme'' no_index = (Projected 2, ex_index)"
    unfolding ex_index_def by (rule prod_eqI) (simp_all, code_simp)
  have wf: "index_wf ex_index" using Rebuild_wf [OF no_index_wf] by (simp add: ex_index_def)
  note a = Rebuild_pure [OF ex_proj_env(1,2) no_index_wf run]
  note b = Rebuild_pure [OF ex_proj_env(1,2) wf surjective_pairing, of "''b''", THEN conjunct2, THEN conjunct2, THEN conjunct1, rule_format, of "''acme''"]
  show ?thesis
  proof (intro conjI)
    show "px_tenant (snd (Rebuild ex_proj ''acme'' ex_index)) ''acme'' = px_tenant ex_index ''acme''"
      using a [THEN conjunct2, THEN conjunct2, THEN conjunct2, THEN conjunct1, rule_format, of ex_index] by simp
    show "px_tenant (snd (Rebuild ex_proj ''b'' ex_index)) ''acme'' = px_tenant ex_index ''acme''"
      using b by simp
  qed (rule ex_index_machines)
qed

lemma ex_state_parsed:
  "parseState ex_proj ''x'' = Some \<lparr>pst_serial = 7, pst_resources =
     [\<lparr>sr_type = ''terraform_data'', sr_name = ''bind'', sr_instances =
        [\<lparr>si_indexKey = None, si_attributes = Some [(''id'', JStr ''u1''), (''input'', JObj [(''machine'', JStr ''m1''), (''token'', JStr ''t1'')])]\<rparr>]\<rparr>,
      \<lparr>sr_type = ''oci_core_instance'', sr_name = ''control'', sr_instances =
        [\<lparr>si_indexKey = Some (JNum 0), si_attributes = Some [(''id'', JStr ''ocid''), (''public_ip'', JStr ''1.2.3.4'')]\<rparr>]\<rparr>]\<rparr>"
  by code_simp

theorem metal_tokens_never_bound_witness:
  "map prj_name (proj_List (snd (Rebuild ex_proj ''acme'' no_index)) ''acme'' ''MachineBinding'') = [''bind''] \<and>
   applyBindingTokens (snd (Rebuild ex_proj ''acme'' no_index)) ''acme'' ex_store = ex_store"
proof
  show "applyBindingTokens (snd (Rebuild ex_proj ''acme'' no_index)) ''acme'' ex_store = ex_store"
    by (rule metal_tokens_never_bound [OF ex_proj_env(1,2) no_index_wf ex_proj_env(3) _ ex_state_parsed]) auto
qed code_simp

theorem enrich_accounts_witness:
  "\<exists>row. find_row (enrich ex_index ''acme'' (ex_store\<lparr>resources := []\<rparr>)) ''machine'' ''control-0'' = Some row \<and>
     mget (r_labels row) tenantLabel = ''acme'' \<and> mget (r_labels row) ''rezuscloud.io/role'' = ''controlplane'' \<and>
     ms_managementAddress (dec_machine_spec (r_spec row)) = ''1.2.3.4''"
proof -
  let ?s = "ex_store\<lparr>resources := []\<rparr>"
  obtain r where r: "proj_List ex_index ''acme'' ''Machine'' = [r]" "enrichName r = ''control-0''" "enrichAddr r = ''1.2.3.4''"
    using ex_index_machines(1,2) by (auto simp: map_eq_Cons_conv enrichName_def)
  have role: "enrichRole r = ''controlplane''" unfolding enrichRole_def r by code_simp
  have tok: "stringFromSpec (prj_spec b) [''token''] = []" if "b \<in> set (proj_List ex_index ''acme'' ''MachineBinding'')" for b
    using ex_index_machines(3) that by (auto simp: map_eq_Cons_conv stringFromSpec_def firstNonEmpty_def)
  have e: "faults ?s = []" "listed_machines ''acme'' ?s = []" by code_simp+
  have none: "find_row ?s rt n = None" for rt n by simp
  note en = enrich_accounts [where ix = ex_index and tn = "''acme''", OF e(1) tok, unfolded r(1) e(2)]
  have "\<not> skipped [] r" by (simp add: skipped_def)
  then obtain row where row: "find_row (enrich ex_index ''acme'' ?s) ''machine'' ''control-0'' = Some row"
    using en r(2) by auto
  have "enrichedRow ''acme'' r row"
    using en [THEN conjunct2, THEN conjunct2, THEN conjunct1, rule_format, OF _ none row] by simp
  with row show ?thesis by (auto simp: enrichedRow_def r role)
qed

end
