(* ===== verification/Hostport.thy ===== *)
theory Hostport
  imports Prelude
begin

text \<open>
  Splitting and joining host and port, as the standard library's \<^verbatim>\<open>net\<close> package does it.
\<close>

text \<open>
  \<^verbatim>\<open>net.SplitHostPort\<close>: the port follows the last colon; a host in brackets may hold colons, a bare
  one may not. \<open>None\<close> is the error.
\<close>

definition splitLast :: "char \<Rightarrow> string \<Rightarrow> (string \<times> string) option" where
  "splitLast c s = (if c \<in> set s
     then Some (rev (tl (dropWhile (\<lambda>x. x \<noteq> c) (rev s))), rev (takeWhile (\<lambda>x. x \<noteq> c) (rev s))) else None)"

definition SplitHostPort :: "string \<Rightarrow> (string \<times> string) option" where
  "SplitHostPort s =
     (case splitLast CHR '':'' s of
        None \<Rightarrow> None
      | Some (pre, port) \<Rightarrow>
          if CHR ''['' \<in> set port \<or> CHR '']'' \<in> set port then None
          else
            if hasPrefix s ''[''
            then
              let host = takeWhile (\<lambda>c. c \<noteq> CHR '']'') (drop 1 s) in
              if CHR ''['' \<in> set host \<or> pre \<noteq> ''['' @ host @ '']'' then None else Some (host, port)
            else if CHR '':'' \<in> set pre \<or> CHR ''['' \<in> set pre \<or> CHR '']'' \<in> set pre then None
            else Some (pre, port))"

definition JoinHostPort :: "string \<Rightarrow> string \<Rightarrow> string" where
  "JoinHostPort host port = (if CHR '':'' \<in> set host then ''['' @ host @ '']:'' @ port else host @ '':'' @ port)"

lemma splitLast_append: "c \<notin> set port \<Longrightarrow> splitLast c (pre @ c # port) = Some (pre, port)"
proof -
  assume "c \<notin> set port"
  then have "takeWhile (\<lambda>x. x \<noteq> c) (rev port @ c # rev pre) = rev port" "dropWhile (\<lambda>x. x \<noteq> c) (rev port @ c # rev pre) = c # rev pre"
    by (subst takeWhile_append2 dropWhile_append2; auto)+
  then show ?thesis by (simp add: splitLast_def)
qed

lemma SplitHostPort_Join:
  assumes "set host \<inter> {CHR ''['', CHR '']''} = {}" "set port \<inter> {CHR '':'', CHR ''['', CHR '']''} = {}"
  shows "SplitHostPort (JoinHostPort host port) = Some (host, port)"
proof (cases "CHR '':'' \<in> set host")
  case True
  have "takeWhile (\<lambda>c. c \<noteq> CHR '']'') (host @ '']:'' @ port) = host"
    using assms by (subst takeWhile_append2) auto
  with True assms splitLast_append [of "CHR '':''" port "''['' @ host @ '']''"] show ?thesis
    by (auto simp: SplitHostPort_def JoinHostPort_def hasPrefix_def)
next
  case False
  have "SplitHostPort (host @ '':'' @ port) = Some (host, port)"
    using False assms splitLast_append [of "CHR '':''" port host]
    by (cases host) (auto simp: SplitHostPort_def hasPrefix_def)
  with False show ?thesis by (simp add: JoinHostPort_def)
qed

end
