(* ===== verification/Converge.thy ===== *)
theory Converge
  imports Api_Resources Mgmtlink Hostport
begin

text \<open>
  The convergence engine (\<^verbatim>\<open>internal/converge\<close>): it maps a node that appears on the management link to its
  machine record and pushes the machine's rendered configuration to the node. The node's answer and how long
  it takes, minting a client certificate, reading a file of the node and the text of an address are
  parameters. Time is in milliseconds and passes in deliveries and pauses.
\<close>

section \<open>State\<close>

record deliver_request =
  dr_nodeAddr :: string
  dr_configYAML :: string
  dr_clientConfig :: "string option"

text \<open>A delivery that went out: the address dialled and the request.\<close>

type_synonym delivery = "string \<times> deliver_request"

record converge_env =
  cv_api :: api_env
  cv_text :: "addrport \<Rightarrow> string"
  cv_mint :: "string \<Rightarrow> string option"
  cv_node :: "nat \<Rightarrow> delivery \<Rightarrow> bool \<times> nat"
  cv_read :: "string \<Rightarrow> string \<Rightarrow> string option"
  cv_dialTimeout :: nat
  cv_budget :: nat

record engine_state =
  en_store :: store
  en_addrs :: "(string \<times> string) list"
  en_now :: nat
  en_sent :: "delivery list"

text \<open>The end of a context, if it has one.\<close>

type_synonym context_end = "nat option"

definition ctx_done :: "context_end \<Rightarrow> nat \<Rightarrow> bool" where
  "ctx_done c now = (case c of None \<Rightarrow> False | Some t \<Rightarrow> t \<le> now)"

definition withTimeout :: "context_end \<Rightarrow> nat \<Rightarrow> nat \<Rightarrow> nat" where
  "withTimeout c now d = (case c of None \<Rightarrow> now + d | Some t \<Rightarrow> min t (now + d))"

section \<open>Delivery\<close>

definition apidTarget :: "string \<Rightarrow> string" where
  "apidTarget host = JoinHostPort host (itoa 1024)"

text \<open>
  One \<^verbatim>\<open>ApplyConfiguration\<close>. A call whose context has ended sends nothing; one whose answer would come after
  the end of its context fails there.
\<close>

definition Deliver :: "converge_env \<Rightarrow> nat \<Rightarrow> deliver_request \<Rightarrow> engine_state \<Rightarrow> bool \<times> engine_state" where
  "Deliver env ends rq st =
     (case SplitHostPort (dr_nodeAddr rq) of
        None \<Rightarrow> (False, st)
      | Some (host, _) \<Rightarrow>
          if ends \<le> en_now st then (False, st)
          else
            let sent = (apidTarget host, rq);
                (ok, d) = cv_node env (length (en_sent st)) sent;
                st = st\<lparr>en_sent := en_sent st @ [sent]\<rparr> in
            if en_now st + d \<le> ends then (ok, st\<lparr>en_now := en_now st + d\<rparr>)
            else (False, st\<lparr>en_now := ends\<rparr>))"

definition tenantClientConfig :: "converge_env \<Rightarrow> string \<Rightarrow> engine_state \<Rightarrow> string option \<times> engine_state" where
  "tenantClientConfig env tn st =
     (case LoadTenantSecrets tn (en_store st) of
        (Inl _, s) \<Rightarrow> (None, st\<lparr>en_store := s\<rparr>)
      | (Inr None, s) \<Rightarrow> (None, st\<lparr>en_store := s\<rparr>)
      | (Inr (Some bundle), s) \<Rightarrow> (cv_mint env bundle, st\<lparr>en_store := s\<rparr>))"

section \<open>Records of the link\<close>

definition setConnected :: "string \<Rightarrow> bool \<Rightarrow> engine_state \<Rightarrow> engine_state" where
  "setConnected ident c st =
     (case GetMachine ident (en_store st) of
        (Inr (Some m), s) \<Rightarrow>
          st\<lparr>en_store := snd (UpdateMachineSpec ident (md_resourceVersion (m_metadata m)) ((m_spec m)\<lparr>ms_connected := c\<rparr>)
             (md_labels (m_metadata m)) (md_annotations (m_metadata m)) s)\<rparr>
      | (_, s) \<Rightarrow> st\<lparr>en_store := s\<rparr>)"

definition convergedStatus :: "machine_status \<Rightarrow> machine_status" where
  "convergedStatus x = x\<lparr>mst_configCurrent := True, mst_maintenance := False,
     mst_stage := (if mst_stage x = StageConfiguring then StageReady else mst_stage x)\<rparr>"

definition markConverged :: "string \<Rightarrow> engine_state \<Rightarrow> engine_state" where
  "markConverged ident st =
     (case GetMachine ident (en_store st) of
        (Inr (Some m), s) \<Rightarrow> st\<lparr>en_store := snd (UpdateMachineStatus ident (convergedStatus (m_status m)) s)\<rparr>
      | (_, s) \<Rightarrow> st\<lparr>en_store := s\<rparr>)"

definition markDisconnected :: "string \<Rightarrow> engine_state \<Rightarrow> engine_state" where
  "markDisconnected addr st =
     (case ListMachines [] (en_store st) of
        (Inl _, s) \<Rightarrow> st\<lparr>en_store := s\<rparr>
      | (Inr (ms, _), s) \<Rightarrow>
          (case find (\<lambda>m. ms_connected (m_spec m) \<and> ms_managementAddress (m_spec m) = addr) ms of
             None \<Rightarrow> st\<lparr>en_store := s\<rparr>
           | Some m \<Rightarrow> setConnected (md_name (m_metadata m)) False (st\<lparr>en_store := s\<rparr>)))"

section \<open>Convergence\<close>

definition resolveMachine :: "peer_event \<Rightarrow> engine_state \<Rightarrow> machine option \<times> engine_state" where
  "resolveMachine ev st =
     (case FindMachineByBindingToken (pe_joinToken ev) (en_store st) of
        (Inl _, s) \<Rightarrow> (None, st\<lparr>en_store := s\<rparr>)
      | (Inr m, s) \<Rightarrow> (m, st\<lparr>en_store := s\<rparr>))"

definition machineTenant :: "machine \<Rightarrow> string" where
  "machineTenant m = mget (md_labels (m_metadata m)) tenantLabel"

text \<open>One attempt: render, apply over the maintenance API, then with the tenant's certificate.\<close>

definition converge :: "converge_env \<Rightarrow> nat \<Rightarrow> machine \<Rightarrow> string \<Rightarrow> engine_state \<Rightarrow> bool \<times> engine_state" where
  "converge env ends m addr st =
     (let tn = machineTenant m; name = md_name (m_metadata m) in
      if tn = [] then (False, st)
      else
        (case GenerateMachineConfig (cv_api env) tn name None (en_store st) of
           (Inl _, s) \<Rightarrow> (False, st\<lparr>en_store := s\<rparr>)
         | (Inr res, s) \<Rightarrow>
             (case Deliver env ends \<lparr>dr_nodeAddr = addr, dr_configYAML = mcr_yaml res, dr_clientConfig = None\<rparr> (st\<lparr>en_store := s\<rparr>) of
                (True, st) \<Rightarrow> (True, markConverged name st)
              | (False, st) \<Rightarrow>
                  (case tenantClientConfig env tn st of
                     (None, st) \<Rightarrow> (False, st)
                   | (Some creds, st) \<Rightarrow>
                       (case Deliver env ends \<lparr>dr_nodeAddr = addr, dr_configYAML = mcr_yaml res, dr_clientConfig = Some creds\<rparr> st of
                          (True, st) \<Rightarrow> (True, markConverged name st)
                        | (False, st) \<Rightarrow> (False, st))))))"

datatype converge_result = Converged | ContextEnded | BudgetExhausted | NotConnected | NoMachine

lemma Deliver_now: "Deliver env ends rq st = (ok, st') \<Longrightarrow> en_now st \<le> en_now st'"
  by (auto simp: Deliver_def Let_def split: option.splits prod.splits if_splits)

lemma tenantClientConfig_now: "tenantClientConfig env tn st = (c, st') \<Longrightarrow> en_now st' = en_now st \<and> en_sent st' = en_sent st \<and> en_addrs st' = en_addrs st"
  by (auto simp: tenantClientConfig_def split: prod.splits sum.splits option.splits)

lemma markConverged_now [simp]: "en_now (markConverged name st) = en_now st" "en_sent (markConverged name st) = en_sent st"
    "en_addrs (markConverged name st) = en_addrs st"
  by (simp_all add: markConverged_def split: prod.splits sum.splits option.splits)

lemma setConnected_now [simp]: "en_now (setConnected name c st) = en_now st" "en_sent (setConnected name c st) = en_sent st"
    "en_addrs (setConnected name c st) = en_addrs st"
  by (simp_all add: setConnected_def split: prod.splits sum.splits option.splits)

lemma converge_now: "en_now st \<le> en_now (snd (converge env ends m addr st))"
  unfolding converge_def Let_def
  by (auto split: prod.splits sum.splits bool.splits option.splits dest!: Deliver_now tenantClientConfig_now)

lemma converge_later: "(ok, st') = converge env ends m addr st \<Longrightarrow> en_now st \<le> en_now st'"
  using converge_now [of st env ends m addr] by (metis snd_conv)

text \<open>The retry loop: an attempt, the three tests, a pause of half a second.\<close>

function retryLoop :: "converge_env \<Rightarrow> context_end \<Rightarrow> nat \<Rightarrow> machine \<Rightarrow> string \<Rightarrow> engine_state \<Rightarrow> converge_result \<times> engine_state" where
  "retryLoop env cx deadline m addr st =
     (case converge env (withTimeout cx (en_now st) (cv_dialTimeout env)) m addr st of
        (True, st1) \<Rightarrow> (Converged, st1)
      | (False, st1) \<Rightarrow>
          if ctx_done cx (en_now st1) then (ContextEnded, st1)
          else if deadline < en_now st1 then (BudgetExhausted, st1)
          else retryLoop env cx deadline m addr (st1\<lparr>en_now := en_now st1 + 500\<rparr>))"
  by pat_completeness auto

termination
  by (relation "measure (\<lambda>(env, cx, deadline, m, addr, st). Suc deadline - en_now st)")
    (auto dest!: converge_later)

declare retryLoop.simps [simp del]

definition convergeWithRetry :: "converge_env \<Rightarrow> context_end \<Rightarrow> machine \<Rightarrow> string \<Rightarrow> engine_state \<Rightarrow> converge_result \<times> engine_state" where
  "convergeWithRetry env cx m addr st = retryLoop env cx (en_now st + cv_budget env) m addr st"

section \<open>Entry points\<close>

definition onPeer :: "converge_env \<Rightarrow> context_end \<Rightarrow> peer_event \<Rightarrow> engine_state \<Rightarrow> engine_state" where
  "onPeer env cx ev st =
     (let addr = cv_text env (pe_nodeAddrPort ev) in
      case pe_kind ev of
        PeerDisconnected \<Rightarrow> markDisconnected addr st
      | PeerConnected \<Rightarrow>
          (case resolveMachine ev st of
             (None, st) \<Rightarrow> st
           | (Some m, st) \<Rightarrow>
               let name = md_name (m_metadata m);
                   st = setConnected name True (st\<lparr>en_addrs := AList.update name addr (en_addrs st)\<rparr>) in
               snd (convergeWithRetry env cx m addr st)))"

definition addrOf :: "string \<Rightarrow> engine_state \<Rightarrow> string" where
  "addrOf ident st = (case map_of (en_addrs st) ident of None \<Rightarrow> [] | Some a \<Rightarrow> a)"

definition ConvergeMachine :: "converge_env \<Rightarrow> context_end \<Rightarrow> string \<Rightarrow> engine_state \<Rightarrow> converge_result \<times> engine_state" where
  "ConvergeMachine env cx ident st =
     (if addrOf ident st = [] then (NotConnected, st)
      else
        (case GetMachine ident (en_store st) of
           (Inr (Some m), s) \<Rightarrow>
             convergeWithRetry env (Some (withTimeout cx (en_now st) (cv_budget env))) m (addrOf ident st) (st\<lparr>en_store := s\<rparr>)
         | (_, s) \<Rightarrow> (NoMachine, st\<lparr>en_store := s\<rparr>)))"

definition CurrentNodeConfig :: "converge_env \<Rightarrow> string \<Rightarrow> engine_state \<Rightarrow> string option \<times> engine_state" where
  "CurrentNodeConfig env ident st =
     (if addrOf ident st = [] then (None, st)
      else
        (case GetMachine ident (en_store st) of
           (Inr (Some m), s) \<Rightarrow>
             (case tenantClientConfig env (machineTenant m) (st\<lparr>en_store := s\<rparr>) of
                (None, st) \<Rightarrow> (None, st)
              | (Some creds, st) \<Rightarrow>
                  (case SplitHostPort (addrOf ident st) of
                     None \<Rightarrow> (None, st)
                   | Some (host, _) \<Rightarrow> (cv_read env (apidTarget host) creds, st)))
         | (_, s) \<Rightarrow> (None, st\<lparr>en_store := s\<rparr>)))"

text \<open>The acceptor of binding tokens that \<^verbatim>\<open>Run\<close> installs on the link.\<close>

definition acceptToken :: "store \<Rightarrow> string \<Rightarrow> bool" where
  "acceptToken s token = (case fst (FindMachineByBindingToken token s) of Inr (Some _) \<Rightarrow> True | _ \<Rightarrow> False)"

end
