(* ===== verification/Converge_Props.thy ===== *)
theory Converge_Props
  imports Converge Api_Props
begin

text \<open>
  The convergence engine: the retry loop ends in time, a node only ever gets the configuration of the machine
  its token belongs to, and what a connect event leaves in the store.
\<close>

section \<open>The budget\<close>

lemma Deliver_ends:
  "en_now (snd (Deliver env ends rq st)) \<le> max (en_now st) ends"
  "length (en_sent (snd (Deliver env ends rq st))) \<le> Suc (length (en_sent st))"
  by (auto simp: Deliver_def Let_def split: option.splits prod.splits if_splits)

lemma converge_ends:
  "en_now (snd (converge env ends m addr st)) \<le> max (en_now st) ends \<and>
   length (en_sent (snd (converge env ends m addr st))) \<le> length (en_sent st) + 2"
proof -
  have d: "en_now u \<le> max (en_now t) ends \<and> length (en_sent u) \<le> Suc (length (en_sent t))" if "Deliver env ends rq t = (b, u)" for rq t b u
    using Deliver_ends [of env ends rq t] that by simp_all
  show ?thesis
    unfolding converge_def Let_def
    by (auto split: prod.splits sum.splits bool.splits option.splits dest!: d tenantClientConfig_now)
qed

text \<open>An upper bound on the attempts from \<open>now\<close> on.\<close>

definition attempts_left :: "nat \<Rightarrow> nat \<Rightarrow> nat" where
  "attempts_left deadline now = (if deadline < now then 1 else (deadline - now) div 500 + 2)"

lemma attempts_left_step:
  assumes "now \<le> t" "t \<le> deadline"
  shows "attempts_left deadline (t + 500) < attempts_left deadline now"
proof (cases "deadline < t + 500")
  case False
  then have "(deadline - (t + 500)) + 500 \<le> deadline - now" using assms by simp
  then have "((deadline - (t + 500)) + 500) div 500 \<le> (deadline - now) div 500" by (rule div_le_mono)
  then show ?thesis using False assms by (simp add: attempts_left_def)
qed (use assms in \<open>simp add: attempts_left_def\<close>)

lemma retryLoop_ends:
  assumes "en_now st \<le> deadline + 500"
  shows "en_now (snd (retryLoop env cx deadline m addr st)) \<le> deadline + 500 + cv_dialTimeout env \<and>
    length (en_sent (snd (retryLoop env cx deadline m addr st))) \<le> length (en_sent st) + 2 * attempts_left deadline (en_now st) \<and>
    (fst (retryLoop env cx deadline m addr st) = BudgetExhausted \<longrightarrow> deadline < en_now (snd (retryLoop env cx deadline m addr st)))"
  using assms
proof (induction env cx deadline m addr st rule: retryLoop.induct)
  case (1 env cx deadline m addr st)
  obtain ok u where u: "converge env (withTimeout cx (en_now st) (cv_dialTimeout env)) m addr st = (ok, u)" by fastforce
  have t: "withTimeout cx (en_now st) (cv_dialTimeout env) \<le> en_now st + cv_dialTimeout env"
    by (simp add: withTimeout_def split: option.splits)
  have now: "en_now st \<le> en_now u" "en_now u \<le> en_now st + cv_dialTimeout env" "length (en_sent u) \<le> length (en_sent st) + 2"
    using converge_later [OF u [symmetric]] converge_ends [of env "withTimeout cx (en_now st) (cv_dialTimeout env)" m addr st] t
    by (auto simp: u)
  have one: "1 \<le> attempts_left deadline (en_now st)" by (simp add: attempts_left_def)
  show ?case
  proof (cases "ok \<or> ctx_done cx (en_now u) \<or> deadline < en_now u")
    case True
    then have "snd (retryLoop env cx deadline m addr st) = u"
        "fst (retryLoop env cx deadline m addr st) = BudgetExhausted \<longrightarrow> deadline < en_now u"
      by (auto simp: retryLoop.simps [of env cx deadline m addr st] u split: bool.splits)
    then show ?thesis using now one "1.prems" by simp
  next
    case False
    let ?v = "u\<lparr>en_now := en_now u + 500\<rparr>"
    have run: "retryLoop env cx deadline m addr st = retryLoop env cx deadline m addr ?v"
      using False by (simp add: retryLoop.simps [of env cx deadline m addr st] u)
    have "attempts_left deadline (en_now ?v) < attempts_left deadline (en_now st)"
      using attempts_left_step [OF now(1)] False by simp
    then show ?thesis
      using "1.IH" [OF u [symmetric]] False now unfolding run by simp
  qed
qed

lemma retryLoop_later:
  "en_now st \<le> en_now (snd (retryLoop env cx deadline m addr st)) \<and>
   fst (retryLoop env cx deadline m addr st) \<in> {Converged, ContextEnded, BudgetExhausted} \<and>
   (fst (retryLoop env cx deadline m addr st) = ContextEnded \<longrightarrow> ctx_done cx (en_now (snd (retryLoop env cx deadline m addr st))))"
proof (induction env cx deadline m addr st rule: retryLoop.induct)
  case (1 env cx deadline m addr st)
  obtain ok u where u: "converge env (withTimeout cx (en_now st) (cv_dialTimeout env)) m addr st = (ok, u)" by fastforce
  note IH = "1.IH" [OF u [symmetric]]
  show ?case using converge_later [OF u [symmetric]] IH
    by (auto simp: retryLoop.simps [of env cx deadline m addr st] u split: bool.splits)
qed

text \<open>
  C26: the retry loop ends. Whatever the node, the store and the context do, one run takes at most the
  budget, one more pause and one more attempt, makes at most two deliveries in each of a number of attempts
  that the budget bounds, and ends with a verdict: converged, the context has ended, or the budget is spent.
\<close>

theorem converge_budget:
  assumes "convergeWithRetry env cx m addr st = (r, st')"
  shows "r \<in> {Converged, ContextEnded, BudgetExhausted} \<and> en_now st \<le> en_now st' \<and>
    en_now st' \<le> en_now st + cv_budget env + 500 + cv_dialTimeout env \<and>
    length (en_sent st') \<le> length (en_sent st) + 2 * (cv_budget env div 500 + 2) \<and>
    (r = BudgetExhausted \<longrightarrow> en_now st + cv_budget env < en_now st') \<and> (r = ContextEnded \<longrightarrow> ctx_done cx (en_now st'))"
  using retryLoop_ends [of st "en_now st + cv_budget env" env cx m addr]
    retryLoop_later [of st env cx "en_now st + cv_budget env" m addr] assms
  by (simp add: convergeWithRetry_def attempts_left_def)

section \<open>Who gets which configuration\<close>

text \<open>The secrets of a tenant, and a delivery to a node that is entitled to it.\<close>

definition bundle_of :: "string \<Rightarrow> store \<Rightarrow> string option" where
  "bundle_of tn s = map_option sec_bundle (tbl_get sec_tenant (tenant_secrets s) tn)"

definition entitled :: "converge_env \<Rightarrow> machine \<Rightarrow> string \<Rightarrow> store \<Rightarrow> delivery \<Rightarrow> bool" where
  "entitled env m addr s d \<longleftrightarrow>
     machineTenant m \<noteq> [] \<and>
     (\<exists>host port. SplitHostPort addr = Some (host, port) \<and> fst d = apidTarget host) \<and>
     (\<exists>s1 res. tenant_secrets s1 = tenant_secrets s \<and>
        fst (GenerateMachineConfig (cv_api env) (machineTenant m) (md_name (m_metadata m)) None s1) = Inr res \<and>
        dr_configYAML (snd d) = mcr_yaml res) \<and>
     (\<forall>c. dr_clientConfig (snd d) = Some c \<longrightarrow> Option.bind (bundle_of (machineTenant m) s) (cv_mint env) = Some c)"

definition job :: "converge_env \<Rightarrow> machine \<Rightarrow> string \<Rightarrow> engine_state \<Rightarrow> engine_state \<Rightarrow> bool" where
  "job env m addr st st' \<longleftrightarrow> tenant_secrets (en_store st') = tenant_secrets (en_store st) \<and> en_addrs st' = en_addrs st \<and>
     (\<exists>ds. en_sent st' = en_sent st @ ds \<and> list_all (entitled env m addr (en_store st)) ds)"

lemma entitled_cong: "tenant_secrets t = tenant_secrets s \<Longrightarrow> entitled env m addr t = entitled env m addr s"
  by (auto simp: entitled_def bundle_of_def fun_eq_iff)

lemma job_refl [simp]: "job env m addr st st"
  by (simp add: job_def)

lemma job_trans: "job env m addr st u \<Longrightarrow> job env m addr u v \<Longrightarrow> job env m addr st v"
  unfolding job_def using entitled_cong by (metis append_assoc list_all_append)

lemma job_store: "tenant_secrets s = tenant_secrets (en_store st) \<Longrightarrow> job env m addr st (st\<lparr>en_store := s, en_now := t\<rparr>)"
  by (simp add: job_def)

lemma reads_secrets: "reads s t \<Longrightarrow> tenant_secrets t = tenant_secrets s \<and> resources t = resources s"
  by (auto simp: reads_def)

lemma GetMachine_reads: "GetMachine ident s = (r, t) \<Longrightarrow> reads s t"
  using reads_GetMachine [OF reads_refl, of s ident] by (metis snd_conv)

lemma UpdateResource_secrets: "UpdateResource rt name v sp l a s = (r, t) \<Longrightarrow> tenant_secrets t = tenant_secrets s"
  by (auto simp: UpdateResource_def updateResourceMetadataAndPublish_def sql_def Let_def split: prod.splits if_splits option.splits sum.splits)

lemma UpdateStatus_secrets: "UpdateStatus rt name st s = (r, t) \<Longrightarrow> tenant_secrets t = tenant_secrets s"
  by (auto simp: UpdateStatus_def updateResourceMetadataAndPublish_def sql_def Let_def split: prod.splits if_splits option.splits sum.splits)

lemma GetResource_secrets: "GetResource rt name s = (r, t) \<Longrightarrow> tenant_secrets t = tenant_secrets s"
  by (auto simp: GetResource_def sql_def split: option.splits if_splits)

lemma setConnected_secrets [simp]: "tenant_secrets (en_store (setConnected name c st)) = tenant_secrets (en_store st)"
  by (auto simp: setConnected_def UpdateMachineSpec_def split: prod.splits sum.splits option.splits
      dest!: GetMachine_reads reads_secrets UpdateResource_secrets GetResource_secrets)

lemma markConverged_secrets [simp]: "tenant_secrets (en_store (markConverged name st)) = tenant_secrets (en_store st)"
  by (auto simp: markConverged_def UpdateMachineStatus_def split: prod.splits sum.splits option.splits
      dest!: GetMachine_reads reads_secrets UpdateStatus_secrets GetResource_secrets)

lemma Deliver_job:
  assumes "Deliver env ends rq st = (ok, u)" and "machineTenant m \<noteq> []" and "dr_nodeAddr rq = addr"
    and "fst (GenerateMachineConfig (cv_api env) (machineTenant m) (md_name (m_metadata m)) None s1) = Inr res"
    and "tenant_secrets s1 = tenant_secrets (en_store st)" "dr_configYAML rq = mcr_yaml res"
    and "\<And>c. dr_clientConfig rq = Some c \<Longrightarrow> Option.bind (bundle_of (machineTenant m) (en_store st)) (cv_mint env) = Some c"
  shows "job env m addr st u"
proof -
  have e: "entitled env m addr (en_store st) (apidTarget host, rq)" if "SplitHostPort addr = Some (host, port)" for host port
    unfolding entitled_def using assms(2-7) that by auto
  show ?thesis
    using assms(1,3) e
    by (auto simp: Deliver_def job_def Let_def split: option.splits prod.splits if_splits)
qed

lemma tenantClientConfig_some:
  "tenantClientConfig env tn st = (c, u) \<Longrightarrow> tenant_secrets (en_store u) = tenant_secrets (en_store st) \<and>
     (\<forall>x. c = Some x \<longrightarrow> Option.bind (bundle_of tn (en_store st)) (cv_mint env) = Some x)"
  by (auto simp: tenantClientConfig_def LoadTenantSecrets_def bundle_of_def sql_def split: option.splits if_splits)

lemma tenantClientConfig_job: "tenantClientConfig env tn st = (c, u) \<Longrightarrow> job env m addr st u"
  using tenantClientConfig_now [of env tn st c u] tenantClientConfig_some [of env tn st c u] by (simp add: job_def)

lemma converge_job: "job env m addr st (snd (converge env ends m addr st))"
proof -
  let ?tn = "machineTenant m" and ?name = "md_name (m_metadata m)"
  obtain g s where g: "GenerateMachineConfig (cv_api env) ?tn ?name None (en_store st) = (g, s)" by fastforce
  have s: "tenant_secrets s = tenant_secrets (en_store st)"
    using reads_secrets [OF reads_render [of "en_store st" "cv_api env" ?tn ?name None]] by (simp add: g)
  define st1 where "st1 = st\<lparr>en_store := s\<rparr>"
  have j1: "job env m addr st st1" using job_store [OF s, of env m addr "en_now st"] by (simp add: st1_def)
  show ?thesis
  proof (cases "?tn = [] \<or> (\<exists>e. g = Inl e)")
    case False
    then obtain res where res: "g = Inr res" by (cases g) auto
    have tn: "?tn \<noteq> []" using False by simp
    have gen: "fst (GenerateMachineConfig (cv_api env) ?tn ?name None (en_store st)) = Inr res" by (simp add: g res)
    let ?rq = "\<lambda>c. \<lparr>dr_nodeAddr = addr, dr_configYAML = mcr_yaml res, dr_clientConfig = c\<rparr>"
    obtain ok2 st2 where d1: "Deliver env ends (?rq None) st1 = (ok2, st2)" by fastforce
    have j2: "job env m addr st1 st2"
      by (rule Deliver_job [OF d1 tn _ gen]) (simp_all add: st1_def s)
    obtain c st3 where cc: "tenantClientConfig env ?tn st2 = (c, st3)" by fastforce
    note j3 = tenantClientConfig_job [OF cc, of m addr]
    note sec = tenantClientConfig_some [OF cc]
    have s2: "tenant_secrets (en_store st2) = tenant_secrets (en_store st)" using j2 s by (simp add: job_def st1_def)
    have j4: "job env m addr st3 st4" if "Deliver env ends (?rq (Some x)) st3 = (ok4, st4)" "c = Some x" for x ok4 st4
      by (rule Deliver_job [OF that(1) tn _ gen]) (use sec s2 that(2) in \<open>auto simp: bundle_of_def\<close>)
    have mark: "job env m addr u (markConverged ?name u)" for u by (simp add: job_def)
    note steps = job_trans [OF job_trans [OF j1 j2] mark] job_trans [OF job_trans [OF j1 j2] j3]
      job_trans [OF job_trans [OF job_trans [OF j1 j2] j3] j4]
    show ?thesis
      using tn steps(1,2) steps(3) job_trans [OF steps(3) mark]
      by (auto simp: converge_def Let_def g res st1_def [symmetric] d1 cc split: bool.splits option.splits prod.splits)
  qed (use j1 in \<open>auto simp: converge_def Let_def g st1_def split: sum.splits\<close>)
qed

lemma retryLoop_job: "job env m addr st (snd (retryLoop env cx deadline m addr st))"
proof (induction env cx deadline m addr st rule: retryLoop.induct)
  case (1 env cx deadline m addr st)
  obtain ok u where u: "converge env (withTimeout cx (en_now st) (cv_dialTimeout env)) m addr st = (ok, u)" by fastforce
  have j: "job env m addr st u" using converge_job [of env m addr st] u by (metis snd_conv)
  have j': "job env m addr st (u\<lparr>en_now := en_now u + 500\<rparr>)" using j by (simp add: job_def)
  show ?case using j job_trans [OF j' "1.IH" [OF u [symmetric]]]
    by (auto simp: retryLoop.simps [of env cx deadline m addr st] u split: bool.splits)
qed



section \<open>What a connect event leaves behind\<close>

lemma GenerateMachineConfig_healthy: "faults s = [] \<Longrightarrow> snd (GenerateMachineConfig env tn ident p s) = s"
  by (auto simp: GenerateMachineConfig_def GetMachine_def GetTenant_def GetResource_healthy LoadTenantSecrets_def
      ResolvePatches_def ListTypedByTenant_def ListTyped_def ListResources_healthy newListOptions_def WithLabelSelector_def Let_def
      split: option.splits sum.splits prod.splits)

lemma tenantClientConfig_healthy: "faults (en_store st) = [] \<Longrightarrow> snd (tenantClientConfig env tn st) = st"
  by (simp add: tenantClientConfig_def LoadTenantSecrets_def split: option.splits)

lemma Deliver_store [simp]: "en_store (snd (Deliver env ends rq st)) = en_store st"
  by (simp add: Deliver_def Let_def split: option.splits prod.splits)

text \<open>The two changes of a machine row.\<close>

definition connectedRow :: "int \<Rightarrow> row \<Rightarrow> row" where
  "connectedRow now r = r\<lparr>r_spec := enc_machine_spec ((dec_machine_spec (r_spec r))\<lparr>ms_connected := True\<rparr>),
     r_updated := now, r_version := r_version r + 1\<rparr>"

definition convergedRow :: "int \<Rightarrow> row \<Rightarrow> row" where
  "convergedRow now r = r\<lparr>r_status := enc_machine_status (convergedStatus (dec_machine_status (r_status r))), r_updated := now\<rparr>"

lemma row_key_changes [simp]: "row_key (connectedRow t r) = row_key r" "row_key (convergedRow t r) = row_key r"
  by (simp_all add: connectedRow_def convergedRow_def)

lemma setConnected_healthy:
  assumes "faults (en_store st) = []" "find_row (en_store st) ''machine'' name = Some r"
  defines "s' \<equiv> en_store (setConnected name True st)"
  shows "faults s' = [] \<and> clock s' = clock (en_store st) \<and>
    find_row s' rt n = (if (rt, n) = (''machine'', name) then Some (connectedRow (clock (en_store st)) r) else find_row (en_store st) rt n)"
  using assms(1,2) unfolding s'_def
  by (auto simp: setConnected_def GetMachine_def GetResource_healthy UpdateMachineSpec_def UpdateResource_healthy Let_def mk_machine_def
      connectedRow_def split: prod.splits)

lemma markConverged_healthy:
  assumes "faults (en_store st) = []" "find_row (en_store st) ''machine'' name = Some r"
  defines "s' \<equiv> en_store (markConverged name st)"
  shows "faults s' = [] \<and> clock s' = clock (en_store st) \<and>
    find_row s' rt n = (if (rt, n) = (''machine'', name) then Some (convergedRow (clock (en_store st)) r) else find_row (en_store st) rt n)"
  using assms(1,2) unfolding s'_def
  by (auto simp: markConverged_def GetMachine_def GetResource_healthy UpdateMachineStatus_def UpdateStatus_healthy Let_def mk_machine_def
      convergedRow_def split: prod.splits)


definition rows_after :: "string \<Rightarrow> bool \<Rightarrow> store \<Rightarrow> store \<Rightarrow> bool" where
  "rows_after name c s s' \<longleftrightarrow> faults s' = [] \<and> clock s' = clock s \<and>
     (\<forall>rt n. find_row s' rt n = (if (rt, n) = (''machine'', name) \<and> c then map_option (convergedRow (clock s)) (find_row s rt n) else find_row s rt n))"

definition last_accepted :: "converge_env \<Rightarrow> engine_state \<Rightarrow> bool" where
  "last_accepted env st \<longleftrightarrow> en_sent st \<noteq> [] \<and> fst (cv_node env (length (en_sent st) - 1) (last (en_sent st)))"

lemma Deliver_accepted: "Deliver env ends rq st = (True, u) \<Longrightarrow> last_accepted env u"
  by (auto simp: Deliver_def last_accepted_def Let_def split: option.splits prod.splits if_splits)

lemma last_accepted_mark [simp]: "last_accepted env (markConverged name st) = last_accepted env st"
  by (simp add: last_accepted_def)

lemma converge_rows:
  assumes "faults (en_store st) = []" "find_row (en_store st) ''machine'' (md_name (m_metadata m)) = Some r"
    and "converge env ends m addr st = (ok, u)"
  shows "rows_after (md_name (m_metadata m)) ok (en_store st) (en_store u) \<and> (ok \<longrightarrow> last_accepted env u)"
proof -
  let ?tn = "machineTenant m" and ?name = "md_name (m_metadata m)"
  have same: "rows_after ?name False (en_store st) (en_store st)" using assms(1) by (simp add: rows_after_def)
  have mark: "rows_after ?name True (en_store st) (en_store (markConverged ?name v))" if "en_store v = en_store st" for v
    using markConverged_healthy [of v ?name r] assms(1,2) that by (simp add: rows_after_def)
  obtain g s where g: "GenerateMachineConfig (cv_api env) ?tn ?name None (en_store st) = (g, s)" by fastforce
  have s: "s = en_store st" using GenerateMachineConfig_healthy [OF assms(1), of "cv_api env" ?tn ?name None] by (simp add: g)
  show ?thesis
  proof (cases "?tn = [] \<or> (\<exists>e. g = Inl e)")
    case True
    then show ?thesis using assms(3) same by (auto simp: converge_def Let_def g [unfolded s] split: if_splits)
  next
    case False
    then obtain res where res: "g = Inr res" by (cases g) auto
    let ?rq = "\<lambda>c. \<lparr>dr_nodeAddr = addr, dr_configYAML = mcr_yaml res, dr_clientConfig = c\<rparr>"
    obtain ok2 st2 where d1: "Deliver env ends (?rq None) st = (ok2, st2)" by fastforce
    obtain c st3 where cc: "tenantClientConfig env ?tn st2 = (c, st3)" by fastforce
    have s2: "en_store st2 = en_store st" using Deliver_store [of env ends "?rq None" st] d1 by simp
    have s3: "st3 = st2" using tenantClientConfig_healthy [of st2 env ?tn] assms(1) cc s2 by simp
    have s4: "en_store w = en_store st" if "Deliver env ends (?rq (Some x)) st2 = (b, w)" for x b w
      using Deliver_store [of env ends "?rq (Some x)" st2] that s2 by simp
    have acc: "ok2 \<longrightarrow> last_accepted env st2" using Deliver_accepted d1 by (cases ok2) auto
    show ?thesis
      using assms(3) False same mark [OF s2] mark [OF s4] s2 s4 acc Deliver_accepted [of env ends _ _]
      by (auto simp: converge_def Let_def g [unfolded s res] d1 cc s3 split: prod.splits bool.splits option.splits)
  qed
qed

lemma rows_after_trans:
  "rows_after name False s t \<Longrightarrow> rows_after name c t u \<Longrightarrow> rows_after name c s u"
  by (simp add: rows_after_def)

lemma retryLoop_rows:
  assumes "faults (en_store st) = []" "find_row (en_store st) ''machine'' (md_name (m_metadata m)) = Some r"
    and "retryLoop env cx deadline m addr st = (v, u)"
  shows "rows_after (md_name (m_metadata m)) (v = Converged) (en_store st) (en_store u) \<and> (v = Converged \<longrightarrow> last_accepted env u)"
  using assms
proof (induction env cx deadline m addr st rule: retryLoop.induct)
  case (1 env cx deadline m addr st)
  let ?name = "md_name (m_metadata m)"
  obtain ok w where w: "converge env (withTimeout cx (en_now st) (cv_dialTimeout env)) m addr st = (ok, w)" by fastforce
  note one = converge_rows [OF "1.prems"(1,2) w]
  show ?case
  proof (cases "ok \<or> ctx_done cx (en_now w) \<or> deadline < en_now w")
    case True
    then show ?thesis using one "1.prems"(3)
      by (auto simp: retryLoop.simps [of env cx deadline m addr st] w split: bool.splits if_splits)
  next
    case False
    let ?x = "w\<lparr>en_now := en_now w + 500\<rparr>"
    have run: "retryLoop env cx deadline m addr ?x = (v, u)"
      using False "1.prems"(3) by (simp add: retryLoop.simps [of env cx deadline m addr st] w)
    have r1: "rows_after ?name False (en_store st) (en_store ?x)" using one False by simp
    then have "faults (en_store ?x) = []" "find_row (en_store ?x) ''machine'' ?name = Some r"
      using "1.prems"(2) by (simp_all add: rows_after_def)
    from "1.IH" [OF w [symmetric] _ _ _ this run] False r1 show ?thesis
      using rows_after_trans [OF r1] by blast
  qed
qed

lemma find_in_set: "find P xs = Some x \<Longrightarrow> x \<in> set xs"
  by (auto simp: find_Some_iff)

lemma FindMachine_row:
  assumes "faults s = []" "store_inv s" "fst (FindMachineByBindingToken token s) = Inr (Some m)"
  obtains r where "find_row s ''machine'' (md_name (m_metadata m)) = Some r" "m = mk_machine (meta_of r, r_spec r, r_status r)"
proof -
  have "\<exists>r\<in>set (resources s). r_type r = ''machine'' \<and> m = mk_machine (meta_of r, r_spec r, r_status r)"
    using assms(1,3)
    by (auto simp: FindMachineByBindingToken_def ListMachines_def newListOptions_def ListResources_healthy page_def listed_def
        Let_def split: if_splits dest!: find_in_set in_set_takeD) blast
  then obtain r where r: "r \<in> set (resources s)" "r_type r = ''machine''" "m = mk_machine (meta_of r, r_spec r, r_status r)" by blast
  moreover have "find_row s ''machine'' (r_name r) = Some r"
    using assms(2) r(1,2) by (simp add: store_inv_def tbl_get_Some)
  ultimately show thesis using that by (simp add: mk_machine_def)
qed

lemma converge_accepts:
  assumes "machineTenant m \<noteq> []" "SplitHostPort addr \<noteq> None" "en_now st < ends"
    and "fst (GenerateMachineConfig (cv_api env) (machineTenant m) (md_name (m_metadata m)) None (en_store st)) = Inr res"
    and "\<And>k d. fst (cv_node env k d) \<and> en_now st + snd (cv_node env k d) \<le> ends"
  shows "fst (converge env ends m addr st)"
proof -
  obtain s where g: "GenerateMachineConfig (cv_api env) (machineTenant m) (md_name (m_metadata m)) None (en_store st) = (Inr res, s)"
    using assms(4) by (metis prod.collapse)
  let ?rq = "\<lparr>dr_nodeAddr = addr, dr_configYAML = mcr_yaml res, dr_clientConfig = None\<rparr>"
  obtain host port where h: "SplitHostPort addr = Some (host, port)" using assms(2) by auto
  have "fst (Deliver env ends ?rq (st\<lparr>en_store := s\<rparr>))"
    using assms(3) assms(5) [of "length (en_sent st)" "(apidTarget host, ?rq)"] by (auto simp: Deliver_def h Let_def split: prod.splits)
  then obtain u where "Deliver env ends ?rq (st\<lparr>en_store := s\<rparr>) = (True, u)" by (metis prod.collapse)
  with assms(1) show ?thesis by (simp add: converge_def Let_def g)
qed

text \<open>
  what a connect event does to a healthy store. The machine of the presented token is marked connected
  at a new version and the node's address is remembered; if the run converged, its status says that the
  configuration is current and maintenance is over, and \<^verbatim>\<open>configuring\<close> has become \<^verbatim>\<open>ready\<close>; no other row changes.
  It only counts as converged when the last delivery was accepted, and it does converge when the rendering
  succeeds and the node accepts within the timeout.
\<close>

theorem connect_outcome:
  fixes env :: converge_env
  assumes "faults (en_store st) = []" "store_inv (en_store st)" "pe_kind ev = PeerConnected"
    and "fst (FindMachineByBindingToken (pe_joinToken ev) (en_store st)) = Inr (Some m)"
  defines "name \<equiv> md_name (m_metadata m)" and "addr \<equiv> cv_text env (pe_nodeAddrPort ev)" and "now \<equiv> clock (en_store st)"
  shows "\<exists>r c. find_row (en_store st) ''machine'' name = Some r \<and> addrOf name (onPeer env cx ev st) = addr \<and>
    (\<forall>rt n. find_row (en_store (onPeer env cx ev st)) rt n =
       (if (rt, n) = (''machine'', name) then Some (if c then convergedRow now (connectedRow now r) else connectedRow now r)
        else find_row (en_store st) rt n)) \<and>
    (c \<longrightarrow> last_accepted env (onPeer env cx ev st)) \<and>
    (machineTenant m \<noteq> [] \<and> SplitHostPort addr \<noteq> None \<and> 0 < cv_dialTimeout env \<and> cx = None \<and>
       (\<exists>res. fst (GenerateMachineConfig (cv_api env) (machineTenant m) name None (en_store (setConnected name True st))) = Inr res) \<and>
       (\<forall>k d. fst (cv_node env k d) \<and> snd (cv_node env k d) \<le> cv_dialTimeout env) \<longrightarrow> c)"
proof -
  let ?f = "FindMachineByBindingToken (pe_joinToken ev) (en_store st)"
  obtain r where r: "find_row (en_store st) ''machine'' name = Some r" "m = mk_machine (meta_of r, r_spec r, r_status r)"
    using FindMachine_row [OF assms(1,2,4)] unfolding name_def by blast
  have f: "?f = (Inr (Some m), en_store st)"
    using assms(1,4) by (auto simp: FindMachineByBindingToken_def ListMachines_def newListOptions_def ListResources_healthy prod_eq_iff)
  define st1 where "st1 = setConnected name True (st\<lparr>en_addrs := AList.update name addr (en_addrs st)\<rparr>)"
  have store1: "en_store st1 = en_store (setConnected name True st)"
    by (simp add: st1_def setConnected_def split: prod.splits sum.splits option.splits)
  note h = setConnected_healthy [OF assms(1) r(1), folded store1]
  obtain v u where v: "retryLoop env cx (en_now st1 + cv_budget env) m addr st1 = (v, u)" by fastforce
  have run: "onPeer env cx ev st = u"
    using assms(3) v by (simp add: onPeer_def resolveMachine_def f Let_def st1_def convergeWithRetry_def name_def addr_def)
  have rows: "rows_after name (v = Converged) (en_store st1) (en_store u)" "v = Converged \<longrightarrow> last_accepted env u"
    using retryLoop_rows [OF _ _ v] h unfolding name_def by auto
  have "en_addrs u = en_addrs st1" using retryLoop_job [of env m addr st1 cx "en_now st1 + cv_budget env"] by (simp add: job_def v)
  then have a: "addrOf name u = addr" by (simp add: st1_def addrOf_def update_conv')
  have "v = Converged" if "machineTenant m \<noteq> []" "SplitHostPort addr \<noteq> None" "0 < cv_dialTimeout env" "cx = None"
      "fst (GenerateMachineConfig (cv_api env) (machineTenant m) name None (en_store st1)) = Inr res"
      "\<And>k d. fst (cv_node env k d) \<and> snd (cv_node env k d) \<le> cv_dialTimeout env" for res
  proof -
    have "fst (converge env (withTimeout cx (en_now st1) (cv_dialTimeout env)) m addr st1)"
      by (rule converge_accepts) (use that in \<open>auto simp: withTimeout_def name_def\<close>)
    then show ?thesis using v by (auto simp: retryLoop.simps [of env cx "en_now st1 + cv_budget env" m addr st1] split: prod.splits bool.splits)
  qed
  with r(1) a rows h show ?thesis
    unfolding run by (intro exI [of _ r] exI [of _ "v = Converged"]) (auto simp: rows_after_def now_def store1)
qed


section \<open>Instances\<close>

text \<open>One tenant with secrets and one machine with a binding token; a node that accepts every delivery after 10 ms.\<close>

definition ex_conv_store :: store where
  "ex_conv_store = ex_store\<lparr>resources :=
     [(ex_row ''tenant'' ''acme'' [])\<lparr>r_spec := JObj [(''kubernetesVersion'', JStr ''1.32''), (''talosVersion'', JStr ''1.9''), (''controlPlaneEndpoint'', JStr ''https://k'')]\<rparr>,
      (ex_row ''machine'' ''m1'' [(tenantLabel, ''acme'')])\<lparr>r_spec := JObj [(''bindingToken'', JStr ''tok'')], r_status := JObj [(''stage'', JStr ''configuring'')]\<rparr>],
     tenant_secrets := [\<lparr>sec_tenant = ''acme'', sec_bundle = ''{}'', sec_created = 1\<rparr>]\<rparr>"

definition ex_conv :: converge_env where
  "ex_conv = \<lparr>cv_api = ex_api, cv_text = (\<lambda>_. ''[fd00::2]:50000''), cv_mint = (\<lambda>b. Some (''cert of '' @ b)), cv_node = (\<lambda>_ _. (True, 10)),
     cv_read = (\<lambda>_ _. None), cv_dialTimeout = 3000, cv_budget = 1000\<rparr>"

definition ex_peer :: "string \<Rightarrow> peer_event" where
  "ex_peer token = \<lparr>pe_kind = PeerConnected, pe_nodeUUID = ''u'', pe_joinToken = token, pe_nodeAddrPort = (V6 (replicate 16 0), 0)\<rparr>"

definition ex_eng :: engine_state where
  "ex_eng = \<lparr>en_store = ex_conv_store, en_addrs = [], en_now = 0, en_sent = []\<rparr>"

lemma ex_conv_find: "fst (FindMachineByBindingToken ''tok'' ex_conv_store) = Inr (Some (mk_machine (meta_of (resources ex_conv_store ! 1), r_spec (resources ex_conv_store ! 1), r_status (resources ex_conv_store ! 1))))"
  by code_simp

lemma ex_conv_render: "map_sum (\<lambda>_. ()) mcr_yaml (fst (GenerateMachineConfig ex_api ''acme'' ''m1'' None (en_store (setConnected ''m1'' True ex_eng)))) = Inr ''worker''"
  by code_simp

theorem converge_budget_witness:
  "\<exists>m. machineTenant m = [] \<and> fst (convergeWithRetry ex_conv None m ''x'' ex_eng) = BudgetExhausted \<and>
     1000 < en_now (snd (convergeWithRetry ex_conv None m ''x'' ex_eng)) \<and> en_now (snd (convergeWithRetry ex_conv None m ''x'' ex_eng)) \<le> 4500"
proof -
  let ?m = "mk_machine (meta_of (ex_row ''machine'' ''m9'' []), JObj [], JObj [])"
  obtain r u where run: "convergeWithRetry ex_conv None ?m ''x'' ex_eng = (r, u)" by fastforce
  have "fst (convergeWithRetry ex_conv None ?m ''x'' ex_eng) = BudgetExhausted" by code_simp
  moreover have "machineTenant ?m = []" by code_simp
  moreover have "en_now ex_eng = 0" "cv_budget ex_conv = 1000" "cv_dialTimeout ex_conv = 3000" by (simp_all add: ex_eng_def ex_conv_def)
  ultimately show ?thesis using converge_budget [OF run] by (intro exI [of _ ?m]) (simp add: run)
qed


lemma ex_conv_inv: "store_inv ex_conv_store"
  by (simp add: ex_conv_store_def store_inv_def tbl_wf_def row_ok_def) (simp add: ex_store_def)

theorem connect_outcome_witness:
  "\<exists>row. find_row (en_store (onPeer ex_conv None (ex_peer ''tok'') ex_eng)) ''machine'' ''m1'' = Some row \<and> r_version row = 2 \<and>
     ms_connected (dec_machine_spec (r_spec row)) \<and> mst_stage (dec_machine_status (r_status row)) = StageReady \<and>
     mst_configCurrent (dec_machine_status (r_status row))"
proof -
  let ?r = "resources ex_conv_store ! 1"
  let ?m = "mk_machine (meta_of ?r, r_spec ?r, r_status ?r)"
  have f: "faults (en_store ex_eng) = []" "store_inv (en_store ex_eng)" "pe_kind (ex_peer ''tok'') = PeerConnected"
    by (simp_all add: ex_eng_def ex_peer_def ex_conv_inv) (simp add: ex_conv_store_def)
  have find: "fst (FindMachineByBindingToken (pe_joinToken (ex_peer ''tok'')) (en_store ex_eng)) = Inr (Some ?m)"
    by (simp only: ex_peer_def ex_eng_def peer_event.select_convs engine_state.select_convs ex_conv_find)
  have n: "md_name (m_metadata ?m) = ''m1''" "machineTenant ?m = ''acme''" "find_row (en_store ex_eng) ''machine'' ''m1'' = Some ?r"
    by code_simp+
  have ok: "machineTenant ?m \<noteq> []" "SplitHostPort (cv_text ex_conv (pe_nodeAddrPort (ex_peer ''tok''))) \<noteq> None" "0 < cv_dialTimeout ex_conv"
    by code_simp+
  have gen: "\<exists>res. fst (GenerateMachineConfig (cv_api ex_conv) (machineTenant ?m) ''m1'' None (en_store (setConnected ''m1'' True ex_eng))) = Inr res"
    using ex_conv_render unfolding n(2) ex_conv_def converge_env.select_convs
    by (cases "fst (GenerateMachineConfig ex_api ''acme'' ''m1'' None (en_store (setConnected ''m1'' True ex_eng)))") auto
  have acc: "\<forall>k d. fst (cv_node ex_conv k d) \<and> snd (cv_node ex_conv k d) \<le> cv_dialTimeout ex_conv" by (simp add: ex_conv_def)
  obtain c where c: "find_row (en_store (onPeer ex_conv None (ex_peer ''tok'') ex_eng)) ''machine'' ''m1'' =
      Some (if c then convergedRow (clock (en_store ex_eng)) (connectedRow (clock (en_store ex_eng)) ?r) else connectedRow (clock (en_store ex_eng)) ?r)" "c"
    using connect_outcome [OF f find, of ex_conv None] ok gen acc unfolding n by auto
  moreover have "r_version ?r = 1" "mst_stage (dec_machine_status (r_status ?r)) = StageConfiguring" by code_simp+
  ultimately show ?thesis
    by (simp add: connectedRow_def convergedRow_def convergedStatus_def dec_enc_machine_spec dec_enc_machine_status)
qed

end
