(* ===== verification/Calendar.thy ===== *)
theory Calendar
  imports Prelude
begin

text \<open>
  Calendar times and their RFC 3339 text, as the standard library's \<^verbatim>\<open>time\<close> package prints them, and how far the
  order of the texts is the order of the times.
\<close>

section \<open>Calendar times\<close>

record rfc_time =
  rt_year :: nat
  rt_month :: nat
  rt_day :: nat
  rt_hour :: nat
  rt_minute :: nat
  rt_second :: nat
  rt_nanos :: nat
  rt_offset :: int

text \<open>Decimal digits to a fixed width, and \<^verbatim>\<open>Format(time.RFC3339Nano)\<close>, whose fraction drops trailing zeros.\<close>

fun pad :: "nat \<Rightarrow> nat \<Rightarrow> string" where
  "pad 0 n = []"
| "pad (Suc w) n = pad w (n div 10) @ [digitChar (n mod 10)]"

definition rt_stamp :: "rfc_time \<Rightarrow> string" where
  "rt_stamp t = pad 4 (rt_year t) @ ''-'' @ pad 2 (rt_month t) @ ''-'' @ pad 2 (rt_day t) @ ''T'' @
     pad 2 (rt_hour t) @ '':'' @ pad 2 (rt_minute t) @ '':'' @ pad 2 (rt_second t)"

definition rt_fraction :: "rfc_time \<Rightarrow> string" where
  "rt_fraction t = (if rt_nanos t = 0 then [] else ''.'' @ rev (dropWhile (\<lambda>c. c = CHR ''0'') (rev (pad 9 (rt_nanos t)))))"

definition rt_zone :: "rfc_time \<Rightarrow> string" where
  "rt_zone t = (if rt_offset t = 0 then ''Z''
     else let m = nat (abs (rt_offset t)) in (if rt_offset t < 0 then ''-'' else ''+'') @ pad 2 (m div 60) @ '':'' @ pad 2 (m mod 60))"

definition FormatNano :: "rfc_time \<Rightarrow> string" where
  "FormatNano t = rt_stamp t @ rt_fraction t @ rt_zone t"

section \<open>Timestamps as text\<close>

lemma less_append_eq:
  fixes xs ys :: string
  assumes "length xs = length ys"
  shows "xs @ a < ys @ b \<longleftrightarrow> xs < ys \<or> xs = ys \<and> a < b"
  using assms by (induction xs ys rule: list_induct2) auto

lemma digitChar_less: "a < 10 \<Longrightarrow> b < 10 \<Longrightarrow> digitChar a < digitChar b \<longleftrightarrow> a < b"
  by (simp add: digitChar_def less_char_def)

lemma length_pad [simp]: "length (pad w n) = w"
  by (induction w n rule: pad.induct) auto

lemma digitChar_inject: "a < 10 \<Longrightarrow> b < 10 \<Longrightarrow> digitChar a = digitChar b \<longleftrightarrow> a = b"
  using digitChar_less [of a b] digitChar_less [of b a] by (metis less_irrefl linorder_neqE_nat)

lemma pad_inject: "n < 10 ^ w \<Longrightarrow> m < 10 ^ w \<Longrightarrow> pad w n = pad w m \<longleftrightarrow> n = m"
proof (induction w arbitrary: n m)
  case (Suc w)
  have "n div 10 < 10 ^ w" "m div 10 < 10 ^ w" using Suc.prems by (simp_all add: less_mult_imp_div_less mult.commute)
  with Suc.IH show ?case
    by (simp add: digitChar_inject) (metis div_mult_mod_eq)
qed simp

lemma digits_less: "r < 10 \<Longrightarrow> s < 10 \<Longrightarrow> 10 * q + r < 10 * p + s \<longleftrightarrow> q < p \<or> q = p \<and> r < (s :: nat)"
  by auto

lemma pad_less: "n < 10 ^ w \<Longrightarrow> m < 10 ^ w \<Longrightarrow> pad w n < pad w m \<longleftrightarrow> n < m"
proof (induction w arbitrary: n m)
  case (Suc w)
  have b: "n div 10 < 10 ^ w" "m div 10 < 10 ^ w" using Suc.prems by (simp_all add: less_mult_imp_div_less mult.commute)
  have "n < m \<longleftrightarrow> n div 10 < m div 10 \<or> n div 10 = m div 10 \<and> n mod 10 < m mod 10"
    using digits_less [of "n mod 10" "m mod 10" "n div 10" "m div 10"] by simp
  then show ?case
    using Suc.IH [OF b] pad_inject [OF b] by (simp add: less_append_eq digitChar_less)
qed simp

text \<open>The fields of a time in order of weight, each within its width.\<close>

definition civil :: "rfc_time \<Rightarrow> nat list" where
  "civil t = [rt_year t, rt_month t, rt_day t, rt_hour t, rt_minute t, rt_second t]"

definition rt_ok :: "rfc_time \<Rightarrow> bool" where
  "rt_ok t \<longleftrightarrow> rt_year t < 10000 \<and> rt_month t \<le> 12 \<and> rt_day t \<le> 31 \<and> rt_hour t < 24 \<and> rt_minute t < 60 \<and> rt_second t < 60"

lemma length_rt_stamp: "length (rt_stamp t) = 19"
  by (simp add: rt_stamp_def)

lemma rt_stamp_less:
  assumes "rt_ok t" "rt_ok u"
  shows "rt_stamp t < rt_stamp u \<longleftrightarrow> civil t < civil u"
proof -
  have w: "n < 10 ^ 2" if "n \<le> 99" for n :: nat using that by simp
  have y: "pad 4 (rt_year t) < pad 4 (rt_year u) \<longleftrightarrow> rt_year t < rt_year u" "pad 4 (rt_year t) = pad 4 (rt_year u) \<longleftrightarrow> rt_year t = rt_year u"
    using assms by (auto simp: rt_ok_def intro!: pad_less pad_inject)
  have p: "pad 2 a < pad 2 b \<longleftrightarrow> a < b" "pad 2 a = pad 2 b \<longleftrightarrow> a = b" if "a \<le> 99" "b \<le> 99" for a b
    using that by (auto intro!: pad_less pad_inject)
  show ?thesis
    using assms unfolding rt_stamp_def civil_def rt_ok_def
    by (simp add: less_append_eq y p)
qed


lemma FormatNano_less:
  assumes "rt_ok t" "rt_ok u" "civil t \<noteq> civil u"
  shows "FormatNano t < FormatNano u \<longleftrightarrow> civil t < civil u"
proof -
  have "rt_stamp t \<noteq> rt_stamp u"
    using assms rt_stamp_less [OF assms(1,2)] rt_stamp_less [OF assms(2,1)] by (metis less_irrefl linorder_neqE)
  then show ?thesis
    using rt_stamp_less [OF assms(1,2)] by (simp add: FormatNano_def less_append_eq length_rt_stamp)
qed

lemma FormatNano_le:
  assumes "rt_ok t" "rt_ok u" "civil t \<noteq> civil u"
  shows "FormatNano t \<le> FormatNano u \<longleftrightarrow> civil t < civil u"
  using FormatNano_less [OF assms] FormatNano_less [OF assms(2,1)] assms(3) by (metis antisym_conv2 leI less_asym less_irrefl linorder_neqE)

section \<open>Instants\<close>

text \<open>Days since 1970 in the proleptic Gregorian calendar, seconds since 1970 of a time with its offset taken into account,
  and the UTC time of an instant in nanoseconds.\<close>

definition daysFromCivil :: "int \<Rightarrow> int \<Rightarrow> int \<Rightarrow> int" where
  "daysFromCivil y m d =
     (let y = (if m \<le> 2 then y - 1 else y); era = y div 400; yoe = y - era * 400;
          doy = (153 * ((m + 9) mod 12) + 2) div 5 + d - 1 in
      era * 146097 + yoe * 365 + yoe div 4 - yoe div 100 + doy - 719468)"

definition rt_instant :: "rfc_time \<Rightarrow> int" where
  "rt_instant t = ((daysFromCivil (int (rt_year t)) (int (rt_month t)) (int (rt_day t)) * 24 + int (rt_hour t)) * 60 +
     int (rt_minute t) - rt_offset t) * 60 + int (rt_second t)"

definition civilFromDays :: "int \<Rightarrow> int \<times> int \<times> int" where
  "civilFromDays days =
     (let z = days + 719468; era = z div 146097; doe = z - era * 146097;
          yoe = (doe - doe div 1460 + doe div 36524 - doe div 146096) div 365;
          doy = doe - (365 * yoe + yoe div 4 - yoe div 100); mp = (5 * doy + 2) div 153;
          m = (if mp < 10 then mp + 3 else mp - 9) in
      (yoe + era * 400 + (if m \<le> 2 then 1 else 0), m, doy - (153 * mp + 2) div 5 + 1))"

definition utcTime :: "gotime \<Rightarrow> rfc_time" where
  "utcTime t =
     (let s = t div second; d = s div 86400; r = s mod 86400 in
      case civilFromDays d of (y, m, dd) \<Rightarrow>
        \<lparr>rt_year = nat y, rt_month = nat m, rt_day = nat dd, rt_hour = nat (r div 3600), rt_minute = nat (r div 60 mod 60),
         rt_second = nat (r mod 60), rt_nanos = nat (t mod second), rt_offset = 0\<rparr>)"

definition FormatDate :: "rfc_time \<Rightarrow> string" where
  "FormatDate t = pad 4 (rt_year t) @ ''-'' @ pad 2 (rt_month t) @ ''-'' @ pad 2 (rt_day t)"

definition FormatRFC3339 :: "rfc_time \<Rightarrow> string" where
  "FormatRFC3339 t = rt_stamp t @ rt_zone t"

text \<open>Times of one day have one date.\<close>

lemma FormatDate_same_day: "t div (86400 * second) = u div (86400 * second) \<Longrightarrow> FormatDate (utcTime t) = FormatDate (utcTime u)"
proof -
  assume "t div (86400 * second) = u div (86400 * second)"
  moreover have "x div (86400 * second) = x div second div 86400" for x :: int
    using zdiv_zmult2_eq [of 86400 x second] by (simp add: mult.commute)
  ultimately have same: "t div second div 86400 = u div second div 86400" by (simp only:)
  show ?thesis by (simp only: FormatDate_def utcTime_def Let_def case_prod_beta rfc_time.select_convs same)
qed

end
