(* ===== verification/Audit_Log.thy ===== *)
theory Audit_Log
  imports Api Auth Calendar
begin

text \<open>
  The audit log (\<^verbatim>\<open>internal/audit\<close>): what a request leaves in it, the queue between the requests and the
  table, the table's queries, and retention. The time is a calendar time with an offset; reading the message out
  of an error body and parsing RFC 3339 text are parameters.
\<close>

section \<open>Events and the table\<close>

record audit_event =
  ae_timestamp :: string
  ae_userName :: string
  ae_role :: string
  ae_method :: string
  ae_path :: string
  ae_resource :: string
  ae_resourceID :: string
  ae_verb :: string
  ae_status :: int
  ae_requestID :: string
  ae_sourceIP :: string
  ae_error :: string

text \<open>The table, ordered by its autoincremented key, and a fault oracle for its statements.\<close>

record audit_db =
  ad_rows :: "(int \<times> audit_event) list"
  ad_next :: int
  ad_faults :: "bool list"

definition ad_sql :: "audit_db \<Rightarrow> bool \<times> audit_db" where
  "ad_sql d = (case ad_faults d of [] \<Rightarrow> (True, d) | f # fs \<Rightarrow> (\<not> f, d\<lparr>ad_faults := fs\<rparr>))"

definition InsertEvent :: "string \<Rightarrow> audit_event \<Rightarrow> audit_db \<Rightarrow> bool \<times> audit_db" where
  "InsertEvent now ev d0 =
     (case ad_sql d0 of (ok, d) \<Rightarrow>
        if \<not> ok then (False, d)
        else (True, d\<lparr>ad_rows := ad_rows d @ [(ad_next d, ev\<lparr>ae_timestamp := (if ae_timestamp ev = [] then now else ae_timestamp ev)\<rparr>)],
                     ad_next := ad_next d + 1\<rparr>))"

record audit_filter =
  af_user :: string
  af_resource :: string
  af_verb :: string
  af_since :: "rfc_time option"
  af_until :: "rfc_time option"
  af_limit :: int
  af_offset :: int

text \<open>
  The WHERE clause. An empty text column is NULL, which equals nothing; a filter text is never empty where it
  is compared. Timestamps are compared as text.
\<close>

definition af_matches :: "audit_filter \<Rightarrow> audit_event \<Rightarrow> bool" where
  "af_matches f ev \<longleftrightarrow>
     (af_user f \<noteq> [] \<longrightarrow> ae_userName ev = af_user f) \<and>
     (af_resource f \<noteq> [] \<longrightarrow> ae_resource ev = af_resource f) \<and>
     (af_verb f \<noteq> [] \<longrightarrow> ae_verb ev = af_verb f) \<and>
     (case af_since f of None \<Rightarrow> True | Some t \<Rightarrow> FormatNano t \<le> ae_timestamp ev) \<and>
     (case af_until f of None \<Rightarrow> True | Some t \<Rightarrow> ae_timestamp ev \<le> FormatNano t)"

text \<open>An OFFSET without a LIMIT is not valid SQLite: \<^verbatim>\<open>parseFilter\<close> always sets a limit.\<close>

definition ListEvents :: "audit_filter \<Rightarrow> audit_db \<Rightarrow> (int \<times> audit_event) list option \<times> audit_db" where
  "ListEvents f d0 =
     (case ad_sql d0 of (ok, d) \<Rightarrow>
        if \<not> ok \<or> (af_limit f \<le> 0 \<and> 0 < af_offset f) then (None, d)
        else
          let rows = rev (filter (\<lambda>r. af_matches f (snd r)) (ad_rows d));
              rows = (if 0 < af_offset f then drop (nat (af_offset f)) rows else rows) in
          (Some (if 0 < af_limit f then take (nat (af_limit f)) rows else rows), d))"

definition CountEvents :: "audit_filter \<Rightarrow> audit_db \<Rightarrow> int option \<times> audit_db" where
  "CountEvents f d0 =
     (case ad_sql d0 of (ok, d) \<Rightarrow>
        if \<not> ok then (None, d) else (Some (int (length (filter (\<lambda>r. af_matches f (snd r)) (ad_rows d)))), d))"

definition DeleteEventsOlderThan :: "rfc_time \<Rightarrow> audit_db \<Rightarrow> int option \<times> audit_db" where
  "DeleteEventsOlderThan cutoff d0 =
     (case ad_sql d0 of (ok, d) \<Rightarrow>
        if \<not> ok then (None, d)
        else
          let old = (\<lambda>r. ae_timestamp (snd r) < FormatNano cutoff) in
          (Some (int (length (filter old (ad_rows d)))), d\<lparr>ad_rows := filter (\<lambda>r. \<not> old r) (ad_rows d)\<rparr>))"

text \<open>Retention: \<open>cutoff days\<close> is the time that many days ago, in UTC.\<close>

definition retentionDays :: "int \<Rightarrow> int" where
  "retentionDays days = (if days \<le> 0 then 90 else days)"

definition sweep :: "(int \<Rightarrow> rfc_time) \<Rightarrow> int \<Rightarrow> audit_db \<Rightarrow> audit_db" where
  "sweep cutoff days d = snd (DeleteEventsOlderThan (cutoff (retentionDays days)) d)"

section \<open>Requests\<close>

record audit_request =
  ar_method :: string
  ar_path :: string
  ar_requestID :: string
  ar_requestId2 :: string
  ar_forwardedFor :: string
  ar_remoteAddr :: string

definition isMutation :: "string \<Rightarrow> bool" where
  "isMutation m \<longleftrightarrow> m \<in> {''POST'', ''PUT'', ''PATCH'', ''DELETE''}"

definition verbOf :: "string \<Rightarrow> string" where
  "verbOf m = (if m = ''POST'' then ''create'' else if m = ''PUT'' \<or> m = ''PATCH'' then ''update''
     else if m = ''DELETE'' then ''delete'' else ''read'')"

definition classifyPath :: "string \<Rightarrow> string \<Rightarrow> string \<times> string \<times> string" where
  "classifyPath path method =
     (let segments = splitOn CHR ''/'' (trimPrefix path ''/api/v1/''); n = length segments in
      if hd segments = [] then ([], [], [])
      else if n = 1 then (segments ! 0, [], verbOf method)
      else if n = 2 then (segments ! 0, segments ! 1, verbOf method)
      else if odd n then (segments ! (n - 1), [], verbOf method)
      else (segments ! (n - 2), segments ! (n - 1), verbOf method))"

text \<open>The index tests are strict: a separator in first position does not count.\<close>

definition clientIP :: "audit_request \<Rightarrow> string" where
  "clientIP r =
     (if ar_forwardedFor r \<noteq> []
      then let before = takeWhile (\<lambda>c. c \<noteq> CHR '','') (ar_forwardedFor r) in
        if CHR '','' \<in> set (ar_forwardedFor r) \<and> before \<noteq> [] then trimSpace before else trimSpace (ar_forwardedFor r)
      else
        let rest = dropWhile (\<lambda>c. c \<noteq> CHR '':'') (rev (ar_remoteAddr r)) in
        if 1 < length rest then rev (tl rest) else ar_remoteAddr r)"

definition buildEvent :: "rfc_time \<Rightarrow> audit_request \<Rightarrow> auth_ctx \<Rightarrow> int \<Rightarrow> string \<Rightarrow> audit_event" where
  "buildEvent now r who status msg =
     (case classifyPath (ar_path r) (ar_method r) of (resource, resourceID, verb) \<Rightarrow>
      \<lparr>ae_timestamp = FormatNano now, ae_userName = (if fst who = [] then ''anonymous'' else fst who), ae_role = snd who,
       ae_method = ar_method r, ae_path = ar_path r, ae_resource = resource, ae_resourceID = resourceID, ae_verb = verb,
       ae_status = status, ae_requestID = (if ar_requestID r = [] then ar_requestId2 r else ar_requestID r),
       ae_sourceIP = clientIP r, ae_error = (if 400 \<le> status then msg else [])\<rparr>)"

section \<open>The response writer\<close>

text \<open>What a handler does to its response writer, and the writer that captures it.\<close>

datatype writer_call = WriteHeader int | Write string

record capture =
  cw_status :: int
  cw_errMessage :: string
  cw_wrote :: bool
  cw_out :: "writer_call list"

definition newCapture :: capture where
  "newCapture = \<lparr>cw_status = 200, cw_errMessage = [], cw_wrote = False, cw_out = []\<rparr>"

definition jsonLookahead :: "string \<Rightarrow> bool" where
  "jsonLookahead b = (case dropWhile (\<lambda>c. c \<in> set '' '' \<or> of_char c \<in> {9, 10, 13 :: nat}) b of [] \<Rightarrow> False | c # _ \<Rightarrow> c = CHR ''{'')"

fun capture_call :: "(string \<Rightarrow> string option) \<Rightarrow> writer_call \<Rightarrow> capture \<Rightarrow> capture" where
  "capture_call message (WriteHeader code) c =
     (if cw_wrote c then c else c\<lparr>cw_wrote := True, cw_status := code, cw_out := cw_out c @ [WriteHeader code]\<rparr>)"
| "capture_call message (Write b) c =
     c\<lparr>cw_wrote := True,
       cw_errMessage :=
         (if 400 \<le> cw_status c \<and> b \<noteq> [] \<and> jsonLookahead b
          then (case message b of Some m \<Rightarrow> if m \<noteq> [] then m else cw_errMessage c | None \<Rightarrow> cw_errMessage c)
          else cw_errMessage c),
       cw_out := cw_out c @ [Write b]\<rparr>"

text \<open>
  The middleware around a handler whose calls are given and which returns or panics: what reaches the outer
  writer, and the event that is recorded, if any.
\<close>

definition Middleware ::
  "(string \<Rightarrow> string option) \<Rightarrow> rfc_time \<Rightarrow> audit_request \<Rightarrow> auth_ctx \<Rightarrow> writer_call list \<times> bool \<Rightarrow> writer_call list \<times> audit_event option" where
  "Middleware message now r who = (\<lambda>(calls, returns).
     if \<not> isMutation (ar_method r) then (calls, None)
     else
       let c = fold (capture_call message) calls newCapture in
       (cw_out c, if returns then Some (buildEvent now r who (cw_status c) (cw_errMessage c)) else None))"

section \<open>The query endpoint\<close>

record audit_query =
  aq_user :: string
  aq_resource :: string
  aq_verb :: string
  aq_since :: string
  aq_until :: string
  aq_limit :: string
  aq_offset :: string

definition parseTime :: "(string \<Rightarrow> rfc_time option) \<Rightarrow> string \<Rightarrow> rfc_time option option" where
  "parseTime parse raw = (if raw = [] then Some None else map_option Some (parse raw))"

definition parseFilter :: "(string \<Rightarrow> rfc_time option) \<Rightarrow> audit_query \<Rightarrow> audit_filter option" where
  "parseFilter parse q =
     (case parseTime parse (aq_since q) of
        None \<Rightarrow> None
      | Some since \<Rightarrow>
          (case parseTime parse (aq_until q) of
             None \<Rightarrow> None
           | Some until \<Rightarrow>
               (case (if aq_limit q = [] then Some 100 else atoi (aq_limit q)) of
                  None \<Rightarrow> None
                | Some limit \<Rightarrow>
                    if limit \<le> 0 \<or> 1000 < limit then None
                    else
                      (case (if aq_offset q = [] then Some 0 else atoi (aq_offset q)) of
                         None \<Rightarrow> None
                       | Some off \<Rightarrow>
                           if off < 0 then None
                           else Some \<lparr>af_user = trimSpace (aq_user q), af_resource = trimSpace (aq_resource q), af_verb = trimSpace (aq_verb q),
                                  af_since = since, af_until = until, af_limit = limit, af_offset = off\<rparr>))))"

type_synonym audit_reply = "((int \<times> audit_event) list \<times> int) reply"

definition audit_List :: "(string \<Rightarrow> rfc_time option) \<Rightarrow> audit_query \<Rightarrow> audit_db \<Rightarrow> audit_reply \<times> audit_db" where
  "audit_List parse q d =
     (case parseFilter parse q of
        None \<Rightarrow> (BadRequest, d)
      | Some f \<Rightarrow>
          (case ListEvents f d of
             (None, d) \<Rightarrow> (InternalError, d)
           | (Some items, d) \<Rightarrow>
               (case CountEvents f d of
                  (None, d) \<Rightarrow> (InternalError, d)
                | (Some n, d) \<Rightarrow> (Reply 200 (items, n), d))))"

section \<open>The recorder\<close>

text \<open>
  The recorder with its queue of 1024 entries. \<open>rc_checked\<close> holds the calls of \<^verbatim>\<open>Record\<close> that have seen that the
  recorder is not stopped and have not sent yet; \<open>rc_accepted\<close> and \<open>rc_drained\<close> are history: what entered the
  queue, and what the drain goroutine has taken out, with the outcome of its insert.
\<close>

datatype queue_entry = EventEntry audit_event | FlushMark nat

record recorder =
  rc_db :: audit_db
  rc_queue :: "queue_entry list"
  rc_stopped :: bool
  rc_checked :: "audit_event list"
  rc_panicked :: bool
  rc_accepted :: "queue_entry list"
  rc_drained :: "(queue_entry \<times> bool) list"

abbreviation queueSize :: nat where
  "queueSize \<equiv> 1024"

definition newRecorder :: "audit_db \<Rightarrow> recorder" where
  "newRecorder d = \<lparr>rc_db = d, rc_queue = [], rc_stopped = False, rc_checked = [], rc_panicked = False, rc_accepted = [], rc_drained = []\<rparr>"

text \<open>The send of a \<^verbatim>\<open>select\<close> with a default: dropped when the queue is full; on a closed channel it panics.\<close>

definition trySendEntry :: "queue_entry \<Rightarrow> recorder \<Rightarrow> recorder" where
  "trySendEntry e r =
     (if rc_stopped r then r\<lparr>rc_panicked := True\<rparr>
      else if length (rc_queue r) < queueSize then r\<lparr>rc_queue := rc_queue r @ [e], rc_accepted := rc_accepted r @ [e]\<rparr>
      else r)"

definition Record_check :: "audit_event \<Rightarrow> recorder \<Rightarrow> recorder" where
  "Record_check ev r = (if rc_stopped r then r else r\<lparr>rc_checked := ev # rc_checked r\<rparr>)"

definition Record_send :: "audit_event \<Rightarrow> recorder \<Rightarrow> recorder" where
  "Record_send ev r = trySendEntry (EventEntry ev) (r\<lparr>rc_checked := remove1 ev (rc_checked r)\<rparr>)"

definition Record :: "audit_event \<Rightarrow> recorder \<Rightarrow> recorder" where
  "Record ev r = (if rc_stopped r then r else trySendEntry (EventEntry ev) r)"

text \<open>\<^verbatim>\<open>Flush\<close> recovers from the panic of a send on a closed channel.\<close>

definition Flush :: "nat \<Rightarrow> recorder \<Rightarrow> recorder" where
  "Flush i r = (if rc_stopped r then r else trySendEntry (FlushMark i) r)"

definition drain :: "string \<Rightarrow> recorder \<Rightarrow> recorder" where
  "drain now r =
     (case rc_queue r of
        [] \<Rightarrow> r
      | FlushMark i # q \<Rightarrow> r\<lparr>rc_queue := q, rc_drained := rc_drained r @ [(FlushMark i, True)]\<rparr>
      | EventEntry ev # q \<Rightarrow>
          (case InsertEvent now ev (rc_db r) of
             (ok, d) \<Rightarrow> r\<lparr>rc_queue := q, rc_db := d, rc_drained := rc_drained r @ [(EventEntry ev, ok)]\<rparr>))"

definition Close :: "recorder \<Rightarrow> recorder" where
  "Close r = r\<lparr>rc_stopped := True\<rparr>"

inductive audit_step :: "recorder \<Rightarrow> recorder \<Rightarrow> bool" where
  check: "audit_step r (Record_check ev r)"
| send: "ev \<in> set (rc_checked r) \<Longrightarrow> audit_step r (Record_send ev r)"
| flush: "audit_step r (Flush i r)"
| drain: "audit_step r (drain now r)"
| close: "audit_step r (Close r)"

end
