(* ===== verification/Audit_Props.thy ===== *)
theory Audit_Props
  imports Audit_Log
begin

text \<open>
  The audit log: what is recorded of a request, that the queue loses nothing in between, and how far the
  textual comparison of timestamps agrees with time.
\<close>

section \<open>Time filters\<close>

definition ex_time :: "nat \<Rightarrow> nat \<Rightarrow> int \<Rightarrow> rfc_time" where
  "ex_time h m off = \<lparr>rt_year = 2026, rt_month = 3, rt_day = 1, rt_hour = h, rt_minute = m, rt_second = 0, rt_nanos = 0, rt_offset = off\<rparr>"

lemmas ex_time_simps = ex_time_def rt_ok_def civil_def rt_instant_def daysFromCivil_def Let_def

text \<open>
  the time filters and the retention compare text. For an event stamped at \<open>t\<close> and a bound in another
  second, they agree with the order of the calendar fields as written; so they agree with time when both
  are in UTC, as the stamps and the retention bound are, but an offset in a \<^verbatim>\<open>since\<close> is ignored: an event half
  an hour after the bound \<^verbatim>\<open>12:00+02:00\<close> is left out.
\<close>

theorem audit_time_filter:
  assumes "rt_ok t" "rt_ok b" "civil t \<noteq> civil b" "ae_timestamp ev = FormatNano t"
  shows "(af_matches (f\<lparr>af_since := Some b\<rparr>) ev \<longleftrightarrow> af_matches (f\<lparr>af_since := None\<rparr>) ev \<and> civil b < civil t) \<and>
    (af_matches (f\<lparr>af_until := Some b\<rparr>) ev \<longleftrightarrow> af_matches (f\<lparr>af_until := None\<rparr>) ev \<and> civil t < civil b) \<and>
    (ad_faults d = [] \<and> (i, ev) \<in> set (ad_rows d) \<longrightarrow>
       ((i, ev) \<in> set (ad_rows (snd (DeleteEventsOlderThan b d))) \<longleftrightarrow> civil b < civil t)) \<and>
    (\<exists>since late. rt_ok since \<and> rt_ok late \<and> rt_instant late = rt_instant since + 1800 \<and> \<not> FormatNano since \<le> FormatNano late)"
proof (intro conjI)
  have b: "FormatNano b \<le> FormatNano t \<longleftrightarrow> civil b < civil t" "FormatNano t \<le> FormatNano b \<longleftrightarrow> civil t < civil b"
      "FormatNano t < FormatNano b \<longleftrightarrow> civil t < civil b"
    using FormatNano_le [OF assms(1,2,3)] FormatNano_le [OF assms(2,1)] FormatNano_less [OF assms(1,2,3)] assms(3) by auto
  show "af_matches (f\<lparr>af_since := Some b\<rparr>) ev \<longleftrightarrow> af_matches (f\<lparr>af_since := None\<rparr>) ev \<and> civil b < civil t"
    "af_matches (f\<lparr>af_until := Some b\<rparr>) ev \<longleftrightarrow> af_matches (f\<lparr>af_until := None\<rparr>) ev \<and> civil t < civil b"
    using b assms(4) by (auto simp: af_matches_def)
  show "ad_faults d = [] \<and> (i, ev) \<in> set (ad_rows d) \<longrightarrow>
       ((i, ev) \<in> set (ad_rows (snd (DeleteEventsOlderThan b d))) \<longleftrightarrow> civil b < civil t)"
    using b(3) assms(3,4) by (auto simp: DeleteEventsOlderThan_def ad_sql_def)
  show "\<exists>since late. rt_ok since \<and> rt_ok late \<and> rt_instant late = rt_instant since + 1800 \<and> \<not> FormatNano since \<le> FormatNano late"
    using FormatNano_le [of "ex_time 12 0 120" "ex_time 10 30 0"]
    by (intro exI [of _ "ex_time 12 0 120"] exI [of _ "ex_time 10 30 0"]) (simp add: ex_time_simps)
qed

section \<open>What is recorded of a request\<close>

text \<open>What the client gets: the first header, or 200 with the first bytes; and the bytes.\<close>

fun wire_status :: "writer_call list \<Rightarrow> int" where
  "wire_status (WriteHeader c # _) = c"
| "wire_status _ = 200"

fun wire_body :: "writer_call list \<Rightarrow> string" where
  "wire_body [] = []"
| "wire_body (WriteHeader c # cs) = wire_body cs"
| "wire_body (Write b # cs) = b @ wire_body cs"

lemma wire_body_append: "wire_body (xs @ ys) = wire_body xs @ wire_body ys"
  by (induction xs rule: wire_body.induct) auto

lemma wire_status_append: "xs \<noteq> [] \<Longrightarrow> wire_status (xs @ ys) = wire_status xs"
  by (cases xs rule: wire_status.cases) auto

definition capture_ok :: "(string \<Rightarrow> string option) \<Rightarrow> writer_call list \<Rightarrow> capture \<Rightarrow> bool" where
  "capture_ok message calls c \<longleftrightarrow> cw_status c = wire_status calls \<and> wire_status (cw_out c) = wire_status calls \<and>
     wire_body (cw_out c) = wire_body calls \<and> (cw_wrote c \<longleftrightarrow> calls \<noteq> []) \<and> (cw_out c \<noteq> [] \<longleftrightarrow> calls \<noteq> []) \<and>
     (cw_errMessage c \<noteq> [] \<longrightarrow> (\<exists>b. Write b \<in> set calls \<and> message b = Some (cw_errMessage c)))"

lemma capture_call_ok: "capture_ok message calls c \<Longrightarrow> capture_ok message (calls @ [x]) (capture_call message x c)"
  by (cases x; cases "calls = []")
    (auto simp: capture_ok_def wire_status_append wire_body_append split: option.splits)

lemma capture_fold: "capture_ok message done c \<Longrightarrow> capture_ok message (done @ calls) (fold (capture_call message) calls c)"
proof (induction calls arbitrary: "done" c)
  case (Cons x calls)
  from Cons.IH [OF capture_call_ok [OF Cons.prems]] show ?case by simp
qed simp

lemma buildEvent_fields:
  "ae_status (buildEvent now r who st msg) = st" "ae_method (buildEvent now r who st msg) = ar_method r"
  "ae_path (buildEvent now r who st msg) = ar_path r" "ae_role (buildEvent now r who st msg) = snd who"
  "ae_userName (buildEvent now r who st msg) = (if fst who = [] then ''anonymous'' else fst who)"
  "ae_timestamp (buildEvent now r who st msg) = FormatNano now"
  "ae_error (buildEvent now r who st msg) = (if 400 \<le> st then msg else [])"
  by (simp_all add: buildEvent_def split: prod.split)

text \<open>
  C27: the audit middleware is transparent and exact. The client gets the status and the bytes the handler
  produced; there is an event exactly for each POST, PUT, PATCH or DELETE whose handler returns; it names
  the authenticated user, or \<^verbatim>\<open>anonymous\<close>, the method, the path and the status the client got, and its error
  text, if any, comes from a body of a response of 400 or more.
\<close>

theorem audit_exact:
  assumes "Middleware message now r who (calls, returns) = (out, ev)"
  shows "wire_status out = wire_status calls \<and> wire_body out = wire_body calls \<and>
    (ev \<noteq> None \<longleftrightarrow> ar_method r \<in> {''POST'', ''PUT'', ''PATCH'', ''DELETE''} \<and> returns) \<and>
    (\<forall>e. ev = Some e \<longrightarrow> ae_status e = wire_status calls \<and> ae_method e = ar_method r \<and> ae_path e = ar_path r \<and>
       ae_userName e = (if fst who = [] then ''anonymous'' else fst who) \<and> ae_role e = snd who \<and> ae_timestamp e = FormatNano now \<and>
       (ae_error e \<noteq> [] \<longrightarrow> 400 \<le> wire_status calls \<and> (\<exists>b. Write b \<in> set calls \<and> message b = Some (ae_error e))))"
proof -
  have "capture_ok message [] newCapture" by (simp add: capture_ok_def newCapture_def)
  from capture_fold [OF this, of calls] have captured: "capture_ok message calls (fold (capture_call message) calls newCapture)" by simp
  show ?thesis
  proof (cases "isMutation (ar_method r)")
    case True
    define c where "c = fold (capture_call message) calls newCapture"
    have run: "out = cw_out c" "ev = (if returns then Some (buildEvent now r who (cw_status c) (cw_errMessage c)) else None)"
      using assms True by (auto simp: Middleware_def Let_def c_def)
    have m: "ar_method r \<in> {''POST'', ''PUT'', ''PATCH'', ''DELETE''}" using True by (simp only: isMutation_def)
    show ?thesis
      using m captured [folded c_def] unfolding capture_ok_def run by (cases returns) (simp_all add: buildEvent_fields)
  next
    case False
    then have "ev = None" "out = calls" using assms by (simp_all add: Middleware_def)
    with False show ?thesis by (simp only: isMutation_def) simp
  qed
qed


section \<open>The queue\<close>

text \<open>An event as it is stored: a missing timestamp is filled in.\<close>

definition stored_as :: "audit_event \<Rightarrow> audit_event \<Rightarrow> bool" where
  "stored_as e row \<longleftrightarrow> row = e \<or> ae_timestamp e = [] \<and> (\<exists>ts. row = e\<lparr>ae_timestamp := ts\<rparr>)"

fun inserted :: "queue_entry \<times> bool \<Rightarrow> audit_event list" where
  "inserted (EventEntry e, True) = [e]"
| "inserted _ = []"

definition ids_ok :: "audit_db \<Rightarrow> bool" where
  "ids_ok d \<longleftrightarrow> sorted_wrt (<) (map fst (ad_rows d)) \<and> (\<forall>i\<in>fst ` set (ad_rows d). i < ad_next d)"

definition recorder_inv :: "audit_db \<Rightarrow> recorder \<Rightarrow> bool" where
  "recorder_inv d r \<longleftrightarrow> map fst (rc_drained r) @ rc_queue r = rc_accepted r \<and> length (rc_queue r) \<le> queueSize \<and> ids_ok (rc_db r) \<and>
     (\<exists>new. ad_rows (rc_db r) = ad_rows d @ new \<and> list_all2 stored_as (concat (map inserted (rc_drained r))) (map snd new))"

lemma InsertEvent_ok:
  assumes "InsertEvent now ev d = (ok, d')"
  shows "if ok then \<exists>row. ad_rows d' = ad_rows d @ [(ad_next d, row)] \<and> ad_next d' = ad_next d + 1 \<and> stored_as ev row
    else ad_rows d' = ad_rows d \<and> ad_next d' = ad_next d"
  using assms by (auto simp: InsertEvent_def ad_sql_def stored_as_def split: list.splits if_splits)

lemma ids_ok_insert:
  assumes "InsertEvent now ev d = (ok, d')" "ids_ok d"
  shows "ids_ok d'"
  using InsertEvent_ok [OF assms(1)] assms(2) by (cases ok) (fastforce simp: ids_ok_def sorted_wrt_append)+

lemma recorder_inv_send: "recorder_inv d r \<Longrightarrow> recorder_inv d (trySendEntry e r)"
  by (auto simp: recorder_inv_def trySendEntry_def)

lemma recorder_inv_drain:
  assumes "recorder_inv d r"
  shows "recorder_inv d (drain now r)"
proof (cases "rc_queue r")
  case (Cons e q)
  show ?thesis
  proof (cases e)
    case (EventEntry ev)
    obtain ok d' where i: "InsertEvent now ev (rc_db r) = (ok, d')" by fastforce
    show ?thesis
      using assms InsertEvent_ok [OF i] ids_ok_insert [OF i]
      by (cases ok) (auto simp: recorder_inv_def drain_def Cons EventEntry i intro!: list_all2_appendI)
  qed (use assms Cons in \<open>auto simp: recorder_inv_def drain_def\<close>)
qed (use assms in \<open>simp add: drain_def\<close>)

lemma recorder_inv_step: "audit_step r r' \<Longrightarrow> recorder_inv d r \<Longrightarrow> recorder_inv d r'"
proof (induction rule: audit_step.induct)
  case (send ev r)
  then have "recorder_inv d (r\<lparr>rc_checked := remove1 ev (rc_checked r)\<rparr>)" by (simp add: recorder_inv_def)
  then show ?case unfolding Record_send_def by (rule recorder_inv_send)
qed (auto simp: Record_check_def Flush_def Close_def recorder_inv_send recorder_inv_drain, auto simp: recorder_inv_def)

lemma drain_queue: "rc_queue (drain now r) = tl (rc_queue r)"
  by (simp add: drain_def split: list.splits queue_entry.splits prod.splits)

lemma drain_all: "rc_queue ((drain now ^^ n) r) = drop n (rc_queue r)"
  by (induction n) (simp_all add: drain_queue drop_Suc tl_drop)

text \<open>
  between the queue and the table nothing is lost, repeated or reordered. In every interleaving of
  requests, flushes, the drain goroutine and shutdown, what was accepted is what has been drained followed by
  what is queued; the new rows are the drained events whose insert succeeded, in that order, under
  increasing keys; the queue is bounded, and as many drain steps as it has entries empty it. A \<^verbatim>\<open>Record\<close> that
  has passed its check when the recorder is closed sends on a closed channel: that panic is reachable.
\<close>

theorem audit_queue:
  assumes "ids_ok d" "audit_step\<^sup>*\<^sup>* (newRecorder d) r"
  shows "map fst (rc_drained r) @ rc_queue r = rc_accepted r \<and> length (rc_queue r) \<le> queueSize \<and>
    (\<exists>new. ad_rows (rc_db r) = ad_rows d @ new \<and> list_all2 stored_as (concat (map inserted (rc_drained r))) (map snd new)) \<and>
    sorted_wrt (<) (map fst (ad_rows (rc_db r))) \<and>
    rc_queue ((drain now ^^ length (rc_queue r)) r) = [] \<and>
    (\<exists>u. audit_step\<^sup>*\<^sup>* (newRecorder d) u \<and> rc_panicked u)"
proof -
  have "recorder_inv d (newRecorder d)" using assms(1) by (simp add: recorder_inv_def newRecorder_def)
  with assms(2) have "recorder_inv d r" by (induction rule: rtranclp_induct) (auto intro: recorder_inv_step)
  moreover have "audit_step\<^sup>*\<^sup>* (newRecorder d) (Record_send ev (Close (Record_check ev (newRecorder d))))" for ev
  proof (rule rtranclp.rtrancl_into_rtrancl [OF rtranclp.rtrancl_into_rtrancl [OF rtranclp.rtrancl_into_rtrancl [OF rtranclp.rtrancl_refl]]])
    show "audit_step (newRecorder d) (Record_check ev (newRecorder d))" by (rule audit_step.check)
    show "audit_step (Record_check ev (newRecorder d)) (Close (Record_check ev (newRecorder d)))" by (rule audit_step.close)
    show "audit_step (Close (Record_check ev (newRecorder d))) (Record_send ev (Close (Record_check ev (newRecorder d))))"
      by (rule audit_step.send) (simp add: Close_def Record_check_def newRecorder_def)
  qed
  moreover have "rc_panicked (Record_send ev (Close (Record_check ev (newRecorder d))))" for ev
    by (simp add: Record_send_def trySendEntry_def Close_def)
  ultimately show ?thesis by (auto simp: recorder_inv_def ids_ok_def drain_all)
qed


section \<open>Instances\<close>

definition ex_audit_request :: audit_request where
  "ex_audit_request = \<lparr>ar_method = ''DELETE'', ar_path = ''/api/v1/tenants/acme/machines/m1'', ar_requestID = [], ar_requestId2 = ''q7'',
     ar_forwardedFor = ''10.0.0.9, 10.0.0.1'', ar_remoteAddr = ''[::1]:4711''\<rparr>"

definition ex_audit_calls :: "writer_call list" where
  "ex_audit_calls = [WriteHeader 404, Write ''{}'', WriteHeader 200]"

definition ex_audit_event :: audit_event where
  "ex_audit_event = buildEvent (ex_time 10 30 0) ex_audit_request (''ann'', ''admin'') 404 ''machine not found''"

lemma ex_audit_event_fields:
  "(ae_resource ex_audit_event, ae_resourceID ex_audit_event, ae_verb ex_audit_event) = (''machines'', ''m1'', ''delete'')"
  "ae_sourceIP ex_audit_event = ''10.0.0.9''" "ae_requestID ex_audit_event = ''q7''"
  by code_simp+

theorem audit_time_filter_witness:
  "\<not> af_matches \<lparr>af_user = [], af_resource = [], af_verb = [], af_since = Some (ex_time 12 0 120), af_until = None, af_limit = 100, af_offset = 0\<rparr> ex_audit_event \<and>
   af_matches \<lparr>af_user = [], af_resource = [], af_verb = [], af_since = Some (ex_time 10 0 0), af_until = None, af_limit = 100, af_offset = 0\<rparr> ex_audit_event"
proof -
  let ?f = "\<lparr>af_user = [], af_resource = [], af_verb = [], af_since = None, af_until = None, af_limit = 100, af_offset = 0\<rparr>"
  have ok: "rt_ok (ex_time 10 30 0)" "rt_ok (ex_time 12 0 120)" "rt_ok (ex_time 10 0 0)" "civil (ex_time 10 30 0) \<noteq> civil (ex_time 12 0 120)"
      "civil (ex_time 10 30 0) \<noteq> civil (ex_time 10 0 0)" "\<not> civil (ex_time 12 0 120) < civil (ex_time 10 30 0)" "civil (ex_time 10 0 0) < civil (ex_time 10 30 0)"
      "ae_timestamp ex_audit_event = FormatNano (ex_time 10 30 0)" "af_matches ?f ex_audit_event"
    by (simp_all add: ex_time_simps ex_audit_event_def buildEvent_fields af_matches_def)
  show ?thesis
    using audit_time_filter [OF ok(1,2,4,8), of ?f undefined undefined] audit_time_filter [OF ok(1,3,5,8), of ?f undefined undefined] ok(6,7,9) by simp
qed

theorem audit_exact_witness:
  "\<exists>e. Middleware (\<lambda>_. Some ''machine not found'') (ex_time 10 30 0) ex_audit_request (''ann'', ''admin'') (ex_audit_calls, True) = ([WriteHeader 404, Write ''{}''], Some e) \<and>
     ae_status e = 404 \<and> ae_userName e = ''ann''"
proof -
  let ?m = "Middleware (\<lambda>_. Some ''machine not found'') (ex_time 10 30 0) ex_audit_request (''ann'', ''admin'') (ex_audit_calls, True)"
  have out: "fst ?m = [WriteHeader 404, Write ''{}'']" by code_simp
  have w: "wire_status ex_audit_calls = 404" "ar_method ex_audit_request \<in> {''POST'', ''PUT'', ''PATCH'', ''DELETE''}"
    by (simp_all add: ex_audit_calls_def ex_audit_request_def)
  obtain e where e: "snd ?m = Some e" using audit_exact [OF prod.collapse [of ?m, symmetric]] w(2) by blast
  then have "ae_status e = 404 \<and> ae_userName e = ''ann''" using audit_exact [OF prod.collapse [of ?m, symmetric]] w(1) by simp
  moreover have "?m = ([WriteHeader 404, Write ''{}''], Some e)" using out e by (intro prod_eqI) simp_all
  ultimately show ?thesis by blast
qed

definition ex_audit_db :: audit_db where
  "ex_audit_db = \<lparr>ad_rows = [], ad_next = 1, ad_faults = []\<rparr>"

theorem audit_queue_witness:
  "\<exists>r. audit_step\<^sup>*\<^sup>* (newRecorder ex_audit_db) r \<and> length (rc_queue r) = 1 \<and> rc_queue ((drain [] ^^ 1) r) = [] \<and>
     rc_accepted r = [EventEntry ex_audit_event]"
proof -
  let ?r = "Record_send ex_audit_event (Record_check ex_audit_event (newRecorder ex_audit_db))"
  have run: "audit_step\<^sup>*\<^sup>* (newRecorder ex_audit_db) ?r"
  proof (rule rtranclp.rtrancl_into_rtrancl [OF rtranclp.rtrancl_into_rtrancl [OF rtranclp.rtrancl_refl]])
    show "audit_step (newRecorder ex_audit_db) (Record_check ex_audit_event (newRecorder ex_audit_db))" by (rule audit_step.check)
    show "audit_step (Record_check ex_audit_event (newRecorder ex_audit_db)) ?r"
      by (rule audit_step.send) (simp add: Record_check_def newRecorder_def)
  qed
  have q: "rc_queue ?r = [EventEntry ex_audit_event]"
    by (simp add: Record_send_def trySendEntry_def Record_check_def newRecorder_def)
  have "ids_ok ex_audit_db" by (simp add: ids_ok_def ex_audit_db_def)
  note t = audit_queue [OF this run, of "[]"]
  have "rc_drained ?r = []" by (simp add: Record_send_def trySendEntry_def Record_check_def newRecorder_def)
  then have "rc_accepted ?r = [EventEntry ex_audit_event]" using t q by simp
  moreover have "rc_queue ((drain [] ^^ 1) ?r) = []" using t q by simp
  ultimately show ?thesis using run q by (intro exI [of _ ?r] conjI) simp_all
qed

end
