(* ===== verification/Backup.thy ===== *)
theory Backup
  imports Api Calendar
begin

text \<open>
  Backups (\<^verbatim>\<open>internal/backup\<close>): snapshots of the database and of the resources, their records in the store, the
  retention policy, and restoring. Copying the database, the hash, and printing and parsing JSON text are
  parameters, and so is \<^verbatim>\<open>sort.Slice\<close>, which leaves the order of equal elements open. The files under the
  backup root are a map from keys to bytes with a fault oracle of their own. An operation runs at one instant, so durations are zero.
\<close>

section \<open>Records\<close>

abbreviation "resourceTypeSnapshot \<equiv> ''backupsnapshot''"
abbreviation "resourceTypePolicy \<equiv> ''backuppolicy''"
abbreviation "defaultPolicyName \<equiv> ''default''"

record snapshot_spec =
  sn_type :: string
  sn_key :: string
  sn_size :: int
  sn_checksum :: string
  sn_duration :: int
  sn_startedAt :: string

record snapshot_status =
  sns_status :: string
  sns_error :: string

record snapshot_record =
  sr_id :: string
  sr_createdAt :: string
  sr_spec :: snapshot_spec
  sr_status :: snapshot_status

definition enc_snapshot_spec :: "snapshot_spec \<Rightarrow> json" where
  "enc_snapshot_spec x = jobj [(''type'', eStr (sn_type x)), (''key'', eStr (sn_key x)), (''size'', eInt (sn_size x)),
     (''checksum'', eStr (sn_checksum x)), (''durationMs'', eInt (sn_duration x)), (''startedAt'', eStr (sn_startedAt x))]"

definition dec_snapshot_spec :: "json \<Rightarrow> snapshot_spec" where
  "dec_snapshot_spec j = \<lparr>sn_type = dStr ''type'' j, sn_key = dStr ''key'' j, sn_size = dInt ''size'' j,
     sn_checksum = dStr ''checksum'' j, sn_duration = dInt ''durationMs'' j, sn_startedAt = dStr ''startedAt'' j\<rparr>"

definition enc_snapshot_status :: "snapshot_status \<Rightarrow> json" where
  "enc_snapshot_status x = jobj [(''status'', eStr (sns_status x)), (''error'', oStr (sns_error x))]"

definition dec_snapshot_status :: "json \<Rightarrow> snapshot_status" where
  "dec_snapshot_status j = \<lparr>sns_status = dStr ''status'' j, sns_error = dStr ''error'' j\<rparr>"

lemma dec_enc_snapshot_spec [json_simps]: "dec_snapshot_spec (enc_snapshot_spec x) = x"
  by (cases x) (simp add: enc_snapshot_spec_def dec_snapshot_spec_def json_simps)

lemma dec_enc_snapshot_status [json_simps]: "dec_snapshot_status (enc_snapshot_status x) = x"
  by (cases x) (simp add: enc_snapshot_status_def dec_snapshot_status_def json_simps)

definition enc_policy :: "int \<Rightarrow> json" where
  "enc_policy retention = jobj [(''retention'', eInt retention)]"

section \<open>State\<close>

record backup_env =
  be_vacuum :: "store \<Rightarrow> string option"
  be_sha :: "string \<Rightarrow> string"
  be_print :: "json \<Rightarrow> string"
  be_parse :: "string \<Rightarrow> json option"
  be_sort :: "snapshot_record list \<Rightarrow> snapshot_record list"
  be_prefix :: string

record backup_state =
  bk_store :: store
  bk_files :: "(string \<times> string) list"
  bk_faults :: "bool list"

datatype backup_err = ErrNotConfigured | ErrSnapshot | ErrUpload | ErrStore | ErrSnapshotNotFound | ErrNotRestorable | ErrNotResources |
  ErrDownload | ErrDecode | ErrRetention

definition bk_io :: "backup_state \<Rightarrow> bool \<times> backup_state" where
  "bk_io st = (case bk_faults st of [] \<Rightarrow> (True, st) | f # fs \<Rightarrow> (\<not> f, st\<lparr>bk_faults := fs\<rparr>))"

section \<open>The file store\<close>

text \<open>A failed upload may leave the old file, a cut one or none; the model leaves none.\<close>

definition Upload :: "string \<Rightarrow> string \<Rightarrow> backup_state \<Rightarrow> bool \<times> backup_state" where
  "Upload key data st0 =
     (case bk_io st0 of (ok, st) \<Rightarrow>
        if ok then (True, st\<lparr>bk_files := AList.update key data (bk_files st)\<rparr>)
        else (False, st\<lparr>bk_files := AList.delete key (bk_files st)\<rparr>))"

definition Download :: "string \<Rightarrow> backup_state \<Rightarrow> string option \<times> backup_state" where
  "Download key st0 = (case bk_io st0 of (ok, st) \<Rightarrow> (if ok then map_of (bk_files st) key else None, st))"

definition DeleteFile :: "string \<Rightarrow> backup_state \<Rightarrow> backup_state" where
  "DeleteFile key st0 = (case bk_io st0 of (ok, st) \<Rightarrow> if ok then st\<lparr>bk_files := AList.delete key (bk_files st)\<rparr> else st)"

definition SnapshotKey :: "string \<Rightarrow> string \<Rightarrow> gotime \<Rightarrow> string" where
  "SnapshotKey pre ty t = pre @ ''/'' @ FormatDate (utcTime t) @ ''/'' @ ty @ (if ty = ''database'' then ''.db'' else ''.json'')"

text \<open>The manager's own operations, which the service does not use.\<close>

definition managerKey :: "string \<Rightarrow> gotime \<Rightarrow> string \<Rightarrow> string" where
  "managerKey pre t name =
     (let u = utcTime t in pre @ ''/'' @ FormatDate u @ ''T'' @ pad 2 (rt_hour u) @ ''-'' @ pad 2 (rt_minute u) @ ''-'' @ pad 2 (rt_second u) @ ''/'' @ name)"

definition BackupDatabase :: "backup_env \<Rightarrow> string \<Rightarrow> backup_state \<Rightarrow> (backup_err + string \<times> string) \<times> backup_state" where
  "BackupDatabase env data st =
     (let t = clock (bk_store st); key = managerKey (be_prefix env) t ''database.db'' in
      case Upload key data st of (ok, st) \<Rightarrow> (if ok then Inr (''db-'' @ itoa (t div second), key) else Inl ErrUpload, st))"

definition BackupResources :: "backup_env \<Rightarrow> string \<Rightarrow> backup_state \<Rightarrow> (backup_err + string \<times> string) \<times> backup_state" where
  "BackupResources env data st =
     (let t = clock (bk_store st); key = managerKey (be_prefix env) t ''resources.json'' in
      case Upload key data st of (ok, st) \<Rightarrow> (if ok then Inr (''res-'' @ itoa (t div second), key) else Inl ErrUpload, st))"

section \<open>Exporting the resources\<close>

record export_entry =
  xe_type :: string
  xe_name :: string
  xe_spec :: json
  xe_status :: json
  xe_labels :: gomap
  xe_annotations :: gomap

definition enc_entry :: "export_entry \<Rightarrow> json" where
  "enc_entry x = jobj [(''type'', eStr (xe_type x)), (''name'', eStr (xe_name x)), (''spec'', Some (xe_spec x)), (''status'', Some (xe_status x)),
     (''labels'', oMap (xe_labels x)), (''annotations'', oMap (xe_annotations x))]"

definition dec_entry :: "json \<Rightarrow> export_entry" where
  "dec_entry j = \<lparr>xe_type = dStr ''type'' j, xe_name = dStr ''name'' j, xe_spec = dObj (\<lambda>v. v) ''spec'' j, xe_status = dObj (\<lambda>v. v) ''status'' j,
     xe_labels = dMap ''labels'' j, xe_annotations = dMap ''annotations'' j\<rparr>"

fun isMap :: "json \<Rightarrow> bool" where
  "isMap (JObj fs) = list_all (orNull isStr \<circ> snd) fs"
| "isMap _ = False"

definition ok_entry :: "json \<Rightarrow> bool" where
  "ok_entry j \<longleftrightarrow> orNull isObj j \<and> fieldOk isStr ''type'' j \<and> fieldOk isStr ''name'' j \<and> fieldOk isMap ''labels'' j \<and> fieldOk isMap ''annotations'' j"

lemma dec_enc_entry [json_simps]: "dec_entry (enc_entry x) = x \<and> ok_entry (enc_entry x)"
  by (cases x)
    (auto simp: enc_entry_def dec_entry_def ok_entry_def json_simps fieldOk_def orNull_def jobj_def eStr_def oMap_def list_all_iff
      comp_def split_def)

definition listAll :: list_options where
  "listAll = \<lparr>lo_offset = 0, lo_limit = 0, lo_labelSelector = []\<rparr>"

definition exportOf :: "string \<Rightarrow> metadata \<times> json \<times> json \<Rightarrow> export_entry" where
  "exportOf kind = (\<lambda>(md, spec, status). \<lparr>xe_type = kind, xe_name = md_name md, xe_spec = spec, xe_status = status,
     xe_labels = md_labels md, xe_annotations = md_annotations md\<rparr>)"

abbreviation exportKinds :: "string list" where
  "exportKinds \<equiv> [''tenant'', ''nodegroup'', ''machine'', ''provider'', ''configpatch'']"

fun exportAll :: "string list \<Rightarrow> store \<Rightarrow> export_entry list option \<times> store" where
  "exportAll [] s = (Some [], s)"
| "exportAll (kind # kinds) s =
     (case ListResources kind listAll s of
        (Inl _, s) \<Rightarrow> (None, s)
      | (Inr (items, _), s) \<Rightarrow>
          (case exportAll kinds s of (rest, s) \<Rightarrow> (map_option (\<lambda>es. map (exportOf kind) items @ es) rest, s)))"

definition resourceSnapshot :: "backup_env \<Rightarrow> store \<Rightarrow> string option \<times> store" where
  "resourceSnapshot env s =
     (case exportAll exportKinds s of (es, s) \<Rightarrow> (map_option (\<lambda>es. be_print env (JArr (map enc_entry es))) es, s))"

section \<open>Policy and retention\<close>

definition ListSnapshots :: "backup_env \<Rightarrow> store \<Rightarrow> snapshot_record list option \<times> store" where
  "ListSnapshots env s =
     (case ListResources resourceTypeSnapshot listAll s of
        (Inl _, s) \<Rightarrow> (None, s)
      | (Inr (items, _), s) \<Rightarrow>
          (Some (be_sort env (map (\<lambda>(md, spec, status). \<lparr>sr_id = md_name md, sr_createdAt = FormatRFC3339 (utcTime (md_createdAt md)),
             sr_spec = dec_snapshot_spec spec, sr_status = dec_snapshot_status status\<rparr>) items)), s))"

definition GetPolicy :: "store \<Rightarrow> int \<times> store" where
  "GetPolicy s =
     (case GetResource resourceTypePolicy defaultPolicyName s of
        (Inl _, s) \<Rightarrow> (7, snd (CreateResource resourceTypePolicy defaultPolicyName (enc_policy 7) (JObj []) [] [] s))
      | (Inr (_, spec, _), s) \<Rightarrow> (if dInt ''retention'' spec \<le> 0 then 7 else dInt ''retention'' spec, s))"

definition UpdatePolicy :: "int \<Rightarrow> store \<Rightarrow> bool \<times> store" where
  "UpdatePolicy retention s =
     (if retention \<le> 0 then (False, s)
      else
        (case GetResource resourceTypePolicy defaultPolicyName s of
           (Inl _, s) \<Rightarrow>
             (case CreateResource resourceTypePolicy defaultPolicyName (enc_policy retention) (JObj []) [] [] s of (r, s) \<Rightarrow> (\<not> isl r, s))
         | (Inr (md, _, _), s) \<Rightarrow>
             (case UpdateResource resourceTypePolicy defaultPolicyName (md_resourceVersion md) (enc_policy retention)
                     (md_labels md) (md_annotations md) s of (r, s) \<Rightarrow> (\<not> isl r, s))))"

definition pruneOne :: "snapshot_record \<Rightarrow> backup_state \<Rightarrow> backup_state" where
  "pruneOne item st =
     (let st = (if sn_key (sr_spec item) \<noteq> [] then DeleteFile (sn_key (sr_spec item)) st else st) in
      st\<lparr>bk_store := snd (RemoveResource resourceTypeSnapshot (sr_id item) (bk_store st))\<rparr>)"

definition enforceRetention :: "backup_env \<Rightarrow> backup_state \<Rightarrow> bool \<times> backup_state" where
  "enforceRetention env st =
     (case GetPolicy (bk_store st) of (retention, s) \<Rightarrow>
        (case ListSnapshots env s of
           (None, s) \<Rightarrow> (False, st\<lparr>bk_store := s\<rparr>)
         | (Some items, s) \<Rightarrow> (True, fold pruneOne (drop (nat retention) items) (st\<lparr>bk_store := s\<rparr>))))"

section \<open>Taking snapshots\<close>

definition snapshotID :: "string \<Rightarrow> gotime \<Rightarrow> string" where
  "snapshotID ty t = ty @ ''-'' @ itoa t"

definition recordFailure :: "string \<Rightarrow> gotime \<Rightarrow> string \<Rightarrow> backup_state \<Rightarrow> backup_state" where
  "recordFailure ty started msg st = st\<lparr>bk_store := snd (CreateResource resourceTypeSnapshot (snapshotID ty started)
     (enc_snapshot_spec \<lparr>sn_type = ty, sn_key = [], sn_size = 0, sn_checksum = [], sn_duration = 0, sn_startedAt = FormatRFC3339 (utcTime started)\<rparr>)
     (enc_snapshot_status \<lparr>sns_status = ''failed'', sns_error = msg\<rparr>) [] [] (bk_store st))\<rparr>"

definition newSpec :: "backup_env \<Rightarrow> string \<Rightarrow> gotime \<Rightarrow> string \<Rightarrow> snapshot_spec" where
  "newSpec env ty started data = \<lparr>sn_type = ty, sn_key = SnapshotKey (be_prefix env) ty started, sn_size = int (length data),
     sn_checksum = be_sha env data, sn_duration = 0, sn_startedAt = FormatRFC3339 (utcTime started)\<rparr>"

definition persistSnapshot :: "backup_env \<Rightarrow> string \<Rightarrow> gotime \<Rightarrow> string \<Rightarrow> backup_state \<Rightarrow> (backup_err + snapshot_record) \<times> backup_state" where
  "persistSnapshot env ty started data st =
     (let spec = newSpec env ty started data; status = \<lparr>sns_status = ''success'', sns_error = []\<rparr> in
      case Upload (sn_key spec) data st of
        (False, st) \<Rightarrow> (Inl ErrUpload, recordFailure ty started ''upload'' st)
      | (True, st) \<Rightarrow>
          (case CreateResource resourceTypeSnapshot (snapshotID ty started) (enc_snapshot_spec spec) (enc_snapshot_status status) [] [] (bk_store st) of
             (Inl _, s) \<Rightarrow> (Inl ErrStore, st\<lparr>bk_store := s\<rparr>)
           | (Inr md, s) \<Rightarrow>
               (case enforceRetention env (st\<lparr>bk_store := s\<rparr>) of
                  (False, st) \<Rightarrow> (Inl ErrRetention, st)
                | (True, st) \<Rightarrow> (Inr \<lparr>sr_id = md_name md, sr_createdAt = FormatRFC3339 (utcTime (md_createdAt md)), sr_spec = spec, sr_status = status\<rparr>, st))))"

definition TriggerDatabase :: "backup_env \<Rightarrow> bool \<Rightarrow> backup_state \<Rightarrow> (backup_err + snapshot_record) \<times> backup_state" where
  "TriggerDatabase env configured st =
     (if \<not> configured then (Inl ErrNotConfigured, st)
      else let started = clock (bk_store st) in
        (case be_vacuum env (bk_store st) of
           None \<Rightarrow> (Inl ErrSnapshot, recordFailure ''database'' started ''snapshot'' st)
         | Some data \<Rightarrow> persistSnapshot env ''database'' started data st))"

definition TriggerResources :: "backup_env \<Rightarrow> bool \<Rightarrow> backup_state \<Rightarrow> (backup_err + snapshot_record) \<times> backup_state" where
  "TriggerResources env configured st =
     (if \<not> configured then (Inl ErrNotConfigured, st)
      else let started = clock (bk_store st) in
        (case resourceSnapshot env (bk_store st) of
           (None, s) \<Rightarrow> (Inl ErrSnapshot, recordFailure ''resources'' started ''snapshot'' (st\<lparr>bk_store := s\<rparr>))
         | (Some data, s) \<Rightarrow> persistSnapshot env ''resources'' started data (st\<lparr>bk_store := s\<rparr>)))"

section \<open>Restoring\<close>

definition applyEntry :: "export_entry \<Rightarrow> store \<Rightarrow> bool \<times> store" where
  "applyEntry e s =
     (let create = (\<lambda>s. case CreateResource (xe_type e) (xe_name e) (xe_spec e) (xe_status e) (xe_labels e) (xe_annotations e) s of (r, s) \<Rightarrow> (\<not> isl r, s)) in
      case GetResource (xe_type e) (xe_name e) s of
        (Inl _, s) \<Rightarrow> create s
      | (Inr (md, _, _), s) \<Rightarrow>
          if md_name md = [] then create s
          else
            (case UpdateResource (xe_type e) (xe_name e) (md_resourceVersion md) (xe_spec e) (xe_labels e) (xe_annotations e) s of
               (Inl _, s) \<Rightarrow> (False, s)
             | (Inr _, s) \<Rightarrow> (case UpdateStatus (xe_type e) (xe_name e) (xe_status e) s of (r, s) \<Rightarrow> (\<not> isl r, s))))"

fun applyEntries :: "export_entry list \<Rightarrow> store \<Rightarrow> bool \<times> store" where
  "applyEntries [] s = (True, s)"
| "applyEntries (e # es) s = (case applyEntry e s of (False, s) \<Rightarrow> (False, s) | (True, s) \<Rightarrow> applyEntries es s)"

record restore_result =
  rr_snapshotID :: string
  rr_dryRun :: bool
  rr_seen :: nat
  rr_restored :: nat
  rr_byType :: "string \<Rightarrow> nat"

definition decodeEntries :: "backup_env \<Rightarrow> string \<Rightarrow> export_entry list option" where
  "decodeEntries env data =
     (case be_parse env data of
        Some (JArr js) \<Rightarrow> if list_all ok_entry js then Some (map dec_entry js) else None
      | Some JNull \<Rightarrow> Some []
      | _ \<Rightarrow> None)"

definition Restore :: "backup_env \<Rightarrow> string \<Rightarrow> bool \<Rightarrow> backup_state \<Rightarrow> (backup_err + restore_result) \<times> backup_state" where
  "Restore env ident dryRun st =
     (case GetResource resourceTypeSnapshot ident (bk_store st) of
        (Inl _, s) \<Rightarrow> (Inl ErrSnapshotNotFound, st\<lparr>bk_store := s\<rparr>)
      | (Inr (md, spec, status), s) \<Rightarrow>
          let st = st\<lparr>bk_store := s\<rparr> in
          if md_name md = [] then (Inl ErrSnapshotNotFound, st)
          else if sns_status (dec_snapshot_status status) \<noteq> ''success'' then (Inl ErrNotRestorable, st)
          else if sn_type (dec_snapshot_spec spec) \<noteq> ''resources'' then (Inl ErrNotResources, st)
          else
            (case Download (sn_key (dec_snapshot_spec spec)) st of
               (None, st) \<Rightarrow> (Inl ErrDownload, st)
             | (Some data, st) \<Rightarrow>
                 (case decodeEntries env data of
                    None \<Rightarrow> (Inl ErrDecode, st)
                  | Some es \<Rightarrow>
                      let result = \<lparr>rr_snapshotID = ident, rr_dryRun = dryRun, rr_seen = length es, rr_restored = (if dryRun then 0 else length es),
                            rr_byType = (\<lambda>ty. length (filter (\<lambda>e. xe_type e = ty) es))\<rparr> in
                      if dryRun then (Inr result, st)
                      else
                        (case applyEntries es (bk_store st) of
                           (False, s) \<Rightarrow> (Inl ErrStore, st\<lparr>bk_store := s\<rparr>)
                         | (True, s) \<Rightarrow> (Inr result, st\<lparr>bk_store := s\<rparr>)))))"

section \<open>HTTP handlers\<close>

definition triggerReply :: "(backup_err + snapshot_record) \<times> backup_state \<Rightarrow> snapshot_record reply \<times> backup_state" where
  "triggerReply = (\<lambda>(r, st). (case r of Inl ErrNotConfigured \<Rightarrow> Fail 503 ''NotConfigured'' | Inl _ \<Rightarrow> InternalError | Inr x \<Rightarrow> Reply 201 x, st))"

definition api_BackupDatabase :: "backup_env \<Rightarrow> bool \<Rightarrow> backup_state \<Rightarrow> snapshot_record reply \<times> backup_state" where
  "api_BackupDatabase env configured st = triggerReply (TriggerDatabase env configured st)"

definition api_BackupResources :: "backup_env \<Rightarrow> bool \<Rightarrow> backup_state \<Rightarrow> snapshot_record reply \<times> backup_state" where
  "api_BackupResources env configured st = triggerReply (TriggerResources env configured st)"

definition api_ListBackups :: "backup_env \<Rightarrow> backup_state \<Rightarrow> snapshot_record list reply \<times> backup_state" where
  "api_ListBackups env st =
     (case ListSnapshots env (bk_store st) of (r, s) \<Rightarrow>
        (case r of None \<Rightarrow> InternalError | Some xs \<Rightarrow> Reply 200 xs, st\<lparr>bk_store := s\<rparr>))"

definition api_GetPolicy :: "backup_state \<Rightarrow> int reply \<times> backup_state" where
  "api_GetPolicy st = (case GetPolicy (bk_store st) of (n, s) \<Rightarrow> (Reply 200 n, st\<lparr>bk_store := s\<rparr>))"

definition api_UpdatePolicy :: "int option \<Rightarrow> backup_state \<Rightarrow> unit reply \<times> backup_state" where
  "api_UpdatePolicy body st =
     (case body of
        None \<Rightarrow> (BadRequest, st)
      | Some n \<Rightarrow> (case UpdatePolicy n (bk_store st) of (ok, s) \<Rightarrow> (if ok then NoBody 204 else BadRequest, st\<lparr>bk_store := s\<rparr>)))"

definition api_restore :: "backup_env \<Rightarrow> bool \<Rightarrow> string option \<Rightarrow> backup_state \<Rightarrow> restore_result reply \<times> backup_state" where
  "api_restore env dryRun body st =
     (case body of
        None \<Rightarrow> (BadRequest, st)
      | Some ident \<Rightarrow>
          if ident = [] then (BadRequest, st)
          else (case Restore env ident dryRun st of (Inl _, st) \<Rightarrow> (BadRequest, st) | (Inr r, st) \<Rightarrow> (Reply 200 r, st)))"

end
