(* ===== verification/Backup_Props.thy ===== *)
theory Backup_Props
  imports Backup Store_Props "HOL-Library.Multiset"
begin

text \<open>
  Backups: a resources snapshot restores what it recorded, and what the retention does to snapshots of one day.
\<close>

section \<open>Exporting\<close>

definition exportRow :: "row \<Rightarrow> export_entry" where
  "exportRow r = \<lparr>xe_type = r_type r, xe_name = r_name r, xe_spec = r_spec r, xe_status = r_status r, xe_labels = r_labels r, xe_annotations = r_annotations r\<rparr>"

definition exported :: "string list \<Rightarrow> store \<Rightarrow> export_entry list" where
  "exported kinds s = concat (map (\<lambda>k. map exportRow (sort_key r_name (listed k [] s))) kinds)"

lemma exportAll_healthy: "faults s = [] \<Longrightarrow> exportAll kinds s = (Some (exported kinds s), s)"
proof (induction kinds)
  case (Cons k kinds)
  have "map (exportOf k \<circ> (\<lambda>r. (meta_of r, r_spec r, r_status r))) (sort_key r_name (listed k [] s)) =
      map exportRow (sort_key r_name (listed k [] s))"
    by (rule map_cong) (auto simp: exportOf_def exportRow_def listed_def)
  then show ?case using Cons by (simp add: exported_def listAll_def ListResources_healthy page_def comp_def)
qed (simp add: exported_def)

abbreviation entry_key :: "export_entry \<Rightarrow> string \<times> string" where
  "entry_key e \<equiv> (xe_type e, xe_name e)"

lemma exported_mem:
  "e \<in> set (exported kinds s) \<longleftrightarrow> (\<exists>r\<in>set (resources s). r_type r \<in> set kinds \<and> r_deleted r = None \<and> e = exportRow r)"
  by (auto simp: exported_def listed_def selects_def)

lemma exported_keys: "entry_key ` set (exported kinds s) = row_key ` {r \<in> set (resources s). r_type r \<in> set kinds \<and> r_deleted r = None}"
proof -
  have "set (exported kinds s) = exportRow ` {r \<in> set (resources s). r_type r \<in> set kinds \<and> r_deleted r = None}"
    using exported_mem by blast
  then show ?thesis by (simp add: image_image exportRow_def)
qed

lemma exported_Cons: "exported (k # kinds) s = map exportRow (sort_key r_name (listed k [] s)) @ exported kinds s"
  by (simp add: exported_def)

lemma exported_distinct:
  assumes "tbl_wf row_key (resources s)" "distinct kinds"
  shows "distinct (map entry_key (exported kinds s))"
  using assms(2)
proof (induction kinds)
  case (Cons k kinds)
  let ?xs = "sort_key r_name (listed k [] s)"
  have eq: "map entry_key (map exportRow ?xs) = map row_key ?xs" by (simp add: exportRow_def)
  have "distinct (map row_key ?xs)"
    using tbl_wf_filter [OF assms(1)] by (simp add: tbl_wf_def listed_def distinct_map)
  moreover have "fst ` row_key ` set ?xs \<subseteq> {k}" by (auto simp: listed_def)
  moreover have "fst ` entry_key ` set (exported kinds s) \<subseteq> set kinds" by (auto simp: exported_mem exportRow_def)
  ultimately have "row_key ` set ?xs \<inter> entry_key ` set (exported kinds s) = {}" using Cons.prems by (fastforce simp: image_iff)
  then show ?case using Cons \<open>distinct (map row_key ?xs)\<close>
    unfolding exported_Cons map_append eq distinct_append by simp
qed (simp add: exported_def)

section \<open>Restoring\<close>

text \<open>A row holds what an entry recorded.\<close>

definition restores :: "export_entry \<Rightarrow> row \<Rightarrow> bool" where
  "restores e r \<longleftrightarrow> r_spec r = xe_spec e \<and> r_status r = xe_status e \<and> r_labels r = xe_labels e \<and> r_annotations r = xe_annotations e"

lemma applyEntry_healthy:
  assumes "faults s = []" "xe_name e \<noteq> []"
  obtains s' where "applyEntry e s = (True, s')" "faults s' = []"
    "\<exists>r. find_row s' (xe_type e) (xe_name e) = Some r \<and> restores e r"
    "\<And>k. k \<noteq> entry_key e \<Longrightarrow> tbl_get row_key (resources s') k = tbl_get row_key (resources s) k"
proof (cases "find_row s (xe_type e) (xe_name e)")
  case None
  let ?r = "new_row (xe_type e) (xe_name e) (xe_spec e) (xe_status e) (xe_labels e) (xe_annotations e) s"
  have k: "row_key ?r = entry_key e" by (simp add: new_row_def)
  show thesis
    by (rule that [of "snd (applyEntry e s)"])
      (use assms None k tbl_get_ins [of row_key "resources s" ?r] in
        \<open>auto simp: applyEntry_def GetResource_healthy CreateResource_healthy Let_def restores_def new_row_def\<close>)
next
  case (Some r)
  have n: "r_name r = xe_name e" using find_row_key [OF Some] by simp
  show thesis
    by (rule that [of "snd (applyEntry e s)"])
      (use assms Some n in \<open>auto simp: applyEntry_def GetResource_healthy UpdateResource_healthy UpdateStatus_healthy Let_def restores_def\<close>)
qed

lemma applyEntries_healthy:
  assumes "faults s = []" "\<And>e. e \<in> set es \<Longrightarrow> xe_name e \<noteq> []" "distinct (map entry_key es)"
  shows "\<exists>s'. applyEntries es s = (True, s') \<and> faults s' = [] \<and>
    (\<forall>e\<in>set es. \<exists>r. find_row s' (xe_type e) (xe_name e) = Some r \<and> restores e r) \<and>
    (\<forall>k. k \<notin> entry_key ` set es \<longrightarrow> tbl_get row_key (resources s') k = tbl_get row_key (resources s) k)"
  using assms
proof (induction es arbitrary: s)
  case (Cons e es)
  obtain t where t: "applyEntry e s = (True, t)" "faults t = []" "\<exists>r. find_row t (xe_type e) (xe_name e) = Some r \<and> restores e r"
      "\<And>k. k \<noteq> entry_key e \<Longrightarrow> tbl_get row_key (resources t) k = tbl_get row_key (resources s) k"
    by (rule applyEntry_healthy [of s e]) (use Cons.prems(1,2) in auto)
  obtain u where u: "applyEntries es t = (True, u)" "faults u = []" "\<forall>e\<in>set es. \<exists>r. find_row u (xe_type e) (xe_name e) = Some r \<and> restores e r"
      "\<forall>k. k \<notin> entry_key ` set es \<longrightarrow> tbl_get row_key (resources u) k = tbl_get row_key (resources t) k"
    using Cons.IH [OF t(2)] Cons.prems by auto
  have "entry_key e \<notin> entry_key ` set es" using Cons.prems(3) by (auto simp: image_iff)
  then have "find_row u (xe_type e) (xe_name e) = find_row t (xe_type e) (xe_name e)" using u(4) by blast
  then show ?case using t u by auto
qed simp

lemma decodeEntries_print:
  assumes "be_parse env (be_print env (JArr (map enc_entry es))) = Some (JArr (map enc_entry es))"
  shows "decodeEntries env (be_print env (JArr (map enc_entry es))) = Some es"
proof -
  have "map dec_entry (map enc_entry es) = es" "list_all ok_entry (map enc_entry es)"
    by (induction es) (simp_all add: dec_enc_entry)
  then show ?thesis by (simp add: decodeEntries_def assms)
qed


lemma reload_name: "updateResourceMetadataAndPublish et mu rt n s = (Inr md, s') \<Longrightarrow> md_name md = n"
proof -
  assume run: "updateResourceMetadataAndPublish et mu rt n s = (Inr md, s')"
  then obtain t r where "find_row t rt n = Some r" "md = meta_of r"
    by (auto simp: updateResourceMetadataAndPublish_def split: prod.splits if_splits option.splits)
  then show ?thesis using find_row_key [of t rt n r] by simp
qed

lemma CreateResource_name: "CreateResource rt n sp stt l a s = (Inr md, s') \<Longrightarrow> md_name md = n"
  unfolding CreateResource_def by (auto split: prod.splits if_splits dest!: reload_name)

lemma persistSnapshot_record:
  "persistSnapshot env ty started data st = (Inr rec, st1) \<Longrightarrow>
     sr_id rec = snapshotID ty started \<and> sr_spec rec = newSpec env ty started data \<and> sr_status rec = \<lparr>sns_status = ''success'', sns_error = []\<rparr>"
  by (auto simp: persistSnapshot_def Let_def dest!: CreateResource_name split: prod.splits bool.splits sum.splits)

lemma snapshotID_not_Nil [simp]: "snapshotID ty t \<noteq> []"
  by (simp add: snapshotID_def)


section \<open>Retention\<close>

lemma pruneOne_healthy:
  assumes "faults (bk_store st) = []" "bk_faults st = []"
  shows "faults (bk_store (pruneOne x st)) = []" "bk_faults (pruneOne x st) = []"
    "bk_files (pruneOne x st) = (if sn_key (sr_spec x) = [] then bk_files st else AList.delete (sn_key (sr_spec x)) (bk_files st))"
    "resources (bk_store (pruneOne x st)) = tbl_del row_key (resourceTypeSnapshot, sr_id x) (resources (bk_store st))"
  using assms by (simp_all add: pruneOne_def DeleteFile_def bk_io_def RemoveResource_healthy Let_def split: option.splits)

lemma prune_all:
  assumes "faults (bk_store st) = []" "bk_faults st = []"
  shows "faults (bk_store (fold pruneOne xs st)) = [] \<and> bk_faults (fold pruneOne xs st) = [] \<and>
    set (resources (bk_store (fold pruneOne xs st))) \<subseteq> set (resources (bk_store st)) \<and>
    (\<forall>k. k \<noteq> [] \<and> k \<in> (sn_key \<circ> sr_spec) ` set xs \<or> map_of (bk_files st) k = None \<longrightarrow> map_of (bk_files (fold pruneOne xs st)) k = None)"
  using assms
proof (induction xs arbitrary: st)
  case (Cons x xs)
  note p = pruneOne_healthy [OF Cons.prems, of x]
  have "set (resources (bk_store (pruneOne x st))) \<subseteq> set (resources (bk_store st))" by (auto simp: p(4) tbl_del_def)
  with Cons.IH [OF p(1,2)] show ?case by (auto simp: p(3) delete_conv')
qed simp

lemma SnapshotKey_not_Nil [simp]: "SnapshotKey pre ty t \<noteq> []"
  by (simp add: SnapshotKey_def)

lemma Restore_no_file:
  assumes "faults (bk_store st) = []" "bk_faults st = []" "map_of (bk_files st) key = None"
    and "\<And>r. r \<in> set (resources (bk_store st)) \<Longrightarrow> r_type r = resourceTypeSnapshot \<Longrightarrow> sn_key (dec_snapshot_spec (r_spec r)) = key"
  shows "isl (fst (Restore env ident dryRun st))"
proof (cases "find_row (bk_store st) resourceTypeSnapshot ident")
  case (Some r)
  then have "r \<in> set (resources (bk_store st))" "r_type r = resourceTypeSnapshot" by (auto simp: tbl_get_def find_Some_iff)
  with assms Some show ?thesis by (simp add: Restore_def GetResource_healthy Download_def bk_io_def Let_def)
qed (use assms in \<open>simp add: Restore_def GetResource_healthy\<close>)


abbreviation snapshot_rows :: "store \<Rightarrow> row list" where
  "snapshot_rows s \<equiv> filter (\<lambda>r. r_type r = resourceTypeSnapshot) (resources s)"

lemma GetPolicy_healthy:
  assumes "faults s = []" "GetPolicy s = (n, s')"
  shows "faults s' = [] \<and> snapshot_rows s' = snapshot_rows s \<and>
    n = (case find_row s resourceTypePolicy defaultPolicyName of None \<Rightarrow> 7
         | Some r \<Rightarrow> if dInt ''retention'' (r_spec r) \<le> 0 then 7 else dInt ''retention'' (r_spec r))"
  using assms
  by (auto simp: GetPolicy_def GetResource_healthy CreateResource_healthy Let_def new_row_def tbl_ins_def split: option.splits)

text \<open>
  C29: one backup too many in a day loses them all. The key of a snapshot is its type and its day, so the snapshots of one
  day share a file. When the store holds at least as many of them as the policy keeps, the next one is uploaded, recorded
  and reported as a success, and the retention then deletes the oldest record together with the shared
  file: afterwards no snapshot can be restored.
\<close>

theorem same_day_snapshot_lost:
  assumes ok: "faults (bk_store st) = []" "bk_faults st = []" and sort: "\<And>xs. mset (be_sort env xs) = mset xs"
    and day: "\<And>r. r \<in> set (resources (bk_store st)) \<Longrightarrow> r_type r = resourceTypeSnapshot \<Longrightarrow>
      r_deleted r = None \<and> sn_key (dec_snapshot_spec (r_spec r)) = SnapshotKey (be_prefix env) ty started"
    and new: "find_row (bk_store st) resourceTypeSnapshot (snapshotID ty started) = None"
    and full: "nat (fst (GetPolicy (bk_store st))) \<le> length (snapshot_rows (bk_store st))"
  shows "\<exists>rec st'. persistSnapshot env ty started data st = (Inr rec, st') \<and> sns_status (sr_status rec) = ''success'' \<and>
    map_of (bk_files st') (sn_key (sr_spec rec)) = None \<and> (\<forall>ident d. isl (fst (Restore env ident d st')))"
proof -
  let ?K = "SnapshotKey (be_prefix env) ty started" and ?spec = "newSpec env ty started data"
  let ?status = "\<lparr>sns_status = ''success'', sns_error = []\<rparr> :: snapshot_status"
  define r where "r = new_row resourceTypeSnapshot (snapshotID ty started) (enc_snapshot_spec ?spec) (enc_snapshot_status ?status) [] [] (bk_store st)"
  define s2 where "s2 = publish ''ADDED'' MutationCreate resourceTypeSnapshot (meta_of r) (Some (enc_snapshot_spec ?spec)) (Some (enc_snapshot_status ?status))
    ((bk_store st)\<lparr>resources := tbl_ins r (resources (bk_store st))\<rparr>)"
  define st1 where "st1 = st\<lparr>bk_files := AList.update ?K data (bk_files st)\<rparr>"
  have key: "sn_key ?spec = ?K" by (simp add: newSpec_def)
  have up: "Upload (sn_key ?spec) data st = (True, st1)" using ok(2) by (simp add: Upload_def bk_io_def st1_def key)
  have create: "CreateResource resourceTypeSnapshot (snapshotID ty started) (enc_snapshot_spec ?spec) (enc_snapshot_status ?status) [] [] (bk_store st1) = (Inr (meta_of r), s2)"
    using ok(1) new by (simp add: CreateResource_healthy st1_def r_def s2_def Let_def)
  have rows2: "snapshot_rows s2 = snapshot_rows (bk_store st) @ [r]" "faults s2 = []"
    using ok(1) by (simp_all add: s2_def tbl_ins_def r_def new_row_def)
  obtain n s3 where pol: "GetPolicy s2 = (n, s3)" by fastforce
  note g = GetPolicy_healthy [OF rows2(2) pol]
  have "find_row s2 resourceTypePolicy defaultPolicyName = find_row (bk_store st) resourceTypePolicy defaultPolicyName"
    using tbl_get_ins [of row_key "resources (bk_store st)" r] new by (simp add: s2_def r_def new_row_def)
  then have n: "n = fst (GetPolicy (bk_store st))"
    using g GetPolicy_healthy [OF ok(1) prod.collapse [symmetric]] by simp
  have live: "listed resourceTypeSnapshot [] s3 = snapshot_rows s3"
  proof -
    have "r_deleted x = None" if "x \<in> set (snapshot_rows s3)" for x
      using that g rows2(1) day by (auto simp: r_def new_row_def)
    then show ?thesis unfolding listed_def by (intro filter_cong) (auto simp: selects_def)
  qed
  let ?item = "\<lambda>(md, spec, status). \<lparr>sr_id = md_name md, sr_createdAt = FormatRFC3339 (utcTime (md_createdAt md)),
             sr_spec = dec_snapshot_spec spec, sr_status = dec_snapshot_status status\<rparr>"
  define items where "items = be_sort env (map (?item \<circ> (\<lambda>r. (meta_of r, r_spec r, r_status r))) (sort_key r_name (snapshot_rows s3)))"
  have list: "ListSnapshots env s3 = (Some items, s3)"
    using g by (simp add: ListSnapshots_def listAll_def ListResources_healthy page_def live items_def)
  have perm: "mset items = mset (map (?item \<circ> (\<lambda>r. (meta_of r, r_spec r, r_status r))) (sort_key r_name (snapshot_rows s3)))"
    unfolding items_def by (rule sort)
  have set: "set items = (?item \<circ> (\<lambda>r. (meta_of r, r_spec r, r_status r))) ` set (snapshot_rows s3)"
    using mset_eq_setD [OF perm] by (simp only: set_map set_sort)
  have len: "length items = length (snapshot_rows s3)"
    using mset_eq_length [OF perm] by (simp only: length_map length_sort)
  have keys: "sn_key (dec_snapshot_spec (r_spec x)) = ?K" if "x \<in> set (snapshot_rows s3)" for x
    using that g rows2(1) day by (auto simp: r_def new_row_def dec_enc_snapshot_spec key)
  have "nat n < length items" using full n g rows2(1) len by simp
  then obtain x where x: "x \<in> set (drop (nat n) items)" by (metis drop_eq_Nil ex_in_conv leD set_empty)
  then have "sn_key (sr_spec x) = ?K" using set keys by (auto dest!: in_set_dropD)
  then have cut: "?K \<in> (sn_key \<circ> sr_spec) ` set (drop (nat n) items)" using x by force
  define st' where "st' = fold pruneOne (drop (nat n) items) (st1\<lparr>bk_store := s3\<rparr>)"
  have p: "faults (bk_store st') = []" "bk_faults st' = []" "set (resources (bk_store st')) \<subseteq> set (resources s3)" "map_of (bk_files st') ?K = None"
    using prune_all [of "st1\<lparr>bk_store := s3\<rparr>" "drop (nat n) items"] g ok(2) cut by (auto simp: st'_def st1_def)
  have "persistSnapshot env ty started data st = (Inr \<lparr>sr_id = md_name (meta_of r), sr_createdAt = FormatRFC3339 (utcTime (md_createdAt (meta_of r))),
      sr_spec = ?spec, sr_status = ?status\<rparr>, st')"
    by (simp add: persistSnapshot_def Let_def up create enforceRetention_def pol list st'_def)
  moreover have "isl (fst (Restore env ident d st'))" for ident d
    by (rule Restore_no_file [OF p(1,2,4)]) (use p(3) keys in auto)
  ultimately show ?thesis using p(4) key by auto
qed

section \<open>Instances\<close>

definition ex_backup :: backup_env where
  "ex_backup = \<lparr>be_vacuum = (\<lambda>_. None), be_sha = (\<lambda>d. d), be_print = (\<lambda>_. ''doc''),
     be_parse = (\<lambda>_. Some (JArr (map enc_entry (exported exportKinds ex_store)))), be_sort = (\<lambda>xs. xs), be_prefix = ''backups''\<rparr>"

definition ex_backup_state :: backup_state where
  "ex_backup_state = \<lparr>bk_store = ex_store, bk_files = [], bk_faults = []\<rparr>"

definition ex_snapshot_row :: row where
  "ex_snapshot_row = (ex_row resourceTypeSnapshot (snapshotID ''resources'' 5) [])\<lparr>
     r_spec := enc_snapshot_spec (newSpec ex_backup ''resources'' 5 ''doc''), r_status := enc_snapshot_status \<lparr>sns_status = ''success'', sns_error = []\<rparr>\<rparr>"

text \<open>Later the tenant and both machines are gone; the snapshot's record and file are there.\<close>

definition ex_backup_later :: backup_state where
  "ex_backup_later = \<lparr>bk_store = ex_store\<lparr>resources := [ex_snapshot_row]\<rparr>, bk_files = [(SnapshotKey ''backups'' ''resources'' 5, ''doc'')], bk_faults = []\<rparr>"

lemma ex_snapshot_doc: "resourceSnapshot ex_backup ex_store = (Some ''doc'', ex_store)"
  by (simp add: resourceSnapshot_def exportAll_healthy ex_backup_def del: exportAll.simps)

lemma ex_snapshot_taken:
  "\<exists>rec st1. TriggerResources ex_backup True ex_backup_state = (Inr rec, st1)"
proof -
  note s = ex_snapshot_doc
  let ?s = "snd (CreateResource resourceTypeSnapshot (snapshotID ''resources'' 5) (enc_snapshot_spec (newSpec ex_backup ''resources'' 5 ''doc''))
    (enc_snapshot_status \<lparr>sns_status = ''success'', sns_error = []\<rparr>) [] [] ex_store)"
  have f: "faults ?s = []" by (simp add: CreateResource_healthy Let_def)
  obtain n s3 where g: "GetPolicy ?s = (n, s3)" by fastforce
  have "faults s3 = []" using GetPolicy_healthy [OF f g] by simp
  then show ?thesis
    using g by (simp add: TriggerResources_def ex_backup_state_def s persistSnapshot_def Upload_def bk_io_def Let_def CreateResource_healthy
        enforceRetention_def ListSnapshots_def listAll_def ListResources_healthy split: prod.splits)
qed


definition ex_same_day :: backup_state where
  "ex_same_day = \<lparr>bk_store = ex_store\<lparr>resources := [(ex_row resourceTypePolicy defaultPolicyName [])\<lparr>r_spec := enc_policy 1\<rparr>,
     (ex_row resourceTypeSnapshot ''resources-3'' [])\<lparr>r_spec := enc_snapshot_spec (newSpec ex_backup ''resources'' 5 ''doc'')\<rparr>]\<rparr>,
     bk_files = [(SnapshotKey ''backups'' ''resources'' 5, ''doc'')], bk_faults = []\<rparr>"

theorem same_day_snapshot_lost_witness:
  "\<exists>rec st'. persistSnapshot ex_backup ''resources'' 5 ''doc2'' ex_same_day = (Inr rec, st') \<and> sns_status (sr_status rec) = ''success'' \<and>
     map_of (bk_files st') (sn_key (sr_spec rec)) = None"
proof -
  have ok: "faults (bk_store ex_same_day) = []" "bk_faults ex_same_day = []" "\<And>xs. mset (be_sort ex_backup xs) = mset xs"
    by (simp_all add: ex_same_day_def ex_backup_def)
  have day: "r_deleted r = None \<and> sn_key (dec_snapshot_spec (r_spec r)) = SnapshotKey (be_prefix ex_backup) ''resources'' 5"
    if "r \<in> set (resources (bk_store ex_same_day))" "r_type r = resourceTypeSnapshot" for r
    using that by (auto simp: ex_same_day_def dec_enc_snapshot_spec newSpec_def)
  have "itoa 5 = ''5''" by code_simp
  then have new: "find_row (bk_store ex_same_day) resourceTypeSnapshot (snapshotID ''resources'' 5) = None"
    by (simp add: ex_same_day_def snapshotID_def tbl_get_def)
  have "fst (GetPolicy (bk_store ex_same_day)) = 1"
    by (simp add: ex_same_day_def GetPolicy_def GetResource_healthy tbl_get_def enc_policy_def json_simps)
  then have full: "nat (fst (GetPolicy (bk_store ex_same_day))) \<le> length (snapshot_rows (bk_store ex_same_day))"
    by (simp add: ex_same_day_def)
  from same_day_snapshot_lost [OF ok day new full, where data = "''doc2''"] show ?thesis by blast
qed

end
