(* ===== verification/Oidc.thy ===== *)
theory Oidc
  imports Applier Auth Calendar
begin

text \<open>
  Federated sign-in (\<^verbatim>\<open>internal/auth/oidc\<close>): configuration, discovery and key caches, verification of an ID
  token, the link between a federated identity and a local user, and the two endpoints of the code flow. The
  provider's answers, the JWT package, the code exchange and URL parsing are parameters; the flow cookie is what it decodes to.
\<close>

section \<open>Configuration\<close>

record oidc_config =
  od_issuer :: string
  od_clientID :: string
  od_clientSecret :: string
  od_redirectURL :: string
  od_defaultRole :: string
  od_adminGroup :: string
  od_scopes :: "string list"

definition trimSlashes :: "string \<Rightarrow> string" where
  "trimSlashes s = rev (dropWhile (\<lambda>c. c = CHR ''/'') (rev s))"

definition oidc_FromEnv :: "(string \<Rightarrow> string) \<Rightarrow> oidc_config" where
  "oidc_FromEnv getenv = \<lparr>od_issuer = trimSlashes (getenv ''REZUSCLOUD_OIDC_ISSUER''), od_clientID = getenv ''REZUSCLOUD_OIDC_CLIENT_ID'',
     od_clientSecret = getenv ''REZUSCLOUD_OIDC_CLIENT_SECRET'', od_redirectURL = getenv ''REZUSCLOUD_OIDC_REDIRECT_URL'',
     od_defaultRole = (if getenv ''REZUSCLOUD_OIDC_DEFAULT_ROLE'' = [] then ''view'' else getenv ''REZUSCLOUD_OIDC_DEFAULT_ROLE''),
     od_adminGroup = getenv ''REZUSCLOUD_OIDC_ADMIN_GROUP'', od_scopes = []\<rparr>"

definition oidc_Enabled :: "oidc_config \<Rightarrow> bool" where
  "oidc_Enabled c \<longleftrightarrow> od_issuer c \<noteq> [] \<and> od_clientID c \<noteq> [] \<and> od_clientSecret c \<noteq> []"

text \<open>\<open>urlHost\<close> is the host of a URL, \<open>None\<close> when it does not parse.\<close>

definition oidc_Validate :: "(string \<Rightarrow> string option) \<Rightarrow> oidc_config \<Rightarrow> bool" where
  "oidc_Validate urlHost c \<longleftrightarrow> oidc_Enabled c \<and> urlHost (od_issuer c) \<noteq> None"

definition ProviderName :: "(string \<Rightarrow> string option) \<Rightarrow> oidc_config \<Rightarrow> string" where
  "ProviderName urlHost c = (case urlHost (od_issuer c) of None \<Rightarrow> ''OIDC'' | Some h \<Rightarrow> if h = [] then ''OIDC'' else h)"

text \<open>\<^verbatim>\<open>NewHandler\<close>: \<open>None\<close> is a startup error, \<open>Some False\<close> the disabled handler.\<close>

definition oidc_NewHandler :: "(string \<Rightarrow> string option) \<Rightarrow> oidc_config \<Rightarrow> bool option" where
  "oidc_NewHandler urlHost c =
     (if \<not> oidc_Enabled c
      then if od_issuer c \<noteq> [] \<or> od_clientID c \<noteq> [] \<or> od_clientSecret c \<noteq> [] then None else Some False
      else if oidc_Validate urlHost c then Some True else None)"

section \<open>Keys\<close>

record jwk =
  jk_kty :: string
  jk_kid :: string
  jk_n :: string
  jk_e :: string
  jk_crv :: string
  jk_x :: string
  jk_y :: string

datatype public_key = RSAKey nat nat | ECKey string nat nat

text \<open>\<^verbatim>\<open>base64.RawURLEncoding.DecodeString\<close>: line breaks are skipped, spare bits of the last digit ignored.\<close>

definition b64Val :: "char \<Rightarrow> nat option" where
  "b64Val c =
     (let n = of_char c in
      if 65 \<le> n \<and> n \<le> 90 then Some (n - 65) else if 97 \<le> n \<and> n \<le> 122 then Some (n - 71)
      else if 48 \<le> n \<and> n \<le> 57 then Some (n + 4) else if n = 45 then Some 62 else if n = 95 then Some 63 else None)"

fun b64Groups :: "nat list \<Rightarrow> nat list option" where
  "b64Groups [] = Some []"
| "b64Groups [a] = None"
| "b64Groups [a, b] = Some [a * 4 + b div 16]"
| "b64Groups [a, b, c] = Some [a * 4 + b div 16, (b mod 16) * 16 + c div 4]"
| "b64Groups (a # b # c # d # r) =
     map_option (\<lambda>bs. [a * 4 + b div 16, (b mod 16) * 16 + c div 4, (c mod 4) * 64 + d] @ bs) (b64Groups r)"

definition rawURLDecode :: "string \<Rightarrow> nat list option" where
  "rawURLDecode s =
     (let ds = map b64Val (filter (\<lambda>c. of_char c \<noteq> (10 :: nat) \<and> of_char c \<noteq> (13 :: nat)) s) in
      if None \<in> set ds then None else b64Groups (map the ds))"

definition bytesValue :: "nat list \<Rightarrow> nat" where
  "bytesValue bs = foldl (\<lambda>n b. 256 * n + b) 0 bs"

definition materialize :: "jwk \<Rightarrow> public_key option" where
  "materialize k =
     (if jk_kty k = ''RSA''
      then (case rawURLDecode (jk_n k) of
              None \<Rightarrow> None
            | Some n \<Rightarrow>
                (case rawURLDecode (jk_e k) of
                   None \<Rightarrow> None
                 | Some e \<Rightarrow> if 4 < length e then None else Some (RSAKey (bytesValue n) (bytesValue e))))
      else if jk_kty k = ''EC''
      then if jk_crv k \<notin> {''P-256'', ''P-384'', ''P-521''} then None
        else (case rawURLDecode (jk_x k) of
                None \<Rightarrow> None
              | Some x \<Rightarrow> map_option (\<lambda>y. ECKey (jk_crv k) (bytesValue x) (bytesValue y)) (rawURLDecode (jk_y k)))
      else None)"

definition findKey :: "jwk list \<Rightarrow> string \<Rightarrow> jwk option" where
  "findKey ks kid = find (\<lambda>k. jk_kid k = kid \<and> (jk_kty k = ''RSA'' \<or> jk_kty k = ''EC'')) ks"

section \<open>State and surroundings\<close>

record provider_metadata =
  pmd_issuer :: string
  pmd_authURL :: string
  pmd_tokenURL :: string
  pmd_jwksURL :: string

record id_claims =
  ic_issuer :: string
  ic_audience :: "string list"
  ic_subject :: string
  ic_expires :: gotime
  ic_nonce :: string
  ic_preferredUsername :: string
  ic_email :: string
  ic_groupsRaw :: "json option"

text \<open>
  The answers of the provider at a URL (\<open>None\<close> for every failure up to the parsed document), the exchange of a
  code at a token endpoint (the ID token, if the answer has one), the algorithm, key id and claims written in a token
  (the JWT package decodes them before it asks for the key), and whether the token passes the package's checks of
  signature, issuer, audience and time under a key.
\<close>

record oidc_env =
  oe_auth :: auth_env
  oe_urlHost :: "string \<Rightarrow> string option"
  oe_metadata :: "string \<Rightarrow> provider_metadata option"
  oe_jwks :: "string \<Rightarrow> jwk list option"
  oe_exchange :: "string \<Rightarrow> string \<Rightarrow> string \<Rightarrow> string \<Rightarrow> string option option"
  oe_decode :: "string \<Rightarrow> (string \<times> string \<times> id_claims) option"
  oe_verify :: "string \<Rightarrow> string \<Rightarrow> gotime \<Rightarrow> public_key \<Rightarrow> string \<Rightarrow> bool"

record oidc_world =
  ow_store :: store
  ow_discovery :: "(string \<times> provider_metadata \<times> gotime) list"
  ow_jwks :: "(string \<times> jwk list \<times> gotime) list"

abbreviation ow_now :: "oidc_world \<Rightarrow> gotime" where
  "ow_now w \<equiv> clock (ow_store w)"

text \<open>The two caches share a shape: an entry is good until the clock is past its end.\<close>

definition cacheGet :: "(string \<times> 'a \<times> gotime) list \<Rightarrow> string \<Rightarrow> gotime \<Rightarrow> 'a option" where
  "cacheGet m k now = (case map_of m k of None \<Rightarrow> None | Some (v, expires) \<Rightarrow> if expires < now then None else Some v)"

definition cachePut :: "string \<Rightarrow> 'a \<Rightarrow> gotime \<Rightarrow> (string \<times> 'a \<times> gotime) list \<Rightarrow> (string \<times> 'a \<times> gotime) list" where
  "cachePut k v now m = AList.update k (v, now + hour) m"

definition discover :: "oidc_env \<Rightarrow> string \<Rightarrow> oidc_world \<Rightarrow> provider_metadata option \<times> oidc_world" where
  "discover env issuer w =
     (case cacheGet (ow_discovery w) issuer (ow_now w) of
        Some md \<Rightarrow> (Some md, w)
      | None \<Rightarrow>
          (case oe_metadata env (trimSlashes issuer @ ''/.well-known/openid-configuration'') of
             None \<Rightarrow> (None, w)
           | Some md \<Rightarrow>
               if pmd_issuer md \<noteq> issuer then (None, w)
               else if pmd_authURL md = [] \<or> pmd_tokenURL md = [] \<or> pmd_jwksURL md = [] then (None, w)
               else (Some md, w\<lparr>ow_discovery := cachePut issuer md (ow_now w) (ow_discovery w)\<rparr>)))"

definition keyAt :: "oidc_env \<Rightarrow> string \<Rightarrow> string \<Rightarrow> oidc_world \<Rightarrow> public_key option \<times> oidc_world" where
  "keyAt env url kid w =
     (if kid = [] then (None, w)
      else
        (case (case cacheGet (ow_jwks w) url (ow_now w) of
                 Some ks \<Rightarrow> if findKey ks kid = None then None else Some ks
               | None \<Rightarrow> None) of
           Some ks \<Rightarrow> (Option.bind (findKey ks kid) materialize, w)
         | None \<Rightarrow>
             (case oe_jwks env url of
                None \<Rightarrow> (None, w)
              | Some ks \<Rightarrow> (Option.bind (findKey ks kid) materialize, w\<lparr>ow_jwks := cachePut url ks (ow_now w) (ow_jwks w)\<rparr>))))"

section \<open>ID tokens\<close>

text \<open>The groups claim: an array of strings, a single string, null or absent.\<close>

definition decodeGroups :: "json option \<Rightarrow> string list option" where
  "decodeGroups g =
     (case g of
        None \<Rightarrow> Some []
      | Some JNull \<Rightarrow> Some []
      | Some (JStr s) \<Rightarrow> Some [s]
      | Some (JArr xs) \<Rightarrow> if list_all (orNull isStr) xs then Some (map vStr xs) else None
      | _ \<Rightarrow> None)"

abbreviation validMethods :: "string list" where
  "validMethods \<equiv> [''RS256'', ''RS384'', ''RS512'', ''ES256'', ''ES384'', ''ES512'']"

definition VerifyIDToken ::
  "oidc_env \<Rightarrow> string \<Rightarrow> string \<Rightarrow> string \<Rightarrow> string \<Rightarrow> string \<Rightarrow> oidc_world \<Rightarrow> (id_claims \<times> string list) option \<times> oidc_world" where
  "VerifyIDToken env raw issuer jwksURL clientID nonce w =
     (case oe_decode env raw of
        None \<Rightarrow> (None, w)
      | Some (alg, kid, c) \<Rightarrow>
          (case decodeGroups (ic_groupsRaw c) of
             None \<Rightarrow> (None, w)
           | Some groups \<Rightarrow>
               if alg \<notin> set validMethods then (None, w)
               else
                 (case keyAt env jwksURL kid w of
                    (None, w) \<Rightarrow> (None, w)
                  | (Some key, w) \<Rightarrow>
                      if \<not> oe_verify env issuer clientID (ow_now w + minute) key raw then (None, w)
                      else if nonce = [] \<or> ic_nonce c \<noteq> nonce then (None, w)
                      else if ic_subject c = [] then (None, w)
                      else (Some (c, groups), w))))"

section \<open>Identities\<close>

record oidc_identity_spec =
  oi_issuer :: string
  oi_subject :: string
  oi_username :: string
  oi_email :: string
  oi_provider :: string
  oi_linkedAt :: string
  oi_lastLogin :: string

definition enc_identity :: "oidc_identity_spec \<Rightarrow> json" where
  "enc_identity x = jobj [(''issuer'', eStr (oi_issuer x)), (''subject'', eStr (oi_subject x)), (''username'', eStr (oi_username x)),
     (''email'', oStr (oi_email x)), (''provider'', oStr (oi_provider x)), (''linkedAt'', eStr (oi_linkedAt x)), (''lastLogin'', oStr (oi_lastLogin x))]"

definition dec_identity :: "json \<Rightarrow> oidc_identity_spec" where
  "dec_identity j = \<lparr>oi_issuer = dStr ''issuer'' j, oi_subject = dStr ''subject'' j, oi_username = dStr ''username'' j, oi_email = dStr ''email'' j,
     oi_provider = dStr ''provider'' j, oi_linkedAt = dStr ''linkedAt'' j, oi_lastLogin = dStr ''lastLogin'' j\<rparr>"

lemma dec_enc_identity [json_simps]: "dec_identity (enc_identity x) = x"
  by (cases x) (simp add: enc_identity_def dec_identity_def json_simps)

abbreviation "identityResourceType \<equiv> ''oidcidentity''"

definition identityName :: "auth_env \<Rightarrow> string \<Rightarrow> string \<Rightarrow> string" where
  "identityName a issuer subject = take 24 (hexEncode (sha256 a (issuer @ [CHR 0x00] @ subject)))"

definition MapRole :: "oidc_config \<Rightarrow> string list \<Rightarrow> string" where
  "MapRole cfg groups =
     (if od_adminGroup cfg \<noteq> [] \<and> od_adminGroup cfg \<in> set groups then RoleAdmin
      else if ValidRoles (od_defaultRole cfg) then od_defaultRole cfg else RoleView)"

text \<open>\<^verbatim>\<open>unsafeNameChars.ReplaceAllString\<close>: each run of other characters becomes one dash.\<close>

definition safeNameChar :: "char \<Rightarrow> bool" where
  "safeNameChar c \<longleftrightarrow> (let n = (of_char c :: nat) in 97 \<le> n \<and> n \<le> 122 \<or> 48 \<le> n \<and> n \<le> 57) \<or> c = CHR ''.'' \<or> c = CHR ''-''"

fun dashRuns :: "bool \<Rightarrow> string \<Rightarrow> string" where
  "dashRuns inRun [] = []"
| "dashRuns inRun (c # cs) = (if safeNameChar c then c # dashRuns False cs else if inRun then dashRuns True cs else CHR ''-'' # dashRuns True cs)"

definition trimRightDash :: "string \<Rightarrow> string" where
  "trimRightDash s = rev (dropWhile (\<lambda>c. c = CHR ''-'') (rev s))"

definition NormalizeUsername :: "string \<Rightarrow> string" where
  "NormalizeUsername claim =
     (let v = toLower (trimSpace claim);
          pre = takeWhile (\<lambda>c. c \<noteq> CHR ''@'') v;
          v = (if pre \<noteq> [] \<and> CHR ''@'' \<in> set v then pre else v);
          v = trimRightDash (dropWhile (\<lambda>c. c = CHR ''-'') (dashRuns False v)) in
      if 63 < length v then trimRightDash (take 63 v) else v)"

datatype resolve_err = ErrIdentityStore | ErrMissingUser | ErrNoUsername | ErrProvision | ErrLink

definition putIdentity :: "int \<Rightarrow> string \<Rightarrow> oidc_identity_spec \<Rightarrow> store \<Rightarrow> bool \<times> store" where
  "putIdentity version name spec s =
     (if 0 < version
      then (case UpdateResource identityResourceType name version (enc_identity spec) [] [] s of (r, s) \<Rightarrow> (\<not> isl r, s))
      else (case CreateResource identityResourceType name (enc_identity spec) (JObj []) [] [] s of (r, s) \<Rightarrow> (\<not> isl r, s)))"

definition ResolveIdentity ::
  "oidc_env \<Rightarrow> oidc_config \<Rightarrow> id_claims \<Rightarrow> string list \<Rightarrow> store \<Rightarrow> (resolve_err + user \<times> bool) \<times> store" where
  "ResolveIdentity env cfg c groups s0 =
     (let name = identityName (oe_auth env) (od_issuer cfg) (ic_subject c); now = FormatRFC3339 (utcTime (clock s0)) in
      case GetResource identityResourceType name s0 of
        (Inr (md, spec, _), s) \<Rightarrow>
          let ident = dec_identity spec in
          (case GetUser (oi_username ident) s of
             (Inl _, s) \<Rightarrow> (Inl ErrIdentityStore, s)
           | (Inr None, s) \<Rightarrow> (Inl ErrMissingUser, s)
           | (Inr (Some u), s) \<Rightarrow>
               (case putIdentity (md_resourceVersion md) name (ident\<lparr>oi_lastLogin := now\<rparr>) s of
                  (ok, s) \<Rightarrow> (if ok then Inr (u, True) else Inl ErrIdentityStore, s)))
      | (Inl e, s) \<Rightarrow>
          if e \<noteq> ErrNotFound then (Inl ErrIdentityStore, s)
          else
            let candidate = NormalizeUsername (if ic_preferredUsername c \<noteq> [] then ic_preferredUsername c else ic_email c) in
            if candidate = [] then (Inl ErrNoUsername, s)
            else
              (case GetUser candidate s of
                 (Inl _, s) \<Rightarrow> (Inl ErrIdentityStore, s)
               | (Inr existing, s) \<Rightarrow>
                   (case (case existing of
                            Some u \<Rightarrow> (Inr u, s)
                          | None \<Rightarrow> CreateUser candidate ((dec_user_spec JNull)\<lparr>us_role := MapRole cfg groups\<rparr>) s) of
                      (Inl _, s) \<Rightarrow> (Inl ErrProvision, s)
                    | (Inr u, s) \<Rightarrow>
                        (case putIdentity 0 name \<lparr>oi_issuer = od_issuer cfg, oi_subject = ic_subject c, oi_username = md_name (u_metadata u),
                                oi_email = ic_email c, oi_provider = ProviderName (oe_urlHost env) cfg, oi_linkedAt = now, oi_lastLogin = []\<rparr> s of
                           (ok, s) \<Rightarrow> (if ok then Inr (u, existing \<noteq> None) else Inl ErrLink, s)))))"

section \<open>Endpoints\<close>

record flow_state =
  fl_state :: string
  fl_nonce :: string
  fl_verifier :: string

record oidc_request =
  or_host :: string
  or_forwardedProto :: string
  or_tls :: bool
  or_cookie :: "flow_state option"
  or_state :: string
  or_code :: string

datatype oidc_reply =
    LoginError string
  | ToProvider string "(string \<times> string) list" flow_state
  | SessionStarted string

definition redirectURI :: "oidc_config \<Rightarrow> oidc_request \<Rightarrow> string" where
  "redirectURI cfg r =
     (if od_redirectURL cfg \<noteq> [] then od_redirectURL cfg
      else (if or_forwardedProto r \<noteq> [] then or_forwardedProto r else if or_tls r then ''https'' else ''http'') @
        ''://'' @ or_host r @ ''/auth/oidc/callback'')"

definition oidc_scopes :: "oidc_config \<Rightarrow> string list" where
  "oidc_scopes cfg = (if od_scopes cfg \<noteq> [] then od_scopes cfg else [''openid'', ''profile'', ''email''])"

fun joinSpace :: "string list \<Rightarrow> string" where
  "joinSpace [] = []"
| "joinSpace [s] = s"
| "joinSpace (s # t # r) = s @ '' '' @ joinSpace (t # r)"

definition newFlow :: "nat list \<Rightarrow> flow_state" where
  "newFlow raw = \<lparr>fl_state = hexEncode (take 16 raw), fl_nonce = hexEncode (drop 16 raw), fl_verifier = rawURLEncode raw\<rparr>"

definition oidc_Login :: "oidc_env \<Rightarrow> oidc_config \<Rightarrow> nat list option \<Rightarrow> oidc_request \<Rightarrow> oidc_world \<Rightarrow> oidc_reply \<times> oidc_world" where
  "oidc_Login env cfg rnd r w =
     (case discover env (od_issuer cfg) w of
        (None, w) \<Rightarrow> (LoginError ''identity provider unreachable'', w)
      | (Some md, w) \<Rightarrow>
          (case rnd of
             None \<Rightarrow> (LoginError ''sign-in could not start'', w)
           | Some raw \<Rightarrow>
               let fs = newFlow raw in
               (ToProvider (pmd_authURL md)
                  [(''response_type'', ''code''), (''client_id'', od_clientID cfg), (''redirect_uri'', redirectURI cfg r),
                   (''scope'', joinSpace (oidc_scopes cfg)), (''state'', fl_state fs), (''nonce'', fl_nonce fs),
                   (''code_challenge'', rawURLEncode (sha256 (oe_auth env) (fl_verifier fs))), (''code_challenge_method'', ''S256'')] fs, w)))"

definition takeFlowCookie :: "oidc_request \<Rightarrow> flow_state option" where
  "takeFlowCookie r = (case or_cookie r of None \<Rightarrow> None | Some fs \<Rightarrow> if fl_state fs = [] \<or> fl_verifier fs = [] then None else Some fs)"

definition oidc_Callback :: "oidc_env \<Rightarrow> oidc_config \<Rightarrow> oidc_request \<Rightarrow> oidc_world \<Rightarrow> oidc_reply \<times> oidc_world" where
  "oidc_Callback env cfg r w =
     (case takeFlowCookie r of
        None \<Rightarrow> (LoginError ''sign-in session expired'', w)
      | Some fs \<Rightarrow>
          if or_state r \<noteq> fl_state fs \<or> or_state r = [] then (LoginError ''sign-in state mismatch'', w)
          else if or_code r = [] then (LoginError ''identity provider returned no authorization code'', w)
          else
            (case discover env (od_issuer cfg) w of
               (None, w) \<Rightarrow> (LoginError ''identity provider unreachable'', w)
             | (Some md, w) \<Rightarrow>
                 (case oe_exchange env (pmd_tokenURL md) (or_code r) (fl_verifier fs) (redirectURI cfg r) of
                    None \<Rightarrow> (LoginError ''token exchange failed'', w)
                  | Some None \<Rightarrow> (LoginError ''identity provider returned no id_token'', w)
                  | Some (Some raw) \<Rightarrow>
                      if raw = [] then (LoginError ''identity provider returned no id_token'', w)
                      else
                        (case VerifyIDToken env raw (od_issuer cfg) (pmd_jwksURL md) (od_clientID cfg) (fl_nonce fs) w of
                           (None, w) \<Rightarrow> (LoginError ''id token rejected'', w)
                         | (Some (c, groups), w) \<Rightarrow>
                             (case ResolveIdentity env cfg c groups (ow_store w) of
                                (Inl _, s) \<Rightarrow> (LoginError ''account linking failed'', w\<lparr>ow_store := s\<rparr>)
                              | (Inr (u, _), s) \<Rightarrow>
                                  (case GenerateToken (oe_auth env) u DefaultTokenExpiry (clock s) of
                                     None \<Rightarrow> (LoginError ''session minting failed'', w\<lparr>ow_store := s\<rparr>)
                                   | Some p \<Rightarrow> (SessionStarted (tp_accessToken p), w\<lparr>ow_store := s\<rparr>)))))))"

end
