(* ===== verification/Oidc_Props.thy ===== *)
theory Oidc_Props
  imports Oidc Auth_Props
begin

text \<open>
  What federated sign-in guarantees: when a session starts, which local user it is for and that later logins keep
  it; and what the start of the flow gives away.
\<close>

section \<open>Hexadecimal\<close>

definition hexVal :: "char \<Rightarrow> nat" where
  "hexVal c = (let n = of_char c in if n < 58 then n - 48 else n - 87)"

fun hexDecode :: "string \<Rightarrow> nat list" where
  "hexDecode (a # b # r) = (hexVal a * 16 + hexVal b) # hexDecode r"
| "hexDecode _ = []"

lemma hexVal_digit: "n < 16 \<Longrightarrow> hexVal (digitChar n) = n"
  by (auto simp: hexVal_def digitChar_def)

lemma hexDecode_Encode: "list_all (\<lambda>b. b < 256) bs \<Longrightarrow> hexDecode (hexEncode bs) = bs"
  by (induction bs) (auto simp: hexEncode_def hexVal_digit)

lemma hexEncode_append: "hexEncode (xs @ ys) = hexEncode xs @ hexEncode ys"
  by (simp add: hexEncode_def)

section \<open>The caches\<close>

text \<open>
  \<open>meta\<close> and \<open>keys\<close> are the documents the provider has served so far; the caches hold nothing else, and a
  cached document is filed under the issuer it names.
\<close>

definition caches_ok ::
  "oidc_env \<Rightarrow> (provider_metadata \<Rightarrow> bool) \<Rightarrow> (string \<Rightarrow> jwk list \<Rightarrow> bool) \<Rightarrow> oidc_world \<Rightarrow> bool" where
  "caches_ok env meta keys w \<longleftrightarrow>
     (\<forall>u md. oe_metadata env u = Some md \<longrightarrow> meta md) \<and> (\<forall>u ks. oe_jwks env u = Some ks \<longrightarrow> keys u ks) \<and>
     (\<forall>i md e. map_of (ow_discovery w) i = Some (md, e) \<longrightarrow> meta md \<and> pmd_issuer md = i) \<and>
     (\<forall>u ks e. map_of (ow_jwks w) u = Some (ks, e) \<longrightarrow> keys u ks)"

lemma cacheGet_Some: "cacheGet m k now = Some v \<Longrightarrow> \<exists>e. map_of m k = Some (v, e)"
  by (auto simp: cacheGet_def split: option.splits if_splits)

lemma map_of_cachePut: "map_of (cachePut k v now m) i = (if i = k then Some (v, now + hour) else map_of m i)"
  by (simp add: cachePut_def update_conv')

lemma caches_okD:
  assumes "caches_ok env meta keys w"
  shows "oe_metadata env u = Some md \<Longrightarrow> meta md" "oe_jwks env u = Some ks \<Longrightarrow> keys u ks"
    "cacheGet (ow_discovery w) i now = Some md \<Longrightarrow> meta md \<and> pmd_issuer md = i"
    "cacheGet (ow_jwks w) u now = Some ks \<Longrightarrow> keys u ks"
  using assms cacheGet_Some [of "ow_discovery w" i now md] cacheGet_Some [of "ow_jwks w" u now ks]
  by (auto simp: caches_ok_def)

lemma caches_ok_put:
  assumes "caches_ok env meta keys w"
  shows "meta md \<Longrightarrow> pmd_issuer md = i \<Longrightarrow> caches_ok env meta keys (w\<lparr>ow_discovery := cachePut i md now (ow_discovery w)\<rparr>)"
    and "keys u ks \<Longrightarrow> caches_ok env meta keys (w\<lparr>ow_jwks := cachePut u ks now (ow_jwks w)\<rparr>)"
  using assms unfolding caches_ok_def by (simp_all add: map_of_cachePut)

lemma discover_ok:
  assumes "caches_ok env meta keys w" "discover env issuer w = (x, w')"
  shows "caches_ok env meta keys w' \<and> ow_store w' = ow_store w \<and> (\<forall>md. x = Some md \<longrightarrow> meta md \<and> pmd_issuer md = issuer)"
  using assms(1,2) caches_okD(1,3) [OF assms(1)] caches_ok_put(1) [OF assms(1)]
  unfolding discover_def by (auto split: option.split_asm if_split_asm)

lemma findKey_Some: "findKey ks kid = Some k \<Longrightarrow> k \<in> set ks \<and> jk_kid k = kid"
  by (auto simp: findKey_def find_Some_iff)

lemma keyAt_ok:
  assumes "caches_ok env meta keys w" "keyAt env url kid w = (x, w')"
  shows "caches_ok env meta keys w' \<and> ow_store w' = ow_store w \<and>
    (\<forall>key. x = Some key \<longrightarrow> (\<exists>ks k. keys url ks \<and> k \<in> set ks \<and> jk_kid k = kid \<and> materialize k = Some key))"
proof (cases "kid = []")
  case False
  consider (hit) ks where "cacheGet (ow_jwks w) url (ow_now w) = Some ks" "x = Option.bind (findKey ks kid) materialize" "w' = w"
    | (miss) "x = None" "w' = w"
    | (fetch) ks where "oe_jwks env url = Some ks" "x = Option.bind (findKey ks kid) materialize"
        "w' = w\<lparr>ow_jwks := cachePut url ks (ow_now w) (ow_jwks w)\<rparr>"
    using assms(2) False unfolding keyAt_def
    by (cases "cacheGet (ow_jwks w) url (ow_now w)"; cases "oe_jwks env url") (auto split: if_split_asm)
  then show ?thesis
  proof cases
    case hit
    then show ?thesis
      using assms(1) caches_okD(4) [OF assms(1) hit(1)] by (fastforce simp: Option.bind_eq_Some_conv dest: findKey_Some)
  next
    case miss
    then show ?thesis
      using assms(1) by simp
  next
    case fetch
    then show ?thesis
      using caches_okD(2) [OF assms(1) fetch(1)] caches_ok_put(2) [OF assms(1)]
      by (fastforce simp: Option.bind_eq_Some_conv dest: findKey_Some)
  qed
qed (use assms in \<open>simp add: keyAt_def\<close>)

lemma VerifyIDToken_ok:
  assumes "caches_ok env meta keys w" "VerifyIDToken env raw issuer url client nonce w = (x, w')"
  shows "caches_ok env meta keys w' \<and> ow_store w' = ow_store w \<and>
    (\<forall>c groups. x = Some (c, groups) \<longrightarrow>
       (\<exists>alg kid ks k key. oe_decode env raw = Some (alg, kid, c) \<and> alg \<in> set validMethods \<and> decodeGroups (ic_groupsRaw c) = Some groups \<and>
          keys url ks \<and> k \<in> set ks \<and> jk_kid k = kid \<and> materialize k = Some key \<and>
          oe_verify env issuer client (ow_now w + minute) key raw \<and> nonce \<noteq> [] \<and> ic_nonce c = nonce \<and> ic_subject c \<noteq> []))"
proof (cases "oe_decode env raw")
  case (Some tok)
  obtain alg kid c where tok: "tok = (alg, kid, c)"
    by (cases tok)
  obtain y w1 where k: "keyAt env url kid w = (y, w1)"
    by fastforce
  show ?thesis
    using assms Some tok k keyAt_ok [OF assms(1) k] unfolding VerifyIDToken_def
    by (cases "decodeGroups (ic_groupsRaw c)"; cases y) (auto split: if_split_asm)
qed (use assms in \<open>simp add: VerifyIDToken_def\<close>)

section \<open>Starting the flow\<close>

text \<open>
  C30: The PKCE verifier is no secret: the 32 random bytes behind it are also split into the state and the nonce,
  and both are parameters of the address the browser is sent to, so whoever sees that address computes the verifier.
\<close>

theorem login_leaks_verifier:
  assumes "oidc_Login env cfg (Some raw) r w = (ToProvider url q fs, w')" "list_all (\<lambda>b. b < 256) raw"
  shows "\<exists>st nonce. map_of q ''state'' = Some st \<and> map_of q ''nonce'' = Some nonce \<and>
    fl_verifier fs = rawURLEncode (hexDecode (st @ nonce))"
  using assms
  by (auto simp: oidc_Login_def newFlow_def Let_def hexEncode_append [symmetric] hexDecode_Encode split: option.splits prod.splits)

section \<open>A session\<close>

text \<open>What the JWT package documents of the options the code sets: the issuer, the audience and an expiry date in the future.\<close>

definition verify_sound :: "oidc_env \<Rightarrow> bool" where
  "verify_sound env \<longleftrightarrow>
     (\<forall>issuer client now key raw alg kid c. oe_verify env issuer client now key raw \<and> oe_decode env raw = Some (alg, kid, c) \<longrightarrow>
        ic_issuer c = issuer \<and> client \<in> set (ic_audience c) \<and> now < ic_expires c)"

abbreviation session_claims :: "user \<Rightarrow> gotime \<Rightarrow> claims" where
  "session_claims u now \<equiv> \<lparr>cl_issuer = ''rezuscloud'', cl_username = md_name (u_metadata u), cl_role = us_role (u_spec u),
     cl_expiresAt = unixSeconds (now + DefaultTokenExpiry), cl_issuedAt = unixSeconds now\<rparr>"


lemma Callback_steps:
  assumes "oidc_Callback env cfg r w = (SessionStarted tok, w')"
  obtains fs md w1 raw c groups w2 u linked s where
    "or_cookie r = Some fs" "or_state r = fl_state fs" "fl_state fs \<noteq> []" "fl_verifier fs \<noteq> []" "or_code r \<noteq> []"
    "discover env (od_issuer cfg) w = (Some md, w1)"
    "oe_exchange env (pmd_tokenURL md) (or_code r) (fl_verifier fs) (redirectURI cfg r) = Some (Some raw)"
    "VerifyIDToken env raw (od_issuer cfg) (pmd_jwksURL md) (od_clientID cfg) (fl_nonce fs) w1 = (Some (c, groups), w2)"
    "ResolveIdentity env cfg c groups (ow_store w2) = (Inr (u, linked), s)"
    "ValidRoles (us_role (u_spec u))" "jwt_sign (oe_auth env) (ae_secret (oe_auth env)) (session_claims u (clock s)) = Some tok"
    "w' = w2\<lparr>ow_store := s\<rparr>"
proof -
  from assms obtain fs where fs: "takeFlowCookie r = Some fs" "or_state r = fl_state fs" "or_state r \<noteq> []" "or_code r \<noteq> []"
    unfolding oidc_Callback_def by (auto split: option.split_asm if_split_asm)
  obtain x w1 where d: "discover env (od_issuer cfg) w = (x, w1)"
    by fastforce
  from assms fs d obtain md raw where md: "x = Some md"
    and raw: "oe_exchange env (pmd_tokenURL md) (or_code r) (fl_verifier fs) (redirectURI cfg r) = Some (Some raw)" "raw \<noteq> []"
    unfolding oidc_Callback_def by (auto split: option.split_asm if_split_asm)
  obtain y w2 where v: "VerifyIDToken env raw (od_issuer cfg) (pmd_jwksURL md) (od_clientID cfg) (fl_nonce fs) w1 = (y, w2)"
    by fastforce
  from assms fs d md raw v obtain c groups where y: "y = Some (c, groups)"
    unfolding oidc_Callback_def by (cases y) auto
  obtain z s where z: "ResolveIdentity env cfg c groups (ow_store w2) = (z, s)"
    by fastforce
  from assms fs d md raw v y z obtain u linked where u: "z = Inr (u, linked)"
    unfolding oidc_Callback_def by (cases z) auto
  from assms fs d md raw v y z u have "ValidRoles (us_role (u_spec u))"
    "jwt_sign (oe_auth env) (ae_secret (oe_auth env)) (session_claims u (clock s)) = Some tok" "w' = w2\<lparr>ow_store := s\<rparr>"
    unfolding oidc_Callback_def by (auto simp: GenerateToken_def Let_def split: if_split_asm option.split_asm)
  then show ?thesis
    using that fs d md raw v y z u by (auto simp: takeFlowCookie_def split: option.split_asm if_split_asm)
qed

text \<open>
  C31: A session starts only for the person the provider named in this flow. The browser's flow cookie carries the
  request's state and the verifier the code was exchanged with; the ID token is signed, under one of the asymmetric
  algorithms, with a key the provider served at the key address of its own discovery document, and names the
  configured issuer and client, the cookie's nonce, a subject, and an expiry date still ahead; and the session
  token is for the user that the subject resolves to, with the role of that user. The caches stay sound.
\<close>

theorem session_authentic:
  assumes "caches_ok env meta keys w" "verify_sound env" "oidc_Callback env cfg r w = (SessionStarted tok, w')"
  shows "caches_ok env meta keys w' \<and>
    (\<exists>fs md raw alg kid c groups ks k key u linked.
       or_cookie r = Some fs \<and> or_state r = fl_state fs \<and> fl_state fs \<noteq> [] \<and>
       meta md \<and> pmd_issuer md = od_issuer cfg \<and>
       oe_exchange env (pmd_tokenURL md) (or_code r) (fl_verifier fs) (redirectURI cfg r) = Some (Some raw) \<and>
       oe_decode env raw = Some (alg, kid, c) \<and> alg \<in> set validMethods \<and>
       keys (pmd_jwksURL md) ks \<and> k \<in> set ks \<and> jk_kid k = kid \<and> materialize k = Some key \<and>
       oe_verify env (od_issuer cfg) (od_clientID cfg) (ow_now w + minute) key raw \<and>
       ic_issuer c = od_issuer cfg \<and> od_clientID cfg \<in> set (ic_audience c) \<and> ow_now w < ic_expires c \<and>
       ic_nonce c = fl_nonce fs \<and> fl_nonce fs \<noteq> [] \<and> ic_subject c \<noteq> [] \<and>
       decodeGroups (ic_groupsRaw c) = Some groups \<and>
       ResolveIdentity env cfg c groups (ow_store w) = (Inr (u, linked), ow_store w') \<and> ValidRoles (us_role (u_spec u)) \<and>
       jwt_sign (oe_auth env) (ae_secret (oe_auth env)) (session_claims u (clock (ow_store w'))) = Some tok)"
  using assms(3)
proof (rule Callback_steps)
  fix fs md w1 raw c groups w2 u linked s
  assume c: "or_cookie r = Some fs" "or_state r = fl_state fs" "fl_state fs \<noteq> []"
    and d: "discover env (od_issuer cfg) w = (Some md, w1)"
    and x: "oe_exchange env (pmd_tokenURL md) (or_code r) (fl_verifier fs) (redirectURI cfg r) = Some (Some raw)"
    and v: "VerifyIDToken env raw (od_issuer cfg) (pmd_jwksURL md) (od_clientID cfg) (fl_nonce fs) w1 = (Some (c, groups), w2)"
    and u: "ResolveIdentity env cfg c groups (ow_store w2) = (Inr (u, linked), s)" "ValidRoles (us_role (u_spec u))"
      "jwt_sign (oe_auth env) (ae_secret (oe_auth env)) (session_claims u (clock s)) = Some tok" "w' = w2\<lparr>ow_store := s\<rparr>"
  note d_ok = discover_ok [OF assms(1) d]
  note v_ok = VerifyIDToken_ok [OF conjunct1 [OF d_ok] v]
  from v_ok obtain alg kid ks k key where k: "oe_decode env raw = Some (alg, kid, c)" "alg \<in> set validMethods"
    "decodeGroups (ic_groupsRaw c) = Some groups" "keys (pmd_jwksURL md) ks" "k \<in> set ks" "jk_kid k = kid" "materialize k = Some key"
    "oe_verify env (od_issuer cfg) (od_clientID cfg) (ow_now w1 + minute) key raw" "fl_nonce fs \<noteq> []" "ic_nonce c = fl_nonce fs" "ic_subject c \<noteq> []"
    by blast
  have claims: "ic_issuer c = od_issuer cfg" "od_clientID cfg \<in> set (ic_audience c)" "ow_now w1 + minute < ic_expires c"
    using assms(2) k(1,8) unfolding verify_sound_def by blast+
  have "caches_ok env meta keys w'"
    using v_ok u(4) by (simp add: caches_ok_def)
  moreover have "ow_store w2 = ow_store w" "ow_store w1 = ow_store w" "ow_store w' = s"
    using v_ok d_ok u(4) by simp_all
  moreover have "ow_now w < ic_expires c"
    using claims(3) d_ok by simp
  ultimately show ?thesis
    using c d_ok x k claims u by (intro conjI exI [of _ fs] exI [of _ md] exI [of _ raw] exI [of _ alg] exI [of _ kid] exI [of _ c]
        exI [of _ groups] exI [of _ ks] exI [of _ k] exI [of _ key] exI [of _ u] exI [of _ linked]) simp_all
qed


section \<open>Identities\<close>

abbreviation link_row :: "oidc_env \<Rightarrow> oidc_config \<Rightarrow> id_claims \<Rightarrow> store \<Rightarrow> row option" where
  "link_row env cfg c s \<equiv> find_row s identityResourceType (identityName (oe_auth env) (od_issuer cfg) (ic_subject c))"

definition claimedName :: "id_claims \<Rightarrow> string" where
  "claimedName c = NormalizeUsername (if ic_preferredUsername c \<noteq> [] then ic_preferredUsername c else ic_email c)"

text \<open>The user and the link after a login, on a store without faults: what \<open>ResolveIdentity\<close> returned is what the tables hold.\<close>

definition linked_to :: "oidc_env \<Rightarrow> oidc_config \<Rightarrow> id_claims \<Rightarrow> store \<Rightarrow> user \<Rightarrow> bool" where
  "linked_to env cfg c s u \<longleftrightarrow>
     (\<exists>r l. user_row s (md_name (u_metadata u)) = Some r \<and> u = mk_user (meta_of r, r_spec r, r_status r) \<and>
        link_row env cfg c s = Some l \<and> 0 < r_version l \<and> oi_username (dec_identity (r_spec l)) = md_name (u_metadata u))"

lemma putIdentity_new:
  assumes "faults s = []" "find_row s identityResourceType name = None"
  shows "\<exists>s'. putIdentity 0 name spec s = (True, s') \<and> faults s' = [] \<and> clock s' = clock s \<and>
    (\<exists>l. find_row s' identityResourceType name = Some l \<and> r_version l = 1 \<and> r_spec l = enc_identity spec) \<and>
    (\<forall>n. user_row s' n = user_row s n)"
  using assms by (simp add: putIdentity_def CreateResource_healthy Let_def resource_table.get_ins)

lemma putIdentity_again:
  assumes "faults s = []" "find_row s identityResourceType name = Some l" "0 < r_version l"
  shows "\<exists>s'. putIdentity (r_version l) name spec s = (True, s') \<and> faults s' = [] \<and> clock s' = clock s \<and>
    (\<exists>l'. find_row s' identityResourceType name = Some l' \<and> r_version l' = r_version l + 1 \<and> r_spec l' = enc_identity spec) \<and>
    (\<forall>n. user_row s' n = user_row s n)"
  using assms by (simp add: putIdentity_def UpdateResource_healthy Let_def)

lemma ResolveIdentity_again:
  assumes "faults s = []" "link_row env cfg c s = Some l" "0 < r_version l"
    "user_row s (oi_username (dec_identity (r_spec l))) = Some r"
  shows "\<exists>s'. ResolveIdentity env cfg c groups s = (Inr (mk_user (meta_of r, r_spec r, r_status r), True), s') \<and>
    linked_to env cfg c s' (mk_user (meta_of r, r_spec r, r_status r)) \<and> (\<forall>n. user_row s' n = user_row s n)"
proof -
  let ?now = "FormatRFC3339 (utcTime (clock s))" and ?name = "identityName (oe_auth env) (od_issuer cfg) (ic_subject c)"
  obtain s' l' where p: "putIdentity (r_version l) ?name (dec_identity (r_spec l)\<lparr>oi_lastLogin := ?now\<rparr>) s = (True, s')"
    "find_row s' identityResourceType ?name = Some l'" "r_version l' = r_version l + 1"
    "r_spec l' = enc_identity (dec_identity (r_spec l)\<lparr>oi_lastLogin := ?now\<rparr>)" "\<forall>n. user_row s' n = user_row s n"
    using putIdentity_again [OF assms(1-3)] by blast
  have "r_name r = oi_username (dec_identity (r_spec l))"
    using find_row_key [OF assms(4)] by simp
  then show ?thesis
    using assms p by (auto simp: ResolveIdentity_def Let_def GetResource_healthy GetUser_healthy linked_to_def dec_enc_identity)
qed


lemma ResolveIdentity_existing:
  assumes "faults s = []" "link_row env cfg c s = None" "user_row s (claimedName c) = Some r" "claimedName c \<noteq> []"
  shows "\<exists>s'. ResolveIdentity env cfg c groups s = (Inr (mk_user (meta_of r, r_spec r, r_status r), True), s') \<and>
    linked_to env cfg c s' (mk_user (meta_of r, r_spec r, r_status r)) \<and> (\<forall>n. user_row s' n = user_row s n) \<and> faults s' = []"
proof -
  let ?name = "identityName (oe_auth env) (od_issuer cfg) (ic_subject c)"
  let ?spec = "\<lparr>oi_issuer = od_issuer cfg, oi_subject = ic_subject c, oi_username = r_name r,
    oi_email = ic_email c, oi_provider = ProviderName (oe_urlHost env) cfg, oi_linkedAt = FormatRFC3339 (utcTime (clock s)), oi_lastLogin = []\<rparr>"
  obtain s' l' where p: "putIdentity 0 ?name ?spec s = (True, s')" "find_row s' identityResourceType ?name = Some l'"
    "r_version l' = 1" "r_spec l' = enc_identity ?spec" "\<forall>n. user_row s' n = user_row s n" "faults s' = []"
    using putIdentity_new [OF assms(1,2)] by blast
  have "r_name r = claimedName c"
    using find_row_key [OF assms(3)] by simp
  then show ?thesis
    using assms p unfolding claimedName_def
    by (simp add: ResolveIdentity_def Let_def GetResource_healthy GetUser_healthy linked_to_def dec_enc_identity)
qed

lemma ResolveIdentity_provision:
  assumes "faults s = []" "link_row env cfg c s = None" "user_row s (claimedName c) = None" "claimedName c \<noteq> []"
  shows "\<exists>u s'. ResolveIdentity env cfg c groups s = (Inr (u, False), s') \<and> linked_to env cfg c s' u \<and>
    md_name (u_metadata u) = claimedName c \<and> us_role (u_spec u) = MapRole cfg groups \<and>
    (\<forall>n. n \<noteq> claimedName c \<longrightarrow> user_row s' n = user_row s n)"
proof -
  let ?name = "identityName (oe_auth env) (od_issuer cfg) (ic_subject c)"
  let ?spec = "\<lparr>oi_issuer = od_issuer cfg, oi_subject = ic_subject c, oi_username = claimedName c,
    oi_email = ic_email c, oi_provider = ProviderName (oe_urlHost env) cfg, oi_linkedAt = FormatRFC3339 (utcTime (clock s)), oi_lastLogin = []\<rparr>"
  let ?us = "(dec_user_spec JNull)\<lparr>us_role := MapRole cfg groups\<rparr>"
  let ?row = "new_row ''user'' (claimedName c) (enc_user_spec ?us) (enc_user_status (dec_user_status JNull)) [] [] s"
  obtain s1 where c1: "CreateUser (claimedName c) ?us s = (Inr \<lparr>u_metadata = meta_of ?row, u_spec = ?us, u_status = dec_user_status JNull\<rparr>, s1)"
    "faults s1 = []" "clock s1 = clock s" "find_row s1 identityResourceType ?name = None"
    "\<And>n. user_row s1 n = (if n = claimedName c then Some ?row else user_row s n)"
    using assms by (simp add: CreateUser_def CreateResource_healthy Let_def resource_table.get_ins)
  obtain s' l' where p: "putIdentity 0 ?name ?spec s1 = (True, s')" "find_row s' identityResourceType ?name = Some l'"
    "r_version l' = 1" "r_spec l' = enc_identity ?spec" "\<forall>n. user_row s' n = user_row s1 n"
    using putIdentity_new [OF c1(2,4)] by blast
  have u: "\<lparr>u_metadata = meta_of ?row, u_spec = ?us, u_status = dec_user_status JNull\<rparr> = mk_user (meta_of ?row, r_spec ?row, r_status ?row)"
    by (simp add: mk_user_def dec_enc_user_spec dec_enc_user_status)
  have "ResolveIdentity env cfg c groups s = (Inr (mk_user (meta_of ?row, r_spec ?row, r_status ?row), False), s')"
    using assms(1-4) p(1) c1(1) u unfolding claimedName_def
    by (simp add: ResolveIdentity_def Let_def GetResource_healthy GetUser_healthy)
  moreover have "linked_to env cfg c s' (mk_user (meta_of ?row, r_spec ?row, r_status ?row))"
    using p(2-5) c1(5) by (simp add: linked_to_def dec_enc_identity)
  ultimately show ?thesis
    using p(5) c1(5) by (auto simp: dec_enc_user_spec)
qed

lemma ResolveIdentity_fresh_no_name:
  "faults s = [] \<Longrightarrow> link_row env cfg c s = None \<Longrightarrow> claimedName c = [] \<Longrightarrow> ResolveIdentity env cfg c groups s = (Inl ErrNoUsername, s)"
  unfolding claimedName_def by (simp add: ResolveIdentity_def Let_def GetResource_healthy)

lemma ResolveIdentity_locked_out:
  "faults s = [] \<Longrightarrow> link_row env cfg c s = Some l \<Longrightarrow> user_row s (oi_username (dec_identity (r_spec l))) = None \<Longrightarrow>
   ResolveIdentity env cfg c groups s = (Inl ErrMissingUser, s)"
  by (simp add: ResolveIdentity_def Let_def GetResource_healthy GetUser_healthy)

lemma ResolveIdentity_version:
  assumes "faults s = []" "link_row env cfg c s = Some l" "ResolveIdentity env cfg c groups s = (Inr (u, linked), s1)"
  shows "0 < r_version l" "\<exists>r. user_row s (oi_username (dec_identity (r_spec l))) = Some r"
  using assms
  by (auto simp: ResolveIdentity_def Let_def GetResource_healthy GetUser_healthy putIdentity_def CreateResource_healthy split: option.split_asm if_split_asm)


lemma ResolveIdentity_links:
  assumes "faults s = []" "ResolveIdentity env cfg c groups s = (Inr (u, linked), s1)"
  shows "linked_to env cfg c s1 u \<and> (\<forall>n r. user_row s n = Some r \<longrightarrow> user_row s1 n = Some r) \<and>
    (link_row env cfg c s = None \<longrightarrow>
       (case user_row s (claimedName c) of
          Some r \<Rightarrow> u = mk_user (meta_of r, r_spec r, r_status r)
        | None \<Rightarrow> md_name (u_metadata u) = claimedName c \<and> us_role (u_spec u) = MapRole cfg groups))"
proof (cases "link_row env cfg c s")
  case (Some l)
  obtain r where r: "user_row s (oi_username (dec_identity (r_spec l))) = Some r"
    using ResolveIdentity_version(2) [OF assms(1) Some assms(2)] ..
  show ?thesis
    using ResolveIdentity_again [OF assms(1) Some ResolveIdentity_version(1) [OF assms(1) Some assms(2)] r, of groups] assms(2) Some by auto
next
  case None
  then have name: "claimedName c \<noteq> []"
    using ResolveIdentity_fresh_no_name [OF assms(1) None] assms(2) by auto
  note fresh = None
  show ?thesis
  proof (cases "user_row s (claimedName c)")
    case None
    then have "linked_to env cfg c s1 u \<and> md_name (u_metadata u) = claimedName c \<and> us_role (u_spec u) = MapRole cfg groups \<and>
        (\<forall>n. n \<noteq> claimedName c \<longrightarrow> user_row s1 n = user_row s n)"
      using ResolveIdentity_provision [OF assms(1) fresh None name, of groups] assms(2) by force
    moreover have "user_row s1 n = Some r" if "user_row s n = Some r" for n r
      using that calculation None by (cases "n = claimedName c") simp_all
    ultimately show ?thesis
      using None by simp
  next
    case (Some r)
    then show ?thesis
      using ResolveIdentity_existing [OF assms(1) None Some name, of groups] assms(2) None by auto
  qed
qed

text \<open>
  C32: A federated identity stays with one local user. Resolving it never changes a user that exists; on first sight
  it gives the local user the claims name, administrators included, or a new one with the mapped role; and from then
  on, whatever names, addresses and groups later tokens claim, the same user is returned with the role the table then
  holds, or no user once that user is deleted.
\<close>

theorem federated_identity_stable:
  assumes "faults s = []" "ResolveIdentity env cfg c groups s = (Inr (u, linked), s1)"
  shows "(\<forall>n r. user_row s n = Some r \<longrightarrow> user_row s1 n = Some r) \<and>
    (link_row env cfg c s = None \<longrightarrow>
       (case user_row s (claimedName c) of
          Some r \<Rightarrow> u = mk_user (meta_of r, r_spec r, r_status r)
        | None \<Rightarrow> md_name (u_metadata u) = claimedName c \<and> us_role (u_spec u) = MapRole cfg groups)) \<and>
    (\<forall>t c' groups'. faults t = [] \<and> ic_subject c' = ic_subject c \<and> link_row env cfg c t = link_row env cfg c s1 \<longrightarrow>
       fst (ResolveIdentity env cfg c' groups' t) =
         (case user_row t (md_name (u_metadata u)) of
            None \<Rightarrow> Inl ErrMissingUser
          | Some r \<Rightarrow> Inr (mk_user (meta_of r, r_spec r, r_status r), True)))"
proof -
  have later: "fst (ResolveIdentity env cfg c' groups' t) =
      (case user_row t (md_name (u_metadata u)) of
         None \<Rightarrow> Inl ErrMissingUser
       | Some r \<Rightarrow> Inr (mk_user (meta_of r, r_spec r, r_status r), True))"
    if t: "faults t = []" "ic_subject c' = ic_subject c" "link_row env cfg c t = link_row env cfg c s1" for t c' groups'
  proof -
    obtain l where l: "link_row env cfg c' t = Some l" "0 < r_version l" "oi_username (dec_identity (r_spec l)) = md_name (u_metadata u)"
      using ResolveIdentity_links [OF assms] t(2,3) by (auto simp: linked_to_def)
    show ?thesis
    proof (cases "user_row t (md_name (u_metadata u))")
      case None
      then show ?thesis
        using ResolveIdentity_locked_out [OF t(1) l(1)] l(3) by simp
    next
      case (Some r)
      then show ?thesis
        using ResolveIdentity_again [OF t(1) l(1,2), of r groups'] l(3) by auto
    qed
  qed
  show ?thesis
    using ResolveIdentity_links [OF assms] later by blast
qed

section \<open>Instances\<close>

definition ex_cfg :: oidc_config where
  "ex_cfg = \<lparr>od_issuer = ''https://idp'', od_clientID = ''rz'', od_clientSecret = ''s'', od_redirectURL = ''https://rz/cb'',
     od_defaultRole = ''view'', od_adminGroup = ''ops'', od_scopes = []\<rparr>"

definition ex_idc :: id_claims where
  "ex_idc = \<lparr>ic_issuer = ''https://idp'', ic_audience = [''rz''], ic_subject = ''42'', ic_expires = 1000 * minute, ic_nonce = ''n'',
     ic_preferredUsername = ''Ann'', ic_email = [], ic_groupsRaw = None\<rparr>"

definition ex_jwk :: jwk where
  "ex_jwk = \<lparr>jk_kty = ''RSA'', jk_kid = ''1'', jk_n = ''Aw'', jk_e = ''AQ'', jk_crv = [], jk_x = [], jk_y = []\<rparr>"

definition ex_oidc :: oidc_env where
  "ex_oidc = \<lparr>oe_auth = \<lparr>ae_secret = ''k'', jwt_sign = (\<lambda>_ c. Some (cl_username c @ ''!'' @ cl_role c)), jwt_parse = (\<lambda>_ _ _. JwtInvalid),
       sha256 = (\<lambda>t. map of_char t), bcrypt_hash = (\<lambda>p. Some p), bcrypt_check = (=), rand_read = None\<rparr>,
     oe_urlHost = (\<lambda>_. Some ''idp''),
     oe_metadata = (\<lambda>_. Some \<lparr>pmd_issuer = ''https://idp'', pmd_authURL = ''a'', pmd_tokenURL = ''t'', pmd_jwksURL = ''j''\<rparr>),
     oe_jwks = (\<lambda>_. Some [ex_jwk]), oe_exchange = (\<lambda>_ code verifier _. if code = ''c'' \<and> verifier = ''v'' then Some (Some ''tok'') else None),
     oe_decode = (\<lambda>raw. if raw = ''tok'' then Some (''RS256'', ''1'', ex_idc) else None),
     oe_verify = (\<lambda>issuer client now _ raw. raw = ''tok'' \<and> issuer = ''https://idp'' \<and> client = ''rz'' \<and> now < 1000 * minute)\<rparr>"

definition ex_oidc_world :: oidc_world where
  "ex_oidc_world = \<lparr>ow_store = ex_auth_store, ow_discovery = [], ow_jwks = []\<rparr>"

definition ex_callback :: oidc_request where
  "ex_callback = \<lparr>or_host = ''rz'', or_forwardedProto = [], or_tls = True,
     or_cookie = Some \<lparr>fl_state = ''s'', fl_nonce = ''n'', fl_verifier = ''v''\<rparr>, or_state = ''s'', or_code = ''c''\<rparr>"

lemma ex_oidc_sound: "verify_sound ex_oidc"
  by (auto simp: verify_sound_def ex_oidc_def ex_idc_def)

lemma ex_caches: "caches_ok ex_oidc (\<lambda>md. pmd_jwksURL md = ''j'') (\<lambda>u ks. ks = [ex_jwk]) ex_oidc_world"
  by (simp add: caches_ok_def ex_oidc_def ex_oidc_world_def)

lemma ex_claimed: "claimedName ex_idc = ''ann''"
  by code_simp

lemma ex_no_link: "link_row ex_oidc ex_cfg ex_idc ex_auth_store = None"
  by (simp add: ex_auth_store_def ex_user_def)

text \<open>A provider that names its subject Ann: the sign-in takes over the local administrator of that name.\<close>

lemma ex_resolve:
  "\<exists>s. ResolveIdentity ex_oidc ex_cfg ex_idc [] ex_auth_store = (Inr (mk_user (meta_of ex_user, r_spec ex_user, r_status ex_user), True), s) \<and>
     faults s = []"
proof -
  have "user_row ex_auth_store (claimedName ex_idc) = Some ex_user" "claimedName ex_idc \<noteq> []"
    by (simp_all add: ex_claimed)
  from ResolveIdentity_existing [OF ex_auth_facts(1) ex_no_link this] show ?thesis
    by blast
qed

lemma ex_materialize: "materialize ex_jwk = Some (RSAKey 3 1)"
  by code_simp

lemma ex_started: "\<exists>tok w'. oidc_Callback ex_oidc ex_cfg ex_callback ex_oidc_world = (SessionStarted tok, w')"
proof -
  obtain s where s: "ResolveIdentity ex_oidc ex_cfg ex_idc [] ex_auth_store = (Inr (mk_user (meta_of ex_user, r_spec ex_user, r_status ex_user), True), s)"
    using ex_resolve by blast
  have k: "findKey [ex_jwk] ''1'' = Some ex_jwk"
    by (simp add: findKey_def ex_jwk_def)
  show ?thesis
    using s k
    by (simp add: oidc_Callback_def takeFlowCookie_def ex_callback_def ex_oidc_world_def discover_def cacheGet_def ex_oidc_def ex_cfg_def
        VerifyIDToken_def decodeGroups_def keyAt_def ex_materialize redirectURI_def GenerateToken_def ValidRoles_def ex_idc_def
        map_of_cachePut Let_def)
qed

theorem login_leaks_verifier_witness:
  "\<exists>url q fs w' st nonce. oidc_Login ex_oidc ex_cfg (Some [1, 2, 3]) ex_callback ex_oidc_world = (ToProvider url q fs, w') \<and>
     map_of q ''state'' = Some st \<and> map_of q ''nonce'' = Some nonce \<and> fl_verifier fs = rawURLEncode (hexDecode (st @ nonce))"
proof -
  obtain url q fs w' where l: "oidc_Login ex_oidc ex_cfg (Some [1, 2, 3]) ex_callback ex_oidc_world = (ToProvider url q fs, w')"
    by (simp add: oidc_Login_def discover_def cacheGet_def ex_oidc_world_def ex_oidc_def ex_cfg_def Let_def)
  then show ?thesis
    using login_leaks_verifier [OF l] by auto
qed

theorem session_authentic_witness:
  "\<exists>tok w' fs u linked. oidc_Callback ex_oidc ex_cfg ex_callback ex_oidc_world = (SessionStarted tok, w') \<and> or_cookie ex_callback = Some fs \<and>
     or_state ex_callback = fl_state fs \<and> ResolveIdentity ex_oidc ex_cfg ex_idc [] ex_auth_store = (Inr (u, linked), ow_store w')"
proof -
  obtain tok w' where c: "oidc_Callback ex_oidc ex_cfg ex_callback ex_oidc_world = (SessionStarted tok, w')"
    using ex_started by blast
  from session_authentic [OF ex_caches ex_oidc_sound c] obtain fs raw alg kid c' groups u linked where f:
    "or_cookie ex_callback = Some fs" "or_state ex_callback = fl_state fs" "oe_decode ex_oidc raw = Some (alg, kid, c')"
    "decodeGroups (ic_groupsRaw c') = Some groups" "ResolveIdentity ex_oidc ex_cfg c' groups (ow_store ex_oidc_world) = (Inr (u, linked), ow_store w')"
    by blast
  then have "c' = ex_idc" "groups = []"
    by (auto simp: ex_oidc_def ex_idc_def decodeGroups_def split: if_split_asm)
  then show ?thesis
    using c f by (auto simp: ex_oidc_world_def)
qed

theorem federated_identity_stable_witness:
  "\<exists>u linked s1. ResolveIdentity ex_oidc ex_cfg ex_idc [] ex_auth_store = (Inr (u, linked), s1) \<and> us_role (u_spec u) = ''admin'' \<and>
     fst (ResolveIdentity ex_oidc ex_cfg (ex_idc\<lparr>ic_preferredUsername := ''bob''\<rparr>) [''ops''] s1) = Inr (u, True)"
proof -
  let ?u = "mk_user (meta_of ex_user, r_spec ex_user, r_status ex_user)"
  obtain s1 where s: "ResolveIdentity ex_oidc ex_cfg ex_idc [] ex_auth_store = (Inr (?u, True), s1)" "faults s1 = []"
    using ex_resolve by blast
  have n: "md_name (u_metadata ?u) = ''ann''"
    by (simp add: ex_user_def)
  note stable = federated_identity_stable [OF ex_auth_facts(1) s(1)]
  have "user_row s1 ''ann'' = Some ex_user"
    using conjunct1 [OF stable] ex_auth_facts(3) by blast
  moreover have "fst (ResolveIdentity ex_oidc ex_cfg (ex_idc\<lparr>ic_preferredUsername := ''bob''\<rparr>) [''ops''] s1) =
      (case user_row s1 ''ann'' of None \<Rightarrow> Inl ErrMissingUser | Some r \<Rightarrow> Inr (mk_user (meta_of r, r_spec r, r_status r), True))"
    using conjunct2 [OF conjunct2 [OF stable], rule_format, of s1 "ex_idc\<lparr>ic_preferredUsername := ''bob''\<rparr>" "[''ops'']"] s(2) n by simp
  ultimately show ?thesis
    using s(1) ex_auth_facts(5) by auto
qed

end
