(* ===== verification/Web.thy ===== *)
theory Web
  imports Api_Resources Auth Upgrade Backup Audit_Log Tenant_Status Watch
begin

text \<open>
  The web interface's wiring (\<^verbatim>\<open>internal/web/handler.go\<close>), its login pages (\<^verbatim>\<open>handlers/authn\<close>) and what the sections share:
  requests, replies, the session in the cookie, and the loaders of tenants and node groups. A page is the data it is
  rendered from; a redirect is its path and whether its notice reports success, whichever way HTMX wants it sent.
\<close>

section \<open>Requests and replies\<close>

text \<open>Form values and query parameters are maps, absent ones empty; \<open>wq_formOk\<close> is the result of \<^verbatim>\<open>ParseForm\<close>.\<close>

record web_request =
  wq_session :: string
  wq_form :: gomap
  wq_formOk :: bool
  wq_query :: gomap
  wq_reveal :: "string option"

abbreviation formValue :: "web_request \<Rightarrow> string \<Rightarrow> string" where
  "formValue r k \<equiv> mget (wq_form r) k"

abbreviation queryValue :: "web_request \<Rightarrow> string \<Rightarrow> string" where
  "queryValue r k \<equiv> mget (wq_query r) k"

datatype 'p web_reply =
    WRender 'p
  | WToLogin
  | WRedirect string bool
  | WSession string
  | WNotFound
  | WStatus nat
  | WNoContent
  | WDownload string
  | WStream "watch_event list"

text \<open>
  The services the sections are built with: the upgrade manager, the machine actions and the backup service are
  optional. \<open>wn_yaml\<close>, \<open>wn_ops\<close> and \<open>wn_json\<close> read patch and configuration texts, \<open>wn_minute\<close> and \<open>wn_rfc\<close> times,
  \<open>wn_dmesg\<close> is the machine's answer to the log request.
\<close>

record web_env =
  wn_auth :: auth_env
  wn_api :: api_env
  wn_upgrades :: bool
  wn_talos :: "talos_env option"
  wn_dmesg :: "string \<Rightarrow> string option"
  wn_backup :: "backup_env option"
  wn_yaml :: "string \<Rightarrow> bool"
  wn_ops :: "string \<Rightarrow> nat option"
  wn_json :: "string \<Rightarrow> json option"
  wn_minute :: "string \<Rightarrow> rfc_time option"
  wn_rfc :: "string \<Rightarrow> rfc_time option"
  wn_getenv :: "string \<Rightarrow> string"

record web_world =
  ww_store :: store
  ww_running :: "string list"
  ww_calls :: "talos_call list"
  ww_files :: "(string \<times> string) list"
  ww_ioFaults :: "bool list"
  ww_audit :: "audit_db option"

text \<open>Calls of the store, the upgrade manager and the backup service from a handler.\<close>

definition onStore :: "(store \<Rightarrow> 'a \<times> store) \<Rightarrow> web_world \<Rightarrow> 'a \<times> web_world" where
  "onStore f w = (case f (ww_store w) of (x, s) \<Rightarrow> (x, w\<lparr>ww_store := s\<rparr>))"

definition onManager :: "(up_world \<Rightarrow> 'a \<times> up_world) \<Rightarrow> web_world \<Rightarrow> 'a \<times> web_world" where
  "onManager f w =
     (case f \<lparr>uw_store = ww_store w, uw_running = ww_running w, uw_calls = ww_calls w\<rparr> of
        (x, u) \<Rightarrow> (x, w\<lparr>ww_store := uw_store u, ww_running := uw_running u, ww_calls := uw_calls u\<rparr>))"

definition onBackup :: "(backup_state \<Rightarrow> 'a \<times> backup_state) \<Rightarrow> web_world \<Rightarrow> 'a \<times> web_world" where
  "onBackup f w =
     (case f \<lparr>bk_store = ww_store w, bk_files = ww_files w, bk_faults = ww_ioFaults w\<rparr> of
        (x, b) \<Rightarrow> (x, w\<lparr>ww_store := bk_store b, ww_files := bk_files b, ww_ioFaults := bk_faults b\<rparr>))"

section \<open>Sessions\<close>

text \<open>\<^verbatim>\<open>AuthRequired\<close>: the caller a session cookie stands for, \<open>None\<close> for the redirect to the login page.\<close>

definition AuthRequired :: "web_env \<Rightarrow> web_request \<Rightarrow> web_world \<Rightarrow> auth_ctx option" where
  "AuthRequired env r w =
     (if wq_session r = [] then None
      else (case ValidateToken (wn_auth env) (wq_session r) (clock (ww_store w)) of
              JwtOk c \<Rightarrow> Some (cl_username c, if cl_role c = [] then RoleView else cl_role c)
            | _ \<Rightarrow> None))"

definition canMutate :: "auth_ctx \<Rightarrow> bool" where
  "canMutate c \<longleftrightarrow> snd c = RoleAdmin \<or> snd c = RoleEdit"

definition isAdmin :: "auth_ctx \<Rightarrow> bool" where
  "isAdmin c \<longleftrightarrow> snd c = RoleAdmin"

definition render :: "auth_ctx \<Rightarrow> 'p \<Rightarrow> 'p web_reply" where
  "render c p = (if fst c = [] then WToLogin else WRender p)"

section \<open>Loaders\<close>

record tenant_summary =
  tsm_name :: string
  tsm_phase :: string
  tsm_ready :: int
  tsm_total :: int

definition nodeGroupSummaries :: "string \<Rightarrow> store \<Rightarrow> node_group_summary list \<times> store" where
  "nodeGroupSummaries tn s =
     (case ListTypedByTenant ''nodegroup'' tn
             (\<lambda>_ spec _. if orNull isObj spec \<and> fieldOk isStr ''name'' spec \<and> fieldOk isNum ''count'' spec
                then Some \<lparr>ngs_name = dStr ''name'' spec, ngs_count = dInt ''count'' spec\<rparr> else None) s of
        (Inl _, s) \<Rightarrow> ([], s)
      | (Inr (items, _), s) \<Rightarrow> (items, s))"

definition expectedMachineCount :: "node_group_summary list \<Rightarrow> int" where
  "expectedMachineCount ngs = sum_list (map ngs_count ngs)"

text \<open>A failed list reads as an empty one, a failed lookup as no tenant.\<close>

definition okList :: "(store_err + 'a list \<times> int) \<Rightarrow> 'a list" where
  "okList x = (case x of Inl _ \<Rightarrow> [] | Inr (items, _) \<Rightarrow> items)"

definition okOpt :: "(store_err + 'a option) \<Rightarrow> 'a option" where
  "okOpt x = (case x of Inl _ \<Rightarrow> None | Inr y \<Rightarrow> y)"

definition tenantSummary :: "tenant \<Rightarrow> store \<Rightarrow> tenant_summary \<times> store" where
  "tenantSummary t s =
     (let name = md_name (t_metadata t) in
      case ListMachinesByTenant name [] s of (machines, s) \<Rightarrow>
      case nodeGroupSummaries name s of (ngs, s) \<Rightarrow>
      case GetTenant name s of (current, s) \<Rightarrow>
        let status = ComputeTenantStatus (case okOpt current of None \<Rightarrow> t | Some c \<Rightarrow> c) (okList machines) ngs;
            total = mc_total (tst_machines status) in
        (\<lparr>tsm_name = name, tsm_phase = tst_phase status, tsm_ready = mc_healthy (tst_machines status),
          tsm_total = (if total = 0 then expectedMachineCount ngs else total)\<rparr>, s))"

fun summarise :: "tenant list \<Rightarrow> store \<Rightarrow> tenant_summary list \<times> store" where
  "summarise [] s = ([], s)"
| "summarise (t # ts) s =
     (case tenantSummary t s of (x, s) \<Rightarrow> case summarise ts s of (xs, s) \<Rightarrow> (x # xs, s))"

definition tenantSummaries :: "store \<Rightarrow> tenant_summary list \<times> store" where
  "tenantSummaries s = (case ListTenants [] s of (ts, s) \<Rightarrow> summarise (okList ts) s)"

definition clusterNames :: "store \<Rightarrow> string list \<times> store" where
  "clusterNames s = (case ListTenants [] s of (ts, s) \<Rightarrow> (map (md_name \<circ> t_metadata) (okList ts), s))"

section \<open>Login pages\<close>

text \<open>The login form with its message: whether there is one.\<close>

definition LoginPage :: "web_request \<Rightarrow> bool web_reply" where
  "LoginPage r = WRender (queryValue r ''error'' \<noteq> [])"

definition LoginSubmit :: "web_env \<Rightarrow> web_request \<Rightarrow> web_world \<Rightarrow> bool web_reply \<times> web_world" where
  "LoginSubmit env r w =
     (let username = formValue r ''username''; password = formValue r ''password'' in
      if username = [] \<or> password = [] then (WRender True, w)
      else
        (case onStore (GetUser username) w of
           (Inl _, w) \<Rightarrow> (WRender True, w)
         | (Inr None, w) \<Rightarrow> (WRender True, w)
         | (Inr (Some u), w) \<Rightarrow>
             if \<not> bcrypt_check (wn_auth env) password (us_passwordHash (u_spec u)) then (WRender True, w)
             else
               (case GenerateToken (wn_auth env) u DefaultTokenExpiry (clock (ww_store w)) of
                  None \<Rightarrow> (WRender True, w)
                | Some p \<Rightarrow> (WSession (tp_accessToken p), snd (onStore (UpdateUserLastLogin username) w)))))"

end
