(* ===== verification/Web_Clusters.thy ===== *)
theory Web_Clusters
  imports Web
begin

text \<open>
  The clusters section of the web interface, \<^verbatim>\<open>internal/web/handlers/clusters\<close>: list, detail with its partial renders,
  live events, creation and deletion of clusters, node groups, credentials, upgrades and patches.
\<close>

section \<open>Pages\<close>

record cluster_machine_row =
  cm_id :: string
  cm_stage :: string
  cm_connected :: bool
  cm_role :: string
  cm_nodeGroup :: string

record web_patch_row =
  pr_name :: string
  pr_format :: string
  pr_scope :: string
  pr_targetMachine :: string
  pr_targetRole :: string
  pr_enabled :: bool
  pr_updatedAt :: gotime

record tenant_detail =
  td_name :: string
  td_phase :: string
  td_k8sVersion :: string
  td_talosVersion :: string
  td_tab :: string
  td_canMutate :: bool
  td_upgrade :: "string \<times> string"
  td_reconcile :: "reconciliation_status option"
  td_nodeGroups :: "(string \<times> string \<times> int) list"
  td_machines :: "cluster_machine_row list"
  td_runs :: "run list"
  td_patches :: "web_patch_row list"
  td_previewRole :: string
  td_preview :: "string list option"

record cluster_form =
  cf_name :: string
  cf_k8sVersion :: string
  cf_talosVersion :: string
  cf_nameError :: bool
  cf_formError :: bool

record patch_edit =
  pe_cluster :: string
  pe_row :: web_patch_row
  pe_patch :: string
  pe_canMutate :: bool

datatype cluster_page =
    ClustersPage "tenant_summary list" bool
  | ClusterDetailPage tenant_detail
  | ReconcileBanner tenant_detail
  | MachinesPanel tenant_detail
  | ClusterFormPage cluster_form
  | PatchEditPage patch_edit
  | PatchPreview "string list"

section \<open>Reading\<close>

definition TenantsList :: "web_env \<Rightarrow> auth_ctx \<Rightarrow> web_world \<Rightarrow> cluster_page web_reply \<times> web_world" where
  "TenantsList env c w =
     (case onStore tenantSummaries w of (ts, w) \<Rightarrow> (render c (ClustersPage ts (av_bus (wn_api env))), w))"

definition currentTab :: "string \<Rightarrow> string" where
  "currentTab tab = (if tab \<in> {''overview'', ''patches'', ''backups'', ''upgrade'', ''settings''} then tab else ''overview'')"

definition clusterMachineRow :: "machine \<Rightarrow> cluster_machine_row" where
  "clusterMachineRow m =
     \<lparr>cm_id = md_name (m_metadata m), cm_stage = mst_stage (m_status m), cm_connected = ms_connected (m_spec m),
      cm_role = (if mst_role (m_status m) = [] then mget (md_labels (m_metadata m)) roleLabel else mst_role (m_status m)),
      cm_nodeGroup = mget (md_labels (m_metadata m)) ''rezuscloud.io/nodegroup''\<rparr>"

text \<open>
  \<^verbatim>\<open>tenantDetailData\<close>, and the same steps at the start of \<^verbatim>\<open>TenantDetail\<close>: the tenant with its machines and status.
  A tenant that cannot be loaded again is made from the row read before.
\<close>

definition detailBase ::
  "string \<Rightarrow> bool \<Rightarrow> metadata \<times> json \<Rightarrow> store \<Rightarrow> tenant_detail \<times> store" where
  "detailBase name can row s =
     (case ListMachinesByTenant name [] s of (machines, s) \<Rightarrow>
      case nodeGroupSummaries name s of (ngs, s) \<Rightarrow>
      case GetTenant name s of (current, s) \<Rightarrow>
        let spec = dec_tenant_spec (snd row);
            tn = (case okOpt current of Some x \<Rightarrow> x
                  | None \<Rightarrow> \<lparr>t_metadata = fst row, t_spec = spec, t_status = dec_tenant_status JNull\<rparr>);
            status = ComputeTenantStatus tn (okList machines) ngs in
        (\<lparr>td_name = name, td_phase = tst_phase status, td_k8sVersion = [], td_talosVersion = [], td_tab = [], td_canMutate = can,
          td_upgrade = ([], []), td_reconcile = tst_reconciliation status, td_nodeGroups = [],
          td_machines = map clusterMachineRow (okList machines), td_runs = [], td_patches = [], td_previewRole = [],
          td_preview = Some []\<rparr>, s))"

definition tenantDetailData :: "string \<Rightarrow> auth_ctx \<Rightarrow> store \<Rightarrow> tenant_detail \<times> store" where
  "tenantDetailData name c s =
     (case GetResource ''tenant'' name s of (x, s) \<Rightarrow>
        detailBase name (canMutate c) (case x of Inr (md, spec, _) \<Rightarrow> (md, spec) | Inl _ \<Rightarrow> (zero_metadata, JNull)) s)"

definition renderReconcilePartial :: "string \<Rightarrow> auth_ctx \<Rightarrow> web_world \<Rightarrow> cluster_page web_reply \<times> web_world" where
  "renderReconcilePartial name c w =
     (case onStore (tenantDetailData name c) w of (d, w) \<Rightarrow>
        (if (case td_reconcile d of None \<Rightarrow> [] | Some x \<Rightarrow> rs_phase x) = [] then WNoContent else WRender (ReconcileBanner d), w))"

definition renderMachinesPartial :: "string \<Rightarrow> auth_ctx \<Rightarrow> web_world \<Rightarrow> cluster_page web_reply \<times> web_world" where
  "renderMachinesPartial name c w =
     (case onStore (tenantDetailData name c) w of (d, w) \<Rightarrow>
        (if td_machines d = [] then WNoContent else WRender (MachinesPanel d), w))"

definition patchRow :: "metadata \<Rightarrow> patch_spec \<Rightarrow> web_patch_row" where
  "patchRow md ps =
     \<lparr>pr_name = md_name md, pr_format = ps_format ps, pr_scope = (if ps_scope ps = [] then ScopeCluster else ps_scope ps),
      pr_targetMachine = ps_targetMachine ps, pr_targetRole = (if ps_targetRole ps = [] then ''all'' else ps_targetRole ps),
      pr_enabled = ps_enabled ps, pr_updatedAt = md_updatedAt md\<rparr>"

definition TenantDetail :: "web_env \<Rightarrow> auth_ctx \<Rightarrow> string \<Rightarrow> string \<Rightarrow> web_request \<Rightarrow> web_world \<Rightarrow> cluster_page web_reply \<times> web_world" where
  "TenantDetail env c name tab r w =
     (case onStore (GetResource ''tenant'' name) w of
        (Inl _, w) \<Rightarrow> (WNotFound, w)
      | (Inr (md, spec, _), w) \<Rightarrow>
          if md_name md = [] then (WNotFound, w)
          else if queryValue r ''partial'' = ''reconcile'' then renderReconcilePartial name c w
          else if queryValue r ''partial'' = ''machines'' then renderMachinesPartial name c w
          else
            (case onStore (detailBase name (canMutate c) (md, spec)) w of (d, w) \<Rightarrow>
             case onStore (ListTypedByTenant ''nodegroup'' name
                    (\<lambda>md spec _. Some (md_name md, dStr ''role'' spec, dInt ''count'' spec))) w of (ngs, w) \<Rightarrow>
             case (if wn_upgrades env then onStore (ListRuns name) w else (Inr [], w)) of (runs, w) \<Rightarrow>
             case onStore (ListTypedByTenant ''configpatch'' name (\<lambda>md spec _. Some (patchRow md (dec_patch_spec spec)))) w of (ps, w) \<Rightarrow>
               let role = (if queryValue r ''role'' = [] then ''controlplane'' else queryValue r ''role'') in
             case onStore (ResolvePatches name role (queryValue r ''machine'')) w of (resolved, w) \<Rightarrow>
               (render c (ClusterDetailPage (d\<lparr>td_k8sVersion := ts_kubernetesVersion (dec_tenant_spec spec),
                  td_talosVersion := ts_talosVersion (dec_tenant_spec spec), td_tab := currentTab tab,
                  td_upgrade := (queryValue r ''component'', queryValue r ''version''), td_nodeGroups := okList ngs,
                  td_runs := (case runs of Inl _ \<Rightarrow> [] | Inr xs \<Rightarrow> xs), td_patches := okList ps, td_previewRole := role,
                  td_preview := (case resolved of Inl _ \<Rightarrow> None | Inr xs \<Rightarrow> Some xs)\<rparr>)), w)))"

section \<open>Live events\<close>

text \<open>Which events of the two subscriptions reach the page of a cluster: only metadata structs are tested.\<close>

definition forwardTenant :: "string \<Rightarrow> watch_event \<Rightarrow> bool" where
  "forwardTenant name e = (case we_object e of WMap m \<Rightarrow> (case om_metadata m of MdStruct md \<Rightarrow> md_name md = name | MdMap _ \<Rightarrow> True) | WOther _ \<Rightarrow> True)"

definition forwardMachine :: "string \<Rightarrow> watch_event \<Rightarrow> bool" where
  "forwardMachine name e =
     (case we_object e of WMap m \<Rightarrow> (case om_metadata m of MdStruct md \<Rightarrow> mget (md_labels md) tenantLabel = name | MdMap _ \<Rightarrow> True) | WOther _ \<Rightarrow> True)"

definition readyEvent :: "string \<Rightarrow> watch_event" where
  "readyEvent name = \<lparr>we_type = ''READY'', we_object = WOther (JObj [(''metadata'', JObj [(''name'', JStr name)])])\<rparr>"

text \<open>The frames for a sequence of received events, each with the subscription it came from.\<close>

datatype cluster_channel = TenantChan | MachineChan

definition ClusterEvents :: "web_env \<Rightarrow> string \<Rightarrow> (cluster_channel \<times> watch_event) list \<Rightarrow> 'p web_reply" where
  "ClusterEvents env name received =
     (if \<not> av_bus (wn_api env) then WStatus 503
      else if name = [] then WNotFound
      else WStream (readyEvent name # map (jsonEvent \<circ> snd)
        (filter (\<lambda>(ch, e). case ch of TenantChan \<Rightarrow> forwardTenant name e | MachineChan \<Rightarrow> forwardMachine name e) received)))"


section \<open>Creating and deleting clusters\<close>

definition validClusterName :: "string \<Rightarrow> bool" where
  "validClusterName name \<longleftrightarrow>
     2 \<le> length name \<and> length name \<le> 63 \<and> (let n = (of_char (hd name) :: nat) in 97 \<le> n \<and> n \<le> 122) \<and>
     list_all (\<lambda>c. let n = (of_char c :: nat) in 97 \<le> n \<and> n \<le> 122 \<or> 48 \<le> n \<and> n \<le> 57 \<or> c = CHR ''-'') name"

definition ClusterCreatePage :: "auth_ctx \<Rightarrow> cluster_page web_reply" where
  "ClusterCreatePage c = render c (ClusterFormPage \<lparr>cf_name = [], cf_k8sVersion = [], cf_talosVersion = [], cf_nameError = False, cf_formError = False\<rparr>)"

definition ClusterCreateSubmit :: "web_env \<Rightarrow> web_request \<Rightarrow> web_world \<Rightarrow> cluster_page web_reply \<times> web_world" where
  "ClusterCreateSubmit env r w =
     (let name = formValue r ''name'';
          form = \<lparr>cf_name = name,
            cf_k8sVersion = (if formValue r ''kubernetesVersion'' = [] then ''1.35.0'' else formValue r ''kubernetesVersion''),
            cf_talosVersion = (if formValue r ''talosVersion'' = [] then ''1.12.0'' else formValue r ''talosVersion''),
            cf_nameError = (name = [] \<or> \<not> validClusterName name), cf_formError = False\<rparr> in
      if cf_nameError form then (WRender (ClusterFormPage form), w)
      else
        let spec = (dec_tenant_spec JNull)\<lparr>ts_kubernetesVersion := cf_k8sVersion form, ts_talosVersion := cf_talosVersion form\<rparr> in
        (case onStore (CreateTenant name spec [] []) w of
           (Inl _, w) \<Rightarrow> (WRender (ClusterFormPage (form\<lparr>cf_formError := True\<rparr>)), w)
         | (Inr _, w) \<Rightarrow>
             (WRedirect (''/clusters/'' @ name) True,
              case Option.bind (GenerateSecretsBundle (av_lib (wn_api env)) (cf_talosVersion form)) (SecretsBundleJSON (av_lib (wn_api env))) of
                None \<Rightarrow> w
              | Some raw \<Rightarrow> snd (onStore (SaveTenantSecrets name raw) w))))"

text \<open>The role test that the handlers of this section spell out.\<close>

definition ClusterDelete :: "auth_ctx \<Rightarrow> string \<Rightarrow> web_world \<Rightarrow> 'p web_reply \<times> web_world" where
  "ClusterDelete c name w =
     (if name = [] then (WNotFound, w)
      else if \<not> canMutate c then (WStatus 403, w)
      else (WRedirect ''/clusters'' True, snd (onStore (RemoveTenantSecrets name) (snd (onStore (DeleteTenant name) w)))))"

section \<open>Node groups\<close>

text \<open>The struct the scale handler reads and writes: three fields of the stored spec.\<close>

definition scaledSpec :: "json \<Rightarrow> int \<Rightarrow> json" where
  "scaledSpec spec count = jobj [(''name'', eStr (dStr ''name'' spec)), (''role'', eStr (dStr ''role'' spec)), (''count'', eInt count)]"

definition NodeGroupScale :: "auth_ctx \<Rightarrow> string \<Rightarrow> string \<Rightarrow> web_request \<Rightarrow> web_world \<Rightarrow> 'p web_reply \<times> web_world" where
  "NodeGroupScale c tn ng r w =
     (if tn = [] \<or> ng = [] then (WNotFound, w)
      else if \<not> canMutate c then (WStatus 403, w)
      else
        (case atoi (formValue r ''count'') of
           None \<Rightarrow> (WStatus 400, w)
         | Some count \<Rightarrow>
             if count < 0 \<or> 100 < count then (WStatus 400, w)
             else
               (case onStore (GetResource ''nodegroup'' ng) w of
                  (Inl _, w) \<Rightarrow> (WNotFound, w)
                | (Inr (md, spec, _), w) \<Rightarrow>
                    if md_name md = [] then (WNotFound, w)
                    else if mget (md_labels md) tenantLabel \<noteq> tn then (WNotFound, w)
                    else
                      (case onStore (UpdateResource ''nodegroup'' ng (md_resourceVersion md) (scaledSpec spec count) (md_labels md) (md_annotations md)) w of
                         (Inl _, w) \<Rightarrow> (WStatus 500, w)
                       | (Inr _, w) \<Rightarrow> (WRedirect (''/clusters/'' @ tn) True, w)))))"

text \<open>A provider configuration that is not JSON makes encoding the spec fail, before the statement.\<close>

definition NodeGroupCreate :: "web_env \<Rightarrow> auth_ctx \<Rightarrow> string \<Rightarrow> web_request \<Rightarrow> web_world \<Rightarrow> 'p web_reply \<times> web_world" where
  "NodeGroupCreate env c tn r w =
     (if tn = [] then (WNotFound, w)
      else if \<not> canMutate c then (WStatus 403, w)
      else
        let name = trimSpace (formValue r ''name''); role = formValue r ''role''; page = ''/clusters/'' @ tn;
            providerClass = trimSpace (formValue r ''providerClass''); config = trimSpace (formValue r ''providerConfig'') in
        if name = [] \<or> (role \<noteq> ''controlplane'' \<and> role \<noteq> ''worker'') then (WRedirect page False, w)
        else
          (case atoi (formValue r ''count'') of
             None \<Rightarrow> (WRedirect page False, w)
           | Some count \<Rightarrow>
               if count < 1 \<or> 100 < count then (WRedirect page False, w)
               else
                 (case onStore (GetTenant tn) w of
                    (Inl _, w) \<Rightarrow> (WRedirect page False, w)
                  | (Inr None, w) \<Rightarrow> (WRedirect page False, w)
                  | (Inr (Some _), w) \<Rightarrow>
                      (case onStore (GetResource ''nodegroup'' name) w of (existing, w) \<Rightarrow>
                         if (case existing of Inl _ \<Rightarrow> [] | Inr (md, _, _) \<Rightarrow> md_name md) \<noteq> [] then (WRedirect page False, w)
                         else if config \<noteq> [] \<and> wn_json env config = None then (WRedirect page False, w)
                         else
                           let spec = \<lparr>ng_name = name, ng_role = role, ng_count = count, ng_providerClass = providerClass,
                                 ng_providerConfig = (if config = [] then None else wn_json env config), ng_talosVersion = [], ng_configPatches = []\<rparr> in
                           (case onStore (CreateResource ''nodegroup'' name (enc_node_group_spec spec) JNull
                                   [(tenantLabel, tn), (roleLabel, role)] []) w of
                              (x, w) \<Rightarrow> (WRedirect page (\<not> isl x), w))))))"

section \<open>Credentials\<close>

text \<open>The kinds of credentials the two routes ask for.\<close>

datatype credential = Kubeconfig | Talosconfig

definition credentialDownload :: "web_env \<Rightarrow> string \<Rightarrow> credential \<Rightarrow> web_world \<Rightarrow> 'p web_reply \<times> web_world" where
  "credentialDownload env name kind w =
     (if name = [] then (WNotFound, w)
      else
        (case onStore (GetTenant name) w of
           (Inl _, w) \<Rightarrow> (WNotFound, w)
         | (Inr None, w) \<Rightarrow> (WNotFound, w)
         | (Inr (Some t), w) \<Rightarrow>
             (case onStore (LoadTenantSecrets name) w of
                (Inl _, w) \<Rightarrow> (WNotFound, w)
              | (Inr None, w) \<Rightarrow> (WNotFound, w)
              | (Inr (Some raw), w) \<Rightarrow>
                  (case UnmarshalSecretsBundle (av_lib (wn_api env)) raw of
                     Some (Some b) \<Rightarrow>
                       (case (case kind of Kubeconfig \<Rightarrow> GenerateKubeconfig | Talosconfig \<Rightarrow> GenerateTalosconfig)
                               (av_lib (wn_api env)) name (ts_controlPlaneEndpoint (t_spec t)) (Some b) of
                          None \<Rightarrow> (WStatus 500, w)
                        | Some text \<Rightarrow> (WDownload text, w))
                   | _ \<Rightarrow> (WStatus 500, w)))))"

section \<open>Upgrades\<close>

definition ClusterUpgradeStart :: "web_env \<Rightarrow> auth_ctx \<Rightarrow> string \<Rightarrow> web_request \<Rightarrow> web_world \<Rightarrow> 'p web_reply \<times> web_world" where
  "ClusterUpgradeStart env c name r w =
     (let page = ''/clusters/'' @ name @ ''/upgrade'' in
      if \<not> canMutate c then (WStatus 403, w)
      else if \<not> wq_formOk r then (WRedirect page False, w)
      else if \<not> wn_upgrades env then (WRedirect page False, w)
      else
        (case onManager (StartRun name (trimSpace (formValue r ''component'')) (trimSpace (formValue r ''version''))
                (if fst c = [] then ''web'' else fst c)) w of
           (x, w) \<Rightarrow> (WRedirect page (\<not> isl x), w)))"

definition ClusterUpgradeCancel :: "web_env \<Rightarrow> auth_ctx \<Rightarrow> string \<Rightarrow> string \<Rightarrow> web_world \<Rightarrow> 'p web_reply \<times> web_world" where
  "ClusterUpgradeCancel env c name runID w =
     (let page = ''/clusters/'' @ name @ ''/upgrade'' in
      if \<not> canMutate c then (WStatus 403, w)
      else if \<not> wn_upgrades env then (WRedirect page False, w)
      else (case onManager (\<lambda>u. (CancelRun runID u, u)) w of (x, w) \<Rightarrow> (WRedirect page (\<not> isl x), w)))"


section \<open>Patches\<close>

definition validatePatchInput :: "web_env \<Rightarrow> string \<Rightarrow> string \<Rightarrow> string \<Rightarrow> string \<Rightarrow> string \<Rightarrow> bool" where
  "validatePatchInput env format scope targetMachine targetRole body \<longleftrightarrow>
     trimSpace body \<noteq> [] \<and> format \<in> {[], ''strategic'', ''json6902'', ''text''} \<and> ValidateScope scope targetMachine \<and>
     targetRole \<in> {[], ''all'', ''controlplane'', ''worker'', ''kernel''} \<and>
     (if format \<in> {[], ''strategic''} then wn_yaml env body
      else if format = ''json6902'' then (case wn_ops env body of None \<Rightarrow> False | Some n \<Rightarrow> 0 < n) else True)"

text \<open>The spec a patch form stands for, \<open>None\<close> when it does not validate.\<close>

definition patchForm :: "web_env \<Rightarrow> web_request \<Rightarrow> patch_spec option" where
  "patchForm env r =
     (let format = trimSpace (formValue r ''format''); scope = trimSpace (formValue r ''scope'');
          targetMachine = trimSpace (formValue r ''targetMachine''); role0 = trimSpace (formValue r ''targetRole'');
          role = (if role0 = ''all'' then [] else role0); body = formValue r ''patch'' in
      if validatePatchInput env format scope targetMachine role body
      then Some \<lparr>ps_patch = body, ps_format = format, ps_scope = (if scope = ScopeCluster then [] else scope),
        ps_targetMachine = targetMachine, ps_targetRole = role, ps_enabled = (formValue r ''enabled'' = ''true'')\<rparr>
      else None)"

definition ClusterPatchCreate :: "web_env \<Rightarrow> auth_ctx \<Rightarrow> string \<Rightarrow> web_request \<Rightarrow> web_world \<Rightarrow> 'p web_reply \<times> web_world" where
  "ClusterPatchCreate env c name r w =
     (let page = ''/clusters/'' @ name @ ''/patches'' in
      if \<not> canMutate c then (WStatus 403, w)
      else if \<not> wq_formOk r then (WStatus 400, w)
      else
        (case patchForm env r of
           None \<Rightarrow> (WRedirect page False, w)
         | Some spec \<Rightarrow>
             (case onStore (CreateResource ''configpatch'' (trimSpace (formValue r ''name'')) (enc_patch_spec spec) JNull
                     ((tenantLabel, name) # (if ps_targetRole spec \<noteq> [] then [(roleLabel, ps_targetRole spec)] else [])) []) w of
                (x, w) \<Rightarrow> (WRedirect page (\<not> isl x), w))))"

text \<open>The lookup the patch handlers share: the row, if it exists and belongs to the cluster.\<close>

definition clusterPatch :: "string \<Rightarrow> string \<Rightarrow> web_world \<Rightarrow> (metadata \<times> json) option \<times> web_world" where
  "clusterPatch cluster name w =
     (case onStore (GetResource ''configpatch'' name) w of
        (Inl _, w) \<Rightarrow> (None, w)
      | (Inr (md, spec, _), w) \<Rightarrow>
          (if md_name md = [] \<or> mget (md_labels md) tenantLabel \<noteq> cluster then None else Some (md, spec), w))"

definition ClusterPatchEditPage :: "auth_ctx \<Rightarrow> string \<Rightarrow> string \<Rightarrow> web_world \<Rightarrow> cluster_page web_reply \<times> web_world" where
  "ClusterPatchEditPage c cluster name w =
     (case clusterPatch cluster name w of
        (None, w) \<Rightarrow> (WNotFound, w)
      | (Some (md, spec), w) \<Rightarrow>
          (render c (PatchEditPage \<lparr>pe_cluster = cluster, pe_row = patchRow md (dec_patch_spec spec),
             pe_patch = ps_patch (dec_patch_spec spec), pe_canMutate = canMutate c\<rparr>), w))"

definition ClusterPatchSave :: "web_env \<Rightarrow> auth_ctx \<Rightarrow> string \<Rightarrow> string \<Rightarrow> web_request \<Rightarrow> web_world \<Rightarrow> 'p web_reply \<times> web_world" where
  "ClusterPatchSave env c cluster name r w =
     (let page = ''/clusters/'' @ cluster @ ''/patches/'' @ name in
      if \<not> canMutate c then (WStatus 403, w)
      else if \<not> wq_formOk r then (WStatus 400, w)
      else
        (case patchForm env r of
           None \<Rightarrow> (WRedirect page False, w)
         | Some new \<Rightarrow>
             (case clusterPatch cluster name w of
                (None, w) \<Rightarrow> (WNotFound, w)
              | (Some (md, _), w) \<Rightarrow>
                  let labels = AList.update tenantLabel cluster (md_labels md);
                      labels = (if ps_targetRole new \<noteq> [] then AList.update roleLabel (ps_targetRole new) labels else AList.delete roleLabel labels) in
                  (case onStore (UpdateResource ''configpatch'' name (md_resourceVersion md) (enc_patch_spec new) labels (md_annotations md)) w of
                     (x, w) \<Rightarrow> (WRedirect page (\<not> isl x), w)))))"

definition ClusterPatchDelete :: "auth_ctx \<Rightarrow> string \<Rightarrow> string \<Rightarrow> web_world \<Rightarrow> 'p web_reply \<times> web_world" where
  "ClusterPatchDelete c cluster name w =
     (if \<not> canMutate c then (WStatus 403, w)
      else
        (case clusterPatch cluster name w of
           (None, w) \<Rightarrow> (WNotFound, w)
         | (Some _, w) \<Rightarrow>
             (case onStore (RemoveResource ''configpatch'' name) w of
                (Inl _, w) \<Rightarrow> (WRedirect (''/clusters/'' @ cluster @ ''/patches/'' @ name) False, w)
              | (Inr _, w) \<Rightarrow> (WRedirect (''/clusters/'' @ cluster @ ''/patches'') True, w))))"

definition ClusterPatchToggle :: "auth_ctx \<Rightarrow> string \<Rightarrow> string \<Rightarrow> web_world \<Rightarrow> 'p web_reply \<times> web_world" where
  "ClusterPatchToggle c cluster name w =
     (if \<not> canMutate c then (WStatus 403, w)
      else
        (case clusterPatch cluster name w of
           (None, w) \<Rightarrow> (WNotFound, w)
         | (Some (md, spec), w) \<Rightarrow>
             let ps = dec_patch_spec spec in
             (case onStore (UpdateResource ''configpatch'' name (md_resourceVersion md) (enc_patch_spec (ps\<lparr>ps_enabled := \<not> ps_enabled ps\<rparr>))
                     (md_labels md) (md_annotations md)) w of
                (x, w) \<Rightarrow> (WRedirect (''/clusters/'' @ cluster @ ''/patches/'' @ name) (\<not> isl x), w))))"

definition ClusterPatchesPreview :: "string \<Rightarrow> web_request \<Rightarrow> web_world \<Rightarrow> cluster_page web_reply \<times> web_world" where
  "ClusterPatchesPreview cluster r w =
     (let role = (if queryValue r ''role'' = [] then ''controlplane'' else queryValue r ''role'') in
      case onStore (ResolvePatches cluster role (queryValue r ''machine'')) w of
        (Inl _, w) \<Rightarrow> (WStatus 500, w)
      | (Inr xs, w) \<Rightarrow> (WRender (PatchPreview xs), w))"

section \<open>Routes\<close>

text \<open>
  \<^verbatim>\<open>RegisterRoutes\<close>. Path segments are arguments; of two patterns the mux takes the more specific one, so a tab named
  like a fixed segment is not a tab.
\<close>

datatype cluster_route =
    RClusters
  | RClusterForm
  | RClusterCreate
  | RCluster string string
  | RClusterEvents string "(cluster_channel \<times> watch_event) list"
  | RClusterDelete string
  | RScale string string
  | RGroupCreate string
  | RCredential string credential
  | RUpgradeStart string
  | RUpgradeCancel string string
  | RPatchCreate string
  | RPatchEdit string string
  | RPatchSave string string
  | RPatchDelete string string
  | RPatchToggle string string
  | RPatchPreview string

fun clusters_section :: "web_env \<Rightarrow> auth_ctx \<Rightarrow> cluster_route \<Rightarrow> web_request \<Rightarrow> web_world \<Rightarrow> cluster_page web_reply \<times> web_world" where
  "clusters_section env c RClusters r w = TenantsList env c w"
| "clusters_section env c RClusterForm r w = (ClusterCreatePage c, w)"
| "clusters_section env c RClusterCreate r w = ClusterCreateSubmit env r w"
| "clusters_section env c (RCluster n tab) r w = TenantDetail env c n tab r w"
| "clusters_section env c (RClusterEvents n evs) r w = (ClusterEvents env n evs, w)"
| "clusters_section env c (RClusterDelete n) r w = ClusterDelete c n w"
| "clusters_section env c (RScale n g) r w = NodeGroupScale c n g r w"
| "clusters_section env c (RGroupCreate n) r w = NodeGroupCreate env c n r w"
| "clusters_section env c (RCredential n k) r w = credentialDownload env n k w"
| "clusters_section env c (RUpgradeStart n) r w = ClusterUpgradeStart env c n r w"
| "clusters_section env c (RUpgradeCancel n i) r w = ClusterUpgradeCancel env c n i w"
| "clusters_section env c (RPatchCreate n) r w = ClusterPatchCreate env c n r w"
| "clusters_section env c (RPatchEdit n p) r w = ClusterPatchEditPage c n p w"
| "clusters_section env c (RPatchSave n p) r w = ClusterPatchSave env c n p r w"
| "clusters_section env c (RPatchDelete n p) r w = ClusterPatchDelete c n p w"
| "clusters_section env c (RPatchToggle n p) r w = ClusterPatchToggle c n p w"
| "clusters_section env c (RPatchPreview n) r w = ClusterPatchesPreview n r w"

end
