(* ===== verification/Web_Machines.thy ===== *)
theory Web_Machines
  imports Web
begin

text \<open>
  The machines section of the web interface, \<^verbatim>\<open>internal/web/handlers/machines\<close>: fleet lists, detail, logs, events,
  configuration preview, kernel arguments and the actions on a machine.
\<close>

section \<open>Pages\<close>

record fleet_row =
  fr_id :: string
  fr_cluster :: string
  fr_role :: string
  fr_stage :: string
  fr_connected :: bool
  fr_nodeGroup :: string
  fr_lastSeen :: string

record machine_detail =
  mdt_row :: fleet_row
  mdt_talos :: string
  mdt_kubernetes :: string
  mdt_schematic :: string
  mdt_canMutate :: bool
  mdt_hardware :: "(string \<times> string \<times> int \<times> nat \<times> int) option"
  mdt_network :: "(string \<times> string list) option"

record log_line =
  ll_message :: "string option"
  ll_level :: string
  ll_source :: string

record fleet_page =
  fp_rows :: "fleet_row list"
  fp_cluster :: string
  fp_stage :: string
  fp_connected :: bool
  fp_names :: "string list"

datatype machine_page =
    FleetPage fleet_page
  | MachineDetailPage machine_detail
  | LogsPage string string "log_line list"
  | LogLines "log_line list"
  | MonitorPage string string string string
  | ConfigPage string string string
  | KernelArgsPage string string string string bool

section \<open>Formatting\<close>

text \<open>A missing value prints as a dash.\<close>

abbreviation dash :: string where "dash \<equiv> ''-''"

definition formatAge :: "gotime \<Rightarrow> gotime \<Rightarrow> string" where
  "formatAge now t =
     (if t = 0 then dash
      else let d = now - t in
        if d < minute then ''just now''
        else if d < hour then itoa (d div minute) @ '' minutes ago''
        else if d < 24 * hour then itoa (d div hour) @ '' hours ago''
        else itoa (d div hour div 24) @ '' days ago'')"

definition schematicID :: "schematic_info option \<Rightarrow> string" where
  "schematicID x = (case x of None \<Rightarrow> [] | Some y \<Rightarrow> sch_id y)"

definition hardwareCPU :: "hardware_info \<Rightarrow> string" where
  "hardwareCPU h =
     (case hw_processors h of
        [] \<Rightarrow> dash
      | p # _ \<Rightarrow> if pi_description p \<noteq> [] then pi_description p
                 else if 0 < pi_coreCount p then itoa (pi_coreCount p) @ '' cores'' else dash)"

definition hardwareMemoryMB :: "hardware_info \<Rightarrow> int" where
  "hardwareMemoryMB h = sum_list (map mi_sizeMB (hw_memoryModules h))"

definition hardwareDiskTotal :: "hardware_info \<Rightarrow> int" where
  "hardwareDiskTotal h = sum_list (map bd_size (hw_blockDevices h))"

definition machineFleetRow :: "gotime \<Rightarrow> machine \<Rightarrow> fleet_row" where
  "machineFleetRow now m =
     \<lparr>fr_id = md_name (m_metadata m), fr_cluster = mget (md_labels (m_metadata m)) tenantLabel, fr_role = mst_role (m_status m),
      fr_stage = mst_stage (m_status m), fr_connected = ms_connected (m_spec m),
      fr_nodeGroup = mget (md_labels (m_metadata m)) ''rezuscloud.io/node-group'', fr_lastSeen = formatAge now (md_updatedAt (m_metadata m))\<rparr>"

section \<open>Lists and detail\<close>

definition MachinesList :: "auth_ctx \<Rightarrow> web_request \<Rightarrow> web_world \<Rightarrow> machine_page web_reply \<times> web_world" where
  "MachinesList c r w =
     (let cluster = trimSpace (queryValue r ''cluster''); stage = trimSpace (queryValue r ''stage'');
          connectedOnly = (queryValue r ''connected'' = ''true'') in
      case onStore (ListMachines []) w of
        (Inl _, w) \<Rightarrow> (WStatus 500, w)
      | (Inr (ms, _), w) \<Rightarrow>
          let keep = (\<lambda>m. (cluster = [] \<or> mget (md_labels (m_metadata m)) tenantLabel = cluster) \<and>
                (stage = [] \<or> mst_stage (m_status m) = stage) \<and> (\<not> connectedOnly \<or> ms_connected (m_spec m)));
              now = clock (ww_store w) in
          (case onStore clusterNames w of (names, w) \<Rightarrow>
             (render c (FleetPage \<lparr>fp_rows = map (machineFleetRow now) (filter keep ms), fp_cluster = cluster, fp_stage = stage,
                fp_connected = connectedOnly, fp_names = names\<rparr>), w)))"

definition MachinesPending :: "auth_ctx \<Rightarrow> web_world \<Rightarrow> machine_page web_reply \<times> web_world" where
  "MachinesPending c w =
     (case onStore (ListMachines []) w of
        (Inl _, w) \<Rightarrow> (WStatus 500, w)
      | (Inr (ms, _), w) \<Rightarrow>
          let pending = (\<lambda>m. mst_stage (m_status m) \<in> {StageInitializing, StageInstalling, StageConfiguring}); now = clock (ww_store w) in
          (case onStore clusterNames w of (names, w) \<Rightarrow>
             (render c (FleetPage \<lparr>fp_rows = map (machineFleetRow now) (filter pending ms), fp_cluster = [], fp_stage = [],
                fp_connected = False, fp_names = names\<rparr>), w)))"

text \<open>The lookup at the start of the detail pages: a failure answers 500, an unknown machine 404.\<close>

definition withMachine ::
  "string \<Rightarrow> web_world \<Rightarrow> (machine \<Rightarrow> web_world \<Rightarrow> 'p web_reply \<times> web_world) \<Rightarrow> 'p web_reply \<times> web_world" where
  "withMachine ident w k =
     (if ident = [] then (WNotFound, w)
      else
        (case onStore (GetMachine ident) w of
           (Inl _, w) \<Rightarrow> (WStatus 500, w)
         | (Inr None, w) \<Rightarrow> (WNotFound, w)
         | (Inr (Some m), w) \<Rightarrow> k m w))"

definition machineCluster :: "machine \<Rightarrow> string" where
  "machineCluster m = mget (md_labels (m_metadata m)) tenantLabel"

definition MachineDetail :: "auth_ctx \<Rightarrow> string \<Rightarrow> web_world \<Rightarrow> machine_page web_reply \<times> web_world" where
  "MachineDetail c ident w =
     withMachine ident w (\<lambda>m w.
       (render c (MachineDetailPage
          \<lparr>mdt_row = machineFleetRow (clock (ww_store w)) m, mdt_talos = mst_talosVersion (m_status m), mdt_kubernetes = mst_k8sVersion (m_status m),
           mdt_schematic = schematicID (mst_schematic (m_status m)), mdt_canMutate = canMutate c,
           mdt_hardware = map_option (\<lambda>h. (hw_arch h, hardwareCPU h, hardwareMemoryMB h, length (hw_blockDevices h), hardwareDiskTotal h))
             (mst_hardware (m_status m)),
           mdt_network = map_option (\<lambda>n. (ni_hostname n, ni_addresses n)) (mst_network (m_status m))\<rparr>), w))"

section \<open>Logs\<close>

text \<open>A line whose message is one of the handler's own notices has message \<open>None\<close>.\<close>

abbreviation notice :: "string \<Rightarrow> log_line" where
  "notice level \<equiv> \<lparr>ll_message = None, ll_level = level, ll_source = []\<rparr>"

definition parseDmesgLines :: "string \<Rightarrow> log_line list" where
  "parseDmesgLines raw =
     (let ls = filter (\<lambda>l. l \<noteq> []) (map trimSpace (splitOn (char_of (10 :: nat)) (trimSpace raw))) in
      if ls = [] then [notice ''info''] else map (\<lambda>l. \<lparr>ll_message = Some l, ll_level = ''info'', ll_source = ''dmesg''\<rparr>) ls)"

text \<open>\<open>wn_dmesg\<close> is what the machine answers, \<open>None\<close> for every failure of the call.\<close>

definition recentLogs :: "web_env \<Rightarrow> string \<Rightarrow> log_line list" where
  "recentLogs env ident =
     (if wn_talos env = None then [notice ''info'']
      else (case wn_dmesg env ident of
              None \<Rightarrow> [notice ''warn'']
            | Some raw \<Rightarrow> if raw = [] then [notice ''warn''] else parseDmesgLines raw))"

definition MachineLogs :: "web_env \<Rightarrow> auth_ctx \<Rightarrow> string \<Rightarrow> bool \<Rightarrow> web_request \<Rightarrow> web_world \<Rightarrow> machine_page web_reply \<times> web_world" where
  "MachineLogs env c ident htmx r w =
     withMachine ident w (\<lambda>m w.
       if htmx \<and> queryValue r ''partial'' = ''1'' then (WRender (LogLines (recentLogs env ident)), w)
       else (render c (LogsPage ident (machineCluster m) (recentLogs env ident)), w))"

definition MachineLogsPoll :: "web_env \<Rightarrow> string \<Rightarrow> machine_page web_reply" where
  "MachineLogsPoll env ident = (if ident = [] then WNotFound else WRender (LogLines (recentLogs env ident)))"

text \<open>\<^verbatim>\<open>logPartial\<close>: the text of the lines as they are written into the page.\<close>

definition logPartial :: "string \<Rightarrow> log_line list \<Rightarrow> string" where
  "logPartial stamp ls = concat (map (\<lambda>l.
     ''<div class=\"ds-logs-line\"><span class=\"ds-logs-time\">'' @ stamp @ ''</span>'' @
     (if ll_level l \<noteq> [] then ''<span class=\"ds-logs-level ds-logs-level--'' @ ll_level l @ ''\">['' @ ll_level l @ '']</span>'' else []) @
     (if ll_source l \<noteq> [] then ''<span class=\"ds-logs-source\">'' @ ll_source l @ ''</span>'' else []) @
     ''<span class=\"ds-logs-msg\">'' @ (case ll_message l of None \<Rightarrow> [] | Some m \<Rightarrow> m) @ ''</span></div>'' @ [char_of (10 :: nat)]) ls)"


section \<open>Monitor, events, configuration\<close>

definition MachineMonitor :: "auth_ctx \<Rightarrow> string \<Rightarrow> web_world \<Rightarrow> machine_page web_reply \<times> web_world" where
  "MachineMonitor c ident w =
     withMachine ident w (\<lambda>m w. (render c (MonitorPage ident (machineCluster m) (mst_stage (m_status m)) (mst_role (m_status m))), w))"

text \<open>The name an event carries for this handler: only metadata that is a map has one.\<close>

definition eventName :: "watch_event \<Rightarrow> string" where
  "eventName e = (case we_object e of WMap m \<Rightarrow> (case om_metadata m of MdMap j \<Rightarrow> dStr ''name'' j | MdStruct _ \<Rightarrow> [])
     | WOther j \<Rightarrow> dStr ''name'' (case jget ''metadata'' j of None \<Rightarrow> JNull | Some x \<Rightarrow> x))"

definition MachineEvents :: "web_env \<Rightarrow> string \<Rightarrow> watch_event list \<Rightarrow> 'p web_reply" where
  "MachineEvents env ident received =
     (if \<not> av_bus (wn_api env) then WStatus 503
      else if ident = [] then WNotFound
      else WStream (\<lparr>we_type = ''READY'', we_object = WOther (JObj [(''metadata'', JObj [(''name'', JStr ident)])])\<rparr> #
        map jsonEvent (filter (\<lambda>e. eventName e = ident) received)))"

definition MachineConfig :: "web_env \<Rightarrow> auth_ctx \<Rightarrow> string \<Rightarrow> web_world \<Rightarrow> machine_page web_reply \<times> web_world" where
  "MachineConfig env c ident w =
     withMachine ident w (\<lambda>m w.
       case onStore (GenerateMachineConfig (wn_api env) (machineCluster m) ident None) w of
         (Inl _, w) \<Rightarrow> (WStatus 500, w)
       | (Inr x, w) \<Rightarrow> (render c (ConfigPage ident (machineCluster m) (mcr_yaml x)), w))"

section \<open>Kernel arguments\<close>

definition findKernelArgsPatch :: "string \<Rightarrow> store \<Rightarrow> (string \<times> string) \<times> store" where
  "findKernelArgsPatch tn s =
     (case ListTypedByTenant ''configpatch'' tn (\<lambda>md spec _. Some (md, dec_patch_spec spec)) s of (items, s) \<Rightarrow>
        ((case find (\<lambda>(md, _). mget (md_labels md) ''rezuscloud.io/kind'' = ''kernel-args'') (okList items) of
            None \<Rightarrow> ([], [])
          | Some (md, ps) \<Rightarrow> (ps_patch ps, md_name md)), s))"

definition MachineKernelArgs :: "auth_ctx \<Rightarrow> string \<Rightarrow> web_world \<Rightarrow> machine_page web_reply \<times> web_world" where
  "MachineKernelArgs c ident w =
     withMachine ident w (\<lambda>m w.
       case onStore (findKernelArgsPatch (machineCluster m)) w of
         ((text, name), w) \<Rightarrow> (render c (KernelArgsPage ident (machineCluster m) text name (canMutate c)), w))"

definition isValidKernelArg :: "string \<Rightarrow> bool" where
  "isValidKernelArg arg \<longleftrightarrow> list_ex (\<lambda>p. hasPrefix arg p) [''talos.'', ''console='', ''reboot='', ''mitigations='', ''ip='']"

definition kernelArgsOk :: "string list \<Rightarrow> bool" where
  "kernelArgsOk ls \<longleftrightarrow>
     list_all (\<lambda>l. let l = trimSpace l in l = [] \<or> (CHR '' '' \<notin> set l \<and> char_of (9 :: nat) \<notin> set l \<and> isValidKernelArg l)) ls"

definition buildKernelArgsPatch :: "string list \<Rightarrow> string" where
  "buildKernelArgsPatch args =
     ''machine:'' @ [char_of (10 :: nat)] @ ''  install:'' @ [char_of (10 :: nat)] @ ''    extraKernelArgs:'' @ [char_of (10 :: nat)] @
     concat (map (\<lambda>a. if trimSpace a = [] then [] else ''      - '' @ trimSpace a @ [char_of (10 :: nat)]) args)"

abbreviation kernelPatchName :: "string \<Rightarrow> string" where
  "kernelPatchName cluster \<equiv> ''kernel-args-'' @ cluster"

definition MachineKernelArgsSave :: "auth_ctx \<Rightarrow> string \<Rightarrow> web_request \<Rightarrow> web_world \<Rightarrow> 'p web_reply \<times> web_world" where
  "MachineKernelArgsSave c ident r w =
     (let page = ''/machines/'' @ ident @ ''/kernel-args'' in
      if \<not> canMutate c then (WStatus 403, w)
      else if ident = [] then (WNotFound, w)
      else
        (case onStore (GetMachine ident) w of (got, w) \<Rightarrow>
           (case okOpt got of
              None \<Rightarrow> (WNotFound, w)
            | Some m \<Rightarrow>
                let cluster = machineCluster m; raw = trimSpace (formValue r ''args''); ls = splitOn (char_of (10 :: nat)) raw in
                if cluster = [] then (WStatus 400, w)
                else if \<not> wq_formOk r then (WStatus 400, w)
                else if raw = [] \<or> \<not> kernelArgsOk ls then (WRedirect page False, w)
                else
                  (case onStore (findKernelArgsPatch cluster) w of ((_, name), w) \<Rightarrow>
                     if name \<noteq> []
                     then (case onStore (GetResource ''configpatch'' name) w of
                             (Inl _, w) \<Rightarrow> (WStatus 500, w)
                           | (Inr (md, spec, _), w) \<Rightarrow>
                               (case onStore (UpdateResource ''configpatch'' name (md_resourceVersion md)
                                       (enc_patch_spec ((dec_patch_spec spec)\<lparr>ps_patch := buildKernelArgsPatch ls\<rparr>)) [] []) w of
                                  (Inl _, w) \<Rightarrow> (WStatus 500, w)
                                | (Inr _, w) \<Rightarrow> (WRedirect page True, w)))
                     else (case onStore (CreateResource ''configpatch'' (kernelPatchName cluster)
                                   (enc_patch_spec \<lparr>ps_patch = buildKernelArgsPatch ls, ps_format = ''strategic'', ps_scope = [],
                                      ps_targetMachine = [], ps_targetRole = [], ps_enabled = True\<rparr>) JNull
                                   [(tenantLabel, cluster), (''rezuscloud.io/kind'', ''kernel-args'')] []) w of
                             (Inl _, w) \<Rightarrow> (WStatus 500, w)
                           | (Inr _, w) \<Rightarrow> (WRedirect page True, w))))))"

section \<open>Actions\<close>

text \<open>\<^verbatim>\<open>MachineRestart\<close> and \<^verbatim>\<open>MachineShutdown\<close> differ in the call they make; a lookup that fails counts as no machine.\<close>

definition machineAction ::
  "web_env \<Rightarrow> auth_ctx \<Rightarrow> string \<Rightarrow> (talos_env \<Rightarrow> string \<Rightarrow> up_world \<Rightarrow> (string + unit) \<times> up_world) \<Rightarrow> web_world \<Rightarrow> 'p web_reply \<times> web_world" where
  "machineAction env c ident act w =
     (if \<not> canMutate c then (WStatus 403, w)
      else if ident = [] then (WNotFound, w)
      else
        (case onStore (GetMachine ident) w of (got, w) \<Rightarrow>
           if okOpt got = None then (WNotFound, w)
           else
             (case wn_talos env of
                None \<Rightarrow> (WStatus 503, w)
              | Some te \<Rightarrow> (case onManager (act te ident) w of (x, w) \<Rightarrow> (WRedirect (''/machines/'' @ ident) (\<not> isl x), w)))))"

definition MachineRestart :: "web_env \<Rightarrow> auth_ctx \<Rightarrow> string \<Rightarrow> web_world \<Rightarrow> 'p web_reply \<times> web_world" where
  "MachineRestart env c ident w = machineAction env c ident Reboot w"

definition MachineShutdown :: "web_env \<Rightarrow> auth_ctx \<Rightarrow> string \<Rightarrow> web_world \<Rightarrow> 'p web_reply \<times> web_world" where
  "MachineShutdown env c ident w = machineAction env c ident Shutdown w"

definition MachineApprove :: "auth_ctx \<Rightarrow> string \<Rightarrow> web_world \<Rightarrow> 'p web_reply \<times> web_world" where
  "MachineApprove c ident w =
     (if \<not> canMutate c then (WStatus 403, w)
      else
        (case onStore (GetMachine ident) w of (got, w) \<Rightarrow>
           (if okOpt got = None then WNotFound else WRedirect (''/machines/'' @ ident) True, w)))"

definition web_MachineDelete :: "auth_ctx \<Rightarrow> string \<Rightarrow> web_world \<Rightarrow> 'p web_reply \<times> web_world" where
  "web_MachineDelete c ident w =
     (if \<not> canMutate c then (WStatus 403, w)
      else if ident = [] then (WNotFound, w)
      else
        (case onStore (GetMachine ident) w of (got, w) \<Rightarrow>
           if okOpt got = None then (WNotFound, w)
           else
             (case onStore (DeleteMachine ident) w of
                (Inl _, w) \<Rightarrow> (WStatus 500, w)
              | (Inr _, w) \<Rightarrow> (WRedirect ''/machines'' True, w))))"

section \<open>Routes\<close>

datatype web_machine_route =
    RMachines
  | RPending
  | RMachine string
  | RLogs string bool
  | RLogsPoll string
  | RMonitor string
  | RMachineEvents string "watch_event list"
  | RConfig string
  | RKernelArgs string
  | RKernelArgsSave string
  | RRestart string
  | RShutdown string
  | RApprove string
  | RMachineDelete string

fun machines_section :: "web_env \<Rightarrow> auth_ctx \<Rightarrow> web_machine_route \<Rightarrow> web_request \<Rightarrow> web_world \<Rightarrow> machine_page web_reply \<times> web_world" where
  "machines_section env c RMachines r w = MachinesList c r w"
| "machines_section env c RPending r w = MachinesPending c w"
| "machines_section env c (RMachine i) r w = MachineDetail c i w"
| "machines_section env c (RLogs i htmx) r w = MachineLogs env c i htmx r w"
| "machines_section env c (RLogsPoll i) r w = (MachineLogsPoll env i, w)"
| "machines_section env c (RMonitor i) r w = MachineMonitor c i w"
| "machines_section env c (RMachineEvents i evs) r w = (MachineEvents env i evs, w)"
| "machines_section env c (RConfig i) r w = MachineConfig env c i w"
| "machines_section env c (RKernelArgs i) r w = MachineKernelArgs c i w"
| "machines_section env c (RKernelArgsSave i) r w = MachineKernelArgsSave c i r w"
| "machines_section env c (RRestart i) r w = MachineRestart env c i w"
| "machines_section env c (RShutdown i) r w = MachineShutdown env c i w"
| "machines_section env c (RApprove i) r w = MachineApprove c i w"
| "machines_section env c (RMachineDelete i) r w = web_MachineDelete c i w"

end
