(* ===== verification/Web_Settings.thy ===== *)
theory Web_Settings
  imports Web
begin

text \<open>
  The settings section of the web interface, \<^verbatim>\<open>internal/web/handlers/settings\<close>: backups, users, API tokens, the audit
  page and the provider list.
\<close>

section \<open>Pages\<close>

record backups_page =
  bp_snapshots :: "snapshot_record list"
  bp_retention :: int
  bp_lastSuccess :: string
  bp_failures :: nat
  bp_rpo :: string
  bp_canMutate :: bool

record token_row =
  tk_id :: string
  tk_userName :: string
  tk_role :: string
  tk_createdAt :: gotime
  tk_lastUsed :: "gotime option"
  tk_expiresAt :: "gotime option"
  tk_expired :: bool

record tokens_page =
  tp_rows :: "token_row list"
  tp_canMutate :: bool
  tp_user :: string
  tp_newID :: string
  tp_newSecret :: string
  tp_newExpires :: string

record audit_page =
  ap_rows :: "(int \<times> audit_event) list"
  ap_total :: int
  ap_filter :: audit_filter
  ap_users :: "string list"
  ap_resources :: "string list"

record provider_row =
  pvr_type :: string
  pvr_endpoint :: string
  pvr_connected :: bool
  pvr_heartbeat :: "gotime option"
  pvr_schema :: "provider_schema option"
  pvr_error :: string

datatype settings_page =
    SettingsPage "string list" bool
  | BackupsPageData backups_page
  | UsersPageData "(string \<times> string \<times> gotime option) list" bool
  | TokensPageData tokens_page
  | AuditPageData audit_page
  | ProvidersPageData "provider_row list"

text \<open>The issue of a token sets the cookie of the one-time reveal: its content.\<close>

datatype settings_effect = NoReveal | Reveal string

section \<open>Index\<close>

definition envDefault :: "(string \<Rightarrow> string) \<Rightarrow> string \<Rightarrow> string \<Rightarrow> string" where
  "envDefault getenv key fallback = (if getenv key \<noteq> [] then getenv key else fallback)"

definition SettingsIndexPage :: "web_env \<Rightarrow> auth_ctx \<Rightarrow> settings_page web_reply" where
  "SettingsIndexPage env c = render c (SettingsPage
     [envDefault (wn_getenv env) ''REZUSCLOUD_JWT_SESSIONS'' ''24h (default)'', envDefault (wn_getenv env) ''REZUSCLOUD_BCRYPT_COST'' ''12 (default)'',
      envDefault (wn_getenv env) ''REZUSCLOUD_AUDIT_RETENTION_DAYS'' ''90 (default)'', envDefault (wn_getenv env) ''REZUSCLOUD_BACKUP_DIR'' ''(tmpdir default)'',
      envDefault (wn_getenv env) ''REZUSCLOUD_ADDR'' '':8080''] (canMutate c))"

section \<open>Backups\<close>

definition rpoEstimate :: "(string \<Rightarrow> gotime option) \<Rightarrow> gotime \<Rightarrow> string \<Rightarrow> string" where
  "rpoEstimate parse now lastOk =
     (if lastOk \<in> {[], ''never''} then ''unknown''
      else (case parse lastOk of
              None \<Rightarrow> ''unknown''
            | Some t \<Rightarrow> let d = now - t in
                if d < minute then ''<1m'' else if d < hour then itoa (d div minute) @ ''m'' else itoa (d div hour) @ ''h''))"

text \<open>The first successful snapshot of the list, which is sorted by date, newest first.\<close>

definition lastSuccess :: "snapshot_record list \<Rightarrow> string" where
  "lastSuccess xs = foldl (\<lambda>l x. if sns_status (sr_status x) = ''success'' \<and> l = ''never'' then sr_createdAt x else l) ''never'' xs"

definition failures :: "snapshot_record list \<Rightarrow> nat" where
  "failures xs = length (filter (\<lambda>x. sns_status (sr_status x) = ''failed'') xs)"

text \<open>The instant an RFC 3339 text stands for is the parameter \<open>parse\<close> of \<open>rpoEstimate\<close>.\<close>

definition BackupsPage :: "web_env \<Rightarrow> (string \<Rightarrow> gotime option) \<Rightarrow> auth_ctx \<Rightarrow> web_world \<Rightarrow> settings_page web_reply \<times> web_world" where
  "BackupsPage env parse c w =
     (case wn_backup env of
        None \<Rightarrow> (WStatus 503, w)
      | Some be \<Rightarrow>
          (case onStore (ListSnapshots be) w of (snaps0, w) \<Rightarrow>
           case onStore GetPolicy w of (retention, w) \<Rightarrow>
             let snaps = (case snaps0 of None \<Rightarrow> [] | Some xs \<Rightarrow> xs) in
             (render c (BackupsPageData \<lparr>bp_snapshots = snaps, bp_retention = retention, bp_lastSuccess = lastSuccess snaps,
                bp_failures = failures snaps, bp_rpo = rpoEstimate parse (clock (ww_store w)) (lastSuccess snaps), bp_canMutate = canMutate c\<rparr>), w)))"

abbreviation backupsPath :: string where "backupsPath \<equiv> ''/settings/backups''"

definition backupAction ::
  "web_env \<Rightarrow> auth_ctx \<Rightarrow> (backup_env \<Rightarrow> backup_state \<Rightarrow> (backup_err + 'a) \<times> backup_state) \<Rightarrow> web_world \<Rightarrow> 'p web_reply \<times> web_world" where
  "backupAction env c act w =
     (if \<not> canMutate c then (WStatus 403, w)
      else
        (case wn_backup env of
           None \<Rightarrow> (WRedirect backupsPath False, w)
         | Some be \<Rightarrow> (case onBackup (act be) w of (x, w) \<Rightarrow> (WRedirect backupsPath (\<not> isl x), w))))"

definition BackupsRunDatabase :: "web_env \<Rightarrow> auth_ctx \<Rightarrow> web_world \<Rightarrow> 'p web_reply \<times> web_world" where
  "BackupsRunDatabase env c w = backupAction env c (\<lambda>be. TriggerDatabase be True) w"

definition BackupsRunResources :: "web_env \<Rightarrow> auth_ctx \<Rightarrow> web_world \<Rightarrow> 'p web_reply \<times> web_world" where
  "BackupsRunResources env c w = backupAction env c (\<lambda>be. TriggerResources be True) w"

definition BackupsRestore :: "web_env \<Rightarrow> auth_ctx \<Rightarrow> web_request \<Rightarrow> web_world \<Rightarrow> 'p web_reply \<times> web_world" where
  "BackupsRestore env c r w =
     (if \<not> canMutate c then (WStatus 403, w)
      else if \<not> wq_formOk r then (WRedirect backupsPath False, w)
      else backupAction env c (\<lambda>be. Restore be (trimSpace (formValue r ''snapshotID'')) (formValue r ''dryRun'' = ''true'')) w)"

definition BackupsPolicySave :: "web_env \<Rightarrow> auth_ctx \<Rightarrow> web_request \<Rightarrow> web_world \<Rightarrow> 'p web_reply \<times> web_world" where
  "BackupsPolicySave env c r w =
     (if \<not> canMutate c then (WStatus 403, w)
      else if \<not> wq_formOk r then (WRedirect backupsPath False, w)
      else
        (case atoi (trimSpace (formValue r ''retention'')) of
           None \<Rightarrow> (WRedirect backupsPath False, w)
         | Some n \<Rightarrow>
             if n \<le> 0 \<or> wn_backup env = None then (WRedirect backupsPath False, w)
             else (case onStore (UpdatePolicy n) w of (ok, w) \<Rightarrow> (WRedirect backupsPath ok, w))))"

section \<open>Users\<close>

abbreviation usersPath :: string where "usersPath \<equiv> ''/settings/users''"

definition UsersPage :: "auth_ctx \<Rightarrow> web_world \<Rightarrow> settings_page web_reply \<times> web_world" where
  "UsersPage c w =
     (case onStore ListUsers w of
        (Inl _, w) \<Rightarrow> (WStatus 500, w)
      | (Inr us, w) \<Rightarrow>
          (render c (UsersPageData (map (\<lambda>u. (md_name (u_metadata u), us_role (u_spec u), ust_lastLogin (u_status u))) us) (isAdmin c)), w))"

definition UserCreate :: "web_env \<Rightarrow> auth_ctx \<Rightarrow> web_request \<Rightarrow> web_world \<Rightarrow> 'p web_reply \<times> web_world" where
  "UserCreate env c r w =
     (let name = trimSpace (formValue r ''name''); role = trimSpace (formValue r ''role''); password = formValue r ''password'' in
      if \<not> isAdmin c then (WStatus 403, w)
      else if \<not> wq_formOk r then (WRedirect usersPath False, w)
      else if name = [] \<or> \<not> ValidRoles role \<or> password = [] then (WRedirect usersPath False, w)
      else
        (case onStore (GetUser name) w of (existing, w) \<Rightarrow>
           if okOpt existing \<noteq> None then (WRedirect usersPath False, w)
           else
             (case bcrypt_hash (wn_auth env) password of
                None \<Rightarrow> (WRedirect usersPath False, w)
              | Some h \<Rightarrow> (case onStore (CreateUser name \<lparr>us_role = role, us_passwordHash = h\<rparr>) w of
                             (x, w) \<Rightarrow> (WRedirect usersPath (\<not> isl x), w)))))"

definition UserUpdate_web :: "web_env \<Rightarrow> auth_ctx \<Rightarrow> string \<Rightarrow> web_request \<Rightarrow> web_world \<Rightarrow> 'p web_reply \<times> web_world" where
  "UserUpdate_web env c name r w =
     (let role = trimSpace (formValue r ''role''); password = formValue r ''password'' in
      if \<not> isAdmin c then (WStatus 403, w)
      else if \<not> wq_formOk r \<or> \<not> ValidRoles role then (WRedirect usersPath False, w)
      else
        (case onStore (GetUser name) w of (existing, w) \<Rightarrow>
           (case okOpt existing of
              None \<Rightarrow> (WRedirect usersPath False, w)
            | Some u \<Rightarrow>
                (case (if password \<noteq> [] then bcrypt_hash (wn_auth env) password else Some (us_passwordHash (u_spec u))) of
                   None \<Rightarrow> (WRedirect usersPath False, w)
                 | Some h \<Rightarrow>
                     (case onStore (UpdateUser name (md_resourceVersion (u_metadata u)) \<lparr>us_role = role, us_passwordHash = h\<rparr>) w of
                        (x, w) \<Rightarrow> (WRedirect usersPath (\<not> isl x), w))))))"

definition UserDelete_web :: "auth_ctx \<Rightarrow> string \<Rightarrow> web_world \<Rightarrow> 'p web_reply \<times> web_world" where
  "UserDelete_web c name w =
     (if \<not> isAdmin c then (WStatus 403, w)
      else if name = fst c then (WRedirect usersPath False, w)
      else (case onStore (DeleteUser name) w of (x, w) \<Rightarrow> (WRedirect usersPath (\<not> isl x), w)))"


section \<open>API tokens\<close>

abbreviation tokensPath :: string where "tokensPath \<equiv> ''/settings/api-tokens''"

fun tokenRows :: "gotime \<Rightarrow> api_token list \<Rightarrow> store \<Rightarrow> token_row list \<times> store" where
  "tokenRows now [] s = ([], s)"
| "tokenRows now (t # ts) s =
     (case GetUser (at_userName t) s of (u, s) \<Rightarrow>
      case tokenRows now ts s of (rows, s) \<Rightarrow>
        (\<lparr>tk_id = at_id t, tk_userName = at_userName t, tk_role = (case okOpt u of None \<Rightarrow> [] | Some x \<Rightarrow> us_role (u_spec x)),
          tk_createdAt = at_createdAt t, tk_lastUsed = at_lastUsed t, tk_expiresAt = at_expiresAt t,
          tk_expired = (case at_expiresAt t of None \<Rightarrow> False | Some e \<Rightarrow> e < now)\<rparr> # rows, s))"

text \<open>\<^verbatim>\<open>strings.SplitN\<close> of the reveal cookie into at most three parts.\<close>

definition revealParts :: "string \<Rightarrow> string list" where
  "revealParts v =
     (case splitOn (CHR ''|'') v of
        a # b # c # rest \<Rightarrow> [a, b, concat (c # map (\<lambda>x. CHR ''|'' # x) rest)]
      | parts \<Rightarrow> parts)"

definition APITokensPage :: "auth_ctx \<Rightarrow> web_request \<Rightarrow> web_world \<Rightarrow> settings_page web_reply \<times> web_world" where
  "APITokensPage c r w =
     (case onStore (ListAPITokens (if isAdmin c then [] else fst c)) w of
        (Inl _, w) \<Rightarrow> (WStatus 500, w)
      | (Inr ts, w) \<Rightarrow>
          (case onStore (tokenRows (clock (ww_store w)) ts) w of (rows, w) \<Rightarrow>
             let parts = (case wq_reveal r of None \<Rightarrow> [] | Some v \<Rightarrow> revealParts v);
                 shown = (if 2 \<le> length parts then parts else []) in
             (render c (TokensPageData \<lparr>tp_rows = rows, tp_canMutate = canMutate c, tp_user = fst c,
                tp_newID = (case shown of a # _ \<Rightarrow> a | [] \<Rightarrow> []), tp_newSecret = (case shown of _ # b # _ \<Rightarrow> b | _ \<Rightarrow> []),
                tp_newExpires = (case shown of [_, _, e] \<Rightarrow> e | _ \<Rightarrow> [])\<rparr>), w)))"

text \<open>The reply, and the content of the reveal cookie when a token is issued.\<close>

definition APITokenCreate ::
  "web_env \<Rightarrow> auth_ctx \<Rightarrow> string \<Rightarrow> web_request \<Rightarrow> web_world \<Rightarrow> ('p web_reply \<times> settings_effect) \<times> web_world" where
  "APITokenCreate env c target r w =
     (if \<not> canMutate c then ((WStatus 403, NoReveal), w)
      else if \<not> isAdmin c \<and> fst c \<noteq> target then ((WStatus 403, NoReveal), w)
      else
        (case onStore (GetUser target) w of (got, w) \<Rightarrow>
           if okOpt got = None \<or> \<not> wq_formOk r then ((WRedirect tokensPath False, NoReveal), w)
           else
             let days = (case atoi (formValue r ''expiresInDays'') of None \<Rightarrow> 0 | Some d \<Rightarrow> d);
                 expiresAt = (if 0 < days then Some (clock (ww_store w) + wrap64 (days * (24 * hour))) else None) in
             (case GenerateAPIToken (wn_auth env) of
                None \<Rightarrow> ((WRedirect tokensPath False, NoReveal), w)
              | Some (plaintext, ident, h) \<Rightarrow>
                  (case onStore (CreateAPIToken ident target h expiresAt) w of
                     (Inl _, w) \<Rightarrow> ((WRedirect tokensPath False, NoReveal), w)
                   | (Inr _, w) \<Rightarrow>
                       ((WRedirect tokensPath True, Reveal (ident @ ''|'' @ plaintext @ ''|'' @
                          (case expiresAt of None \<Rightarrow> [] | Some e \<Rightarrow> FormatRFC3339 (utcTime e)))), w)))))"

definition APITokenDelete :: "auth_ctx \<Rightarrow> string \<Rightarrow> web_world \<Rightarrow> 'p web_reply \<times> web_world" where
  "APITokenDelete c ident w =
     (if \<not> canMutate c then (WStatus 403, w)
      else
        (case onStore (GetAPIToken ident) w of (got, w) \<Rightarrow>
           (case okOpt got of
              None \<Rightarrow> (WRedirect tokensPath False, w)
            | Some tok \<Rightarrow>
                if \<not> isAdmin c \<and> fst c \<noteq> at_userName tok then (WStatus 403, w)
                else (case onStore (DeleteAPIToken ident) w of (x, w) \<Rightarrow> (WRedirect tokensPath (\<not> isl x), w)))))"

section \<open>Audit\<close>

text \<open>A bound in the form of the date picker or in RFC 3339; another text is ignored.\<close>

definition auditBound :: "web_env \<Rightarrow> string \<Rightarrow> rfc_time option" where
  "auditBound env raw = (if raw = [] then None else (case wn_minute env raw of Some t \<Rightarrow> Some t | None \<Rightarrow> wn_rfc env raw))"

definition auditFilter :: "web_env \<Rightarrow> web_request \<Rightarrow> audit_filter" where
  "auditFilter env r =
     \<lparr>af_user = trimSpace (queryValue r ''user''), af_resource = trimSpace (queryValue r ''resource''), af_verb = trimSpace (queryValue r ''verb''),
      af_since = auditBound env (queryValue r ''since''), af_until = auditBound env (queryValue r ''until''),
      af_limit = (case atoi (queryValue r ''limit'') of Some v \<Rightarrow> if 0 < v \<and> v \<le> 200 then v else 50 | None \<Rightarrow> 50),
      af_offset = (case atoi (queryValue r ''offset'') of Some v \<Rightarrow> if 0 \<le> v then v else 0 | None \<Rightarrow> 0)\<rparr>"

text \<open>The two selections are sets in the source, written in the order of a Go map; here in the order of the events.\<close>

definition AuditPage :: "web_env \<Rightarrow> auth_ctx \<Rightarrow> web_request \<Rightarrow> web_world \<Rightarrow> settings_page web_reply \<times> web_world" where
  "AuditPage env c r w =
     (case ww_audit w of
        None \<Rightarrow> (WStatus 503, w)
      | Some d \<Rightarrow>
          let f = auditFilter env r in
          (case ListEvents f d of
             (None, d) \<Rightarrow> (WStatus 500, w\<lparr>ww_audit := Some d\<rparr>)
           | (Some evs, d) \<Rightarrow>
               (case CountEvents f d of
                  (None, d) \<Rightarrow> (WStatus 500, w\<lparr>ww_audit := Some d\<rparr>)
                | (Some n, d) \<Rightarrow>
                    (render c (AuditPageData \<lparr>ap_rows = evs, ap_total = n, ap_filter = f,
                       ap_users = filter (\<lambda>x. x \<noteq> []) (remdups (map (ae_userName \<circ> snd) evs)),
                       ap_resources = filter (\<lambda>x. x \<noteq> []) (remdups (map (ae_resource \<circ> snd) evs))\<rparr>), w\<lparr>ww_audit := Some d\<rparr>))))"

section \<open>Providers\<close>

definition providerRow :: "provider \<Rightarrow> provider_row" where
  "providerRow p = \<lparr>pvr_type = md_name (p_metadata p), pvr_endpoint = ps_endpoint (p_spec p), pvr_connected = pst_connected (p_status p),
     pvr_heartbeat = (if pst_lastHeartbeat (p_status p) = 0 then None else Some (pst_lastHeartbeat (p_status p))),
     pvr_schema = pst_schema (p_status p), pvr_error = pst_error (p_status p)\<rparr>"

definition ProvidersPage :: "auth_ctx \<Rightarrow> web_world \<Rightarrow> settings_page web_reply \<times> web_world" where
  "ProvidersPage c w =
     (case onStore ListProviders w of
        (Inl _, w) \<Rightarrow> (WStatus 500, w)
      | (Inr ps, w) \<Rightarrow> (render c (ProvidersPageData (map providerRow ps)), w))"

section \<open>Routes\<close>

datatype settings_route =
    RSettings
  | RBackups
  | RBackupDatabase
  | RBackupResources
  | RRestore
  | RPolicy
  | RUsers
  | RUserCreate
  | RUserUpdate string
  | RUserDelete string
  | RTokens
  | RTokenCreate string
  | RTokenDelete string
  | RAudit
  | RProviders

fun settings_section ::
  "web_env \<Rightarrow> (string \<Rightarrow> gotime option) \<Rightarrow> auth_ctx \<Rightarrow> settings_route \<Rightarrow> web_request \<Rightarrow> web_world \<Rightarrow> settings_page web_reply \<times> web_world" where
  "settings_section env p c RSettings r w = (SettingsIndexPage env c, w)"
| "settings_section env p c RBackups r w = BackupsPage env p c w"
| "settings_section env p c RBackupDatabase r w = BackupsRunDatabase env c w"
| "settings_section env p c RBackupResources r w = BackupsRunResources env c w"
| "settings_section env p c RRestore r w = BackupsRestore env c r w"
| "settings_section env p c RPolicy r w = BackupsPolicySave env c r w"
| "settings_section env p c RUsers r w = UsersPage c w"
| "settings_section env p c RUserCreate r w = UserCreate env c r w"
| "settings_section env p c (RUserUpdate n) r w = UserUpdate_web env c n r w"
| "settings_section env p c (RUserDelete n) r w = UserDelete_web c n w"
| "settings_section env p c RTokens r w = APITokensPage c r w"
| "settings_section env p c (RTokenCreate n) r w = (case APITokenCreate env c n r w of ((x, _), w) \<Rightarrow> (x, w))"
| "settings_section env p c (RTokenDelete i) r w = APITokenDelete c i w"
| "settings_section env p c RAudit r w = AuditPage env c r w"
| "settings_section env p c RProviders r w = ProvidersPage c w"

end
