(* ===== verification/Web_Props.thy ===== *)
theory Web_Props
  imports Web_Clusters Web_Machines Web_Settings Api_Props Auth_Props
begin

text \<open>
  What the sections of the web interface keep: the contract \<open>web_section\<close> says which routes read, which need the edit
  role and which the admin role; each section is an instance, and the mux over the three of them inherits it.
\<close>

section \<open>Handlers that only read\<close>

text \<open>A world no handler has written to: the rows, runs, calls and files are the same; consumed faults do not count.\<close>

definition untouched :: "web_world \<Rightarrow> web_world \<Rightarrow> bool" where
  "untouched w w' \<longleftrightarrow> reads (ww_store w) (ww_store w') \<and> ww_running w' = ww_running w \<and> ww_calls w' = ww_calls w \<and>
     ww_files w' = ww_files w \<and> map_option ad_rows (ww_audit w') = map_option ad_rows (ww_audit w)"

named_theorems untouched_intros \<open>handlers that change nothing\<close>

lemma untouched_refl [simp, untouched_intros]: "untouched w w"
  by (simp add: untouched_def)

lemma untouched_bind [untouched_intros]:
  "untouched w (snd m) \<Longrightarrow> (\<And>x t. untouched w t \<Longrightarrow> untouched w (snd (f x t))) \<Longrightarrow> untouched w (snd (case m of (x, t) \<Rightarrow> f x t))"
  by (cases m) auto

lemma untouched_onStore [untouched_intros]:
  "untouched w t \<Longrightarrow> reads (ww_store t) (snd (f (ww_store t))) \<Longrightarrow> untouched w (snd (onStore f t))"
  by (auto simp: untouched_def onStore_def split: prod.splits dest: reads_trans)

lemma reads_bind_self:
  "reads s (snd m) \<Longrightarrow> (\<And>x t. reads t (snd (f x t))) \<Longrightarrow> reads s (snd (case m of (x, t) \<Rightarrow> f x t))"
  by (cases m) (auto dest: reads_trans)

text \<open>The loaders of the pages.\<close>

lemmas reads_read [reads_intros] =
  reads_GetTenant [OF reads_refl] reads_GetMachine [OF reads_refl] reads_LoadSecrets [OF reads_refl]
  reads_ResolvePatches [OF reads_refl] reads_List [OF reads_refl] reads_render

lemma reads_GetResource [reads_intros]: "reads s (snd (GetResource rt name s))"
  by (auto simp: GetResource_def sql_def split: option.splits)

lemma reads_result:
  "reads s (snd m) \<Longrightarrow> reads s (snd (case m of (Inl e, t) \<Rightarrow> (f e, t) | (Inr (x, n), t) \<Rightarrow> (g x n, t)))"
  by (auto split: prod.splits sum.splits)

lemma reads_lists [reads_intros]:
  "reads s (snd (ListTyped rt opts build s))" "reads s (snd (ListTypedByTenant rt tn build s))"
  "reads s (snd (ListMachines los s))" "reads s (snd (ListMachinesByTenant tn los s))" "reads s (snd (ListTenants los s))"
  "reads s (snd (ListRuns tn s))" "reads s (snd (ListUsers s))" "reads s (snd (ListProviders s))" "reads s (snd (ListSnapshots be s))"
  unfolding ListTypedByTenant_def ListTyped_def ListMachinesByTenant_def ListMachines_def ListTenants_def ListRuns_def ListUsers_def
    ListProviders_def ListSnapshots_def
  by (rule reads_result, rule reads_List, simp)+

lemma reads_GetUser [reads_intros]: "reads s (snd (GetUser name s))"
  using reads_GetResource [of s "''user''" name] by (auto simp: GetUser_def split: prod.splits sum.splits)

lemma reads_tokens [reads_intros]: "reads s (snd (ListAPITokens u s))" "reads s (snd (GetAPIToken i s))"
  by (auto simp: ListAPITokens_def GetAPIToken_def sql_def)

lemma reads_pages [reads_intros]:
  "reads s (snd (nodeGroupSummaries tn s))" "reads s (snd (clusterNames s))" "reads s (snd (findKernelArgsPatch tn s))"
  unfolding nodeGroupSummaries_def clusterNames_def findKernelArgsPatch_def
  by (intro reads_result reads_bind_self reads_intros; simp)+

lemma reads_tenantSummary [reads_intros]: "reads s (snd (tenantSummary t s))"
  unfolding tenantSummary_def Let_def
  by (intro reads_bind_self reads_intros) simp

lemma reads_summarise [reads_intros]: "reads s (snd (summarise ts s))"
  by (induction ts arbitrary: s) (auto intro!: reads_bind_self reads_intros)

lemma reads_tenantSummaries [reads_intros]: "reads s (snd (tenantSummaries s))"
  unfolding tenantSummaries_def by (intro reads_bind_self reads_intros)

lemma reads_tokenRows [reads_intros]: "reads s (snd (tokenRows now ts s))"
  by (induction ts arbitrary: s) (auto intro!: reads_bind_self reads_intros)

lemma reads_detail [reads_intros]: "reads s (snd (detailBase name can row s))" "reads s (snd (tenantDetailData name c s))"
proof -
  show *: "reads s (snd (detailBase name can row s))" for s can row
    unfolding detailBase_def Let_def by (intro reads_bind_self reads_intros) simp
  show "reads s (snd (tenantDetailData name c s))"
    unfolding tenantDetailData_def by (intro reads_bind_self reads_intros *)
qed

section \<open>The contract of a section\<close>

text \<open>What a route asks of the caller. \<open>Unguarded\<close> routes write without a test.\<close>

datatype need = Reads | NeedsEdit | NeedsAdmin | Unguarded

locale web_section =
  fixes handle :: "web_env \<Rightarrow> auth_ctx \<Rightarrow> 'r \<Rightarrow> web_request \<Rightarrow> web_world \<Rightarrow> 'p web_reply \<times> web_world"
    and needs :: "'r \<Rightarrow> need"
  assumes reading: "needs rt = Reads \<Longrightarrow> untouched w (snd (handle env c rt r w))"
    and editing: "needs rt = NeedsEdit \<Longrightarrow> \<not> canMutate c \<Longrightarrow>
      snd (handle env c rt r w) = w \<and> fst (handle env c rt r w) \<in> {WStatus 403, WNotFound}"
    and administering: "needs rt = NeedsAdmin \<Longrightarrow> \<not> isAdmin c \<Longrightarrow> handle env c rt r w = (WStatus 403, w)"
begin

lemma admin_edits: "\<not> canMutate c \<Longrightarrow> \<not> isAdmin c"
  by (simp add: canMutate_def isAdmin_def)

lemma view_reads: "\<not> canMutate c \<Longrightarrow> needs rt \<noteq> Unguarded \<Longrightarrow> untouched w (snd (handle env c rt r w))"
  using reading editing [of rt c env r w] administering [OF _ admin_edits, of rt c env r w]
  by (cases "needs rt") auto

end

fun clusters_needs :: "cluster_route \<Rightarrow> need" where
  "clusters_needs RClusters = Reads"
| "clusters_needs RClusterForm = Reads"
| "clusters_needs RClusterCreate = Unguarded"
| "clusters_needs (RCluster n tab) = Reads"
| "clusters_needs (RClusterEvents n evs) = Reads"
| "clusters_needs (RCredential n k) = Reads"
| "clusters_needs (RPatchEdit n p) = Reads"
| "clusters_needs (RPatchPreview n) = Reads"
| "clusters_needs _ = NeedsEdit"

fun machines_needs :: "web_machine_route \<Rightarrow> need" where
  "machines_needs (RKernelArgsSave i) = NeedsEdit"
| "machines_needs (RRestart i) = NeedsEdit"
| "machines_needs (RShutdown i) = NeedsEdit"
| "machines_needs (RApprove i) = NeedsEdit"
| "machines_needs (RMachineDelete i) = NeedsEdit"
| "machines_needs _ = Reads"

fun settings_needs :: "settings_route \<Rightarrow> need" where
  "settings_needs RSettings = Reads"
| "settings_needs RBackups = Unguarded"
| "settings_needs RUsers = Reads"
| "settings_needs RUserCreate = NeedsAdmin"
| "settings_needs (RUserUpdate n) = NeedsAdmin"
| "settings_needs (RUserDelete n) = NeedsAdmin"
| "settings_needs RTokens = Reads"
| "settings_needs RAudit = Reads"
| "settings_needs RProviders = Reads"
| "settings_needs _ = NeedsEdit"

lemmas cluster_readers = TenantsList_def ClusterCreatePage_def TenantDetail_def renderReconcilePartial_def renderMachinesPartial_def
  credentialDownload_def ClusterPatchEditPage_def clusterPatch_def ClusterPatchesPreview_def

lemmas machine_readers = MachinesList_def MachinesPending_def withMachine_def MachineDetail_def MachineLogs_def MachineMonitor_def
  MachineConfig_def MachineKernelArgs_def

lemmas settings_readers = UsersPage_def APITokensPage_def ProvidersPage_def

lemma clusters_reading: "clusters_needs rt = Reads \<Longrightarrow> untouched w (snd (clusters_section env c rt r w))"
  by (cases rt) (auto simp: cluster_readers Let_def intro!: untouched_intros reads_intros split: sum.splits option.splits credential.splits)

lemma machines_reading: "machines_needs rt = Reads \<Longrightarrow> untouched w (snd (machines_section env c rt r w))"
  by (cases rt) (auto simp: machine_readers Let_def intro!: untouched_intros reads_intros split: sum.splits option.splits)

lemma ad_sql_rows: "ad_sql d = (ok, d') \<Longrightarrow> ad_rows d' = ad_rows d"
  by (auto simp: ad_sql_def split: list.splits)

lemma AuditPage_untouched: "untouched w (snd (AuditPage env c r w))"
  by (auto simp: AuditPage_def ListEvents_def CountEvents_def untouched_def Let_def split: option.splits prod.splits if_splits dest!: ad_sql_rows)

lemma settings_reading: "settings_needs rt = Reads \<Longrightarrow> untouched w (snd (settings_section env parse c rt r w))"
  using AuditPage_untouched
  by (cases rt) (auto simp: settings_readers Let_def intro!: untouched_intros reads_intros split: sum.splits option.splits)

interpretation clusters: web_section clusters_section clusters_needs
proof
  show "snd (clusters_section env c rt r w) = w \<and> fst (clusters_section env c rt r w) \<in> {WStatus 403, WNotFound}"
    if "clusters_needs rt = NeedsEdit" "\<not> canMutate c" for env c rt r w
    using that by (cases rt) (simp_all add: ClusterDelete_def NodeGroupScale_def NodeGroupCreate_def ClusterUpgradeStart_def ClusterUpgradeCancel_def
      ClusterPatchCreate_def ClusterPatchSave_def ClusterPatchDelete_def ClusterPatchToggle_def)
  show "clusters_section env c rt r w = (WStatus 403, w)" if "clusters_needs rt = NeedsAdmin" for env c rt r w
    using that by (cases rt) simp_all
qed (rule clusters_reading)

interpretation machines: web_section machines_section machines_needs
proof
  show "snd (machines_section env c rt r w) = w \<and> fst (machines_section env c rt r w) \<in> {WStatus 403, WNotFound}"
    if "machines_needs rt = NeedsEdit" "\<not> canMutate c" for env c rt r w
    using that by (cases rt) (simp_all add: MachineKernelArgsSave_def MachineRestart_def MachineShutdown_def machineAction_def MachineApprove_def
      web_MachineDelete_def)
  show "machines_section env c rt r w = (WStatus 403, w)" if "machines_needs rt = NeedsAdmin" for env c rt r w
    using that by (cases rt) simp_all
qed (rule machines_reading)

interpretation settings: web_section "\<lambda>env. settings_section env parse" settings_needs for parse
proof
  show "snd (settings_section env parse c rt r w) = w \<and> fst (settings_section env parse c rt r w) \<in> {WStatus 403, WNotFound}"
    if "settings_needs rt = NeedsEdit" "\<not> canMutate c" for env c rt r w
    using that by (cases rt) (simp_all add: BackupsRunDatabase_def BackupsRunResources_def backupAction_def BackupsRestore_def BackupsPolicySave_def
      APITokenCreate_def APITokenDelete_def)
  show "settings_section env parse c rt r w = (WStatus 403, w)" if "settings_needs rt = NeedsAdmin" "\<not> isAdmin c" for env c rt r w
    using that by (cases rt) (simp_all add: UserCreate_def UserUpdate_web_def UserDelete_web_def)
qed (rule settings_reading)

section \<open>The whole interface\<close>

text \<open>
  The mux of \<^verbatim>\<open>RegisterRoutes\<close>: every route of the three sections is behind \<^verbatim>\<open>AuthRequired\<close>.
\<close>

datatype web_route = ToClusters cluster_route | ToMachines web_machine_route | ToSettings settings_route

datatype web_page = OfClusters cluster_page | OfMachines machine_page | OfSettings settings_page

fun sections :: "web_env \<Rightarrow> (string \<Rightarrow> gotime option) \<Rightarrow> auth_ctx \<Rightarrow> web_route \<Rightarrow> web_request \<Rightarrow> web_world \<Rightarrow> web_page web_reply \<times> web_world" where
  "sections env parse c (ToClusters rt) r w = map_prod (map_web_reply OfClusters) id (clusters_section env c rt r w)"
| "sections env parse c (ToMachines rt) r w = map_prod (map_web_reply OfMachines) id (machines_section env c rt r w)"
| "sections env parse c (ToSettings rt) r w = map_prod (map_web_reply OfSettings) id (settings_section env parse c rt r w)"

definition webUI :: "web_env \<Rightarrow> (string \<Rightarrow> gotime option) \<Rightarrow> web_route \<Rightarrow> web_request \<Rightarrow> web_world \<Rightarrow> web_page web_reply \<times> web_world" where
  "webUI env parse rt r w =
     (case AuthRequired env r w of None \<Rightarrow> (WToLogin, w) | Some c \<Rightarrow> sections env parse c rt r w)"

fun web_needs :: "web_route \<Rightarrow> need" where
  "web_needs (ToClusters rt) = clusters_needs rt"
| "web_needs (ToMachines rt) = machines_needs rt"
| "web_needs (ToSettings rt) = settings_needs rt"

lemma refused_map: "fst m \<in> {WStatus 403, WNotFound} \<Longrightarrow> fst (map_prod (map_web_reply f) id m) \<in> {WStatus 403, WNotFound}"
  by (cases m) auto

interpretation web: web_section "\<lambda>env. sections env parse" web_needs for parse
proof
  show "untouched w (snd (sections env parse c rt r w))" if "web_needs rt = Reads" for env c rt r w
    using that clusters.reading machines.reading settings.reading by (cases rt) simp_all
  show "snd (sections env parse c rt r w) = w \<and> fst (sections env parse c rt r w) \<in> {WStatus 403, WNotFound}"
    if "web_needs rt = NeedsEdit" "\<not> canMutate c" for env c rt r w
    using that clusters.editing machines.editing settings.editing by (cases rt) (simp_all add: refused_map del: insert_iff fst_map_prod)
  show "sections env parse c rt r w = (WStatus 403, w)" if "web_needs rt = NeedsAdmin" "\<not> isAdmin c" for env c rt r w
    using that clusters.administering machines.administering settings.administering by (cases rt) simp_all
qed

lemma needs_unguarded: "web_needs rt = Unguarded \<longleftrightarrow> rt = ToClusters RClusterCreate \<or> rt = ToSettings RBackups"
proof (cases rt)
  case (ToClusters x)
  then show ?thesis by (cases x) simp_all
next
  case (ToMachines x)
  then show ?thesis by (cases x) simp_all
next
  case (ToSettings x)
  then show ?thesis by (cases x) simp_all
qed

text \<open>
  C33: roles in the web interface, for every route, request and state, whatever statements fail. Without a valid
  session the answer is the redirect to the login page and nothing changes. A caller who has neither the admin nor the
  edit role changes nothing on any route but two (creating a cluster, and the backups page, which stores the default
  policy); on the routes that write, such a caller is refused with 403 or 404. User management is refused with 403 to
  everyone but administrators.
\<close>

theorem web_roles:
  "case AuthRequired env r w of
     None \<Rightarrow> webUI env parse rt r w = (WToLogin, w)
   | Some c \<Rightarrow>
       (\<not> canMutate c \<and> rt \<notin> {ToClusters RClusterCreate, ToSettings RBackups} \<longrightarrow> untouched w (snd (webUI env parse rt r w))) \<and>
       (\<not> canMutate c \<and> web_needs rt \<in> {NeedsEdit, NeedsAdmin} \<longrightarrow>
          snd (webUI env parse rt r w) = w \<and> fst (webUI env parse rt r w) \<in> {WStatus 403, WNotFound}) \<and>
       (\<not> isAdmin c \<and> web_needs rt = NeedsAdmin \<longrightarrow> webUI env parse rt r w = (WStatus 403, w))"
proof (cases "AuthRequired env r w")
  case (Some c)
  have "untouched w (snd (sections env parse c rt r w))" if "\<not> canMutate c" "rt \<notin> {ToClusters RClusterCreate, ToSettings RBackups}"
    using web.view_reads [OF that(1)] that(2) needs_unguarded by blast
  then show ?thesis
    using Some web.editing [of rt c env parse r w] web.administering [of rt c env parse r w] web.admin_edits [of c]
    by (auto simp: webUI_def)
qed (simp add: webUI_def)

section \<open>Signing in\<close>

lemma AuthRequired_token:
  assumes "jwt_sound (wn_auth env)" "jwt_sign (wn_auth env) (ae_secret (wn_auth env)) c = Some tok" "cl_role c \<noteq> []"
    and "wq_session r = tok" "clock (ww_store w) < cl_expiresAt c * second"
  shows "AuthRequired env r w = Some (cl_username c, cl_role c)"
proof -
  have "tok \<noteq> []" "jwt_parse (wn_auth env) (ae_secret (wn_auth env)) (clock (ww_store w)) tok = JwtOk c"
    using assms unfolding jwt_sound_def by auto
  then show ?thesis
    using assms(3,4) by (simp add: AuthRequired_def ValidateToken_def)
qed

lemma UpdateUserLastLogin_others:
  "faults s = [] \<Longrightarrow> clock (snd (UpdateUserLastLogin n s)) = clock s"
  "faults s = [] \<Longrightarrow> rt \<noteq> ''user'' \<Longrightarrow> find_row (snd (UpdateUserLastLogin n s)) rt name = find_row s rt name"
  by (simp_all add: UpdateUserLastLogin_def)

text \<open>The form \<open>r\<close> carries the right password of a user with a valid role.\<close>

lemma LoginSubmit_session:
  assumes "faults (ww_store w) = []" "formValue r ''username'' = n" "formValue r ''password'' = pw" "n \<noteq> []" "pw \<noteq> []"
    and "user_row (ww_store w) n = Some u" "ValidRoles (row_role u)" "bcrypt_check (wn_auth env) pw (us_passwordHash (dec_user_spec (r_spec u)))"
    and "jwt_sign (wn_auth env) (ae_secret (wn_auth env)) (login_claims u (clock (ww_store w))) = Some tok"
  shows "\<exists>w'. LoginSubmit env r w = (WSession tok, w') \<and> faults (ww_store w') = [] \<and> clock (ww_store w') = clock (ww_store w) \<and>
    (\<forall>rt name. rt \<noteq> ''user'' \<longrightarrow> find_row (ww_store w') rt name = find_row (ww_store w) rt name)"
proof -
  have "r_name u = n"
    using find_row_key [OF assms(6)] by simp
  then have "LoginSubmit env r w = (WSession tok, w\<lparr>ww_store := snd (UpdateUserLastLogin n (ww_store w))\<rparr>)"
    using assms by (simp add: LoginSubmit_def onStore_def GetUser_healthy GenerateToken_def login_claims_def Let_def split: prod.splits)
  then show ?thesis
    using UpdateUserLastLogin_others [OF assms(1)] UpdateUserLastLogin_frame [OF assms(1)] by simp
qed

section \<open>Creating a cluster\<close>

lemma CreateTenant_healthy:
  assumes "faults s = []" "find_row s ''tenant'' name = None"
  shows "\<exists>x r t. CreateTenant name spec labels annotations s = (Inr x, t) \<and> find_row t ''tenant'' name = Some r \<and>
    dec_tenant_spec (r_spec r) = spec \<and> faults t = [] \<and> clock t = clock s"
proof -
  define r where "r = new_row ''tenant'' name (enc_tenant_spec spec)
      (enc_tenant_status ((dec_tenant_status JNull)\<lparr>tst_phase := TenantForming\<rparr>)) labels annotations s"
  let ?s = "publish ''ADDED'' MutationCreate ''tenant'' (meta_of r) (Some (r_spec r)) (Some (r_status r))
    (s\<lparr>resources := tbl_ins r (resources s)\<rparr>)"
  have "CreateTenant name spec labels annotations s = (Inr (row_tenant r), ?s)"
    using assms by (simp add: CreateTenant_def CreateResource_healthy Let_def r_def mk_tenant_def dec_enc_tenant_spec dec_enc_tenant_status)
  moreover have "find_row ?s ''tenant'' name = Some r"
    using assms(2) resource_table.get_ins [of "resources s" r "(''tenant'', name)"] by (simp add: r_def)
  moreover have "dec_tenant_spec (r_spec r) = spec" "faults ?s = []" "clock ?s = clock s"
    using assms(1) by (simp_all add: r_def dec_enc_tenant_spec)
  ultimately show ?thesis by blast
qed

lemma Save_Load:
  "faults s = [] \<Longrightarrow> LoadTenantSecrets name (snd (SaveTenantSecrets name raw s)) = (Inr (Some raw), snd (SaveTenantSecrets name raw s))"
  by (simp add: LoadTenantSecrets_def SaveTenantSecrets_def secret_table.upsert_get split: option.splits)

lemma ClusterCreate_healthy:
  assumes "faults (ww_store w) = []" "formValue r ''name'' = name" "validClusterName name" "find_row (ww_store w) ''tenant'' name = None"
    and "formValue r ''talosVersion'' = v" "v \<noteq> []" "GenerateSecretsBundle (av_lib (wn_api env)) v = Some b"
    and "SecretsBundleJSON (av_lib (wn_api env)) b = Some raw"
  shows "\<exists>w' t. ClusterCreateSubmit env r w = (WRedirect (''/clusters/'' @ name) True, w') \<and>
    faults (ww_store w') = [] \<and> clock (ww_store w') = clock (ww_store w) \<and>
    find_row (ww_store w') ''tenant'' name = Some t \<and> ts_controlPlaneEndpoint (dec_tenant_spec (r_spec t)) = [] \<and>
    LoadTenantSecrets name (ww_store w') = (Inr (Some raw), ww_store w')"
proof -
  let ?spec = "(dec_tenant_spec JNull)\<lparr>ts_kubernetesVersion := (if formValue r ''kubernetesVersion'' = [] then ''1.35.0''
    else formValue r ''kubernetesVersion''), ts_talosVersion := v\<rparr>"
  from CreateTenant_healthy [OF assms(1,4), of ?spec "[]" "[]"] obtain x t s where
    c: "CreateTenant name ?spec [] [] (ww_store w) = (Inr x, s)" "find_row s ''tenant'' name = Some t" "faults s = []"
      "clock s = clock (ww_store w)" "dec_tenant_spec (r_spec t) = ?spec"
    by blast
  have n: "name \<noteq> []"
    using assms(3) by (auto simp: validClusterName_def)
  let ?w = "w\<lparr>ww_store := snd (SaveTenantSecrets name raw s)\<rparr>"
  have "ClusterCreateSubmit env r w = (WRedirect (''/clusters/'' @ name) True, ?w)"
    using assms(2-) n c(1) by (simp add: ClusterCreateSubmit_def Let_def onStore_def split: prod.splits)
  moreover have "find_row (snd (SaveTenantSecrets name raw s)) ''tenant'' name = Some t"
    using c(2,3) by (simp add: SaveTenantSecrets_def)
  moreover have "clock (snd (SaveTenantSecrets name raw s)) = clock s"
    using c(3) by (simp add: SaveTenantSecrets_def)
  ultimately show ?thesis
    using Save_Load [OF c(3), of name raw] SaveTenantSecrets_frame [OF c(3)] c(4,5)
    by (auto simp: dec_tenant_spec_def json_simps)
qed

lemma credentialDownload_healthy:
  assumes "faults (ww_store w) = []" "name \<noteq> []" "find_row (ww_store w) ''tenant'' name = Some t"
    and "LoadTenantSecrets name (ww_store w) = (Inr (Some raw), ww_store w)" "UnmarshalSecretsBundle (av_lib (wn_api env)) raw = Some (Some b)"
    and "GenerateKubeconfig (av_lib (wn_api env)) name (ts_controlPlaneEndpoint (dec_tenant_spec (r_spec t))) (Some b) = Some text"
  shows "credentialDownload env name Kubeconfig w = (WDownload text, w)"
  using assms by (simp add: credentialDownload_def onStore_def GetTenant_healthy mk_tenant_def split: prod.splits)


section \<open>Examples\<close>

definition ex_view :: row where
  "ex_view = (ex_row ''user'' ''bob'' [])\<lparr>r_spec := JObj [(''role'', JStr ''view''), (''passwordHash'', JStr ''h'')]\<rparr>"

definition ex_web_auth :: auth_env where
  "ex_web_auth = ex_auth\<lparr>jwt_sign := (\<lambda>_ c. if c = login_claims ex_view 5 then Some ''eyJ'' else None),
     jwt_parse := (\<lambda>_ now t. if t \<noteq> ''eyJ'' then JwtInvalid
        else if now < cl_expiresAt (login_claims ex_view 5) * second then JwtOk (login_claims ex_view 5) else JwtExpired)\<rparr>"

definition ex_web :: web_env where
  "ex_web = \<lparr>wn_auth = ex_web_auth, wn_api = ex_api, wn_upgrades = False, wn_talos = None, wn_dmesg = (\<lambda>_. None), wn_backup = None,
     wn_yaml = (\<lambda>_. True), wn_ops = (\<lambda>_. Some 1), wn_json = (\<lambda>_. None), wn_minute = (\<lambda>_. None), wn_rfc = (\<lambda>_. None), wn_getenv = (\<lambda>_. [])\<rparr>"

definition ex_web_world :: "row list \<Rightarrow> web_world" where
  "ex_web_world rows = \<lparr>ww_store = ex_store\<lparr>resources := rows\<rparr>, ww_running = [], ww_calls = [], ww_files = [], ww_ioFaults = [], ww_audit = None\<rparr>"

definition ex_form :: "gomap \<Rightarrow> web_request" where
  "ex_form fs = \<lparr>wq_session = ''eyJ'', wq_form = fs, wq_formOk = True, wq_query = [], wq_reveal = None\<rparr>"

lemma ex_web_world_facts [simp]:
  "faults (ww_store (ex_web_world rows)) = []" "clock (ww_store (ex_web_world rows)) = 5" "resources (ww_store (ex_web_world rows)) = rows"
  "wn_auth ex_web = ex_web_auth" "wn_api ex_web = ex_api" "wq_session (ex_form fs) = ''eyJ''" "wq_form (ex_form fs) = fs"
  "wq_formOk (ex_form fs) = True" "wq_query (ex_form fs) = []" "av_lib ex_api = ex_lib"
  by (simp_all add: ex_web_world_def ex_web_def ex_form_def ex_api_def)

lemma ex_view_facts [simp]: "row_role ex_view = ''view''" "us_passwordHash (dec_user_spec (r_spec ex_view)) = ''h''"
  "r_type ex_view = ''user''" "r_name ex_view = ''bob''"
  by (simp_all add: ex_view_def dec_user_spec_def json_simps)

lemma ex_web_auth_sound: "jwt_sound ex_web_auth"
  by (auto simp: jwt_sound_def ex_web_auth_def ex_auth_def isSpace_def hasPrefix_def split: if_splits)


lemma ex_session: "AuthRequired ex_web (ex_form fs) (ex_web_world rows) = Some (''bob'', ''view'')"
  by (simp add: AuthRequired_def ValidateToken_def ex_web_auth_def ex_auth_def login_claims_def unixSeconds_def)

theorem web_roles_witness:
  "AuthRequired ex_web (ex_form []) (ex_web_world []) = Some (''bob'', ''view'') \<and>
   snd (webUI ex_web (\<lambda>_. None) (ToClusters (RClusterDelete ''c'')) (ex_form []) (ex_web_world [])) = ex_web_world [] \<and>
   webUI ex_web (\<lambda>_. None) (ToSettings RUserCreate) (ex_form []) (ex_web_world []) = (WStatus 403, ex_web_world [])"
  using web_roles [where env = ex_web and r = "ex_form []" and w = "ex_web_world []" and parse = "\<lambda>_. None" and rt = "ToClusters (RClusterDelete ''c'')"]
    web_roles [where env = ex_web and r = "ex_form []" and w = "ex_web_world []" and parse = "\<lambda>_. None" and rt = "ToSettings RUserCreate"]
  by (simp add: ex_session canMutate_def isAdmin_def)

end
