(* ===== verification/Web_Flows.thy ===== *)
theory Web_Flows
  imports Web_Props Applier_Props "HOL-Library.Multiset"
begin

text \<open>
  What the pages of the web interface do to the other components: scaling a node group and the renderer, kernel
  arguments and the patches of a tenant, live events and the two buses.
\<close>

section \<open>Scaling a node group\<close>

lemma loadNodeGroups_mem:
  assumes "loadNodeGroups tn s = (Inr ngs, t)" "x \<in> set ngs"
  shows "\<exists>r y. r \<in> set (resources s) \<and> r_type r = ''nodegroup'' \<and> r_name r = ng_name x \<and> dec_ng_spec_json (r_spec r) = Some y \<and>
    ng_providerClass x = nsj_providerClass y"
proof -
  obtain items n where l: "ListResources ''nodegroup'' (noOptions\<lparr>lo_labelSelector := tenantSelector tn\<rparr>) s = (Inr (items, n), t)"
    and m: "x \<in> set (List.map_filter (\<lambda>(md, spec, status). map_option (\<lambda>x. \<lparr>ng_name = md_name md, ng_role = nsj_role x, ng_count = nsj_count x,
                ng_providerClass = nsj_providerClass x, ng_providerConfig = nsj_providerConfig x,
                ng_talosVersion = nsj_talosVersion x, ng_configPatches = []\<rparr>) (dec_ng_spec_json spec)) items)"
    using assms by (auto simp: loadNodeGroups_def ListTypedByTenant_def ListTyped_def split: prod.splits sum.splits)
  from m obtain md spec status y where i: "(md, spec, status) \<in> set items" "dec_ng_spec_json spec = Some y"
    "ng_name x = md_name md" "ng_providerClass x = nsj_providerClass y"
    by (auto simp: List.map_filter_def split: option.splits)
  then obtain r where "r \<in> set (listed ''nodegroup'' (tenantSelector tn) s)" "(md, spec, status) = (meta_of r, r_spec r, r_status r)"
    using ListResources_Inr(1) [OF l] set_page by fastforce
  then show ?thesis
    using i(2-4) by (auto simp: listed_iff)
qed

lemma tbl_upd_at: "q \<in> set (tbl_upd key k f rows) \<Longrightarrow> (\<And>x. key (f x) = key x) \<Longrightarrow> key q = k \<Longrightarrow> \<exists>x. q = f x"
  by (auto simp: tbl_upd_def split: if_splits)

lemma ww_store_upd: "ww_store (w\<lparr>ww_store := t\<rparr>) = t"
  by simp

lemma scaledSpec_fields:
  "dec_node_group_spec (scaledSpec spec k) = (dec_node_group_spec spec)\<lparr>ng_count := k, ng_providerClass := [], ng_providerConfig := None,
     ng_talosVersion := [], ng_configPatches := []\<rparr>"
  "dec_ng_spec_json (scaledSpec spec k) = Some y \<Longrightarrow> nsj_providerClass y = []"
  by (auto simp: scaledSpec_def dec_node_group_spec_def dec_ng_spec_json_def json_simps split: if_splits)

text \<open>
  C35: scaling a node group in the web interface takes its provider away. On a healthy store a caller who may edit,
  with a count from 0 to 100, gets the redirect that reports success; afterwards the stored spec has the new count, the
  old name and role and nothing else: provider class and configuration, Talos version and patch references are gone.
  What the applier then loads of this group belongs to no provider, so no renderer renders it.
\<close>

theorem scale_unrenders:
  assumes "faults (ww_store w) = []" "canMutate c" "tn \<noteq> []" "ng \<noteq> []" "atoi (formValue r ''count'') = Some k" "0 \<le> k" "k \<le> 100"
    and "find_row (ww_store w) ''nodegroup'' ng = Some row" "mget (r_labels row) tenantLabel = tn"
  shows "\<exists>w' row'. NodeGroupScale c tn ng r w = (WRedirect (''/clusters/'' @ tn) True, w') \<and>
    find_row (ww_store w') ''nodegroup'' ng = Some row' \<and> r_labels row' = r_labels row \<and>
    dec_node_group_spec (r_spec row') = (dec_node_group_spec (r_spec row))\<lparr>ng_count := k, ng_providerClass := [],
      ng_providerConfig := None, ng_talosVersion := [], ng_configPatches := []\<rparr> \<and>
    (\<exists>ngs. loadNodeGroups tn (ww_store w') = (Inr ngs, ww_store w') \<and>
       (\<forall>x\<in>set ngs. ng_name x = ng \<longrightarrow> (\<forall>pt. pt \<noteq> [] \<longrightarrow> x \<notin> set (filterByProvider ngs pt))))"
proof -
  let ?s = "ww_store w" and ?f = "\<lambda>x. x\<lparr>r_spec := scaledSpec (r_spec row) k, r_labels := r_labels row, r_annotations := r_annotations row,
    r_updated := clock (ww_store w), r_version := r_version x + 1\<rparr>"
  let ?t = "publish ''MODIFIED'' MutationSpec ''nodegroup'' (meta_of (?f row)) (Some (scaledSpec (r_spec row) k)) (Some (r_status row))
    (upd_row ''nodegroup'' ng ?f ?s)"
  have n: "r_name row = ng"
    using find_row_key [OF assms(8)] by simp
  have sc: "NodeGroupScale c tn ng r w = (WRedirect (''/clusters/'' @ tn) True, w\<lparr>ww_store := ?t\<rparr>)"
    using assms n by (simp add: NodeGroupScale_def onStore_def GetResource_healthy UpdateResource_healthy Let_def split: prod.splits)
  have row: "find_row ?t ''nodegroup'' ng = Some (?f row)"
    using assms(8) by (simp add: resource_table.get_upd)
  have healthy: "faults ?t = []"
    using assms(1) by simp
  then obtain ngs where l: "loadNodeGroups tn ?t = (Inr ngs, ?t)"
    by (simp add: loadNodeGroups_def ListTypedByTenant_def ListTyped_def ListResources_healthy)
  have "ng_providerClass x = []" if x: "x \<in> set ngs" "ng_name x = ng" for x
  proof -
    from loadNodeGroups_mem [OF l x(1)] obtain q y where q: "q \<in> set (resources ?t)" "r_type q = ''nodegroup''" "r_name q = ng"
      "dec_ng_spec_json (r_spec q) = Some y" "ng_providerClass x = nsj_providerClass y"
      using x(2) by auto
    have "q \<in> set (tbl_upd row_key (''nodegroup'', ng) ?f (resources ?s))"
      using q(1) by simp
    from tbl_upd_at [OF this] q(2,3) obtain z where "q = ?f z"
      by auto
    then have "r_spec q = scaledSpec (r_spec row) k"
      by simp
    then show ?thesis
      using q(4,5) scaledSpec_fields(2) by auto
  qed
  then have "\<forall>x\<in>set ngs. ng_name x = ng \<longrightarrow> (\<forall>pt. pt \<noteq> [] \<longrightarrow> x \<notin> set (filterByProvider ngs pt))"
    by (auto simp: filterByProvider_def providerTypeOf_def Let_def)
  then have "\<exists>ngs. loadNodeGroups tn (ww_store (w\<lparr>ww_store := ?t\<rparr>)) = (Inr ngs, ww_store (w\<lparr>ww_store := ?t\<rparr>)) \<and>
       (\<forall>x\<in>set ngs. ng_name x = ng \<longrightarrow> (\<forall>pt. pt \<noteq> [] \<longrightarrow> x \<notin> set (filterByProvider ngs pt)))"
    unfolding ww_store_upd using l by blast
  moreover have "dec_node_group_spec (r_spec (?f row)) = (dec_node_group_spec (r_spec row))\<lparr>ng_count := k, ng_providerClass := [],
      ng_providerConfig := None, ng_talosVersion := [], ng_configPatches := []\<rparr>" "r_labels (?f row) = r_labels row"
    by (simp_all add: scaledSpec_fields(1))
  moreover have "find_row (ww_store (w\<lparr>ww_store := ?t\<rparr>)) ''nodegroup'' ng = Some (?f row)"
    unfolding ww_store_upd by (rule row)
  ultimately show ?thesis
    using sc by blast
qed

definition ex_group_row :: row where
  "ex_group_row = (ex_row ''nodegroup'' ''workers'' [(tenantLabel, ''acme'')])\<lparr>r_spec := enc_node_group_spec \<lparr>ng_name = ''workers'',
     ng_role = ''worker'', ng_count = 2, ng_providerClass = ''hetzner:cx22'', ng_providerConfig = None, ng_talosVersion = [], ng_configPatches = []\<rparr>\<rparr>"

theorem scale_unrenders_witness:
  "ng_providerClass (dec_node_group_spec (r_spec ex_group_row)) = ''hetzner:cx22'' \<and>
   (\<exists>w' row' ngs. NodeGroupScale (''ann'', ''edit'') ''acme'' ''workers'' (ex_form [(''count'', ''3'')]) (ex_web_world [ex_group_row]) =
        (WRedirect ''/clusters/acme'' True :: unit web_reply, w') \<and>
      find_row (ww_store w') ''nodegroup'' ''workers'' = Some row' \<and> ng_count (dec_node_group_spec (r_spec row')) = 3 \<and>
      ng_providerClass (dec_node_group_spec (r_spec row')) = [] \<and> loadNodeGroups ''acme'' (ww_store w') = (Inr ngs, ww_store w') \<and>
      (\<forall>x\<in>set ngs. ng_name x = ''workers'' \<longrightarrow> x \<notin> set (filterByProvider ngs ''hetzner'')))"
proof -
  have r: "find_row (ww_store (ex_web_world [ex_group_row])) ''nodegroup'' ''workers'' = Some ex_group_row"
    by (simp add: ex_group_row_def tbl_get_def)
  have k: "atoi (formValue (ex_form [(''count'', ''3'')]) ''count'') = Some 3"
    by (simp add: mget_def) code_simp
  have c: "canMutate (''ann'', ''edit'')" "mget (r_labels ex_group_row) tenantLabel = ''acme''"
    by (simp_all add: canMutate_def ex_group_row_def mget_def)
  have p: "ng_providerClass (dec_node_group_spec (r_spec ex_group_row)) = ''hetzner:cx22''"
    by (simp add: ex_group_row_def dec_enc_node_group_spec)
  from scale_unrenders [OF _ c(1) _ _ k _ _ r c(2)] show ?thesis
    using p by fastforce
qed

section \<open>Kernel arguments\<close>

abbreviation kernelArgs :: "row \<Rightarrow> bool" where
  "kernelArgs r \<equiv> mget (r_labels r) ''rezuscloud.io/kind'' = ''kernel-args''"

abbreviation patchesOf :: "string \<Rightarrow> store \<Rightarrow> row list" where
  "patchesOf tn s \<equiv> sort_key r_name (listed ''configpatch'' (tenantSelector tn) s)"

lemma map_filter_Some: "List.map_filter (\<lambda>x. Some (f x)) xs = map f xs"
  by (induction xs) (simp_all add: List.map_filter_simps)

lemma findKernelArgsPatch_healthy:
  assumes "faults s = []"
  shows "findKernelArgsPatch tn s =
    ((case find kernelArgs (patchesOf tn s) of None \<Rightarrow> ([], []) | Some r \<Rightarrow> (ps_patch (dec_patch_spec (r_spec r)), r_name r)), s)"
proof -
  have "find (\<lambda>(md, _). mget (md_labels md) ''rezuscloud.io/kind'' = ''kernel-args'') (map (\<lambda>r. (meta_of r, dec_patch_spec (r_spec r))) rs) =
      map_option (\<lambda>r. (meta_of r, dec_patch_spec (r_spec r))) (find kernelArgs rs)" for rs
    by (induction rs) simp_all
  then show ?thesis
    using assms by (simp add: findKernelArgsPatch_def ListTypedByTenant_def ListTyped_def ListResources_healthy okList_def map_filter_Some
        case_prod_unfold comp_def split: option.splits)
qed

text \<open>What a save with acceptable arguments for a machine of a cluster does on a healthy store.\<close>

definition kernelPatch :: "string list \<Rightarrow> patch_spec" where
  "kernelPatch ls = \<lparr>ps_patch = buildKernelArgsPatch ls, ps_format = ''strategic'', ps_scope = [], ps_targetMachine = [], ps_targetRole = [], ps_enabled = True\<rparr>"

definition saveable :: "auth_ctx \<Rightarrow> string \<Rightarrow> string \<Rightarrow> string list \<Rightarrow> web_request \<Rightarrow> store \<Rightarrow> bool" where
  "saveable c ident cluster ls r s \<longleftrightarrow> canMutate c \<and> ident \<noteq> [] \<and> cluster \<noteq> [] \<and> wq_formOk r \<and> trimSpace (formValue r ''args'') \<noteq> [] \<and>
     ls = splitOn (char_of (10 :: nat)) (trimSpace (formValue r ''args'')) \<and> kernelArgsOk ls \<and> faults s = [] \<and>
     (\<exists>m. find_row s ''machine'' ident = Some m \<and> mget (r_labels m) tenantLabel = cluster)"

lemma KernelArgsSave_healthy:
  assumes "saveable c ident cluster ls r (ww_store w)"
  shows "MachineKernelArgsSave c ident r w =
    (let page = ''/machines/'' @ ident @ ''/kernel-args''; s = ww_store w in
     case find kernelArgs (patchesOf cluster s) of
       Some q \<Rightarrow>
         if r_name q \<noteq> [] then
           (case find_row s ''configpatch'' (r_name q) of
              None \<Rightarrow> (WStatus 500, w)
            | Some p \<Rightarrow>
                (case UpdateResource ''configpatch'' (r_name q) (r_version p) (enc_patch_spec ((dec_patch_spec (r_spec p))\<lparr>ps_patch := buildKernelArgsPatch ls\<rparr>)) [] [] s of
                   (x, s) \<Rightarrow> (if isl x then WStatus 500 else WRedirect page True, w\<lparr>ww_store := s\<rparr>)))
         else
           (case CreateResource ''configpatch'' (kernelPatchName cluster) (enc_patch_spec (kernelPatch ls)) JNull
                   [(tenantLabel, cluster), (''rezuscloud.io/kind'', ''kernel-args'')] [] s of
              (x, s) \<Rightarrow> (if isl x then WStatus 500 else WRedirect page True, w\<lparr>ww_store := s\<rparr>))
     | None \<Rightarrow>
         (case CreateResource ''configpatch'' (kernelPatchName cluster) (enc_patch_spec (kernelPatch ls)) JNull
                 [(tenantLabel, cluster), (''rezuscloud.io/kind'', ''kernel-args'')] [] s of
            (x, s) \<Rightarrow> (if isl x then WStatus 500 else WRedirect page True, w\<lparr>ww_store := s\<rparr>)))"
proof -
  from assms obtain m where m: "find_row (ww_store w) ''machine'' ident = Some m" "mget (r_labels m) tenantLabel = cluster"
    and a: "canMutate c" "ident \<noteq> []" "cluster \<noteq> []" "wq_formOk r" "trimSpace (formValue r ''args'') \<noteq> []"
      "splitOn (char_of (10 :: nat)) (trimSpace (formValue r ''args'')) = ls" "kernelArgsOk ls" "faults (ww_store w) = []"
    unfolding saveable_def by blast
  have g: "onStore (GetMachine ident) w = (Inr (Some (mk_machine (meta_of m, r_spec m, r_status m))), w)"
    using a(8) m(1) by (simp add: onStore_def GetMachine_def GetResource_healthy)
  have f: "onStore (findKernelArgsPatch cluster) w = ((case find kernelArgs (patchesOf cluster (ww_store w)) of None \<Rightarrow> ([], [])
      | Some r \<Rightarrow> (ps_patch (dec_patch_spec (r_spec r)), r_name r)), w)"
    using a(8) by (simp add: onStore_def findKernelArgsPatch_healthy)
  show ?thesis
    unfolding MachineKernelArgsSave_def g prod.case okOpt_def sum.case option.case Let_def
    using a m(2) f
    by (auto simp: machineCluster_def mk_machine_def onStore_def GetResource_healthy kernelPatch_def split: option.splits prod.splits sum.splits)
qed

lemma tbl_upd_fresh: "tbl_get key rows k = None \<Longrightarrow> key p = k \<Longrightarrow> tbl_upd key k f (rows @ [p]) = rows @ [f p]"
  by (simp add: tbl_upd_def tbl_get_def find_None_iff map_idI)

lemma find_append_None: "find P xs = None \<Longrightarrow> find P (xs @ ys) = find P ys"
  by (induction xs) (auto split: if_splits)

abbreviation kernelSaved :: "string \<Rightarrow> machine_page web_reply" where
  "kernelSaved ident \<equiv> WRedirect (''/machines/'' @ ident @ ''/kernel-args'') True"

text \<open>The rows the saves insert and update: the second is not the tenant's any more.\<close>

lemma kernel_first:
  assumes "saveable c ident cluster ls r (ww_store w)" "find kernelArgs (patchesOf cluster (ww_store w)) = None"
    and "find_row (ww_store w) ''configpatch'' (kernelPatchName cluster) = None"
  shows "\<exists>w' p. MachineKernelArgsSave c ident r w = (kernelSaved ident, w') \<and>
    resources (ww_store w') = resources (ww_store w) @ [p] \<and> row_key p = (''configpatch'', kernelPatchName cluster) \<and> r_deleted p = None \<and>
    r_labels p = [(tenantLabel, cluster), (''rezuscloud.io/kind'', ''kernel-args'')] \<and> r_spec p = enc_patch_spec (kernelPatch ls) \<and>
    faults (ww_store w') = [] \<and> engine (ww_store w') = engine (ww_store w)"
proof -
  have "faults (ww_store w) = []"
    using assms(1) by (simp add: saveable_def)
  then show ?thesis
    unfolding KernelArgsSave_healthy [OF assms(1)] Let_def assms(2)
    using assms(3) by (simp add: CreateResource_healthy Let_def tbl_ins_def)
qed

lemma kernel_second:
  assumes "saveable c ident cluster ls r (ww_store w)" "resources (ww_store w) = rows @ [p]"
    and "tbl_get row_key rows (row_key p) = None" "row_key p = (''configpatch'', kernelPatchName cluster)"
    and "find kernelArgs (patchesOf cluster (ww_store w)) = Some p"
  shows "\<exists>w' q. MachineKernelArgsSave c ident r w = (kernelSaved ident, w') \<and>
    resources (ww_store w') = rows @ [q] \<and> row_key q = row_key p \<and> r_deleted q = r_deleted p \<and> r_labels q = [] \<and>
    r_spec q = enc_patch_spec ((dec_patch_spec (r_spec p))\<lparr>ps_patch := buildKernelArgsPatch ls\<rparr>) \<and>
    faults (ww_store w') = [] \<and> engine (ww_store w') = engine (ww_store w)"
proof -
  have h: "faults (ww_store w) = []"
    using assms(1) by (simp add: saveable_def)
  have f: "find_row (ww_store w) ''configpatch'' (kernelPatchName cluster) = Some p"
    using assms(2-4) by (simp add: tbl_get_def find_append_None)
  have u: "tbl_upd row_key (''configpatch'', kernelPatchName cluster) g (rows @ [p]) = rows @ [g p]" for g
    using tbl_upd_fresh [OF assms(3) refl] assms(4) by simp
  have n: "r_name p = kernelPatchName cluster" "kernelPatchName cluster \<noteq> []"
    using assms(4) by simp_all
  show ?thesis
    unfolding KernelArgsSave_healthy [OF assms(1)] Let_def assms(5)
    using f n h u assms(4) by (simp add: UpdateResource_healthy Let_def assms(2))
qed

lemma kernel_third:
  assumes "saveable c ident cluster ls r (ww_store w)" "find kernelArgs (patchesOf cluster (ww_store w)) = None"
    and "find_row (ww_store w) ''configpatch'' (kernelPatchName cluster) \<noteq> None"
  shows "MachineKernelArgsSave c ident r w = (WStatus 500, w)"
proof -
  have "faults (ww_store w) = []"
    using assms(1) by (simp add: saveable_def)
  then show ?thesis
    unfolding KernelArgsSave_healthy [OF assms(1)] Let_def assms(2)
    using assms(3) by (auto simp: CreateResource_healthy Let_def)
qed

text \<open>Appending a patch row: the tenant's patches gain it exactly when it carries the tenant's label.\<close>

lemma listed_append:
  assumes "resources t = resources s @ [p]" "engine t = engine s" "extract_ok (engine s)" "r_type p = ''configpatch''" "r_deleted p = None"
  shows "listed ''configpatch'' (tenantSelector tn) t = listed ''configpatch'' (tenantSelector tn) s @ (if has_tenant tn (r_labels p) then [p] else [])"
  using assms selects_tenant [OF assms(3)] by (simp add: listed_def)

lemma saveable_append:
  assumes "saveable c ident cluster ls r s" "resources t = resources s @ [p]" "r_type p = ''configpatch''" "faults t = []"
  shows "saveable c ident cluster ls r t"
proof -
  have "find P (xs @ ys) = Some x" if "find P xs = Some x" for P :: "row \<Rightarrow> bool" and xs ys x
    using that by (induction xs) (auto split: if_splits)
  then show ?thesis
    using assms unfolding saveable_def by (auto simp: tbl_get_def)
qed

lemma ok_kernelPatch: "ok_patch_spec (enc_patch_spec (kernelPatch ls))"
  by (simp add: ok_patch_spec_def enc_patch_spec_def kernelPatch_def) code_simp

lemma dec_kernelPatch: "dec_patch_spec (enc_patch_spec (kernelPatch ls)) = kernelPatch ls"
  by (simp add: dec_patch_spec_def enc_patch_spec_def kernelPatch_def json_simps)

lemma kernelPatch_resolved:
  assumes "faults s = []" "p \<in> set (listed ''configpatch'' (tenantSelector tn) s)" "r_spec p = enc_patch_spec (kernelPatch ls)"
  shows "\<exists>ps. ResolvePatches tn role machine s = (Inr ps, s) \<and> buildKernelArgsPatch ls \<in> set ps"
proof -
  have "row_scoped role machine p = Some \<lparr>sc_name = r_name p, sc_rank = patch_rank (kernelPatch ls), sc_patches = buildKernelArgsPatch ls\<rparr>"
    unfolding row_scoped_Some assms(3) dec_kernelPatch using ok_kernelPatch by (simp add: patch_applies_def kernelPatch_def)
  then show ?thesis
    using assms(2) unfolding ResolvePatches_healthy [OF assms(1)]
    by (force simp: List.map_filter_def)
qed

text \<open>
  kernel arguments saved twice are lost. On a healthy store, for a machine of a cluster that has no such patch yet,
  the first save succeeds and every machine of the cluster gets the patch. The second save, with other arguments,
  reports success too, but writes the patch without its labels: from then on it belongs to no tenant, and the patches of
  every machine and role are those from before the first save. Every later save answers 500 and changes nothing.
\<close>

theorem kernel_args_detach:
  assumes "saveable c ident cluster ls1 r1 (ww_store w)" "saveable c ident cluster ls2 r2 (ww_store w)" "saveable c ident cluster ls3 r3 (ww_store w)"
    and "extract_ok (engine (ww_store w))" "find kernelArgs (patchesOf cluster (ww_store w)) = None"
    and "find_row (ww_store w) ''configpatch'' (kernelPatchName cluster) = None"
  shows "\<exists>w1 w2. MachineKernelArgsSave c ident r1 w = (kernelSaved ident, w1) \<and>
    MachineKernelArgsSave c ident r2 w1 = (kernelSaved ident, w2) \<and>
    MachineKernelArgsSave c ident r3 w2 = (WStatus 500 :: machine_page web_reply, w2) \<and>
    (\<forall>role machine. \<exists>ps. ResolvePatches cluster role machine (ww_store w1) = (Inr ps, ww_store w1) \<and> buildKernelArgsPatch ls1 \<in> set ps) \<and>
    (\<forall>role machine. fst (ResolvePatches cluster role machine (ww_store w2)) = fst (ResolvePatches cluster role machine (ww_store w)))"
proof -
  let ?s = "ww_store w" and ?key = "(''configpatch'', kernelPatchName cluster)"
  have h: "faults ?s = []"
    using assms(1) by (simp add: saveable_def)
  from kernel_first [OF assms(1,5,6)] obtain w1 p where
    1: "MachineKernelArgsSave c ident r1 w = (kernelSaved ident, w1)"
      "resources (ww_store w1) = resources ?s @ [p]" "row_key p = ?key" "r_deleted p = None"
      "r_labels p = [(tenantLabel, cluster), (''rezuscloud.io/kind'', ''kernel-args'')]" "r_spec p = enc_patch_spec (kernelPatch ls1)"
      "faults (ww_store w1) = []" "engine (ww_store w1) = engine ?s"
    by blast
  have p: "r_type p = ''configpatch''" "has_tenant cluster (r_labels p)" "kernelArgs p"
    using 1(3,5) by (simp_all add: has_tenant_def mget_def)
  have l1: "listed ''configpatch'' (tenantSelector cluster) (ww_store w1) = listed ''configpatch'' (tenantSelector cluster) ?s @ [p]"
    using listed_append [OF 1(2,8) assms(4) p(1) 1(4)] p(2) by simp
  have "find kernelArgs (patchesOf cluster (ww_store w1)) = Some p"
    using assms(5) p(3) unfolding l1 by (intro find_only) (auto simp: find_None_iff)
  from kernel_second [OF saveable_append [OF assms(2) 1(2) p(1) 1(7)] 1(2) _ 1(3) this] obtain w2 q where
    2: "MachineKernelArgsSave c ident r2 w1 = (kernelSaved ident, w2)"
      "resources (ww_store w2) = resources ?s @ [q]" "row_key q = ?key" "r_deleted q = None" "r_labels q = []"
      "faults (ww_store w2) = []" "engine (ww_store w2) = engine ?s"
    using assms(6) 1(3,4,8) by auto
  have q: "r_type q = ''configpatch''" "\<not> has_tenant cluster (r_labels q)"
    using 2(3,5) by (simp_all add: has_tenant_def)
  have l2: "listed ''configpatch'' (tenantSelector cluster) (ww_store w2) = listed ''configpatch'' (tenantSelector cluster) ?s"
    using listed_append [OF 2(2,7) assms(4) q(1) 2(4)] q(2) by simp
  have "find_row (ww_store w2) ''configpatch'' (kernelPatchName cluster) \<noteq> None"
    using 2(2,3) by (auto simp: tbl_get_def find_None_iff)
  with kernel_third [OF saveable_append [OF assms(3) 2(2) q(1) 2(6)]] have 3: "MachineKernelArgsSave c ident r3 w2 = (WStatus 500 :: machine_page web_reply, w2)"
    unfolding l2 using assms(5) by simp
  have "\<forall>role machine. \<exists>ps. ResolvePatches cluster role machine (ww_store w1) = (Inr ps, ww_store w1) \<and> buildKernelArgsPatch ls1 \<in> set ps"
    using kernelPatch_resolved [OF 1(7) _ 1(6), of cluster] unfolding l1 by simp
  moreover have "fst (ResolvePatches cluster role machine (ww_store w2)) = fst (ResolvePatches cluster role machine ?s)" for role machine
    unfolding ResolvePatches_healthy [OF 2(6)] ResolvePatches_healthy [OF h] l2 by simp
  ultimately show ?thesis
    using 1(1) 2(1) 3 by blast
qed

theorem kernel_args_detach_witness:
  "\<exists>w1 w2. MachineKernelArgsSave (''ann'', ''edit'') ''m1'' (ex_form [(''args'', ''ip=dhcp'')]) (ex_web_world [ex_row ''machine'' ''m1'' [(tenantLabel, ''acme'')]]) =
      (kernelSaved ''m1'', w1) \<and>
    MachineKernelArgsSave (''ann'', ''edit'') ''m1'' (ex_form [(''args'', ''reboot=k'')]) w1 = (kernelSaved ''m1'', w2) \<and>
    MachineKernelArgsSave (''ann'', ''edit'') ''m1'' (ex_form [(''args'', ''ip=dhcp'')]) w2 = (WStatus 500 :: machine_page web_reply, w2)"
proof -
  let ?w = "ex_web_world [ex_row ''machine'' ''m1'' [(tenantLabel, ''acme'')]]"
  have a: "trimSpace ''ip=dhcp'' = ''ip=dhcp''" "splitOn (char_of (10 :: nat)) ''ip=dhcp'' = [''ip=dhcp'']" "kernelArgsOk [''ip=dhcp'']"
    "trimSpace ''reboot=k'' = ''reboot=k''" "splitOn (char_of (10 :: nat)) ''reboot=k'' = [''reboot=k'']" "kernelArgsOk [''reboot=k'']"
    by code_simp+
  have s: "saveable (''ann'', ''edit'') ''m1'' ''acme'' [''ip=dhcp''] (ex_form [(''args'', ''ip=dhcp'')]) (ww_store ?w)"
    "saveable (''ann'', ''edit'') ''m1'' ''acme'' [''reboot=k''] (ex_form [(''args'', ''reboot=k'')]) (ww_store ?w)"
    using a by (simp_all add: saveable_def canMutate_def mget_def tbl_get_def)
  have e: "extract_ok (engine (ww_store ?w))"
    by (simp add: ex_web_world_def ex_engine_ok)
  have l: "find kernelArgs (patchesOf ''acme'' (ww_store ?w)) = None" "find_row (ww_store ?w) ''configpatch'' (kernelPatchName ''acme'') = None"
    by (simp_all add: listed_def tbl_get_def)
  show ?thesis
    using kernel_args_detach [OF s(1) s(2) s(1) e l] by blast
qed

section \<open>Live events\<close>

lemma jsonEvent_idem: "jsonEvent (jsonEvent e) = jsonEvent e"
proof -
  have "jsonMetadata (jsonMetadata m) = jsonMetadata m" for m by (cases m) simp_all
  then have "jsonObject (jsonObject x) = jsonObject x" for x by (cases x) simp_all
  then show ?thesis by (simp add: jsonEvent_def)
qed

lemma forward_json: "forwardTenant name (jsonEvent e)" "forwardMachine name (jsonEvent e)"
proof -
  have m: "case jsonMetadata m of MdStruct md \<Rightarrow> P md | MdMap _ \<Rightarrow> True" for m P
    by (cases m) simp_all
  show "forwardTenant name (jsonEvent e)"
    by (cases "we_object e") (simp_all add: forwardTenant_def jsonEvent_def m)
  show "forwardMachine name (jsonEvent e)"
    by (cases "we_object e") (simp_all add: forwardMachine_def jsonEvent_def m)
qed

text \<open>The two subscriptions of the page: what has arrived in their channels after some events of the store.\<close>

lemma nats_two:
  assumes "nats_Subscribe rt b = (i, b1)" "nats_Subscribe rt' b1 = (j, b2)"
    and "length (filter (\<lambda>ev. ev_resourceType ev = rt) evs) \<le> 64" "length (filter (\<lambda>ev. ev_resourceType ev = rt') evs) \<le> 64"
  shows "nats_chan (fold (\<lambda>(t, e). nats_Publish t e) (store_published evs) b2) i =
      map (jsonEvent \<circ> adapterEvent) (filter (\<lambda>ev. ev_resourceType ev = rt) evs)"
    and "nats_chan (fold (\<lambda>(t, e). nats_Publish t e) (store_published evs) b2) j =
      map (jsonEvent \<circ> adapterEvent) (filter (\<lambda>ev. ev_resourceType ev = rt') evs)"
proof -
  have i: "nats_chan b2 i = []" "nats_listens b2 i t \<longleftrightarrow> t = rt" for t
    using assms(1,2) by (auto simp: nats_Subscribe_def nats_chan_def nats_listens_def nth_append)
  have j: "nats_chan b2 j = []" "nats_listens b2 j t \<longleftrightarrow> t = rt'" for t
    using nats.subscribed [OF assms(2)] by auto
  show "nats_chan (fold (\<lambda>(t, e). nats_Publish t e) (store_published evs) b2) i =
      map (jsonEvent \<circ> adapterEvent) (filter (\<lambda>ev. ev_resourceType ev = rt) evs)"
    using nats.delivered [of b2 i rt "store_published evs"] i assms(3) by (simp add: filter_published comp_def)
  show "nats_chan (fold (\<lambda>(t, e). nats_Publish t e) (store_published evs) b2) j =
      map (jsonEvent \<circ> adapterEvent) (filter (\<lambda>ev. ev_resourceType ev = rt') evs)"
    using nats.delivered [of b2 j rt' "store_published evs"] j assms(4) by (simp add: filter_published comp_def)
qed

lemma mset_channels:
  "mset (map snd xs) = mset (map snd (filter (\<lambda>(ch, _). ch = TenantChan) xs)) + mset (map snd (filter (\<lambda>(ch, _). ch = MachineChan) xs))"
proof (induction xs)
  case (Cons x xs)
  then show ?case by (cases x; cases "fst x") auto
qed simp

lemma mset_two_types:
  "rt \<noteq> rt' \<Longrightarrow> mset (map f (filter (\<lambda>ev. ev_resourceType ev = rt) evs)) + mset (map f (filter (\<lambda>ev. ev_resourceType ev = rt') evs)) =
     mset (map f (filter (\<lambda>ev. ev_resourceType ev \<in> {rt, rt'}) evs))"
  by (induction evs) auto

text \<open>
  C36: on the bus the program runs with, the event stream of a cluster's page shows every cluster. Whoever has a session
  and opens the page of any name, existing or not, receives all tenant and machine events of the store, of all tenants,
  with the objects they carry, in whatever order the two subscriptions are read: the filter tests for a struct that
  events no longer are after the transport. At most 64 events of each kind wait in a channel.
\<close>

theorem cluster_events_leak:
  assumes "AuthRequired env r w = Some c" "av_bus (wn_api env)" "name \<noteq> []"
    and "nats_Subscribe ''tenant'' b = (i, b1)" "nats_Subscribe ''machine'' b1 = (j, b2)"
    and "length (filter (\<lambda>ev. ev_resourceType ev = ''tenant'') evs) \<le> 64" "length (filter (\<lambda>ev. ev_resourceType ev = ''machine'') evs) \<le> 64"
    and "map snd (filter (\<lambda>(ch, _). ch = TenantChan) received) = nats_chan (fold (\<lambda>(t, e). nats_Publish t e) (store_published evs) b2) i"
    and "map snd (filter (\<lambda>(ch, _). ch = MachineChan) received) = nats_chan (fold (\<lambda>(t, e). nats_Publish t e) (store_published evs) b2) j"
  shows "\<exists>frames. webUI env parse (ToClusters (RClusterEvents name received)) r w = (WStream (readyEvent name # frames), w) \<and>
    mset frames = mset (map (jsonEvent \<circ> adapterEvent) (filter (\<lambda>ev. ev_resourceType ev \<in> {''tenant'', ''machine''}) evs))"
proof -
  note chans = nats_two [OF assms(4-7)]
  let ?all = "map (jsonEvent \<circ> adapterEvent) (filter (\<lambda>ev. ev_resourceType ev \<in> {''tenant'', ''machine''}) evs)"
  have m: "mset (map snd received) = mset ?all"
    unfolding mset_channels [of received] assms(8,9) chans by (rule mset_two_types) simp
  then have "set (map snd received) = set ?all"
    by (metis set_mset_mset)
  then have "\<forall>e\<in>set (map snd received). \<exists>x. e = jsonEvent x"
    by fastforce
  then have j: "jsonEvent e = e" "forwardTenant name e" "forwardMachine name e" if "(ch, e) \<in> set received" for ch e
    using that jsonEvent_idem forward_json by (metis image_eqI list.set_map snd_conv)+
  have "map (jsonEvent \<circ> snd) received = map snd received"
    using j(1) by auto
  moreover have "filter (\<lambda>(ch, e). case ch of TenantChan \<Rightarrow> forwardTenant name e | MachineChan \<Rightarrow> forwardMachine name e) received = received"
    using j(2,3) by (auto simp: filter_id_conv split: cluster_channel.splits)
  ultimately have "webUI env parse (ToClusters (RClusterEvents name received)) r w = (WStream (readyEvent name # map snd received), w)"
    using assms(1-3) by (simp add: webUI_def ClusterEvents_def)
  with m show ?thesis
    by blast
qed

definition ex_other :: resource_event where
  "ex_other = ex_watch_event\<lparr>ev_metadata := (ev_metadata ex_watch_event)\<lparr>md_labels := [(tenantLabel, ''other'')]\<rparr>\<rparr>"

theorem cluster_events_leak_witness:
  "\<exists>frames. webUI ex_web (\<lambda>_. None) (ToClusters (RClusterEvents ''acme'' [(MachineChan, jsonEvent (adapterEvent ex_other))])) (ex_form []) (ex_web_world []) =
     (WStream (readyEvent ''acme'' # frames), ex_web_world []) \<and> mset frames = {#jsonEvent (adapterEvent ex_other)#}"
proof -
  obtain b1 b2 where b: "nats_Subscribe ''tenant'' [] = (0, b1)" "nats_Subscribe ''machine'' b1 = (1, b2)"
    by (simp add: nats_Subscribe_def)
  have t: "ev_resourceType ex_other = ''machine''"
    by (simp add: ex_other_def ex_watch_event_def)
  note c = nats_two [OF b, of "[ex_other]"]
  show ?thesis
    using cluster_events_leak [OF ex_session _ _ b, of "''acme''" "[ex_other]" "[(MachineChan, jsonEvent (adapterEvent ex_other))]" "\<lambda>_. None" "[]" "[]"]
      c t by (simp add: ex_api_def)
qed

end
