(* ===== verification/Status.thy ===== *)
theory Status
  imports Upgrade Credentials Tenant_Status
begin

text \<open>
  On-demand tenant health (\<^verbatim>\<open>internal/status\<close>): the gatherer with its cache, the probe of a tenant's machines through
  the Talos adapter, and the two endpoints. Error texts are not kept: an error is a flag.
\<close>

record tenant_health =
  th_tenant :: string
  th_reachable :: bool
  th_talosVersion :: string
  th_machineCount :: nat
  th_error :: bool
  th_probedAt :: gotime

text \<open>\<open>gs_world\<close> is what the probe works on: the store and the calls made to machines.\<close>

record gatherer =
  gs_world :: up_world
  gs_cached :: "(string \<times> tenant_health \<times> gotime) list"

text \<open>
  \<open>gc_probe\<close>: whether a machine probe is configured; \<open>gc_version\<close> the version function it is built with;
  \<open>gc_secrets\<close> the credentials cache.
\<close>

record gatherer_config =
  gc_ttl :: gotime
  gc_probe :: bool
  gc_version :: "string \<Rightarrow> up_world \<Rightarrow> (string + string) \<times> up_world"
  gc_secrets :: secrets_cache

definition NewGatherer :: "gotime option \<Rightarrow> bool \<Rightarrow> (string \<Rightarrow> up_world \<Rightarrow> (string + string) \<times> up_world) \<Rightarrow> secrets_cache \<Rightarrow> gatherer_config" where
  "NewGatherer ttl probe version secrets =
     \<lparr>gc_ttl = (case ttl of None \<Rightarrow> 15 * second | Some d \<Rightarrow> d), gc_probe = probe, gc_version = version, gc_secrets = secrets\<rparr>"

section \<open>The probe\<close>

text \<open>One loop over the machines a test selects: the version of the first that answers; else whether any failed.\<close>

fun probeMachines ::
  "(string \<Rightarrow> up_world \<Rightarrow> (string + string) \<times> up_world) \<Rightarrow> (machine \<Rightarrow> bool) \<Rightarrow> machine list \<Rightarrow> bool \<Rightarrow> up_world \<Rightarrow> (bool + string) \<times> up_world" where
  "probeMachines version sel [] failed w = (Inl failed, w)"
| "probeMachines version sel (m # ms) failed w =
     (if \<not> sel m then probeMachines version sel ms failed w
      else
        (case version (md_name (m_metadata m)) w of
           (Inr v, w) \<Rightarrow> (Inr v, w)
         | (Inl _, w) \<Rightarrow> probeMachines version sel ms True w))"

definition isControlPlane :: "machine \<Rightarrow> bool" where
  "isControlPlane m \<longleftrightarrow> mst_role (m_status m) = ''controlplane''"

definition ProbeTenant ::
  "(string \<Rightarrow> up_world \<Rightarrow> (string + string) \<times> up_world) \<Rightarrow> string \<Rightarrow> up_world \<Rightarrow> string option \<times> up_world" where
  "ProbeTenant version tn w =
     (case ListMachinesByTenant tn [] (uw_store w) of
        (Inl _, s) \<Rightarrow> (None, w\<lparr>uw_store := s\<rparr>)
      | (Inr (ms, _), s) \<Rightarrow>
          let w = w\<lparr>uw_store := s\<rparr> in
          if ms = [] then (None, w)
          else
            (case probeMachines version isControlPlane ms False w of
               (Inr v, w) \<Rightarrow> (Some v, w)
             | (Inl failed, w) \<Rightarrow>
                 (case probeMachines version (\<lambda>m. \<not> isControlPlane m) ms failed w of
                    (Inr v, w) \<Rightarrow> (Some v, w)
                  | (Inl _, w) \<Rightarrow> (None, w))))"

section \<open>The gatherer\<close>

definition gatherer_probe :: "gatherer_config \<Rightarrow> string \<Rightarrow> up_world \<Rightarrow> tenant_health \<times> up_world" where
  "gatherer_probe cfg tn w =
     (let h0 = \<lparr>th_tenant = tn, th_reachable = False, th_talosVersion = [], th_machineCount = 0, th_error = False, th_probedAt = 0\<rparr> in
      case ListMachinesByTenant tn [] (uw_store w) of
        (Inl _, s) \<Rightarrow> (h0\<lparr>th_error := True\<rparr>, w\<lparr>uw_store := s\<rparr>)
      | (Inr (ms, _), s) \<Rightarrow>
          let w = w\<lparr>uw_store := s\<rparr>; h = h0\<lparr>th_machineCount := length ms\<rparr> in
          if \<not> gc_probe cfg then (h, w)
          else if gc_secrets cfg tn = None then (h\<lparr>th_error := True\<rparr>, w)
          else
            (case ProbeTenant (gc_version cfg) tn w of
               (None, w) \<Rightarrow> (h\<lparr>th_error := True\<rparr>, w)
             | (Some v, w) \<Rightarrow> (h\<lparr>th_reachable := True, th_talosVersion := v\<rparr>, w)))"

definition Gather :: "gatherer_config \<Rightarrow> string \<Rightarrow> gatherer \<Rightarrow> tenant_health \<times> gatherer" where
  "Gather cfg tn g =
     (let now = clock (uw_store (gs_world g)) in
      case (case map_of (gs_cached g) tn of None \<Rightarrow> None | Some (h, expires) \<Rightarrow> if now < expires then Some h else None) of
        Some h \<Rightarrow> (h, g)
      | None \<Rightarrow>
          (case gatherer_probe cfg tn (gs_world g) of (h, w) \<Rightarrow>
             let h = h\<lparr>th_probedAt := now\<rparr> in
             (h, g\<lparr>gs_world := w, gs_cached := AList.update tn (h, now + gc_ttl cfg) (gs_cached g)\<rparr>)))"

definition gatherer_Drop :: "string \<Rightarrow> gatherer \<Rightarrow> gatherer" where
  "gatherer_Drop tn g = g\<lparr>gs_cached := AList.delete tn (gs_cached g)\<rparr>"

fun gatherNames :: "gatherer_config \<Rightarrow> string list \<Rightarrow> gatherer \<Rightarrow> tenant_health list \<times> gatherer" where
  "gatherNames cfg [] g = ([], g)"
| "gatherNames cfg (n # ns) g = (case Gather cfg n g of (h, g) \<Rightarrow> case gatherNames cfg ns g of (hs, g) \<Rightarrow> (h # hs, g))"

definition GatherAll :: "gatherer_config \<Rightarrow> gatherer \<Rightarrow> tenant_health list \<times> gatherer" where
  "GatherAll cfg g =
     (case ListTenants [] (uw_store (gs_world g)) of
        (Inl _, s) \<Rightarrow> ([], g\<lparr>gs_world := (gs_world g)\<lparr>uw_store := s\<rparr>\<rparr>)
      | (Inr (ts, _), s) \<Rightarrow> gatherNames cfg (map (md_name \<circ> t_metadata) ts) (g\<lparr>gs_world := (gs_world g)\<lparr>uw_store := s\<rparr>\<rparr>))"

section \<open>Endpoints\<close>

text \<open>\<open>None\<close> is the API without a gatherer, which answers 503.\<close>

datatype status_reply = StUnavailable | StHealth tenant_health | StAll "tenant_health list" nat

definition status_Health :: "gatherer_config option \<Rightarrow> string \<Rightarrow> gatherer \<Rightarrow> status_reply \<times> gatherer" where
  "status_Health cfg tn g =
     (case cfg of None \<Rightarrow> (StUnavailable, g) | Some c \<Rightarrow> (case Gather c tn g of (h, g) \<Rightarrow> (StHealth h, g)))"

definition HealthAll :: "gatherer_config option \<Rightarrow> gatherer \<Rightarrow> status_reply \<times> gatherer" where
  "HealthAll cfg g =
     (case cfg of None \<Rightarrow> (StUnavailable, g) | Some c \<Rightarrow> (case GatherAll c g of (hs, g) \<Rightarrow> (StAll hs (length hs), g)))"

end
