(* ===== verification/Metrics.thy ===== *)
theory Metrics
  imports Api Auth Complex_Main
begin

text \<open>
  Resource usage from Kubernetes and Prometheus, \<^verbatim>\<open>internal/metrics\<close>: the types with \<^verbatim>\<open>Percent\<close>, the two clients and the
  aggregator. The answers of the two servers are parameters; numbers read with \<^verbatim>\<open>Sscanf\<close> are exact rationals (the code
  rounds them to \<^verbatim>\<open>float64\<close>), read from decimal notation. Go maps are association lists; where the code takes a map's
  elements in the order of its iteration, that order is a parameter.
\<close>

section \<open>Types\<close>

record resource_quantity =
  rq_cpu :: int
  rq_memory :: int

abbreviation noQuantity :: resource_quantity where "noQuantity \<equiv> \<lparr>rq_cpu = 0, rq_memory = 0\<rparr>"

text \<open>The structs \<^verbatim>\<open>CPU\<close> and \<^verbatim>\<open>Memory\<close> have the same fields.\<close>

record resource_data =
  rd_capacity :: resource_quantity
  rd_allocatable :: resource_quantity
  rd_requested :: resource_quantity
  rd_limited :: resource_quantity
  rd_usage :: resource_quantity

datatype condition_status = CondUnset | ConditionTrue | ConditionFalse

record node_conditions =
  nc_ready :: condition_status
  nc_memoryPressure :: condition_status
  nc_diskPressure :: condition_status
  nc_pidPressure :: condition_status

abbreviation noConditions :: node_conditions where
  "noConditions \<equiv> \<lparr>nc_ready = CondUnset, nc_memoryPressure = CondUnset, nc_diskPressure = CondUnset, nc_pidPressure = CondUnset\<rparr>"

record node_metrics =
  nm_name :: string
  nm_role :: string
  nm_status :: string
  nm_cpu :: resource_data
  nm_memory :: resource_data
  nm_podCapacity :: int
  nm_podAllocatable :: int
  nm_podRunning :: int
  nm_diskUsed :: int
  nm_diskTotal :: int
  nm_conditions :: node_conditions

record cluster_summary =
  cs_nodes :: nat
  cs_cpuCapacity :: int
  cs_cpuAllocatable :: int
  cs_cpuRequested :: int
  cs_cpuUsage :: int
  cs_memCapacity :: int
  cs_memAllocatable :: int
  cs_memRequested :: int
  cs_memUsage :: int
  cs_podCapacity :: int
  cs_podAllocatable :: int
  cs_podRunning :: int
  cs_details :: "node_metrics list"

record pod_metrics =
  pm_name :: string
  pm_namespace :: string
  pm_node :: string
  pm_cpuUsage :: int
  pm_memUsage :: int

text \<open>Division of integers truncates.\<close>

definition goquot :: "int \<Rightarrow> int \<Rightarrow> int" where
  "goquot a b = (if 0 \<le> a then a div b else - ((- a) div b))"

definition Percent :: "int \<Rightarrow> int \<Rightarrow> int" where
  "Percent usage capacity =
     (if capacity \<le> 0 then 0
      else let p = goquot (wrap64 (usage * 100)) capacity; p = (if p > 100 then 100 else p) in if p < 0 then 0 else p)"

definition PressureLevel :: "int \<Rightarrow> string" where
  "PressureLevel pct = (if pct \<ge> 90 then ''critical'' else if pct \<ge> 70 then ''warning'' else ''ok'')"

section \<open>Numbers\<close>

text \<open>\<^verbatim>\<open>Sscanf\<close> with \<open>%f\<close> and \<open>%d\<close>: the longest number at the start of the text, 0 when there is none.\<close>

definition scanSign :: "string \<Rightarrow> bool \<times> string" where
  "scanSign s = (case s of c # cs \<Rightarrow> if c = CHR ''-'' then (True, cs) else if c = CHR ''+'' then (False, cs) else (False, s) | [] \<Rightarrow> (False, s))"

definition scanFloat :: "string \<Rightarrow> rat" where
  "scanFloat s =
     (case scanSign s of (neg, s) \<Rightarrow>
        let whole = takeWhile isDigit s; rest = dropWhile isDigit s;
            frac = (case rest of c # cs \<Rightarrow> if c = CHR ''.'' then takeWhile isDigit cs else [] | [] \<Rightarrow> []);
            v = of_nat (digitsValue whole) + of_nat (digitsValue frac) / 10 ^ length frac in
        if neg then - v else v)"

definition scanInt :: "string \<Rightarrow> int" where
  "scanInt s =
     (case scanSign s of (neg, s) \<Rightarrow>
        let v = int (digitsValue (takeWhile isDigit s)); v = (if neg then - v else v) in
        if - (2 ^ 63) \<le> v \<and> v < 2 ^ 63 then v else 0)"

definition truncRat :: "rat \<Rightarrow> int" where
  "truncRat r = (if 0 \<le> r then \<lfloor>r\<rfloor> else \<lceil>r\<rceil>)"

definition memSuffixes :: "(string \<times> int) list" where
  "memSuffixes = [(''Ki'', 1024), (''Mi'', 1024 ^ 2), (''Gi'', 1024 ^ 3), (''Ti'', 1024 ^ 4),
     (''K'', 1000), (''M'', 1000 ^ 2), (''G'', 1000 ^ 3), (''T'', 1000 ^ 4)]"

definition suffixMatches :: "string \<Rightarrow> string \<times> int \<Rightarrow> bool" where
  "suffixMatches s x \<longleftrightarrow> length s > length (fst x) \<and> drop (length s - length (fst x)) s = fst x"

definition containsDot :: "string \<Rightarrow> bool" where
  "containsDot s \<longleftrightarrow> CHR ''.'' \<in> set s"

text \<open>The loop over the suffixes goes through a map, in the order \<open>sufs\<close>.\<close>

definition parseQuantity :: "(string \<times> int) list \<Rightarrow> string \<Rightarrow> int" where
  "parseQuantity sufs s =
     (if s = [] then 0
      else (case find (suffixMatches s) sufs of
              Some (suf, mult) \<Rightarrow> truncRat (scanFloat (take (length s - length suf) s) * of_int mult)
            | None \<Rightarrow>
                if length s > 1 \<and> last s = CHR ''m'' then scanInt (butlast s)
                else let v = scanFloat s in if v < 1000 \<and> v > 0 \<and> containsDot s then truncRat (v * 1000) else truncRat v))"

definition parseK8sQuantity :: "string \<Rightarrow> int" where
  "parseK8sQuantity s = parseQuantity memSuffixes s"

section \<open>The Kubernetes client\<close>

record k8s_node =
  kn_name :: string
  kn_labels :: gomap
  kn_allocatable :: gomap
  kn_capacity :: gomap

record k8s_pod =
  kp_nodeName :: string
  kp_phase :: string
  kp_containers :: "(gomap \<times> gomap) list"

definition nodeOf :: "k8s_node \<Rightarrow> node_metrics" where
  "nodeOf n =
     \<lparr>nm_name = kn_name n,
      nm_role = (if map_of (kn_labels n) ''node-role.kubernetes.io/control-plane'' \<noteq> None then ''control-plane'' else ''worker''),
      nm_status = ''healthy'',
      nm_cpu = \<lparr>rd_capacity = noQuantity\<lparr>rq_cpu := parseK8sQuantity (mget (kn_capacity n) ''cpu'')\<rparr>,
        rd_allocatable = noQuantity\<lparr>rq_cpu := parseK8sQuantity (mget (kn_allocatable n) ''cpu'')\<rparr>,
        rd_requested = noQuantity, rd_limited = noQuantity, rd_usage = noQuantity\<rparr>,
      nm_memory = \<lparr>rd_capacity = noQuantity\<lparr>rq_memory := parseK8sQuantity (mget (kn_capacity n) ''memory'')\<rparr>,
        rd_allocatable = noQuantity\<lparr>rq_memory := parseK8sQuantity (mget (kn_allocatable n) ''memory'')\<rparr>,
        rd_requested = noQuantity, rd_limited = noQuantity, rd_usage = noQuantity\<rparr>,
      nm_podCapacity = parseK8sQuantity (mget (kn_capacity n) ''pods''), nm_podAllocatable = parseK8sQuantity (mget (kn_allocatable n) ''pods''),
      nm_podRunning = 0, nm_diskUsed = 0, nm_diskTotal = 0, nm_conditions = noConditions\<rparr>"

text \<open>\<open>None\<close> is a request that fails or an answer that does not decode.\<close>

definition NodeCapacity :: "k8s_node list option \<Rightarrow> (string \<times> node_metrics) list option" where
  "NodeCapacity answer = map_option (\<lambda>items. foldl (\<lambda>m n. AList.update (kn_name n) (nodeOf n) m) [] items) answer"

record pod_totals =
  pt_requests :: "(string \<times> resource_quantity) list"
  pt_limits :: "(string \<times> resource_quantity) list"
  pt_counts :: "(string \<times> int) list"

definition mapGet :: "'v \<Rightarrow> (string \<times> 'v) list \<Rightarrow> string \<Rightarrow> 'v" where
  "mapGet d m k = (case map_of m k of None \<Rightarrow> d | Some v \<Rightarrow> v)"

definition addQuantity :: "string \<Rightarrow> gomap \<Rightarrow> (string \<times> resource_quantity) list \<Rightarrow> (string \<times> resource_quantity) list" where
  "addQuantity node q m =
     (let r = mapGet noQuantity m node in
      AList.update node \<lparr>rq_cpu = rq_cpu r + parseK8sQuantity (mget q ''cpu''), rq_memory = rq_memory r + parseK8sQuantity (mget q ''memory'')\<rparr> m)"

definition addContainer :: "string \<Rightarrow> pod_totals \<Rightarrow> gomap \<times> gomap \<Rightarrow> pod_totals" where
  "addContainer node t c = t\<lparr>pt_requests := addQuantity node (fst c) (pt_requests t), pt_limits := addQuantity node (snd c) (pt_limits t)\<rparr>"

definition addPod :: "pod_totals \<Rightarrow> k8s_pod \<Rightarrow> pod_totals" where
  "addPod t p =
     (if kp_nodeName p = [] \<or> kp_phase p \<noteq> ''Running'' then t
      else foldl (addContainer (kp_nodeName p))
        (t\<lparr>pt_counts := AList.update (kp_nodeName p) (mapGet 0 (pt_counts t) (kp_nodeName p) + 1) (pt_counts t)\<rparr>) (kp_containers p))"

definition PodRequests :: "k8s_pod list option \<Rightarrow> pod_totals option" where
  "PodRequests answer = map_option (foldl addPod \<lparr>pt_requests = [], pt_limits = [], pt_counts = []\<rparr>) answer"

section \<open>The Prometheus client\<close>

text \<open>A vector element: its labels and its value, the empty text when the value is not a string.\<close>

record prom_result =
  pv_metric :: gomap
  pv_value :: string

datatype prom_query =
    QNodeCPU | QNodeMemory | QDiskUsed | QDiskTotal | QCondition string
  | QTopCPU int | QTopMemory int | QPodCPU string | QPodMemory string

type_synonym prom = "prom_query \<Rightarrow> prom_result list option"

definition floatValue :: "prom_result \<Rightarrow> rat" where
  "floatValue r = scanFloat (pv_value r)"

abbreviation intValue :: "prom_result \<Rightarrow> int" where
  "intValue r \<equiv> truncRat (floatValue r)"

definition resolveNodeName :: "gomap \<Rightarrow> string" where
  "resolveNodeName m =
     (if mget m ''node'' \<noteq> [] then mget m ''node''
      else if mget m ''instance'' \<noteq> [] then takeWhile (\<lambda>c. c \<noteq> CHR '':'') (mget m ''instance'') else [])"

text \<open>The loops over results: those without a node are skipped.\<close>

definition eachNode :: "(string \<Rightarrow> prom_result \<Rightarrow> 'm \<Rightarrow> 'm) \<Rightarrow> prom_result list \<Rightarrow> 'm \<Rightarrow> 'm" where
  "eachNode f rs m = foldl (\<lambda>m r. let n = resolveNodeName (pv_metric r) in if n = [] then m else f n r m) m rs"

definition NodeUsage :: "prom \<Rightarrow> (string \<times> resource_quantity) list option" where
  "NodeUsage prom =
     (case prom QNodeCPU of
        None \<Rightarrow> None
      | Some cpu \<Rightarrow>
          (case prom QNodeMemory of
             None \<Rightarrow> None
           | Some mem \<Rightarrow>
               Some (eachNode (\<lambda>n r m. AList.update n ((mapGet noQuantity m n)\<lparr>rq_memory := intValue r\<rparr>) m) mem
                 (eachNode (\<lambda>n r m. AList.update n (noQuantity\<lparr>rq_cpu := intValue r\<rparr>) m) cpu []))))"

definition DiskUsage :: "prom \<Rightarrow> (string \<times> int \<times> int) list option" where
  "DiskUsage prom =
     (case prom QDiskUsed of
        None \<Rightarrow> None
      | Some used \<Rightarrow>
          (case prom QDiskTotal of
             None \<Rightarrow> None
           | Some totals \<Rightarrow>
               Some (eachNode (\<lambda>n r m. case map_of m n of None \<Rightarrow> m | Some (u, _) \<Rightarrow> AList.update n (u, intValue r) m) totals
                 (eachNode (\<lambda>n r m. AList.update n (intValue r, 0) m) used []))))"

definition setCondition :: "string \<Rightarrow> condition_status \<Rightarrow> node_conditions \<Rightarrow> node_conditions" where
  "setCondition name v c =
     (if name = ''Ready'' then c\<lparr>nc_ready := v\<rparr>
      else if name = ''MemoryPressure'' then c\<lparr>nc_memoryPressure := v\<rparr>
      else if name = ''DiskPressure'' then c\<lparr>nc_diskPressure := v\<rparr>
      else if name = ''PIDPressure'' then c\<lparr>nc_pidPressure := v\<rparr> else c)"

definition condition :: "prom \<Rightarrow> (string \<times> node_conditions) list \<Rightarrow> string \<Rightarrow> (string \<times> node_conditions) list" where
  "condition prom m name =
     (case prom (QCondition name) of
        None \<Rightarrow> m
      | Some rs \<Rightarrow>
          foldl (\<lambda>m r. let n = mget (pv_metric r) ''node'' in
            if n = [] then m
            else AList.update n (setCondition name (if floatValue r = 1 then ConditionTrue else ConditionFalse) (mapGet noConditions m n)) m) m rs)"

definition NodeConditions :: "prom \<Rightarrow> (string \<times> node_conditions) list" where
  "NodeConditions prom = foldl (condition prom) [] [''Ready'', ''MemoryPressure'', ''DiskPressure'', ''PIDPressure'']"

definition podMetricsFromVector :: "prom_result list \<Rightarrow> bool \<Rightarrow> pod_metrics list" where
  "podMetricsFromVector rs cpu = map (\<lambda>r. \<lparr>pm_name = mget (pv_metric r) ''pod'', pm_namespace = mget (pv_metric r) ''namespace'', pm_node = [],
     pm_cpuUsage = (if cpu then intValue r else 0), pm_memUsage = (if cpu then 0 else intValue r)\<rparr>) rs"

definition TopPodsByCPU :: "prom \<Rightarrow> int \<Rightarrow> pod_metrics list option" where
  "TopPodsByCPU prom n = map_option (\<lambda>rs. podMetricsFromVector rs True) (prom (QTopCPU n))"

definition TopPodsByMemory :: "prom \<Rightarrow> int \<Rightarrow> pod_metrics list option" where
  "TopPodsByMemory prom n = map_option (\<lambda>rs. podMetricsFromVector rs False) (prom (QTopMemory n))"

definition podKey :: "string \<Rightarrow> string \<Rightarrow> string" where
  "podKey ns pod = ns @ ''/'' @ pod"

text \<open>\<open>perm\<close> is the order in which a map is iterated.\<close>

definition PodMetricsByNode :: "(pod_metrics list \<Rightarrow> pod_metrics list) \<Rightarrow> prom \<Rightarrow> string \<Rightarrow> pod_metrics list option" where
  "PodMetricsByNode perm prom node =
     (case prom (QPodCPU node) of
        None \<Rightarrow> None
      | Some cpu \<Rightarrow>
          (case prom (QPodMemory node) of
             None \<Rightarrow> None
           | Some mem \<Rightarrow>
               let key = (\<lambda>r. podKey (mget (pv_metric r) ''namespace'') (mget (pv_metric r) ''pod''));
                   fresh = (\<lambda>r. \<lparr>pm_name = mget (pv_metric r) ''pod'', pm_namespace = mget (pv_metric r) ''namespace'', pm_node = node,
                     pm_cpuUsage = 0, pm_memUsage = 0\<rparr>);
                   pods = foldl (\<lambda>m r. AList.update (key r) ((fresh r)\<lparr>pm_cpuUsage := intValue r\<rparr>) m) [] cpu;
                   pods = foldl (\<lambda>m r. AList.update (key r) ((mapGet (fresh r) m (key r))\<lparr>pm_memUsage := intValue r\<rparr>) m) pods mem
               in Some (perm (map snd pods))))"

section \<open>The aggregator\<close>

text \<open>The body of the loop of \<^verbatim>\<open>ClusterSummary\<close> for one node.\<close>

definition mergeNode ::
  "pod_totals \<Rightarrow> (string \<times> resource_quantity) list \<Rightarrow> (string \<times> int \<times> int) list \<Rightarrow> (string \<times> node_conditions) list \<Rightarrow> string \<times> node_metrics \<Rightarrow> node_metrics" where
  "mergeNode pods usage disk conds x =
     (let name = fst x; nc = snd x;
          nc = (case map_of (pt_requests pods) name of None \<Rightarrow> nc
                | Some r \<Rightarrow> nc\<lparr>nm_cpu := (nm_cpu nc)\<lparr>rd_requested := r\<rparr>, nm_memory := (nm_memory nc)\<lparr>rd_requested := r\<rparr>\<rparr>);
          nc = (case map_of (pt_limits pods) name of None \<Rightarrow> nc
                | Some l \<Rightarrow> nc\<lparr>nm_cpu := (nm_cpu nc)\<lparr>rd_limited := noQuantity\<lparr>rq_cpu := rq_cpu l\<rparr>\<rparr>,
                               nm_memory := (nm_memory nc)\<lparr>rd_limited := noQuantity\<lparr>rq_memory := rq_memory l\<rparr>\<rparr>\<rparr>);
          nc = (case map_of usage name of None \<Rightarrow> nc
                | Some u \<Rightarrow> nc\<lparr>nm_cpu := (nm_cpu nc)\<lparr>rd_usage := u\<rparr>,
                               nm_memory := (nm_memory nc)\<lparr>rd_usage := noQuantity\<lparr>rq_memory := rq_memory u\<rparr>\<rparr>\<rparr>);
          nc = (case map_of (pt_counts pods) name of None \<Rightarrow> nc | Some k \<Rightarrow> nc\<lparr>nm_podRunning := k\<rparr>);
          nc = (case map_of disk name of None \<Rightarrow> nc | Some (u, t) \<Rightarrow> nc\<lparr>nm_diskUsed := u, nm_diskTotal := t\<rparr>) in
      case map_of conds name of
        None \<Rightarrow> nc
      | Some c \<Rightarrow> nc\<lparr>nm_conditions := c, nm_status := (if nc_ready c = ConditionTrue then ''healthy'' else ''warning'')\<rparr>)"

definition addNode :: "cluster_summary \<Rightarrow> node_metrics \<Rightarrow> cluster_summary" where
  "addNode s n = s\<lparr>cs_details := cs_details s @ [n],
     cs_cpuCapacity := cs_cpuCapacity s + rq_cpu (rd_capacity (nm_cpu n)), cs_cpuAllocatable := cs_cpuAllocatable s + rq_cpu (rd_allocatable (nm_cpu n)),
     cs_cpuRequested := cs_cpuRequested s + rq_cpu (rd_requested (nm_cpu n)), cs_cpuUsage := cs_cpuUsage s + rq_cpu (rd_usage (nm_cpu n)),
     cs_memCapacity := cs_memCapacity s + rq_memory (rd_capacity (nm_memory n)), cs_memAllocatable := cs_memAllocatable s + rq_memory (rd_allocatable (nm_memory n)),
     cs_memRequested := cs_memRequested s + rq_memory (rd_requested (nm_memory n)), cs_memUsage := cs_memUsage s + rq_memory (rd_usage (nm_memory n)),
     cs_podCapacity := cs_podCapacity s + nm_podCapacity n, cs_podAllocatable := cs_podAllocatable s + nm_podAllocatable n,
     cs_podRunning := cs_podRunning s + nm_podRunning n\<rparr>"

record metrics_env =
  me_nodes :: "k8s_node list option"
  me_pods :: "k8s_pod list option"
  me_prom :: prom
  me_order :: "(string \<times> node_metrics) list \<Rightarrow> (string \<times> node_metrics) list"
  me_podOrder :: "pod_metrics list \<Rightarrow> pod_metrics list"

definition ClusterSummary :: "metrics_env \<Rightarrow> cluster_summary option" where
  "ClusterSummary env =
     (case NodeCapacity (me_nodes env) of
        None \<Rightarrow> None
      | Some nodes \<Rightarrow>
          (case PodRequests (me_pods env) of
             None \<Rightarrow> None
           | Some pods \<Rightarrow>
               let usage = (case NodeUsage (me_prom env) of None \<Rightarrow> [] | Some m \<Rightarrow> m);
                   disk = (case DiskUsage (me_prom env) of None \<Rightarrow> [] | Some m \<Rightarrow> m);
                   conds = NodeConditions (me_prom env) in
               Some (foldl (\<lambda>s x. addNode s (mergeNode pods usage disk conds x))
                 \<lparr>cs_nodes = length nodes, cs_cpuCapacity = 0, cs_cpuAllocatable = 0, cs_cpuRequested = 0, cs_cpuUsage = 0, cs_memCapacity = 0,
                  cs_memAllocatable = 0, cs_memRequested = 0, cs_memUsage = 0, cs_podCapacity = 0, cs_podAllocatable = 0, cs_podRunning = 0,
                  cs_details = []\<rparr> (me_order env nodes))))"

text \<open>The outer option is the error.\<close>

definition NodeMetrics :: "metrics_env \<Rightarrow> string \<Rightarrow> node_metrics option option" where
  "NodeMetrics env name = map_option (\<lambda>s. find (\<lambda>n. nm_name n = name) (cs_details s)) (ClusterSummary env)"

definition TopPods :: "metrics_env \<Rightarrow> int \<Rightarrow> pod_metrics list" where
  "TopPods env n =
     (let cpu = (case TopPodsByCPU (me_prom env) n of None \<Rightarrow> [] | Some xs \<Rightarrow> xs);
          mem = (case TopPodsByMemory (me_prom env) n of None \<Rightarrow> [] | Some xs \<Rightarrow> xs);
          key = (\<lambda>p. podKey (pm_namespace p) (pm_name p));
          merged = foldl (\<lambda>m p. AList.update (key p) p m) [] cpu;
          merged = foldl (\<lambda>m p. AList.update (key p) (case map_of m (key p) of None \<Rightarrow> p | Some e \<Rightarrow> e\<lparr>pm_memUsage := pm_memUsage p\<rparr>) m) merged mem;
          result = me_podOrder env (map snd merged) in
      if int (length result) > n then take (nat n) result else result)"

end
