(* ===== verification/Metrics_Props.thy ===== *)
theory Metrics_Props
  imports Metrics Api_Props "HOL-Library.Multiset"
begin

text \<open>
  What the metrics show: the range of percentages and where they wrap, that a quantity does not depend on the order in
  which its suffixes are tried, that the cluster's totals are sums over its nodes, and the unit of whole cores.
\<close>

section \<open>Percentages\<close>

lemma wrap64_low: "0 \<le> x \<Longrightarrow> x < 2 ^ 63 \<Longrightarrow> wrap64 x = x"
  by (simp add: wrap64_def)

lemma wrap64_high: "2 ^ 63 \<le> x \<Longrightarrow> x < 2 ^ 64 \<Longrightarrow> wrap64 x < 0"
proof -
  assume x: "2 ^ 63 \<le> x" "x < 2 ^ 64"
  then have "(x + 2 ^ 63 - 2 ^ 64) mod 2 ^ 64 = x + 2 ^ 63 - 2 ^ 64"
    by (intro mod_pos_pos_trivial) simp_all
  then have "(x + 2 ^ 63) mod 2 ^ 64 = x + 2 ^ 63 - 2 ^ 64"
    by (metis minus_mod_self2)
  then show ?thesis
    using x by (simp add: wrap64_def)
qed

lemma Percent_range: "0 \<le> Percent u c \<and> Percent u c \<le> 100"
  by (simp add: Percent_def Let_def)

lemma Percent_exact: "0 \<le> u \<Longrightarrow> 100 * u < 2 ^ 63 \<Longrightarrow> 0 < c \<Longrightarrow> Percent u c = min 100 (100 * u div c)"
  by (simp add: Percent_def wrap64_low goquot_def Let_def mult.commute pos_imp_zdiv_nonneg_iff not_less)

lemma Percent_wrapped: "2 ^ 63 \<le> 100 * u \<Longrightarrow> 100 * u < 2 ^ 64 \<Longrightarrow> Percent u c = 0"
proof -
  assume "2 ^ 63 \<le> 100 * u" "100 * u < 2 ^ 64"
  then have w: "wrap64 (u * 100) < 0"
    using wrap64_high [of "u * 100"] by (simp add: mult.commute)
  then have "goquot (wrap64 (u * 100)) c \<le> 0" if "0 < c"
    using that by (simp add: goquot_def pos_imp_zdiv_nonneg_iff)
  then show ?thesis
    by (fastforce simp: Percent_def Let_def)
qed

text \<open>
  C37: percentages. Of every pair of 64-bit values the result is between 0 and 100, so the gauge never leaves its scale.
  For a positive capacity and a usage below $2^{63}/100$ it is the percentage rounded down, at most 100, and it does not
  fall when usage grows. From there to $2^{64}/100$ (92 to 184 petabytes) the multiplication wraps and a full resource
  shows 0.
\<close>

theorem percent_bounds:
  "0 \<le> Percent u c \<and> Percent u c \<le> 100 \<and>
   (0 \<le> u \<and> 100 * u < 2 ^ 63 \<and> 0 < c \<longrightarrow> Percent u c = min 100 (100 * u div c) \<and> (\<forall>v. 0 \<le> v \<and> v \<le> u \<longrightarrow> Percent v c \<le> Percent u c)) \<and>
   (2 ^ 63 \<le> 100 * u \<and> 100 * u < 2 ^ 64 \<longrightarrow> Percent u c = 0)"
proof -
  have "Percent v c \<le> Percent u c" if "0 \<le> u" "100 * u < 2 ^ 63" "0 < c" "0 \<le> v" "v \<le> u" for v
    using that zdiv_mono1 [of "100 * v" "100 * u" c] by (simp add: Percent_exact min_le_iff_disj)
  then show ?thesis
    using Percent_range Percent_exact Percent_wrapped by blast
qed

theorem percent_bounds_witness: "Percent 3 4 = 75 \<and> Percent 2 4 \<le> Percent 3 4 \<and> Percent (10 ^ 17) (10 ^ 17) = 0"
  using percent_bounds [of 3 4] percent_bounds [of "10 ^ 17" "10 ^ 17"] by (auto dest: spec [of _ 2])

section \<open>Quantities\<close>

text \<open>At most one suffix matches: the one-letter suffixes do not end in i.\<close>

lemma suffix_unique:
  assumes "x \<in> set memSuffixes" "y \<in> set memSuffixes" "suffixMatches s x" "suffixMatches s y"
  shows "x = y"
proof -
  have l: "last s = last (fst z)" if "suffixMatches s z" "z \<in> set memSuffixes" for z
  proof -
    have "fst z \<noteq> []"
      using that(2) by (auto simp: memSuffixes_def)
    with that(1) show ?thesis
      by (metis suffixMatches_def last_drop diff_less length_greater_0_conv order.strict_trans1 zero_le)
  qed
  have "last (fst x) = last (fst y)"
    using l [OF assms(3,1)] l [OF assms(4,2)] by simp
  moreover have "length (fst x) = length (fst y) \<Longrightarrow> fst x = fst y"
    using assms(3,4) by (simp add: suffixMatches_def)
  ultimately show ?thesis
    using assms(1,2) by (auto simp: memSuffixes_def)
qed

lemma quantity_order: "set sufs = set memSuffixes \<Longrightarrow> parseQuantity sufs s = parseK8sQuantity s"
proof -
  assume sufs: "set sufs = set memSuffixes"
  have "find (suffixMatches s) sufs = find (suffixMatches s) memSuffixes"
  proof (cases "find (suffixMatches s) memSuffixes")
    case None
    then have "find (suffixMatches s) sufs = None"
      using sufs by (simp add: find_None_iff)
    then show ?thesis
      using None by simp
  next
    case (Some x)
    then have x: "x \<in> set memSuffixes" "suffixMatches s x"
      by (auto simp: find_Some_iff)
    have "find (suffixMatches s) sufs = Some x"
    proof (rule find_only)
      show "y = x" if "y \<in> set sufs" "suffixMatches s y" for y
        using suffix_unique [OF _ x(1) that(2) x(2)] that(1) sufs by simp
    qed (use x sufs in simp_all)
    then show ?thesis
      using Some by simp
  qed
  then show ?thesis
    by (simp add: parseQuantity_def parseK8sQuantity_def)
qed

lemma parse_digits:
  assumes "ds \<noteq> []" "list_all isDigit ds"
  shows "parseK8sQuantity ds = int (digitsValue ds)"
proof -
  have d: "set ds \<subseteq> {c. isDigit c}"
    using assms(2) by (auto simp: list_all_iff)
  have last: "isDigit (last ds)"
    using assms by (auto simp: list_all_iff)
  have "\<not> suffixMatches ds x" if "x \<in> set memSuffixes" for x
  proof
    assume m: "suffixMatches ds x"
    have "fst x \<noteq> []" "\<not> isDigit (last (fst x))"
      using that by (auto simp: memSuffixes_def isDigit_def)
    then show False
      using m d by (metis suffixMatches_def last_in_set in_set_dropD subsetD mem_Collect_eq)
  qed
  then have s: "find (suffixMatches ds) memSuffixes = None"
    by (simp add: find_None_iff)
  have "hd ds \<noteq> CHR ''-''" "hd ds \<noteq> CHR ''+''"
    using assms by (cases ds; auto simp: isDigit_def)+
  then have sign: "scanSign ds = (False, ds)"
    using assms(1) by (cases ds) (auto simp: scanSign_def)
  have w: "takeWhile isDigit ds = ds" "dropWhile isDigit ds = []"
    using assms(2) by (simp_all add: list_all_iff takeWhile_eq_all_conv dropWhile_eq_Nil_conv)
  have f: "scanFloat ds = of_nat (digitsValue ds)"
    by (simp add: scanFloat_def sign w digitsValue_def)
  have n: "\<not> containsDot ds" "last ds \<noteq> CHR ''m''"
    using d last by (auto simp: containsDot_def isDigit_def)
  show ?thesis
    using assms(1) s n f by (simp add: parseK8sQuantity_def parseQuantity_def truncRat_def Let_def)
qed

lemma parse_itoa: "0 \<le> c \<Longrightarrow> parseK8sQuantity (itoa c) = c"
  using parse_digits [of "baseDigits 10 (nat c)"] baseDigits_value [of "nat c"] itoa_not_Nil [of c]
  by (simp add: itoa_def)

section \<open>The summary\<close>

lemma update_new: "k \<notin> fst ` set al \<Longrightarrow> AList.update k v al = al @ [(k, v)]"
  by (induction al) auto

lemma foldl_update_distinct:
  "distinct (map key xs) \<Longrightarrow> fst ` set al \<inter> key ` set xs = {} \<Longrightarrow>
   foldl (\<lambda>m x. AList.update (key x) (f x) m) al xs = al @ map (\<lambda>x. (key x, f x)) xs"
proof (induction xs arbitrary: al)
  case (Cons x xs)
  then have "AList.update (key x) (f x) al = al @ [(key x, f x)]"
    by (intro update_new) auto
  with Cons show ?case
    by (auto simp: image_iff disjoint_iff)
qed simp

lemma NodeCapacity_distinct:
  "distinct (map kn_name items) \<Longrightarrow> NodeCapacity (Some items) = Some (map (\<lambda>n. (kn_name n, nodeOf n)) items)"
  by (simp add: NodeCapacity_def foldl_update_distinct)

lemma mergeNode_keeps [simp]:
  "nm_name (mergeNode pods usage disk conds x) = nm_name (snd x)"
  "rd_allocatable (nm_cpu (mergeNode pods usage disk conds x)) = rd_allocatable (nm_cpu (snd x))"
  by (simp_all add: mergeNode_def Let_def split: option.splits prod.splits)

lemma addNode_details [simp]: "cs_details (addNode s n) = cs_details s @ [n]" "cs_nodes (addNode s n) = cs_nodes s"
  by (simp_all add: addNode_def)

lemma foldl_addNode:
  "cs_details (foldl (\<lambda>s x. addNode s (g x)) s xs) = cs_details s @ map g xs \<and> cs_nodes (foldl (\<lambda>s x. addNode s (g x)) s xs) = cs_nodes s \<and>
   cs_cpuAllocatable (foldl (\<lambda>s x. addNode s (g x)) s xs) = cs_cpuAllocatable s + (\<Sum>x\<leftarrow>xs. rq_cpu (rd_allocatable (nm_cpu (g x)))) \<and>
   cs_cpuUsage (foldl (\<lambda>s x. addNode s (g x)) s xs) = cs_cpuUsage s + (\<Sum>x\<leftarrow>xs. rq_cpu (rd_usage (nm_cpu (g x)))) \<and>
   cs_memUsage (foldl (\<lambda>s x. addNode s (g x)) s xs) = cs_memUsage s + (\<Sum>x\<leftarrow>xs. rq_memory (rd_usage (nm_memory (g x)))) \<and>
   cs_podRunning (foldl (\<lambda>s x. addNode s (g x)) s xs) = cs_podRunning s + (\<Sum>x\<leftarrow>xs. nm_podRunning (g x))"
  by (induction xs arbitrary: s) (simp_all add: addNode_def)

text \<open>The nodes of a summary are the API's nodes, each once.\<close>

lemma ClusterSummary_details:
  assumes "ClusterSummary env = Some s" "me_nodes env = Some items" "distinct (map kn_name items)" "\<And>xs. mset (me_order env xs) = mset xs"
  shows "\<exists>g. (\<forall>x. nm_name (g x) = kn_name x \<and> rd_allocatable (nm_cpu (g x)) = rd_allocatable (nm_cpu (nodeOf x))) \<and>
    mset (cs_details s) = mset (map g items)"
proof -
  from assms(1-3) obtain pods where p: "PodRequests (me_pods env) = Some pods"
    by (auto simp: ClusterSummary_def NodeCapacity_distinct split: option.splits)
  define g where "g = mergeNode pods (case NodeUsage (me_prom env) of None \<Rightarrow> [] | Some m \<Rightarrow> m) (case DiskUsage (me_prom env) of None \<Rightarrow> [] | Some m \<Rightarrow> m)
    (NodeConditions (me_prom env))"
  have "cs_details s = map g (me_order env (map (\<lambda>n. (kn_name n, nodeOf n)) items))"
    using assms(1-3) p by (auto simp: ClusterSummary_def NodeCapacity_distinct Let_def foldl_addNode g_def [symmetric])
  then have "mset (cs_details s) = mset (map (\<lambda>n. g (kn_name n, nodeOf n)) items)"
    by (simp add: assms(4) image_mset.compositionality comp_def)
  then show ?thesis
    by (intro exI [of _ "\<lambda>n. g (kn_name n, nodeOf n)"]) (simp add: g_def nodeOf_def)
qed

text \<open>
  a node whose allocatable CPU is written in whole cores always looks full. The quantity \<open>c\<close> without a suffix is read
  as \<open>c\<close> millicores, not as \<open>1000 * c\<close>, while usage is in millicores: as soon as the node uses \<open>c\<close> thousandths of one
  core, its card shows 100 percent.
\<close>

theorem whole_cores_full:
  assumes "ClusterSummary env = Some s" "me_nodes env = Some items" "distinct (map kn_name items)" "\<And>xs. mset (me_order env xs) = mset xs"
    and "k \<in> set items" "mget (kn_allocatable k) ''cpu'' = itoa c" "0 < c"
    and "n \<in> set (cs_details s)" "nm_name n = kn_name k" "c \<le> rq_cpu (rd_usage (nm_cpu n))" "100 * rq_cpu (rd_usage (nm_cpu n)) < 2 ^ 63"
  shows "rq_cpu (rd_allocatable (nm_cpu n)) = c \<and> Percent (rq_cpu (rd_usage (nm_cpu n))) (rq_cpu (rd_allocatable (nm_cpu n))) = 100"
proof -
  from ClusterSummary_details [OF assms(1-4)] obtain g where
    g: "\<And>x. nm_name (g x) = kn_name x \<and> rd_allocatable (nm_cpu (g x)) = rd_allocatable (nm_cpu (nodeOf x))" "mset (cs_details s) = mset (map g items)"
    by blast
  from g(2) have "n \<in> set (map g items)"
    using assms(8) by (metis set_mset_mset)
  then obtain x where "x \<in> set items" "n = g x"
    by auto
  moreover from this have "x = k"
    using g(1) assms(3,5,9) by (auto simp: distinct_map inj_on_def)
  ultimately have a: "rq_cpu (rd_allocatable (nm_cpu n)) = c"
    using g(1) assms(6,7) by (simp add: nodeOf_def parse_itoa)
  let ?u = "rq_cpu (rd_usage (nm_cpu n))"
  have "100 \<le> 100 * ?u div c"
    using assms(7,10) zdiv_mono1 [of "100 * c" "100 * ?u" c] by simp
  then show ?thesis
    using a Percent_exact [of ?u c] assms(7,10,11) by simp
qed

definition ex_metrics :: metrics_env where
  "ex_metrics = \<lparr>me_nodes = Some [\<lparr>kn_name = ''n1'', kn_labels = [], kn_allocatable = [(''cpu'', ''2'')], kn_capacity = []\<rparr>], me_pods = Some [],
     me_prom = (\<lambda>q. if q = QNodeCPU then Some [\<lparr>pv_metric = [(''node'', ''n1'')], pv_value = ''2''\<rparr>] else if q = QNodeMemory then Some [] else None),
     me_order = id, me_podOrder = id\<rparr>"

theorem whole_cores_full_witness:
  "\<exists>s n. ClusterSummary ex_metrics = Some s \<and> cs_details s = [n] \<and> rq_cpu (rd_usage (nm_cpu n)) = 2 \<and>
     Percent (rq_cpu (rd_usage (nm_cpu n))) (rq_cpu (rd_allocatable (nm_cpu n))) = 100"
proof -
  let ?k = "\<lparr>kn_name = ''n1'', kn_labels = [], kn_allocatable = [(''cpu'', ''2'')], kn_capacity = []\<rparr>"
  have v: "truncRat (scanFloat ''2'') = 2" "itoa 2 = ''2''"
    by code_simp+
  obtain s n where s: "ClusterSummary ex_metrics = Some s" "cs_details s = [n]" "nm_name n = ''n1''" "rq_cpu (rd_usage (nm_cpu n)) = 2"
    using v(1) by (auto simp: ClusterSummary_def ex_metrics_def NodeCapacity_def PodRequests_def Let_def NodeUsage_def eachNode_def
        resolveNodeName_def mget_def floatValue_def mergeNode_def nodeOf_def DiskUsage_def NodeConditions_def condition_def)
  show ?thesis
    using whole_cores_full [OF s(1), of "[?k]" ?k 2 n] s v(2) by (auto simp: ex_metrics_def mget_def)
qed

end
