(* ===== verification/Posture.thy ===== *)
theory Posture
  imports Web_Settings Metrics
begin

text \<open>
  The dashboard: its posture cards (\<^verbatim>\<open>internal/dashboard/posture.go\<close>), the page and the event stream
  (\<^verbatim>\<open>internal/web/handlers/dashboard\<close>), and the operational metrics (\<^verbatim>\<open>internal/operationalmetrics\<close>).
\<close>

section \<open>Cards\<close>

record cluster_posture =
  cp_active :: nat
  cp_forming :: nat
  cp_removing :: nat
  cp_ready :: nat
  cp_expected :: int
  cp_erroring :: "string list"

record machine_posture =
  mp_connected :: nat
  mp_pending :: nat
  mp_failed :: nat
  mp_total :: nat

record provider_posture =
  pp_connected :: nat
  pp_disconnected :: nat
  pp_errors :: nat
  pp_total :: nat

record backup_posture =
  bkp_lastSuccess :: string
  bkp_failures :: nat
  bkp_rpo :: string

record upgrade_posture =
  upp_active :: nat
  upp_blocked :: bool
  upp_latestTarget :: string
  upp_latestPhase :: string

record posture =
  po_clusters :: cluster_posture
  po_machines :: machine_posture
  po_providers :: provider_posture
  po_backups :: backup_posture
  po_upgrades :: upgrade_posture

definition emptyPosture :: posture where
  "emptyPosture = \<lparr>po_clusters = \<lparr>cp_active = 0, cp_forming = 0, cp_removing = 0, cp_ready = 0, cp_expected = 0, cp_erroring = []\<rparr>,
     po_machines = \<lparr>mp_connected = 0, mp_pending = 0, mp_failed = 0, mp_total = 0\<rparr>,
     po_providers = \<lparr>pp_connected = 0, pp_disconnected = 0, pp_errors = 0, pp_total = 0\<rparr>,
     po_backups = \<lparr>bkp_lastSuccess = [], bkp_failures = 0, bkp_rpo = []\<rparr>,
     po_upgrades = \<lparr>upp_active = 0, upp_blocked = False, upp_latestTarget = [], upp_latestPhase = []\<rparr>\<rparr>"

text \<open>\<^verbatim>\<open>Builder.nodeGroups\<close>: a spec that does not unmarshal counts as zero.\<close>

definition posture_nodeGroups :: "string \<Rightarrow> store \<Rightarrow> node_group_summary list \<times> store" where
  "posture_nodeGroups tn s =
     (case ListResources ''nodegroup'' (noOptions\<lparr>lo_labelSelector := tenantSelector tn\<rparr>) s of
        (Inl _, s) \<Rightarrow> ([], s)
      | (Inr (items, _), s) \<Rightarrow> (map (\<lambda>(md, spec, _). \<lparr>ngs_name = md_name md, ngs_count = dInt ''count'' spec\<rparr>) items, s))"

definition isPendingStage :: "string \<Rightarrow> bool" where
  "isPendingStage x \<longleftrightarrow> x \<in> {StageInitializing, StageInstalling, StageConfiguring, StageUpdating}"

definition isFailedStage :: "string \<Rightarrow> bool" where
  "isFailedStage x \<longleftrightarrow> x \<in> {StageOff, StageRemoving}"

definition sumNodeGroupCounts :: "node_group_summary list \<Rightarrow> int" where
  "sumNodeGroupCounts gs = sum_list (map ngs_count gs)"

text \<open>One round of the loop over the tenants: \<open>machines\<close> are those the fleet list holds for it.\<close>

definition clusterCard :: "tenant \<Rightarrow> machine list \<Rightarrow> node_group_summary list \<Rightarrow> cluster_posture \<Rightarrow> cluster_posture" where
  "clusterCard t machines ngs p =
     (let phase = tst_phase (ComputeTenantStatus t machines ngs);
          p = (if phase = TenantActive then p\<lparr>cp_active := cp_active p + 1\<rparr>
               else if phase \<in> {TenantForming, TenantShrinking} then p\<lparr>cp_forming := cp_forming p + 1\<rparr>
               else if phase = TenantRemoving then p\<lparr>cp_removing := cp_removing p + 1\<rparr>
               else if phase \<in> {''failed'', ''error'', ''degraded''} then p\<lparr>cp_erroring := cp_erroring p @ [md_name (t_metadata t)]\<rparr>
               else p\<lparr>cp_forming := cp_forming p + 1\<rparr>) in
      p\<lparr>cp_expected := cp_expected p + sumNodeGroupCounts ngs,
        cp_ready := cp_ready p + length (filter (\<lambda>m. mst_stage (m_status m) = StageReady) machines)\<rparr>)"

fun clusterCards :: "machine list \<Rightarrow> tenant list \<Rightarrow> cluster_posture \<Rightarrow> store \<Rightarrow> cluster_posture \<times> store" where
  "clusterCards fleet [] p s = (p, s)"
| "clusterCards fleet (t # ts) p s =
     (case posture_nodeGroups (md_name (t_metadata t)) s of (ngs, s) \<Rightarrow>
        clusterCards fleet ts
          (clusterCard t (filter (\<lambda>m. mget (md_labels (m_metadata m)) tenantLabel = md_name (t_metadata t)) fleet) ngs p) s)"

definition machineCard :: "machine list \<Rightarrow> machine_posture" where
  "machineCard ms =
     \<lparr>mp_connected = length (filter (\<lambda>m. ms_connected (m_spec m)) ms), mp_pending = length (filter (\<lambda>m. isPendingStage (mst_stage (m_status m))) ms),
      mp_failed = length (filter (\<lambda>m. isFailedStage (mst_stage (m_status m))) ms), mp_total = length ms\<rparr>"

definition providerCard :: "provider list \<Rightarrow> provider_posture" where
  "providerCard ps =
     \<lparr>pp_connected = length (filter (\<lambda>p. pst_connected (p_status p)) ps), pp_disconnected = length (filter (\<lambda>p. \<not> pst_connected (p_status p)) ps),
      pp_errors = length (filter (\<lambda>p. pst_error (p_status p) \<noteq> []) ps), pp_total = length ps\<rparr>"

text \<open>The package's own copy of the estimate knows one more text.\<close>

definition posture_rpo :: "(string \<Rightarrow> gotime option) \<Rightarrow> gotime \<Rightarrow> string \<Rightarrow> string" where
  "posture_rpo parse now lastOk = (if lastOk = ''unavailable'' then ''unknown'' else rpoEstimate parse now lastOk)"

definition backupPosture :: "(string \<Rightarrow> gotime option) \<Rightarrow> backup_env option \<Rightarrow> store \<Rightarrow> backup_posture \<times> store" where
  "backupPosture parse be s =
     (case be of
        None \<Rightarrow> (po_backups emptyPosture, s)
      | Some be \<Rightarrow>
          (case ListSnapshots be s of
             (None, s) \<Rightarrow> ((po_backups emptyPosture)\<lparr>bkp_lastSuccess := ''unavailable''\<rparr>, s)
           | (Some snaps, s) \<Rightarrow>
               (\<lparr>bkp_lastSuccess = lastSuccess snaps, bkp_failures = failures snaps, bkp_rpo = posture_rpo parse (clock s) (lastSuccess snaps)\<rparr>, s)))"

definition latestRun :: "run \<Rightarrow> upgrade_posture \<times> gotime \<Rightarrow> upgrade_posture \<times> gotime" where
  "latestRun r = (\<lambda>(p, ts).
     let phase = up_phase (rst_status (run_status r));
         p = (if phase \<in> {''running'', ''precheck''} then p\<lparr>upp_active := upp_active p + 1\<rparr> else p);
         p = (if phase = ''precheck'' \<and> up_error (rst_status (run_status r)) \<noteq> [] then p\<lparr>upp_blocked := True\<rparr> else p);
         started = rst_startedAt (run_status r) in
     if ts < started then (p\<lparr>upp_latestTarget := rs_target (run_spec r), upp_latestPhase := phase\<rparr>, started) else (p, ts))"

fun latestRuns :: "tenant list \<Rightarrow> upgrade_posture \<times> gotime \<Rightarrow> store \<Rightarrow> upgrade_posture \<times> store" where
  "latestRuns [] acc s = (fst acc, s)"
| "latestRuns (t # ts) acc s =
     (case ListRuns (md_name (t_metadata t)) s of
        (Inr (r # _), s) \<Rightarrow> latestRuns ts (latestRun r acc) s
      | (_, s) \<Rightarrow> latestRuns ts acc s)"

definition upgradePosture :: "bool \<Rightarrow> tenant list \<Rightarrow> store \<Rightarrow> upgrade_posture \<times> store" where
  "upgradePosture manager ts s =
     (if manager then latestRuns ts (po_upgrades emptyPosture, 0) s else (po_upgrades emptyPosture, s))"

definition Build :: "(string \<Rightarrow> gotime option) \<Rightarrow> backup_env option \<Rightarrow> bool \<Rightarrow> store \<Rightarrow> posture \<times> store" where
  "Build parse be manager s =
     (case ListTenants [] s of
        (Inl _, s) \<Rightarrow> (emptyPosture, s)
      | (Inr (tenants, _), s) \<Rightarrow>
          (case ListMachines [] s of
             (Inl _, s) \<Rightarrow> (emptyPosture, s)
           | (Inr (machines, _), s) \<Rightarrow>
               (case ListProviders s of (ps, s) \<Rightarrow>
                case clusterCards machines tenants (po_clusters emptyPosture) s of (clusters, s) \<Rightarrow>
                case backupPosture parse be s of (backups, s) \<Rightarrow>
                case upgradePosture manager tenants s of (upgrades, s) \<Rightarrow>
                  (\<lparr>po_clusters = clusters, po_machines = machineCard machines,
                    po_providers = providerCard (case ps of Inl _ \<Rightarrow> [] | Inr xs \<Rightarrow> xs), po_backups = backups, po_upgrades = upgrades\<rparr>, s))))"

section \<open>The page\<close>

record node_card =
  nd_name :: string
  nd_role :: string
  nd_status :: string
  nd_cpuPct :: int
  nd_memPct :: int
  nd_podPct :: int
  nd_diskPct :: int
  nd_node :: node_metrics

definition nodeCard :: "node_metrics \<Rightarrow> node_card" where
  "nodeCard n =
     \<lparr>nd_name = nm_name n, nd_role = nm_role n, nd_status = nm_status n,
      nd_cpuPct = Percent (rq_cpu (rd_usage (nm_cpu n))) (rq_cpu (rd_allocatable (nm_cpu n))),
      nd_memPct = Percent (rq_memory (rd_usage (nm_memory n))) (rq_memory (rd_allocatable (nm_memory n))),
      nd_podPct = Percent (nm_podRunning n) (nm_podAllocatable n), nd_diskPct = Percent (nm_diskUsed n) (nm_diskTotal n), nd_node = n\<rparr>"

record dashboard_data =
  dd_tenantCount :: nat
  dd_machineCount :: nat
  dd_providerCount :: nat
  dd_nodeGroupCount :: int
  dd_tenants :: "tenant_summary list"
  dd_live :: bool
  dd_posture :: posture
  dd_audit :: "(int \<times> audit_event) list"
  dd_pressure :: "(cluster_summary \<times> node_card list) option"

definition Dashboard ::
  "web_env \<Rightarrow> metrics_env option \<Rightarrow> (string \<Rightarrow> gotime option) \<Rightarrow> auth_ctx \<Rightarrow> web_world \<Rightarrow> dashboard_data web_reply \<times> web_world" where
  "Dashboard env me parse c w =
     (case onStore (ListTenants []) w of (tenants, w) \<Rightarrow>
      case onStore (ListMachines []) w of (machines, w) \<Rightarrow>
      case onStore ListProviders w of (providers, w) \<Rightarrow>
      case onStore (ListResources ''nodegroup'' noOptions) w of (groups, w) \<Rightarrow>
      case onStore tenantSummaries w of (summaries, w) \<Rightarrow>
      case onStore (Build parse (wn_backup env) (wn_upgrades env)) w of (posture, w) \<Rightarrow>
      case (case ww_audit w of
              None \<Rightarrow> ([], w)
            | Some d \<Rightarrow> (case ListEvents \<lparr>af_user = [], af_resource = [], af_verb = [], af_since = None, af_until = None, af_limit = 8, af_offset = 0\<rparr> d of
                           (evs, d) \<Rightarrow> (case evs of None \<Rightarrow> [] | Some xs \<Rightarrow> xs, w\<lparr>ww_audit := Some d\<rparr>))) of (audit, w) \<Rightarrow>
        (render c \<lparr>dd_tenantCount = length (okList tenants), dd_machineCount = length (okList machines),
           dd_providerCount = length (case providers of Inl _ \<Rightarrow> [] | Inr xs \<Rightarrow> xs),
           dd_nodeGroupCount = (case groups of Inl _ \<Rightarrow> 0 | Inr (_, n) \<Rightarrow> n), dd_tenants = summaries, dd_live = av_bus (wn_api env),
           dd_posture = posture, dd_audit = audit,
           dd_pressure = Option.bind me (\<lambda>me. map_option (\<lambda>s. (s, map nodeCard (cs_details s))) (ClusterSummary me))\<rparr>, w))"

text \<open>
  \<^verbatim>\<open>EventsStream\<close>: the frames for a sequence of received events, each with the type of its subscription, which is added to
  objects that are maps. \<open>None\<close> is the answer 404.
\<close>

definition EventsStream :: "web_env \<Rightarrow> (string \<times> watch_event) list \<Rightarrow> (string option \<times> watch_event) list option" where
  "EventsStream env received =
     (if \<not> av_bus (wn_api env) then None
      else Some (map (\<lambda>(rt, e). (case we_object e of WMap _ \<Rightarrow> Some rt | WOther _ \<Rightarrow> None, jsonEvent e))
        (filter (\<lambda>(rt, _). rt \<in> {''tenant'', ''machine'', ''nodegroup'', ''provider'', ''configpatch''}) received)))"

section \<open>Operational metrics\<close>

text \<open>
  A sample of the exposition: metric, label and value. The lines of the two maps come in the order \<open>order\<close> of a map.
\<close>

type_synonym sample = "string \<times> (string \<times> string) list \<times> int"

definition tally :: "string list \<Rightarrow> (string \<times> int) list" where
  "tally xs = foldl (\<lambda>m x. AList.update x (mapGet 0 m x + 1) m) [] xs"

definition tallySamples :: "((string \<times> int) list \<Rightarrow> (string \<times> int) list) \<Rightarrow> string \<Rightarrow> string \<Rightarrow> (string \<times> int) list \<Rightarrow> sample list" where
  "tallySamples order metric label m =
     (if m = [] then [(metric, [(label, ''none'')], 0)] else map (\<lambda>(k, n). (metric, [(label, k)], n)) (order m))"

definition stageOf :: "machine \<Rightarrow> string" where
  "stageOf m = (if mst_stage (m_status m) = [] then ''unknown'' else mst_stage (m_status m))"

definition phaseOf :: "tenant \<Rightarrow> string" where
  "phaseOf t = (case tst_reconciliation (t_status t) of None \<Rightarrow> ''unknown'' | Some r \<Rightarrow> if rs_phase r = [] then ''unknown'' else rs_phase r)"

definition metrics_ServeHTTP ::
  "string \<Rightarrow> string \<Rightarrow> ((string \<times> int) list \<Rightarrow> (string \<times> int) list) \<Rightarrow> store \<Rightarrow> sample list \<times> store" where
  "metrics_ServeHTTP ver commit order s =
     (case ListTenants [] s of (tenants, s) \<Rightarrow>
      case ListMachines [] s of (machines, s) \<Rightarrow>
        ([(''rezuscloud_info'', [(''version'', ver), (''commit'', commit)], 1), (''rezuscloud_tenants_total'', [], int (length (okList tenants)))] @
         tallySamples order ''rezuscloud_machines_total'' ''stage'' (tally (map stageOf (okList machines))) @
         tallySamples order ''rezuscloud_reconciliation_total'' ''phase'' (tally (map phaseOf (okList tenants))), s))"

end
