(* ===== verification/Posture_Props.thy ===== *)
theory Posture_Props
  imports Posture Web_Props Metrics_Props
begin

text \<open>
  The dashboard's numbers: every listed tenant is on exactly one card, and what the limit of the fleet list does to the
  cards, which one page shows beside the exact list of clusters.
\<close>

section \<open>Accounts\<close>

lemma status_phase: "tst_phase (ComputeTenantStatus t ms ngs) = ComputeTenantPhase t ms ngs"
  by (simp add: ComputeTenantStatus_def Let_def)

lemma phase_cases: "ComputeTenantPhase t ms ngs \<in> {TenantActive, TenantForming, TenantShrinking, TenantRemoving}"
  by (simp add: ComputeTenantPhase_def Let_def)

lemma clusterCard_count:
  "cp_active (clusterCard t ms ngs p) + cp_forming (clusterCard t ms ngs p) + cp_removing (clusterCard t ms ngs p) =
     Suc (cp_active p + cp_forming p + cp_removing p) \<and> cp_erroring (clusterCard t ms ngs p) = cp_erroring p \<and>
   cp_active (clusterCard t ms ngs p) = cp_active p + (if ComputeTenantPhase t ms ngs = TenantActive then 1 else 0) \<and>
   cp_ready (clusterCard t ms ngs p) = cp_ready p + length (filter (\<lambda>m. mst_stage (m_status m) = StageReady) ms)"
  using phase_cases [of t ms ngs] by (auto simp: clusterCard_def status_phase Let_def)

lemma clusterCards_count:
  "clusterCards fleet ts p s = (q, s') \<Longrightarrow>
   cp_active q + cp_forming q + cp_removing q = length ts + (cp_active p + cp_forming p + cp_removing p) \<and> cp_erroring q = cp_erroring p"
proof (induction ts arbitrary: p s)
  case (Cons t ts)
  let ?ms = "filter (\<lambda>m. mget (md_labels (m_metadata m)) tenantLabel = md_name (t_metadata t)) fleet"
  obtain ngs s1 where n: "posture_nodeGroups (md_name (t_metadata t)) s = (ngs, s1)" by fastforce
  then have "clusterCards fleet ts (clusterCard t ?ms ngs p) s1 = (q, s')"
    using Cons.prems by simp
  from Cons.IH [OF this] clusterCard_count [of t ?ms ngs p] show ?case
    by simp
qed simp

text \<open>Without machines in the list a tenant is neither active nor does it add a ready machine.\<close>

lemma clusterCard_none:
  "cp_active (clusterCard t [] ngs p) = cp_active p \<and> cp_ready (clusterCard t [] ngs p) = cp_ready p"
  using clusterCard_count [of t "[]" ngs p] by (auto simp: ComputeTenantPhase_def)

lemma clusterCards_none:
  "(\<And>t m. t \<in> set ts \<Longrightarrow> m \<in> set fleet \<Longrightarrow> mget (md_labels (m_metadata m)) tenantLabel \<noteq> md_name (t_metadata t)) \<Longrightarrow>
   clusterCards fleet ts p s = (q, s') \<Longrightarrow> cp_active q = cp_active p \<and> cp_ready q = cp_ready p"
proof (induction ts arbitrary: p s)
  case (Cons t ts)
  have "filter (\<lambda>m. mget (md_labels (m_metadata m)) tenantLabel = md_name (t_metadata t)) fleet = []"
    using Cons.prems(1) [of t] by (auto simp: filter_empty_conv)
  moreover obtain ngs s1 where "posture_nodeGroups (md_name (t_metadata t)) s = (ngs, s1)" by fastforce
  ultimately have "clusterCards fleet ts (clusterCard t [] ngs p) s1 = (q, s')"
    using Cons.prems(2) by simp
  from Cons.IH [OF _ this] Cons.prems(1) clusterCard_none [of t ngs p] show ?case
    by simp
qed simp

text \<open>The cards only read.\<close>

lemma reads_posture [reads_intros]: "reads s (snd (posture_nodeGroups tn s))"
  using reads_List [of s s] unfolding posture_nodeGroups_def by (auto split: prod.splits sum.splits) (metis reads_refl snd_conv)+

lemma reads_clusterCards [reads_intros]: "reads s (snd (clusterCards fleet ts p s))"
  by (induction ts arbitrary: p s) (auto intro!: reads_bind_self reads_intros)

lemma reads_backupPosture [reads_intros]: "reads s (snd (backupPosture parse be s))"
  using reads_lists(9) [of s] unfolding backupPosture_def by (auto split: option.splits prod.splits) (metis snd_conv)+

lemma reads_latestRuns: "reads s (snd (latestRuns ts acc s))"
proof (induction ts arbitrary: acc s)
  case (Cons t ts)
  obtain x s1 where l: "ListRuns (md_name (t_metadata t)) s = (x, s1)" by fastforce
  then have "reads s s1"
    using reads_lists(6) [of s] by (metis snd_conv)
  then have "reads s (snd (latestRuns ts a s1))" for a
    using reads_trans [OF _ Cons] by blast
  then show ?case
    using l by (auto split: sum.splits list.splits)
qed simp

lemma reads_upgradePosture [reads_intros]: "reads s (snd (upgradePosture manager ts s))"
  by (simp add: upgradePosture_def reads_latestRuns)

section \<open>A healthy store\<close>

abbreviation row3 :: "row \<Rightarrow> metadata \<times> json \<times> json" where
  "row3 r \<equiv> (meta_of r, r_spec r, r_status r)"

text \<open>The rows the lists without options return: the first fifty by name.\<close>

abbreviation firstFifty :: "string \<Rightarrow> string \<Rightarrow> store \<Rightarrow> row list" where
  "firstFifty rt sel s \<equiv> take 50 (sort_key r_name (listed rt sel s))"

lemma page_fifty: "page 0 50 xs = take 50 xs"
  by (simp add: page_def)

lemma lists_healthy:
  assumes "faults s = []"
  shows "ListTenants [] s = (Inr (map (mk_tenant \<circ> row3) (firstFifty ''tenant'' [] s), int (length (listed ''tenant'' [] s))), s)"
    and "ListMachines [] s = (Inr (map (mk_machine \<circ> row3) (firstFifty ''machine'' [] s), int (length (listed ''machine'' [] s))), s)"
    and "ListMachinesByTenant tn [] s = (Inr (map (mk_machine \<circ> row3) (firstFifty ''machine'' (tenantSelector tn) s),
      int (length (listed ''machine'' (tenantSelector tn) s))), s)"
    and "snd (ListProviders s) = s" "snd (ListResources rt noOptions s) = s" "snd (nodeGroupSummaries tn s) = s"
  using assms
  by (simp_all add: ListTenants_def ListMachines_def ListMachinesByTenant_def ListProviders_def nodeGroupSummaries_def ListTypedByTenant_def
      ListTyped_def ListResources_healthy newListOptions_def WithLabelSelector_def page_fifty)

text \<open>The entry of a tenant in the list of clusters.\<close>

lemma tenantSummary_healthy:
  assumes "faults s = []"
  shows "tenantSummary t s =
    (let name = md_name (t_metadata t); machines = map (mk_machine \<circ> row3) (firstFifty ''machine'' (tenantSelector name) s);
         ngs = fst (nodeGroupSummaries name s);
         status = ComputeTenantStatus (case find_row s ''tenant'' name of None \<Rightarrow> t | Some r \<Rightarrow> mk_tenant (row3 r)) machines ngs in
     (\<lparr>tsm_name = name, tsm_phase = tst_phase status, tsm_ready = mc_healthy (tst_machines status),
       tsm_total = (if mc_total (tst_machines status) = 0 then expectedMachineCount ngs else mc_total (tst_machines status))\<rparr>, s))"
proof -
  obtain ngs where "nodeGroupSummaries (md_name (t_metadata t)) s = (ngs, s)"
    using lists_healthy(6) [OF assms] by (metis prod.collapse)
  then show ?thesis
    using assms by (simp add: tenantSummary_def lists_healthy(3) GetTenant_healthy Let_def okOpt_def okList_def split: option.splits)
qed

lemma summarise_healthy: "faults s = [] \<Longrightarrow> summarise ts s = (map (\<lambda>t. fst (tenantSummary t s)) ts, s)"
  by (induction ts) (simp_all add: tenantSummary_healthy Let_def)

lemma tenantSummaries_healthy:
  "faults s = [] \<Longrightarrow> tenantSummaries s = (map (\<lambda>r. fst (tenantSummary (mk_tenant (row3 r)) s)) (firstFifty ''tenant'' [] s), s)"
  by (simp add: tenantSummaries_def lists_healthy(1) okList_def summarise_healthy comp_def)

lemma mk_row [simp]:
  "m_metadata (mk_machine (row3 r)) = meta_of r" "m_status (mk_machine (row3 r)) = dec_machine_status (r_status r)"
  "t_metadata (mk_tenant (row3 r)) = meta_of r"
  by (simp_all add: mk_machine_def mk_tenant_def)

text \<open>A tenant that has the machines it asks for, all ready.\<close>

definition complete :: "string \<Rightarrow> store \<Rightarrow> bool" where
  "complete tn s \<longleftrightarrow> (let ms = listed ''machine'' (tenantSelector tn) s in
     ms \<noteq> [] \<and> length ms \<le> 50 \<and> int (length ms) = expectedMachineCount (fst (nodeGroupSummaries tn s)) \<and>
     (\<forall>r\<in>set ms. mst_ready (dec_machine_status (r_status r)) \<and> mst_stage (dec_machine_status (r_status r)) = StageReady))"

lemma active_phase:
  "md_deletionTimestamp (t_metadata t) = None \<Longrightarrow> ms \<noteq> [] \<Longrightarrow> int (length ms) = sum_list (map ngs_count ngs) \<Longrightarrow> all_ready ms \<Longrightarrow>
   ComputeTenantPhase t ms ngs = TenantActive"
  by (simp add: ComputeTenantPhase_def all_ready_def filter_length_all Let_def)

lemma complete_summary:
  assumes "faults s = []" "store_inv s" "tr \<in> set (listed ''tenant'' [] s)" "complete (r_name tr) s"
  shows "tsm_phase (fst (tenantSummary (mk_tenant (row3 tr)) s)) = TenantActive"
proof -
  obtain r where r: "find_row s ''tenant'' (r_name tr) = Some r" "r_deleted r = None"
    using listed_name [OF assms(2), of "meta_of tr" "r_spec tr" "r_status tr" "''tenant''" "[]"] assms(3) by auto
  define rows where "rows = listed ''machine'' (tenantSelector (r_name tr)) s"
  have c: "rows \<noteq> []" "length rows \<le> 50" "int (length rows) = expectedMachineCount (fst (nodeGroupSummaries (r_name tr) s))"
    "\<forall>r\<in>set rows. mst_ready (dec_machine_status (r_status r)) \<and> mst_stage (dec_machine_status (r_status r)) = StageReady"
    using assms(4) unfolding complete_def Let_def rows_def by blast+
  let ?ms = "map (mk_machine \<circ> row3) (take 50 (sort_key r_name rows))"
  have ms: "length ?ms = length rows" "all_ready ?ms"
    using c(2,4) by (auto simp: all_ready_def)
  then have ne: "?ms \<noteq> []"
    using c(1) by (metis length_0_conv)
  have "ComputeTenantPhase (mk_tenant (row3 r)) ?ms (fst (nodeGroupSummaries (r_name tr) s)) = TenantActive"
    using ms ne c(3) r(2) by (simp add: active_phase expectedMachineCount_def)
  then show ?thesis
    using r(1) by (simp add: tenantSummary_healthy [OF assms(1)] Let_def status_phase rows_def)
qed

lemma list_at_most_fifty: "ListTenants [] s = (Inr (ts, n), s') \<Longrightarrow> length ts \<le> 50" "ListMachines [] s = (Inr (ms, k), s'') \<Longrightarrow> length ms \<le> 50"
  by (auto simp: ListTenants_def ListMachines_def newListOptions_def page_fifty split: prod.splits sum.splits dest!: ListResources_Inr(1))

lemma machineCard_bounds: "mp_connected (machineCard ms) \<le> mp_total (machineCard ms)" "mp_pending (machineCard ms) + mp_failed (machineCard ms) \<le> mp_total (machineCard ms)"
proof -
  show "mp_connected (machineCard ms) \<le> mp_total (machineCard ms)"
    by (simp add: machineCard_def)
  have "isPendingStage x \<Longrightarrow> \<not> isFailedStage x" for x
    by (auto simp: isPendingStage_def isFailedStage_def)
  then show "mp_pending (machineCard ms) + mp_failed (machineCard ms) \<le> mp_total (machineCard ms)"
    by (induction ms) (auto simp: machineCard_def)
qed

lemma providerCard_total: "pp_connected (providerCard ps) + pp_disconnected (providerCard ps) = pp_total (providerCard ps)"
  by (simp add: providerCard_def sum_length_filter_compl)


text \<open>
  one page, two answers. On a healthy store, let no machine among the first fifty by name belong to a listed tenant
  (say fifty machines of a pool whose names sort first), and let a tenant have all the machines it asks for, ready. Then
  the dashboard counts no active cluster and no ready machine, while the list of clusters on the same page shows the
  tenant as active.
\<close>

theorem dashboard_contradicts:
  assumes "faults (ww_store w) = []" "store_inv (ww_store w)" "fst c \<noteq> []"
    and "tr \<in> set (firstFifty ''tenant'' [] (ww_store w))" "complete (r_name tr) (ww_store w)"
    and "\<forall>m\<in>set (firstFifty ''machine'' [] (ww_store w)). \<forall>t\<in>set (firstFifty ''tenant'' [] (ww_store w)). mget (r_labels m) tenantLabel \<noteq> r_name t"
  shows "\<exists>d w'. Dashboard env me parse c w = (WRender d, w') \<and> cp_active (po_clusters (dd_posture d)) = 0 \<and> cp_ready (po_clusters (dd_posture d)) = 0 \<and>
    (\<exists>x\<in>set (dd_tenants d). tsm_name x = r_name tr \<and> tsm_phase x = TenantActive)"
proof -
  let ?s = "ww_store w" and ?ts = "map (mk_tenant \<circ> row3) (firstFifty ''tenant'' [] (ww_store w))"
  let ?ms = "map (mk_machine \<circ> row3) (firstFifty ''machine'' [] (ww_store w))"
  note l = lists_healthy [OF assms(1)]
  obtain ps where p: "ListProviders ?s = (ps, ?s)" using l(4) by (metis prod.collapse)
  obtain gs where g: "ListResources ''nodegroup'' noOptions ?s = (gs, ?s)" using l(5) by (metis prod.collapse)
  obtain q s1 where q: "clusterCards ?ms ?ts (po_clusters emptyPosture) ?s = (q, s1)" by fastforce
  have "mget (md_labels (m_metadata m)) tenantLabel \<noteq> md_name (t_metadata t)" if "t \<in> set ?ts" "m \<in> set ?ms" for t m
    using assms(6) that by auto
  from clusterCards_none [OF this q] have z: "cp_active q = 0 \<and> cp_ready q = 0"
    by (simp add: emptyPosture_def)
  obtain b s2 where b: "Build parse (wn_backup env) (wn_upgrades env) ?s = (b, s2)" by fastforce
  then have "po_clusters b = q"
    using p q by (auto simp: Build_def l(1,2) split: prod.splits)
  moreover have "\<exists>d w'. Dashboard env me parse c w = (WRender d, w') \<and> dd_posture d = b \<and> dd_tenants d = fst (tenantSummaries ?s)"
    using assms(1,3) p g b
    by (auto simp: Dashboard_def onStore_def l(1,2) tenantSummaries_healthy render_def split: prod.splits option.splits)
  moreover have "\<exists>x\<in>set (fst (tenantSummaries ?s)). tsm_name x = r_name tr \<and> tsm_phase x = TenantActive"
  proof -
    have "tr \<in> set (listed ''tenant'' [] ?s)"
      using assms(4) by (auto dest: in_set_takeD)
    with complete_summary [OF assms(1,2) _ assms(5)] assms(4) show ?thesis
      by (auto simp: tenantSummaries_healthy [OF assms(1)] intro!: bexI [of _ tr]) (simp add: tenantSummary_healthy [OF assms(1)] Let_def)
  qed
  ultimately show ?thesis
    using z by fastforce
qed

section \<open>Examples\<close>


definition ex_pool :: "row list" where
  "ex_pool = map (\<lambda>i. ex_row ''machine'' (replicate (Suc i) (CHR ''a'')) []) [0..<50]"

definition ex_ready :: row where
  "ex_ready = (ex_row ''machine'' ''m1'' [(tenantLabel, ''acme'')])\<lparr>r_status := JObj [(''stage'', JStr ''ready''), (''ready'', JBool True)]\<rparr>"

definition ex_fleet :: "row list" where
  "ex_fleet = ex_row ''tenant'' ''acme'' [] #
     (ex_row ''nodegroup'' ''g'' [(tenantLabel, ''acme'')])\<lparr>r_spec := JObj [(''name'', JStr ''g''), (''count'', JNum 1)]\<rparr> # ex_pool @ [ex_ready]"

lemma replicate_le: "i \<le> j \<Longrightarrow> replicate i (CHR ''a'') \<le> replicate j (CHR ''a'')"
proof (induction i arbitrary: j)
  case (Suc i)
  then obtain k where "j = Suc k" "i \<le> k" by (cases j) auto
  with Suc.IH show ?case by simp
qed simp

lemma ex_pool_rows: "r \<in> set ex_pool \<Longrightarrow> r_type r = ''machine'' \<and> r_labels r = [] \<and> r_deleted r = None"
  by (auto simp: ex_pool_def)

lemma ex_ready_fields [simp]: "r_type ex_ready = ''machine''" "r_name ex_ready = ''m1''" "r_deleted ex_ready = None" "r_labels ex_ready = [(tenantLabel, ''acme'')]"
  "mst_stage (dec_machine_status (r_status ex_ready)) = ''ready''" "mst_ready (dec_machine_status (r_status ex_ready))"
  "r_version ex_ready = 1" "r_finalizers ex_ready = []" "r_created ex_ready = 1" "r_updated ex_ready = 2"
  by (simp_all add: ex_ready_def dec_machine_status_def json_simps)

lemma ex_pool_sorted: "sorted (map r_name (ex_pool @ [ex_ready]))"
proof -
  have "sorted (map r_name ex_pool)"
    by (auto simp: ex_pool_def comp_def sorted_wrt_map intro!: sorted_wrt_mono_rel [OF _ sorted_wrt_upt] replicate_le simp del: replicate_Suc)
  then show ?thesis
    by (auto simp: sorted_append ex_pool_def)
qed

abbreviation ex_dash :: web_world where "ex_dash \<equiv> ex_web_world ex_fleet"

lemma ex_dash_lists:
  "listed ''machine'' [] (ww_store ex_dash) = ex_pool @ [ex_ready]" "listed ''tenant'' [] (ww_store ex_dash) = [ex_row ''tenant'' ''acme'' []]"
  "listed ''machine'' (tenantSelector ''acme'') (ww_store ex_dash) = [ex_ready]"
proof -
  have e: "extract_ok (engine (ww_store ex_dash))"
    by (simp add: ex_web_world_def ex_engine_ok)
  have f: "filter P ex_pool = ex_pool" if "\<And>r. r \<in> set ex_pool \<Longrightarrow> P r" for P
    using that by (simp add: filter_id_conv)
  show "listed ''machine'' [] (ww_store ex_dash) = ex_pool @ [ex_ready]"
    by (simp add: listed_def ex_fleet_def selects_def f ex_pool_rows)
  show "listed ''tenant'' [] (ww_store ex_dash) = [ex_row ''tenant'' ''acme'' []]"
    by (auto simp: listed_def ex_fleet_def selects_def filter_empty_conv dest: ex_pool_rows)
  show "listed ''machine'' (tenantSelector ''acme'') (ww_store ex_dash) = [ex_ready]"
    unfolding listed_def selects_tenant [OF e]
    by (auto simp: ex_fleet_def has_tenant_def filter_empty_conv dest: ex_pool_rows)
qed

lemma ex_dash_groups: "fst (nodeGroupSummaries ''acme'' (ww_store ex_dash)) = [\<lparr>ngs_name = ''g'', ngs_count = 1\<rparr>]"
proof -
  have e: "extract_ok (engine (ww_store ex_dash))"
    by (simp add: ex_web_world_def ex_engine_ok)
  have "listed ''nodegroup'' (tenantSelector ''acme'') (ww_store ex_dash) =
      [(ex_row ''nodegroup'' ''g'' [(tenantLabel, ''acme'')])\<lparr>r_spec := JObj [(''name'', JStr ''g''), (''count'', JNum 1)]\<rparr>]"
    unfolding listed_def selects_tenant [OF e]
    by (auto simp: ex_fleet_def has_tenant_def filter_empty_conv dest: ex_pool_rows)
  then show ?thesis
    by (simp add: nodeGroupSummaries_def ListTypedByTenant_def ListTyped_def ListResources_healthy page_def List.map_filter_simps
        orNull_def fieldOk_def json_simps)
qed

lemma ex_dash_inv: "store_inv (ww_store ex_dash)"
proof -
  have d: "distinct (map row_key ex_pool)"
    by (auto simp: ex_pool_def distinct_map inj_on_def simp del: replicate_Suc dest: replicate_eq_replicate [THEN iffD1])
  have n: "x \<noteq> (''tenant'', ''acme'')" "x \<noteq> (''nodegroup'', ''g'')" "x \<noteq> (''machine'', ''m1'')" if "x \<in> row_key ` set ex_pool" for x
    using that by (auto simp: ex_pool_def)
  have keys: "map row_key ex_fleet = (''tenant'', ''acme'') # (''nodegroup'', ''g'') # map row_key ex_pool @ [(''machine'', ''m1'')]"
    by (simp add: ex_fleet_def)
  have "tbl_wf row_key ex_fleet"
    unfolding tbl_wf_def keys using d n by fastforce
  moreover have "list_all (row_ok 5) ex_pool"
    by (auto simp: ex_pool_def list_all_iff row_ok_def)
  then have "list_all (row_ok 5) ex_fleet"
    by (simp add: ex_fleet_def row_ok_def)
  moreover have "tenant_secrets (ww_store ex_dash) = []" "api_tokens (ww_store ex_dash) = []"
    by (simp_all add: ex_web_world_def ex_store_def)
  ultimately show ?thesis
    by (simp add: store_inv_def tbl_wf_def)
qed

theorem dashboard_contradicts_witness:
  "\<exists>d w'. Dashboard ex_web None (\<lambda>_. None) (''bob'', ''view'') ex_dash = (WRender d, w') \<and> cp_active (po_clusters (dd_posture d)) = 0 \<and>
     (\<exists>x\<in>set (dd_tenants d). tsm_name x = ''acme'' \<and> tsm_phase x = TenantActive)"
proof -
  have len: "length ex_pool = 50"
    by (simp add: ex_pool_def)
  have m: "firstFifty ''machine'' [] (ww_store ex_dash) = ex_pool"
    using len by (simp add: ex_dash_lists sort_key_id_if_sorted [OF ex_pool_sorted])
  have t: "firstFifty ''tenant'' [] (ww_store ex_dash) = [ex_row ''tenant'' ''acme'' []]"
    by (simp add: ex_dash_lists)
  have "complete ''acme'' (ww_store ex_dash)"
    unfolding complete_def Let_def ex_dash_lists(3) ex_dash_groups by (simp add: expectedMachineCount_def)
  moreover have "\<forall>x\<in>set ex_pool. mget (r_labels x) tenantLabel \<noteq> ''acme''"
    by (auto dest!: ex_pool_rows simp: mget_def)
  ultimately show ?thesis
    using dashboard_contradicts [of ex_dash "(''bob'', ''view'')" "ex_row ''tenant'' ''acme'' []" ex_web None "\<lambda>_. None"] ex_dash_inv
    unfolding m t by fastforce
qed

end
