(* ===== verification/Boot.thy ===== *)
theory Boot
  imports Applier
begin

text \<open>
  The boot of a management cluster by the command line tool: the record of finished steps
  (internal/cli/state/bootstore.go), the Docker platform (internal/cli/platform/docker), the Cilium and
  Helm installers as far as the boot calls them, the orchestrator of the seven steps
  (internal/cli/boot/docker_orchestrator.go) and the command that starts it (cmd/rezusctl/boot/boot.go).
  The Docker daemon, the Talos configuration library, the Helm library and the polled endpoint are
  parameters that act on an arbitrary outside state; a new run of the command is a new process, which
  keeps nothing of the previous one but the files and the outside state.
\<close>

section \<open>The outside\<close>

record container_config =
  cc_name :: string
  cc_image :: string
  cc_env :: "string list"
  cc_labels :: gomap
  cc_ports :: "(int \<times> int) list"
  cc_mounts :: "(string \<times> string) list"
  cc_network :: string

record 'd docker_client =
  dk_ping :: "'d \<Rightarrow> bool \<times> 'd"
  dk_NetworkCreate :: "string \<Rightarrow> string \<Rightarrow> gomap \<Rightarrow> 'd \<Rightarrow> string option \<times> 'd"
  dk_NetworkInspect :: "string \<Rightarrow> 'd \<Rightarrow> string list option \<times> 'd"
  dk_NetworkList :: "gomap \<Rightarrow> 'd \<Rightarrow> string list option \<times> 'd"
  dk_NetworkRemove :: "string \<Rightarrow> 'd \<Rightarrow> bool \<times> 'd"
  dk_ContainerCreate :: "container_config \<Rightarrow> 'd \<Rightarrow> string option \<times> 'd"
  dk_ContainerStart :: "string \<Rightarrow> 'd \<Rightarrow> bool \<times> 'd"
  dk_ContainerList :: "gomap \<Rightarrow> 'd \<Rightarrow> string list option \<times> 'd"
  dk_ContainerRemove :: "string \<Rightarrow> 'd \<Rightarrow> bool \<times> 'd"

datatype node_role = RoleControlPlane | RoleInit | RoleWorker

text \<open>The Talos library: the input with its fresh secrets, a machine configuration, the two client configurations.\<close>

record 'g talos_library =
  tl_input :: "string \<Rightarrow> string \<Rightarrow> string \<Rightarrow> 'g option"
  tl_config :: "'g \<Rightarrow> node_role \<Rightarrow> string option"
  tl_talosconfig :: "'g \<Rightarrow> string list \<Rightarrow> string option"
  tl_kubeconfig :: "'g \<Rightarrow> string \<Rightarrow> string option"
  tl_defaultK8s :: string

record chart_config =
  ch_name :: string
  ch_repository :: string
  ch_chart :: string
  ch_version :: string
  ch_namespace :: string
  ch_values :: json
  ch_wait :: bool
  ch_timeout :: int

text \<open>The Helm library: the action configuration of a kubeconfig and a namespace, a chart with its dependencies, a release.\<close>

record 'd helm_library =
  hl_fromBytes :: "string \<Rightarrow> 'd \<Rightarrow> bool \<times> 'd"
  hl_init :: "string \<Rightarrow> string \<Rightarrow> 'd \<Rightarrow> bool \<times> 'd"
  hl_chart :: "chart_config \<Rightarrow> 'd \<Rightarrow> bool \<times> 'd"
  hl_get :: "string \<Rightarrow> 'd \<Rightarrow> bool \<times> 'd"
  hl_install :: "chart_config \<Rightarrow> 'd \<Rightarrow> bool \<times> 'd"
  hl_upgrade :: "chart_config \<Rightarrow> 'd \<Rightarrow> bool \<times> 'd"

text \<open>
  One poll of the endpoint: the status of the response if there was one, how long it took, whether the
  context is cancelled during the pause and by how much the pause exceeds the three seconds it was set to.
\<close>

record poll =
  pl_status :: "int option"
  pl_cost :: nat
  pl_cancelled :: bool
  pl_late :: nat

record ('d, 'g) boot_env =
  be_docker :: "'d docker_client"
  be_talos :: "'g talos_library"
  be_helm :: "'d helm_library"
  be_poll :: "string \<Rightarrow> 'd \<Rightarrow> poll \<times> 'd"
  be_ports :: "'d \<Rightarrow> (int \<times> int) option \<times> 'd"
  be_addr :: "string \<Rightarrow> string option"

section \<open>The record of finished steps\<close>

record boot_state =
  bs_clusterName :: string
  bs_platform :: string
  bs_steps :: "gomap option"
  bs_createdAt :: string
  bs_updatedAt :: string

abbreviation "StatusCreated \<equiv> ''created''"
abbreviation "StatusComplete \<equiv> ''complete''"
abbreviation "StatusRunning \<equiv> ''running''"
abbreviation "StatusFailed \<equiv> ''failed''"

text \<open>A file on disk holds a state or bytes that do not parse; a failing write may leave it torn.\<close>

datatype boot_file = Garbage | Stored boot_state
datatype disk_fault = DiskOk | DiskFails | DiskTears

record 'd boot_world =
  bw_boot :: "string \<rightharpoonup> boot_file"
  bw_out :: "string \<times> string \<rightharpoonup> string"
  bw_ops :: nat
  bw_disk :: "nat \<Rightarrow> disk_fault"
  bw_now :: string
  bw_ext :: 'd

datatype boot_error =
    ReadFailed | ParseFailed | WriteFailed | NilSteps
  | DockerDown | NetworkFailed | ListFailed | RemoveFailed
  | NoGenerator | GeneratorFailed | ConfigFailed | ContainerFailed
  | NotReady | HelmFailed | UnknownStep | StepFailed string boot_error

abbreviation diskTick :: "'d boot_world \<Rightarrow> 'd boot_world" where
  "diskTick w \<equiv> w\<lparr>bw_ops := Suc (bw_ops w)\<rparr>"

definition boot_Load :: "string \<Rightarrow> 'd boot_world \<Rightarrow> (boot_error + boot_state option) \<times> 'd boot_world" where
  "boot_Load c w =
     ((if bw_disk w (bw_ops w) \<noteq> DiskOk then Inl ReadFailed
       else (case bw_boot w c of None \<Rightarrow> Inr None | Some Garbage \<Rightarrow> Inl ParseFailed | Some (Stored s) \<Rightarrow> Inr (Some s))),
      diskTick w)"

definition boot_Save :: "boot_state \<Rightarrow> 'd boot_world \<Rightarrow> (boot_error + unit) \<times> 'd boot_world" where
  "boot_Save s w =
     (let s = s\<lparr>bs_updatedAt := bw_now w\<rparr>;
          s = (if bs_createdAt s = [] then s\<lparr>bs_createdAt := bs_updatedAt s\<rparr> else s) in
      case bw_disk w (bw_ops w) of
        DiskFails \<Rightarrow> (Inl WriteFailed, diskTick w)
      | DiskTears \<Rightarrow> (Inl WriteFailed, (diskTick w)\<lparr>bw_boot := (bw_boot w)(bs_clusterName s \<mapsto> Garbage)\<rparr>)
      | DiskOk \<Rightarrow> (Inr (), (diskTick w)\<lparr>bw_boot := (bw_boot w)(bs_clusterName s \<mapsto> Stored s)\<rparr>))"

text \<open>Assigning to a nil map panics.\<close>

definition boot_MarkStep :: "string \<Rightarrow> string \<Rightarrow> string \<Rightarrow> string \<Rightarrow> 'd boot_world \<Rightarrow> (boot_error + unit) \<times> 'd boot_world" where
  "boot_MarkStep c plat stepName status w =
     (case boot_Load c w of
        (Inl e, w) \<Rightarrow> (Inl e, w)
      | (Inr st, w) \<Rightarrow>
          (let s = (case st of Some s \<Rightarrow> s
             | None \<Rightarrow> \<lparr>bs_clusterName = c, bs_platform = plat, bs_steps = Some [], bs_createdAt = [], bs_updatedAt = []\<rparr>) in
           case bs_steps s of
             None \<Rightarrow> (Inl NilSteps, w)
           | Some m \<Rightarrow> boot_Save (s\<lparr>bs_steps := Some (AList.update stepName status m)\<rparr>) w))"

abbreviation stepsOf :: "boot_state option \<Rightarrow> gomap" where
  "stepsOf st \<equiv> (case st of None \<Rightarrow> [] | Some s \<Rightarrow> (case bs_steps s of None \<Rightarrow> [] | Some m \<Rightarrow> m))"

definition boot_IsStepComplete :: "string \<Rightarrow> string \<Rightarrow> 'd boot_world \<Rightarrow> (boot_error + bool) \<times> 'd boot_world" where
  "boot_IsStepComplete c stepName w =
     (case boot_Load c w of (Inl e, w) \<Rightarrow> (Inl e, w) | (Inr st, w) \<Rightarrow> (Inr (mget (stepsOf st) stepName = StatusComplete), w))"

definition boot_CompletedSteps :: "string \<Rightarrow> 'd boot_world \<Rightarrow> (boot_error + string list) \<times> 'd boot_world" where
  "boot_CompletedSteps c w =
     (case boot_Load c w of
        (Inl e, w) \<Rightarrow> (Inl e, w)
      | (Inr st, w) \<Rightarrow> (Inr (map fst (filter (\<lambda>(_, status). status = StatusComplete) (stepsOf st))), w))"

definition boot_Delete :: "string \<Rightarrow> 'd boot_world \<Rightarrow> (boot_error + unit) \<times> 'd boot_world" where
  "boot_Delete c w =
     (if bw_disk w (bw_ops w) \<noteq> DiskOk \<and> bw_boot w c \<noteq> None then (Inl WriteFailed, diskTick w)
      else (Inr (), (diskTick w)\<lparr>bw_boot := (bw_boot w)(c := None)\<rparr>))"

section \<open>The Docker platform\<close>

record 'g docker_platform =
  dp_k8sPort :: int
  dp_talosPort :: int
  dp_networkCIDR :: string
  dp_networkName :: string
  dp_gatewayIP :: string
  dp_generator :: "'g option"

abbreviation "TalosImage \<equiv> ''ghcr.io/siderolabs/talos:latest''"
abbreviation "DefaultNetworkCIDR \<equiv> ''10.5.0.0/24''"
abbreviation DefaultKubernetesPort :: int where "DefaultKubernetesPort \<equiv> 6443"
abbreviation DefaultTalosPort :: int where "DefaultTalosPort \<equiv> 50000"

definition ownedLabels :: "string \<Rightarrow> gomap" where
  "ownedLabels c = [(''rezus.cloud/owned'', ''true''), (''rezus.cloud/cluster'', c)]"

definition KubeconfigEndpoint :: "'g docker_platform \<Rightarrow> string" where
  "KubeconfigEndpoint d = ''https://127.0.0.1:'' @ itoa (dp_k8sPort d)"

definition TalosEndpoint :: "'g docker_platform \<Rightarrow> string" where
  "TalosEndpoint d = ''127.0.0.1:'' @ itoa (dp_talosPort d)"

definition docker_New :: "('d, 'g) boot_env \<Rightarrow> 'd \<Rightarrow> 'g docker_platform option \<times> 'd" where
  "docker_New env x =
     (case be_ports env x of
        (None, x) \<Rightarrow> (None, x)
      | (Some (k, t), x) \<Rightarrow> (Some \<lparr>dp_k8sPort = k, dp_talosPort = t, dp_networkCIDR = DefaultNetworkCIDR,
            dp_networkName = [], dp_gatewayIP = [], dp_generator = None\<rparr>, x))"

definition createNetwork :: "'d docker_client \<Rightarrow> string \<Rightarrow> 'g docker_platform \<Rightarrow> 'd \<Rightarrow>
    (boot_error + unit) \<times> 'g docker_platform \<times> 'd" where
  "createNetwork k c d x =
     (case dk_NetworkCreate k c (dp_networkCIDR d) (ownedLabels c) x of
        (None, x) \<Rightarrow> (Inl NetworkFailed, d, x)
      | (Some i, x) \<Rightarrow>
          (let d = d\<lparr>dp_networkName := i\<rparr> in
           case dk_NetworkInspect k i x of
             (None, x) \<Rightarrow> (Inl NetworkFailed, d, x)
           | (Some gws, x) \<Rightarrow>
               (Inr (), (case find (\<lambda>g. g \<noteq> []) gws of None \<Rightarrow> d | Some g \<Rightarrow> d\<lparr>dp_gatewayIP := g\<rparr>), x)))"

definition docker_Provision :: "'d docker_client \<Rightarrow> string \<Rightarrow> 'g docker_platform \<Rightarrow> 'd \<Rightarrow>
    (boot_error + unit) \<times> 'g docker_platform \<times> 'd" where
  "docker_Provision k c d x = createNetwork k c (d\<lparr>dp_networkName := c\<rparr>) x"

text \<open>Every removal is tried; the errors are collected.\<close>

fun removeAll :: "(string \<Rightarrow> 'd \<Rightarrow> bool \<times> 'd) \<Rightarrow> string list \<Rightarrow> 'd \<Rightarrow> bool \<times> 'd" where
  "removeAll rm [] x = (True, x)"
| "removeAll rm (i # is) x = (case rm i x of (ok, x) \<Rightarrow> case removeAll rm is x of (oks, x) \<Rightarrow> (ok \<and> oks, x))"

definition destroyNodes :: "'d docker_client \<Rightarrow> string \<Rightarrow> 'd \<Rightarrow> (boot_error + unit) \<times> 'd" where
  "destroyNodes k c x =
     (case dk_ContainerList k (ownedLabels c) x of
        (None, x) \<Rightarrow> (Inl ListFailed, x)
      | (Some is, x) \<Rightarrow> (case removeAll (dk_ContainerRemove k) is x of (ok, x) \<Rightarrow> (if ok then Inr () else Inl RemoveFailed, x)))"

text \<open>The networks are removed one by one up to the first error.\<close>

fun removeEach :: "(string \<Rightarrow> 'd \<Rightarrow> bool \<times> 'd) \<Rightarrow> string list \<Rightarrow> 'd \<Rightarrow> (boot_error + unit) \<times> 'd" where
  "removeEach rm [] x = (Inr (), x)"
| "removeEach rm (i # is) x = (case rm i x of (ok, x) \<Rightarrow> if ok then removeEach rm is x else (Inl RemoveFailed, x))"

definition destroyNetwork :: "'d docker_client \<Rightarrow> string \<Rightarrow> 'd \<Rightarrow> (boot_error + unit) \<times> 'd" where
  "destroyNetwork k c x =
     (case dk_NetworkList k (ownedLabels c) x of
        (None, x) \<Rightarrow> (Inl ListFailed, x)
      | (Some is, x) \<Rightarrow> removeEach (dk_NetworkRemove k) is x)"

definition docker_Destroy :: "'d docker_client \<Rightarrow> string \<Rightarrow> 'd \<Rightarrow> (boot_error + unit) \<times> 'd" where
  "docker_Destroy k c x = (case destroyNodes k c x of (Inl e, x) \<Rightarrow> (Inl e, x) | (Inr _, x) \<Rightarrow> destroyNetwork k c x)"

definition FindContainersByCluster :: "'d docker_client \<Rightarrow> string \<Rightarrow> 'd \<Rightarrow> (boot_error + string list) \<times> 'd" where
  "FindContainersByCluster k c x =
     (case dk_ContainerList k (ownedLabels c) x of (None, x) \<Rightarrow> (Inl ListFailed, x) | (Some is, x) \<Rightarrow> (Inr is, x))"

subsection \<open>Configurations\<close>

definition InClusterEndpoint :: "(string \<Rightarrow> string option) \<Rightarrow> string \<Rightarrow> int \<Rightarrow> string" where
  "InClusterEndpoint addr gw port =
     ''https://'' @ (case addr gw of None \<Rightarrow> gw | Some a \<Rightarrow> a) @ '':'' @ itoa port"

definition cli_NewGenerator :: "'g talos_library \<Rightarrow> string \<Rightarrow> string \<Rightarrow> string \<Rightarrow> 'g option" where
  "cli_NewGenerator lib name endpoint k8s =
     (if name = [] \<or> endpoint = [] then None else tl_input lib name endpoint (if k8s = [] then tl_defaultK8s lib else k8s))"

definition cli_GenerateKubeconfig :: "'g talos_library \<Rightarrow> 'g \<Rightarrow> string list \<Rightarrow> string option" where
  "cli_GenerateKubeconfig lib g endpoints =
     (let e = (case endpoints of [] \<Rightarrow> ''https://127.0.0.1:6443'' | e # _ \<Rightarrow> e) in
      tl_kubeconfig lib g (if hasPrefix e ''https://'' then e else ''https://'' @ e))"

definition docker_MachineConfig :: "'g talos_library \<Rightarrow> string \<Rightarrow> 'g docker_platform \<Rightarrow> boot_error + string" where
  "docker_MachineConfig lib role d =
     (case dp_generator d of
        None \<Rightarrow> Inl NoGenerator
      | Some g \<Rightarrow>
          (case tl_config lib g (if role = ''init'' then RoleInit else if role = ''worker'' then RoleWorker else RoleControlPlane) of
             None \<Rightarrow> Inl ConfigFailed | Some cfg \<Rightarrow> Inr cfg))"

definition docker_Kubeconfig :: "'g talos_library \<Rightarrow> 'g docker_platform \<Rightarrow> boot_error + string" where
  "docker_Kubeconfig lib d =
     (case dp_generator d of
        None \<Rightarrow> Inl NoGenerator
      | Some g \<Rightarrow> (case cli_GenerateKubeconfig lib g [KubeconfigEndpoint d] of None \<Rightarrow> Inl ConfigFailed | Some kc \<Rightarrow> Inr kc))"

subsection \<open>Containers\<close>

definition stdChar :: "nat \<Rightarrow> char" where
  "stdChar n = (if n = 62 then CHR ''+'' else if n = 63 then CHR ''/'' else b64Char n)"

fun stdEncode :: "nat list \<Rightarrow> string" where
  "stdEncode [] = []"
| "stdEncode [a] = [stdChar (a div 4), stdChar ((a mod 4) * 16), CHR ''='', CHR ''='']"
| "stdEncode [a, b] = [stdChar (a div 4), stdChar ((a mod 4) * 16 + b div 16), stdChar ((b mod 16) * 4), CHR ''='']"
| "stdEncode (a # b # c # r) =
     [stdChar (a div 4), stdChar ((a mod 4) * 16 + b div 16), stdChar ((b mod 16) * 4 + c div 64), stdChar (c mod 64)] @ stdEncode r"

definition talosMounts :: "(string \<times> string) list" where
  "talosMounts = map (Pair ''tmpfs'') [''/run'', ''/system'', ''/tmp''] @
     map (Pair ''volume'') [''/var'', ''/system/state'', ''/etc/cni'', ''/etc/kubernetes'', ''/usr/libexec/kubernetes'', ''/opt'']"

definition createContainer :: "'d docker_client \<Rightarrow> (int \<times> int) list \<Rightarrow> string \<Rightarrow> string \<Rightarrow> string \<Rightarrow> 'g docker_platform \<Rightarrow> 'd \<Rightarrow>
    (boot_error + string) \<times> 'd" where
  "createContainer k ports c name cfg d x =
     (case dk_ContainerCreate k \<lparr>cc_name = name, cc_image = TalosImage,
          cc_env = [''PLATFORM=container'', ''USERDATA='' @ stdEncode (map of_char cfg)], cc_labels = ownedLabels c,
          cc_ports = ports, cc_mounts = talosMounts, cc_network = dp_networkName d\<rparr> x of
        (None, x) \<Rightarrow> (Inl ContainerFailed, x)
      | (Some i, x) \<Rightarrow> (case dk_ContainerStart k i x of (ok, x) \<Rightarrow> (if ok then Inr i else Inl ContainerFailed, x)))"

definition CreateControlPlane :: "'d docker_client \<Rightarrow> string \<Rightarrow> string \<Rightarrow> string \<Rightarrow> 'g docker_platform \<Rightarrow> 'd \<Rightarrow> (boot_error + string) \<times> 'd" where
  "CreateControlPlane k c name cfg d =
     createContainer k [(DefaultTalosPort, dp_talosPort d), (DefaultKubernetesPort, dp_k8sPort d)] c name cfg d"

definition CreateWorker :: "'d docker_client \<Rightarrow> string \<Rightarrow> string \<Rightarrow> string \<Rightarrow> 'g docker_platform \<Rightarrow> 'd \<Rightarrow> (boot_error + string) \<times> 'd" where
  "CreateWorker k c name cfg d = createContainer k [] c name cfg d"

section \<open>Cilium through Helm\<close>

record cni_spec =
  cn_version :: string
  cn_tunnelType :: string
  cn_mtu :: int
  cn_ipv6CIDR :: string
  cn_apiHost :: string
  cn_apiPort :: int

definition enabled :: "bool \<Rightarrow> json" where "enabled b = JObj [(''enabled'', JBool b)]"

definition buildValues :: "cni_spec \<Rightarrow> int \<Rightarrow> (string \<times> json) list" where
  "buildValues s mtu =
     (let v = [(''kubeProxyReplacement'', JStr ''true''), (''routingMode'', JStr ''tunnel''), (''tunnelProtocol'', JStr ''geneve''),
               (''l7Proxy'', JBool True), (''operator'', JObj [(''replicas'', JNum 1)]), (''gatewayAPI'', enabled True),
               (''mtu'', JObj [(''value'', JNum mtu)])];
          v = (if cn_apiHost s \<noteq> [] then v @ [(''encryption'', enabled False), (''hostFirewall'', enabled False),
                 (''ipv4'', enabled True), (''ipv6'', enabled False), (''autoDirectNodeRoutes'', JBool False)] else v);
          v = (if cn_tunnelType s \<noteq> [] then AList.update ''tunnelProtocol'' (JStr (cn_tunnelType s)) v else v) in
      if cn_ipv6CIDR s \<noteq> [] then AList.update ''ipv6NativeRoutingCIDR'' (JStr (cn_ipv6CIDR s)) v else v)"

definition ciliumChart :: "cni_spec \<Rightarrow> chart_config" where
  "ciliumChart s =
     (let v = buildValues s (if cn_mtu s = 0 then 1500 else cn_mtu s);
          v = (if cn_apiHost s \<noteq> [] then AList.update ''k8sServicePort'' (JNum (cn_apiPort s))
                 (AList.update ''k8sServiceHost'' (JStr (cn_apiHost s)) v) else v) in
      \<lparr>ch_name = ''cilium'', ch_repository = ''https://helm.cilium.io'', ch_chart = ''cilium'',
       ch_version = (if cn_version s = [] then ''1.19.3'' else cn_version s), ch_namespace = ''kube-system'',
       ch_values = JObj v, ch_wait = True, ch_timeout = 600\<rparr>)"

definition IsInstalled :: "'d helm_library \<Rightarrow> string \<Rightarrow> string \<Rightarrow> string \<Rightarrow> 'd \<Rightarrow> bool option \<times> 'd" where
  "IsInstalled hl kc name ns x =
     (case hl_init hl kc ns x of (ok, x) \<Rightarrow>
        if \<not> ok then (None, x) else (case hl_get hl name x of (found, x) \<Rightarrow> (Some found, x)))"

definition helm_Install :: "'d helm_library \<Rightarrow> string \<Rightarrow> chart_config \<Rightarrow> 'd \<Rightarrow> (boot_error + unit) \<times> 'd" where
  "helm_Install hl kc ch x =
     (case hl_init hl kc (ch_namespace ch) x of (ok, x) \<Rightarrow>
        if \<not> ok then (Inl HelmFailed, x)
        else (case hl_chart hl ch x of (ok, x) \<Rightarrow>
          if \<not> ok then (Inl HelmFailed, x)
          else (case IsInstalled hl kc (ch_name ch) (ch_namespace ch) x of
                  (None, x) \<Rightarrow> (Inl HelmFailed, x)
                | (Some found, x) \<Rightarrow>
                    (case (if found then hl_upgrade hl ch x else hl_install hl ch x) of (ok, x) \<Rightarrow>
                       (if ok then Inr () else Inl HelmFailed, x)))))"

section \<open>Waiting for the endpoint\<close>

text \<open>
  The pause between two polls takes at least the three seconds it is set to, so the loop ends by its
  deadline: \<open>now\<close> is the time before a poll.
\<close>

definition pollHealthy :: "poll \<Rightarrow> bool" where
  "pollHealthy p = (case pl_status p of None \<Rightarrow> False | Some st \<Rightarrow> 200 \<le> st \<and> st < 500)"

abbreviation afterPoll :: "poll \<Rightarrow> gotime \<Rightarrow> gotime" where
  "afterPoll p now \<equiv> now + int (pl_cost p)"

abbreviation afterPause :: "poll \<Rightarrow> gotime \<Rightarrow> gotime" where
  "afterPause p now \<equiv> afterPoll p now + 3 * second + int (pl_late p)"

function waitForHTTP :: "('d \<Rightarrow> poll \<times> 'd) \<Rightarrow> gotime \<Rightarrow> gotime \<Rightarrow> 'd \<Rightarrow> bool \<times> 'd" where
  "waitForHTTP ask now deadline x =
     (let p = fst (ask x); y = snd (ask x) in
      if pollHealthy p then (True, y)
      else if deadline < afterPoll p now then (False, y)
      else if pl_cancelled p then (False, y)
      else waitForHTTP ask (afterPause p now) deadline y)"
  by pat_completeness auto
termination
  by (relation "measure (\<lambda>(ask, now, deadline, x). nat (deadline + 1 - now))") auto

declare waitForHTTP.simps [simp del]

section \<open>The orchestrator\<close>

record boot_spec =
  sp_clusterName :: string
  sp_kubernetesVersion :: string
  sp_ciliumVersion :: string
  sp_controlPlanes :: int
  sp_workers :: int

record boot_step =
  st_name :: string
  st_status :: string
  st_error :: "boot_error option"

record 'g orchestrator =
  or_docker :: "'g docker_platform"
  or_store :: bool
  or_spec :: boot_spec
  or_steps :: "boot_step list"
  or_events :: "(string \<times> string) list"

definition stepNames :: "string list" where
  "stepNames = [''auth'', ''provision'', ''generate-config'', ''create-nodes'', ''bootstrap'', ''install-cni'', ''verify'']"

definition NewDockerBootOrchestrator :: "'g docker_platform \<Rightarrow> bool \<Rightarrow> boot_spec \<Rightarrow> 'g orchestrator" where
  "NewDockerBootOrchestrator d store sp =
     \<lparr>or_docker = d, or_store = store, or_spec = sp,
      or_steps = map (\<lambda>n. \<lparr>st_name = n, st_status = [], st_error = None\<rparr>) stepNames, or_events = []\<rparr>"

type_synonym ('a, 'd, 'g) boot_act = "'g orchestrator \<Rightarrow> 'd boot_world \<Rightarrow> (boot_error + 'a) \<times> 'g orchestrator \<times> 'd boot_world"

definition emit :: "string \<Rightarrow> string \<Rightarrow> 'g orchestrator \<Rightarrow> 'g orchestrator" where
  "emit ev s o' = o'\<lparr>or_events := or_events o' @ [(ev, s)]\<rparr>"

definition markStatus :: "nat \<Rightarrow> string \<Rightarrow> boot_error option \<Rightarrow> 'g orchestrator \<Rightarrow> 'g orchestrator" where
  "markStatus i st e o' = o'\<lparr>or_steps := (or_steps o')[i := (or_steps o' ! i)\<lparr>st_status := st, st_error := e\<rparr>]\<rparr>"

definition stepAuth :: "('d, 'g) boot_env \<Rightarrow> (unit, 'd, 'g) boot_act" where
  "stepAuth env o' w =
     (case dk_ping (be_docker env) (bw_ext w) of (ok, x) \<Rightarrow> (if ok then Inr () else Inl DockerDown, o', w\<lparr>bw_ext := x\<rparr>))"

definition stepProvision :: "('d, 'g) boot_env \<Rightarrow> (unit, 'd, 'g) boot_act" where
  "stepProvision env o' w =
     (case docker_Provision (be_docker env) (sp_clusterName (or_spec o')) (or_docker o') (bw_ext w) of
        (r, d, x) \<Rightarrow> (r, o'\<lparr>or_docker := d\<rparr>, w\<lparr>bw_ext := x\<rparr>))"

text \<open>Writing one of the client configurations: every error is ignored.\<close>

definition writeOut :: "string \<Rightarrow> string \<Rightarrow> string option \<Rightarrow> 'd boot_world \<Rightarrow> 'd boot_world" where
  "writeOut c nm data w =
     (case data of
        None \<Rightarrow> w
      | Some t \<Rightarrow> (case bw_disk w (bw_ops w) of
            DiskOk \<Rightarrow> (diskTick w)\<lparr>bw_out := (bw_out w)((c, nm) \<mapsto> t)\<rparr>
          | DiskFails \<Rightarrow> diskTick w
          | DiskTears \<Rightarrow> (diskTick w)\<lparr>bw_out := (bw_out w)((c, nm) \<mapsto> [])\<rparr>))"

definition stepGenerateConfig :: "('d, 'g) boot_env \<Rightarrow> (unit, 'd, 'g) boot_act" where
  "stepGenerateConfig env o' w =
     (let d = or_docker o'; c = sp_clusterName (or_spec o') in
      case cli_NewGenerator (be_talos env) c (InClusterEndpoint (be_addr env) (dp_gatewayIP d) DefaultKubernetesPort)
             (sp_kubernetesVersion (or_spec o')) of
        None \<Rightarrow> (Inl GeneratorFailed, o', w)
      | Some g \<Rightarrow>
          (let w = writeOut c ''talosconfig'' (tl_talosconfig (be_talos env) g [KubeconfigEndpoint d]) w;
               w = writeOut c ''kubeconfig'' (cli_GenerateKubeconfig (be_talos env) g [KubeconfigEndpoint d]) w in
           (Inr (), o'\<lparr>or_docker := d\<lparr>dp_generator := Some g\<rparr>\<rparr>, w)))"

text \<open>The nodes to create: name, role and whether it is a control plane.\<close>

definition nodesOf :: "boot_spec \<Rightarrow> (string \<times> string \<times> bool) list" where
  "nodesOf sp =
     map (\<lambda>i. (sp_clusterName sp @ ''-controlplane-'' @ itoa (int i), if i = 0 then ''init'' else ''controlplane'', True))
       [0..<nat (sp_controlPlanes sp)] @
     map (\<lambda>i. (sp_clusterName sp @ ''-worker-'' @ itoa (int i), ''worker'', False)) [0..<nat (sp_workers sp)]"

fun createNodes :: "('d, 'g) boot_env \<Rightarrow> (string \<times> string \<times> bool) list \<Rightarrow> (unit, 'd, 'g) boot_act" where
  "createNodes env [] o' w = (Inr (), o', w)"
| "createNodes env ((name, role, cp) # ns) o' w =
     (let o' = emit ''create-node'' name o'; d = or_docker o'; c = sp_clusterName (or_spec o') in
      case docker_MachineConfig (be_talos env) role d of
        Inl e \<Rightarrow> (Inl e, o', w)
      | Inr cfg \<Rightarrow>
          (case (if cp then CreateControlPlane else CreateWorker) (be_docker env) c name cfg d (bw_ext w) of
             (Inl e, x) \<Rightarrow> (Inl e, o', w\<lparr>bw_ext := x\<rparr>)
           | (Inr _, x) \<Rightarrow> createNodes env ns o' (w\<lparr>bw_ext := x\<rparr>)))"

definition stepCreateNodes :: "('d, 'g) boot_env \<Rightarrow> (unit, 'd, 'g) boot_act" where
  "stepCreateNodes env o' w = createNodes env (nodesOf (or_spec o')) o' w"

definition stepWait :: "('d, 'g) boot_env \<Rightarrow> gotime \<Rightarrow> (unit, 'd, 'g) boot_act" where
  "stepWait env timeout o' w =
     (case waitForHTTP (be_poll env (KubeconfigEndpoint (or_docker o') @ ''/healthz'')) 0 timeout (bw_ext w) of
        (ok, x) \<Rightarrow> (if ok then Inr () else Inl NotReady, o', w\<lparr>bw_ext := x\<rparr>))"

definition stepBootstrap :: "('d, 'g) boot_env \<Rightarrow> (unit, 'd, 'g) boot_act" where
  "stepBootstrap env o' w = stepWait env (5 * minute) (emit ''bootstrap'' ''waiting'' o') w"

definition stepInstallCNI :: "('d, 'g) boot_env \<Rightarrow> (unit, 'd, 'g) boot_act" where
  "stepInstallCNI env o' w =
     (case docker_Kubeconfig (be_talos env) (or_docker o') of
        Inl e \<Rightarrow> (Inl e, o', w)
      | Inr kc \<Rightarrow>
          (case hl_fromBytes (be_helm env) kc (bw_ext w) of (ok, x) \<Rightarrow>
             if \<not> ok then (Inl HelmFailed, o', w\<lparr>bw_ext := x\<rparr>)
             else (case helm_Install (be_helm env) kc
                     (ciliumChart \<lparr>cn_version = sp_ciliumVersion (or_spec o'), cn_tunnelType = [], cn_mtu = 1500, cn_ipv6CIDR = [],
                        cn_apiHost = dp_gatewayIP (or_docker o'), cn_apiPort = DefaultKubernetesPort\<rparr>) x of
                     (r, x) \<Rightarrow> (r, o', w\<lparr>bw_ext := x\<rparr>))))"

definition stepVerify :: "('d, 'g) boot_env \<Rightarrow> (unit, 'd, 'g) boot_act" where
  "stepVerify env = stepWait env (30 * second)"

definition executeStep :: "('d, 'g) boot_env \<Rightarrow> string \<Rightarrow> (unit, 'd, 'g) boot_act" where
  "executeStep env name =
     (if name = ''auth'' then stepAuth env else if name = ''provision'' then stepProvision env
      else if name = ''generate-config'' then stepGenerateConfig env else if name = ''create-nodes'' then stepCreateNodes env
      else if name = ''bootstrap'' then stepBootstrap env else if name = ''install-cni'' then stepInstallCNI env
      else if name = ''verify'' then stepVerify env else (\<lambda>o' w. (Inl UnknownStep, o', w)))"

subsection \<open>Progress\<close>

definition loadCompletedSteps :: "'g orchestrator \<Rightarrow> 'd boot_world \<Rightarrow> (boot_error + string list) \<times> 'd boot_world" where
  "loadCompletedSteps o' w = (if or_store o' then boot_CompletedSteps (sp_clusterName (or_spec o')) w else (Inr [], w))"

text \<open>The error of a mark is dropped; the panic is not an error.\<close>

definition markIgnored :: "string \<Rightarrow> string \<Rightarrow> string \<Rightarrow> 'd boot_world \<Rightarrow> (boot_error + unit) \<times> 'd boot_world" where
  "markIgnored c stepName status w =
     (case boot_MarkStep c ''docker'' stepName status w of
        (Inl NilSteps, w) \<Rightarrow> (Inl NilSteps, w)
      | (_, w) \<Rightarrow> (Inr (), w))"

definition recordStepComplete :: "string \<Rightarrow> 'g orchestrator \<Rightarrow> 'd boot_world \<Rightarrow> (boot_error + unit) \<times> 'd boot_world" where
  "recordStepComplete stepName o' w =
     (if or_store o' then markIgnored (sp_clusterName (or_spec o')) stepName StatusComplete w else (Inr (), w))"

fun resetSteps :: "string \<Rightarrow> string list \<Rightarrow> 'd boot_world \<Rightarrow> (boot_error + unit) \<times> 'd boot_world" where
  "resetSteps c [] w = (Inr (), w)"
| "resetSteps c (n # ns) w = (case markIgnored c n StatusCreated w of (Inl e, w) \<Rightarrow> (Inl e, w) | (Inr _, w) \<Rightarrow> resetSteps c ns w)"

definition detectDrift :: "('d, 'g) boot_env \<Rightarrow> (unit, 'd, 'g) boot_act" where
  "detectDrift env o' w =
     (let c = sp_clusterName (or_spec o') in
      if \<not> or_store o' then (Inr (), o', w)
      else case boot_CompletedSteps c w of
        (Inl e, w) \<Rightarrow> (Inl e, o', w)
      | (Inr done', w) \<Rightarrow>
          if length done' < length (or_steps o') then (Inr (), o', w)
          else (case FindContainersByCluster (be_docker env) c (bw_ext w) of
                  (Inl e, x) \<Rightarrow> (Inl e, o', w\<lparr>bw_ext := x\<rparr>)
                | (Inr is, x) \<Rightarrow>
                    if is \<noteq> [] then (Inr (), o', w\<lparr>bw_ext := x\<rparr>)
                    else (let o' = emit ''drift-detected'' [] o';
                              w = w\<lparr>bw_ext := snd (destroyNetwork (be_docker env) c x)\<rparr> in
                          case resetSteps c (map st_name (or_steps o')) w of (r, w) \<Rightarrow> (r, o', w))))"

text \<open>The loop over the steps, by index.\<close>

fun runSteps :: "('d, 'g) boot_env \<Rightarrow> string list \<Rightarrow> nat list \<Rightarrow> (unit, 'd, 'g) boot_act" where
  "runSteps env done' [] o' w = (Inr (), o', w)"
| "runSteps env done' (i # is) o' w =
     (let name = st_name (or_steps o' ! i) in
      if name \<in> set done' then runSteps env done' is (emit ''step-skipped'' name (markStatus i StatusComplete (st_error (or_steps o' ! i)) o')) w
      else case executeStep env name (emit ''step-start'' name (markStatus i StatusRunning (st_error (or_steps o' ! i)) o')) w of
        (Inl e, o', w) \<Rightarrow> (Inl (StepFailed name e), emit ''step-failed'' name (markStatus i StatusFailed (Some e) o'), w)
      | (Inr _, o', w) \<Rightarrow>
          (let o' = markStatus i StatusComplete (st_error (or_steps o' ! i)) o' in
           case recordStepComplete name o' w of
             (Inl e, w) \<Rightarrow> (Inl e, o', w)
           | (Inr _, w) \<Rightarrow> runSteps env done' is (emit ''step-complete'' name o') w))"

definition boot_Run :: "('d, 'g) boot_env \<Rightarrow> (unit, 'd, 'g) boot_act" where
  "boot_Run env o' w =
     (case detectDrift env o' w of
        (Inl e, o', w) \<Rightarrow> (Inl e, o', w)
      | (Inr _, o', w) \<Rightarrow>
          (case loadCompletedSteps o' w of
             (Inl e, w) \<Rightarrow> (Inl e, o', w)
           | (Inr done', w) \<Rightarrow>
               (case runSteps env done' [0..<length (or_steps o')] o' w of
                  (Inl e, o', w) \<Rightarrow> (Inl e, o', w)
                | (Inr _, o', w) \<Rightarrow> (Inr (), emit ''boot-complete'' [] o', w))))"

definition indexOf :: "string \<Rightarrow> boot_step list \<Rightarrow> nat option" where
  "indexOf n ss = find (\<lambda>i. st_name (ss ! i) = n) [0..<length ss]"

definition RunPartial :: "('d, 'g) boot_env \<Rightarrow> string \<Rightarrow> (unit, 'd, 'g) boot_act" where
  "RunPartial env target o' w =
     (case indexOf target (or_steps o') of
        None \<Rightarrow> (Inl UnknownStep, o', w)
      | Some t \<Rightarrow>
          (case loadCompletedSteps o' w of
             (Inl e, w) \<Rightarrow> (Inl e, o', w)
           | (Inr done', w) \<Rightarrow> runSteps env done' [0..<Suc t] o' w))"

record boot_progress_view =
  pg_totalSteps :: nat
  pg_currentStep :: nat
  pg_complete :: bool

definition boot_Status :: "'g orchestrator \<Rightarrow> boot_progress_view" where
  "boot_Status o' =
     (let n = length (or_steps o');
          cur = fold (\<lambda>i cur. if st_status (or_steps o' ! i) = StatusComplete then Suc i else cur) [0..<n] 0 in
      \<lparr>pg_totalSteps = n, pg_currentStep = cur, pg_complete = (cur = n)\<rparr>)"

definition boot_Destroy :: "('d, 'g) boot_env \<Rightarrow> (unit, 'd, 'g) boot_act" where
  "boot_Destroy env o' w =
     (case docker_Destroy (be_docker env) (sp_clusterName (or_spec o')) (bw_ext w) of (r, x) \<Rightarrow> (r, o', w\<lparr>bw_ext := x\<rparr>))"

section \<open>The command\<close>

record boot_options =
  bo_clusterName :: string
  bo_platform :: string
  bo_controlPlanes :: int
  bo_workers :: int
  bo_talosVersion :: string
  bo_ciliumVersion :: string
  bo_stateDir :: string

definition boot_DefaultOptions :: boot_options where
  "boot_DefaultOptions = \<lparr>bo_clusterName = ''rezuscloud'', bo_platform = ''docker'', bo_controlPlanes = 1, bo_workers = 0,
     bo_talosVersion = ''latest'', bo_ciliumVersion = ''1.19.3'', bo_stateDir = ''.rezusctl''\<rparr>"

definition boot_envOr :: "(string \<Rightarrow> string) \<Rightarrow> string \<Rightarrow> string \<Rightarrow> string" where
  "boot_envOr getenv key fallback = (if getenv key \<noteq> [] then getenv key else fallback)"

definition boot_Complete :: "(string \<Rightarrow> string) \<Rightarrow> boot_options \<Rightarrow> boot_options" where
  "boot_Complete getenv b =
     b\<lparr>bo_clusterName := (if bo_clusterName b = [] then boot_envOr getenv ''REZUSCTL_CLUSTER_NAME'' ''rezuscloud'' else bo_clusterName b),
       bo_stateDir := (if bo_stateDir b = [] then boot_envOr getenv ''REZUSCTL_STATE_DIR'' ''.rezusctl'' else bo_stateDir b),
       bo_talosVersion := (if bo_talosVersion b \<in> {[], ''latest''} then boot_envOr getenv ''REZUSCTL_TALOS_VERSION'' (bo_talosVersion b) else bo_talosVersion b),
       bo_ciliumVersion := (if bo_ciliumVersion b = [] then boot_envOr getenv ''REZUSCTL_CILIUM_VERSION'' [] else bo_ciliumVersion b)\<rparr>"

datatype options_error = BadPlatform | TooFewControlPlanes | TooManyControlPlanes | NoDocker | BootFailed boot_error

definition boot_Validate :: "boot_options \<Rightarrow> options_error option" where
  "boot_Validate b =
     (if bo_platform b \<noteq> ''docker'' \<and> bo_platform b \<noteq> ''qemu'' then Some BadPlatform
      else if bo_controlPlanes b < 1 then Some TooFewControlPlanes
      else if 1 < bo_controlPlanes b \<and> bo_platform b = ''docker'' then Some TooManyControlPlanes else None)"

definition bootDocker :: "('d, 'g) boot_env \<Rightarrow> boot_options \<Rightarrow> 'd boot_world \<Rightarrow> (options_error + unit) \<times> 'd boot_world" where
  "bootDocker env b w =
     (case docker_New env (bw_ext w) of
        (None, x) \<Rightarrow> (Inl NoDocker, w\<lparr>bw_ext := x\<rparr>)
      | (Some d, x) \<Rightarrow>
          (case boot_Run env (NewDockerBootOrchestrator d True \<lparr>sp_clusterName = bo_clusterName b, sp_kubernetesVersion = ''1.35.0'',
                  sp_ciliumVersion = bo_ciliumVersion b, sp_controlPlanes = bo_controlPlanes b, sp_workers = bo_workers b\<rparr>)
                  (w\<lparr>bw_ext := x\<rparr>) of
             (Inl e, _, w) \<Rightarrow> (Inl (BootFailed e), w)
           | (Inr _, _, w) \<Rightarrow> (Inr (), w)))"

definition options_Run :: "('d, 'g) boot_env \<Rightarrow> boot_options \<Rightarrow> 'd boot_world \<Rightarrow> (options_error + unit) \<times> 'd boot_world" where
  "options_Run env b w = (if bo_platform b = ''docker'' then bootDocker env b w else (Inl BadPlatform, w))"

definition newBootCmd :: "('d, 'g) boot_env \<Rightarrow> (string \<Rightarrow> string) \<Rightarrow> boot_options \<Rightarrow> 'd boot_world \<Rightarrow> (options_error + unit) \<times> 'd boot_world" where
  "newBootCmd env getenv b w =
     (let b = boot_Complete getenv b in
      case boot_Validate b of Some e \<Rightarrow> (Inl e, w) | None \<Rightarrow> options_Run env b w)"

end
