(* ===== verification/Boot_Props.thy ===== *)
theory Boot_Props
  imports Boot
begin

text \<open>
  What a run of the boot command does to the record of finished steps: the steps run in order, each one
  only after the ones before it, and a failure keeps exactly the finished ones. And what a resumed run
  cannot do: the generator of the configurations lives in the process that ran the step generate-config.
\<close>

section \<open>The record\<close>

definition stepsAt :: "string \<Rightarrow> 'd boot_world \<Rightarrow> gomap" where
  "stepsAt c w = (case bw_boot w c of Some (Stored s) \<Rightarrow> (case bs_steps s of Some m \<Rightarrow> m | None \<Rightarrow> []) | _ \<Rightarrow> [])"

abbreviation finished :: "string \<Rightarrow> 'd boot_world \<Rightarrow> string \<Rightarrow> bool" where
  "finished c w n \<equiv> mget (stepsAt c w) n = StatusComplete"

text \<open>A record the tool wrote: of this cluster, with the names of the seven steps only.\<close>

definition ownRecord :: "string \<Rightarrow> 'd boot_world \<Rightarrow> bool" where
  "ownRecord c w = (case bw_boot w c of
       None \<Rightarrow> True
     | Some Garbage \<Rightarrow> False
     | Some (Stored s) \<Rightarrow> bs_clusterName s = c \<and> (case bs_steps s of None \<Rightarrow> False
         | Some m \<Rightarrow> distinct (map fst m) \<and> fst ` set m \<subseteq> set stepNames))"

abbreviation diskHealthy :: "'d boot_world \<Rightarrow> bool" where
  "diskHealthy w \<equiv> \<forall>i. bw_disk w i = DiskOk"

definition recorded :: "string \<Rightarrow> 'd boot_world \<Rightarrow> string list" where
  "recorded c w = map fst (filter (\<lambda>(_, st). st = StatusComplete) (stepsAt c w))"

lemma ownRecord_steps:
  "ownRecord c w \<Longrightarrow> distinct (map fst (stepsAt c w)) \<and> fst ` set (stepsAt c w) \<subseteq> set stepNames"
  by (auto simp: ownRecord_def stepsAt_def split: option.splits boot_file.splits)

lemma recorded_iff: "distinct (map fst (stepsAt c w)) \<Longrightarrow> n \<in> set (recorded c w) \<longleftrightarrow> finished c w n"
proof -
  assume d: "distinct (map fst (stepsAt c w))"
  have "n \<in> set (recorded c w) \<longleftrightarrow> (n, StatusComplete) \<in> set (stepsAt c w)"
    by (auto simp: recorded_def image_iff)
  also have "\<dots> \<longleftrightarrow> map_of (stepsAt c w) n = Some StatusComplete"
    using d by simp
  also have "\<dots> \<longleftrightarrow> finished c w n"
    by (auto simp: mget_def split: option.splits)
  finally show ?thesis .
qed

lemma recorded_length:
  assumes "ownRecord c w" "n \<in> set stepNames" "\<not> finished c w n"
  shows "length (recorded c w) < length stepNames"
proof -
  note o = ownRecord_steps [OF assms(1)]
  have "distinct (recorded c w)"
    using o by (simp add: recorded_def distinct_map_filter)
  then have "length (recorded c w) = card (set (recorded c w))"
    by (simp add: distinct_card)
  also have "set (recorded c w) \<subset> set stepNames"
    using o assms(2,3) recorded_iff [of c w n] by (auto simp: recorded_def)
  then have "card (set (recorded c w)) < card (set stepNames)"
    by (simp add: psubset_card_mono)
  also have "card (set stepNames) \<le> length stepNames"
    by (rule card_length)
  finally show ?thesis .
qed

lemma CompletedSteps_eq:
  "ownRecord c w \<Longrightarrow> boot_CompletedSteps c w =
     ((if bw_disk w (bw_ops w) \<noteq> DiskOk then Inl ReadFailed else Inr (recorded c w)), diskTick w)"
  by (auto simp: boot_CompletedSteps_def boot_Load_def ownRecord_def recorded_def stepsAt_def
      split: option.splits boot_file.splits)

text \<open>A mark on a record of the tool, whatever the disk does, leaves the record, updates it or tears it.\<close>

lemma Save_cases:
  fixes s :: boot_state
  assumes "boot_Save s w = (r, w')"
  shows "r \<noteq> Inl NilSteps \<and> bw_disk w' = bw_disk w \<and> bw_ext w' = bw_ext w \<and>
    (r = Inl WriteFailed \<and> bw_boot w' = bw_boot w \<and> \<not> diskHealthy w \<or>
     r = Inl WriteFailed \<and> bw_boot w' = (bw_boot w)(bs_clusterName s \<mapsto> Garbage) \<and> \<not> diskHealthy w \<or>
     r = Inr () \<and> (\<exists>s'. bw_boot w' = (bw_boot w)(bs_clusterName s \<mapsto> Stored s') \<and> bs_clusterName s' = bs_clusterName s \<and>
       bs_steps s' = bs_steps s))"
proof (cases "bw_disk w (bw_ops w)")
  case DiskOk
  define s' where "s' = (let s = s\<lparr>bs_updatedAt := bw_now w\<rparr> in if bs_createdAt s = [] then s\<lparr>bs_createdAt := bs_updatedAt s\<rparr> else s)"
  have s': "bs_clusterName s' = bs_clusterName s" "bs_steps s' = bs_steps s"
    by (simp_all add: s'_def Let_def)
  have "r = Inr ()" "w' = (diskTick w)\<lparr>bw_boot := (bw_boot w)(bs_clusterName s' \<mapsto> Stored s')\<rparr>"
    using assms DiskOk by (simp_all add: boot_Save_def s'_def Let_def split: if_splits)
  then show ?thesis
    using s' by simp blast
next
  case DiskFails
  then have "\<not> diskHealthy w"
    by (metis disk_fault.distinct(1))
  then show ?thesis
    using assms DiskFails by (auto simp: boot_Save_def Let_def)
next
  case DiskTears
  then have "\<not> diskHealthy w"
    by (metis disk_fault.distinct(3))
  then show ?thesis
    using assms DiskTears by (auto simp: boot_Save_def Let_def)
qed

lemma ownRecord_Stored:
  "bw_boot w c = Some (Stored s) \<Longrightarrow> bs_clusterName s = c \<Longrightarrow> bs_steps s = Some m \<Longrightarrow>
   distinct (map fst m) \<Longrightarrow> fst ` set m \<subseteq> set stepNames \<Longrightarrow> ownRecord c w \<and> stepsAt c w = m"
  by (simp add: ownRecord_def stepsAt_def)

lemma MarkStep_cases:
  assumes o: "ownRecord c w" and n: "n \<in> set stepNames" and m: "boot_MarkStep c plat n st w = (r, w')"
  shows "r \<noteq> Inl NilSteps \<and> bw_disk w' = bw_disk w \<and> bw_ext w' = bw_ext w \<and>
    (bw_boot w' = bw_boot w \<or> bw_boot w' c = Some Garbage \<or>
     ownRecord c w' \<and> stepsAt c w' = AList.update n st (stepsAt c w)) \<and>
    (diskHealthy w \<longrightarrow> ownRecord c w' \<and> stepsAt c w' = AList.update n st (stepsAt c w))"
proof (cases "bw_disk w (bw_ops w) = DiskOk")
  case False
  then show ?thesis
    using m by (auto simp: boot_MarkStep_def boot_Load_def)
next
  case ok: True
  let ?m = "AList.update n st (stepsAt c w)"
  have u: "distinct (map fst ?m)" "fst ` set ?m \<subseteq> set stepNames"
    using ownRecord_steps [OF o] n by (auto simp: distinct_update dom_update)
  define s where "s = (case bw_boot w c of Some (Stored s) \<Rightarrow> s | _ \<Rightarrow>
    \<lparr>bs_clusterName = c, bs_platform = plat, bs_steps = Some [], bs_createdAt = [], bs_updatedAt = []\<rparr>)\<lparr>bs_steps := Some ?m\<rparr>"
  have "boot_MarkStep c plat n st w = boot_Save s (diskTick w)"
    using o ok by (auto simp: s_def boot_MarkStep_def boot_Load_def ownRecord_def stepsAt_def Let_def
        split: option.splits boot_file.splits)
  then have s: "bs_clusterName s = c" "bs_steps s = Some ?m" "boot_Save s (diskTick w) = (r, w')"
    using o m by (auto simp: s_def ownRecord_def split: option.splits boot_file.splits)
  note sc = Save_cases [OF s(3)]
  have "\<not> diskHealthy w \<and> (bw_boot w' = bw_boot w \<or> bw_boot w' c = Some Garbage) \<or>
    (\<exists>s'. bw_boot w' c = Some (Stored s') \<and> bs_clusterName s' = c \<and> bs_steps s' = Some ?m)"
    using sc s(1,2) by auto
  then have "\<not> diskHealthy w \<and> (bw_boot w' = bw_boot w \<or> bw_boot w' c = Some Garbage) \<or> ownRecord c w' \<and> stepsAt c w' = ?m"
    using ownRecord_Stored [OF _ _ _ u] by blast
  then show ?thesis
    using sc by auto
qed

lemma markIgnored_cases:
  assumes "ownRecord c w" "n \<in> set stepNames"
  obtains w' where "markIgnored c n st w = (Inr (), w')" "bw_disk w' = bw_disk w" "bw_ext w' = bw_ext w"
    "bw_boot w' = bw_boot w \<or> bw_boot w' c = Some Garbage \<or> ownRecord c w' \<and> stepsAt c w' = AList.update n st (stepsAt c w)"
    "diskHealthy w \<Longrightarrow> ownRecord c w' \<and> stepsAt c w' = AList.update n st (stepsAt c w)"
proof -
  obtain r w' where m: "boot_MarkStep c ''docker'' n st w = (r, w')"
    by fastforce
  note q = MarkStep_cases [OF assms m]
  have "markIgnored c n st w = (Inr (), w')"
    using q by (auto simp: markIgnored_def m split: sum.splits boot_error.splits)
  then show ?thesis
    using that q by blast
qed

section \<open>What a step may change\<close>

definition started :: "'g orchestrator \<Rightarrow> string list" where
  "started o' = map snd (filter (\<lambda>(ev, _). ev = ''step-start'') (or_events o'))"

text \<open>No step touches the record, the names of the steps or the trace of starts; only one sets the generator.\<close>

definition sameBoot :: "'g orchestrator \<Rightarrow> 'd boot_world \<Rightarrow> 'g orchestrator \<Rightarrow> 'd boot_world \<Rightarrow> bool" where
  "sameBoot o' w o1 w1 \<longleftrightarrow> bw_boot w1 = bw_boot w \<and> bw_disk w1 = bw_disk w \<and> or_store o1 = or_store o' \<and>
     or_spec o1 = or_spec o' \<and> map st_name (or_steps o1) = map st_name (or_steps o') \<and> started o1 = started o'"

lemma sameBoot_refl [simp]: "sameBoot o' w o' w"
  by (simp add: sameBoot_def)

lemma started_emit [simp]: "started (emit ev n o') = started o' @ (if ev = ''step-start'' then [n] else [])"
  by (simp add: started_def emit_def)

lemma emit_fields [simp]:
  "or_steps (emit ev n o') = or_steps o'" "or_store (emit ev n o') = or_store o'"
  "or_spec (emit ev n o') = or_spec o'" "or_docker (emit ev n o') = or_docker o'"
  by (simp_all add: emit_def)

lemma markStatus_fields [simp]:
  "map st_name (or_steps (markStatus i s e o')) = map st_name (or_steps o')"
  "or_store (markStatus i s e o') = or_store o'" "or_spec (markStatus i s e o') = or_spec o'"
  "or_docker (markStatus i s e o') = or_docker o'" "started (markStatus i s e o') = started o'"
proof -
  show "map st_name (or_steps (markStatus i s e o')) = map st_name (or_steps o')"
    by (cases "i < length (or_steps o')") (simp_all add: markStatus_def map_update list_update_same_conv list_update_beyond)
qed (simp_all add: markStatus_def started_def)

lemma createNodes_same:
  "createNodes env ns o' w = (r, o1, w1) \<Longrightarrow> sameBoot o' w o1 w1 \<and> or_docker o1 = or_docker o'"
proof (induction ns arbitrary: o' w)
  case (Cons nd ns)
  obtain name role cp where nd: "nd = (name, role, cp)"
    by (cases nd)
  let ?o = "emit ''create-node'' name o'"
  show ?case
  proof (cases "docker_MachineConfig (be_talos env) role (or_docker o')")
    case (Inl e)
    then show ?thesis
      using Cons.prems by (auto simp: nd Let_def sameBoot_def)
  next
    case (Inr cfg)
    obtain q x where q: "(if cp then CreateControlPlane else CreateWorker) (be_docker env) (sp_clusterName (or_spec o')) name cfg
        (or_docker o') (bw_ext w) = (q, x)"
      by fastforce
    have s: "sameBoot o' w ?o (w\<lparr>bw_ext := x\<rparr>)"
      by (simp add: sameBoot_def)
    show ?thesis
    proof (cases q)
      case (Inl e)
      then show ?thesis
        using Cons.prems s by (auto simp: nd Let_def Inr q)
    next
      case ok: (Inr i)
      then have "createNodes env ns ?o (w\<lparr>bw_ext := x\<rparr>) = (r, o1, w1)"
        using Cons.prems by (simp add: nd Let_def Inr q)
      then show ?thesis
        using Cons.IH s by (fastforce simp: sameBoot_def)
    qed
  qed
qed simp

lemma writeOut_same [simp]: "bw_boot (writeOut c nm t w) = bw_boot w" "bw_disk (writeOut c nm t w) = bw_disk w"
  by (simp_all add: writeOut_def split: option.splits disk_fault.splits)

lemma createNetwork_generator:
  "createNetwork k c d x = (r, d1, x1) \<Longrightarrow> dp_generator d1 = dp_generator d"
  by (auto simp: createNetwork_def Let_def split: prod.splits option.splits)

lemma stepWait_same: "stepWait env t o' w = (r, o1, w1) \<Longrightarrow> sameBoot o' w o1 w1 \<and> or_docker o1 = or_docker o'"
  by (auto simp: stepWait_def sameBoot_def split: prod.splits)

lemma stepInstallCNI_same: "stepInstallCNI env o' w = (r, o1, w1) \<Longrightarrow> sameBoot o' w o1 w1 \<and> or_docker o1 = or_docker o'"
  by (auto simp: stepInstallCNI_def sameBoot_def split: sum.splits prod.splits if_splits)

lemma stepGenerateConfig_same: "stepGenerateConfig env o' w = (r, o1, w1) \<Longrightarrow> sameBoot o' w o1 w1"
  by (auto simp: stepGenerateConfig_def sameBoot_def Let_def started_def split: option.splits)

lemma stepProvision_same:
  "stepProvision env o' w = (r, o1, w1) \<Longrightarrow> sameBoot o' w o1 w1 \<and> dp_generator (or_docker o1) = dp_generator (or_docker o')"
  by (auto simp: stepProvision_def docker_Provision_def sameBoot_def started_def split: prod.splits dest: createNetwork_generator)

lemma executeStep_same:
  assumes "executeStep env n o' w = (r, o1, w1)"
  shows "sameBoot o' w o1 w1" "n \<noteq> ''generate-config'' \<Longrightarrow> dp_generator (or_docker o1) = dp_generator (or_docker o')"
proof -
  have b: "sameBoot (emit ''bootstrap'' x o') w o1 w1 \<Longrightarrow> sameBoot o' w o1 w1" for x
    by (simp add: sameBoot_def)
  have a: "stepAuth env o' w = (r, o1, w1) \<Longrightarrow> sameBoot o' w o1 w1 \<and> or_docker o1 = or_docker o'"
    by (auto simp: stepAuth_def sameBoot_def split: prod.splits)
  note all = a stepProvision_same stepGenerateConfig_same createNodes_same stepWait_same stepInstallCNI_same
  show "sameBoot o' w o1 w1"
    using assms b
    by (auto simp: executeStep_def stepCreateNodes_def stepBootstrap_def stepVerify_def split: if_splits dest!: all)
  show "dp_generator (or_docker o1) = dp_generator (or_docker o')" if "n \<noteq> ''generate-config''"
    using assms that
    by (auto simp: executeStep_def stepCreateNodes_def stepBootstrap_def stepVerify_def split: if_splits dest!: all)
qed

section \<open>The loop\<close>

abbreviation markAll :: "string list \<Rightarrow> gomap \<Rightarrow> gomap" where
  "markAll ns m \<equiv> fold (\<lambda>n. AList.update n StatusComplete) ns m"

lemma mget_markAll: "mget (markAll ns m) n = (if n \<in> set ns then StatusComplete else mget m n)"
  by (induction ns arbitrary: m) auto

text \<open>The loop over the indices \<open>is\<close> with a healthy disk.\<close>

definition loopSpec :: "string \<Rightarrow> string list \<Rightarrow> 'g orchestrator \<Rightarrow> 'd boot_world \<Rightarrow>
    (boot_error + unit) \<Rightarrow> 'g orchestrator \<Rightarrow> 'd boot_world \<Rightarrow> bool" where
  "loopSpec c pend o' w r o1 w1 \<longleftrightarrow> ownRecord c w1 \<and> bw_disk w1 = bw_disk w \<and>
     (r = Inr () \<and> started o1 = started o' @ pend \<and> stepsAt c w1 = markAll pend (stepsAt c w) \<or>
      (\<exists>fine n rest e. pend = fine @ n # rest \<and> r = Inl (StepFailed n e) \<and> started o1 = started o' @ fine @ [n] \<and>
         stepsAt c w1 = markAll fine (stepsAt c w)))"

lemma loopSpec_Cons:
  assumes "loopSpec c pend o2 w2 r o1 w1" "started o2 = started o' @ [n]" "stepsAt c w2 = AList.update n StatusComplete (stepsAt c w)"
    "bw_disk w2 = bw_disk w"
  shows "loopSpec c (n # pend) o' w r o1 w1"
proof -
  have "\<exists>fine' m rest' e'. n # pend = fine' @ m # rest' \<and> r = Inl (StepFailed m e') \<and> started o1 = started o' @ fine' @ [m] \<and>
      stepsAt c w1 = markAll fine' (stepsAt c w)"
    if "pend = fine @ m # rest" "r = Inl (StepFailed m e)" "started o1 = started o2 @ fine @ [m]"
      "stepsAt c w1 = markAll fine (stepsAt c w2)" for fine m rest e
    using that assms(2,3) by (intro exI [of _ "n # fine"] exI [of _ m] exI [of _ rest] exI [of _ e]) simp
  then show ?thesis
    using assms unfolding loopSpec_def by fastforce
qed

lemma runSteps_spec:
  assumes "map st_name (or_steps o') = stepNames" "set is \<subseteq> {..<length stepNames}" "or_store o'" "sp_clusterName (or_spec o') = c"
    "ownRecord c w" "diskHealthy w" "runSteps env done' is o' w = (r, o1, w1)"
  shows "loopSpec c (filter (\<lambda>n. n \<notin> set done') (map (nth stepNames) is)) o' w r o1 w1"
  using assms
proof (induction "is" arbitrary: o' w)
  case Nil
  then show ?case
    by (auto simp: loopSpec_def)
next
  case (Cons i "is")
  define n where "n = stepNames ! i"
  have i: "i < length stepNames"
    using Cons.prems(2) by simp
  have nm: "st_name (or_steps o' ! i) = n"
    using arg_cong [OF Cons.prems(1), of "\<lambda>l. l ! i"] i arg_cong [OF Cons.prems(1), of length] by (simp add: n_def)
  have mem: "n \<in> set stepNames"
    using i by (simp add: n_def)
  show ?case
  proof (cases "n \<in> set done'")
    case True
    let ?o = "emit ''step-skipped'' n (markStatus i StatusComplete (st_error (or_steps o' ! i)) o')"
    have run: "runSteps env done' is ?o w = (r, o1, w1)"
      using Cons.prems(7) True by (simp add: nm)
    have "loopSpec c (filter (\<lambda>n. n \<notin> set done') (map (nth stepNames) is)) ?o w r o1 w1"
      using Cons.prems by (intro Cons.IH [OF _ _ _ _ _ _ run]) auto
    then show ?thesis
      using True by (simp add: loopSpec_def n_def [symmetric])
  next
    case False
    let ?o = "emit ''step-start'' n (markStatus i StatusRunning (st_error (or_steps o' ! i)) o')"
    obtain q o2 w2 where q: "executeStep env n ?o w = (q, o2, w2)"
      by (metis prod_cases3)
    have s: "sameBoot ?o w o2 w2"
      using executeStep_same(1) [OF q] .
    have own: "ownRecord c w2" "stepsAt c w2 = stepsAt c w"
      using s Cons.prems(5) by (simp_all add: sameBoot_def ownRecord_def stepsAt_def)
    show ?thesis
    proof (cases q)
      case (Inl e)
      then have "r = Inl (StepFailed n e)" "o1 = emit ''step-failed'' n (markStatus i StatusFailed (Some e) o2)" "w1 = w2"
        using Cons.prems(7) False q by (simp_all add: nm)
      then show ?thesis
        using False s own by (auto simp: loopSpec_def n_def [symmetric] sameBoot_def intro!: exI [of _ "[]"])
    next
      case (Inr u)
      let ?o3 = "markStatus i StatusComplete (st_error (or_steps o2 ! i)) o2"
      have f: "or_store o2" "sp_clusterName (or_spec o2) = c" "bw_disk w2 = bw_disk w" "started o2 = started o' @ [n]"
        "map st_name (or_steps o2) = stepNames"
        using s Cons.prems(1,3,4) by (simp_all add: sameBoot_def)
      obtain w3 where w3: "markIgnored c n StatusComplete w2 = (Inr (), w3)" "bw_disk w3 = bw_disk w2"
          "ownRecord c w3 \<and> stepsAt c w3 = AList.update n StatusComplete (stepsAt c w2)"
        using markIgnored_cases [OF own(1) mem, of StatusComplete] f(3) Cons.prems(6) by metis
      have run: "runSteps env done' is (emit ''step-complete'' n ?o3) w3 = (r, o1, w1)"
        using Cons.prems(7) False q f w3(1) by (simp add: nm Inr recordStepComplete_def)
      have "loopSpec c (filter (\<lambda>n. n \<notin> set done') (map (nth stepNames) is)) (emit ''step-complete'' n ?o3) w3 r o1 w1"
        using Cons.prems(2,6) f w3 by (intro Cons.IH [OF _ _ _ _ _ _ run]) auto
      then show ?thesis
        using False f w3 own by (auto simp: n_def [symmetric] intro!: loopSpec_Cons)
    qed
  qed
qed

section \<open>A run\<close>

lemma resetSteps_healthy:
  assumes "ownRecord c w" "diskHealthy w" "set ns \<subseteq> set stepNames"
  shows "\<exists>w'. resetSteps c ns w = (Inr (), w') \<and> ownRecord c w' \<and> bw_disk w' = bw_disk w \<and>
    (\<forall>n. mget (stepsAt c w') n = (if n \<in> set ns then StatusCreated else mget (stepsAt c w) n))"
  using assms
proof (induction ns arbitrary: w)
  case (Cons n ns)
  obtain w1 where w1: "markIgnored c n StatusCreated w = (Inr (), w1)" "bw_disk w1 = bw_disk w"
      "ownRecord c w1" "stepsAt c w1 = AList.update n StatusCreated (stepsAt c w)"
    using markIgnored_cases [OF Cons.prems(1), of n StatusCreated] Cons.prems(2,3) by (metis insert_subset list.simps(15))
  then show ?case
    using Cons.IH [of w1] Cons.prems by auto
qed simp

text \<open>What is left to do when a run starts: everything, when all is recorded and no container is found.\<close>

definition pendingSteps :: "('d, 'g) boot_env \<Rightarrow> string \<Rightarrow> 'd boot_world \<Rightarrow> string list" where
  "pendingSteps env c w =
     (if (\<forall>n\<in>set stepNames. finished c w n) \<and> fst (FindContainersByCluster (be_docker env) c (bw_ext w)) = Inr [] then stepNames
      else filter (\<lambda>n. \<not> finished c w n) stepNames)"

lemma orchestrator_fields [simp]:
  "or_store (NewDockerBootOrchestrator d st sp) = st" "or_spec (NewDockerBootOrchestrator d st sp) = sp"
  "or_docker (NewDockerBootOrchestrator d st sp) = d" "map st_name (or_steps (NewDockerBootOrchestrator d st sp)) = stepNames"
  "started (NewDockerBootOrchestrator d st sp) = []"
  by (simp_all add: NewDockerBootOrchestrator_def started_def comp_def)

lemma orchestrator_length [simp]: "length (or_steps (NewDockerBootOrchestrator d st sp)) = length stepNames"
  by (simp add: NewDockerBootOrchestrator_def)

lemma distinct_stepNames: "distinct stepNames"
  by (simp add: stepNames_def)

lemma recorded_full:
  assumes "ownRecord c w"
  shows "length stepNames \<le> length (recorded c w) \<longleftrightarrow> (\<forall>n\<in>set stepNames. finished c w n)"
proof
  assume "length stepNames \<le> length (recorded c w)"
  then show "\<forall>n\<in>set stepNames. finished c w n"
    using recorded_length [OF assms] by fastforce
next
  assume "\<forall>n\<in>set stepNames. finished c w n"
  then have "set stepNames \<subseteq> set (recorded c w)"
    using recorded_iff ownRecord_steps [OF assms] by blast
  then have "card (set stepNames) \<le> card (set (recorded c w))"
    by (simp add: card_mono)
  then show "length stepNames \<le> length (recorded c w)"
    using distinct_card [OF distinct_stepNames] card_length [of "recorded c w"] by simp
qed

text \<open>Drift detection on a healthy disk leaves the pending steps as what is not recorded.\<close>

lemma detectDrift_healthy:
  assumes "ownRecord c w" "diskHealthy w" "sp_clusterName sp = c"
    and "\<forall>n\<in>set stepNames. finished c w n \<Longrightarrow> fst (dk_ContainerList (be_docker env) (ownedLabels c) (bw_ext w)) \<noteq> None"
  obtains o1 w1 where "detectDrift env (NewDockerBootOrchestrator d True sp) w = (Inr (), o1, w1)"
    "ownRecord c w1" "bw_disk w1 = bw_disk w" "started o1 = []" "map st_name (or_steps o1) = stepNames" "or_store o1" "or_spec o1 = sp"
    "pendingSteps env c w = filter (\<lambda>n. \<not> finished c w1 n) stepNames"
proof (cases "\<forall>n\<in>set stepNames. finished c w n")
  case False
  then have "length (recorded c w) < length stepNames"
    using recorded_full [OF assms(1)] by (meson not_less)
  moreover have "ownRecord c (diskTick w)" "stepsAt c (diskTick w) = stepsAt c w"
    using assms(1) by (simp_all add: ownRecord_def stepsAt_def)
  ultimately show ?thesis
    using that [of "NewDockerBootOrchestrator d True sp" "diskTick w"] assms(2,3) False
    by (simp add: detectDrift_def CompletedSteps_eq [OF assms(1)] pendingSteps_def)
next
  case True
  let ?w = "diskTick w"
  let ?o = "NewDockerBootOrchestrator d True sp"
  have full: "\<not> length (recorded c w) < length stepNames"
    using True recorded_full [OF assms(1)] by simp
  obtain ids x where l: "dk_ContainerList (be_docker env) (ownedLabels c) (bw_ext w) = (Some ids, x)"
    using assms(4) [OF True] by (metis option.exhaust prod.exhaust_sel)
  show ?thesis
  proof (cases "ids = []")
    case False
    have "ownRecord c (?w\<lparr>bw_ext := x\<rparr>)" "stepsAt c (?w\<lparr>bw_ext := x\<rparr>) = stepsAt c w"
      using assms(1) by (simp_all add: ownRecord_def stepsAt_def)
    then show ?thesis
      using that [of ?o "?w\<lparr>bw_ext := x\<rparr>"] assms(2,3) False True full l
      by (simp add: detectDrift_def CompletedSteps_eq [OF assms(1)] pendingSteps_def FindContainersByCluster_def)
  next
    case empty: True
    define w2 where "w2 = ?w\<lparr>bw_ext := snd (destroyNetwork (be_docker env) c x)\<rparr>"
    have w2: "ownRecord c w2" "diskHealthy w2" "bw_disk w2 = bw_disk w"
      using assms(1,2) by (simp_all add: w2_def ownRecord_def)
    obtain w3 where w3: "resetSteps c stepNames w2 = (Inr (), w3)" "ownRecord c w3" "bw_disk w3 = bw_disk w2"
        "\<forall>n. mget (stepsAt c w3) n = (if n \<in> set stepNames then StatusCreated else mget (stepsAt c w2) n)"
      using resetSteps_healthy [OF w2(1,2), of stepNames] by auto
    have "detectDrift env ?o w = (Inr (), emit ''drift-detected'' [] ?o, w3)"
      using assms(2,3) full l empty w3(1)
      by (simp add: detectDrift_def CompletedSteps_eq [OF assms(1)] FindContainersByCluster_def w2_def)
    moreover have "pendingSteps env c w = filter (\<lambda>n. \<not> finished c w3 n) stepNames"
      using True l empty w3(4) by (simp add: pendingSteps_def FindContainersByCluster_def filter_id_conv)
    ultimately show ?thesis
      using that w3 w2 by simp
  qed
qed

lemma upt_stepNames: "map (nth stepNames) [0..<length stepNames] = stepNames"
  by (simp add: map_nth)

text \<open>
  C39: On a healthy disk a run executes the pending steps in their order and no other: all of them, and then
  every step is recorded as finished, or up to the first that fails, and then the record holds exactly
  the steps that were finished before and the ones that went through now. Pending is what the record
  does not call finished, or everything when all is recorded but no container of the cluster is found.
\<close>

theorem boot_progress:
  assumes "ownRecord (sp_clusterName sp) w" "diskHealthy w"
    and "\<forall>n\<in>set stepNames. finished (sp_clusterName sp) w n \<Longrightarrow>
      fst (dk_ContainerList (be_docker env) (ownedLabels (sp_clusterName sp)) (bw_ext w)) \<noteq> None"
    and "boot_Run env (NewDockerBootOrchestrator d True sp) w = (r, o1, w1)"
  shows "r = Inr () \<and> started o1 = pendingSteps env (sp_clusterName sp) w \<and>
      (\<forall>n\<in>set stepNames. finished (sp_clusterName sp) w1 n) \<or>
    (\<exists>fine n rest e. pendingSteps env (sp_clusterName sp) w = fine @ n # rest \<and> r = Inl (StepFailed n e) \<and> started o1 = fine @ [n] \<and>
      (\<forall>m\<in>set stepNames. finished (sp_clusterName sp) w1 m \<longleftrightarrow> m \<in> set fine \<or> m \<notin> set (pendingSteps env (sp_clusterName sp) w)))"
proof -
  let ?c = "sp_clusterName sp"
  obtain o2 w2 where d: "detectDrift env (NewDockerBootOrchestrator d True sp) w = (Inr (), o2, w2)"
      "ownRecord ?c w2" "bw_disk w2 = bw_disk w" "started o2 = []" "map st_name (or_steps o2) = stepNames" "or_store o2" "or_spec o2 = sp"
      "pendingSteps env ?c w = filter (\<lambda>n. \<not> finished ?c w2 n) stepNames"
    by (rule detectDrift_healthy [OF assms(1,2) refl assms(3)])
  have own: "ownRecord ?c (diskTick w2)" "stepsAt ?c (diskTick w2) = stepsAt ?c w2"
    using d(2) by (simp_all add: ownRecord_def stepsAt_def)
  obtain q o3 w3 where run: "runSteps env (recorded ?c w2) [0..<length stepNames] o2 (diskTick w2) = (q, o3, w3)"
    by (metis prod_cases3)
  have len: "length (or_steps o2) = length stepNames"
    using d(5) by (metis length_map)
  have "filter (\<lambda>n. n \<notin> set (recorded ?c w2)) stepNames = pendingSteps env ?c w"
    using d(8) ownRecord_steps [OF d(2)] by (simp add: recorded_iff)
  then have loop: "loopSpec ?c (pendingSteps env ?c w) o2 (diskTick w2) q o3 w3"
    using runSteps_spec [OF d(5) _ d(6) _ own(1) _ run] d(3,7) assms(2) by (simp add: upt_stepNames atLeast0LessThan)
  have res: "boot_Run env (NewDockerBootOrchestrator d True sp) w =
      (case (q, o3, w3) of (Inl e, o', w) \<Rightarrow> (Inl e, o', w) | (Inr _, o', w) \<Rightarrow> (Inr (), emit ''boot-complete'' [] o', w))"
    using d assms(2) run len by (simp add: boot_Run_def loadCompletedSteps_def CompletedSteps_eq)
  have pend: "m \<in> set stepNames \<Longrightarrow> m \<notin> set (pendingSteps env ?c w) \<longleftrightarrow> finished ?c w2 m" for m
    using d(8) by simp
  have rec: "finished ?c w1 m \<longleftrightarrow> m \<in> set fine \<or> m \<notin> set (pendingSteps env ?c w)"
    if "m \<in> set stepNames" "stepsAt ?c w1 = markAll fine (stepsAt ?c (diskTick w2))" for m fine
    using that pend own(2) by (simp add: mget_markAll)
  consider "q = Inr ()" "started o3 = pendingSteps env ?c w" "stepsAt ?c w3 = markAll (pendingSteps env ?c w) (stepsAt ?c (diskTick w2))"
    | fine n rest e where "pendingSteps env ?c w = fine @ n # rest" "q = Inl (StepFailed n e)" "started o3 = fine @ [n]"
        "stepsAt ?c w3 = markAll fine (stepsAt ?c (diskTick w2))"
    using loop d(4) unfolding loopSpec_def by auto
  then show ?thesis
  proof cases
    case 1
    then show ?thesis
      using assms(4) res rec by auto
  next
    case (2 fine n rest e)
    then have "r = Inl (StepFailed n e)" "started o1 = fine @ [n]" "w1 = w3"
      using assms(4) res by simp_all
    then show ?thesis
      using 2 rec by blast
  qed
qed

section \<open>Resuming\<close>

text \<open>
  A record that no longer parses, or one that has generate-config but lacks a step that needs the
  generator.
\<close>

definition stuck :: "string \<Rightarrow> 'd boot_world \<Rightarrow> bool" where
  "stuck c w \<longleftrightarrow> bw_boot w c = Some Garbage \<or>
     ownRecord c w \<and> finished c w ''generate-config'' \<and> \<not> (finished c w ''create-nodes'' \<and> finished c w ''install-cni'')"

abbreviation needsGenerator :: "string \<Rightarrow> bool" where
  "needsGenerator n \<equiv> n = ''create-nodes'' \<or> n = ''install-cni''"

lemma stuck_cong: "bw_boot w' = bw_boot w \<Longrightarrow> stuck c w' = stuck c w"
  by (simp add: stuck_def ownRecord_def stepsAt_def)

lemma mark_stuck:
  assumes "stuck c w" "n \<in> set stepNames" "\<not> needsGenerator n"
  shows "\<exists>w'. markIgnored c n StatusComplete w = (Inr (), w') \<and> stuck c w'"
proof (cases "bw_boot w c = Some Garbage")
  case True
  then have "markIgnored c n StatusComplete w = (Inr (), diskTick w)"
    by (simp add: markIgnored_def boot_MarkStep_def boot_Load_def)
  then show ?thesis
    using assms(1) stuck_cong [of "diskTick w" w c] by simp
next
  case False
  then have o: "ownRecord c w" "finished c w ''generate-config''" "\<not> (finished c w ''create-nodes'' \<and> finished c w ''install-cni'')"
    using assms(1) by (simp_all add: stuck_def)
  obtain w' where w': "markIgnored c n StatusComplete w = (Inr (), w')"
      "bw_boot w' = bw_boot w \<or> bw_boot w' c = Some Garbage \<or> ownRecord c w' \<and> stepsAt c w' = AList.update n StatusComplete (stepsAt c w)"
    using markIgnored_cases [OF o(1) assms(2), of StatusComplete] by metis
  have "stuck c w'" if "ownRecord c w'" "stepsAt c w' = AList.update n StatusComplete (stepsAt c w)"
    using that o assms(3) by (auto simp: stuck_def)
  then show ?thesis
    using w' assms(1) stuck_cong [of w' w c] by (auto simp: stuck_def)
qed

lemma nodesOf_first:
  "1 \<le> sp_controlPlanes sp \<Longrightarrow> \<exists>name rest. nodesOf sp = (name, ''init'', True) # rest"
  by (simp add: nodesOf_def upt_conv_Cons)

lemma executeStep_no_generator:
  assumes "dp_generator (or_docker o') = None" "needsGenerator n" "1 \<le> sp_controlPlanes (or_spec o')"
  shows "\<exists>o1. executeStep env n o' w = (Inl NoGenerator, o1, w)"
proof (cases "n = ''create-nodes''")
  case True
  obtain name rest where "nodesOf (or_spec o') = (name, ''init'', True) # rest"
    using nodesOf_first [OF assms(3)] by blast
  then show ?thesis
    using assms(1) True by (simp add: executeStep_def stepCreateNodes_def docker_MachineConfig_def)
next
  case False
  then show ?thesis
    using assms by (simp add: executeStep_def stepInstallCNI_def docker_Kubeconfig_def)
qed

lemma runSteps_stuck:
  assumes "map st_name (or_steps o') = stepNames" "set is \<subseteq> {..<length stepNames}" "or_store o'" "sp_clusterName (or_spec o') = c"
    "1 \<le> sp_controlPlanes (or_spec o')" "dp_generator (or_docker o') = None" "stuck c w" "''generate-config'' \<in> set done'"
    "\<exists>i\<in>set is. needsGenerator (stepNames ! i) \<and> stepNames ! i \<notin> set done'"
  shows "\<exists>e o1 w1. runSteps env done' is o' w = (Inl e, o1, w1) \<and> stuck c w1"
  using assms
proof (induction "is" arbitrary: o' w)
  case (Cons i "is")
  define n where "n = stepNames ! i"
  have i: "i < length stepNames"
    using Cons.prems(2) by simp
  have nm: "st_name (or_steps o' ! i) = n"
    using arg_cong [OF Cons.prems(1), of "\<lambda>l. l ! i"] i arg_cong [OF Cons.prems(1), of length] by (simp add: n_def)
  have mem: "n \<in> set stepNames"
    using i by (simp add: n_def)
  show ?case
  proof (cases "n \<in> set done'")
    case True
    let ?o = "emit ''step-skipped'' n (markStatus i StatusComplete (st_error (or_steps o' ! i)) o')"
    have "\<exists>e o1 w1. runSteps env done' is ?o w = (Inl e, o1, w1) \<and> stuck c w1"
      using Cons.prems True by (intro Cons.IH) (auto simp: n_def)
    then show ?thesis
      using True by (simp add: nm)
  next
    case False
    let ?o = "emit ''step-start'' n (markStatus i StatusRunning (st_error (or_steps o' ! i)) o')"
    obtain q o2 w2 where q: "executeStep env n ?o w = (q, o2, w2)"
      by (metis prod_cases3)
    have s: "sameBoot ?o w o2 w2"
      using executeStep_same(1) [OF q] .
    have st: "stuck c w2"
      using s Cons.prems(7) stuck_cong by (auto simp: sameBoot_def)
    show ?thesis
    proof (cases q)
      case (Inl e)
      then show ?thesis
        using False q st by (simp add: nm)
    next
      case (Inr u)
      have safe: "\<not> needsGenerator n"
        using executeStep_no_generator [of ?o n env w] Cons.prems(5,6) q Inr by auto
      then obtain w3 where w3: "markIgnored c n StatusComplete w2 = (Inr (), w3)" "stuck c w3"
        using mark_stuck [OF st mem] by blast
      have f: "or_store o2" "or_spec o2 = or_spec o'" "map st_name (or_steps o2) = stepNames"
        using s Cons.prems(1,3) by (simp_all add: sameBoot_def)
      have g: "dp_generator (or_docker o2) = None"
        using executeStep_same(2) [OF q] False Cons.prems(6,8) by auto
      let ?o3 = "emit ''step-complete'' n (markStatus i StatusComplete (st_error (or_steps o2 ! i)) o2)"
      have "\<exists>e o1 w1. runSteps env done' is ?o3 w3 = (Inl e, o1, w1) \<and> stuck c w1"
        using Cons.prems f g w3(2) safe by (intro Cons.IH) (auto simp: n_def)
      then show ?thesis
        using False q Inr f w3(1) Cons.prems(4) by (simp add: nm recordStepComplete_def)
    qed
  qed
qed simp

lemma Run_stuck:
  assumes "stuck (sp_clusterName sp) w" "1 \<le> sp_controlPlanes sp" "dp_generator d = None"
  shows "\<exists>e o1 w1. boot_Run env (NewDockerBootOrchestrator d True sp) w = (Inl e, o1, w1) \<and> stuck (sp_clusterName sp) w1"
proof -
  let ?c = "sp_clusterName sp"
  have tick: "stuck ?c (diskTick v) = stuck ?c v" for v :: "'a boot_world"
    by (rule stuck_cong) simp
  show ?thesis
  proof (cases "bw_boot w ?c = Some Garbage")
    case True
    then have "\<exists>e. boot_CompletedSteps ?c w = (Inl e, diskTick w)"
      by (simp add: boot_CompletedSteps_def boot_Load_def)
    then show ?thesis
      using assms(1) tick by (auto simp: boot_Run_def detectDrift_def)
  next
    case False
    then have o: "ownRecord ?c w" "finished ?c w ''generate-config''"
        "\<not> (finished ?c w ''create-nodes'' \<and> finished ?c w ''install-cni'')"
      using assms(1) by (simp_all add: stuck_def)
    have names: "''create-nodes'' \<in> set stepNames" "''install-cni'' \<in> set stepNames"
      by (simp_all add: stepNames_def)
    have short: "length (recorded ?c w) < length stepNames"
      using recorded_length [OF o(1)] o(3) names by blast
    have o': "ownRecord ?c (diskTick w)" "recorded ?c (diskTick w) = recorded ?c w"
      using o(1) by (simp_all add: ownRecord_def recorded_def stepsAt_def)
    have iff: "n \<in> set (recorded ?c w) \<longleftrightarrow> finished ?c w n" for n
      using recorded_iff ownRecord_steps [OF o(1)] by blast
    obtain n where n: "needsGenerator n" "n \<notin> set (recorded ?c w)" "n \<in> set stepNames"
      using o(3) names iff by blast
    then obtain i where "i < length stepNames" "stepNames ! i = n"
      unfolding in_set_conv_nth by blast
    with n have need: "\<exists>i\<in>set [0..<length stepNames]. needsGenerator (stepNames ! i) \<and> stepNames ! i \<notin> set (recorded ?c w)"
      by auto
    have st: "stuck ?c (diskTick (diskTick w))"
      using assms(1) stuck_cong [of "diskTick (diskTick w)" w ?c] by simp
    obtain e o1 w1 where run: "runSteps env (recorded ?c w) [0..<length stepNames] (NewDockerBootOrchestrator d True sp)
        (diskTick (diskTick w)) = (Inl e, o1, w1)" "stuck ?c w1"
      using runSteps_stuck [OF _ _ _ _ _ _ st _ need, of "NewDockerBootOrchestrator d True sp" env] assms(2,3) o(2) iff
      by (auto simp: atLeast0LessThan)
    have drift: "detectDrift env (NewDockerBootOrchestrator d True sp) w =
        (if bw_disk w (bw_ops w) \<noteq> DiskOk then Inl ReadFailed else Inr (), NewDockerBootOrchestrator d True sp, diskTick w)"
      using short by (simp add: detectDrift_def CompletedSteps_eq o(1))
    have load: "loadCompletedSteps (NewDockerBootOrchestrator d True sp) (diskTick w) =
        (if bw_disk w (Suc (bw_ops w)) \<noteq> DiskOk then Inl ReadFailed else Inr (recorded ?c w), diskTick (diskTick w))"
      by (simp add: loadCompletedSteps_def CompletedSteps_eq o')
    show ?thesis
      using assms(1) tick st run by (simp add: boot_Run_def drift load)
  qed
qed

lemma newBootCmd_stuck:
  assumes "stuck (bo_clusterName (boot_Complete getenv b)) w"
  shows "\<exists>e w1. newBootCmd env getenv b w = (Inl e, w1) \<and> stuck (bo_clusterName (boot_Complete getenv b)) w1"
proof (cases "boot_Validate (boot_Complete getenv b) = None \<and> bo_platform (boot_Complete getenv b) = ''docker''")
  case False
  then show ?thesis
    using assms by (auto simp: newBootCmd_def options_Run_def Let_def split: option.splits)
next
  case True
  let ?b = "boot_Complete getenv b"
  have cp: "1 \<le> bo_controlPlanes ?b"
    using True by (auto simp: boot_Validate_def split: if_splits)
  obtain od x where n: "docker_New env (bw_ext w) = (od, x)"
    by fastforce
  have st: "stuck (bo_clusterName ?b) (w\<lparr>bw_ext := x\<rparr>)"
    using assms stuck_cong [of "w\<lparr>bw_ext := x\<rparr>" w] by simp
  show ?thesis
  proof (cases od)
    case None
    then show ?thesis
      using True n st by (simp add: newBootCmd_def options_Run_def bootDocker_def)
  next
    case (Some d)
    let ?sp = "\<lparr>sp_clusterName = bo_clusterName ?b, sp_kubernetesVersion = ''1.35.0'', sp_ciliumVersion = bo_ciliumVersion ?b,
      sp_controlPlanes = bo_controlPlanes ?b, sp_workers = bo_workers ?b\<rparr>"
    have "dp_generator d = None"
      using n Some by (auto simp: docker_New_def split: prod.splits option.splits)
    then obtain e o1 w1 where "boot_Run env (NewDockerBootOrchestrator d True ?sp) (w\<lparr>bw_ext := x\<rparr>) = (Inl e, o1, w1)"
        "stuck (bo_clusterName ?b) w1"
      using Run_stuck [of ?sp "w\<lparr>bw_ext := x\<rparr>" d env] st cp by auto
    then show ?thesis
      using True n Some by (simp add: newBootCmd_def options_Run_def bootDocker_def)
  qed
qed

text \<open>
  What may happen between two boots of a cluster: other boots of it, in new processes, its destruction,
  and anything outside that leaves the record alone.
\<close>

inductive boot_later :: "('d, 'g) boot_env \<Rightarrow> string \<Rightarrow> 'd boot_world \<Rightarrow> 'd boot_world \<Rightarrow> bool"
  for env :: "('d, 'g) boot_env" and c :: string and w :: "'d boot_world" where
  now: "boot_later env c w w"
| boot: "boot_later env c w w1 \<Longrightarrow> bo_clusterName (boot_Complete getenv b) = c \<Longrightarrow> boot_later env c w (snd (newBootCmd env getenv b w1))"
| destroy: "boot_later env c w w1 \<Longrightarrow> sp_clusterName (or_spec o') = c \<Longrightarrow> boot_later env c w (snd (snd (boot_Destroy env o' w1)))"
| outside: "boot_later env c w w1 \<Longrightarrow> bw_boot w2 = bw_boot w1 \<Longrightarrow> boot_later env c w w2"

lemma boot_later_stuck: "boot_later env c w w' \<Longrightarrow> stuck c w \<Longrightarrow> stuck c w'"
proof (induction rule: boot_later.induct)
  case (boot w1 getenv b)
  then show ?case
    using newBootCmd_stuck [of getenv b w1 env] by auto
next
  case (destroy w1 o')
  have "bw_boot (snd (snd (boot_Destroy env o' w1))) = bw_boot w1"
    by (simp add: boot_Destroy_def split: prod.splits)
  then show ?case
    using destroy stuck_cong by blast
qed (use stuck_cong in blast)+

lemma first_boot_stuck:
  assumes "bw_boot w (sp_clusterName sp) = None" "diskHealthy w"
    and "boot_Run env (NewDockerBootOrchestrator d True sp) w = (Inl (StepFailed n e), o1, w1)"
    and "n \<in> {''create-nodes'', ''bootstrap'', ''install-cni''}"
  shows "stuck (sp_clusterName sp) w1"
proof -
  let ?c = "sp_clusterName sp"
  have w: "ownRecord ?c w" "stepsAt ?c w = []"
    using assms(1) by (simp_all add: ownRecord_def stepsAt_def)
  have o': "ownRecord ?c (diskTick w)" "recorded ?c (diskTick w) = []" "recorded ?c w = []"
    using w by (simp_all add: ownRecord_def recorded_def stepsAt_def assms(1))
  have names: "0 < length stepNames"
    by (simp add: stepNames_def)
  obtain q o3 w3 where run: "runSteps env [] [0..<length stepNames] (NewDockerBootOrchestrator d True sp) (diskTick (diskTick w)) = (q, o3, w3)"
    by (metis prod_cases3)
  have "(Inl (StepFailed n e), o1, w1) =
      (case (q, o3, w3) of (Inl e, o', w) \<Rightarrow> (Inl e, o', w) | (Inr _, o', w) \<Rightarrow> (Inr (), emit ''boot-complete'' [] o', w))"
    using assms(2,3) names run
    by (simp add: boot_Run_def detectDrift_def loadCompletedSteps_def CompletedSteps_eq w(1) o')
  then have q: "q = Inl (StepFailed n e)" "w3 = w1"
    by (auto split: sum.splits)
  have own: "ownRecord ?c (diskTick (diskTick w))" "stepsAt ?c (diskTick (diskTick w)) = []"
    using w by (simp_all add: ownRecord_def stepsAt_def)
  have "loopSpec ?c stepNames (NewDockerBootOrchestrator d True sp) (diskTick (diskTick w)) q o3 w3"
    using runSteps_spec [OF _ _ _ _ own(1) _ run] assms(2) by (simp add: upt_stepNames atLeast0LessThan)
  then obtain fine rest where f: "stepNames = fine @ n # rest" "ownRecord ?c w1" "stepsAt ?c w1 = markAll fine []"
    using q own(2) by (auto simp: loopSpec_def)
  have "distinct (fine @ n # rest)"
    using f(1) distinct_stepNames by simp
  then have "takeWhile (\<lambda>m. m \<noteq> n) stepNames = fine"
    unfolding f(1) by (subst takeWhile_append2) auto
  then have "''generate-config'' \<in> set fine \<and> ''install-cni'' \<notin> set fine"
    using assms(4) by (auto simp: stepNames_def)
  then show ?thesis
    using f by (simp add: stuck_def mget_markAll)
qed

lemma Validate_not_boot: "boot_Validate b \<noteq> Some (BootFailed e)"
  by (simp add: boot_Validate_def)

lemma newBootCmd_Run:
  assumes "newBootCmd env getenv b w = (Inl (BootFailed e), w1)"
  shows "\<exists>x d sp o1. sp_clusterName sp = bo_clusterName (boot_Complete getenv b) \<and>
    boot_Run env (NewDockerBootOrchestrator d True sp) (w\<lparr>bw_ext := x\<rparr>) = (Inl e, o1, w1)"
proof -
  let ?b = "boot_Complete getenv b"
  let ?sp = "\<lparr>sp_clusterName = bo_clusterName ?b, sp_kubernetesVersion = ''1.35.0'', sp_ciliumVersion = bo_ciliumVersion ?b,
    sp_controlPlanes = bo_controlPlanes ?b, sp_workers = bo_workers ?b\<rparr>"
  have "bootDocker env ?b w = (Inl (BootFailed e), w1)"
    using assms Validate_not_boot by (auto simp: newBootCmd_def options_Run_def Let_def split: option.splits if_splits)
  then obtain d x o1 where "boot_Run env (NewDockerBootOrchestrator d True ?sp) (w\<lparr>bw_ext := x\<rparr>) = (Inl e, o1, w1)"
    unfolding bootDocker_def by (auto split: prod.splits option.splits sum.splits)
  then show ?thesis
    by (intro exI [of _ x] exI [of _ d] exI [of _ ?sp] exI [of _ o1]) simp
qed


section \<open>Examples\<close>

text \<open>Printing a number by arithmetic on integers, for evaluation.\<close>

function intDigits :: "int \<Rightarrow> string" where
  "intDigits n = (if n < 10 then [digitChar (nat n)] else intDigits (n div 10) @ [digitChar (nat (n mod 10))])"
  by pat_completeness auto
termination
  by (relation "measure nat") auto

declare intDigits.simps [simp del]

lemma baseDigits_int: "0 \<le> n \<Longrightarrow> baseDigits 10 (nat n) = intDigits n"
proof (induction n rule: intDigits.induct)
  case (1 n)
  show ?case
  proof (cases "n < 10")
    case True
    then show ?thesis
      using 1 by (subst intDigits.simps, subst baseDigits.simps) auto
  next
    case False
    then have "nat n div 10 = nat (n div 10)" "nat n mod 10 = nat (n mod 10)" "0 \<le> n div 10"
      using 1 by (simp_all add: nat_div_distrib nat_mod_distrib)
    then show ?thesis
      using 1 False by (subst intDigits.simps, subst baseDigits.simps) auto
  qed
qed

lemma itoa_int [code]: "itoa i = (if i < 0 then ''-'' @ intDigits (- i) else intDigits i)"
  by (simp add: itoa_def baseDigits_int)

text \<open>A daemon whose state is whether it creates containers; everything else answers.\<close>

definition ex_boot :: "(bool, unit) boot_env" where
  "ex_boot = \<lparr>be_docker = \<lparr>dk_ping = Pair True, dk_NetworkCreate = (\<lambda>_ _ _. Pair (Some ''net'')), dk_NetworkInspect = (\<lambda>_. Pair (Some [''10.5.0.1''])),
       dk_NetworkList = (\<lambda>_. Pair (Some [''net''])), dk_NetworkRemove = (\<lambda>_. Pair True),
       dk_ContainerCreate = (\<lambda>cc x. (if x then Some (cc_name cc) else None, x)), dk_ContainerStart = (\<lambda>_. Pair True),
       dk_ContainerList = (\<lambda>_. Pair (Some [])), dk_ContainerRemove = (\<lambda>_. Pair True)\<rparr>,
     be_talos = \<lparr>tl_input = (\<lambda>_ _ _. Some ()), tl_config = (\<lambda>_ _. Some []), tl_talosconfig = (\<lambda>_ _. Some ''tc''),
       tl_kubeconfig = (\<lambda>_ _. Some ''kc''), tl_defaultK8s = ''1.35.0''\<rparr>,
     be_helm = \<lparr>hl_fromBytes = (\<lambda>_. Pair True), hl_init = (\<lambda>_ _. Pair True), hl_chart = (\<lambda>_. Pair True), hl_get = (\<lambda>_. Pair False),
       hl_install = (\<lambda>_. Pair True), hl_upgrade = (\<lambda>_. Pair True)\<rparr>,
     be_poll = (\<lambda>_. Pair \<lparr>pl_status = Some 200, pl_cost = 0, pl_cancelled = False, pl_late = 0\<rparr>),
     be_ports = Pair (Some (40001, 40002)), be_addr = Some\<rparr>"

definition ex_boot_world :: "bool \<Rightarrow> bool boot_world" where
  "ex_boot_world x = \<lparr>bw_boot = (\<lambda>_. None), bw_out = (\<lambda>_. None), bw_ops = 0, bw_disk = (\<lambda>_. DiskOk), bw_now = ''now'', bw_ext = x\<rparr>"

lemma ex_boot_name: "bo_clusterName (boot_Complete (\<lambda>_. []) boot_DefaultOptions) = ''rezuscloud''"
  by (simp add: boot_Complete_def boot_DefaultOptions_def)

lemma ex_boot_world_fields [simp]: "bw_boot (ex_boot_world x) c = None" "diskHealthy (ex_boot_world x)"
  by (simp_all add: ex_boot_world_def)

lemma ex_first_boot:
  "fst (newBootCmd ex_boot (\<lambda>_. []) boot_DefaultOptions (ex_boot_world False)) = Inl (BootFailed (StepFailed ''create-nodes'' ContainerFailed))"
  by code_simp


abbreviation ex_boot_spec :: boot_spec where
  "ex_boot_spec \<equiv> \<lparr>sp_clusterName = ''c'', sp_kubernetesVersion = [], sp_ciliumVersion = [], sp_controlPlanes = 1, sp_workers = 2\<rparr>"

abbreviation ex_platform :: "unit docker_platform" where
  "ex_platform \<equiv> \<lparr>dp_k8sPort = 1, dp_talosPort = 2, dp_networkCIDR = [], dp_networkName = [], dp_gatewayIP = [], dp_generator = None\<rparr>"

lemma ex_boot_fails:
  "fst (boot_Run ex_boot (NewDockerBootOrchestrator ex_platform True ex_boot_spec) (ex_boot_world False)) =
     Inl (StepFailed ''create-nodes'' ContainerFailed)"
  by code_simp

theorem boot_progress_witness:
  "\<exists>o1 w1. boot_Run ex_boot (NewDockerBootOrchestrator ex_platform True ex_boot_spec) (ex_boot_world False) =
      (Inl (StepFailed ''create-nodes'' ContainerFailed), o1, w1) \<and>
    started o1 = [''auth'', ''provision'', ''generate-config'', ''create-nodes''] \<and>
    finished ''c'' w1 ''generate-config'' \<and> \<not> finished ''c'' w1 ''create-nodes''"
proof -
  let ?w = "ex_boot_world False"
  obtain o1 w1 where r: "boot_Run ex_boot (NewDockerBootOrchestrator ex_platform True ex_boot_spec) ?w =
      (Inl (StepFailed ''create-nodes'' ContainerFailed), o1, w1)"
    using ex_boot_fails by (metis prod.exhaust_sel)
  have own: "ownRecord (sp_clusterName ex_boot_spec) ?w"
    by (simp add: ownRecord_def)
  have lst: "fst (dk_ContainerList (be_docker ex_boot) (ownedLabels (sp_clusterName ex_boot_spec)) (bw_ext ?w)) \<noteq> None"
    by (simp add: ex_boot_def)
  have pend: "pendingSteps ex_boot ''c'' ?w = stepNames"
    by (simp add: pendingSteps_def stepsAt_def stepNames_def)
  obtain fine rest where f: "stepNames = fine @ ''create-nodes'' # rest" "started o1 = fine @ [''create-nodes'']"
      "\<forall>m\<in>set stepNames. finished ''c'' w1 m \<longleftrightarrow> m \<in> set fine"
    using boot_progress [OF own ex_boot_world_fields(2) lst r] pend by auto
  have "distinct (fine @ ''create-nodes'' # rest)"
    using f(1) distinct_stepNames by simp
  then have "takeWhile (\<lambda>m. m \<noteq> ''create-nodes'') stepNames = fine"
    unfolding f(1) by (subst takeWhile_append2) auto
  then have fine: "fine = [''auth'', ''provision'', ''generate-config'']"
    by (simp add: stepNames_def)
  have "''generate-config'' \<in> set stepNames" "''create-nodes'' \<in> set stepNames"
    by (simp_all add: stepNames_def)
  then show ?thesis
    using r f(2,3) fine by auto
qed

end
