(* ===== verification/Spec2Isabelle.thy ===== *)
theory Spec2Isabelle
  imports Applier_Props Tenant_Status TfBackend Upgrade_Props Auth_Props Api_Props Store_Refine ApplyQueue_Live
    Watch Mgmtlink_Props Link_Streams Discovery Providers_Props Projection_Props
    Converge_Props Audit_Props Backup_Props Oidc_Props Web_Flows Status Metrics_Props Posture_Props Boot_Props
begin

text \<open>
  Verification of the rezuscloud management plane.

  \<^bold>\<open>The program.\<close> rezuscloud is one Go process that keeps Kubernetes clusters of tenants in a state store (SQLite)
  and drives them: REST handlers and a web interface write resources; every write is published as an event; events
  enqueue the tenant on the apply queue; the queue calls the applier, which renders the tenant's node groups into
  OpenTofu modules and runs tofu, whose state is kept by the program's own HTTP backend; the state is projected and
  the machines found in it are entered into the store; a machine that boots dials in over the management link
  (WireGuard over gRPC), and the convergence engine sends it its Talos configuration. Beside this loop stand
  authentication, rolling upgrades, credentials, watches, the audit log and backups.

  \<^bold>\<open>Which theory models what.\<close> Each component is a theory of definitions in the order of the source, with a theory
  \<open>X_Props\<close> or \<open>X_Laws\<close> of its laws where it has grown. Paths are under \<^verbatim>\<open>src/internal\<close>.
    \<^item> \<open>Prelude\<close>: Go's built-in types and the standard library calls the sources share (strings, strconv, maps as
      association lists), tables with a key, and the three interfaces every component uses: \<open>table\<close>,
      \<open>invariant_system\<close> and \<open>simulation\<close>. \<open>Json\<close>: JSON values with the field rules of encoding/json. \<open>Calendar\<close>,
      \<open>Hostport\<close>, \<open>Net\<close>: times and their text, host and port, addresses as bytes.
    \<^item> \<open>Store_Types\<close>, \<open>Store\<close> (\<^verbatim>\<open>state\<close>): the resource structs with their JSON, and the generic and typed operations
      on the tables, statement by statement. \<open>Store_Laws\<close>: the operations without faults, the step system of all
      operations under faults and its invariant. \<open>Store_Props\<close>, \<open>Store_Refine\<close>: optimistic updates, finalizers, tenant
      teardown, and the refinement of an abstract registry. \<open>Tenant_Status\<close>: the phase of a tenant.
    \<^item> \<open>ApplyQueue\<close>, \<open>ApplyQueue_Live\<close> (\<^verbatim>\<open>applyqueue\<close>): the debounced loops as a step relation over every critical
      section; exclusion, and that the loops drain. \<open>Reconcile\<close>, \<open>Tfexec\<close>, \<open>Applier\<close>, \<open>Applier_Props\<close> (\<^verbatim>\<open>reconcile\<close>,
      \<^verbatim>\<open>tfexec\<close>): enqueue bus, status tracker, tofu driver and one reconciliation of a tenant.
    \<^item> \<open>TfBackend\<close> (\<^verbatim>\<open>tfbackend\<close>): states and locks, the five handlers and the interleavings of their statements.
    \<^item> \<open>Discovery\<close>, \<open>Providers\<close>, \<open>Providers_Props\<close> (\<^verbatim>\<open>provider\<close>): network scan and the renderers, one contract
      \<open>group_renderer\<close> for the three of them. \<open>Projection\<close>, \<open>Projection_Props\<close> (\<^verbatim>\<open>projection\<close>, the enricher and the
      listeners of \<^verbatim>\<open>reconcile\<close>).
    \<^item> \<open>Upgrade\<close>, \<open>Upgrade_Props\<close> (\<^verbatim>\<open>upgrade\<close>): runs, the rolling loop (contract \<open>rolling_contract\<close>), the Talos adapter
      and the handlers.
    \<^item> \<open>Auth\<close>, \<open>Auth_Props\<close>, \<open>Oidc\<close>, \<open>Oidc_Props\<close> (\<^verbatim>\<open>auth\<close>, \<^verbatim>\<open>auth/oidc\<close>): tokens, middleware, users, API tokens and
      federated sign-in.
    \<^item> \<open>Credentials\<close> (\<^verbatim>\<open>credentials\<close>, \<^verbatim>\<open>talosconfig\<close>), \<open>Diff\<close> (\<^verbatim>\<open>api/machine/diff.go\<close>), \<open>Api\<close>, \<open>Api_Resources\<close>,
      \<open>Api_Props\<close> (\<^verbatim>\<open>api\<close>, \<^verbatim>\<open>pagination\<close>, \<^verbatim>\<open>validation\<close>, \<^verbatim>\<open>configrender\<close>): the handlers; the tenant-scoped ones
      share the contract \<open>tenant_lookup\<close>.
    \<^item> \<open>Watch\<close> (\<^verbatim>\<open>watch\<close>): adapter, the two buses (contract \<open>watch_bus\<close>) and the streaming handler.
    \<^item> \<open>Mgmtlink\<close>, \<open>Mgmtlink_Props\<close>, \<open>Link_Streams\<close> (\<^verbatim>\<open>mgmtlink\<close>): allocation and provisioning, streams and queues.
      \<open>Converge\<close>, \<open>Converge_Props\<close> (\<^verbatim>\<open>converge\<close>): configuration delivery.
    \<^item> \<open>Audit_Log\<close>, \<open>Audit_Props\<close> (\<^verbatim>\<open>audit\<close>); \<open>Backup\<close>, \<open>Backup_Props\<close> (\<^verbatim>\<open>backup\<close>); \<open>Status\<close> (\<^verbatim>\<open>status\<close>): the
      health cache and the probe of a tenant.
    \<^item> \<open>Web\<close>, \<open>Web_Clusters\<close>, \<open>Web_Machines\<close>, \<open>Web_Settings\<close> (\<^verbatim>\<open>web\<close>, \<^verbatim>\<open>web/handlers\<close>): sessions and the routes of
      the three sections; a page is the data it is rendered from. \<open>Web_Props\<close>: the sections share the contract
      \<open>web_section\<close>, on which the role theorem rests. \<open>Web_Flows\<close>: what forms do to the components behind them.
    \<^item> \<open>Metrics\<close>, \<open>Metrics_Props\<close> (\<^verbatim>\<open>metrics\<close>): quantities and the merge of the Kubernetes and Prometheus answers.
      \<open>Posture\<close>, \<open>Posture_Props\<close> (\<^verbatim>\<open>dashboard\<close>, \<^verbatim>\<open>web/handlers/dashboard\<close>, \<^verbatim>\<open>operationalmetrics\<close>): the cards, the
      dashboard page and the exported samples.
    \<^item> \<open>Boot\<close>, \<open>Boot_Props\<close> (\<^verbatim>\<open>cli/boot\<close>, \<^verbatim>\<open>cli/state\<close>, \<^verbatim>\<open>cli/platform/docker\<close>, \<^verbatim>\<open>cmd/rezusctl/boot\<close>): the boot of a
      management cluster in seven recorded steps, each command a new process over the same files and daemon.

  \<^bold>\<open>How state and effects are modelled.\<close> A component's struct is a record, passed and returned; a fallible call
  returns a sum or an option beside the new state. The store carries its tables, the events published so far, the
  clock, and an oracle \<open>faults\<close> with one entry per SQL statement: a true entry fails that statement, the empty list
  is a store without faults (which the functional theorems assume; the invariants and the refinement do not). One
  operation reads one value of the clock. Where goroutines meet, the model is a step relation whose steps are the
  source's critical sections, channel operations and single SQL statements, and the invariants are by rule induction
  over it; elsewhere a call is one step. Handlers return a \<open>reply\<close>: the status code and the object. A request body is
  what it decodes to, \<open>None\<close> when it does not decode. Integers that can wrap are words; row versions, counts and
  nanoseconds, far from the ends of 64 bits, are \<open>int\<close>. Text is ASCII.

  \<^bold>\<open>Parameters.\<close> Code outside \<^verbatim>\<open>src\<close> is an argument of the definitions that use it: SQLite's JSON extraction
  (\<open>engine\<close>, hypothesis \<open>extract_ok\<close>), the JWT package (\<open>jwt_sound\<close>, \<open>verify_sound\<close>), SHA-256, bcrypt and the random
  source, the Talos libraries and machine API, the tofu process, JSON and YAML text parsing, NATS, WireGuard keys and
  device, TCP probes, the identity provider, files and database copies, the answers of Prometheus and Kubernetes, the
  Docker daemon and the Helm library. What a theorem needs of them is a hypothesis
  named in its statement, and its witness instantiates them.

  \<^bold>\<open>Bounds and fuel.\<close> Loops of the source are recursions with a measure: the retry loop of \<open>Converge\<close> by the time
  left, the network expansion by the addresses left, the merge of the edit script by the lines left, the polling of
  the endpoint in \<open>Boot\<close> by the time to its deadline (a pause takes at least what it is set to). No definition
  takes fuel. The queues keep the capacities of the source.

  \<^bold>\<open>What the theorems show.\<close> For the store: updates are optimistic and exact, finalizers hold deletion back, teardown
  removes exactly the tenant's rows, and every run refines a registry of resources. For the queue: one apply at a
  time per tenant, and progress. For a reconciliation: a deleted tenant leaves nothing behind. For the backend: one
  holder per lock under any interleaving. For upgrades: one machine at a time, stop and roll back at the first
  failure. For the API: isolation of tenants, life cycle, paging, patch resolution, and a diff that is optimal and
  applies. For rendering, projection and convergence: one machine resource per group, no secrets, the index is a
  function of the state, a node only gets its own configuration and the retry ends. For authentication: what a login,
  an API token and a federated sign-in give access to. For the audit log and backups: exactness, no loss, and the
  round trip of a restore. For the web interface: which roles can change what, and where a form loses data. For the
  dashboard: the ranges of its numbers. For the boot: the order of the steps, what the record holds after a failure,
  and that a boot which failed late is never resumed. Several theorems state what the code does where that is not what it means to do; the
  manifest lists these as findings.

  \<^bold>\<open>Not modelled.\<close> The generated HTML writers of the web interface, the command line tool but for its boot command
  (a client of the API: flags, requests, tables of output), the QEMU platform and the resource providers for Docker
  that nothing calls, the end-to-end test support (input and output); opening databases, sockets, the embedded NATS server, the gRPC server and the network
  stack; the Talos and Kubernetes clients; the texts of messages, headers and log lines.
\<close>

end
